(* ===== verification/Farm_Prelude.thy ===== *)
theory Farm_Prelude
  imports Main "HOL-Library.Sublist" "HOL-Library.Char_ord" "HOL-Library.List_Lexorder"
begin

text \<open>
  Shared foundations of the development: the exceptions the backend throws, programs over a
  store with exceptions (an \<open>async\<close> method of the source is a value of type \<open>('s, 'a) prog\<close>),
  the weakest-precondition equations that execute such programs symbolically, and the small part
  of the JavaScript standard library the services use on strings and numbers.
\<close>

named_theorems wp_simps "symbolic execution of programs"
named_theorems wp_intros "step-by-step execution of programs by introduction rules"
named_theorems inv_intros "programs that keep an invariant of the store"
named_theorems js_simps "unfolding the JavaScript string and number helpers"

section \<open>Exceptions and programs\<close>

text \<open>
  A thrown \<open>Error\<close> carries its message, an \<open>HttpException\<close> of NestJS (with its subclasses
  \<open>UnauthorizedException\<close>, \<open>NotFoundException\<close>, \<open>BadRequestException\<close>, ...) a message and the
  HTTP status; a \<open>TypeError\<close> is what the JavaScript runtime throws on a property of
  \<open>undefined\<close>.
\<close>

datatype exn = Error string | HttpException string nat | TypeError string

fun exn_message :: "exn \<Rightarrow> string" where
  "exn_message (Error m) = m"
| "exn_message (HttpException m _) = m"
| "exn_message (TypeError m) = m"

fun is_http_exception :: "exn \<Rightarrow> bool" where
  "is_http_exception (HttpException _ _) = True"
| "is_http_exception _ = False"

abbreviation BadRequestException :: "string \<Rightarrow> exn" where
  "BadRequestException m \<equiv> HttpException m 400"

abbreviation UnauthorizedException :: "string \<Rightarrow> exn" where
  "UnauthorizedException m \<equiv> HttpException m 401"

abbreviation ForbiddenException :: "string \<Rightarrow> exn" where
  "ForbiddenException m \<equiv> HttpException m 403"

abbreviation NotFoundException :: "string \<Rightarrow> exn" where
  "NotFoundException m \<equiv> HttpException m 404"

abbreviation ConflictException :: "string \<Rightarrow> exn" where
  "ConflictException m \<equiv> HttpException m 409"

text \<open>
  A program reads and changes the store and ends in a value or an exception. What it changed
  before it threw stays changed, as in JavaScript.
\<close>

type_synonym ('s, 'a) prog = "'s \<Rightarrow> (exn + 'a) \<times> 's"

definition returnE :: "'a \<Rightarrow> ('s, 'a) prog" where
  "returnE v = (\<lambda>s. (Inr v, s))"

definition throwE :: "exn \<Rightarrow> ('s, 'a) prog" where
  "throwE e = (\<lambda>s. (Inl e, s))"

definition bindE :: "('s, 'a) prog \<Rightarrow> ('a \<Rightarrow> ('s, 'b) prog) \<Rightarrow> ('s, 'b) prog" where
  "bindE m f = (\<lambda>s. case m s of (Inl e, s') \<Rightarrow> (Inl e, s') | (Inr v, s') \<Rightarrow> f v s')"

definition seqE :: "('s, 'a) prog \<Rightarrow> ('s, 'b) prog \<Rightarrow> ('s, 'b) prog" where
  "seqE m n = bindE m (\<lambda>_. n)"

definition catchE :: "('s, 'a) prog \<Rightarrow> (exn \<Rightarrow> ('s, 'a) prog) \<Rightarrow> ('s, 'a) prog" where
  "catchE m h = (\<lambda>s. case m s of (Inl e, s') \<Rightarrow> h e s' | (Inr v, s') \<Rightarrow> (Inr v, s'))"

definition whenE :: "bool \<Rightarrow> ('s, unit) prog \<Rightarrow> ('s, unit) prog" where
  "whenE b m = (if b then m else returnE ())"

text \<open>\<open>for (const x of xs) await f(x)\<close>, and \<open>Promise.all(xs.map(f))\<close> run from left to right.\<close>

fun forE :: "'a list \<Rightarrow> ('a \<Rightarrow> ('s, unit) prog) \<Rightarrow> ('s, unit) prog" where
  "forE [] f = returnE ()"
| "forE (x # xs) f = seqE (f x) (forE xs f)"

fun mapE :: "'a list \<Rightarrow> ('a \<Rightarrow> ('s, 'b) prog) \<Rightarrow> ('s, 'b list) prog" where
  "mapE [] f = returnE []"
| "mapE (x # xs) f = bindE (f x) (\<lambda>y. bindE (mapE xs f) (\<lambda>ys. returnE (y # ys)))"

subsection \<open>Weakest preconditions\<close>

text \<open>
  \<open>wp m Q X s\<close>: run from \<open>s\<close>, the program \<open>m\<close> ends in a value and a store that satisfy \<open>Q\<close>,
  or in an exception and a store that satisfy \<open>X\<close>. The equations below turn a composed program
  into the conditions on its parts.
\<close>

definition wp :: "('s, 'a) prog \<Rightarrow> ('a \<Rightarrow> 's \<Rightarrow> bool) \<Rightarrow> (exn \<Rightarrow> 's \<Rightarrow> bool) \<Rightarrow> 's \<Rightarrow> bool" where
  "wp m Q X s = (case m s of (Inl e, s') \<Rightarrow> X e s' | (Inr v, s') \<Rightarrow> Q v s')"

lemma wp_returnE [wp_simps]: "wp (returnE v) Q X = Q v"
  by (rule ext) (simp add: wp_def returnE_def)

lemma wp_throwE [wp_simps]: "wp (throwE e) Q X = X e"
  by (rule ext) (simp add: wp_def throwE_def)

lemma wp_bindE [wp_simps]: "wp (bindE m f) Q X = wp m (\<lambda>v. wp (f v) Q X) X"
  by (rule ext) (simp add: wp_def bindE_def split: prod.split sum.split)

lemma wp_seqE [wp_simps]: "wp (seqE m n) Q X = wp m (\<lambda>_. wp n Q X) X"
  by (simp add: seqE_def wp_bindE)

lemma wp_catchE [wp_simps]: "wp (catchE m h) Q X = wp m Q (\<lambda>e. wp (h e) Q X)"
  by (rule ext) (simp add: wp_def catchE_def split: prod.split sum.split)

lemma wp_whenE [wp_simps]: "wp (whenE b m) Q X = (\<lambda>s. if b then wp m Q X s else Q () s)"
  by (simp add: whenE_def wp_returnE)

lemma wp_if [wp_simps]: "wp (if b then m else n) Q X = (\<lambda>s. if b then wp m Q X s else wp n Q X s)"
  by simp

lemma wp_case_option [wp_simps]:
  "wp (case y of None \<Rightarrow> m | Some v \<Rightarrow> f v) Q X =
     (\<lambda>s. case y of None \<Rightarrow> wp m Q X s | Some v \<Rightarrow> wp (f v) Q X s)"
  by (rule ext) (simp split: option.split)

lemma wp_case_prod [wp_simps]:
  "wp (case p of (a, b) \<Rightarrow> f a b) Q X = (\<lambda>s. case p of (a, b) \<Rightarrow> wp (f a b) Q X s)"
  by (rule ext) (simp split: prod.split)

lemma wp_Let [wp_simps]: "wp (Let t f) Q X = (let v = t in wp (f v) Q X)"
  by (simp add: Let_def)

lemma wp_true [simp]: "wp m (\<lambda>_ _. True) (\<lambda>_ _. True) = (\<lambda>_. True)"
  by (rule ext) (simp add: wp_def split: prod.split sum.split)

lemma wp_mono:
  assumes "wp m Q X s"
    and "\<And>v s'. m s = (Inr v, s') \<Longrightarrow> Q v s' \<Longrightarrow> Q' v s'"
    and "\<And>e s'. m s = (Inl e, s') \<Longrightarrow> X e s' \<Longrightarrow> X' e s'"
  shows "wp m Q' X' s"
  using assms by (auto simp: wp_def split: prod.splits sum.splits)

lemma wp_conj: "wp m (\<lambda>v t. Q v t \<and> Q' v t) (\<lambda>e t. X e t \<and> X' e t) s \<longleftrightarrow> wp m Q X s \<and> wp m Q' X' s"
  by (simp add: wp_def split: prod.split sum.split)

lemma wp_Inr: "m s = (Inr v, s') \<Longrightarrow> wp m Q X s = Q v s'"
  by (simp add: wp_def)

lemma wp_Inl: "m s = (Inl e, s') \<Longrightarrow> wp m Q X s = X e s'"
  by (simp add: wp_def)

text \<open>Reading a program's outcome off a weakest precondition.\<close>

lemma wp_value: "wp m Q (\<lambda>_ _. False) s \<longleftrightarrow> (\<exists>v s'. m s = (Inr v, s') \<and> Q v s')"
  by (auto simp: wp_def split: prod.split sum.split)

lemma wp_exn: "wp m (\<lambda>_ _. False) X s \<longleftrightarrow> (\<exists>e s'. m s = (Inl e, s') \<and> X e s')"
  by (auto simp: wp_def split: prod.split sum.split)

lemma wp_no_throw: "wp m (\<lambda>_ _. True) (\<lambda>_ _. False) s \<longleftrightarrow> (\<exists>v. fst (m s) = Inr v)"
  by (auto simp: wp_def split: prod.split sum.split)

lemma wp_final: "wp m (\<lambda>_. P) (\<lambda>_. P) s \<longleftrightarrow> P (snd (m s))"
  by (auto simp: wp_def split: prod.split sum.split)

text \<open>
  Value and final store of a program that does not throw: \<open>ok\<close>, \<open>res\<close> and \<open>fin\<close> state the laws
  of the operations of an external service.
\<close>

definition ok :: "('s, 'a) prog \<Rightarrow> 's \<Rightarrow> bool" where
  "ok m s = (\<not> isl (fst (m s)))"

definition res :: "('s, 'a) prog \<Rightarrow> 's \<Rightarrow> 'a" where
  "res m s = projr (fst (m s))"

definition fin :: "('s, 'a) prog \<Rightarrow> 's \<Rightarrow> 's" where
  "fin m s = snd (m s)"

lemma wp_ok: "ok m s \<Longrightarrow> wp m Q X s = Q (res m s) (fin m s)"
  by (auto simp: ok_def res_def fin_def wp_def split: prod.split sum.split)

lemma wp_ok_all: "(\<And>s. ok m s) \<Longrightarrow> wp m Q X = (\<lambda>s. Q (res m s) (fin m s))"
  by (rule ext) (simp add: wp_ok)

lemma ok_run: "ok m s \<Longrightarrow> m s = (Inr (res m s), fin m s)"
  by (cases "m s"; cases "fst (m s)") (auto simp: ok_def res_def fin_def)

lemma run_ok: "m s = (Inr v, s') \<Longrightarrow> ok m s \<and> res m s = v \<and> fin m s = s'"
  by (simp add: ok_def res_def fin_def)

text \<open>A program that neither throws nor changes the store.\<close>

lemma wp_reader:
  assumes "wp m (\<lambda>_ t. t = s) (\<lambda>_ _. False) s"
  shows "wp m Q X s = Q (res m s) s"
  using assms by (auto simp: wp_def res_def split: prod.splits sum.splits)

text \<open>A loop keeps an invariant that every iteration keeps, however it ends.\<close>

lemma wp_forE_invariant:
  assumes "I s" and "\<And>x s. x \<in> set xs \<Longrightarrow> I s \<Longrightarrow> wp (f x) (\<lambda>_. I) (\<lambda>_. I) s"
  shows "wp (forE xs f) (\<lambda>_. I) (\<lambda>_. I) s"
  using assms
proof (induction xs arbitrary: s)
  case Nil
  then show ?case by (simp add: wp_simps)
next
  case (Cons x xs)
  from Cons.prems have "wp (f x) (\<lambda>_. I) (\<lambda>_. I) s" by simp
  then have "wp (f x) (\<lambda>_. wp (forE xs f) (\<lambda>_. I) (\<lambda>_. I)) (\<lambda>_. I) s"
    by (rule wp_mono) (auto intro!: Cons.IH Cons.prems(2))
  then show ?case by (simp add: wp_simps)
qed

text \<open>
  A loop whose iterations each finish the row of their own key and leave the other rows alone
  finishes every row.
\<close>

lemma wp_forE_rows:
  assumes "distinct (map k xs)"
    and "\<And>x p. x \<in> set xs \<Longrightarrow>
      wp (f x) (\<lambda>_ q. fin_row (row q (k x)) \<and> (\<forall>i. i \<noteq> k x \<longrightarrow> row q i = row p i)) X p"
  shows "wp (forE xs f) (\<lambda>_ q. (\<forall>x \<in> set xs. fin_row (row q (k x))) \<and>
      (\<forall>i. i \<notin> k ` set xs \<longrightarrow> row q i = row p i)) X p"
  using assms
proof (induction xs arbitrary: p)
  case Nil
  then show ?case by (simp add: wp_simps)
next
  case (Cons x xs)
  have "wp (f x) (\<lambda>_ q. fin_row (row q (k x)) \<and> (\<forall>i. i \<noteq> k x \<longrightarrow> row q i = row p i)) X p"
    by (rule Cons.prems) simp
  then have "wp (f x) (\<lambda>_. wp (forE xs f) (\<lambda>_ q. (\<forall>y \<in> set (x # xs). fin_row (row q (k y))) \<and>
      (\<forall>i. i \<notin> k ` set (x # xs) \<longrightarrow> row q i = row p i)) X) X p"
  proof (rule wp_mono, goal_cases)
    case (1 v q)
    have "wp (forE xs f) (\<lambda>_ r. (\<forall>y \<in> set xs. fin_row (row r (k y))) \<and>
        (\<forall>i. i \<notin> k ` set xs \<longrightarrow> row r i = row q i)) X q"
      using Cons.prems by (intro Cons.IH) simp_all
    then show ?case by (rule wp_mono) (use 1 Cons.prems in \<open>auto simp: image_iff\<close>)
  qed
  then show ?case by (simp add: wp_simps)
qed

subsection \<open>Programs over a local object\<close>

text \<open>
  An entity object a method mutates in place lives beside the store: \<open>liftL\<close> runs a program on
  the store, \<open>modL\<close> assigns to the object's fields and \<open>getL\<close> reads it. The object keeps its
  assignments when an exception is thrown.
\<close>

definition liftL :: "('s, 'a) prog \<Rightarrow> ('s \<times> 'l, 'a) prog" where
  "liftL m = (\<lambda>(s, l). case m s of (r, s') \<Rightarrow> (r, (s', l)))"

definition getL :: "('s \<times> 'l, 'l) prog" where
  "getL = (\<lambda>(s, l). (Inr l, (s, l)))"

definition modL :: "('l \<Rightarrow> 'l) \<Rightarrow> ('s \<times> 'l, unit) prog" where
  "modL f = (\<lambda>(s, l). (Inr (), (s, f l)))"

lemma wp_liftL [wp_simps]:
  "wp (liftL m) Q X = (\<lambda>p. wp m (\<lambda>v s'. Q v (s', snd p)) (\<lambda>e s'. X e (s', snd p)) (fst p))"
  by (rule ext) (simp add: wp_def liftL_def split: prod.split sum.split)

lemma wp_getL [wp_simps]: "wp getL Q X = (\<lambda>p. Q (snd p) p)"
  by (rule ext) (simp add: wp_def getL_def split: prod.split)

lemma wp_modL [wp_simps]: "wp (modL f) Q X = (\<lambda>p. Q () (fst p, f (snd p)))"
  by (rule ext) (simp add: wp_def modL_def split: prod.split)

text \<open>
  \<open>localE l m\<close> creates the object, runs \<open>m\<close> on it and returns it with \<open>m\<close>'s value; \<open>settle m\<close>
  runs \<open>m\<close> to a promise's outcome without throwing.
\<close>

definition localE :: "'l \<Rightarrow> ('s \<times> 'l, 'a) prog \<Rightarrow> ('s, 'a \<times> 'l) prog" where
  "localE l m = (\<lambda>s. case m (s, l) of (Inl e, (s', l')) \<Rightarrow> (Inl e, s') | (Inr v, (s', l')) \<Rightarrow> (Inr (v, l'), s'))"

definition settle :: "('s, 'a) prog \<Rightarrow> ('s, exn + 'a) prog" where
  "settle m = (\<lambda>s. case m s of (r, s') \<Rightarrow> (Inr r, s'))"

definition ignoreE :: "('s, 'a) prog \<Rightarrow> ('s, unit) prog" where
  "ignoreE m = bindE m (\<lambda>_. returnE ())"

text \<open>A read of the store that cannot fail, such as the clock.\<close>

definition readE :: "('s \<Rightarrow> 'a) \<Rightarrow> ('s, 'a) prog" where
  "readE f = (\<lambda>s. (Inr (f s), s))"

text \<open>
  \<open>Promise.all\<close>: every program runs to its end, in order, and the first failure is thrown
  afterwards.
\<close>

fun first_failure :: "(exn + 'a) list \<Rightarrow> exn + 'a list" where
  "first_failure [] = Inr []"
| "first_failure (Inl e # rs) = Inl e"
| "first_failure (Inr v # rs) = map_sum id (Cons v) (first_failure rs)"

definition promise_all :: "('s, 'a) prog list \<Rightarrow> ('s, 'a list) prog" where
  "promise_all ms = bindE (mapE ms settle)
     (\<lambda>rs. case first_failure rs of Inl e \<Rightarrow> throwE e | Inr vs \<Rightarrow> returnE vs)"

lemma wp_case_sum [wp_simps]:
  "wp (case r of Inl e \<Rightarrow> m e | Inr v \<Rightarrow> f v) Q X = (\<lambda>s. case r of Inl e \<Rightarrow> wp (m e) Q X s | Inr v \<Rightarrow> wp (f v) Q X s)"
  by (rule ext) (simp split: sum.split)

lemma wp_localE [wp_simps]:
  "wp (localE l m) Q X = (\<lambda>s. wp m (\<lambda>v p. Q (v, snd p) (fst p)) (\<lambda>e p. X e (fst p)) (s, l))"
  by (rule ext) (simp add: wp_def localE_def split: prod.split sum.split)

lemma wp_settle [wp_simps]:
  "wp (settle m) Q X = wp m (\<lambda>v. Q (Inr v)) (\<lambda>e. Q (Inl e))"
  by (rule ext) (simp add: wp_def settle_def split: prod.split sum.split)

lemma wp_ignoreE [wp_simps]: "wp (ignoreE m) Q X = wp m (\<lambda>_. Q ()) X"
  by (simp add: ignoreE_def wp_bindE wp_returnE)

lemma wp_readE [wp_simps]: "wp (readE f) Q X = (\<lambda>s. Q (f s) s)"
  by (rule ext) (simp add: wp_def readE_def)

subsection \<open>Execution by introduction rules\<close>

text \<open>
  The same equations as rules, one step of the program each; a service adds rules for its calls
  that introduce the store after the call together with what is known of it.
\<close>

lemma wpi_returnE [wp_intros]: "Q v s \<Longrightarrow> wp (returnE v) Q X s"
  by (simp add: wp_simps)

lemma wpi_throwE [wp_intros]: "X e s \<Longrightarrow> wp (throwE e) Q X s"
  by (simp add: wp_simps)

lemma wpi_bindE [wp_intros]: "wp m (\<lambda>v. wp (f v) Q X) X s \<Longrightarrow> wp (bindE m f) Q X s"
  by (simp add: wp_simps)

lemma wpi_seqE [wp_intros]: "wp m (\<lambda>_. wp n Q X) X s \<Longrightarrow> wp (seqE m n) Q X s"
  by (simp add: wp_simps)

lemma wpi_catchE [wp_intros]: "wp m Q (\<lambda>e. wp (h e) Q X) s \<Longrightarrow> wp (catchE m h) Q X s"
  by (simp add: wp_simps)

lemma wpi_ignoreE [wp_intros]: "wp m (\<lambda>_. Q ()) X s \<Longrightarrow> wp (ignoreE m) Q X s"
  by (simp add: wp_simps)

lemma wpi_readE [wp_intros]: "Q (g s) s \<Longrightarrow> wp (readE g) Q X s"
  by (simp add: wp_simps)

lemma wpi_whenE [wp_intros]:
  "(b \<Longrightarrow> wp m Q X s) \<Longrightarrow> (\<not> b \<Longrightarrow> Q () s) \<Longrightarrow> wp (whenE b m) Q X s"
  by (simp add: wp_simps)

lemma wpi_if [wp_intros]:
  "(b \<Longrightarrow> wp m Q X s) \<Longrightarrow> (\<not> b \<Longrightarrow> wp n Q X s) \<Longrightarrow> wp (if b then m else n) Q X s"
  by simp

lemma wpi_option [wp_intros]:
  "(y = None \<Longrightarrow> wp m Q X s) \<Longrightarrow> (\<And>v. y = Some v \<Longrightarrow> wp (f v) Q X s) \<Longrightarrow>
     wp (case y of None \<Rightarrow> m | Some v \<Rightarrow> f v) Q X s"
  by (cases y) simp_all

lemma wpi_prod [wp_intros]:
  "(\<And>a b. p = (a, b) \<Longrightarrow> wp (f a b) Q X s) \<Longrightarrow> wp (case p of (a, b) \<Rightarrow> f a b) Q X s"
  by (cases p) simp

lemma wpi_Let [wp_intros]: "wp (f t) Q X s \<Longrightarrow> wp (Let t f) Q X s"
  by simp

lemma wpi_liftL [wp_intros]:
  "wp m (\<lambda>v s'. Q v (s', l)) (\<lambda>e s'. X e (s', l)) s \<Longrightarrow> wp (liftL m) Q X (s, l)"
  by (simp add: wp_simps)

lemma wpi_getL [wp_intros]: "Q l (s, l) \<Longrightarrow> wp getL Q X (s, l)"
  by (simp add: wp_simps)

lemma wpi_modL [wp_intros]: "Q () (s, g l) \<Longrightarrow> wp (modL g) Q X (s, l)"
  by (simp add: wp_simps)

text \<open>\<open>Promise.all\<close> of programs none of which fails.\<close>

lemma wpi_promise_all:
  "wp (mapE ms (\<lambda>m. m)) Q (\<lambda>_ _. False) s \<Longrightarrow> wp (promise_all ms) Q X s"
proof -
  have settled: "wp (mapE ms settle) (\<lambda>rs t. \<exists>vs. rs = map Inr vs \<and> Q vs t) (\<lambda>_ _. False) s"
    if "wp (mapE ms (\<lambda>m. m)) Q (\<lambda>_ _. False) s" for Q :: "'b list \<Rightarrow> 'a \<Rightarrow> bool" and s
    using that
  proof (induction ms arbitrary: Q s)
    case (Cons m ms)
    then have m: "wp m (\<lambda>v. wp (mapE ms (\<lambda>m. m)) (\<lambda>vs. Q (v # vs)) (\<lambda>_ _. False)) (\<lambda>_ _. False) s"
      by (simp add: wp_simps)
    have "wp m (\<lambda>v. wp (mapE ms settle) (\<lambda>rs t. \<exists>vs. Inr v # rs = map Inr vs \<and> Q vs t) (\<lambda>_ _. False)) (\<lambda>_ _. False) s"
    proof (rule wp_mono [OF m])
      fix v t
      assume "wp (mapE ms (\<lambda>m. m)) (\<lambda>vs. Q (v # vs)) (\<lambda>_ _. False) t"
      from Cons.IH [OF this] show "wp (mapE ms settle) (\<lambda>rs t. \<exists>vs. Inr v # rs = map Inr vs \<and> Q vs t) (\<lambda>_ _. False) t"
        by (rule wp_mono) (metis list.simps(9), simp)
    qed
    then show ?case unfolding mapE.simps wp_simps by (rule wp_mono) simp_all
  qed (simp add: wp_simps)
  have "first_failure (map Inr vs) = Inr vs" for vs :: "'b list"
    by (induction vs) simp_all
  moreover assume "wp (mapE ms (\<lambda>m. m)) Q (\<lambda>_ _. False) s"
  ultimately show ?thesis
    unfolding promise_all_def wp_simps by (intro wp_mono [OF settled]) auto
qed

lemma wpi_promise_all2:
  "wp m (\<lambda>a. wp n (\<lambda>b. Q [a, b]) (\<lambda>_ _. False)) (\<lambda>_ _. False) s \<Longrightarrow> wp (promise_all [m, n]) Q X s"
  by (rule wpi_promise_all) (simp add: wp_simps)

lemma wpi_promise_all3:
  "wp m (\<lambda>a. wp n (\<lambda>b. wp l (\<lambda>c. Q [a, b, c]) (\<lambda>_ _. False)) (\<lambda>_ _. False)) (\<lambda>_ _. False) s \<Longrightarrow>
     wp (promise_all [m, n, l]) Q X s"
  by (rule wpi_promise_all) (simp add: wp_simps)

subsection \<open>Invariants of the store\<close>

text \<open>\<open>preserves I m\<close>: started in a store that satisfies \<open>I\<close>, \<open>m\<close> ends in one, whether it returns or throws.\<close>

definition preserves :: "('s \<Rightarrow> bool) \<Rightarrow> ('s, 'a) prog \<Rightarrow> bool" where
  "preserves I m \<longleftrightarrow> (\<forall>s. I s \<longrightarrow> wp m (\<lambda>_. I) (\<lambda>_. I) s)"

lemma preservesI: "(\<And>s. I s \<Longrightarrow> wp m (\<lambda>_. I) (\<lambda>_. I) s) \<Longrightarrow> preserves I m"
  by (simp add: preserves_def)

lemma preservesD: "preserves I m \<Longrightarrow> I s \<Longrightarrow> wp m (\<lambda>_. I) (\<lambda>_. I) s"
  by (simp add: preserves_def)

lemma preserves_snd: "preserves I m \<Longrightarrow> I s \<Longrightarrow> I (snd (m s))"
  by (simp add: preserves_def wp_final)

lemma preserves_returnE [inv_intros]: "preserves I (returnE v)"
  by (simp add: preserves_def wp_simps)

lemma preserves_throwE [inv_intros]: "preserves I (throwE e)"
  by (simp add: preserves_def wp_simps)

lemma preserves_readE [inv_intros]: "preserves I (readE g)"
  by (simp add: preserves_def wp_simps)

lemma preserves_bindE [inv_intros]:
  assumes "preserves I m" and "\<And>v. preserves I (f v)"
  shows "preserves I (bindE m f)"
proof (rule preservesI)
  fix s
  assume "I s"
  with assms(1) have "wp m (\<lambda>_. I) (\<lambda>_. I) s" by (rule preservesD)
  then have "wp m (\<lambda>v. wp (f v) (\<lambda>_. I) (\<lambda>_. I)) (\<lambda>_. I) s"
    by (rule wp_mono) (auto intro: preservesD [OF assms(2)])
  then show "wp (bindE m f) (\<lambda>_. I) (\<lambda>_. I) s" by (rule wpi_bindE)
qed

lemma preserves_seqE [inv_intros]: "preserves I m \<Longrightarrow> preserves I n \<Longrightarrow> preserves I (seqE m n)"
  by (simp add: seqE_def preserves_bindE)

lemma preserves_ignoreE [inv_intros]: "preserves I m \<Longrightarrow> preserves I (ignoreE m)"
  by (simp add: ignoreE_def preserves_bindE preserves_returnE)

lemma preserves_catchE [inv_intros]:
  assumes "preserves I m" and "\<And>e. preserves I (h e)"
  shows "preserves I (catchE m h)"
proof (rule preservesI)
  fix s
  assume "I s"
  with assms(1) have "wp m (\<lambda>_. I) (\<lambda>_. I) s" by (rule preservesD)
  then have "wp m (\<lambda>_. I) (\<lambda>e. wp (h e) (\<lambda>_. I) (\<lambda>_. I)) s"
    by (rule wp_mono) (auto intro: preservesD [OF assms(2)])
  then show "wp (catchE m h) (\<lambda>_. I) (\<lambda>_. I) s" by (rule wpi_catchE)
qed

lemma preserves_whenE [inv_intros]: "(b \<Longrightarrow> preserves I m) \<Longrightarrow> preserves I (whenE b m)"
  by (simp add: whenE_def preserves_returnE)

lemma preserves_if [inv_intros]:
  "(b \<Longrightarrow> preserves I m) \<Longrightarrow> (\<not> b \<Longrightarrow> preserves I n) \<Longrightarrow> preserves I (if b then m else n)"
  by simp

lemma preserves_option [inv_intros]:
  "(y = None \<Longrightarrow> preserves I m) \<Longrightarrow> (\<And>v. y = Some v \<Longrightarrow> preserves I (f v)) \<Longrightarrow>
     preserves I (case y of None \<Rightarrow> m | Some v \<Rightarrow> f v)"
  by (cases y) simp_all

lemma preserves_prod [inv_intros]:
  "(\<And>a b. p = (a, b) \<Longrightarrow> preserves I (f a b)) \<Longrightarrow> preserves I (case p of (a, b) \<Rightarrow> f a b)"
  by (cases p) simp

lemma preserves_Let [inv_intros]: "preserves I (f t) \<Longrightarrow> preserves I (Let t f)"
  by simp

lemma preserves_mapE [inv_intros]:
  assumes "\<And>x. x \<in> set xs \<Longrightarrow> preserves I (f x)"
  shows "preserves I (mapE xs f)"
  using assms
proof (induction xs)
  case (Cons x xs)
  then have "preserves I (f x)" and "preserves I (mapE xs f)" by simp_all
  then show ?case by (simp, intro inv_intros)
qed (simp add: preserves_returnE)

lemma preserves_forE [inv_intros]:
  assumes "\<And>x. x \<in> set xs \<Longrightarrow> preserves I (f x)"
  shows "preserves I (forE xs f)"
  using wp_forE_invariant [of I _ xs f] assms by (simp add: preserves_def)

lemma preserves_settle: "preserves I m \<Longrightarrow> preserves I (settle m)"
  by (simp add: preserves_def wp_simps)

lemma preserves_sum [inv_intros]:
  "(\<And>e. r = Inl e \<Longrightarrow> preserves I (m e)) \<Longrightarrow> (\<And>v. r = Inr v \<Longrightarrow> preserves I (f v)) \<Longrightarrow>
     preserves I (case r of Inl e \<Rightarrow> m e | Inr v \<Rightarrow> f v)"
  by (cases r) simp_all

lemma preserves_promise_all [inv_intros]:
  "(\<And>m. m \<in> set ms \<Longrightarrow> preserves I m) \<Longrightarrow> preserves I (promise_all ms)"
  unfolding promise_all_def by (intro inv_intros preserves_settle) simp_all

text \<open>An invariant of the store and one of the object beside it.\<close>

lemma preserves_liftL:
  "(\<And>l. preserves (\<lambda>s. I (s, l)) m) \<Longrightarrow> preserves I (liftL m)"
  by (force simp: preserves_def wp_simps)

lemma preserves_getL [inv_intros]: "preserves I getL"
  by (simp add: preserves_def wp_simps)

lemma preserves_modL: "(\<And>s l. I (s, l) \<Longrightarrow> I (s, g l)) \<Longrightarrow> preserves I (modL g)"
  by (force simp: preserves_def wp_simps)

section \<open>JavaScript strings and numbers\<close>

text \<open>
  A string is a list of characters of code up to 255. A number in the modelled code is an
  integer; \<open>None\<close> stands for \<open>NaN\<close>, which compares false with everything.
\<close>

type_synonym jsnum = "int option"

fun js_ge :: "jsnum \<Rightarrow> jsnum \<Rightarrow> bool" where
  "js_ge (Some a) (Some b) = (b \<le> a)"
| "js_ge _ _ = False"

definition digit_char :: "nat \<Rightarrow> char" where
  "digit_char d = char_of (48 + d)"

fun show_nat :: "nat \<Rightarrow> string" where
  "show_nat n = (if n < 10 then [digit_char n] else show_nat (n div 10) @ [digit_char (n mod 10)])"

declare show_nat.simps [simp del]

definition show_int :: "int \<Rightarrow> string" where
  "show_int i = (if i < 0 then ''-'' @ show_nat (nat (- i)) else show_nat (nat i))"

definition is_digit :: "char \<Rightarrow> bool" where
  "is_digit c = (48 \<le> (of_char c :: nat) \<and> (of_char c :: nat) \<le> 57)"

definition digit_val :: "char \<Rightarrow> nat" where
  "digit_val c = of_char c - 48"

fun digits_val :: "nat \<Rightarrow> string \<Rightarrow> nat" where
  "digits_val acc [] = acc"
| "digits_val acc (c # cs) = (if is_digit c then digits_val (10 * acc + digit_val c) cs else acc)"

definition parse_digits :: "string \<Rightarrow> jsnum" where
  "parse_digits cs = (case cs of [] \<Rightarrow> None
     | c # _ \<Rightarrow> if is_digit c then Some (int (digits_val 0 cs)) else None)"

definition is_space :: "char \<Rightarrow> bool" where
  "is_space c = ((of_char c :: nat) \<in> {9, 10, 11, 12, 13, 32, 160})"

text \<open>\<open>parseInt(s, 10)\<close>: leading white space, an optional sign, the longest run of digits.\<close>

definition parseInt10 :: "string \<Rightarrow> jsnum" where
  "parseInt10 s =
     (case dropWhile is_space s of
        [] \<Rightarrow> None
      | c # cs \<Rightarrow> if c = CHR ''-'' then map_option uminus (parse_digits cs)
                 else if c = CHR ''+'' then parse_digits cs else parse_digits (c # cs))"

text \<open>\<open>v || d\<close> on a string that may be missing: the empty string is falsy too.\<close>

definition or_str :: "string option \<Rightarrow> string \<Rightarrow> string" where
  "or_str v d = (case v of None \<Rightarrow> d | Some x \<Rightarrow> if x = [] then d else x)"

definition truthy :: "string option \<Rightarrow> bool" where
  "truthy v = (case v of None \<Rightarrow> False | Some x \<Rightarrow> x \<noteq> [])"

definition or_nat :: "nat option \<Rightarrow> nat \<Rightarrow> nat" where
  "or_nat v d = (case v of None \<Rightarrow> d | Some x \<Rightarrow> if x = 0 then d else x)"

fun js_split :: "char \<Rightarrow> string \<Rightarrow> string list" where
  "js_split c [] = [[]]"
| "js_split c (x # xs) =
     (if x = c then [] # js_split c xs
      else (case js_split c xs of [] \<Rightarrow> [[x]] | w # ws \<Rightarrow> (x # w) # ws))"

fun js_join :: "string \<Rightarrow> string list \<Rightarrow> string" where
  "js_join sep [] = []"
| "js_join sep [w] = w"
| "js_join sep (w # v # ws) = w @ sep @ js_join sep (v # ws)"

definition upper_char :: "char \<Rightarrow> char" where
  "upper_char c = (if 97 \<le> (of_char c :: nat) \<and> (of_char c :: nat) \<le> 122 then char_of ((of_char c :: nat) - 32) else c)"

definition js_upper :: "string \<Rightarrow> string" where
  "js_upper s = map upper_char s"

definition js_trim :: "string \<Rightarrow> string" where
  "js_trim s = rev (dropWhile is_space (rev (dropWhile is_space s)))"

definition lower_char :: "char \<Rightarrow> char" where
  "lower_char c = (if 65 \<le> (of_char c :: nat) \<and> (of_char c :: nat) \<le> 90
     then char_of ((of_char c :: nat) + 32) else c)"

definition js_lower :: "string \<Rightarrow> string" where
  "js_lower s = map lower_char s"

fun js_includes :: "string \<Rightarrow> string \<Rightarrow> bool" where
  "js_includes [] n = (n = [])"
| "js_includes (c # cs) n = (take (length n) (c # cs) = n \<or> js_includes cs n)"

subsection \<open>Facts about them\<close>

lemma of_digit_char: "d < 10 \<Longrightarrow> (of_char (digit_char d) :: nat) = 48 + d"
  by (simp add: digit_char_def)

lemma is_digit_digit_char [simp]: "d < 10 \<Longrightarrow> is_digit (digit_char d)"
  by (simp add: is_digit_def of_digit_char)

lemma digit_val_digit_char [simp]: "d < 10 \<Longrightarrow> digit_val (digit_char d) = d"
  by (simp add: digit_val_def of_digit_char)

lemma show_nat_digits: "\<forall>c \<in> set (show_nat n). is_digit c"
proof (induction n rule: show_nat.induct)
  case (1 n)
  then show ?case by (subst show_nat.simps) auto
qed

lemma show_nat_nonempty [simp]: "show_nat n \<noteq> []"
  by (subst show_nat.simps) simp

lemma digits_val_append:
  "\<forall>c \<in> set xs. is_digit c \<Longrightarrow> digits_val acc (xs @ ys) = digits_val (digits_val acc xs) ys"
  by (induction xs arbitrary: acc) auto

lemma digits_val_show_nat: "digits_val 0 (show_nat n) = n"
proof (induction n rule: show_nat.induct)
  case (1 n)
  show ?case
  proof (cases "n < 10")
    case True
    then show ?thesis by (subst show_nat.simps) simp
  next
    case False
    with "1.IH" have "digits_val 0 (show_nat (n div 10)) = n div 10" by simp
    with False show ?thesis
      by (subst show_nat.simps) (simp add: digits_val_append show_nat_digits)
  qed
qed

lemma digit_not_space: "is_digit c \<Longrightarrow> \<not> is_space c"
  by (auto simp: is_digit_def is_space_def)

lemma digit_not_sign: "is_digit c \<Longrightarrow> c \<noteq> CHR ''-'' \<and> c \<noteq> CHR ''+''"
  by (auto simp: is_digit_def)

lemma parse_digits_show_nat: "parse_digits (show_nat n) = Some (int n)"
  using show_nat_digits [of n] show_nat_nonempty [of n] digits_val_show_nat [of n]
  by (auto simp: parse_digits_def split: list.split)

text \<open>A number written with \<open>toString\<close> is read back by \<open>parseInt\<close>.\<close>

lemma parseInt10_show_nat [simp]: "parseInt10 (show_nat n) = Some (int n)"
proof -
  obtain c cs where eq: "show_nat n = c # cs"
    using show_nat_nonempty by (cases "show_nat n") auto
  with show_nat_digits [of n] have d: "is_digit c" by simp
  have "parseInt10 (show_nat n) = parse_digits (show_nat n)"
    using digit_not_space [OF d] digit_not_sign [OF d] by (simp add: parseInt10_def eq)
  then show ?thesis by (simp add: parse_digits_show_nat)
qed

lemma parseInt10_show_int [simp]: "parseInt10 (show_int i) = Some i"
proof (cases "i < 0")
  case True
  have "parseInt10 (CHR ''-'' # show_nat (nat (- i))) =
      map_option uminus (parse_digits (show_nat (nat (- i))))"
    by (simp add: parseInt10_def is_space_def)
  with True show ?thesis by (simp add: show_int_def parse_digits_show_nat)
next
  case False
  then show ?thesis by (simp add: show_int_def)
qed

lemma show_int_nonempty [simp]: "show_int i \<noteq> []"
  by (simp add: show_int_def)

lemma show_nat_inj [simp]: "show_nat a = show_nat b \<longleftrightarrow> a = b"
  by (metis digits_val_show_nat)

lemma js_split_nonempty [simp]: "js_split c s \<noteq> []"
  by (induction s) (auto split: list.split)

lemma js_split_plain: "c \<notin> set s \<Longrightarrow> js_split c s = [s]"
  by (induction s) auto

lemma js_split_append: "c \<notin> set w \<Longrightarrow> js_split c (w @ c # rest) = w # js_split c rest"
  by (induction w) auto

text \<open>Two keys built from different literal prefixes differ; used to separate key spaces.\<close>

lemma or_str_None [simp]: "or_str None d = d"
  by (simp add: or_str_def)

lemma or_str_show_nat [simp]: "or_str (Some (show_nat n)) d = show_nat n"
  by (simp add: or_str_def)

lemma truthy_None [simp]: "truthy None = False"
  by (simp add: truthy_def)

lemma truthy_Some [simp]: "truthy (Some x) = (x \<noteq> [])"
  by (simp add: truthy_def)

end
