(* ===== verification/Js_Json.thy ===== *)
theory Js_Json
  imports Farm_Prelude "HOL-Library.Multiset"
begin

text \<open>
  The part of the JavaScript standard library the services use on objects and dates: JSON values,
  \<open>JSON.stringify\<close> with an array of property names as its replacer, \<open>Object.keys\<close>, and the UTC
  calendar date of a time in milliseconds.
\<close>

section \<open>JSON values\<close>

datatype json = JNull | JBool bool | JNum int | JStr string | JArr "json list"
  | JObj "(string \<times> json) list"

text \<open>A \<open>Record<string, any>\<close>: the properties in insertion order.\<close>

type_synonym jobj = "(string \<times> json) list"

definition hex_digit :: "nat \<Rightarrow> char" where
  "hex_digit d = (if d < 10 then digit_char d else char_of (87 + d))"

definition escape_char :: "char \<Rightarrow> string" where
  "escape_char c = (let n = (of_char c :: nat) in
     if c = CHR 0x22 then [CHR 0x5C, CHR 0x22]
     else if c = CHR 0x5C then [CHR 0x5C, CHR 0x5C]
     else if n = 8 then [CHR 0x5C, CHR ''b'']
     else if n = 9 then [CHR 0x5C, CHR ''t'']
     else if n = 10 then [CHR 0x5C, CHR ''n'']
     else if n = 12 then [CHR 0x5C, CHR ''f'']
     else if n = 13 then [CHR 0x5C, CHR ''r'']
     else if n < 32 then CHR 0x5C # ''u00'' @ [hex_digit (n div 16), hex_digit (n mod 16)]
     else [c])"

definition json_quote :: "string \<Rightarrow> string" where
  "json_quote s = CHR 0x22 # concat (map escape_char s) @ [CHR 0x22]"

text \<open>
  \<open>JSON.stringify(v, ks)\<close> with a list of names: an object is written with the properties that
  occur in \<open>ks\<close>, in the order of \<open>ks\<close>; the same list filters every nested object.
\<close>

definition pick_members :: "string list \<Rightarrow> (string \<times> string) list \<Rightarrow> string list" where
  "pick_members ks ms = List.map_filter
     (\<lambda>k. map_option (\<lambda>v. json_quote k @ '':'' @ v) (map_of ms k)) ks"

primrec json_stringify :: "string list \<Rightarrow> json \<Rightarrow> string" where
  "json_stringify ks JNull = ''null''"
| "json_stringify ks (JBool b) = (if b then ''true'' else ''false'')"
| "json_stringify ks (JNum n) = show_int n"
| "json_stringify ks (JStr s) = json_quote s"
| "json_stringify ks (JArr vs) = ''['' @ js_join '','' (map (json_stringify ks) vs) @ '']''"
| "json_stringify ks (JObj ps) =
     ''{'' @ js_join '','' (pick_members ks (map (map_prod (\<lambda>k. k) (json_stringify ks)) ps)) @ ''}''"

text \<open>\<open>JSON.stringify(v)\<close>: every property, in insertion order.\<close>

primrec json_text :: "json \<Rightarrow> string" where
  "json_text JNull = ''null''"
| "json_text (JBool b) = (if b then ''true'' else ''false'')"
| "json_text (JNum n) = show_int n"
| "json_text (JStr s) = json_quote s"
| "json_text (JArr vs) = ''['' @ js_join '','' (map json_text vs) @ '']''"
| "json_text (JObj ps) =
     ''{'' @ js_join '','' (map (\<lambda>p. json_quote (fst p) @ '':'' @ snd p) (map (map_prod (\<lambda>k. k) json_text) ps)) @ ''}''"

text \<open>Assigning a property keeps its place; a new one comes last. \<open>{...o, ...p}\<close> assigns those of \<open>p\<close>.\<close>

fun assoc_set :: "string \<Rightarrow> 'v \<Rightarrow> (string \<times> 'v) list \<Rightarrow> (string \<times> 'v) list" where
  "assoc_set k v [] = [(k, v)]"
| "assoc_set k v ((k', v') # ps) = (if k = k' then (k, v) # ps else (k', v') # assoc_set k v ps)"

definition map_delete :: "string \<Rightarrow> (string \<times> 'v) list \<Rightarrow> (string \<times> 'v) list" where
  "map_delete k m = filter (\<lambda>p. fst p \<noteq> k) m"

definition obj_spread :: "(string \<times> 'v) list \<Rightarrow> (string \<times> 'v) list \<Rightarrow> (string \<times> 'v) list" where
  "obj_spread o1 o2 = fold (\<lambda>(k, v). assoc_set k v) o2 o1"

fun json_truthy :: "json \<Rightarrow> bool" where
  "json_truthy JNull = False"
| "json_truthy (JBool b) = b"
| "json_truthy (JNum n) = (n \<noteq> 0)"
| "json_truthy (JStr s) = (s \<noteq> [])"
| "json_truthy _ = True"

definition object_keys :: "jobj \<Rightarrow> string list" where
  "object_keys ps = remdups (map fst ps)"

text \<open>A property that is \<open>undefined\<close> is not stored.\<close>

definition opt_field :: "string \<Rightarrow> json option \<Rightarrow> jobj" where
  "opt_field k v = (case v of None \<Rightarrow> [] | Some x \<Rightarrow> [(k, x)])"

section \<open>Dates\<close>

text \<open>
  The proleptic Gregorian date of a day counted from 1970-01-01, and the text before the
  \<open>T\<close> of \<open>toISOString\<close> (years 0 to 9999). Times are milliseconds since 1970.
\<close>

definition civil_from_days :: "int \<Rightarrow> int \<times> int \<times> int" where
  "civil_from_days days =
     (let z = days + 719468; era = z div 146097; doe = z mod 146097;
          yoe = (doe - doe div 1460 + doe div 36524 - doe div 146096) div 365;
          doy = doe - (365 * yoe + yoe div 4 - yoe div 100);
          mp = (5 * doy + 2) div 153;
          d = doy - (153 * mp + 2) div 5 + 1;
          m = (if mp < 10 then mp + 3 else mp - 9)
      in (yoe + era * 400 + (if m \<le> 2 then 1 else 0), m, d))"

definition days_from_civil :: "int \<Rightarrow> int \<Rightarrow> int \<Rightarrow> int" where
  "days_from_civil y0 m d =
     (let y = (if m \<le> 2 then y0 - 1 else y0); era = y div 400; yoe = y mod 400;
          mp = (if 2 < m then m - 3 else m + 9);
          doy = (153 * mp + 2) div 5 + d - 1;
          doe = yoe * 365 + yoe div 4 - yoe div 100 + doy
      in era * 146097 + doe - 719468)"

definition day_ms :: int where
  "day_ms = 24 * 60 * 60 * 1000"

definition utc_date :: "int \<Rightarrow> int \<times> int \<times> int" where
  "utc_date ms = civil_from_days (ms div day_ms)"

definition pad_left :: "nat \<Rightarrow> string \<Rightarrow> string" where
  "pad_left n s = replicate (n - length s) CHR ''0'' @ s"

definition iso_day :: "int \<Rightarrow> string" where
  "iso_day ms = (case utc_date ms of (y, m, d) \<Rightarrow>
     pad_left 4 (show_int y) @ ''-'' @ pad_left 2 (show_int m) @ ''-'' @ pad_left 2 (show_int d))"

definition toISOString :: "int \<Rightarrow> string" where
  "toISOString ms = (let d = ms mod day_ms in
     iso_day ms @ ''T'' @ pad_left 2 (show_int (d div 3600000)) @ '':'' @ pad_left 2 (show_int (d div 60000 mod 60)) @
     '':'' @ pad_left 2 (show_int (d div 1000 mod 60)) @ ''.'' @ pad_left 3 (show_int (d mod 1000)) @ ''Z'')"

lemma map_of_delete [simp]: "map_of (map_delete k m) = (map_of m)(k := None)"
  by (induction m) (auto simp: map_delete_def fun_eq_iff)

lemma map_of_assoc_set [simp]: "map_of (assoc_set k v ps) = (map_of ps)(k \<mapsto> v)"
  by (induction k v ps rule: assoc_set.induct) auto

lemma iso_day_same_day: "a div day_ms = b div day_ms \<Longrightarrow> iso_day a = iso_day b"
  by (simp add: iso_day_def utc_date_def)

section \<open>Facts about stringify\<close>

lemma option_ext_eq: "(\<And>v. a = Some v \<longleftrightarrow> b = Some v) \<Longrightarrow> a = b"
  by (cases a; cases b) auto

lemma map_of_mset_eq:
  assumes "mset ps = mset qs" and "distinct (map fst ps)"
  shows "map_of ps = map_of qs"
proof -
  from assms have "set ps = set qs" and "distinct (map fst qs)"
    by (metis mset_eq_setD, metis mset_map mset_eq_imp_distinct_iff)
  with assms(2) have "map_of ps k = Some v \<longleftrightarrow> map_of qs k = Some v" for k v
    by (simp add: map_of_eq_Some_iff)
  then show ?thesis by (intro ext option_ext_eq) simp
qed

lemma map_of_map_snd: "map_of (map (map_prod (\<lambda>k. k) f) ps) k = map_option f (map_of ps k)"
  by (induction ps) auto

lemma stringify_mset:
  assumes "mset ps = mset qs" and "distinct (map fst ps)"
  shows "json_stringify ks (JObj ps) = json_stringify ks (JObj qs)"
  using map_of_mset_eq [OF assms] by (simp add: pick_members_def map_of_map_snd)

lemma pick_members_cong:
  assumes "\<And>k. k \<in> set ks \<Longrightarrow> map_of ms k = map_of ms' k"
  shows "pick_members ks ms = pick_members ks ms'"
proof -
  have "\<forall>k \<in> set ks. map_of ms k = map_of ms' k" using assms by blast
  then show ?thesis unfolding pick_members_def
    by (induction ks) (simp_all add: List.map_filter_simps split: option.split)
qed

text \<open>Properties whose names are not in the list do not show in the text.\<close>

lemma stringify_dropped:
  assumes "\<And>k. k \<in> set ks \<Longrightarrow> map_of ps k = map_of qs k"
  shows "json_stringify ks (JObj ps) = json_stringify ks (JObj qs)"
proof -
  have "pick_members ks (map (map_prod (\<lambda>k. k) (json_stringify ks)) ps) =
      pick_members ks (map (map_prod (\<lambda>k. k) (json_stringify ks)) qs)"
    by (rule pick_members_cong) (simp add: map_of_map_snd assms)
  then show ?thesis by simp
qed

end
