(* ===== verification/Idempotency.thy ===== *)
theory Idempotency
  imports Js_Json
begin

text \<open>
  \<open>IdempotencyService\<close> (src/Backend/src/workflow/services/idempotency.service.ts): the keys that
  make a workflow and its steps run once. The clock and \<open>createHash('sha256')\<close> are arguments; what
  the theorems need of the hash (64 characters, none of them a colon, no collision on the two
  messages compared) is stated where it is used.
\<close>

section \<open>The service\<close>

definition stableStringify :: "jobj \<Rightarrow> string" where
  "stableStringify obj = json_stringify (sort (object_keys obj)) (JObj obj)"

definition workflowKeyData :: "string \<Rightarrow> string \<Rightarrow> jobj \<Rightarrow> jobj option \<Rightarrow> int \<Rightarrow> jobj" where
  "workflowKeyData workflowType userId input additionalContext now =
     [(''workflowType'', JStr workflowType), (''userId'', JStr userId),
      (''input'', JStr (stableStringify input))] @
     (case additionalContext of None \<Rightarrow> []
      | Some c \<Rightarrow> [(''additionalContext'', JStr (stableStringify c))]) @
     [(''timestamp'', JStr (iso_day now))]"

text \<open>The text that is hashed.\<close>

definition workflowKeyMessage :: "string \<Rightarrow> string \<Rightarrow> jobj \<Rightarrow> jobj option \<Rightarrow> int \<Rightarrow> string" where
  "workflowKeyMessage workflowType userId input additionalContext now =
     (let keyData = workflowKeyData workflowType userId input additionalContext now
      in json_stringify (sort (object_keys keyData)) (JObj keyData))"

definition generateWorkflowIdempotencyKey ::
    "(string \<Rightarrow> string) \<Rightarrow> int \<Rightarrow> string \<Rightarrow> string \<Rightarrow> jobj \<Rightarrow> jobj option \<Rightarrow> string" where
  "generateWorkflowIdempotencyKey sha256 now workflowType userId input additionalContext =
     (let hash = sha256 (workflowKeyMessage workflowType userId input additionalContext now)
      in ''workflow:'' @ workflowType @ '':'' @ userId @ '':'' @ hash)"

definition generateStepIdempotencyKey ::
    "(string \<Rightarrow> string) \<Rightarrow> string \<Rightarrow> string \<Rightarrow> jobj \<Rightarrow> string" where
  "generateStepIdempotencyKey sha256 workflowIdempotencyKey stepName stepInput =
     (let keyData = [(''workflowIdempotencyKey'', JStr workflowIdempotencyKey),
                     (''stepName'', JStr stepName),
                     (''stepInput'', JStr (stableStringify stepInput))];
          hash = sha256 (json_stringify (sort (object_keys keyData)) (JObj keyData))
      in ''step:'' @ stepName @ '':'' @ hash)"

text \<open>The argument \<open>uuid\<close> is the value \<open>randomUUID()\<close> returned.\<close>

definition generateUniqueIdempotencyKey :: "string \<Rightarrow> string \<Rightarrow> string \<Rightarrow> string" where
  "generateUniqueIdempotencyKey uuid operationType identifier =
     operationType @ '':'' @ identifier @ '':'' @ uuid"

definition validateIdempotencyKey ::
    "(string \<Rightarrow> string) \<Rightarrow> int \<Rightarrow> string \<Rightarrow> string \<Rightarrow> string \<Rightarrow> jobj \<Rightarrow> jobj option \<Rightarrow> bool" where
  "validateIdempotencyKey sha256 now expectedKey workflowType userId input additionalContext =
     (expectedKey =
        generateWorkflowIdempotencyKey sha256 now workflowType userId input additionalContext)"

datatype key_type = KeyWorkflow | KeyStep | KeyUnique

record parsed_key =
  pk_type :: key_type
  pk_prefix :: string
  pk_identifier :: string
  pk_hash :: "string option"

text \<open>An index past the end of a JavaScript array reads \<open>undefined\<close>.\<close>

definition part :: "string list \<Rightarrow> nat \<Rightarrow> string option" where
  "part ws i = (if i < length ws then Some (ws ! i) else None)"

definition parseIdempotencyKey :: "string \<Rightarrow> parsed_key" where
  "parseIdempotencyKey idempotencyKey =
     (let parts = js_split CHR '':'' idempotencyKey in
      if part parts 0 = Some ''workflow'' \<and> 4 \<le> length parts then
        \<lparr>pk_type = KeyWorkflow, pk_prefix = parts ! 0,
         pk_identifier = parts ! 1 @ '':'' @ parts ! 2, pk_hash = part parts 3\<rparr>
      else if part parts 0 = Some ''step'' \<and> 3 \<le> length parts then
        \<lparr>pk_type = KeyStep, pk_prefix = parts ! 0, pk_identifier = parts ! 1,
         pk_hash = part parts 2\<rparr>
      else if part parts 0 = Some ''unique'' \<and> 3 \<le> length parts then
        \<lparr>pk_type = KeyUnique, pk_prefix = parts ! 0, pk_identifier = parts ! 1,
         pk_hash = part parts 2\<rparr>
      else
        \<lparr>pk_type = KeyUnique, pk_prefix = or_str (part parts 0) ''unknown'',
         pk_identifier = or_str (part parts 1) ''unknown'', pk_hash = part parts 2\<rparr>)"

fun truthy_result :: "json option \<Rightarrow> bool" where
  "truthy_result None = False"
| "truthy_result (Some j) = json_truthy j"

record 's idem_cache =
  cache_get :: "string \<Rightarrow> ('s, json option) prog"
  cache_set :: "string \<Rightarrow> json option \<Rightarrow> ('s, unit) prog"

record idem_result =
  idem_result :: "json option"
  isDuplicate :: bool

text \<open>
  The optional cache is consulted before and filled after the operation; its failures are logged
  and otherwise ignored. A cached value counts only when it is truthy.
\<close>

definition checkIdempotency ::
    "string \<Rightarrow> ('s, json option) prog \<Rightarrow> 's idem_cache option \<Rightarrow> ('s, idem_result) prog" where
  "checkIdempotency idempotencyKey operation cache =
     bindE (case cache of None \<Rightarrow> returnE None
            | Some c \<Rightarrow> catchE (cache_get c idempotencyKey) (\<lambda>_. returnE None))
       (\<lambda>cachedResult.
          if truthy_result cachedResult
          then returnE \<lparr>idem_result = cachedResult, isDuplicate = True\<rparr>
          else bindE operation (\<lambda>result.
            seqE (case cache of None \<Rightarrow> returnE ()
                  | Some c \<Rightarrow> catchE (cache_set c idempotencyKey result) (\<lambda>_. returnE ()))
              (returnE \<lparr>idem_result = result, isDuplicate = False\<rparr>)))"

section \<open>Quoted strings decode uniquely\<close>

definition hex_val :: "char \<Rightarrow> nat" where
  "hex_val c = (if (of_char c :: nat) < 58 then of_char c - 48 else of_char c - 87)"

fun unescape :: "string \<Rightarrow> (char \<times> string) option" where
  "unescape [] = None"
| "unescape (c # cs) = (if c \<noteq> CHR 0x5C then Some (c, cs) else
     (case cs of [] \<Rightarrow> None | d # ds \<Rightarrow>
        if d = CHR ''b'' then Some (char_of (8 :: nat), ds)
        else if d = CHR ''t'' then Some (char_of (9 :: nat), ds)
        else if d = CHR ''n'' then Some (char_of (10 :: nat), ds)
        else if d = CHR ''f'' then Some (char_of (12 :: nat), ds)
        else if d = CHR ''r'' then Some (char_of (13 :: nat), ds)
        else if d = CHR ''u'' then
          (case ds of z1 # z0 # h # l # es \<Rightarrow> Some (char_of (16 * hex_val h + hex_val l), es)
           | _ \<Rightarrow> None)
        else Some (d, ds)))"

lemma hex_val_digit: "d < 16 \<Longrightarrow> hex_val (hex_digit d) = d"
  by (auto simp: hex_val_def hex_digit_def digit_char_def)

lemma unescape_escape: "unescape (escape_char c @ rest) = Some (c, rest)"
proof -
  define n where "n = (of_char c :: nat)"
  have c: "c = char_of n" by (simp add: n_def)
  have n: "n < 256" unfolding n_def by (rule nat_of_char_less_256)
  have hex: "16 * hex_val (hex_digit (n div 16)) + hex_val (hex_digit (n mod 16)) = n"
    using n by (simp add: hex_val_digit)
  show ?thesis
    unfolding escape_char_def Let_def
    using hex n by (auto simp flip: n_def simp: c)
qed

lemma escape_char_nonempty: "escape_char c \<noteq> []"
  by (auto simp: escape_char_def Let_def)

lemma escape_char_not_quote: "escape_char c @ u \<noteq> CHR 0x22 # v"
  using escape_char_nonempty [of c] by (auto simp: escape_char_def Let_def split: if_splits)

lemma quoted_body_inj:
  "concat (map escape_char a) @ CHR 0x22 # x = concat (map escape_char b) @ CHR 0x22 # y \<Longrightarrow>
     a = b \<and> x = y"
proof (induction a arbitrary: b)
  case Nil
  then show ?case by (cases b) (auto dest: sym simp: escape_char_not_quote)
next
  case (Cons c a)
  show ?case
  proof (cases b)
    case Nil
    with Cons.prems show ?thesis by (simp add: escape_char_not_quote)
  next
    case (Cons d b')
    with Cons.prems have eq: "escape_char c @ (concat (map escape_char a) @ CHR 0x22 # x) =
        escape_char d @ (concat (map escape_char b') @ CHR 0x22 # y)" by simp
    from arg_cong [OF eq, of unescape] have
      "c = d" and "concat (map escape_char a) @ CHR 0x22 # x = concat (map escape_char b') @ CHR 0x22 # y"
      by (simp_all add: unescape_escape del: unescape.simps)
    with Cons.IH Cons show ?thesis by blast
  qed
qed

lemma json_quote_inj: "json_quote a @ x = json_quote b @ y \<longleftrightarrow> a = b \<and> x = y"
  using quoted_body_inj [of a x b y] by (auto simp: json_quote_def)

lemma sort_workflow_keys:
  "sort (object_keys (workflowKeyData wt u i c now)) =
     (case c of None \<Rightarrow> [] | Some _ \<Rightarrow> [''additionalContext'']) @
       [''input'', ''timestamp'', ''userId'', ''workflowType'']"
  by (cases c) (simp_all add: workflowKeyData_def object_keys_def less_char_def)

lemma workflowKeyMessage_eq:
  "workflowKeyMessage wt u i c now =
     ''{'' @ (case c of None \<Rightarrow> [] | Some x \<Rightarrow> json_quote ''additionalContext'' @ '':'' @
         json_quote (stableStringify x) @ '','') @
       json_quote ''input'' @ '':'' @ json_quote (stableStringify i) @ '','' @
       json_quote ''timestamp'' @ '':'' @ json_quote (iso_day now) @ '','' @
       json_quote ''userId'' @ '':'' @ json_quote u @ '','' @
       json_quote ''workflowType'' @ '':'' @ json_quote wt @ ''}''"
  unfolding workflowKeyMessage_def Let_def sort_workflow_keys
  by (cases c) (simp_all add: workflowKeyData_def pick_members_def List.map_filter_simps)

lemma workflowKeyMessage_inj:
  "workflowKeyMessage wt u i c now = workflowKeyMessage wt' u' i' c' now' \<longleftrightarrow>
     wt = wt' \<and> u = u' \<and> stableStringify i = stableStringify i' \<and>
     map_option stableStringify c = map_option stableStringify c' \<and> iso_day now = iso_day now'"
  unfolding workflowKeyMessage_eq
  using json_quote_inj [of wt "''}''" wt' "''}''"]
  by (cases c; cases c') (auto simp: json_quote_inj)

section \<open>Properties\<close>

lemma sorted_keys_nested:
  "sort (object_keys ((p, v) # rest)) = sort (object_keys ((p, w) # rest))"
  by (simp add: object_keys_def)

lemma stringify_nested_drop:
  assumes "q \<notin> set ks"
  shows "json_stringify ks (JObj ((q, v) # qs)) = json_stringify ks (JObj qs)"
  using assms by (intro stringify_dropped) auto

text \<open>
  Two requests get the same workflow key exactly when they agree on workflow type, user, the
  stable text of the input and of the additional context, and the UTC day: the key separates
  users, workflow types and days, and never anything the stable text does not show. The hash is
  only assumed to give 64 characters and not to collide on the messages compared.
\<close>

theorem workflow_key_eq_iff:
  assumes "\<And>m. length (sha256 m) = 64"
    and "inj_on sha256 {workflowKeyMessage wt u i c now, workflowKeyMessage wt' u' i' c' now'}"
  shows "generateWorkflowIdempotencyKey sha256 now wt u i c =
           generateWorkflowIdempotencyKey sha256 now' wt' u' i' c' \<longleftrightarrow>
         wt = wt' \<and> u = u' \<and> stableStringify i = stableStringify i' \<and>
         map_option stableStringify c = map_option stableStringify c' \<and> iso_day now = iso_day now'"
proof -
  have "generateWorkflowIdempotencyKey sha256 now wt u i c =
      generateWorkflowIdempotencyKey sha256 now' wt' u' i' c' \<longleftrightarrow>
      (''workflow:'' @ wt @ '':'' @ u @ '':'') @ sha256 (workflowKeyMessage wt u i c now) =
      (''workflow:'' @ wt' @ '':'' @ u' @ '':'') @ sha256 (workflowKeyMessage wt' u' i' c' now')"
    by (simp add: generateWorkflowIdempotencyKey_def)
  also have "\<dots> \<longleftrightarrow> wt @ '':'' @ u @ '':'' = wt' @ '':'' @ u' @ '':'' \<and>
      sha256 (workflowKeyMessage wt u i c now) = sha256 (workflowKeyMessage wt' u' i' c' now')"
    by (subst append_eq_append_conv) (simp_all add: assms(1))
  also have "\<dots> \<longleftrightarrow> workflowKeyMessage wt u i c now = workflowKeyMessage wt' u' i' c' now' \<and>
      wt @ '':'' @ u @ '':'' = wt' @ '':'' @ u' @ '':''"
    using inj_on_eq_iff [OF assms(2)] by (simp only: insert_iff simp_thms conj_commute)
  finally show ?thesis by (simp only: workflowKeyMessage_inj) blast
qed

theorem workflow_key_eq_iff_witness:
  "let h = (\<lambda>m. replicate 64 (if m = workflowKeyMessage ''trade_execution'' ''alice'' [] None 0
                              then CHR ''a'' else CHR ''b''))
   in generateWorkflowIdempotencyKey h 0 ''trade_execution'' ''alice'' [] None \<noteq>
      generateWorkflowIdempotencyKey h 0 ''trade_execution'' ''bob'' [] None"
  unfolding Let_def
  by (subst workflow_key_eq_iff) (simp_all add: workflowKeyMessage_inj)

text \<open>
  The stable text keeps only property names that occur at the top level: a nested property
  whose name is not also a top-level name can be added, changed or removed without changing the
  idempotency key, whatever the hash. Two different orders that differ only there are one workflow.
\<close>

theorem nested_property_not_in_key:
  assumes "q \<noteq> p" and "q \<notin> fst ` set rest"
  shows "generateWorkflowIdempotencyKey sha256 now wt u ((p, JObj ((q, v) # qs)) # rest) c =
         generateWorkflowIdempotencyKey sha256 now wt u ((p, JObj qs) # rest) c"
proof -
  let ?ks = "sort (object_keys ((p, JObj qs) # rest))"
  have ks: "sort (object_keys ((p, JObj ((q, v) # qs)) # rest)) = ?ks"
    by (rule sorted_keys_nested)
  have "q \<notin> set ?ks" using assms by (auto simp: object_keys_def)
  then have "json_stringify ?ks (JObj ((q, v) # qs)) = json_stringify ?ks (JObj qs)"
    by (rule stringify_nested_drop)
  then have "stableStringify ((p, JObj ((q, v) # qs)) # rest) = stableStringify ((p, JObj qs) # rest)"
    unfolding stableStringify_def ks by simp
  then show ?thesis
    by (simp add: generateWorkflowIdempotencyKey_def workflowKeyMessage_eq)
qed

theorem nested_property_not_in_key_witness:
  "generateWorkflowIdempotencyKey (\<lambda>m. m) 0 ''trade_execution'' ''alice''
       [(''order'', JObj [(''amount'', JNum 5)])] None =
   generateWorkflowIdempotencyKey (\<lambda>m. m) 0 ''trade_execution'' ''alice'' [(''order'', JObj [])] None"
  by (rule nested_property_not_in_key) simp_all

text \<open>
  \<open>parseIdempotencyKey\<close> reads back the parts of a generated workflow key, for a workflow
  type, a user id and a hash without colons: the type, the owner and the hash are recovered.
\<close>

theorem parse_generated_key:
  assumes "CHR '':'' \<notin> set wt" and "CHR '':'' \<notin> set u" and "\<And>m. CHR '':'' \<notin> set (sha256 m)"
  shows "parseIdempotencyKey (generateWorkflowIdempotencyKey sha256 now wt u i c) =
    \<lparr>pk_type = KeyWorkflow, pk_prefix = ''workflow'', pk_identifier = wt @ '':'' @ u,
     pk_hash = Some (sha256 (workflowKeyMessage wt u i c now))\<rparr>"
proof -
  have "js_split CHR '':'' (generateWorkflowIdempotencyKey sha256 now wt u i c) =
      [''workflow'', wt, u, sha256 (workflowKeyMessage wt u i c now)]"
    by (simp add: generateWorkflowIdempotencyKey_def js_split_append js_split_plain assms)
  then show ?thesis by (simp add: parseIdempotencyKey_def part_def)
qed

theorem parse_generated_key_witness:
  "parseIdempotencyKey (generateWorkflowIdempotencyKey (\<lambda>m. ''0f'') 0 ''reward_grant'' ''u1'' [] None) =
    \<lparr>pk_type = KeyWorkflow, pk_prefix = ''workflow'', pk_identifier = ''reward_grant:u1'',
     pk_hash = Some ''0f''\<rparr>"
  by (subst parse_generated_key) simp_all

text \<open>
  \<open>checkIdempotency\<close> with a cache: when the cache holds a truthy result the operation is not
  run and the store is the one the cache read left; otherwise the operation runs exactly once and
  decides the result or the exception, and neither a failing \<open>get\<close> nor a failing \<open>set\<close> of the
  cache changes that.
\<close>

theorem checkIdempotency_spec:
  "checkIdempotency k operation (Some c) s =
    (let (r, s1) = cache_get c k s in
     if (case r of Inr v \<Rightarrow> truthy_result v | Inl _ \<Rightarrow> False)
     then (Inr \<lparr>idem_result = projr r, isDuplicate = True\<rparr>, s1)
     else (case operation s1 of
             (Inl e, s2) \<Rightarrow> (Inl e, s2)
           | (Inr v, s2) \<Rightarrow> (Inr \<lparr>idem_result = v, isDuplicate = False\<rparr>, snd (cache_set c k v s2))))"
  by (auto simp: checkIdempotency_def bindE_def catchE_def seqE_def returnE_def
      split: prod.split sum.split)

end
