(* ===== verification/State_Machine.thy ===== *)
theory State_Machine
  imports Farm_Prelude
begin

text \<open>
  The interface shared by the services that keep an entity in a table of allowed transitions: the
  workflow and step tables of \<open>WorkflowStateMachineService\<close> and the conversation table of
  \<open>ConversationStateMachineService\<close>. Each provider interprets the locale on its own table.
\<close>

record transition_result =
  tr_success :: bool
  tr_error :: "string option"

locale transition_table =
  fixes valid :: "'st \<Rightarrow> 'st list"
    and can :: "'st \<Rightarrow> 'st \<Rightarrow> bool"
  assumes can_valid: "can a b \<longleftrightarrow> b \<in> set (valid a)"
begin

text \<open>The states an entity can get to by allowed transitions.\<close>

inductive reach :: "'st \<Rightarrow> 'st \<Rightarrow> bool" where
  reach_refl: "reach a a"
| reach_step: "reach a b \<Longrightarrow> can b c \<Longrightarrow> reach a c"

lemma reach_one: "can a b \<Longrightarrow> reach a b"
  using reach_refl reach_step by blast

lemma reach_trans:
  assumes "reach a b" and "reach b c" shows "reach a c"
  using assms(2,1) by (induction rule: reach.induct) (auto intro: reach_step)

text \<open>A state without outgoing transitions is final.\<close>

lemma final_stays:
  assumes "reach a b" and "valid a = []" shows "b = a"
  using assms by (induction rule: reach.induct) (auto simp: can_valid)

text \<open>A set of states that is closed under the table is never left.\<close>

lemma reach_closed:
  assumes "reach a b" and "a \<in> S" and "\<And>x y. x \<in> S \<Longrightarrow> can x y \<Longrightarrow> y \<in> S"
  shows "b \<in> S"
  using assms by (induction rule: reach.induct) auto

text \<open>A state no transition enters is only reached from itself.\<close>

lemma never_reentered:
  assumes "reach a b" and "\<And>x. \<not> can x b" shows "a = b"
  using assms by (cases rule: reach.cases) auto

end

end
