(* ===== verification/Ext_Repository.thy ===== *)
theory Ext_Repository
  imports Farm_Prelude
begin

text \<open>
  The interface of a TypeORM \<open>Repository\<close>, a package outside the repository: its methods are
  the fields of a record that the services take as an argument, and the locale \<open>repo_table\<close>
  states their documented behaviour on a table of rows with a primary key. A \<open>where\<close> clause is a
  predicate on rows. \<open>mem_repo\<close> is an in-memory repository that satisfies the laws.
\<close>

section \<open>The methods\<close>

datatype 'e find_order = Unordered | Asc "'e \<Rightarrow> int" | Desc "'e \<Rightarrow> int"

text \<open>
  \<open>save\<close> on an object without a primary key inserts it: \<open>repo_insert\<close> returns the generated key
  and the time written to the creation and update columns. \<open>save\<close> on an object with a key writes
  its row: \<open>repo_save\<close> returns the time written to the update column. The caller's object receives
  these generated columns and nothing else.
\<close>

record ('s, 'e) repository =
  repo_findOne :: "('e \<Rightarrow> bool) \<Rightarrow> ('s, 'e option) prog"
  repo_find :: "('e \<Rightarrow> bool) \<Rightarrow> 'e find_order \<Rightarrow> ('s, 'e list) prog"
  repo_insert :: "'e \<Rightarrow> ('s, string \<times> int) prog"
  repo_save :: "'e \<Rightarrow> ('s, int) prog"
  repo_update :: "('e \<Rightarrow> bool) \<Rightarrow> ('e \<Rightarrow> 'e) \<Rightarrow> ('s, nat) prog"
  repo_delete :: "('e \<Rightarrow> bool) \<Rightarrow> ('s, nat) prog"

text \<open>\<open>count\<close> and \<open>findAndCount\<close> of the same \<open>where\<close> clause, from the rows \<open>find\<close> returns.\<close>

definition repo_count :: "('s, 'e) repository \<Rightarrow> ('e \<Rightarrow> bool) \<Rightarrow> ('s, nat) prog" where
  "repo_count R P = bindE (repo_find R P Unordered) (\<lambda>xs. returnE (length xs))"

definition repo_findAndCount ::
    "('s, 'e) repository \<Rightarrow> ('e \<Rightarrow> bool) \<Rightarrow> 'e find_order \<Rightarrow> nat \<Rightarrow> nat \<Rightarrow> ('s, 'e list \<times> nat) prog" where
  "repo_findAndCount R P ord skip tk =
     bindE (repo_find R P ord) (\<lambda>xs. returnE (take tk (drop skip xs), length xs))"

fun in_order :: "'e find_order \<Rightarrow> 'e list \<Rightarrow> bool" where
  "in_order Unordered xs = True"
| "in_order (Asc f) xs = sorted (map f xs)"
| "in_order (Desc f) xs = sorted (rev (map f xs))"

section \<open>The laws\<close>

text \<open>
  \<open>tab s\<close> is the table's content in the store \<open>s\<close>, by primary key; \<open>stamp t\<close> sets the update
  column and \<open>gen i t\<close> the generated columns of a new row. The laws describe a repository whose
  connection works: no method throws, reads change nothing.
\<close>

locale repo_table =
  fixes R :: "('s, 'e) repository"
    and tab :: "'s \<Rightarrow> string \<Rightarrow> 'e option"
    and key :: "'e \<Rightarrow> string"
    and stamp :: "int \<Rightarrow> 'e \<Rightarrow> 'e"
    and gen :: "string \<Rightarrow> int \<Rightarrow> 'e \<Rightarrow> 'e"
  assumes key_tab: "tab s i = Some e \<Longrightarrow> key e = i"
    and finite_tab: "finite (dom (tab s))"
    and findOne_ok: "ok (repo_findOne R P) s"
    and findOne_fin: "fin (repo_findOne R P) s = s"
    and findOne_Some: "res (repo_findOne R P) s = Some e \<Longrightarrow> tab s (key e) = Some e \<and> P e"
    and findOne_None: "res (repo_findOne R P) s = None \<Longrightarrow> tab s i = Some e \<Longrightarrow> \<not> P e"
    and find_ok: "ok (repo_find R P ord) s"
    and find_fin: "fin (repo_find R P ord) s = s"
    and find_set: "set (res (repo_find R P ord) s) = {e. tab s (key e) = Some e \<and> P e}"
    and find_distinct: "distinct (map key (res (repo_find R P ord) s))"
    and find_order: "in_order ord (res (repo_find R P ord) s)"
    and insert_ok: "ok (repo_insert R e) s"
    and insert_fresh: "res (repo_insert R e) s = (i, t) \<Longrightarrow> tab s i = None \<and> key (gen i t e) = i"
    and insert_tab: "res (repo_insert R e) s = (i, t) \<Longrightarrow>
        tab (fin (repo_insert R e) s) = (tab s)(i \<mapsto> gen i t e)"
    and save_ok: "ok (repo_save R e) s"
    and save_tab: "tab (fin (repo_save R e) s) =
        (tab s)(key e \<mapsto> stamp (res (repo_save R e) s) e)"
    and update_ok: "ok (repo_update R P f) s"
    and update_tab: "(\<And>e. key (f e) = key e) \<Longrightarrow> tab (fin (repo_update R P f) s) =
        (\<lambda>i. map_option (\<lambda>e. if P e then f e else e) (tab s i))"
    and delete_ok: "ok (repo_delete R P) s"
    and delete_tab: "tab (fin (repo_delete R P) s) =
        (\<lambda>i. case tab s i of None \<Rightarrow> None | Some e \<Rightarrow> if P e then None else Some e)"
begin

lemmas ok_laws = findOne_ok find_ok insert_ok save_ok update_ok delete_ok

lemmas wp_repo [wp_simps] =
  wp_ok_all [OF findOne_ok] wp_ok_all [OF find_ok] wp_ok_all [OF insert_ok] wp_ok_all [OF save_ok]
  wp_ok_all [OF update_ok] wp_ok_all [OF delete_ok]

lemmas fin_reads [simp] = findOne_fin find_fin

lemma wp_count [wp_simps]:
  "wp (repo_count R P) Q X = (\<lambda>s. Q (length (res (repo_find R P Unordered) s)) s)"
  by (simp add: repo_count_def wp_simps)

text \<open>A query that at most one row answers returns that row.\<close>

lemma findOne_unique:
  assumes "tab s i = Some e" and "P e" and "\<And>j e'. tab s j = Some e' \<Longrightarrow> P e' \<Longrightarrow> j = i"
  shows "res (repo_findOne R P) s = Some e"
proof (cases "res (repo_findOne R P) s")
  case None
  then show ?thesis using findOne_None assms by blast
next
  case (Some e')
  then have e': "tab s (key e') = Some e'" and "P e'" using findOne_Some by blast+
  then have "key e' = i" by (rule assms(3))
  with e' assms(1) Some show ?thesis by simp
qed

lemma findOne_absent:
  assumes "\<And>j e'. tab s j = Some e' \<Longrightarrow> \<not> P e'"
  shows "res (repo_findOne R P) s = None"
proof (cases "res (repo_findOne R P) s")
  case (Some e')
  then show ?thesis using findOne_Some assms by blast
qed

lemma wpi_findOne:
  assumes "\<And>e. tab s (key e) = Some e \<Longrightarrow> P e \<Longrightarrow> Q (Some e) s"
    and "(\<And>i e. tab s i = Some e \<Longrightarrow> \<not> P e) \<Longrightarrow> Q None s"
  shows "wp (repo_findOne R P) Q X s"
proof (cases "res (repo_findOne R P) s")
  case None
  then have "Q None s" by (intro assms(2)) (rule findOne_None)
  with None show ?thesis by (simp add: wp_repo)
next
  case (Some e)
  with findOne_Some have "Q (Some e) s" by (intro assms(1)) blast+
  with Some show ?thesis by (simp add: wp_repo)
qed

text \<open>A query by primary key is a lookup.\<close>

lemma findOne_key: "res (repo_findOne R (\<lambda>e. key e = i)) s = tab s i"
proof (cases "tab s i")
  case None
  then show ?thesis using key_tab by (auto intro!: findOne_absent)
next
  case (Some e)
  then show ?thesis using key_tab by (auto intro!: findOne_unique)
qed

lemma find_memb: "e \<in> set (res (repo_find R P ord) s) \<longleftrightarrow> tab s (key e) = Some e \<and> P e"
  by (simp add: find_set)

lemma find_Nil: "res (repo_find R P ord) s = [] \<longleftrightarrow> (\<forall>i e. tab s i = Some e \<longrightarrow> \<not> P e)"
proof -
  have "res (repo_find R P ord) s = [] \<longleftrightarrow> {e. tab s (key e) = Some e \<and> P e} = {}"
    using find_set [of P ord s] by (metis set_empty)
  then show ?thesis using key_tab by auto
qed

lemma find_card: "length (res (repo_find R P ord) s) = card {i. \<exists>e. tab s i = Some e \<and> P e}"
proof -
  have "length (res (repo_find R P ord) s) = card (key ` set (res (repo_find R P ord) s))"
    using find_distinct [of P ord s] by (metis distinct_card length_map set_map)
  also have "key ` set (res (repo_find R P ord) s) = {i. \<exists>e. tab s i = Some e \<and> P e}"
    unfolding find_set by (auto simp: image_iff) (metis key_tab)
  finally show ?thesis .
qed

end

text \<open>Writes through a repository leave the view \<open>v\<close> of the store as it is.\<close>

definition keeps :: "('s, 'e) repository \<Rightarrow> ('s \<Rightarrow> 'v) \<Rightarrow> bool" where
  "keeps R v \<longleftrightarrow> (\<forall>e s. v (fin (repo_insert R e) s) = v s) \<and> (\<forall>e s. v (fin (repo_save R e) s) = v s) \<and>
     (\<forall>P f s. v (fin (repo_update R P f) s) = v s) \<and> (\<forall>P s. v (fin (repo_delete R P) s) = v s)"

lemma keepsD:
  assumes "keeps R v"
  shows "v (fin (repo_insert R e) s) = v s" "v (fin (repo_save R e) s) = v s"
    "v (fin (repo_update R P f) s) = v s" "v (fin (repo_delete R P) s) = v s"
  using assms by (simp_all add: keeps_def)

section \<open>An in-memory repository\<close>

text \<open>
  The rows are a list inside a larger store, reached by \<open>get\<close> and \<open>put\<close>; \<open>clk\<close> reads the store's
  clock. Of several rows with one key only the first is live.
\<close>

fun live :: "('e \<Rightarrow> string) \<Rightarrow> 'e list \<Rightarrow> 'e list" where
  "live k [] = []"
| "live k (x # xs) = x # filter (\<lambda>y. k y \<noteq> k x) (live k xs)"

definition order_rows :: "'e find_order \<Rightarrow> 'e list \<Rightarrow> 'e list" where
  "order_rows ord xs = (case ord of Unordered \<Rightarrow> xs | Asc f \<Rightarrow> sort_key f xs
     | Desc f \<Rightarrow> rev (sort_key f xs))"

definition fresh_id :: "('e \<Rightarrow> string) \<Rightarrow> 'e list \<Rightarrow> string" where
  "fresh_id k xs = replicate (Suc (sum_list (map (length \<circ> k) xs))) CHR ''u''"

definition put_row :: "('e \<Rightarrow> string) \<Rightarrow> 'e \<Rightarrow> 'e list \<Rightarrow> 'e list" where
  "put_row k e xs = (if k e \<in> k ` set xs then map (\<lambda>x. if k x = k e then e else x) xs else xs @ [e])"

definition mem_repo :: "('s \<Rightarrow> 'e list) \<Rightarrow> ('e list \<Rightarrow> 's \<Rightarrow> 's) \<Rightarrow> ('s \<Rightarrow> int) \<Rightarrow>
    ('e \<Rightarrow> string) \<Rightarrow> (int \<Rightarrow> 'e \<Rightarrow> 'e) \<Rightarrow> (string \<Rightarrow> int \<Rightarrow> 'e \<Rightarrow> 'e) \<Rightarrow> ('s, 'e) repository" where
  "mem_repo get put clk k stamp gen = \<lparr>
     repo_findOne = (\<lambda>P s. (Inr (List.find P (live k (get s))), s)),
     repo_find = (\<lambda>P ord s. (Inr (order_rows ord (filter P (live k (get s)))), s)),
     repo_insert = (\<lambda>e s. let i = fresh_id k (get s); t = clk s
        in (Inr (i, t), put (live k (get s) @ [gen i t e]) s)),
     repo_save = (\<lambda>e s. (Inr (clk s), put (put_row k (stamp (clk s) e) (live k (get s))) s)),
     repo_update = (\<lambda>P f s. (Inr (length (filter P (live k (get s)))),
        put (map (\<lambda>e. if P e then f e else e) (live k (get s))) s)),
     repo_delete = (\<lambda>P s. (Inr (length (filter P (live k (get s)))),
        put (filter (\<lambda>e. \<not> P e) (live k (get s))) s))\<rparr>"

definition mem_tab :: "('s \<Rightarrow> 'e list) \<Rightarrow> ('e \<Rightarrow> string) \<Rightarrow> 's \<Rightarrow> string \<Rightarrow> 'e option" where
  "mem_tab get k s i = List.find (\<lambda>e. k e = i) (get s)"

lemma set_live: "set (live k xs) = {e. List.find (\<lambda>x. k x = k e) xs = Some e}"
  by (induction xs) auto

lemma distinct_live: "distinct (map k (live k xs))"
proof (induction xs)
  case (Cons x xs)
  then show ?case by (auto simp: distinct_map intro: inj_on_subset)
qed simp

lemma find_live: "List.find (\<lambda>e. k e = i) (live k xs) = List.find (\<lambda>e. k e = i) xs"
proof (induction xs)
  case (Cons x xs)
  have "List.find (\<lambda>e. k e = i) (filter (\<lambda>y. k y \<noteq> j) ys) = List.find (\<lambda>e. k e = i) ys"
    if "j \<noteq> i" for j and ys :: "'a list"
    using that by (induction ys) auto
  with Cons show ?case by auto
qed simp

lemma find_Some_in: "List.find P xs = Some e \<Longrightarrow> e \<in> set xs \<and> P e"
  by (induction xs) (auto split: if_splits)

lemma find_distinct_eq:
  "distinct (map k xs) \<Longrightarrow> List.find (\<lambda>e. k e = i) xs = Some e \<longleftrightarrow> e \<in> set xs \<and> k e = i"
  by (induction xs) (auto simp: image_iff)

lemma length_sum: "x \<in> set xs \<Longrightarrow> length (k x) \<le> sum_list (map (length \<circ> k) xs)"
  by (induction xs) auto

lemma fresh_id_fresh: "List.find (\<lambda>e. k e = fresh_id k xs) xs = None"
proof -
  have "k x \<noteq> fresh_id k xs" if "x \<in> set xs" for x
    using length_sum [OF that, of k] by (auto simp: fresh_id_def dest: arg_cong [of _ _ length])
  then show ?thesis by (simp add: find_None_iff)
qed

lemma find_put_row:
  assumes "k e' = k e"
  shows "List.find (\<lambda>x. k x = i) (put_row k e' xs) =
    (if i = k e then Some e' else List.find (\<lambda>x. k x = i) xs)"
proof -
  have map_case: "List.find (\<lambda>x. k x = i) (map (\<lambda>x. if k x = k e' then e' else x) xs) =
      (if i = k e' then (if k e' \<in> k ` set xs then Some e' else None) else List.find (\<lambda>x. k x = i) xs)"
    by (induction xs) auto
  have app_case: "List.find (\<lambda>x. k x = i) (xs @ [e']) =
      (if i = k e' then Some e' else List.find (\<lambda>x. k x = i) xs)" if "k e' \<notin> k ` set xs"
    using that by (induction xs) auto
  show ?thesis
    by (cases "i = k e"; cases "k e' \<in> k ` set xs") (use map_case app_case assms in \<open>simp_all add: put_row_def\<close>)
qed

lemma find_map_keep:
  assumes "\<And>e. k (f e) = k e"
  shows "List.find (\<lambda>x. k x = i) (map (\<lambda>e. if P e then f e else e) xs) =
    map_option (\<lambda>e. if P e then f e else e) (List.find (\<lambda>x. k x = i) xs)"
  by (induction xs) (auto simp: assms)

lemma find_filter_live:
  assumes "distinct (map k xs)"
  shows "List.find (\<lambda>x. k x = i) (filter (\<lambda>e. \<not> P e) xs) =
    (case List.find (\<lambda>x. k x = i) xs of None \<Rightarrow> None | Some e \<Rightarrow> if P e then None else Some e)"
  using assms
proof (induction xs)
  case (Cons x xs)
  have "List.find (\<lambda>y. k y = k x) xs = None"
    using Cons.prems by (auto simp: find_None_iff image_iff)
  with Cons show ?case by auto
qed simp

lemma find_snoc: "List.find (\<lambda>x. k x = j) (xs @ [y]) =
    (if k y = j \<and> List.find (\<lambda>x. k x = j) xs = None then Some y else List.find (\<lambda>x. k x = j) xs)"
  by (induction xs) auto

lemma in_order_order_rows: "in_order ord (order_rows ord xs)"
  by (cases ord) (auto simp: order_rows_def rev_map)

lemma set_order_rows [simp]: "set (order_rows ord xs) = set xs"
  by (cases ord) (auto simp: order_rows_def)

lemma distinct_order_rows: "distinct (map k xs) \<Longrightarrow> distinct (map k (order_rows ord xs))"
  by (cases ord) (auto simp: order_rows_def distinct_map rev_map)

lemmas mem_repo_unfold = mem_repo_def mem_tab_def ok_def res_def fin_def

lemma mem_repo_table:
  assumes gp: "\<And>xs s. get (put xs s) = xs"
    and ks: "\<And>t e. k (stamp t e) = k e" and kg: "\<And>i t e. k (gen i t e) = i"
  shows "repo_table (mem_repo get put clk k stamp gen) (mem_tab get k) k stamp gen"
proof (unfold_locales, goal_cases)
  case (1 s i e) then show ?case by (auto simp: mem_tab_def dest: find_Some_in)
next
  case (2 s)
  have "dom (mem_tab get k s) \<subseteq> k ` set (get s)"
    by (auto simp: mem_tab_def dest!: find_Some_in)
  then show ?case by (rule finite_subset) simp
next
  case (5 P s e)
  then have "List.find P (live k (get s)) = Some e" by (simp add: mem_repo_unfold)
  then have "e \<in> set (live k (get s)) \<and> P e" by (rule find_Some_in)
  then show ?case by (simp add: mem_tab_def set_live)
next
  case (6 P s i e)
  then have "List.find (\<lambda>x. k x = i) (get s) = Some e" by (simp add: mem_tab_def)
  moreover from this have "k e = i" using find_Some_in by fastforce
  ultimately have "e \<in> set (live k (get s))" by (simp add: set_live)
  moreover have "List.find P (live k (get s)) = None" using 6(1) by (simp add: mem_repo_unfold)
  ultimately show ?case by (simp add: find_None_iff)
next
  case (9 P ord s) show ?case
    by (simp add: mem_repo_unfold set_live Collect_conj_eq [symmetric] conj_commute)
next
  case (10 P ord s) then show ?case
    using distinct_live [of k "get s"]
    by (simp add: mem_repo_unfold distinct_order_rows distinct_map_filter)
next
  case (13 e s i t)
  then have "i = fresh_id k (get s)" by (simp add: mem_repo_unfold Let_def)
  then show ?case by (simp add: mem_tab_def fresh_id_fresh kg)
next
  case (14 e s i t)
  then have i: "i = fresh_id k (get s)" "t = clk s" by (simp_all add: mem_repo_unfold Let_def)
  have "mem_tab get k (fin (repo_insert (mem_repo get put clk k stamp gen) e) s) j =
      ((mem_tab get k s)(i \<mapsto> gen i t e)) j" for j
    by (simp add: mem_repo_unfold Let_def gp i find_snoc find_live kg fresh_id_fresh)
  then show ?case by blast
next
  case (16 e s)
  have "mem_tab get k (fin (repo_save (mem_repo get put clk k stamp gen) e) s) j =
      ((mem_tab get k s)(k e \<mapsto> stamp (clk s) e)) j" for j
    by (simp add: mem_repo_unfold gp ks find_put_row [of k "stamp (clk s) e" e] find_live)
  then have "mem_tab get k (fin (repo_save (mem_repo get put clk k stamp gen) e) s) =
      (mem_tab get k s)(k e \<mapsto> stamp (clk s) e)" by blast
  then show ?case by (simp add: mem_repo_def res_def)
next
  case (18 f P s) then show ?case
    by (simp add: fun_eq_iff mem_repo_unfold gp find_map_keep find_live)
next
  case (20 P s) show ?case
    by (simp add: fun_eq_iff mem_repo_unfold gp find_filter_live distinct_live find_live)
qed (simp_all add: mem_repo_unfold Let_def in_order_order_rows)

text \<open>The in-memory repository writes its own rows only.\<close>

lemma mem_repo_keeps: "(\<And>xs s. v (put xs s) = v s) \<Longrightarrow> keeps (mem_repo get put clk k stamp gen) v"
  by (simp add: keeps_def mem_repo_def fin_def Let_def)

end
