(* ===== verification/Workflow_Types.thy ===== *)
theory Workflow_Types
  imports Idempotency State_Machine Ext_Repository
begin

text \<open>
  The data of the workflow engine: the enums and interfaces of src/Backend/src/workflow/types, the
  entities of src/Backend/src/workflow/entities, and \<open>WorkflowStateMachineService\<close>
  (services/workflow-state-machine.service.ts) with its two transition tables. Times are
  milliseconds since 1970; a nullable column is an option.
\<close>

section \<open>Enums\<close>

datatype WorkflowState = WPENDING | WRUNNING | WCOMPLETED | WFAILED | WCANCELLED
  | WCOMPENSATING | WCOMPENSATED

datatype StepState = SPENDING | SRUNNING | SCOMPLETED | SFAILED | SSKIPPED
  | SCOMPENSATING | SCOMPENSATED

fun workflow_state_value :: "WorkflowState \<Rightarrow> string" where
  "workflow_state_value WPENDING = ''pending''"
| "workflow_state_value WRUNNING = ''running''"
| "workflow_state_value WCOMPLETED = ''completed''"
| "workflow_state_value WFAILED = ''failed''"
| "workflow_state_value WCANCELLED = ''cancelled''"
| "workflow_state_value WCOMPENSATING = ''compensating''"
| "workflow_state_value WCOMPENSATED = ''compensated''"

fun step_state_value :: "StepState \<Rightarrow> string" where
  "step_state_value SPENDING = ''pending''"
| "step_state_value SRUNNING = ''running''"
| "step_state_value SCOMPLETED = ''completed''"
| "step_state_value SFAILED = ''failed''"
| "step_state_value SSKIPPED = ''skipped''"
| "step_state_value SCOMPENSATING = ''compensating''"
| "step_state_value SCOMPENSATED = ''compensated''"

instantiation WorkflowState :: enum
begin

definition enum_WorkflowState :: "WorkflowState list" where
  "enum_WorkflowState = [WPENDING, WRUNNING, WCOMPLETED, WFAILED, WCANCELLED, WCOMPENSATING, WCOMPENSATED]"

definition enum_all_WorkflowState :: "(WorkflowState \<Rightarrow> bool) \<Rightarrow> bool" where
  "enum_all_WorkflowState P = list_all P enum_class.enum"

definition enum_ex_WorkflowState :: "(WorkflowState \<Rightarrow> bool) \<Rightarrow> bool" where
  "enum_ex_WorkflowState P = list_ex P enum_class.enum"

instance
proof
  show univ: "UNIV = set (enum_class.enum :: WorkflowState list)"
    unfolding enum_WorkflowState_def by (auto intro: WorkflowState.exhaust)
  show "distinct (enum_class.enum :: WorkflowState list)"
    by (simp add: enum_WorkflowState_def)
  show "enum_class.enum_all P \<longleftrightarrow> Ball UNIV P" for P :: "WorkflowState \<Rightarrow> bool"
    by (simp add: enum_all_WorkflowState_def list_all_iff univ)
  show "enum_class.enum_ex P \<longleftrightarrow> Bex UNIV P" for P :: "WorkflowState \<Rightarrow> bool"
    by (simp add: enum_ex_WorkflowState_def list_ex_iff univ)
qed

end

section \<open>Definitions of workflows\<close>

record workflow_context =
  ctx_workflowId :: string
  ctx_idempotencyKey :: string
  ctx_userId :: "string option"
  ctx_walletAddress :: "string option"
  ctx_type :: string
  ctx_retryCount :: nat
  ctx_stepIndex :: nat
  ctx_metadata :: "jobj option"

text \<open>
  What a step's \<open>execute\<close> receives as its input: an object, or a promise with its outcome.
  A promise has no properties of its own, so every property of it reads \<open>undefined\<close>.
\<close>

datatype step_arg = ArgObj jobj | ArgPromise "exn + jobj"

fun arg_props :: "step_arg \<Rightarrow> jobj" where
  "arg_props (ArgObj ps) = ps"
| "arg_props (ArgPromise _) = []"

record 's StepDefinition =
  sd_name :: string
  sd_execute :: "step_arg \<Rightarrow> workflow_context \<Rightarrow> ('s, json option) prog"
  sd_compensate :: "(step_arg \<Rightarrow> json option \<Rightarrow> workflow_context \<Rightarrow> ('s, json option) prog) option"
  sd_isIdempotent :: bool
  sd_maxRetries :: "nat option"
  sd_config :: "jobj option"

record 's WorkflowDefinition =
  wd_type :: string
  wd_steps :: "'s StepDefinition list"
  wd_maxRetries :: "nat option"
  wd_requiresCompensation :: "bool option"

section \<open>Entities\<close>

record Workflow =
  wf_id :: string
  wf_idempotencyKey :: string
  wf_type :: string
  wf_state :: WorkflowState
  wf_userId :: "string option"
  wf_walletAddress :: "string option"
  wf_input :: jobj
  wf_output :: "json option"
  wf_context :: "jobj option"
  wf_currentStepIndex :: nat
  wf_totalSteps :: nat
  wf_startedAt :: "int option"
  wf_completedAt :: "int option"
  wf_failedAt :: "int option"
  wf_failureReason :: "string option"
  wf_retryCount :: nat
  wf_maxRetries :: nat
  wf_nextRetryAt :: "int option"
  wf_requiresCompensation :: bool
  wf_isCompensated :: bool
  wf_createdAt :: int
  wf_updatedAt :: int

record WorkflowStep =
  st_id :: string
  st_workflowId :: string
  st_stepName :: string
  st_stepIndex :: nat
  st_state :: StepState
  st_input :: "json option"
  st_output :: "json option"
  st_config :: "jobj option"
  st_retryCount :: nat
  st_maxRetries :: nat
  st_startedAt :: "int option"
  st_completedAt :: "int option"
  st_failedAt :: "int option"
  st_failureReason :: "string option"
  st_nextRetryAt :: "int option"
  st_requiresCompensation :: bool
  st_isCompensated :: bool
  st_compensatedAt :: "int option"
  st_isIdempotent :: bool
  st_idempotencyKey :: "string option"
  st_createdAt :: int
  st_updatedAt :: int

text \<open>The generated columns: primary key, creation and update time.\<close>

definition wf_stamp :: "int \<Rightarrow> Workflow \<Rightarrow> Workflow" where
  "wf_stamp t w = w\<lparr>wf_updatedAt := t\<rparr>"

definition wf_gen :: "string \<Rightarrow> int \<Rightarrow> Workflow \<Rightarrow> Workflow" where
  "wf_gen i t w = w\<lparr>wf_id := i, wf_createdAt := t, wf_updatedAt := t\<rparr>"

definition st_stamp :: "int \<Rightarrow> WorkflowStep \<Rightarrow> WorkflowStep" where
  "st_stamp t x = x\<lparr>st_updatedAt := t\<rparr>"

definition st_gen :: "string \<Rightarrow> int \<Rightarrow> WorkflowStep \<Rightarrow> WorkflowStep" where
  "st_gen i t x = x\<lparr>st_id := i, st_createdAt := t, st_updatedAt := t\<rparr>"

section \<open>The state machine service\<close>

fun workflowTransitions :: "WorkflowState \<Rightarrow> WorkflowState list" where
  "workflowTransitions WPENDING = [WRUNNING, WCANCELLED]"
| "workflowTransitions WRUNNING = [WCOMPLETED, WFAILED, WCANCELLED, WCOMPENSATING]"
| "workflowTransitions WCOMPLETED = [WCOMPENSATING]"
| "workflowTransitions WFAILED = [WRUNNING, WCANCELLED, WCOMPENSATING]"
| "workflowTransitions WCANCELLED = [WCOMPENSATING]"
| "workflowTransitions WCOMPENSATING = [WCOMPENSATED, WFAILED]"
| "workflowTransitions WCOMPENSATED = []"

fun stepTransitions :: "StepState \<Rightarrow> StepState list" where
  "stepTransitions SPENDING = [SRUNNING, SSKIPPED]"
| "stepTransitions SRUNNING = [SCOMPLETED, SFAILED, SSKIPPED]"
| "stepTransitions SCOMPLETED = [SCOMPENSATING]"
| "stepTransitions SFAILED = [SRUNNING, SSKIPPED, SCOMPENSATING]"
| "stepTransitions SSKIPPED = [SCOMPENSATING]"
| "stepTransitions SCOMPENSATING = [SCOMPENSATED, SFAILED]"
| "stepTransitions SCOMPENSATED = []"

definition canTransitionWorkflow :: "WorkflowState \<Rightarrow> WorkflowState \<Rightarrow> bool" where
  "canTransitionWorkflow a b = List.member (workflowTransitions a) b"

definition canTransitionStep :: "StepState \<Rightarrow> StepState \<Rightarrow> bool" where
  "canTransitionStep a b = List.member (stepTransitions a) b"

definition transitionWorkflow :: "WorkflowState \<Rightarrow> WorkflowState \<Rightarrow> transition_result" where
  "transitionWorkflow currentState newState =
     (if \<not> canTransitionWorkflow currentState newState
      then \<lparr>tr_success = False, tr_error = Some (''Invalid workflow state transition from '' @
              workflow_state_value currentState @ '' to '' @ workflow_state_value newState)\<rparr>
      else \<lparr>tr_success = True, tr_error = None\<rparr>)"

definition transitionStep :: "StepState \<Rightarrow> StepState \<Rightarrow> transition_result" where
  "transitionStep currentState newState =
     (if \<not> canTransitionStep currentState newState
      then \<lparr>tr_success = False, tr_error = Some (''Invalid step state transition from '' @
              step_state_value currentState @ '' to '' @ step_state_value newState)\<rparr>
      else \<lparr>tr_success = True, tr_error = None\<rparr>)"

definition getValidWorkflowTransitions :: "WorkflowState \<Rightarrow> WorkflowState list" where
  "getValidWorkflowTransitions currentState = workflowTransitions currentState"

definition getValidStepTransitions :: "StepState \<Rightarrow> StepState list" where
  "getValidStepTransitions currentState = stepTransitions currentState"

definition isWorkflowTerminal :: "WorkflowState \<Rightarrow> bool" where
  "isWorkflowTerminal s = (s = WCOMPLETED \<or> s = WCANCELLED \<or> s = WCOMPENSATED)"

definition isStepTerminal :: "StepState \<Rightarrow> bool" where
  "isStepTerminal s = (s = SCOMPLETED \<or> s = SSKIPPED \<or> s = SCOMPENSATED)"

definition isWorkflowRecoverable :: "WorkflowState \<Rightarrow> bool" where
  "isWorkflowRecoverable s = (s = WFAILED)"

definition isStepRecoverable :: "StepState \<Rightarrow> bool" where
  "isStepRecoverable s = (s = SFAILED)"

definition canWorkflowCompensate :: "WorkflowState \<Rightarrow> bool" where
  "canWorkflowCompensate s = List.member [WCOMPLETED, WFAILED, WCANCELLED] s"

definition canStepCompensate :: "StepState \<Rightarrow> bool" where
  "canStepCompensate s = List.member [SCOMPLETED, SFAILED, SSKIPPED] s"

text \<open>
  \<open>shouldRetry\<close> takes a state of either enum; both \<open>FAILED\<close> values are the string \<open>failed\<close>,
  which is what the comparison sees.
\<close>

definition shouldRetry :: "string \<Rightarrow> nat \<Rightarrow> nat \<Rightarrow> bool" where
  "shouldRetry s retryCount maxRetries = (s = ''failed'' \<and> retryCount < maxRetries)"

text \<open>
  \<open>Math.random()\<close> returns a multiple of \<open>2\<^sup>-\<^sup>5\<^sup>3\<close> below 1: \<open>random53\<close> is its numerator. A \<open>Date\<close>
  keeps whole milliseconds; the sum is computed exactly here.
\<close>

definition calculateNextRetryTime :: "int \<Rightarrow> nat \<Rightarrow> nat \<Rightarrow> nat \<Rightarrow> int" where
  "calculateNextRetryTime now random53 retryCount baseDelay =
     (let exponentialDelay = int baseDelay * 2 ^ retryCount
      in now + exponentialDelay + (int random53 * exponentialDelay) div (10 * 2 ^ 53))"

section \<open>The tables as transition systems\<close>

interpretation wtable: transition_table getValidWorkflowTransitions canTransitionWorkflow
  by unfold_locales (simp add: canTransitionWorkflow_def getValidWorkflowTransitions_def)

interpretation stable: transition_table getValidStepTransitions canTransitionStep
  by unfold_locales (simp add: canTransitionStep_def getValidStepTransitions_def)

lemmas workflow_machine = canTransitionWorkflow_def transitionWorkflow_def

lemmas step_machine = canTransitionStep_def transitionStep_def

lemma transitionWorkflow_success [simp]:
  "tr_success (transitionWorkflow a b) = canTransitionWorkflow a b"
  by (simp add: transitionWorkflow_def)

lemma transitionStep_success [simp]:
  "tr_success (transitionStep a b) = canTransitionStep a b"
  by (simp add: transitionStep_def)

lemma can_run_workflow: "canTransitionWorkflow a WRUNNING \<longleftrightarrow> a = WPENDING \<or> a = WFAILED"
  by (cases a) (simp_all add: canTransitionWorkflow_def)

lemma can_run_step: "canTransitionStep a SRUNNING \<longleftrightarrow> a = SPENDING \<or> a = SFAILED"
  by (cases a) (simp_all add: canTransitionStep_def)

lemma can_cancel_workflow:
  "canTransitionWorkflow a WCANCELLED \<longleftrightarrow> a = WPENDING \<or> a = WRUNNING \<or> a = WFAILED"
  by (cases a) (simp_all add: canTransitionWorkflow_def)

lemma can_compensate_workflow:
  "canTransitionWorkflow a WCOMPENSATING \<longleftrightarrow> canWorkflowCompensate a \<or> a = WRUNNING"
  by (cases a) (simp_all add: canTransitionWorkflow_def canWorkflowCompensate_def)

lemma can_compensate_step:
  "canTransitionStep a SCOMPENSATING \<longleftrightarrow> canStepCompensate a"
  by (cases a) (simp_all add: canTransitionStep_def canStepCompensate_def)

section \<open>Properties of the state machine\<close>

text \<open>
  Which workflow states can be left and where to: \<open>pending\<close> is entered from nowhere,
  \<open>compensated\<close> is the only final state, every state can get to it, and a workflow that started
  to be compensated or was cancelled reaches \<open>running\<close> again only through \<open>failed\<close>.
\<close>

theorem workflow_reachability:
  "wtable.reach a WCOMPENSATED
   \<and> (wtable.reach a WPENDING \<longleftrightarrow> a = WPENDING)
   \<and> (wtable.reach WCOMPENSATED a \<longleftrightarrow> a = WCOMPENSATED)
   \<and> (getValidWorkflowTransitions a = [] \<longleftrightarrow> a = WCOMPENSATED)
   \<and> (canTransitionWorkflow a WRUNNING \<longleftrightarrow> a = WPENDING \<or> a = WFAILED)"
proof (intro conjI)
  have "canTransitionWorkflow WCOMPENSATING WCOMPENSATED" by (simp add: canTransitionWorkflow_def)
  then have c: "wtable.reach WCOMPENSATING WCOMPENSATED" by (rule wtable.reach_one)
  have "a = WCOMPENSATED \<or> a = WCOMPENSATING \<or> a = WPENDING \<or> canTransitionWorkflow a WCOMPENSATING"
    by (cases a) (simp_all add: canTransitionWorkflow_def)
  moreover have "wtable.reach WPENDING WCOMPENSATING"
    by (rule wtable.reach_trans [OF wtable.reach_one wtable.reach_one, of _ WRUNNING])
      (simp_all add: canTransitionWorkflow_def)
  ultimately show "wtable.reach a WCOMPENSATED"
    using c wtable.reach_one wtable.reach_trans wtable.reach_refl by blast
  have "\<not> canTransitionWorkflow x WPENDING" for x by (cases x) (simp_all add: canTransitionWorkflow_def)
  then show "wtable.reach a WPENDING \<longleftrightarrow> a = WPENDING"
    using wtable.never_reentered wtable.reach_refl by blast
  show "wtable.reach WCOMPENSATED a \<longleftrightarrow> a = WCOMPENSATED"
    using wtable.final_stays [of WCOMPENSATED a] wtable.reach_refl
    by (auto simp: getValidWorkflowTransitions_def)
  show "getValidWorkflowTransitions a = [] \<longleftrightarrow> a = WCOMPENSATED"
    by (cases a) (simp_all add: getValidWorkflowTransitions_def)
qed (rule can_run_workflow)

text \<open>
  The retry time of the exponential backoff lies between the full delay and the full delay
  plus ten percent, and the delay doubles with every retry.
\<close>

theorem retry_time_bounds:
  assumes "random53 < 2 ^ 53"
  shows "now + int base * 2 ^ n \<le> calculateNextRetryTime now random53 n base
    \<and> 10 * (calculateNextRetryTime now random53 n base - now) \<le> 11 * (int base * 2 ^ n)"
proof -
  let ?e = "int base * 2 ^ n"
  have e: "0 \<le> ?e" by simp
  have "(int random53 * ?e) div (10 * 2 ^ 53) * (10 * 2 ^ 53) \<le> int random53 * ?e"
    by (simp only: minus_mod_eq_div_mult [symmetric]) simp
  also have "\<dots> \<le> 2 ^ 53 * ?e"
    using assms e by (intro mult_right_mono) simp_all
  finally have "10 * ((int random53 * ?e) div (10 * 2 ^ 53)) \<le> ?e" by simp
  moreover have "0 \<le> (int random53 * ?e) div (10 * 2 ^ 53)"
    using e by (simp add: pos_imp_zdiv_nonneg_iff)
  ultimately show ?thesis by (simp add: calculateNextRetryTime_def Let_def)
qed

theorem retry_time_bounds_witness:
  "5000 + int 1000 * 2 ^ 3 \<le> calculateNextRetryTime 5000 (2 ^ 52) 3 1000
    \<and> 10 * (calculateNextRetryTime 5000 (2 ^ 52) 3 1000 - 5000) \<le> 11 * (int 1000 * 2 ^ 3)"
  by (rule retry_time_bounds) simp

end
