(* ===== verification/Workflow_Execution.thy ===== *)
theory Workflow_Execution
  imports Workflow_Types
begin

text \<open>
  \<open>WorkflowExecutionService\<close> (src/Backend/src/workflow/services/workflow-execution.service.ts).
  The two repositories, the clock, \<open>Math.random\<close>, \<open>setTimeout\<close> and the hash are the record
  \<open>engine\<close>; the registered definitions are the map \<open>defs\<close>. A method that mutates the entity it is
  given is a program over the store and that entity. The locale \<open>engine_env\<close> states what the
  engine relies on, and \<open>mem_engine\<close> is an in-memory engine that satisfies it.
\<close>

section \<open>The engine's environment\<close>

record 's engine =
  eng_workflows :: "('s, Workflow) repository"
  eng_steps :: "('s, WorkflowStep) repository"
  eng_now :: "'s \<Rightarrow> int"
  eng_random53 :: "'s \<Rightarrow> nat"
  eng_delay :: "int \<Rightarrow> 's \<Rightarrow> 's"
  eng_sha256 :: "string \<Rightarrow> string"

type_synonym 's definitions = "string \<Rightarrow> 's WorkflowDefinition option"

definition nowE :: "'s engine \<Rightarrow> ('s, int) prog" where
  "nowE E = readE (eng_now E)"

definition delay :: "'s engine \<Rightarrow> int \<Rightarrow> ('s, unit) prog" where
  "delay E ms = (\<lambda>s. (Inr (), eng_delay E ms s))"

text \<open>\<open>repository.save(entity)\<close> of a loaded entity.\<close>

definition saveWorkflow :: "'s engine \<Rightarrow> ('s \<times> Workflow, unit) prog" where
  "saveWorkflow E = bindE getL (\<lambda>w. bindE (liftL (repo_save (eng_workflows E) w)) (\<lambda>t. modL (wf_stamp t)))"

definition saveStep :: "'s engine \<Rightarrow> ('s \<times> WorkflowStep, unit) prog" where
  "saveStep E = bindE getL (\<lambda>x. bindE (liftL (repo_save (eng_steps E) x)) (\<lambda>t. modL (st_stamp t)))"

text \<open>The relation \<open>steps\<close> of a workflow.\<close>

definition loadSteps :: "'s engine \<Rightarrow> string \<Rightarrow> ('s, WorkflowStep list) prog" where
  "loadSteps E i = repo_find (eng_steps E) (\<lambda>x. st_workflowId x = i) Unordered"

section \<open>The service\<close>

definition registerWorkflowDefinition :: "'s definitions \<Rightarrow> 's WorkflowDefinition \<Rightarrow> 's definitions" where
  "registerWorkflowDefinition defs d = defs(wd_type d \<mapsto> d)"

definition getWorkflowDefinition :: "'s definitions \<Rightarrow> string \<Rightarrow> 's WorkflowDefinition option" where
  "getWorkflowDefinition defs type = defs type"

text \<open>Assignment to a property of a JavaScript object: the property keeps its place.\<close>

fun set_prop :: "jobj \<Rightarrow> string \<Rightarrow> json \<Rightarrow> jobj" where
  "set_prop [] k v = [(k, v)]"
| "set_prop ((k', v') # ps) k v = (if k' = k then (k, v) # ps else (k', v') # set_prop ps k v)"

definition prepareStepInput :: "'s engine \<Rightarrow> Workflow \<Rightarrow> WorkflowStep \<Rightarrow> ('s, jobj) prog" where
  "prepareStepInput E workflow step =
     (if 0 < st_stepIndex step then
        bindE (repo_find (eng_steps E)
                (\<lambda>x. st_workflowId x = wf_id workflow \<and> st_stepIndex x < st_stepIndex step)
                (Asc (\<lambda>x. int (st_stepIndex x))))
          (\<lambda>previousSteps. returnE (fold (\<lambda>prevStep stepInput.
             if truthy_result (st_output prevStep)
             then set_prop stepInput (st_stepName prevStep) (the (st_output prevStep))
             else stepInput) previousSteps (wf_input workflow)))
      else returnE (wf_input workflow))"

text \<open>A missing step definition is \<open>undefined\<close>, and reading its property throws.\<close>

definition executeWithIdempotency ::
    "'s StepDefinition option \<Rightarrow> step_arg \<Rightarrow> workflow_context \<Rightarrow> string option \<Rightarrow> ('s, json option) prog" where
  "executeWithIdempotency stepDefinition input context idempotencyKey =
     (case stepDefinition of
        None \<Rightarrow> throwE (TypeError ''Cannot read properties of undefined (reading isIdempotent)'')
      | Some d \<Rightarrow> if \<not> sd_isIdempotent d \<or> \<not> truthy idempotencyKey
                 then sd_execute d input context
                 else sd_execute d input context)"

definition stepContext :: "Workflow \<Rightarrow> WorkflowStep \<Rightarrow> workflow_context" where
  "stepContext workflow step = \<lparr>
     ctx_workflowId = wf_id workflow, ctx_idempotencyKey = wf_idempotencyKey workflow,
     ctx_userId = wf_userId workflow, ctx_walletAddress = wf_walletAddress workflow,
     ctx_type = wf_type workflow, ctx_retryCount = st_retryCount step,
     ctx_stepIndex = st_stepIndex step, ctx_metadata = wf_context workflow\<rparr>"

text \<open>
  \<open>executeStep\<close> up to its \<open>try\<close>, the \<open>try\<close> block and the \<open>catch\<close> block. \<open>prepareStepInput\<close> is an
  \<open>async\<close> method called without \<open>await\<close>: \<open>stepInput\<close> is the promise.
\<close>

definition executeStep_start :: "'s engine \<Rightarrow> ('s \<times> WorkflowStep, unit) prog" where
  "executeStep_start E =
     bindE getL (\<lambda>step.
       let transition = transitionStep (st_state step) SRUNNING in
       if \<not> tr_success transition
       then throwE (Error (''Cannot execute step: '' @ the (tr_error transition)))
       else bindE (liftL (nowE E)) (\<lambda>t.
         seqE (modL (\<lambda>x. x\<lparr>st_state := SRUNNING, st_startedAt := Some t\<rparr>)) (saveStep E)))"

definition executeStep_try ::
    "'s engine \<Rightarrow> Workflow \<Rightarrow> 's StepDefinition option \<Rightarrow> ('s \<times> WorkflowStep, unit) prog" where
  "executeStep_try E workflow stepDefinition =
     bindE getL (\<lambda>step.
       let context = stepContext workflow step in
       bindE (liftL (settle (prepareStepInput E workflow step))) (\<lambda>promise.
         let stepInput = ArgPromise promise;
             stepIdempotencyKey = (if st_isIdempotent step
               then Some (generateStepIdempotencyKey (eng_sha256 E) (wf_idempotencyKey workflow)
                            (st_stepName step) (arg_props stepInput))
               else None) in
         seqE (whenE (st_isIdempotent step)
                (seqE (modL (\<lambda>x. x\<lparr>st_idempotencyKey := stepIdempotencyKey\<rparr>)) (saveStep E)))
         (bindE (liftL (executeWithIdempotency stepDefinition stepInput context stepIdempotencyKey))
           (\<lambda>output. bindE (liftL (nowE E)) (\<lambda>t.
             seqE (modL (\<lambda>x. x\<lparr>st_state := SCOMPLETED, st_output := output, st_completedAt := Some t\<rparr>))
               (saveStep E))))))"

definition executeStep_catch :: "'s engine \<Rightarrow> exn \<Rightarrow> ('s \<times> WorkflowStep, unit) prog" where
  "executeStep_catch E error =
     bindE (liftL (nowE E)) (\<lambda>t.
     seqE (modL (\<lambda>x. x\<lparr>st_state := SFAILED, st_failedAt := Some t,
                       st_failureReason := Some (exn_message error), st_retryCount := st_retryCount x + 1\<rparr>))
     (bindE getL (\<lambda>step.
       if shouldRetry (step_state_value SFAILED) (st_retryCount step) (st_maxRetries step)
       then bindE (liftL (readE (eng_random53 E))) (\<lambda>r.
              bindE (liftL (nowE E)) (\<lambda>t1.
              let nextRetryAt = calculateNextRetryTime t1 r (st_retryCount step) 1000 in
              seqE (modL (\<lambda>x. x\<lparr>st_nextRetryAt := Some nextRetryAt\<rparr>))
              (seqE (saveStep E)
              (bindE (liftL (nowE E)) (\<lambda>t2. liftL (delay E (nextRetryAt - t2)))))))
       else seqE (saveStep E)
              (throwE (Error (''Step '' @ st_stepName step @ '' failed after '' @
                 show_nat (st_retryCount step) @ '' retries: '' @ exn_message error))))))"

text \<open>The \<open>catch\<close> block ends with the recursive call when it did not throw.\<close>

lemma wp_saveStep [wp_simps]:
  "wp (saveStep E) Q X = (\<lambda>p. wp (repo_save (eng_steps E) (snd p))
     (\<lambda>t s'. Q () (s', st_stamp t (snd p))) (\<lambda>e s'. X e (s', snd p)) (fst p))"
  by (simp add: saveStep_def wp_simps)

lemma wp_saveWorkflow [wp_simps]:
  "wp (saveWorkflow E) Q X = (\<lambda>p. wp (repo_save (eng_workflows E) (snd p))
     (\<lambda>t s'. Q () (s', wf_stamp t (snd p))) (\<lambda>e s'. X e (s', snd p)) (fst p))"
  by (simp add: saveWorkflow_def wp_simps)

lemma wp_nowE [wp_simps]: "wp (nowE E) Q X = (\<lambda>s. Q (eng_now E s) s)"
  by (simp add: nowE_def wp_simps)

lemma wp_delay [wp_simps]: "wp (delay E ms) Q X = (\<lambda>s. Q () (eng_delay E ms s))"
  by (rule ext) (simp add: delay_def wp_def)

definition same_budget :: "WorkflowStep \<Rightarrow> 's \<times> WorkflowStep \<Rightarrow> bool" where
  "same_budget x p \<longleftrightarrow> st_retryCount (snd p) = st_retryCount x \<and> st_maxRetries (snd p) = st_maxRetries x
     \<and> st_id (snd p) = st_id x \<and> st_stepName (snd p) = st_stepName x"

lemma st_stamp_sel [simp]:
  "st_retryCount (st_stamp t x) = st_retryCount x" "st_maxRetries (st_stamp t x) = st_maxRetries x"
  "st_id (st_stamp t x) = st_id x" "st_state (st_stamp t x) = st_state x"
  "st_stepName (st_stamp t x) = st_stepName x"
  by (simp_all add: st_stamp_def)

lemma executeStep_start_budget:
  "wp (executeStep_start E) (\<lambda>_. same_budget (snd p)) (\<lambda>_. same_budget (snd p)) p"
  by (simp add: executeStep_start_def wp_simps same_budget_def Let_def)

lemma executeStep_try_budget:
  "wp (executeStep_try E w d) (\<lambda>_. same_budget (snd p)) (\<lambda>_. same_budget (snd p)) p"
  by (simp add: executeStep_try_def wp_simps same_budget_def Let_def)

lemma executeStep_catch_budget:
  "wp (executeStep_catch E e)
     (\<lambda>_ q. st_retryCount (snd q) = Suc (st_retryCount (snd p)) \<and> st_maxRetries (snd q) = st_maxRetries (snd p)
        \<and> Suc (st_retryCount (snd p)) < st_maxRetries (snd p))
     (\<lambda>_ _. True) p"
  by (simp add: executeStep_catch_def wp_simps Let_def shouldRetry_def)

text \<open>\<open>executeStep\<close>: a failed attempt whose \<open>catch\<close> block schedules a retry calls the method again.\<close>

function executeStep ::
    "'s engine \<Rightarrow> Workflow \<Rightarrow> 's StepDefinition option \<Rightarrow> ('s \<times> WorkflowStep, unit) prog" where
  "executeStep E workflow stepDefinition p =
     (case executeStep_start E p of
        (Inl e, q) \<Rightarrow> (Inl e, q)
      | (Inr _, q) \<Rightarrow>
          (case executeStep_try E workflow stepDefinition q of
             (Inr _, r) \<Rightarrow> (Inr (), r)
           | (Inl error, r) \<Rightarrow>
               (case executeStep_catch E error r of
                  (Inl e, t) \<Rightarrow> (Inl e, t)
                | (Inr _, t) \<Rightarrow> executeStep E workflow stepDefinition t)))"
  by pat_completeness auto

text \<open>What one attempt does to the retry budget of the step.\<close>

lemma attempt_budget:
  assumes "executeStep_start E p = (Inr u, q)" and "executeStep_try E w d q = (Inl e, r)"
    and "executeStep_catch E e r = (Inr u', t)"
  shows "st_maxRetries (snd t) = st_maxRetries (snd p)"
    and "st_retryCount (snd t) = Suc (st_retryCount (snd p))"
    and "Suc (st_retryCount (snd p)) < st_maxRetries (snd p)"
  using executeStep_start_budget [of E p] executeStep_try_budget [of E w d q]
    executeStep_catch_budget [of E e r] assms
  by (simp_all add: wp_def same_budget_def)

lemma attempt_decreases:
  assumes "executeStep_start E p = (Inr u, q)" and "executeStep_try E w d q = (Inl e, r)"
    and "executeStep_catch E e r = (Inr u', t)"
  shows "st_maxRetries (snd t) - st_retryCount (snd t) < st_maxRetries (snd p) - st_retryCount (snd p)"
  using attempt_budget [OF assms] by simp

termination executeStep
  by (relation "measure (\<lambda>(E, w, d, p). st_maxRetries (snd p) - st_retryCount (snd p))")
    (simp, force dest: attempt_decreases [OF sym sym sym])

declare executeStep.simps [simp del]

definition nth_opt :: "'a list \<Rightarrow> nat \<Rightarrow> 'a option" where
  "nth_opt xs i = (if i < length xs then Some (xs ! i) else None)"

definition executeSteps :: "'s engine \<Rightarrow> 's WorkflowDefinition \<Rightarrow> ('s \<times> Workflow, unit) prog" where
  "executeSteps E definition =
     bindE getL (\<lambda>workflow.
       bindE (liftL (repo_find (eng_steps E) (\<lambda>x. st_workflowId x = wf_id workflow)
                       (Asc (\<lambda>x. int (st_stepIndex x)))))
         (\<lambda>steps. forE steps (\<lambda>step.
            seqE (modL (\<lambda>w. w\<lparr>wf_currentStepIndex := st_stepIndex step\<rparr>))
            (seqE (saveWorkflow E)
            (bindE getL (\<lambda>w. liftL (ignoreE (localE step
               (executeStep E w (nth_opt (wd_steps definition) (st_stepIndex step))))))))))) "

definition executeWorkflow_try :: "'s engine \<Rightarrow> 's WorkflowDefinition \<Rightarrow> ('s \<times> Workflow, unit) prog" where
  "executeWorkflow_try E definition =
     seqE (executeSteps E definition)
     (bindE (liftL (nowE E)) (\<lambda>t.
       seqE (modL (\<lambda>w. w\<lparr>wf_state := WCOMPLETED, wf_completedAt := Some t\<rparr>)) (saveWorkflow E)))"

definition executeWorkflow_catch :: "'s engine \<Rightarrow> exn \<Rightarrow> ('s \<times> Workflow, unit) prog" where
  "executeWorkflow_catch E error =
     bindE (liftL (nowE E)) (\<lambda>t.
       seqE (modL (\<lambda>w. w\<lparr>wf_state := WFAILED, wf_failedAt := Some t,
                         wf_failureReason := Some (exn_message error)\<rparr>))
       (seqE (saveWorkflow E) (throwE error)))"

definition executeWorkflow :: "'s engine \<Rightarrow> 's definitions \<Rightarrow> ('s \<times> Workflow, unit) prog" where
  "executeWorkflow E defs =
     bindE getL (\<lambda>workflow.
       case getWorkflowDefinition defs (wf_type workflow) of
         None \<Rightarrow> throwE (Error (''Workflow definition not found for type: '' @ wf_type workflow))
       | Some definition \<Rightarrow>
           let transition = transitionWorkflow (wf_state workflow) WRUNNING in
           if \<not> tr_success transition
           then throwE (Error (''Cannot start workflow: '' @ the (tr_error transition)))
           else bindE (liftL (nowE E)) (\<lambda>t.
             seqE (modL (\<lambda>w. w\<lparr>wf_state := WRUNNING, wf_startedAt := Some t\<rparr>))
             (seqE (saveWorkflow E)
             (catchE (executeWorkflow_try E definition) (executeWorkflow_catch E)))))"

text \<open>
  \<open>create\<close> followed by the insert: columns that are not given take their defaults, and the saved
  object carries them and the generated columns. A \<open>save\<close> of an array inserts the rows in turn.
\<close>

definition newWorkflow ::
    "'s WorkflowDefinition \<Rightarrow> string \<Rightarrow> string \<Rightarrow> jobj \<Rightarrow> string option \<Rightarrow> string option \<Rightarrow> jobj option \<Rightarrow> Workflow" where
  "newWorkflow definition idempotencyKey type input userId walletAddress context = \<lparr>
     wf_id = [], wf_idempotencyKey = idempotencyKey, wf_type = type, wf_state = WPENDING,
     wf_userId = userId, wf_walletAddress = walletAddress, wf_input = input, wf_output = None,
     wf_context = context, wf_currentStepIndex = 0, wf_totalSteps = length (wd_steps definition),
     wf_startedAt = None, wf_completedAt = None, wf_failedAt = None, wf_failureReason = None,
     wf_retryCount = 0, wf_maxRetries = or_nat (wd_maxRetries definition) 3, wf_nextRetryAt = None,
     wf_requiresCompensation = (wd_requiresCompensation definition = Some True),
     wf_isCompensated = False, wf_createdAt = 0, wf_updatedAt = 0\<rparr>"

definition newStep :: "string \<Rightarrow> nat \<Rightarrow> 's StepDefinition \<Rightarrow> WorkflowStep" where
  "newStep workflowId index stepDef = \<lparr>
     st_id = [], st_workflowId = workflowId, st_stepName = sd_name stepDef, st_stepIndex = index,
     st_state = SPENDING, st_input = None, st_output = None, st_config = sd_config stepDef,
     st_retryCount = 0, st_maxRetries = or_nat (sd_maxRetries stepDef) 3, st_startedAt = None,
     st_completedAt = None, st_failedAt = None, st_failureReason = None, st_nextRetryAt = None,
     st_requiresCompensation = (sd_compensate stepDef \<noteq> None), st_isCompensated = False,
     st_compensatedAt = None, st_isIdempotent = sd_isIdempotent stepDef, st_idempotencyKey = None,
     st_createdAt = 0, st_updatedAt = 0\<rparr>"

definition startWorkflow ::
    "'s engine \<Rightarrow> 's definitions \<Rightarrow> string \<Rightarrow> jobj \<Rightarrow> string option \<Rightarrow> string option \<Rightarrow> jobj option \<Rightarrow>
     ('s, Workflow) prog" where
  "startWorkflow E defs type input userId walletAddress context =
     (case getWorkflowDefinition defs type of
        None \<Rightarrow> throwE (Error (''Workflow definition not found for type: '' @ type))
      | Some definition \<Rightarrow>
          bindE (nowE E) (\<lambda>t.
          let idempotencyKey = generateWorkflowIdempotencyKey (eng_sha256 E) t type
                (or_str userId ''anonymous'') input context in
          bindE (repo_findOne (eng_workflows E) (\<lambda>w. wf_idempotencyKey w = idempotencyKey))
            (\<lambda>existingWorkflow. case existingWorkflow of
               Some w \<Rightarrow> returnE w
             | None \<Rightarrow>
                 let workflow = newWorkflow definition idempotencyKey type input userId walletAddress context in
                 bindE (repo_insert (eng_workflows E) workflow) (\<lambda>(i, t').
                 let savedWorkflow = wf_gen i t' workflow in
                 seqE (forE (enumerate 0 (wd_steps definition)) (\<lambda>(index, stepDef).
                         ignoreE (repo_insert (eng_steps E) (newStep i index stepDef))))
                 (bindE (localE savedWorkflow (executeWorkflow E defs)) (\<lambda>(_, w). returnE w))))))"

text \<open>
  \<open>retryWorkflow\<close>. \<open>save\<close> leaves columns whose property is \<open>undefined\<close> as they are, so
  the rows keep the failure columns that the objects lose; the steps the workflow's cascade would
  write are unchanged at that point.
\<close>

definition retryWorkflow :: "'s engine \<Rightarrow> 's definitions \<Rightarrow> string \<Rightarrow> ('s, unit) prog" where
  "retryWorkflow E defs workflowId =
     bindE (repo_findOne (eng_workflows E) (\<lambda>w. wf_id w = workflowId)) (\<lambda>found. case found of
       None \<Rightarrow> throwE (Error (''Workflow not found: '' @ workflowId))
     | Some workflow \<Rightarrow>
         bindE (loadSteps E workflowId) (\<lambda>steps.
         if \<not> isWorkflowRecoverable (wf_state workflow)
         then throwE (Error (''Workflow '' @ workflowId @ '' is not in a recoverable state''))
         else bindE (nowE E) (\<lambda>t.
           let reset = workflow\<lparr>wf_state := WRUNNING, wf_retryCount := wf_retryCount workflow + 1,
                                wf_startedAt := Some t\<rparr> in
           bindE (repo_save (eng_workflows E) reset) (\<lambda>u.
           seqE (case List.find (\<lambda>x. st_state x = SFAILED) steps of
                   None \<Rightarrow> returnE ()
                 | Some failedStep \<Rightarrow>
                     ignoreE (repo_save (eng_steps E) (failedStep\<lparr>st_state := SPENDING\<rparr>)))
             (ignoreE (localE (wf_stamp u (reset\<lparr>wf_failedAt := None, wf_failureReason := None\<rparr>))
               (executeWorkflow E defs)))))))"

definition cancelWorkflow :: "'s engine \<Rightarrow> string \<Rightarrow> ('s, unit) prog" where
  "cancelWorkflow E workflowId =
     bindE (repo_findOne (eng_workflows E) (\<lambda>w. wf_id w = workflowId)) (\<lambda>found. case found of
       None \<Rightarrow> throwE (Error (''Workflow not found: '' @ workflowId))
     | Some workflow \<Rightarrow>
         let transition = transitionWorkflow (wf_state workflow) WCANCELLED in
         if \<not> tr_success transition
         then throwE (Error (''Cannot cancel workflow: '' @ the (tr_error transition)))
         else bindE (nowE E) (\<lambda>t.
           ignoreE (repo_save (eng_workflows E)
             (workflow\<lparr>wf_state := WCANCELLED, wf_completedAt := Some t\<rparr>))))"

text \<open>The method of the same name in this service only refers to the compensation service.\<close>

definition compensateWorkflow_stub :: "string \<Rightarrow> ('s, unit) prog" where
  "compensateWorkflow_stub workflowId =
     throwE (Error ''Use CompensationService.compensateWorkflow() instead'')"

section \<open>What the engine relies on\<close>

text \<open>
  The two repositories keep separate tables, and waiting changes neither. The step functions of
  the registered definitions are application code: \<open>engine_defs\<close> says they leave the
  engine's own tables alone.
\<close>

locale engine_env =
  W: repo_table "eng_workflows E" wtab wf_id wf_stamp wf_gen +
  S: repo_table "eng_steps E" stab st_id st_stamp st_gen
  for E :: "'s engine" and wtab :: "'s \<Rightarrow> string \<Rightarrow> Workflow option"
    and stab :: "'s \<Rightarrow> string \<Rightarrow> WorkflowStep option" +
  assumes w_save_stab: "stab (fin (repo_save (eng_workflows E) w) s) = stab s"
    and w_insert_stab: "stab (fin (repo_insert (eng_workflows E) w) s) = stab s"
    and s_save_wtab: "wtab (fin (repo_save (eng_steps E) x) s) = wtab s"
    and s_insert_wtab: "wtab (fin (repo_insert (eng_steps E) x) s) = wtab s"
    and delay_wtab: "wtab (eng_delay E ms s) = wtab s"
    and delay_stab: "stab (eng_delay E ms s) = stab s"
begin

lemmas separate [simp] = w_save_stab w_insert_stab s_save_wtab s_insert_wtab delay_wtab delay_stab

lemmas saved [simp] = W.save_tab S.save_tab

end

lemma wp_executeStep:
  "wp (executeStep E w d) Q X p =
     wp (executeStep_start E)
       (\<lambda>_. wp (executeStep_try E w d) Q
          (\<lambda>e. wp (executeStep_catch E e) (\<lambda>_. wp (executeStep E w d) Q X) X)) X p"
  by (subst (1) wp_def, subst executeStep.simps)
    (auto simp: wp_def split: prod.split sum.split)

lemma wf_stamp_sel [simp]:
  "wf_id (wf_stamp t w) = wf_id w" "wf_state (wf_stamp t w) = wf_state w"
  "wf_idempotencyKey (wf_stamp t w) = wf_idempotencyKey w"
  "wf_failureReason (wf_stamp t w) = wf_failureReason w" "wf_type (wf_stamp t w) = wf_type w"
  by (simp_all add: wf_stamp_def)

text \<open>How a step ends: the postconditions of \<open>executeStep\<close>.\<close>

definition step_succeeded :: "('s \<Rightarrow> string \<Rightarrow> WorkflowStep option) \<Rightarrow> WorkflowStep \<Rightarrow> 's \<times> WorkflowStep \<Rightarrow> bool" where
  "step_succeeded stab x q \<longleftrightarrow> st_state (snd q) = SCOMPLETED \<and> stab (fst q) (st_id x) = Some (snd q)
     \<and> st_retryCount x \<le> st_retryCount (snd q)
     \<and> st_retryCount (snd q) < max (Suc (st_retryCount x)) (st_maxRetries x)"

definition step_gave_up :: "('s \<Rightarrow> string \<Rightarrow> WorkflowStep option) \<Rightarrow> WorkflowStep \<Rightarrow> exn \<Rightarrow> 's \<times> WorkflowStep \<Rightarrow> bool" where
  "step_gave_up stab x e q \<longleftrightarrow> st_state (snd q) = SFAILED \<and> stab (fst q) (st_id x) = Some (snd q)
     \<and> st_retryCount (snd q) = max (Suc (st_retryCount x)) (st_maxRetries x)
     \<and> (\<exists>m. st_failureReason (snd q) = Some m \<and> e = Error (''Step '' @ st_stepName x @ '' failed after '' @
            show_nat (st_retryCount (snd q)) @ '' retries: '' @ m))"

context engine_env
begin

lemma start_runs:
  assumes "canTransitionStep (st_state (snd p)) SRUNNING"
  shows "wp (executeStep_start E) (\<lambda>_. same_budget (snd p)) (\<lambda>_ _. False) p"
  using assms by (simp add: executeStep_start_def wp_simps same_budget_def Let_def)

lemma try_completes:
  "wp (executeStep_try E w d)
     (\<lambda>_ q. same_budget (snd p) q \<and> st_state (snd q) = SCOMPLETED \<and> stab (fst q) (st_id (snd p)) = Some (snd q))
     (\<lambda>_ q. same_budget (snd p) q) p"
  by (simp add: executeStep_try_def wp_simps same_budget_def Let_def)

lemma catch_decides:
  "wp (executeStep_catch E e)
     (\<lambda>_ q. st_retryCount (snd q) = Suc (st_retryCount (snd p)) \<and> st_maxRetries (snd q) = st_maxRetries (snd p)
        \<and> Suc (st_retryCount (snd p)) < st_maxRetries (snd p) \<and> st_state (snd q) = SFAILED
        \<and> st_id (snd q) = st_id (snd p) \<and> st_stepName (snd q) = st_stepName (snd p))
     (\<lambda>e' q. st_maxRetries (snd p) \<le> Suc (st_retryCount (snd p)) \<and> step_gave_up stab (snd p) e' q) p"
  by (simp add: executeStep_catch_def wp_simps Let_def shouldRetry_def step_gave_up_def st_stamp_def)

lemma executeStep_outcome_wp:
  "canTransitionStep (st_state (snd p)) SRUNNING \<Longrightarrow>
     wp (executeStep E w d) (\<lambda>_. step_succeeded stab (snd p)) (step_gave_up stab (snd p)) p"
proof (induction "st_maxRetries (snd p) - st_retryCount (snd p)" arbitrary: p rule: less_induct)
  case less
  let ?Q = "\<lambda>_. step_succeeded stab (snd p)" and ?X = "step_gave_up stab (snd p)"
  have again: "wp (executeStep_catch E e) (\<lambda>_. wp (executeStep E w d) ?Q ?X) ?X q"
    if q: "same_budget (snd p) q" for e q
  proof (rule wp_mono [OF catch_decides], goal_cases)
    case (1 v t)
    with q have "wp (executeStep E w d) (\<lambda>_. step_succeeded stab (snd t)) (step_gave_up stab (snd t)) t"
      by (intro less.hyps) (auto simp: same_budget_def can_run_step)
    then show ?case
      by (rule wp_mono) (use 1 q in \<open>auto simp: same_budget_def step_succeeded_def step_gave_up_def\<close>)
  next
    case (2 e' t)
    with q show ?case by (auto simp: same_budget_def step_gave_up_def)
  qed
  have "wp (executeStep_try E w d) ?Q (\<lambda>e. wp (executeStep_catch E e) (\<lambda>_. wp (executeStep E w d) ?Q ?X) ?X) q"
    if q: "same_budget (snd p) q" for q
  proof (rule wp_mono [OF try_completes], goal_cases)
    case (1 v t)
    with q show ?case by (auto simp: same_budget_def step_succeeded_def)
  next
    case (2 e t)
    with q show ?case by (intro again) (auto simp: same_budget_def)
  qed
  then show ?case
    by (subst wp_executeStep) (rule wp_mono [OF start_runs [OF less.prems]], auto)
qed

end

text \<open>How a run of a workflow ends, whatever its steps do.\<close>

definition workflow_settled :: "('s \<Rightarrow> string \<Rightarrow> Workflow option) \<Rightarrow> Workflow \<Rightarrow> exn option \<Rightarrow> 's \<times> Workflow \<Rightarrow> bool" where
  "workflow_settled wtab w err q \<longleftrightarrow> wtab (fst q) (wf_id w) = Some (snd q) \<and>
     (case err of None \<Rightarrow> wf_state (snd q) = WCOMPLETED
      | Some e \<Rightarrow> wf_state (snd q) = WFAILED \<and> wf_failureReason (snd q) = Some (exn_message e))"

context engine_env
begin

lemma executeSteps_id:
  "wp (executeSteps E d) (\<lambda>_ q. wf_id (snd q) = wf_id (snd p)) (\<lambda>_ q. wf_id (snd q) = wf_id (snd p)) p"
  by (simp add: executeSteps_def wp_simps)
    (rule wp_forE_invariant [where I = "\<lambda>q. wf_id (snd q) = wf_id (snd p)"], simp_all add: wp_simps)

lemma executeWorkflow_try_wp:
  "wp (executeWorkflow_try E d)
     (\<lambda>_. workflow_settled wtab (snd p) None) (\<lambda>_ q. wf_id (snd q) = wf_id (snd p)) p"
proof -
  have "wp (executeSteps E d) (\<lambda>_ q. workflow_settled wtab (snd p) None
       (fin (repo_save (eng_workflows E) ((snd q)\<lparr>wf_state := WCOMPLETED, wf_completedAt := Some (eng_now E (fst q))\<rparr>)) (fst q),
        wf_stamp (res (repo_save (eng_workflows E) ((snd q)\<lparr>wf_state := WCOMPLETED, wf_completedAt := Some (eng_now E (fst q))\<rparr>)) (fst q))
          ((snd q)\<lparr>wf_state := WCOMPLETED, wf_completedAt := Some (eng_now E (fst q))\<rparr>)))
     (\<lambda>_ q. wf_id (snd q) = wf_id (snd p)) p"
    by (rule wp_mono [OF executeSteps_id]) (simp_all add: workflow_settled_def)
  then show ?thesis by (simp add: executeWorkflow_try_def wp_simps)
qed

lemma executeWorkflow_settles_wp:
  assumes "getWorkflowDefinition defs (wf_type (snd p)) = Some d"
    and "canTransitionWorkflow (wf_state (snd p)) WRUNNING"
  shows "wp (executeWorkflow E defs)
    (\<lambda>_. workflow_settled wtab (snd p) None) (\<lambda>e. workflow_settled wtab (snd p) (Some e)) p"
proof -
  have "wp (executeWorkflow_try E d) (\<lambda>_. workflow_settled wtab (snd p) None)
      (\<lambda>e. wp (executeWorkflow_catch E e)
           (\<lambda>_. workflow_settled wtab (snd p) None) (\<lambda>e. workflow_settled wtab (snd p) (Some e))) q"
    if "wf_id (snd q) = wf_id (snd p)" for q
    by (rule wp_mono [OF executeWorkflow_try_wp [of d q]])
      (use that in \<open>simp_all add: wp_simps workflow_settled_def executeWorkflow_catch_def\<close>)
  note run = this
  show ?thesis
    using assms by (simp add: executeWorkflow_def wp_simps Let_def) (rule run, simp)
qed

end

locale engine_defs = engine_env E wtab stab
  for E :: "'s engine" and wtab stab +
  fixes defs :: "'s definitions"
  assumes execute_wtab: "defs ty = Some d \<Longrightarrow> sd \<in> set (wd_steps d) \<Longrightarrow>
      wtab (snd (sd_execute sd a c s)) = wtab s"
    and execute_stab: "defs ty = Some d \<Longrightarrow> sd \<in> set (wd_steps d) \<Longrightarrow>
      stab (snd (sd_execute sd a c s)) = stab s"
begin

text \<open>A run of a step leaves the workflow table and the other steps' rows alone.\<close>

definition step_frame :: "'s \<Rightarrow> WorkflowStep \<Rightarrow> 's \<times> WorkflowStep \<Rightarrow> bool" where
  "step_frame s x q \<longleftrightarrow> wtab (fst q) = wtab s \<and> (\<forall>i. i \<noteq> st_id x \<longrightarrow> stab (fst q) i = stab s i)
     \<and> st_id (snd q) = st_id x"

abbreviation framed :: "('s \<times> WorkflowStep, 'a) prog \<Rightarrow> 's \<times> WorkflowStep \<Rightarrow> bool" where
  "framed m p \<equiv> wp m (\<lambda>_. step_frame (fst p) (snd p)) (\<lambda>_. step_frame (fst p) (snd p)) p"

definition step_ok :: "'s StepDefinition option \<Rightarrow> bool" where
  "step_ok d \<longleftrightarrow> (\<forall>sd. d = Some sd \<longrightarrow> (\<forall>a c s. wtab (snd (sd_execute sd a c s)) = wtab s
     \<and> stab (snd (sd_execute sd a c s)) = stab s))"

lemma step_ok_nth: "defs ty = Some d \<Longrightarrow> step_ok (nth_opt (wd_steps d) i)"
  using execute_wtab execute_stab by (auto simp: step_ok_def nth_opt_def)

lemma step_frame_trans: "step_frame s x p \<Longrightarrow> step_frame (fst p) (snd p) q \<Longrightarrow> step_frame s x q"
  by (auto simp: step_frame_def)

lemma framed_start: "framed (executeStep_start E) p"
  by (simp add: executeStep_start_def wp_simps step_frame_def Let_def)

lemma framed_catch: "framed (executeStep_catch E e) p"
  by (simp add: executeStep_catch_def wp_simps step_frame_def Let_def)

lemma execute_frame:
  assumes "step_ok d" and "wtab s = wt \<and> (\<forall>i. i \<noteq> j \<longrightarrow> stab s i = sta i)"
  shows "wp (executeWithIdempotency d a c k)
    (\<lambda>_ t. wtab t = wt \<and> (\<forall>i. i \<noteq> j \<longrightarrow> stab t i = sta i))
    (\<lambda>_ t. wtab t = wt \<and> (\<forall>i. i \<noteq> j \<longrightarrow> stab t i = sta i)) s"
  using assms unfolding wp_final
  by (auto simp: executeWithIdempotency_def step_ok_def throwE_def split: option.split)

lemma prepare_reads:
  "wp (prepareStepInput E w x) Q X s = Q (res (prepareStepInput E w x) s) s"
  by (rule wp_reader) (simp add: prepareStepInput_def wp_simps)

lemma framed_try:
  assumes "step_ok d" shows "framed (executeStep_try E w d) p"
  by (simp add: executeStep_try_def wp_simps Let_def prepare_reads step_frame_def)
    (auto intro!: execute_frame assms)

lemma framed_executeStep:
  assumes "step_ok d" shows "framed (executeStep E w d) p"
proof (induction "st_maxRetries (snd p) - st_retryCount (snd p)" arbitrary: p rule: less_induct)
  case less
  let ?F = "\<lambda>_. step_frame (fst p) (snd p)"
  have catch: "wp (executeStep_catch E e) (\<lambda>_. wp (executeStep E w d) ?F ?F) ?F r"
    if u: "executeStep_start E p = (Inr u, q)" and r: "executeStep_try E w d q = (Inl e, r)"
      and f: "step_frame (fst p) (snd p) r" for u q e r
  proof (rule wp_mono [OF framed_catch], goal_cases)
    case (1 v t)
    from f 1(2) have t: "step_frame (fst p) (snd p) t" by (rule step_frame_trans)
    have "framed (executeStep E w d) t"
      using attempt_decreases [OF u r 1(1)] by (rule less)
    then show ?case by (rule wp_mono) (auto intro: step_frame_trans [OF t])
  qed (auto intro: step_frame_trans [OF f])
  show ?case
  proof (subst wp_executeStep, rule wp_mono [OF framed_start], goal_cases)
    case (1 u q)
    show ?case
      by (rule wp_mono [OF framed_try [OF assms]])
        (use 1 in \<open>auto intro: step_frame_trans intro!: catch [OF 1(1)]\<close>)
  qed
qed

end

context engine_defs
begin

lemma executeStep_completed:
  "wp (executeStep E w d)
     (\<lambda>_ q. st_state (snd q) = SCOMPLETED \<and> stab (fst q) (st_id (snd p)) = Some (snd q)) (\<lambda>_ _. True) p"
proof (cases "canTransitionStep (st_state (snd p)) SRUNNING")
  case True
  show ?thesis
    by (rule wp_mono [OF executeStep_outcome_wp [OF True]]) (auto simp: step_succeeded_def)
next
  case False
  then show ?thesis
    by (subst wp_executeStep) (simp add: executeStep_start_def wp_simps Let_def)
qed

lemma executeStep_row:
  assumes "step_ok d"
  shows "wp (executeStep E w d)
     (\<lambda>_ q. (\<exists>y. stab (fst q) (st_id x) = Some y \<and> st_state y = SCOMPLETED) \<and>
        (\<forall>i. i \<noteq> st_id x \<longrightarrow> stab (fst q) i = stab s i)) (\<lambda>_ _. True) (s, x)"
  using framed_executeStep [OF assms, of w "(s, x)"] executeStep_completed [of w d "(s, x)"]
  by (auto simp: wp_def step_frame_def split: prod.splits sum.splits)

lemma executeSteps_completes:
  assumes "defs ty = Some d" and "stab (fst p) (st_id x) = Some x" and "st_workflowId x = wf_id (snd p)"
  shows "wp (executeSteps E d)
    (\<lambda>_ q. \<exists>y. stab (fst q) (st_id x) = Some y \<and> st_state y = SCOMPLETED) (\<lambda>_ _. True) p"
proof -
  let ?xs = "res (repo_find (eng_steps E) (\<lambda>y. st_workflowId y = wf_id (snd p)) (Asc (\<lambda>y. int (st_stepIndex y)))) (fst p)"
  let ?f = "\<lambda>step. seqE (modL (\<lambda>w. w\<lparr>wf_currentStepIndex := st_stepIndex step\<rparr>))
            (seqE (saveWorkflow E)
            (bindE getL (\<lambda>w. liftL (ignoreE (localE step
               (executeStep E w (nth_opt (wd_steps d) (st_stepIndex step))))))))"
  have "x \<in> set ?xs" using assms by (simp add: S.find_memb)
  moreover have "wp (forE ?xs ?f)
     (\<lambda>_ q. (\<forall>x \<in> set ?xs. case stab (fst q) (st_id x) of None \<Rightarrow> False | Some y \<Rightarrow> st_state y = SCOMPLETED) \<and>
        (\<forall>i. i \<notin> st_id ` set ?xs \<longrightarrow> stab (fst q) i = stab (fst p) i)) (\<lambda>_ _. True) p"
  proof (rule wp_forE_rows [where k = st_id, OF S.find_distinct], goal_cases)
    case (1 x q)
    show ?case
      by (simp add: wp_simps)
        (rule wp_mono [OF executeStep_row [OF step_ok_nth [OF assms(1)]]], auto)
  qed
  ultimately have "wp (forE ?xs ?f)
      (\<lambda>_ q. \<exists>y. stab (fst q) (st_id x) = Some y \<and> st_state y = SCOMPLETED) (\<lambda>_ _. True) p"
    by (elim wp_mono) (auto split: option.splits)
  then show ?thesis by (simp add: executeSteps_def wp_simps)
qed

end

context engine_defs
begin

text \<open>The row of a running workflow keeps its idempotency key.\<close>

definition keyed :: "string \<Rightarrow> string \<Rightarrow> 's \<times> Workflow \<Rightarrow> bool" where
  "keyed k i q \<longleftrightarrow> wf_id (snd q) = i \<and> wf_idempotencyKey (snd q) = k
     \<and> (\<exists>w. wtab (fst q) i = Some w \<and> wf_idempotencyKey w = k)"

lemma executeSteps_keyed:
  assumes "defs ty = Some d" and "keyed k i p"
  shows "wp (executeSteps E d) (\<lambda>_. keyed k i) (\<lambda>_. keyed k i) p"
proof (simp add: executeSteps_def wp_simps, rule wp_forE_invariant, rule assms(2), goal_cases)
  case (1 x q)
  then show ?case
    by (simp add: wp_simps)
      (rule wp_mono [OF framed_executeStep [OF step_ok_nth [OF assms(1)]]],
        auto simp: keyed_def step_frame_def)
qed

lemma executeWorkflow_keyed:
  assumes "keyed k i p"
  shows "wp (executeWorkflow E defs) (\<lambda>_. keyed k i) (\<lambda>_. keyed k i) p"
proof (cases "defs (wf_type (snd p))")
  case None
  with assms show ?thesis by (simp add: executeWorkflow_def getWorkflowDefinition_def wp_simps)
next
  case (Some d)
  have "wp (executeWorkflow_try E d) (\<lambda>_. keyed k i)
      (\<lambda>e. wp (executeWorkflow_catch E e) (\<lambda>_. keyed k i) (\<lambda>_. keyed k i)) q" if "keyed k i q" for q
    by (simp add: executeWorkflow_try_def executeWorkflow_catch_def wp_simps)
      (rule wp_mono [OF executeSteps_keyed [OF Some that]], auto simp: keyed_def)
  note run = this
  from assms Some show ?thesis
    by (simp add: executeWorkflow_def getWorkflowDefinition_def wp_simps Let_def)
      (intro conjI impI, rule run, simp_all add: keyed_def)
qed

definition key_stored :: "string \<Rightarrow> 's \<Rightarrow> bool" where
  "key_stored k s \<longleftrightarrow> (\<exists>i w. wtab s i = Some w \<and> wf_idempotencyKey w = k)"

lemma insert_steps_wtab:
  "wp (forE xs (\<lambda>(index, stepDef). ignoreE (repo_insert (eng_steps E) (newStep i index stepDef))))
     (\<lambda>_ t. wtab t = wtab s) (\<lambda>_ t. wtab t = wtab s) s"
  by (rule wp_forE_invariant) (auto simp: wp_simps)

lemma startWorkflow_stores:
  assumes d: "defs ty = Some d"
    and k: "k = generateWorkflowIdempotencyKey (eng_sha256 E) (eng_now E s) ty (or_str u ''anonymous'') inp c"
  shows "wp (startWorkflow E defs ty inp u wa c) (\<lambda>_. key_stored k) (\<lambda>_. key_stored k) s"
proof -
  let ?find = "res (repo_findOne (eng_workflows E) (\<lambda>w. wf_idempotencyKey w = k)) s"
  let ?new = "newWorkflow d k ty inp u wa c"
  obtain i t where it: "res (repo_insert (eng_workflows E) ?new) s = (i, t)" by fastforce
  let ?w = "wf_gen i t ?new"
  have ins: "wtab (fin (repo_insert (eng_workflows E) ?new) s) = (wtab s)(i \<mapsto> ?w)"
    by (rule W.insert_tab [OF it])
  have key: "keyed k i (t', ?w) \<and> key_stored k t'" if "wtab t' = (wtab s)(i \<mapsto> ?w)" for t'
    using that by (auto simp: keyed_def key_stored_def wf_gen_def newWorkflow_def intro!: exI [of _ i])
  have run: "wp (executeWorkflow E defs) (\<lambda>_ p. key_stored k (fst p)) (\<lambda>_ p. key_stored k (fst p)) (t', ?w)"
    if "wtab t' = (wtab s)(i \<mapsto> ?w)" for t'
    by (rule wp_mono [OF executeWorkflow_keyed [of k i]])
      (use key [OF that] in \<open>auto simp: keyed_def key_stored_def\<close>)
  have new: "wp (forE (enumerate 0 (wd_steps d)) (\<lambda>(index, stepDef).
           ignoreE (repo_insert (eng_steps E) (newStep i index stepDef))))
       (\<lambda>_ t'. wp (executeWorkflow E defs) (\<lambda>_ p. key_stored k (fst p)) (\<lambda>_ p. key_stored k (fst p)) (t', ?w))
       (\<lambda>_. key_stored k) (fin (repo_insert (eng_workflows E) ?new) s)"
    by (rule wp_mono [OF insert_steps_wtab]) (simp_all add: ins run key)
  show ?thesis
  proof (cases ?find)
    case None
    with new d k it show ?thesis
      by (simp add: startWorkflow_def getWorkflowDefinition_def wp_simps Let_def)
  next
    case (Some w)
    then have "key_stored k s" using W.findOne_Some unfolding key_stored_def by blast
    with Some d k show ?thesis
      by (simp add: startWorkflow_def getWorkflowDefinition_def wp_simps Let_def)
  qed
qed

lemma startWorkflow_existing:
  assumes "defs ty = Some d" and "key_stored k s"
    and "k = generateWorkflowIdempotencyKey (eng_sha256 E) (eng_now E s) ty (or_str u ''anonymous'') inp c"
  shows "wp (startWorkflow E defs ty inp u wa c)
    (\<lambda>w t. t = s \<and> wf_idempotencyKey w = k \<and> wtab s (wf_id w) = Some w) (\<lambda>_ _. False) s"
proof -
  have "res (repo_findOne (eng_workflows E) (\<lambda>w. wf_idempotencyKey w = k)) s \<noteq> None"
    using assms(2) W.findOne_None unfolding key_stored_def by blast
  then obtain w where w: "res (repo_findOne (eng_workflows E) (\<lambda>w. wf_idempotencyKey w = k)) s = Some w"
    by blast
  with W.findOne_Some [OF w] assms(1,3) show ?thesis
    by (simp add: startWorkflow_def getWorkflowDefinition_def wp_simps Let_def)
qed

end

context engine_defs
begin

lemma run_completes:
  assumes x: "stab s (st_id x) = Some x" "st_workflowId x = wf_id w"
    and run: "executeWorkflow E defs (s, w) = (Inr u, (s', w'))"
  shows "\<exists>y. stab s' (st_id x) = Some y \<and> st_state y = SCOMPLETED"
proof (cases "defs (wf_type w)")
  case None
  with run show ?thesis
    by (simp add: executeWorkflow_def getWorkflowDefinition_def bindE_def getL_def throwE_def)
next
  case (Some d)
  let ?done = "\<lambda>_ q. \<exists>y. stab (fst q) (st_id x) = Some y \<and> st_state y = SCOMPLETED"
  have "wp (executeWorkflow_try E d) ?done
      (\<lambda>e. wp (executeWorkflow_catch E e) ?done (\<lambda>_ _. True)) q"
    if "stab (fst q) = stab s" "wf_id (snd q) = wf_id w" for q
    by (simp add: executeWorkflow_try_def executeWorkflow_catch_def wp_simps)
      (rule executeSteps_completes [OF Some], use x that in simp_all)
  note body = this
  have "wp (executeWorkflow E defs) ?done (\<lambda>_ _. True) (s, w)"
    using Some by (simp add: executeWorkflow_def getWorkflowDefinition_def wp_simps Let_def)
      (auto intro!: body)
  with run show ?thesis by (simp add: wp_def)
qed

end

context engine_env
begin

lemma retry_stuck_wp:
  assumes "wtab s i = Some w" and "wf_state w = WFAILED" and "defs (wf_type w) = Some d"
  shows "wp (retryWorkflow E defs i) (\<lambda>_ _. False)
    (\<lambda>e s'. e = Error ''Cannot start workflow: Invalid workflow state transition from running to running''
       \<and> (\<exists>w'. wtab s' i = Some w' \<and> wf_state w' = WRUNNING \<and> wf_retryCount w' = wf_retryCount w + 1
              \<and> wf_failureReason w' = wf_failureReason w \<and> wf_failedAt w' = wf_failedAt w)) s"
proof -
  have "wf_id w = i" using W.key_tab assms(1) by blast
  with assms show ?thesis
    by (auto simp: retryWorkflow_def loadSteps_def executeWorkflow_def getWorkflowDefinition_def wp_simps
        Let_def W.findOne_key isWorkflowRecoverable_def transitionWorkflow_def can_run_workflow
        wf_stamp_def split: option.split)
qed

lemma cancel_wp:
  "case wtab s i of
     None \<Rightarrow> wp (cancelWorkflow E i) (\<lambda>_ _. False) (\<lambda>e t. e = Error (''Workflow not found: '' @ i) \<and> t = s) s
   | Some w \<Rightarrow>
       if wf_state w \<in> {WPENDING, WRUNNING, WFAILED}
       then wp (cancelWorkflow E i) (\<lambda>_ s'. \<exists>t. wtab s' = (wtab s)(i \<mapsto>
              w\<lparr>wf_state := WCANCELLED, wf_completedAt := Some (eng_now E s), wf_updatedAt := t\<rparr>)) (\<lambda>_ _. False) s
       else wp (cancelWorkflow E i) (\<lambda>_ _. False) (\<lambda>e t. (\<exists>m. e = Error m) \<and> t = s) s"
proof (cases "wtab s i")
  case None
  then show ?thesis by (simp add: cancelWorkflow_def wp_simps W.findOne_key)
next
  case (Some w)
  moreover from this have "wf_id w = i" by (rule W.key_tab)
  ultimately show ?thesis
    by (auto simp: cancelWorkflow_def wp_simps W.findOne_key Let_def can_cancel_workflow wf_stamp_def)
qed

end

section \<open>An in-memory engine\<close>

record mem_store =
  ms_workflows :: "Workflow list"
  ms_steps :: "WorkflowStep list"
  ms_clock :: int

definition mem_engine :: "mem_store engine" where
  "mem_engine = \<lparr>
     eng_workflows = mem_repo ms_workflows (\<lambda>xs s. s\<lparr>ms_workflows := xs\<rparr>) ms_clock wf_id wf_stamp wf_gen,
     eng_steps = mem_repo ms_steps (\<lambda>xs s. s\<lparr>ms_steps := xs\<rparr>) ms_clock st_id st_stamp st_gen,
     eng_now = ms_clock, eng_random53 = (\<lambda>_. 0), eng_delay = (\<lambda>ms s. s\<lparr>ms_clock := ms_clock s + ms\<rparr>),
     eng_sha256 = (\<lambda>m. show_nat (length m))\<rparr>"

abbreviation mem_wtab :: "mem_store \<Rightarrow> string \<Rightarrow> Workflow option" where
  "mem_wtab \<equiv> mem_tab ms_workflows wf_id"

abbreviation mem_stab :: "mem_store \<Rightarrow> string \<Rightarrow> WorkflowStep option" where
  "mem_stab \<equiv> mem_tab ms_steps st_id"

lemma mem_engine_env: "engine_env mem_engine mem_wtab mem_stab"
proof -
  have "repo_table (eng_workflows mem_engine) mem_wtab wf_id wf_stamp wf_gen"
    "repo_table (eng_steps mem_engine) mem_stab st_id st_stamp st_gen"
    by (simp_all add: mem_engine_def wf_stamp_def wf_gen_def st_stamp_def st_gen_def mem_repo_table)
  moreover have "engine_env_axioms mem_engine mem_wtab mem_stab"
    by (simp add: engine_env_axioms_def mem_engine_def mem_repo_def mem_tab_def fin_def Let_def fun_eq_iff)
  ultimately show ?thesis by (rule engine_env.intro)
qed

interpretation mem: engine_env mem_engine mem_wtab mem_stab
  by (rule mem_engine_env)

text \<open>A one-step workflow whose step returns \<open>null\<close>, and its empty store.\<close>

definition demo_step_def :: "mem_store StepDefinition" where
  "demo_step_def = \<lparr>sd_name = ''notify'', sd_execute = (\<lambda>_ _. returnE (Some JNull)), sd_compensate = None,
     sd_isIdempotent = False, sd_maxRetries = Some 2, sd_config = None\<rparr>"

definition demo_defs :: "mem_store definitions" where
  "demo_defs = registerWorkflowDefinition (\<lambda>_. None)
     \<lparr>wd_type = ''reward_grant'', wd_steps = [demo_step_def], wd_maxRetries = None,
      wd_requiresCompensation = None\<rparr>"

definition demo_step :: WorkflowStep where
  "demo_step = (newStep ''w1'' 0 demo_step_def)\<lparr>st_id := ''s1''\<rparr>"

definition demo_workflow :: "WorkflowState \<Rightarrow> Workflow" where
  "demo_workflow st = (newWorkflow (the (demo_defs ''reward_grant'')) ''k1'' ''reward_grant'' [] None None None)
     \<lparr>wf_id := ''w1'', wf_state := st\<rparr>"

definition demo_store :: "WorkflowState \<Rightarrow> mem_store" where
  "demo_store st = \<lparr>ms_workflows = [demo_workflow st], ms_steps = [demo_step], ms_clock = 0\<rparr>"

lemma demo_engine_defs: "engine_defs mem_engine mem_wtab mem_stab demo_defs"
  using mem_engine_env
  by (auto simp: engine_defs_def engine_defs_axioms_def demo_defs_def demo_step_def_def
      registerWorkflowDefinition_def returnE_def split: if_splits)

interpretation demo: engine_defs mem_engine mem_wtab mem_stab demo_defs
  by (rule demo_engine_defs)

text \<open>The same engine on a clock that stands still.\<close>

definition still_engine :: "mem_store engine" where
  "still_engine = mem_engine\<lparr>eng_now := \<lambda>_. 0\<rparr>"

lemma still_engine_defs: "engine_defs still_engine mem_wtab mem_stab demo_defs"
  using demo_engine_defs
  by (simp add: engine_defs_def engine_defs_axioms_def engine_env_def engine_env_axioms_def still_engine_def)

section \<open>Properties of the execution service\<close>

text \<open>
  C2. A step that may start always ends in one of two ways, whatever its code does: the call
  returns, the step is \<open>completed\<close> and its row is the step object; or the call throws the
  \<open>Step ... failed after n retries\<close> error, the step is \<open>failed\<close>, its row is the step object,
  and the number of attempts made is exactly what the retry budget allows (at least one).
\<close>

theorem executeStep_outcome:
  assumes "engine_env E wtab stab" and "canTransitionStep (st_state x) SRUNNING"
  shows "case executeStep E w d (s, x) of
      (Inr _, q) \<Rightarrow> step_succeeded stab x q
    | (Inl e, q) \<Rightarrow> step_gave_up stab x e q"
  using engine_env.executeStep_outcome_wp [OF assms(1), of "(s, x)" w d] assms(2)
  by (simp add: wp_def split: prod.splits sum.splits)

theorem executeStep_outcome_witness:
  "case executeStep mem_engine (demo_workflow WRUNNING) None (demo_store WRUNNING, demo_step) of
      (Inr _, q) \<Rightarrow> step_succeeded mem_stab demo_step q
    | (Inl e, q) \<Rightarrow> step_gave_up mem_stab demo_step e q"
  by (rule executeStep_outcome [OF mem_engine_env])
    (simp add: demo_step_def newStep_def canTransitionStep_def)

text \<open>
  C3. \<open>executeWorkflow\<close> on a workflow that may run settles it: on a normal return the row of the
  workflow is \<open>completed\<close>, and when an error comes out the row is \<open>failed\<close> with that error's
  message; in both cases the row is the object the caller holds. No run leaves it \<open>running\<close>.
\<close>

theorem executeWorkflow_settles:
  assumes "engine_env E wtab stab" and "defs (wf_type w) = Some d"
    and "canTransitionWorkflow (wf_state w) WRUNNING"
  shows "case executeWorkflow E defs (s, w) of
      (Inr _, q) \<Rightarrow> workflow_settled wtab w None q
    | (Inl e, q) \<Rightarrow> workflow_settled wtab w (Some e) q"
  using engine_env.executeWorkflow_settles_wp [OF assms(1), of defs "(s, w)" d] assms(2,3)
  by (simp add: wp_def getWorkflowDefinition_def split: prod.splits sum.splits)

theorem executeWorkflow_settles_witness:
  "case executeWorkflow mem_engine demo_defs (demo_store WPENDING, demo_workflow WPENDING) of
      (Inr _, q) \<Rightarrow> workflow_settled mem_wtab (demo_workflow WPENDING) None q
    | (Inl e, q) \<Rightarrow> workflow_settled mem_wtab (demo_workflow WPENDING) (Some e) q"
  by (rule executeWorkflow_settles [OF mem_engine_env])
    (simp_all add: demo_workflow_def demo_defs_def newWorkflow_def registerWorkflowDefinition_def
      canTransitionWorkflow_def)

text \<open>
  C4. A workflow only becomes \<open>completed\<close> when every one of its steps did: after a normal return
  of \<open>executeWorkflow\<close> each step row the workflow had is \<open>completed\<close>, for step code that does not
  write the engine's tables.
\<close>

theorem completed_workflow_steps_completed:
  assumes "engine_defs E wtab stab defs"
    and "stab s (st_id x) = Some x" and "st_workflowId x = wf_id w"
    and "executeWorkflow E defs (s, w) = (Inr u, (s', w'))"
  shows "\<exists>y. stab s' (st_id x) = Some y \<and> st_state y = SCOMPLETED"
  by (rule engine_defs.run_completes [OF assms])

theorem completed_workflow_steps_completed_witness:
  "\<exists>y. mem_stab (fst (snd (executeWorkflow mem_engine demo_defs (demo_store WPENDING, demo_workflow WPENDING))))
     ''s1'' = Some y \<and> st_state y = SCOMPLETED"
proof -
  let ?r = "executeWorkflow mem_engine demo_defs (demo_store WPENDING, demo_workflow WPENDING)"
  have "fst ?r = Inr ()" by code_simp
  then have r: "?r = (Inr (), (fst (snd ?r), snd (snd ?r)))" by (metis prod.collapse)
  show ?thesis
    using completed_workflow_steps_completed [OF demo_engine_defs _ _ r, of demo_step]
    by (simp add: demo_step_def demo_store_def demo_workflow_def newStep_def mem_tab_def)
qed

text \<open>
  C1. Starting is idempotent: once \<open>startWorkflow\<close> was called, however it ended, a second call
  with the same type, user, input and context on the same UTC day runs nothing. It returns a workflow as it is
  stored, a row of the table with the same idempotency key, and leaves the store as it is.
\<close>

theorem startWorkflow_once:
  assumes "engine_defs E wtab stab defs" and "defs ty = Some d"
    and "iso_day (eng_now E (snd (startWorkflow E defs ty inp u wa c s))) = iso_day (eng_now E s)"
  shows "\<exists>w. startWorkflow E defs ty inp u wa c (snd (startWorkflow E defs ty inp u wa c s)) =
           (Inr w, snd (startWorkflow E defs ty inp u wa c s))
         \<and> wtab (snd (startWorkflow E defs ty inp u wa c s)) (wf_id w) = Some w
         \<and> wf_idempotencyKey w = generateWorkflowIdempotencyKey (eng_sha256 E) (eng_now E s) ty
             (or_str u ''anonymous'') inp c"
proof -
  let ?s = "snd (startWorkflow E defs ty inp u wa c s)"
  let ?k = "\<lambda>s. generateWorkflowIdempotencyKey (eng_sha256 E) (eng_now E s) ty (or_str u ''anonymous'') inp c"
  have same: "?k ?s = ?k s"
    using assms(3) by (simp add: generateWorkflowIdempotencyKey_def workflowKeyMessage_eq)
  have "engine_defs.key_stored wtab (?k s) ?s"
    using engine_defs.startWorkflow_stores [OF assms(1,2) refl, where s = s and wa = wa]
    by (simp only: wp_final)
  then have "engine_defs.key_stored wtab (?k ?s) ?s" by (simp only: same)
  from engine_defs.startWorkflow_existing [OF assms(1,2) this refl, where wa = wa] show ?thesis
    unfolding wp_value same by blast
qed

theorem startWorkflow_once_witness:
  "\<exists>w. startWorkflow still_engine demo_defs ''reward_grant'' [] None None None
       (snd (startWorkflow still_engine demo_defs ''reward_grant'' [] None None None (demo_store WFAILED))) =
     (Inr w, snd (startWorkflow still_engine demo_defs ''reward_grant'' [] None None None (demo_store WFAILED)))
   \<and> mem_wtab (snd (startWorkflow still_engine demo_defs ''reward_grant'' [] None None None (demo_store WFAILED))) (wf_id w) = Some w
   \<and> wf_idempotencyKey w = generateWorkflowIdempotencyKey (eng_sha256 still_engine)
       (eng_now still_engine (demo_store WFAILED)) ''reward_grant'' (or_str None ''anonymous'') [] None"
proof (rule startWorkflow_once [OF still_engine_defs])
  show "demo_defs ''reward_grant'' = Some \<lparr>wd_type = ''reward_grant'', wd_steps = [demo_step_def],
      wd_maxRetries = None, wd_requiresCompensation = None\<rparr>"
    by (simp add: demo_defs_def registerWorkflowDefinition_def)
qed (simp add: still_engine_def)

text \<open>
  C32. \<open>retryWorkflow\<close> on a failed workflow never resumes it: it marks the workflow \<open>running\<close> first,
  and \<open>executeWorkflow\<close> then refuses the transition from \<open>running\<close> to \<open>running\<close>. The call always
  throws that error and leaves the row \<open>running\<close>, with the retry counted and the old failure
  columns still set.
\<close>

theorem retryWorkflow_never_resumes:
  assumes "engine_env E wtab stab" and "wtab s i = Some w" and "wf_state w = WFAILED"
    and "defs (wf_type w) = Some d"
  shows "\<exists>s' w'. retryWorkflow E defs i s =
      (Inl (Error ''Cannot start workflow: Invalid workflow state transition from running to running''), s')
    \<and> wtab s' i = Some w' \<and> wf_state w' = WRUNNING \<and> wf_retryCount w' = wf_retryCount w + 1
    \<and> wf_failureReason w' = wf_failureReason w \<and> wf_failedAt w' = wf_failedAt w"
  using engine_env.retry_stuck_wp [OF assms(1), of s i w defs d] assms(2-4) by (auto simp: wp_exn)

theorem retryWorkflow_never_resumes_witness:
  "\<exists>s' w'. retryWorkflow mem_engine demo_defs ''w1'' (demo_store WFAILED) =
      (Inl (Error ''Cannot start workflow: Invalid workflow state transition from running to running''), s')
    \<and> mem_wtab s' ''w1'' = Some w' \<and> wf_state w' = WRUNNING
    \<and> wf_retryCount w' = wf_retryCount (demo_workflow WFAILED) + 1
    \<and> wf_failureReason w' = wf_failureReason (demo_workflow WFAILED)
    \<and> wf_failedAt w' = wf_failedAt (demo_workflow WFAILED)"
  by (rule retryWorkflow_never_resumes [OF mem_engine_env])
    (simp_all add: demo_store_def demo_workflow_def mem_tab_def demo_defs_def newWorkflow_def
      registerWorkflowDefinition_def)

text \<open>
  \<open>cancelWorkflow\<close> is a total function of the stored row: an unknown id and a state the
  table does not let go to \<open>cancelled\<close> throw and change nothing; otherwise the row becomes
  \<open>cancelled\<close> with the current time and no other row changes.
\<close>

theorem cancelWorkflow_spec:
  assumes "engine_env E wtab stab"
  shows "case wtab s i of
      None \<Rightarrow> cancelWorkflow E i s = (Inl (Error (''Workflow not found: '' @ i)), s)
    | Some w \<Rightarrow>
        if wf_state w \<in> {WPENDING, WRUNNING, WFAILED}
        then \<exists>s' t. cancelWorkflow E i s = (Inr (), s') \<and> wtab s' = (wtab s)(i \<mapsto>
               w\<lparr>wf_state := WCANCELLED, wf_completedAt := Some (eng_now E s), wf_updatedAt := t\<rparr>)
        else \<exists>m. cancelWorkflow E i s = (Inl (Error m), s)"
  using engine_env.cancel_wp [OF assms, of i s]
  by (auto simp: wp_def split: option.splits if_splits prod.splits sum.splits)

theorem cancelWorkflow_spec_witness:
  "\<exists>s' t. cancelWorkflow mem_engine ''w1'' (demo_store WRUNNING) = (Inr (), s') \<and>
     mem_wtab s' = (mem_wtab (demo_store WRUNNING))(''w1'' \<mapsto> (demo_workflow WRUNNING)
       \<lparr>wf_state := WCANCELLED, wf_completedAt := Some (eng_now mem_engine (demo_store WRUNNING)),
        wf_updatedAt := t\<rparr>)"
  using cancelWorkflow_spec [OF mem_engine_env, of "''w1''" "demo_store WRUNNING"]
  by (simp add: demo_store_def demo_workflow_def mem_tab_def)

text \<open>A step whose code throws on a promise never gets past its \<open>try\<close> block.\<close>

lemma try_rejects:
  assumes "\<And>r c s. isl (fst (sd_execute d (ArgPromise r) c s))"
  shows "wp (executeStep_try E w (Some d)) (\<lambda>_ _. False) (\<lambda>_ _. True) p"
proof -
  have "wp (executeWithIdempotency (Some d) (ArgPromise r) c k) Q (\<lambda>_ _. True) = (\<lambda>_. True)" for r c k Q
    using assms [of r c]
    by (auto simp: executeWithIdempotency_def wp_def fun_eq_iff split: prod.splits sum.splits)
      (metis fst_conv isl_def sum.distinct(1))+
  then show ?thesis by (simp add: executeStep_try_def wp_simps Let_def)
qed

lemma executeStep_rejects:
  assumes "\<And>r c s. isl (fst (sd_execute d (ArgPromise r) c s))"
  shows "wp (executeStep E w (Some d)) (\<lambda>_ _. False) (\<lambda>_ _. True) p"
proof (induction "st_maxRetries (snd p) - st_retryCount (snd p)" arbitrary: p rule: less_induct)
  case less
  show ?case
  proof (subst wp_executeStep, rule wp_mono [OF wp_true [THEN fun_cong, THEN iffD2, OF TrueI]], goal_cases)
    case (1 u q)
    show ?case
    proof (rule wp_mono [OF try_rejects [OF assms]], goal_cases)
      case (2 e r)
      show ?case
        by (rule wp_mono [OF wp_true [THEN fun_cong, THEN iffD2, OF TrueI]])
          (auto intro!: less dest: attempt_decreases [OF 1(1) 2(1)])
    qed
  qed simp
qed

text \<open>
  No step ever sees its input: \<open>executeStep\<close> hands the step's code the promise of
  \<open>prepareStepInput\<close> instead of its value, and a promise has none of the input's properties. A
  step that rejects an input without properties therefore fails on every run with all its
  retries used, whatever the workflow's input and the earlier outputs are.
\<close>

theorem step_input_never_seen:
  assumes "engine_env E wtab stab" and "canTransitionStep (st_state x) SRUNNING"
    and "\<And>a c s. arg_props a = [] \<Longrightarrow> isl (fst (sd_execute d a c s))"
  shows "\<exists>e q. executeStep E w (Some d) (s, x) = (Inl e, q) \<and> step_gave_up stab x e q"
proof -
  have "wp (executeStep E w (Some d)) (\<lambda>_ _. False) (\<lambda>_ _. True) (s, x)"
    by (rule executeStep_rejects) (simp add: assms(3))
  with engine_env.executeStep_outcome_wp [OF assms(1), of "(s, x)" w "Some d"] assms(2)
  have "wp (executeStep E w (Some d)) (\<lambda>_ _. False) (step_gave_up stab x) (s, x)"
    by (auto simp: wp_def split: prod.splits sum.splits)
  then show ?thesis by (simp add: wp_exn)
qed

theorem step_input_never_seen_witness:
  "\<exists>e q. executeStep mem_engine ((demo_workflow WRUNNING)\<lparr>wf_input := [(''amount'', JNum 5)]\<rparr>)
      (Some (demo_step_def\<lparr>sd_execute := \<lambda>a c. case map_of (arg_props a) ''amount'' of
          None \<Rightarrow> throwE (Error ''Missing required trade parameters'') | Some v \<Rightarrow> returnE (Some v)\<rparr>))
      (demo_store WRUNNING, demo_step) = (Inl e, q) \<and> step_gave_up mem_stab demo_step e q"
  by (rule step_input_never_seen [OF mem_engine_env])
    (simp_all add: demo_step_def newStep_def canTransitionStep_def throwE_def)

end
