(* ===== verification/Workflow_Recovery.thy ===== *)
theory Workflow_Recovery
  imports Workflow_Execution
begin

text \<open>
  \<open>CompensationService\<close> and \<open>RecoveryService\<close>
  (src/Backend/src/workflow/services/compensation.service.ts and recovery.service.ts), on the
  engine of \<open>Workflow_Execution\<close>. The relation \<open>steps\<close> of a loaded workflow is a list
  beside it; saving the workflow cascades to steps that were saved already. \<open>RecoveryService\<close>'s
  flag \<open>isRecovering\<close> is a local object.
\<close>

section \<open>Compensation\<close>

definition compensateStep :: "'s engine \<Rightarrow> ('s \<times> WorkflowStep, unit) prog" where
  "compensateStep E =
     bindE getL (\<lambda>step.
       let transition = transitionStep (st_state step) SCOMPENSATING in
       if \<not> tr_success transition
       then throwE (Error (''Cannot start step compensation: '' @ the (tr_error transition)))
       else bindE (liftL (nowE E)) (\<lambda>t.
         seqE (modL (\<lambda>x. x\<lparr>st_state := SCOMPENSATING, st_compensatedAt := Some t\<rparr>))
         (seqE (saveStep E)
         (catchE
           (seqE (liftL (delay E 1000))
           (seqE (modL (\<lambda>x. x\<lparr>st_state := SCOMPENSATED, st_isCompensated := True\<rparr>)) (saveStep E)))
           (\<lambda>error.
              seqE (modL (\<lambda>x. x\<lparr>st_state := SFAILED,
                     st_failureReason := Some (''Compensation failed: '' @ exn_message error)\<rparr>))
              (seqE (saveStep E) (throwE error)))))))"

text \<open>The completed steps that need compensation, last step first (the sort is stable).\<close>

definition stepsToCompensate :: "WorkflowStep list \<Rightarrow> WorkflowStep list" where
  "stepsToCompensate steps = sort_key (\<lambda>x. - int (st_stepIndex x))
     (filter (\<lambda>x. st_state x = SCOMPLETED \<and> st_requiresCompensation x) steps)"

definition compensateAll :: "'s engine \<Rightarrow> WorkflowStep list \<Rightarrow> ('s \<times> Workflow, unit) prog" where
  "compensateAll E steps =
     seqE (forE (stepsToCompensate steps) (\<lambda>step. liftL (ignoreE (localE step (compensateStep E)))))
     (bindE (liftL (nowE E)) (\<lambda>t.
       seqE (modL (\<lambda>w. w\<lparr>wf_state := WCOMPENSATED, wf_isCompensated := True, wf_completedAt := Some t\<rparr>))
         (saveWorkflow E)))"

definition compensateWorkflow :: "'s engine \<Rightarrow> string \<Rightarrow> ('s, unit) prog" where
  "compensateWorkflow E workflowId =
     bindE (repo_findOne (eng_workflows E) (\<lambda>w. wf_id w = workflowId)) (\<lambda>found. case found of
       None \<Rightarrow> throwE (Error (''Workflow not found: '' @ workflowId))
     | Some workflow \<Rightarrow>
         bindE (loadSteps E workflowId) (\<lambda>steps.
         if \<not> canWorkflowCompensate (wf_state workflow)
         then throwE (Error (''Workflow '' @ workflowId @ '' cannot be compensated in state: '' @
                workflow_state_value (wf_state workflow)))
         else let transition = transitionWorkflow (wf_state workflow) WCOMPENSATING in
           if \<not> tr_success transition
           then throwE (Error (''Cannot start compensation: '' @ the (tr_error transition)))
           else ignoreE (localE (workflow\<lparr>wf_state := WCOMPENSATING, wf_requiresCompensation := True\<rparr>)
             (seqE (saveWorkflow E)
             (catchE (compensateAll E steps)
               (\<lambda>error.
                  seqE (modL (\<lambda>w. w\<lparr>wf_state := WFAILED,
                         wf_failureReason := Some (''Compensation failed: '' @ exn_message error)\<rparr>))
                  (seqE (saveWorkflow E) (throwE error))))))))"

definition getCompensatableWorkflows :: "'s engine \<Rightarrow> ('s, Workflow list) prog" where
  "getCompensatableWorkflows E = repo_find (eng_workflows E)
     (\<lambda>w. (wf_state w = WFAILED \<and> wf_requiresCompensation w \<and> \<not> wf_isCompensated w) \<or>
          (wf_state w = WCANCELLED \<and> wf_requiresCompensation w \<and> \<not> wf_isCompensated w))
     (Desc wf_createdAt)"

definition requiresCompensation :: "'s engine \<Rightarrow> string \<Rightarrow> ('s, bool) prog" where
  "requiresCompensation E workflowId =
     bindE (repo_findOne (eng_workflows E) (\<lambda>w. wf_id w = workflowId)) (\<lambda>found. case found of
       None \<Rightarrow> throwE (Error (''Workflow not found: '' @ workflowId))
     | Some workflow \<Rightarrow> returnE (wf_requiresCompensation workflow \<and> \<not> wf_isCompensated workflow))"

definition forceCompensateStep :: "'s engine \<Rightarrow> ('s \<times> WorkflowStep, unit) prog" where
  "forceCompensateStep E =
     bindE (liftL (nowE E)) (\<lambda>t.
     seqE (modL (\<lambda>x. x\<lparr>st_state := SCOMPENSATING, st_compensatedAt := Some t\<rparr>))
     (seqE (saveStep E)
     (seqE (liftL (delay E 500))
     (seqE (modL (\<lambda>x. x\<lparr>st_state := SCOMPENSATED, st_isCompensated := True\<rparr>)) (saveStep E)))))"

definition forceCompensateWorkflow :: "'s engine \<Rightarrow> string \<Rightarrow> ('s, unit) prog" where
  "forceCompensateWorkflow E workflowId =
     bindE (repo_findOne (eng_workflows E) (\<lambda>w. wf_id w = workflowId)) (\<lambda>found. case found of
       None \<Rightarrow> throwE (Error (''Workflow not found: '' @ workflowId))
     | Some workflow \<Rightarrow>
         bindE (loadSteps E workflowId) (\<lambda>steps.
         ignoreE (localE (workflow\<lparr>wf_state := WCOMPENSATING, wf_requiresCompensation := True\<rparr>)
           (seqE (saveWorkflow E)
           (seqE (forE (stepsToCompensate steps) (\<lambda>step. liftL (ignoreE (localE step (forceCompensateStep E)))))
           (seqE (modL (\<lambda>w. w\<lparr>wf_state := WCOMPENSATED, wf_isCompensated := True\<rparr>))
             (saveWorkflow E)))))))"

section \<open>Recovery\<close>

definition lastCompletedStep :: "WorkflowStep list \<Rightarrow> WorkflowStep option" where
  "lastCompletedStep steps = fold (\<lambda>step latest. case latest of
       None \<Rightarrow> Some step
     | Some l \<Rightarrow> if st_stepIndex l < st_stepIndex step then Some step else Some l)
     (filter (\<lambda>x. st_state x = SCOMPLETED) steps) None"

definition recoverWorkflow :: "'s engine \<Rightarrow> 's definitions \<Rightarrow> Workflow \<Rightarrow> WorkflowStep list \<Rightarrow> ('s, unit) prog" where
  "recoverWorkflow E defs workflow steps =
     bindE (nowE E) (\<lambda>now.
       let stalenessThreshold = 5 * 60 * 1000; lastActivity = wf_updatedAt workflow in
       if now - lastActivity < stalenessThreshold then returnE ()
       else if filter (\<lambda>x. st_state x = SFAILED) steps \<noteq> [] then
         bindE (nowE E) (\<lambda>t. ignoreE (repo_save (eng_workflows E)
           (workflow\<lparr>wf_state := WFAILED,
              wf_failureReason := Some ''Workflow failed during service interruption'',
              wf_failedAt := Some t\<rparr>)))
       else
         let currentStepIndex = (case lastCompletedStep steps of
               Some l \<Rightarrow> st_stepIndex l + 1 | None \<Rightarrow> 0)
         in ignoreE (localE (workflow\<lparr>wf_currentStepIndex := currentStepIndex\<rparr>) (executeWorkflow E defs)))"

definition recoverOrphanedWorkflows :: "'s engine \<Rightarrow> 's definitions \<Rightarrow> ('s, unit) prog" where
  "recoverOrphanedWorkflows E defs =
     bindE (repo_find (eng_workflows E) (\<lambda>w. wf_state w = WRUNNING) Unordered) (\<lambda>ws.
     bindE (mapE ws (\<lambda>w. bindE (loadSteps E (wf_id w)) (\<lambda>steps. returnE (w, steps)))) (\<lambda>orphanedWorkflows.
       forE orphanedWorkflows (\<lambda>(w, steps).
         catchE (recoverWorkflow E defs w steps) (\<lambda>error. returnE ()))))"

text \<open>A step of \<open>recoverStuckSteps\<close> comes with its workflow; a missing one reads \<open>undefined\<close>.\<close>

definition recoverStuckStep :: "'s engine \<Rightarrow> WorkflowStep \<Rightarrow> Workflow option \<Rightarrow> ('s, unit) prog" where
  "recoverStuckStep E step rel =
     (case rel of None \<Rightarrow> throwE (TypeError ''Cannot read properties of null (reading state)'')
      | Some workflow \<Rightarrow>
        if wf_state workflow \<noteq> WRUNNING then returnE ()
        else bindE (nowE E) (\<lambda>t.
          let failed = step\<lparr>st_state := SFAILED, st_failedAt := Some t,
                st_failureReason := Some ''Step timed out during service interruption'',
                st_retryCount := st_retryCount step + 1\<rparr> in
          if shouldRetry (step_state_value SFAILED) (st_retryCount failed) (st_maxRetries failed)
          then bindE (readE (eng_random53 E)) (\<lambda>r. bindE (nowE E) (\<lambda>t1.
                 ignoreE (repo_save (eng_steps E) (failed\<lparr>st_nextRetryAt :=
                   Some (calculateNextRetryTime t1 r (st_retryCount failed) 1000)\<rparr>))))
          else bindE (nowE E) (\<lambda>t1.
                 seqE (ignoreE (repo_save (eng_workflows E)
                   (workflow\<lparr>wf_state := WFAILED, wf_failedAt := Some t1,
                     wf_failureReason := Some (''Step '' @ st_stepName step @ '' failed after max retries'')\<rparr>)))
                 (ignoreE (repo_save (eng_steps E) failed)))))"

definition recoverStuckSteps :: "'s engine \<Rightarrow> ('s, unit) prog" where
  "recoverStuckSteps E =
     bindE (nowE E) (\<lambda>now.
       let stalenessThreshold = 10 * 60 * 1000; cutoffTime = now - stalenessThreshold in
       bindE (repo_find (eng_steps E) (\<lambda>x. st_state x = SRUNNING \<and> st_updatedAt x < cutoffTime) Unordered) (\<lambda>xs.
       bindE (mapE xs (\<lambda>x. bindE (repo_findOne (eng_workflows E) (\<lambda>w. wf_id w = st_workflowId x))
               (\<lambda>w. returnE (x, w)))) (\<lambda>stuckSteps.
         forE stuckSteps (\<lambda>(x, w). catchE (recoverStuckStep E x w) (\<lambda>error. returnE ())))))"

text \<open>Only logs what it finds. A day is taken as 24 hours.\<close>

definition cleanupExpiredWorkflows :: "'s engine \<Rightarrow> ('s, unit) prog" where
  "cleanupExpiredWorkflows E =
     bindE (nowE E) (\<lambda>now.
       let retentionDays = 30; cutoffDate = now - retentionDays * day_ms in
       ignoreE (repo_find (eng_workflows E)
         (\<lambda>w. wf_createdAt w < cutoffDate \<and> wf_state w = WCOMPLETED) Unordered))"

definition performStartupRecovery :: "'s engine \<Rightarrow> 's definitions \<Rightarrow> ('s \<times> bool, unit) prog" where
  "performStartupRecovery E defs =
     bindE getL (\<lambda>isRecovering.
       if isRecovering then returnE ()
       else seqE (modL (\<lambda>_. True))
         (seqE (catchE (liftL (seqE (recoverOrphanedWorkflows E defs)
                  (seqE (recoverStuckSteps E) (cleanupExpiredWorkflows E)))) (\<lambda>error. returnE ()))
         (modL (\<lambda>_. False))))"

definition scheduledRecovery :: "'s engine \<Rightarrow> 's definitions \<Rightarrow> ('s \<times> bool, unit) prog" where
  "scheduledRecovery E defs =
     bindE getL (\<lambda>isRecovering.
       if isRecovering then returnE ()
       else seqE (modL (\<lambda>_. True))
         (seqE (catchE (liftL (seqE (recoverOrphanedWorkflows E defs) (recoverStuckSteps E)))
                  (\<lambda>error. returnE ()))
         (modL (\<lambda>_. False))))"

record recovery_counts =
  rc_orphanedWorkflows :: nat
  rc_stuckSteps :: nat
  rc_expiredWorkflows :: nat

definition triggerManualRecovery :: "'s engine \<Rightarrow> 's definitions \<Rightarrow> ('s, recovery_counts) prog" where
  "triggerManualRecovery E defs =
     seqE (recoverOrphanedWorkflows E defs)
     (bindE (repo_count (eng_workflows E) (\<lambda>w. wf_state w = WRUNNING)) (\<lambda>orphaned.
     seqE (recoverStuckSteps E)
     (bindE (repo_find (eng_steps E) (\<lambda>x. st_state x = SRUNNING) Unordered) (\<lambda>stuckSteps.
     seqE (cleanupExpiredWorkflows E)
       (returnE \<lparr>rc_orphanedWorkflows = orphaned, rc_stuckSteps = length stuckSteps,
                 rc_expiredWorkflows = 0\<rparr>)))))"

record recovery_stats =
  rs_totalWorkflows :: nat
  rs_runningWorkflows :: nat
  rs_stuckSteps :: nat
  rs_failedWorkflows :: nat
  rs_lastRecoveryRun :: "int option"

definition getRecoveryStats :: "'s engine \<Rightarrow> ('s, recovery_stats) prog" where
  "getRecoveryStats E =
     bindE (repo_count (eng_workflows E) (\<lambda>_. True)) (\<lambda>total.
     bindE (repo_count (eng_workflows E) (\<lambda>w. wf_state w = WRUNNING)) (\<lambda>running.
     bindE (repo_count (eng_steps E) (\<lambda>x. st_state x = SRUNNING)) (\<lambda>stuck.
     bindE (repo_count (eng_workflows E) (\<lambda>w. wf_state w = WFAILED)) (\<lambda>failed.
       returnE \<lparr>rs_totalWorkflows = total, rs_runningWorkflows = running, rs_stuckSteps = stuck,
                rs_failedWorkflows = failed, rs_lastRecoveryRun = None\<rparr>))))"

section \<open>Lemmas on the engine\<close>

definition step_compensated :: "WorkflowStep option \<Rightarrow> bool" where
  "step_compensated r = (case r of None \<Rightarrow> False | Some y \<Rightarrow> st_state y = SCOMPENSATED \<and> st_isCompensated y)"

text \<open>
  What a compensation of workflow \<open>i\<close> leaves behind: its row is compensated, its completed steps
  that need it are compensated, every other step row is untouched.
\<close>

definition compensation_done :: "('s \<Rightarrow> string \<Rightarrow> Workflow option) \<Rightarrow> ('s \<Rightarrow> string \<Rightarrow> WorkflowStep option) \<Rightarrow>
    's \<Rightarrow> string \<Rightarrow> 's \<Rightarrow> bool" where
  "compensation_done wtab stab s i s' \<longleftrightarrow>
     (\<exists>w. wtab s' i = Some w \<and> wf_state w = WCOMPENSATED \<and> wf_isCompensated w) \<and>
     (\<forall>j x. stab s j = Some x \<longrightarrow>
        (if st_workflowId x = i \<and> st_state x = SCOMPLETED \<and> st_requiresCompensation x
         then step_compensated (stab s' j) else stab s' j = Some x))"

lemma stepsToCompensate_set:
  "set (stepsToCompensate xs) = {x \<in> set xs. st_state x = SCOMPLETED \<and> st_requiresCompensation x}"
  by (simp add: stepsToCompensate_def)

lemma stepsToCompensate_distinct:
  "distinct (map st_id xs) \<Longrightarrow> distinct (map st_id (stepsToCompensate xs))"
  by (auto simp: stepsToCompensate_def distinct_map inj_on_def)

lemma st_isCompensated_stamp [simp]: "st_isCompensated (st_stamp t x) = st_isCompensated x"
  by (simp add: st_stamp_def)

context engine_env
begin

lemma compensateStep_wp:
  assumes "st_state x = SCOMPLETED"
  shows "wp (compensateStep E)
    (\<lambda>_ q. wtab (fst q) = wtab s \<and> step_compensated (stab (fst q) (st_id x)) \<and>
       (\<forall>i. i \<noteq> st_id x \<longrightarrow> stab (fst q) i = stab s i)) (\<lambda>_ _. False) (s, x)"
  using assms
  by (simp add: compensateStep_def wp_simps Let_def can_compensate_step canStepCompensate_def step_compensated_def)

lemma forceCompensateStep_wp:
  "wp (forceCompensateStep E)
    (\<lambda>_ q. wtab (fst q) = wtab s \<and> step_compensated (stab (fst q) (st_id x)) \<and>
       (\<forall>i. i \<noteq> st_id x \<longrightarrow> stab (fst q) i = stab s i)) (\<lambda>_ _. False) (s, x)"
  by (simp add: forceCompensateStep_def wp_simps Let_def step_compensated_def)

text \<open>
  A loop over the steps to compensate whose body compensates its step: afterwards they are all
  compensated, the other rows and the workflow object are as before.
\<close>

lemma compensate_loop:
  assumes "distinct (map st_id xs)"
    and body: "\<And>x s. st_state x = SCOMPLETED \<Longrightarrow> wp f
      (\<lambda>_ q. wtab (fst q) = wtab s \<and> step_compensated (stab (fst q) (st_id x)) \<and>
         (\<forall>i. i \<noteq> st_id x \<longrightarrow> stab (fst q) i = stab s i)) (\<lambda>_ _. False) (s, x)"
  shows "wp (forE (stepsToCompensate xs) (\<lambda>step. liftL (ignoreE (localE step f))))
    (\<lambda>_ q. (\<forall>x \<in> set (stepsToCompensate xs). step_compensated (stab (fst q) (st_id x))) \<and>
       (\<forall>i. i \<notin> st_id ` set (stepsToCompensate xs) \<longrightarrow> stab (fst q) i = stab (fst p) i) \<and>
       snd q = snd p) (\<lambda>_ _. False) (p :: 's \<times> Workflow)"
proof -
  let ?g = "\<lambda>step. liftL (ignoreE (localE step f)) :: ('s \<times> Workflow, unit) prog"
  have step: "wp (?g x)
      (\<lambda>_ q. step_compensated (stab (fst q) (st_id x)) \<and> (\<forall>i. i \<noteq> st_id x \<longrightarrow> stab (fst q) i = stab (fst p) i))
      (\<lambda>_ _. False) p" if "x \<in> set (stepsToCompensate xs)" for x p
    by (simp add: wp_simps) (rule wp_mono [OF body], use that in \<open>auto simp: stepsToCompensate_set\<close>)
  have "wp (forE (stepsToCompensate xs) ?g) (\<lambda>_ q. snd q = snd p) (\<lambda>_ q. snd q = snd p) p"
    by (rule wp_forE_invariant) (simp_all add: wp_simps)
  moreover have "wp (forE (stepsToCompensate xs) ?g)
    (\<lambda>_ q. (\<forall>x \<in> set (stepsToCompensate xs). step_compensated (stab (fst q) (st_id x))) \<and>
       (\<forall>i. i \<notin> st_id ` set (stepsToCompensate xs) \<longrightarrow> stab (fst q) i = stab (fst p) i)) (\<lambda>_ _. False) p"
    using wp_forE_rows [OF stepsToCompensate_distinct [OF assms(1)] step] by simp
  ultimately show ?thesis
    by (auto simp: wp_def split: prod.splits sum.splits)
qed

lemma save_compensated:
  assumes w: "wf_id w = i" "wf_state w = WCOMPENSATED" "wf_isCompensated w"
    and inside: "\<forall>x \<in> set (stepsToCompensate (res (loadSteps E i) s)). step_compensated (stab q (st_id x))"
    and outside: "\<forall>j. j \<notin> st_id ` set (stepsToCompensate (res (loadSteps E i) s)) \<longrightarrow> stab q j = stab s j"
  shows "compensation_done wtab stab s i (fin (repo_save (eng_workflows E) w) q)"
proof -
  have load: "set (res (loadSteps E i) s) = {x. stab s (st_id x) = Some x \<and> st_workflowId x = i}"
    by (simp add: loadSteps_def S.find_set)
  have "if st_workflowId x = i \<and> st_state x = SCOMPLETED \<and> st_requiresCompensation x
         then step_compensated (stab q j) else stab q j = Some x" if x: "stab s j = Some x" for j x
  proof -
    have id: "st_id x = j" using S.key_tab x by blast
    have key: "j \<in> st_id ` set (stepsToCompensate (res (loadSteps E i) s)) \<longleftrightarrow>
        x \<in> set (stepsToCompensate (res (loadSteps E i) s))"
    proof
      assume "j \<in> st_id ` set (stepsToCompensate (res (loadSteps E i) s))"
      then obtain y where y: "y \<in> set (stepsToCompensate (res (loadSteps E i) s))" "st_id y = j" by blast
      then have "stab s j = Some y" by (simp add: stepsToCompensate_set load)
      with x y(1) show "x \<in> set (stepsToCompensate (res (loadSteps E i) s))" by simp
    qed (use id in blast)
    show ?thesis
    proof (cases "x \<in> set (stepsToCompensate (res (loadSteps E i) s))")
      case True
      with inside id show ?thesis by (auto simp: stepsToCompensate_set load)
    next
      case False
      with outside key x id show ?thesis by (auto simp: stepsToCompensate_set load)
    qed
  qed
  moreover have "wf_isCompensated (wf_stamp t w) = wf_isCompensated w" for t by (simp add: wf_stamp_def)
  ultimately show ?thesis using w by (simp add: compensation_done_def)
qed

lemma load_distinct: "distinct (map st_id (res (loadSteps E i) s))"
  by (simp add: loadSteps_def S.find_distinct)

lemma wp_loadSteps [wp_simps]: "wp (loadSteps E i) Q X = (\<lambda>s. Q (res (loadSteps E i) s) s)"
  by (simp add: loadSteps_def wp_simps)

lemma compensateWorkflow_wp:
  assumes w: "wtab s i = Some w" and can: "canWorkflowCompensate (wf_state w)"
  shows "wp (compensateWorkflow E i) (\<lambda>_. compensation_done wtab stab s i) (\<lambda>_ _. False) s"
proof -
  have id: "wf_id w = i" using W.key_tab w by blast
  have "wp (compensateAll E (res (loadSteps E i) s)) (\<lambda>_ q. compensation_done wtab stab s i (fst q)) X p"
    if p: "stab (fst p) = stab s" "wf_id (snd p) = i" for p X
    unfolding compensateAll_def
    by (simp add: wp_simps, rule wp_mono [OF compensate_loop [OF load_distinct compensateStep_wp]])
      (use p in \<open>auto intro!: save_compensated\<close>)
  note all = this
  from w can id show ?thesis
    by (simp add: compensateWorkflow_def wp_simps W.findOne_key Let_def can_compensate_workflow)
      (rule all, simp_all)
qed

lemma forceCompensateWorkflow_wp:
  assumes w: "wtab s i = Some w"
  shows "wp (forceCompensateWorkflow E i) (\<lambda>_. compensation_done wtab stab s i) (\<lambda>_ _. False) s"
proof -
  have id: "wf_id w = i" using W.key_tab w by blast
  show ?thesis using w id
    by (simp add: forceCompensateWorkflow_def wp_simps W.findOne_key,
        intro wp_mono [OF compensate_loop [OF load_distinct forceCompensateStep_wp]])
      (auto intro!: save_compensated)
qed

lemma compensate_refused:
  "case wtab s i of
      None \<Rightarrow> wp (compensateWorkflow E i) (\<lambda>_ _. False) (\<lambda>e t. e = Error (''Workflow not found: '' @ i) \<and> t = s) s
    | Some w \<Rightarrow> \<not> canWorkflowCompensate (wf_state w) \<longrightarrow>
        wp (compensateWorkflow E i) (\<lambda>_ _. False) (\<lambda>e t. e = Error (''Workflow '' @ i @
          '' cannot be compensated in state: '' @ workflow_state_value (wf_state w)) \<and> t = s) s"
  by (simp add: compensateWorkflow_def wp_simps W.findOne_key split: option.split)

lemma recoverStuckStep_wp:
  assumes x: "stab s (st_id x) = Some x" and w: "wtab s (wf_id w) = Some w" "wf_state w = WRUNNING"
  shows "wp (recoverStuckStep E x (Some w))
    (\<lambda>_ s'. (\<exists>y. stab s' (st_id x) = Some y \<and> st_state y = SFAILED \<and> st_retryCount y = st_retryCount x + 1)
       \<and> (if st_retryCount x + 1 < st_maxRetries x then wtab s' (wf_id w) = Some w
          else \<exists>w'. wtab s' (wf_id w) = Some w' \<and> wf_state w' = WFAILED)) (\<lambda>_ _. False) s"
  using assms by (simp add: recoverStuckStep_def wp_simps Let_def shouldRetry_def)

end

lemma recoverWorkflow_refused:
  assumes "wf_state w = WRUNNING" and "defs (wf_type w) = Some d"
    and "5 * 60 * 1000 \<le> eng_now E s - wf_updatedAt w" and "\<forall>x \<in> set steps. st_state x \<noteq> SFAILED"
  shows "wp (recoverWorkflow E defs w steps) (\<lambda>_ _. False)
    (\<lambda>e t. e = Error ''Cannot start workflow: Invalid workflow state transition from running to running'' \<and> t = s) s"
  using assms
  by (simp add: recoverWorkflow_def wp_simps Let_def executeWorkflow_def getWorkflowDefinition_def
      can_run_workflow transitionWorkflow_def filter_empty_conv)

section \<open>Properties\<close>

text \<open>
  \<open>compensateWorkflow\<close> on every branch: an unknown workflow and one whose state is not
  \<open>completed\<close>, \<open>failed\<close> or \<open>cancelled\<close> throw and change nothing; otherwise the call returns, the
  workflow's row is \<open>compensated\<close>, each of its completed steps that needs compensation is
  \<open>compensated\<close>, and every other step row is untouched.
\<close>

theorem compensateWorkflow_spec:
  assumes "engine_env E wtab stab"
  shows "case wtab s i of
      None \<Rightarrow> compensateWorkflow E i s = (Inl (Error (''Workflow not found: '' @ i)), s)
    | Some w \<Rightarrow>
        if canWorkflowCompensate (wf_state w)
        then \<exists>s'. compensateWorkflow E i s = (Inr (), s') \<and> compensation_done wtab stab s i s'
        else compensateWorkflow E i s = (Inl (Error (''Workflow '' @ i @ '' cannot be compensated in state: '' @
               workflow_state_value (wf_state w))), s)"
  using engine_env.compensateWorkflow_wp [OF assms, where s = s and i = i] engine_env.compensate_refused [OF assms, where s = s and i = i]
  by (auto simp: wp_value wp_exn split: option.split)

theorem compensateWorkflow_spec_witness:
  "\<exists>s'. compensateWorkflow mem_engine ''w1'' (demo_store WFAILED) = (Inr (), s') \<and>
     compensation_done mem_wtab mem_stab (demo_store WFAILED) ''w1'' s'"
  using compensateWorkflow_spec [OF mem_engine_env, where s = "demo_store WFAILED" and i = "''w1''"]
  by (simp add: demo_store_def demo_workflow_def mem_tab_def canWorkflowCompensate_def)

text \<open>
  Steps are compensated in reverse order: the order in which \<open>compensateWorkflow\<close> takes the
  steps is by decreasing step index, and it takes exactly the completed steps that need it.
\<close>

theorem compensation_order:
  "sorted (rev (map st_stepIndex (stepsToCompensate steps))) \<and>
   mset (stepsToCompensate steps) = filter_mset (\<lambda>x. st_state x = SCOMPLETED \<and> st_requiresCompensation x) (mset steps)"
proof
  have "sorted (map (\<lambda>x. - int (st_stepIndex x)) (stepsToCompensate steps))"
    by (simp add: stepsToCompensate_def)
  then have "sorted_wrt (\<lambda>x y. st_stepIndex y \<le> st_stepIndex x) (stepsToCompensate steps)"
    by (simp add: sorted_map)
  then show "sorted (rev (map st_stepIndex (stepsToCompensate steps)))"
    by (simp add: sorted_wrt_rev sorted_wrt_map)
qed (simp add: stepsToCompensate_def mset_filter)

text \<open>
  Recovery never resumes an interrupted workflow: for a workflow found \<open>running\<close> for five
  minutes or more and without failed steps, \<open>recoverWorkflow\<close> calls \<open>executeWorkflow\<close>, which refuses the transition from
  \<open>running\<close> to \<open>running\<close>, and nothing in the store changes, whatever the repositories do.
\<close>

theorem recoverWorkflow_never_resumes:
  assumes "wf_state w = WRUNNING" and "defs (wf_type w) = Some d"
    and "5 * 60 * 1000 \<le> eng_now E s - wf_updatedAt w" and "\<forall>x \<in> set steps. st_state x \<noteq> SFAILED"
  shows "recoverWorkflow E defs w steps s =
    (Inl (Error ''Cannot start workflow: Invalid workflow state transition from running to running''), s)"
  using recoverWorkflow_refused [where defs = defs and w = w and d = d and E = E and s = s and steps = steps] assms
  by (auto simp: wp_exn)

theorem recoverWorkflow_never_resumes_witness:
  "recoverWorkflow mem_engine demo_defs (demo_workflow WRUNNING) [demo_step] ((demo_store WRUNNING)\<lparr>ms_clock := 300000\<rparr>) =
    (Inl (Error ''Cannot start workflow: Invalid workflow state transition from running to running''),
     (demo_store WRUNNING)\<lparr>ms_clock := 300000\<rparr>)"
  by (rule recoverWorkflow_never_resumes)
    (simp_all add: demo_workflow_def demo_defs_def newWorkflow_def registerWorkflowDefinition_def
      mem_engine_def demo_step_def newStep_def)

text \<open>
  A stuck step of a running workflow is always marked \<open>failed\<close> with its retry counted; its
  workflow becomes \<open>failed\<close> exactly when the step's retries are used up, and otherwise stays as it
  is.
\<close>

theorem recoverStuckStep_spec:
  assumes "engine_env E wtab stab" and "stab s (st_id x) = Some x" and "wtab s (wf_id w) = Some w"
    and "wf_state w = WRUNNING"
  shows "\<exists>s' y. recoverStuckStep E x (Some w) s = (Inr (), s')
    \<and> stab s' (st_id x) = Some y \<and> st_state y = SFAILED \<and> st_retryCount y = st_retryCount x + 1
    \<and> (if st_retryCount x + 1 < st_maxRetries x then wtab s' (wf_id w) = Some w
       else \<exists>w'. wtab s' (wf_id w) = Some w' \<and> wf_state w' = WFAILED)"
  using engine_env.recoverStuckStep_wp [OF assms(1), of s x w] assms(2-4) by (auto simp: wp_value)

theorem recoverStuckStep_spec_witness:
  "\<exists>s' y. recoverStuckStep mem_engine demo_step (Some (demo_workflow WRUNNING)) (demo_store WRUNNING) = (Inr (), s')
    \<and> mem_stab s' (st_id demo_step) = Some y \<and> st_state y = SFAILED
    \<and> st_retryCount y = st_retryCount demo_step + 1
    \<and> (if st_retryCount demo_step + 1 < st_maxRetries demo_step
       then mem_wtab s' (wf_id (demo_workflow WRUNNING)) = Some (demo_workflow WRUNNING)
       else \<exists>w'. mem_wtab s' (wf_id (demo_workflow WRUNNING)) = Some w' \<and> wf_state w' = WFAILED)"
  by (rule recoverStuckStep_spec [OF mem_engine_env])
    (simp_all add: demo_store_def demo_workflow_def mem_tab_def)

text \<open>
  Startup recovery never throws and always clears its flag, whatever the database, the clock
  and the step code do; while another recovery holds the flag it does nothing at all.
\<close>

theorem startup_recovery_total:
  "fst (performStartupRecovery E defs (s, b)) = Inr () \<and> snd (snd (performStartupRecovery E defs (s, b))) = b
   \<and> performStartupRecovery E defs (s, True) = (Inr (), (s, True))"
proof -
  have "wp (performStartupRecovery E defs) (\<lambda>_ q. snd q = b) (\<lambda>_ _. False) (s, b)"
    by (simp add: performStartupRecovery_def wp_simps)
  moreover have "wp (performStartupRecovery E defs) (\<lambda>_ q. q = (s, True)) (\<lambda>_ _. False) (s, True)"
    by (simp add: performStartupRecovery_def wp_simps)
  ultimately show ?thesis by (auto simp: wp_value)
qed

end
