(* ===== verification/Workflow_Monitoring.thy ===== *)
theory Workflow_Monitoring
  imports Complex_Main Workflow_Recovery
begin

text \<open>
  \<open>MonitoringService\<close> and \<open>WorkflowService\<close>
  (src/Backend/src/workflow/services/monitoring.service.ts and workflow.service.ts). Averages and
  rates are exact rationals where the code divides floating-point numbers. A plain object used as
  a counter is an association list in insertion order.
\<close>

section \<open>MonitoringService\<close>

definition between :: "int \<Rightarrow> int \<Rightarrow> int option \<Rightarrow> bool" where
  "between a b t = (case t of None \<Rightarrow> False | Some x \<Rightarrow> a \<le> x \<and> x \<le> b)"

definition hour_ms :: int where
  "hour_ms = 60 * 60 * 1000"

record workflow_acc =
  wa_byState :: "WorkflowState \<Rightarrow> nat"
  wa_totalDuration :: int
  wa_completed :: nat
  wa_failed :: nat
  wa_retries :: nat

definition countWorkflow :: "Workflow \<Rightarrow> workflow_acc \<Rightarrow> workflow_acc" where
  "countWorkflow w a =
     (let timed = (wf_state w = WCOMPLETED \<and> wf_startedAt w \<noteq> None \<and> wf_completedAt w \<noteq> None) in
      \<lparr>wa_byState = (wa_byState a)(wf_state w := wa_byState a (wf_state w) + 1),
       wa_totalDuration = wa_totalDuration a +
         (if timed then the (wf_completedAt w) - the (wf_startedAt w) else 0),
       wa_completed = wa_completed a + (if timed then 1 else 0),
       wa_failed = wa_failed a + (if wf_state w = WFAILED then 1 else 0),
       wa_retries = wa_retries a + wf_retryCount w\<rparr>)"

record workflow_metrics =
  wm_totalWorkflows :: nat
  wm_workflowsByState :: "WorkflowState \<Rightarrow> nat"
  wm_averageDuration :: rat
  wm_successRate :: rat
  wm_failureRate :: rat
  wm_retryRate :: rat

definition ratio :: "rat \<Rightarrow> nat \<Rightarrow> rat" where
  "ratio a n = (if 0 < n then a / of_nat n else 0)"

definition workflowMetrics :: "Workflow list \<Rightarrow> workflow_metrics" where
  "workflowMetrics workflows =
     (let a = fold countWorkflow workflows \<lparr>wa_byState = (\<lambda>_. 0), wa_totalDuration = 0,
                wa_completed = 0, wa_failed = 0, wa_retries = 0\<rparr>;
          n = length workflows in
      \<lparr>wm_totalWorkflows = n, wm_workflowsByState = wa_byState a,
       wm_averageDuration = ratio (of_int (wa_totalDuration a)) (wa_completed a),
       wm_successRate = ratio (of_nat (wa_completed a)) n * 100,
       wm_failureRate = ratio (of_nat (wa_failed a)) n * 100,
       wm_retryRate = ratio (of_nat (wa_retries a)) n\<rparr>)"

definition getWorkflowMetrics :: "'s engine \<Rightarrow> int \<Rightarrow> ('s, workflow_metrics) prog" where
  "getWorkflowMetrics E timeRangeHours =
     bindE (nowE E) (\<lambda>now.
     bindE (repo_find (eng_workflows E)
             (\<lambda>w. between (now - timeRangeHours * hour_ms) now (Some (wf_createdAt w))) Unordered)
       (\<lambda>workflows. returnE (workflowMetrics workflows)))"

fun bump :: "(string \<times> nat) list \<Rightarrow> string \<Rightarrow> (string \<times> nat) list" where
  "bump [] k = [(k, 1)]"
| "bump ((k', n) # ps) k = (if k' = k then (k, n + 1) # ps else (k', n) # bump ps k)"

record step_acc =
  sa_byState :: "StepState \<Rightarrow> nat"
  sa_totalDuration :: int
  sa_completed :: nat
  sa_failed :: nat
  sa_failureCounts :: "(string \<times> nat) list"

definition countStep :: "WorkflowStep \<Rightarrow> step_acc \<Rightarrow> step_acc" where
  "countStep x a =
     (let timed = (st_state x = SCOMPLETED \<and> st_startedAt x \<noteq> None \<and> st_completedAt x \<noteq> None) in
      \<lparr>sa_byState = (sa_byState a)(st_state x := sa_byState a (st_state x) + 1),
       sa_totalDuration = sa_totalDuration a +
         (if timed then the (st_completedAt x) - the (st_startedAt x) else 0),
       sa_completed = sa_completed a + (if timed then 1 else 0),
       sa_failed = sa_failed a + (if st_state x = SFAILED then 1 else 0),
       sa_failureCounts = (if st_state x = SFAILED then bump (sa_failureCounts a) (st_stepName x)
                           else sa_failureCounts a)\<rparr>)"

record step_metrics =
  sm_totalSteps :: nat
  sm_stepsByState :: "StepState \<Rightarrow> nat"
  sm_averageStepDuration :: rat
  sm_stepSuccessRate :: rat
  sm_stepFailureRate :: rat
  sm_mostFailedSteps :: "(string \<times> nat) list"

definition stepMetrics :: "WorkflowStep list \<Rightarrow> step_metrics" where
  "stepMetrics steps =
     (let a = fold countStep steps \<lparr>sa_byState = (\<lambda>_. 0), sa_totalDuration = 0, sa_completed = 0,
                sa_failed = 0, sa_failureCounts = []\<rparr>;
          n = length steps in
      \<lparr>sm_totalSteps = n, sm_stepsByState = sa_byState a,
       sm_averageStepDuration = ratio (of_int (sa_totalDuration a)) (sa_completed a),
       sm_stepSuccessRate = ratio (of_nat (sa_completed a)) n * 100,
       sm_stepFailureRate = ratio (of_nat (sa_failed a)) n * 100,
       sm_mostFailedSteps = take 5 (sort_key (\<lambda>p. - int (snd p)) (sa_failureCounts a))\<rparr>)"

definition getStepMetrics :: "'s engine \<Rightarrow> int \<Rightarrow> ('s, step_metrics) prog" where
  "getStepMetrics E timeRangeHours =
     bindE (nowE E) (\<lambda>now.
     bindE (repo_find (eng_steps E)
             (\<lambda>x. between (now - timeRangeHours * hour_ms) now (Some (st_createdAt x))) Unordered)
       (\<lambda>steps. returnE (stepMetrics steps)))"

subsection \<open>The timeline\<close>

record timeline_event =
  ev_timestamp :: int
  ev_eventType :: string
  ev_description :: string
  ev_metadata :: "jobj option"

definition opt_str :: "string option \<Rightarrow> json" where
  "opt_str v = (case v of None \<Rightarrow> JNull | Some x \<Rightarrow> JStr x)"

fun json_keys :: "json option \<Rightarrow> string list" where
  "json_keys (Some (JObj ps)) = object_keys ps"
| "json_keys (Some (JArr vs)) = map show_nat [0..<length vs]"
| "json_keys (Some (JStr s)) = map show_nat [0..<length s]"
| "json_keys _ = []"

definition or_time :: "int option \<Rightarrow> int \<Rightarrow> int" where
  "or_time v d = (case v of None \<Rightarrow> d | Some t \<Rightarrow> if t = 0 then d else t)"

definition quoteName :: "string \<Rightarrow> string" where
  "quoteName n = [CHR 0x27] @ n @ [CHR 0x27]"

definition optEvent :: "int option \<Rightarrow> (int \<Rightarrow> timeline_event) \<Rightarrow> timeline_event list" where
  "optEvent t f = (case t of None \<Rightarrow> [] | Some x \<Rightarrow> [f x])"

definition stepEvents :: "WorkflowStep \<Rightarrow> timeline_event list" where
  "stepEvents x =
     optEvent (st_startedAt x) (\<lambda>t. \<lparr>ev_timestamp = t, ev_eventType = ''STEP_STARTED'',
       ev_description = ''Step '' @ quoteName (st_stepName x) @ '' started'',
       ev_metadata = Some [(''stepIndex'', JNum (int (st_stepIndex x))), (''retryCount'', JNum (int (st_retryCount x)))]\<rparr>) @
     optEvent (st_completedAt x) (\<lambda>t. \<lparr>ev_timestamp = t, ev_eventType = ''STEP_COMPLETED'',
       ev_description = ''Step '' @ quoteName (st_stepName x) @ '' completed'',
       ev_metadata = Some [(''duration'', JNum (t - or_time (st_startedAt x) t)),
         (''outputKeys'', JArr (map JStr (if truthy_result (st_output x) then json_keys (st_output x) else [])))]\<rparr>) @
     optEvent (st_failedAt x) (\<lambda>t. \<lparr>ev_timestamp = t, ev_eventType = ''STEP_FAILED'',
       ev_description = ''Step '' @ quoteName (st_stepName x) @ '' failed'',
       ev_metadata = Some [(''failureReason'', opt_str (st_failureReason x)), (''retryCount'', JNum (int (st_retryCount x)))]\<rparr>) @
     optEvent (st_compensatedAt x) (\<lambda>t. \<lparr>ev_timestamp = t, ev_eventType = ''STEP_COMPENSATED'',
       ev_description = ''Step '' @ quoteName (st_stepName x) @ '' compensated'', ev_metadata = None\<rparr>)"

definition startEvents :: "Workflow \<Rightarrow> timeline_event list" where
  "startEvents w =
     [\<lparr>ev_timestamp = wf_createdAt w, ev_eventType = ''WORKFLOW_CREATED'',
       ev_description = ''Workflow '' @ wf_type w @ '' created'',
       ev_metadata = Some [(''idempotencyKey'', JStr (wf_idempotencyKey w)),
         (''userId'', opt_str (wf_userId w)), (''walletAddress'', opt_str (wf_walletAddress w))]\<rparr>] @
     optEvent (wf_startedAt w) (\<lambda>t. \<lparr>ev_timestamp = t, ev_eventType = ''WORKFLOW_STARTED'',
       ev_description = ''Workflow execution started'', ev_metadata = None\<rparr>)"

definition endEvents :: "Workflow \<Rightarrow> exn + timeline_event list" where
  "endEvents w =
     (let failed = optEvent (wf_failedAt w) (\<lambda>t. \<lparr>ev_timestamp = t, ev_eventType = ''WORKFLOW_FAILED'',
            ev_description = ''Workflow failed'',
            ev_metadata = Some [(''failureReason'', opt_str (wf_failureReason w)),
              (''currentStep'', JNum (int (wf_currentStepIndex w))), (''retryCount'', JNum (int (wf_retryCount w)))]\<rparr>);
          compensated = (if wf_isCompensated w then
            [\<lparr>ev_timestamp = (case wf_completedAt w of Some t \<Rightarrow> t | None \<Rightarrow> wf_updatedAt w),
              ev_eventType = ''WORKFLOW_COMPENSATED'',
              ev_description = ''Workflow compensation completed'', ev_metadata = None\<rparr>] else []) in
      case wf_completedAt w of
        None \<Rightarrow> Inr (failed @ compensated)
      | Some c \<Rightarrow> (case wf_startedAt w of
            None \<Rightarrow> Inl (TypeError ''Cannot read properties of null (reading getTime)'')
          | Some st \<Rightarrow> Inr (\<lparr>ev_timestamp = c, ev_eventType = ''WORKFLOW_COMPLETED'',
              ev_description = ''Workflow completed successfully'',
              ev_metadata = Some [(''totalDuration'', JNum (c - st)), (''totalSteps'', JNum (int (wf_totalSteps w))),
                (''retryCount'', JNum (int (wf_retryCount w)))]\<rparr> # failed @ compensated)))"

definition getWorkflowTimeline :: "'s engine \<Rightarrow> string \<Rightarrow> ('s, timeline_event list) prog" where
  "getWorkflowTimeline E workflowId =
     bindE (repo_findOne (eng_workflows E) (\<lambda>w. wf_id w = workflowId)) (\<lambda>found. case found of
       None \<Rightarrow> throwE (Error (''Workflow not found: '' @ workflowId))
     | Some workflow \<Rightarrow>
         bindE (loadSteps E workflowId) (\<lambda>steps.
           case endEvents workflow of
             Inl e \<Rightarrow> throwE e
           | Inr ends \<Rightarrow> returnE (sort_key ev_timestamp
               (startEvents workflow @ concat (map stepEvents (sort_key st_stepIndex steps)) @ ends))))"

subsection \<open>Health and distribution\<close>

datatype engine_status = Healthy | Degraded | Unhealthy

record system_health =
  sh_databaseConnection :: bool
  sh_workflowEngineStatus :: engine_status
  sh_pendingWorkflows :: nat
  sh_runningWorkflows :: nat
  sh_recentFailures :: nat
  sh_averageResponseTime :: rat

definition responseTime :: "Workflow list \<Rightarrow> rat" where
  "responseTime ws = ratio (of_int (fold (\<lambda>w acc. case (wf_startedAt w, wf_completedAt w) of
       (Some a, Some b) \<Rightarrow> acc + (b - a) | _ \<Rightarrow> acc) ws 0)) (length ws)"

text \<open>\<open>ping\<close> is the query \<open>SELECT 1\<close>.\<close>

definition getSystemHealth :: "'s engine \<Rightarrow> ('s, unit) prog \<Rightarrow> ('s, system_health) prog" where
  "getSystemHealth E ping =
     bindE (catchE (seqE ping (returnE True)) (\<lambda>error. returnE False)) (\<lambda>databaseConnection.
     bindE (repo_count (eng_workflows E) (\<lambda>w. wf_state w = WPENDING)) (\<lambda>pendingWorkflows.
     bindE (repo_count (eng_workflows E) (\<lambda>w. wf_state w = WRUNNING)) (\<lambda>runningWorkflows.
     bindE (nowE E) (\<lambda>now.
     bindE (repo_count (eng_workflows E)
             (\<lambda>w. wf_state w = WFAILED \<and> between (now - hour_ms) now (wf_failedAt w))) (\<lambda>recentFailures.
     bindE (nowE E) (\<lambda>now'.
     bindE (repo_find (eng_workflows E)
             (\<lambda>w. wf_state w = WCOMPLETED \<and> between (now' - hour_ms) now' (wf_completedAt w)) Unordered)
       (\<lambda>recentCompleted. returnE
         \<lparr>sh_databaseConnection = databaseConnection,
          sh_workflowEngineStatus =
            (if \<not> databaseConnection then Unhealthy
             else if 10 < recentFailures \<or> 1000 < runningWorkflows then Degraded else Healthy),
          sh_pendingWorkflows = pendingWorkflows, sh_runningWorkflows = runningWorkflows,
          sh_recentFailures = recentFailures, sh_averageResponseTime = responseTime recentCompleted\<rparr>)))))))"

fun bumpType :: "(string \<times> nat \<times> nat) list \<Rightarrow> Workflow \<Rightarrow> (string \<times> nat \<times> nat) list" where
  "bumpType [] w = [(wf_type w, 1, if wf_state w = WCOMPLETED then 1 else 0)]"
| "bumpType ((k, n, c) # ps) w =
     (if k = wf_type w then (k, n + 1, c + (if wf_state w = WCOMPLETED then 1 else 0)) # ps
      else (k, n, c) # bumpType ps w)"

definition typeDistribution :: "Workflow list \<Rightarrow> (string \<times> nat \<times> rat) list" where
  "typeDistribution ws = map (\<lambda>(k, n, c). (k, n, ratio (of_nat c) n * 100)) (fold (\<lambda>w a. bumpType a w) ws [])"

definition getWorkflowTypeDistribution :: "'s engine \<Rightarrow> int \<Rightarrow> ('s, (string \<times> nat \<times> rat) list) prog" where
  "getWorkflowTypeDistribution E timeRangeHours =
     bindE (nowE E) (\<lambda>now.
     bindE (repo_find (eng_workflows E)
             (\<lambda>w. between (now - timeRangeHours * hour_ms) now (Some (wf_createdAt w))) Unordered)
       (\<lambda>workflows. returnE (typeDistribution workflows)))"

section \<open>WorkflowService\<close>

text \<open>The three built-in definitions are registered at module start, the last one of a type wins.\<close>

definition registerBuiltIns :: "'s WorkflowDefinition \<Rightarrow> 's WorkflowDefinition \<Rightarrow> 's WorkflowDefinition \<Rightarrow>
    's definitions \<Rightarrow> 's definitions" where
  "registerBuiltIns contractDeployment tradeExecution aiJobChain defs =
     registerWorkflowDefinition (registerWorkflowDefinition
       (registerWorkflowDefinition defs contractDeployment) tradeExecution) aiJobChain"

definition getWorkflow :: "'s engine \<Rightarrow> string \<Rightarrow> ('s, (Workflow \<times> WorkflowStep list) option) prog" where
  "getWorkflow E i =
     bindE (repo_findOne (eng_workflows E) (\<lambda>w. wf_id w = i)) (\<lambda>found. case found of
       None \<Rightarrow> returnE None
     | Some w \<Rightarrow> bindE (loadSteps E i) (\<lambda>steps. returnE (Some (w, steps))))"

text \<open>One page of the workflows of a \<open>where\<close> clause, newest first; \<open>page\<close> counts from 1.\<close>

definition workflowPage :: "'s engine \<Rightarrow> (Workflow \<Rightarrow> bool) \<Rightarrow> nat \<Rightarrow> nat \<Rightarrow> ('s, Workflow list \<times> nat) prog" where
  "workflowPage E P page limit =
     repo_findAndCount (eng_workflows E) P (Desc wf_createdAt) ((page - 1) * limit) limit"

definition getUserWorkflows :: "'s engine \<Rightarrow> string \<Rightarrow> nat \<Rightarrow> nat \<Rightarrow> ('s, Workflow list \<times> nat) prog" where
  "getUserWorkflows E userId = workflowPage E (\<lambda>w. wf_userId w = Some userId)"

definition getWalletWorkflows :: "'s engine \<Rightarrow> string \<Rightarrow> nat \<Rightarrow> nat \<Rightarrow> ('s, Workflow list \<times> nat) prog" where
  "getWalletWorkflows E walletAddress = workflowPage E (\<lambda>w. wf_walletAddress w = Some walletAddress)"

definition getWorkflowsByState :: "'s engine \<Rightarrow> WorkflowState \<Rightarrow> nat \<Rightarrow> nat \<Rightarrow> ('s, Workflow list \<times> nat) prog" where
  "getWorkflowsByState E state = workflowPage E (\<lambda>w. wf_state w = state)"

definition getRetryableWorkflows :: "'s engine \<Rightarrow> ('s, Workflow list) prog" where
  "getRetryableWorkflows E = repo_find (eng_workflows E)
     (\<lambda>w. wf_state w = WFAILED \<and> wf_retryCount w = 0) (Desc (\<lambda>w. or_time (wf_failedAt w) 0))"

definition getCompensableWorkflows :: "'s engine \<Rightarrow> ('s, Workflow list) prog" where
  "getCompensableWorkflows E = repo_find (eng_workflows E)
     (\<lambda>w. wf_requiresCompensation w \<and> \<not> wf_isCompensated w \<and>
        List.member [WCOMPLETED, WFAILED, WCANCELLED] (wf_state w)) (Desc wf_createdAt)"

definition cleanupOldWorkflows :: "'s engine \<Rightarrow> int \<Rightarrow> ('s, nat) prog" where
  "cleanupOldWorkflows E daysOld =
     bindE (nowE E) (\<lambda>now.
       let cutoffDate = now - daysOld * day_ms in
       repo_delete (eng_workflows E) (\<lambda>w. List.member [WCOMPLETED, WCOMPENSATED] (wf_state w) \<and>
         (case wf_completedAt w of None \<Rightarrow> False | Some t \<Rightarrow> t < cutoffDate)))"

definition getWorkflowsNeedingRetry :: "'s engine \<Rightarrow> ('s, Workflow list) prog" where
  "getWorkflowsNeedingRetry E =
     bindE (nowE E) (\<lambda>now. repo_find (eng_workflows E)
       (\<lambda>w. wf_state w = WFAILED \<and> wf_retryCount w = 0 \<and>
          (case wf_nextRetryAt w of None \<Rightarrow> False | Some t \<Rightarrow> t < now))
       (Asc (\<lambda>w. or_time (wf_nextRetryAt w) 0)))"

definition processRetryQueue :: "'s engine \<Rightarrow> 's definitions \<Rightarrow> ('s, nat) prog" where
  "processRetryQueue E defs =
     bindE (getWorkflowsNeedingRetry E) (\<lambda>workflowsToRetry.
       seqE (forE workflowsToRetry (\<lambda>w. catchE (retryWorkflow E defs (wf_id w)) (\<lambda>error. returnE ())))
         (returnE (length workflowsToRetry)))"

text \<open>The methods that hand their arguments to another service; \<open>hours_or_day\<close> is the parameter with its default of 24.\<close>

definition service_startWorkflow :: "'s engine \<Rightarrow> 's definitions \<Rightarrow> string \<Rightarrow> jobj \<Rightarrow> string option \<Rightarrow> string option \<Rightarrow>
    jobj option \<Rightarrow> ('s, Workflow) prog" where
  "service_startWorkflow E defs type input userId walletAddress context =
     startWorkflow E defs type input userId walletAddress context"

definition service_retryWorkflow :: "'s engine \<Rightarrow> 's definitions \<Rightarrow> string \<Rightarrow> ('s, unit) prog" where
  "service_retryWorkflow E defs workflowId = retryWorkflow E defs workflowId"

definition service_compensateWorkflow :: "'s engine \<Rightarrow> string \<Rightarrow> ('s, unit) prog" where
  "service_compensateWorkflow E workflowId = ignoreE (compensateWorkflow E workflowId)"

definition service_getCompensatableWorkflows :: "'s engine \<Rightarrow> ('s, Workflow list) prog" where
  "service_getCompensatableWorkflows E = getCompensatableWorkflows E"

definition service_triggerRecovery :: "'s engine \<Rightarrow> 's definitions \<Rightarrow> ('s, recovery_counts) prog" where
  "service_triggerRecovery E defs = triggerManualRecovery E defs"

definition hours_or_day :: "int option \<Rightarrow> int" where
  "hours_or_day timeRangeHours = (case timeRangeHours of None \<Rightarrow> 24 | Some h \<Rightarrow> h)"

definition service_getWorkflowMetrics :: "'s engine \<Rightarrow> int option \<Rightarrow> ('s, workflow_metrics) prog" where
  "service_getWorkflowMetrics E timeRangeHours = getWorkflowMetrics E (hours_or_day timeRangeHours)"

definition service_getStepMetrics :: "'s engine \<Rightarrow> int option \<Rightarrow> ('s, step_metrics) prog" where
  "service_getStepMetrics E timeRangeHours = getStepMetrics E (hours_or_day timeRangeHours)"

definition service_getWorkflowTimeline :: "'s engine \<Rightarrow> string \<Rightarrow> ('s, timeline_event list) prog" where
  "service_getWorkflowTimeline E workflowId = getWorkflowTimeline E workflowId"

definition service_getSystemHealth :: "'s engine \<Rightarrow> ('s, unit) prog \<Rightarrow> ('s, system_health) prog" where
  "service_getSystemHealth E ping = getSystemHealth E ping"

definition service_cancelWorkflow :: "'s engine \<Rightarrow> string \<Rightarrow> ('s, unit) prog" where
  "service_cancelWorkflow E i = cancelWorkflow E i"

section \<open>Lemmas\<close>

text \<open>What the counting loop keeps in step with the list it went through.\<close>

definition counted :: "Workflow list \<Rightarrow> workflow_acc \<Rightarrow> bool" where
  "counted ws a \<longleftrightarrow> (\<forall>st. wa_byState a st = length (filter (\<lambda>w. wf_state w = st) ws)) \<and>
     wa_failed a = wa_byState a WFAILED \<and> wa_completed a \<le> wa_byState a WCOMPLETED"

lemma counted_fold:
  "counted ws a \<Longrightarrow> counted (ws @ vs) (fold countWorkflow vs a)"
proof (induction vs arbitrary: ws a)
  case (Cons v vs)
  then have "counted (ws @ [v]) (countWorkflow v a)"
    by (auto simp: counted_def countWorkflow_def Let_def)
  from Cons.IH [OF this] show ?case by simp
qed simp

lemma sum_by_state: "(\<Sum>st\<in>UNIV. length (filter (\<lambda>w. wf_state w = st) ws)) = length ws"
proof (induction ws)
  case (Cons w ws)
  have "(\<Sum>st\<in>UNIV. length (filter (\<lambda>v. wf_state v = st) (w # ws))) =
      (\<Sum>st\<in>UNIV. length (filter (\<lambda>v. wf_state v = st) ws) + (if wf_state w = st then 1 else 0))"
    by (rule sum.cong) simp_all
  then show ?case using Cons by (simp add: sum.distrib)
qed simp

lemma disjoint_states:
  "length (filter (\<lambda>w. wf_state w = WCOMPLETED) ws) + length (filter (\<lambda>w. wf_state w = WFAILED) ws) \<le> length ws"
  by (induction ws) auto

context engine_env
begin

lemma cancel_then_timeline:
  assumes w: "wtab s i = Some w" "wf_state w \<in> {WPENDING, WRUNNING, WFAILED}" "wf_startedAt w = None"
  shows "wp (seqE (cancelWorkflow E i) (getWorkflowTimeline E i)) (\<lambda>_ _. False)
    (\<lambda>e _. e = TypeError ''Cannot read properties of null (reading getTime)'') s"
proof -
  have "wf_id w = i" using W.key_tab w(1) by blast
  with w show ?thesis
    by (auto simp: cancelWorkflow_def getWorkflowTimeline_def wp_simps W.findOne_key Let_def
        can_cancel_workflow endEvents_def wf_stamp_def)
qed

lemma timeline_sorted_wp:
  "wp (getWorkflowTimeline E i) (\<lambda>evs t. t = s \<and> sorted (map ev_timestamp evs) \<and>
      (\<exists>w. wtab s i = Some w \<and> set (startEvents w) \<subseteq> set evs \<and>
         (\<forall>x j. stab s j = Some x \<and> st_workflowId x = i \<longrightarrow> set (stepEvents x) \<subseteq> set evs))) (\<lambda>_ t. t = s) s"
proof -
  have load: "set (res (loadSteps E i) s) = {x. stab s (st_id x) = Some x \<and> st_workflowId x = i}"
    by (simp add: loadSteps_def S.find_set)
  then have "x \<in> set (res (loadSteps E i) s)" if "stab s j = Some x" "st_workflowId x = i" for x j
    using that S.key_tab by fastforce
  then show ?thesis
    by (auto simp: getWorkflowTimeline_def wp_simps W.findOne_key split: option.split sum.split)
qed

lemma cleanup_wp:
  "wp (cleanupOldWorkflows E d) (\<lambda>_ s'. wtab s' = (\<lambda>i. case wtab s i of None \<Rightarrow> None | Some w \<Rightarrow>
      if (wf_state w = WCOMPLETED \<or> wf_state w = WCOMPENSATED) \<and>
         (\<exists>t. wf_completedAt w = Some t \<and> t < eng_now E s - d * day_ms) then None else Some w)) (\<lambda>_ _. False) s"
  by (auto simp: cleanupOldWorkflows_def wp_simps Let_def W.delete_tab fun_eq_iff split: option.splits)

end

section \<open>Properties\<close>

text \<open>
  The workflow metrics add up: the counts by state sum to the number of workflows, every count
  is the number of workflows in that state, and the success and failure rates are not negative and
  together at most 100 percent.
\<close>

theorem metrics_consistent:
  "(\<Sum>st\<in>UNIV. wm_workflowsByState (workflowMetrics ws) st) = wm_totalWorkflows (workflowMetrics ws)
   \<and> wm_workflowsByState (workflowMetrics ws) st = length (filter (\<lambda>w. wf_state w = st) ws)
   \<and> 0 \<le> wm_successRate (workflowMetrics ws) \<and> 0 \<le> wm_failureRate (workflowMetrics ws)
   \<and> wm_successRate (workflowMetrics ws) + wm_failureRate (workflowMetrics ws) \<le> 100"
proof -
  define a where "a = fold countWorkflow ws \<lparr>wa_byState = (\<lambda>_. 0), wa_totalDuration = 0,
                wa_completed = 0, wa_failed = 0, wa_retries = 0\<rparr>"
  have "counted ([] @ ws) a" unfolding a_def by (rule counted_fold) (simp add: counted_def)
  then have c: "\<And>st. wa_byState a st = length (filter (\<lambda>w. wf_state w = st) ws)"
      and "wa_failed a = wa_byState a WFAILED" and "wa_completed a \<le> wa_byState a WCOMPLETED"
    by (auto simp only: counted_def append_Nil)
  then have "wa_completed a + wa_failed a \<le> length ws"
    using disjoint_states [of ws] by simp
  then have "(of_nat (wa_completed a) + of_nat (wa_failed a) :: rat) \<le> of_nat (length ws)"
    by (metis of_nat_add of_nat_le_iff)
  then have "ws \<noteq> [] \<Longrightarrow> (of_nat (wa_completed a) + of_nat (wa_failed a)) / of_nat (length ws) \<le> (1 :: rat)"
    by (simp add: divide_le_eq)
  then have "ratio (of_nat (wa_completed a)) (length ws) * 100 + ratio (of_nat (wa_failed a)) (length ws) * 100 \<le> 100"
    by (cases "ws = []") (simp_all add: ratio_def field_simps)
  then show ?thesis
    using c by (simp add: workflowMetrics_def Let_def sum_by_state ratio_def flip: a_def)
qed

text \<open>
  The timeline of a workflow is in order of time and complete: it holds the creation event and
  every event of each step the workflow has; reading it changes nothing, also when it throws.
\<close>

theorem timeline_spec:
  assumes "engine_env E wtab stab"
  shows "case getWorkflowTimeline E i s of
      (Inl e, t) \<Rightarrow> t = s
    | (Inr evs, t) \<Rightarrow> t = s \<and> sorted (map ev_timestamp evs) \<and>
        (\<exists>w. wtab s i = Some w \<and> set (startEvents w) \<subseteq> set evs \<and>
           (\<forall>x j. stab s j = Some x \<and> st_workflowId x = i \<longrightarrow> set (stepEvents x) \<subseteq> set evs))"
  using engine_env.timeline_sorted_wp [OF assms, where s = s and i = i]
  by (simp add: wp_def split: prod.splits sum.splits)

theorem timeline_spec_witness:
  "case getWorkflowTimeline mem_engine ''w1'' (demo_store WPENDING) of
      (Inl e, t) \<Rightarrow> t = demo_store WPENDING
    | (Inr evs, t) \<Rightarrow> t = demo_store WPENDING \<and> sorted (map ev_timestamp evs) \<and>
        (\<exists>w. mem_wtab (demo_store WPENDING) ''w1'' = Some w \<and> set (startEvents w) \<subseteq> set evs \<and>
           (\<forall>x j. mem_stab (demo_store WPENDING) j = Some x \<and> st_workflowId x = ''w1'' \<longrightarrow>
              set (stepEvents x) \<subseteq> set evs))"
  by (rule timeline_spec [OF mem_engine_env])

text \<open>
  A workflow that is cancelled before it ever started has no readable timeline: cancelling sets
  the completion time, and the timeline then reads the time of a start that never was and throws.
\<close>

theorem timeline_of_cancelled_throws:
  assumes "engine_env E wtab stab" and "wtab s i = Some w" and "wf_state w = WPENDING"
    and "wf_startedAt w = None"
  shows "\<exists>s'. cancelWorkflow E i s = (Inr (), s') \<and>
    fst (getWorkflowTimeline E i s') = Inl (TypeError ''Cannot read properties of null (reading getTime)'')"
proof -
  have "\<exists>s'. cancelWorkflow E i s = (Inr (), s')"
    using engine_env.cancel_wp [OF assms(1), of i s] assms(2,3) by (auto simp: wp_value)
  moreover have "wp (seqE (cancelWorkflow E i) (getWorkflowTimeline E i)) (\<lambda>_ _. False)
      (\<lambda>e _. e = TypeError ''Cannot read properties of null (reading getTime)'') s"
    using engine_env.cancel_then_timeline [OF assms(1), of s i w] assms(2-4) by simp
  ultimately show ?thesis by (auto simp: wp_seqE wp_exn wp_Inr)
qed

theorem timeline_of_cancelled_throws_witness:
  "\<exists>s'. cancelWorkflow mem_engine ''w1'' (demo_store WPENDING) = (Inr (), s') \<and>
    fst (getWorkflowTimeline mem_engine ''w1'' s') =
      Inl (TypeError ''Cannot read properties of null (reading getTime)'')"
  by (rule timeline_of_cancelled_throws [OF mem_engine_env, of _ _ "demo_workflow WPENDING"])
    (simp_all add: demo_store_def demo_workflow_def mem_tab_def newWorkflow_def)

text \<open>
  \<open>cleanupOldWorkflows\<close> removes exactly the completed and compensated workflows whose completion
  lies before the cutoff; no other row changes and the call does not throw.
\<close>

theorem cleanupOldWorkflows_spec:
  assumes "engine_env E wtab stab"
  shows "\<exists>n s'. cleanupOldWorkflows E d s = (Inr n, s') \<and> wtab s' = (\<lambda>i. case wtab s i of None \<Rightarrow> None | Some w \<Rightarrow>
      if (wf_state w = WCOMPLETED \<or> wf_state w = WCOMPENSATED) \<and>
         (\<exists>t. wf_completedAt w = Some t \<and> t < eng_now E s - d * day_ms) then None else Some w)"
  using engine_env.cleanup_wp [OF assms, of d s] by (auto simp: wp_value)

theorem cleanupOldWorkflows_spec_witness:
  "\<exists>n s'. cleanupOldWorkflows mem_engine 30 (demo_store WCOMPLETED) = (Inr n, s') \<and>
     mem_wtab s' = (\<lambda>i. case mem_wtab (demo_store WCOMPLETED) i of None \<Rightarrow> None | Some w \<Rightarrow>
      if (wf_state w = WCOMPLETED \<or> wf_state w = WCOMPENSATED) \<and>
         (\<exists>t. wf_completedAt w = Some t \<and> t < eng_now mem_engine (demo_store WCOMPLETED) - 30 * day_ms)
      then None else Some w)"
  by (rule cleanupOldWorkflows_spec [OF mem_engine_env])

end
