(* ===== verification/Ext_Redis.thy ===== *)
theory Ext_Redis
  imports Farm_Prelude "HOL-Library.AList"
begin

text \<open>
  The commands of the \<open>redis\<close> client the services use, a package outside the repository, as the
  fields of a record, and \<open>RedisService\<close>'s own helpers (src/Backend/src/redis/redis.service.ts).
  The locale \<open>redis_store\<close> states the documented behaviour of the commands on a view of the key
  space; \<open>mem_redis\<close> is an in-memory client that satisfies it.

  A string value is a text. The text \<open>JSON.stringify\<close> made of a value is represented by that
  value, \<open>Json v\<close>: \<open>JSON.parse\<close> gives \<open>v\<close> back and throws on every other text.
\<close>

section \<open>The client\<close>

datatype 'j rtext = Txt string | Json 'j

record ('s, 'j) redis =
  r_get :: "string \<Rightarrow> ('s, 'j rtext option) prog"
  r_set :: "string \<Rightarrow> 'j rtext \<Rightarrow> int option \<Rightarrow> ('s, unit) prog"
  r_del :: "string list \<Rightarrow> ('s, nat) prog"
  r_incr :: "string \<Rightarrow> ('s, int) prog"
  r_expire :: "string \<Rightarrow> int \<Rightarrow> ('s, bool) prog"
  r_exists :: "string \<Rightarrow> ('s, bool) prog"
  r_keys :: "string \<Rightarrow> ('s, string list) prog"
  r_scan :: "string \<Rightarrow> string \<Rightarrow> ('s, string \<times> string list) prog"
  r_sAdd :: "string \<Rightarrow> string \<Rightarrow> ('s, unit) prog"
  r_sRem :: "string \<Rightarrow> string \<Rightarrow> ('s, unit) prog"
  r_sMembers :: "string \<Rightarrow> ('s, string list) prog"

abbreviation r_setEx :: "('s, 'j) redis \<Rightarrow> string \<Rightarrow> int \<Rightarrow> 'j rtext \<Rightarrow> ('s, unit) prog" where
  "r_setEx R k t v \<equiv> r_set R k v (Some t)"

definition JSON_parse :: "'j rtext \<Rightarrow> ('s, 'j) prog" where
  "JSON_parse t = (case t of Json v \<Rightarrow> returnE v | Txt _ \<Rightarrow> throwE (Error ''Unexpected token in JSON''))"

text \<open>\<open>parseInt(v || '0', 10)\<close>; the text of a JSON object does not start with a digit.\<close>

definition parse_count :: "'j rtext option \<Rightarrow> jsnum" where
  "parse_count v = (case v of None \<Rightarrow> Some 0
     | Some (Txt t) \<Rightarrow> parseInt10 (or_str (Some t) ''0'') | Some (Json _) \<Rightarrow> None)"

definition text_truthy :: "'j rtext option \<Rightarrow> bool" where
  "text_truthy v = (v \<noteq> None \<and> v \<noteq> Some (Txt []))"

section \<open>RedisService\<close>

text \<open>
  \<open>scanKeys\<close> asks for one more page until the cursor is \<open>0\<close> again; \<open>None\<close> says that \<open>n\<close> pages
  were not enough.
\<close>

fun scan_from :: "('s, 'j) redis \<Rightarrow> nat \<Rightarrow> string \<Rightarrow> string \<Rightarrow> string list \<Rightarrow> ('s, string list option) prog" where
  "scan_from R 0 cursor pattern keys = returnE None"
| "scan_from R (Suc n) cursor pattern keys =
     bindE (r_scan R cursor pattern) (\<lambda>(cursor', page).
       if cursor' \<noteq> ''0'' then scan_from R n cursor' pattern (keys @ page)
       else returnE (Some (keys @ page)))"

definition scanKeys :: "('s, 'j) redis \<Rightarrow> nat \<Rightarrow> string \<Rightarrow> ('s, string list option) prog" where
  "scanKeys R n pattern = scan_from R n ''0'' pattern []"

definition refreshTTL :: "('s, 'j) redis \<Rightarrow> string \<Rightarrow> int \<Rightarrow> ('s, bool) prog" where
  "refreshTTL R key ttlSeconds = r_expire R key ttlSeconds"

text \<open>
  Opening and closing the three clients of the service. \<open>createClient\<close>, \<open>connect\<close> and \<open>quit\<close> are the package's; what they
  throw is what the start or the end of the module throws.
\<close>

record ('s, 'c) redis_package =
  rp_createClient :: "string \<Rightarrow> ('s, 'c) prog"
  rp_connect :: "'c \<Rightarrow> ('s, unit) prog"
  rp_quit :: "'c \<Rightarrow> ('s, unit) prog"

record 'c redis_clients =
  rc_client :: 'c
  rc_pubClient :: 'c
  rc_subClient :: 'c

definition each_client :: "('c \<Rightarrow> ('s, unit) prog) \<Rightarrow> 'c redis_clients \<Rightarrow> ('s, unit) prog" where
  "each_client f c = forE [rc_client c, rc_pubClient c, rc_subClient c] f"

definition RedisService_onModuleInit :: "('s, 'c) redis_package \<Rightarrow> string option \<Rightarrow> ('s, 'c redis_clients) prog" where
  "RedisService_onModuleInit P REDIS_URL =
     (let url = or_str REDIS_URL ''redis://localhost:6379'' in
      bindE (rp_createClient P url) (\<lambda>client.
      bindE (rp_createClient P url) (\<lambda>pubClient.
      bindE (rp_createClient P url) (\<lambda>subClient.
      let clients = \<lparr>rc_client = client, rc_pubClient = pubClient, rc_subClient = subClient\<rparr> in
      seqE (each_client (rp_connect P) clients) (returnE clients)))))"

definition RedisService_onModuleDestroy :: "('s, 'c) redis_package \<Rightarrow> 'c redis_clients \<Rightarrow> ('s, unit) prog" where
  "RedisService_onModuleDestroy P clients = each_client (rp_quit P) clients"

section \<open>The laws\<close>

datatype 'j rcell = RText "'j rtext" | RSet "string set"

fun cell_text :: "'j rcell option \<Rightarrow> 'j rtext option" where
  "cell_text (Some (RText t)) = Some t"
| "cell_text _ = None"

fun cell_members :: "'j rcell option \<Rightarrow> string set" where
  "cell_members (Some (RSet m)) = m"
| "cell_members _ = {}"

fun is_rset :: "'j rcell option \<Rightarrow> bool" where
  "is_rset (Some (RSet m)) = True"
| "is_rset _ = False"

fun is_rtext :: "'j rcell option \<Rightarrow> bool" where
  "is_rtext (Some (RText t)) = True"
| "is_rtext _ = False"

text \<open>A prefix of a key pattern without characters that are special in a glob.\<close>

definition plain_glob :: "string \<Rightarrow> bool" where
  "plain_glob p = list_all (\<lambda>c. \<not> List.member [CHR ''*'', CHR ''?'', CHR ''['', CHR '']'', CHR 0x5C] c) p"

definition keys_of :: "('s \<Rightarrow> string \<Rightarrow> 'j rcell option) \<Rightarrow> 's \<Rightarrow> string \<Rightarrow> string set" where
  "keys_of cell s p = {k. prefix p k \<and> cell s k \<noteq> None}"

text \<open>
  \<open>cell s k\<close> is the value at key \<open>k\<close> and \<open>ttl s k\<close> its time to live in seconds. Commands are atomic and
  the connection works; a command on a value of the wrong type is not described.
\<close>

locale redis_store =
  fixes R :: "('s, 'j) redis"
    and cell :: "'s \<Rightarrow> string \<Rightarrow> 'j rcell option"
    and ttl :: "'s \<Rightarrow> string \<Rightarrow> int option"
  assumes get_law: "\<not> is_rset (cell s k) \<Longrightarrow> r_get R k s = (Inr (cell_text (cell s k)), s)"
    and set_ok: "(\<And>t. e = Some t \<Longrightarrow> 0 < t) \<Longrightarrow> ok (r_set R k v e) s"
    and set_cell: "(\<And>t. e = Some t \<Longrightarrow> 0 < t) \<Longrightarrow>
        cell (fin (r_set R k v e) s) = (cell s)(k \<mapsto> RText v)"
    and set_ttl: "(\<And>t. e = Some t \<Longrightarrow> 0 < t) \<Longrightarrow> ttl (fin (r_set R k v e) s) k = e"
    and del_ok: "ok (r_del R ks) s"
    and del_cell: "cell (fin (r_del R ks) s) = (\<lambda>k. if k \<in> set ks then None else cell s k)"
    and incr_new: "cell s k = None \<Longrightarrow> ok (r_incr R k) s \<and> res (r_incr R k) s = 1 \<and>
        cell (fin (r_incr R k) s) = (cell s)(k \<mapsto> RText (Txt (show_int 1)))"
    and incr_old: "cell s k = Some (RText (Txt (show_int n))) \<Longrightarrow>
        ok (r_incr R k) s \<and> res (r_incr R k) s = n + 1 \<and>
        cell (fin (r_incr R k) s) = (cell s)(k \<mapsto> RText (Txt (show_int (n + 1))))"
    and expire_ok: "ok (r_expire R k t) s"
    and expire_res: "res (r_expire R k t) s \<longleftrightarrow> cell s k \<noteq> None"
    and expire_cell: "cell (fin (r_expire R k t) s) = (if 0 < t then cell s else (cell s)(k := None))"
    and expire_ttl: "0 < t \<Longrightarrow> cell s k \<noteq> None \<Longrightarrow> ttl (fin (r_expire R k t) s) k = Some t"
    and exists_law: "r_exists R k s = (Inr (cell s k \<noteq> None), s)"
    and keys_ok: "ok (r_keys R pat) s \<and> fin (r_keys R pat) s = s"
    and keys_set: "plain_glob p \<Longrightarrow> set (res (r_keys R (p @ ''*'')) s) = keys_of cell s p"
    and scan_law: "plain_glob p \<Longrightarrow>
        \<exists>n ks. set ks = keys_of cell s p \<and> (\<forall>m \<ge> n. scanKeys R m (p @ ''*'') s = (Inr (Some ks), s))"
    and sAdd_ok: "\<not> is_rtext (cell s k) \<Longrightarrow> ok (r_sAdd R k x) s"
    and sAdd_cell: "\<not> is_rtext (cell s k) \<Longrightarrow>
        cell (fin (r_sAdd R k x) s) = (cell s)(k \<mapsto> RSet (insert x (cell_members (cell s k))))"
    and sRem_ok: "\<not> is_rtext (cell s k) \<Longrightarrow> ok (r_sRem R k x) s"
    and sRem_cell: "\<not> is_rtext (cell s k) \<Longrightarrow> cell (fin (r_sRem R k x) s) = (cell s)(k :=
        (if cell_members (cell s k) - {x} = {} then None else Some (RSet (cell_members (cell s k) - {x}))))"
    and sMembers_law: "\<not> is_rtext (cell s k) \<Longrightarrow> \<exists>ms. r_sMembers R k s = (Inr ms, s) \<and>
        set ms = cell_members (cell s k) \<and> distinct ms"
begin

lemma wp_get: "\<not> is_rset (cell s k) \<Longrightarrow> wp (r_get R k) Q X s = Q (cell_text (cell s k)) s"
  by (simp add: wp_def get_law)

lemma wp_del: "wp (r_del R ks) Q X = (\<lambda>s. Q (res (r_del R ks) s) (fin (r_del R ks) s))"
  by (rule wp_ok_all [OF del_ok])

lemma wp_set: "wp (r_set R k v None) Q X = (\<lambda>s. Q () (fin (r_set R k v None) s))"
  by (subst wp_ok_all) (auto intro: set_ok)

lemma wp_setEx: "0 < t \<Longrightarrow> wp (r_setEx R k t v) Q X = (\<lambda>s. Q () (fin (r_setEx R k t v) s))"
  by (subst wp_ok_all) (auto intro: set_ok)

lemma wp_expire: "wp (r_expire R k t) Q X = (\<lambda>s. Q (res (r_expire R k t) s) (fin (r_expire R k t) s))"
  by (rule wp_ok_all [OF expire_ok])

lemma wp_keys: "wp (r_keys R p) Q X = (\<lambda>s. Q (res (r_keys R p) s) s)"
  using keys_ok by (subst wp_ok_all) auto

lemma wp_sAdd: "\<not> is_rtext (cell s k) \<Longrightarrow> wp (r_sAdd R k v) Q X s = Q () (fin (r_sAdd R k v) s)"
  by (subst wp_ok) (auto intro: sAdd_ok)

lemma wp_sRem: "\<not> is_rtext (cell s k) \<Longrightarrow> wp (r_sRem R k v) Q X s = Q () (fin (r_sRem R k v) s)"
  by (subst wp_ok) (auto intro: sRem_ok)

lemma wp_sMembers:
  "\<not> is_rtext (cell s k) \<Longrightarrow> (\<And>ms. set ms = cell_members (cell s k) \<Longrightarrow> distinct ms \<Longrightarrow> Q ms s) \<Longrightarrow>
     wp (r_sMembers R k) Q X s"
  using sMembers_law [of s k] by (auto simp: wp_def)

lemmas setEx_cell = set_cell [of "Some t" for t, simplified]

lemmas setEx_ttl = set_ttl [of "Some t" for t, simplified]

end

section \<open>Counters in the store\<close>

text \<open>\<open>counter c n\<close>: the cell \<open>c\<close> counts \<open>n\<close> events; an absent cell counts none.\<close>

definition counter :: "'j rcell option \<Rightarrow> int \<Rightarrow> bool" where
  "counter c n \<longleftrightarrow> (c = None \<and> n = 0) \<or> c = Some (RText (Txt (show_int n)))"

lemma counter_not_set: "counter c n \<Longrightarrow> \<not> is_rset c"
  by (auto simp: counter_def)

lemma parse_counter: "counter c n \<Longrightarrow> parse_count (cell_text c) = Some n"
  by (auto simp: counter_def parse_count_def or_str_def)

context redis_store
begin

lemma wpi_incr:
  assumes "counter (cell s k) n"
    and "\<And>s'. cell s' = (cell s)(k \<mapsto> RText (Txt (show_int (n + 1)))) \<Longrightarrow> P (n + 1) s'"
  shows "wp (r_incr R k) P X s"
proof -
  have "ok (r_incr R k) s \<and> res (r_incr R k) s = n + 1 \<and> cell (fin (r_incr R k) s) = (cell s)(k \<mapsto> RText (Txt (show_int (n + 1))))"
    using assms(1) incr_new incr_old by (auto simp: counter_def)
  then show ?thesis using assms(2) by (simp add: wp_ok)
qed

lemma wpi_get: "\<not> is_rset (cell s k) \<Longrightarrow> Q (cell_text (cell s k)) s \<Longrightarrow> wp (r_get R k) Q X s"
  by (simp add: wp_get)

lemma wpi_setEx:
  "0 < t \<Longrightarrow> (\<And>s'. cell s' = (cell s)(k \<mapsto> RText v) \<Longrightarrow> Q () s') \<Longrightarrow> wp (r_setEx R k t v) Q X s"
  by (simp add: wp_setEx setEx_cell)

lemma wpi_del:
  "(\<And>n s'. cell s' = (\<lambda>k. if k \<in> set ks then None else cell s k) \<Longrightarrow> Q n s') \<Longrightarrow> wp (r_del R ks) Q X s"
  by (simp add: wp_del del_cell)

lemma wpi_keys:
  "plain_glob p \<Longrightarrow> (\<And>ks. set ks = keys_of cell s p \<Longrightarrow> Q ks s) \<Longrightarrow> wp (r_keys R (p @ ''*'')) Q X s"
  by (simp add: wp_keys keys_set)

end

section \<open>An in-memory client\<close>

datatype 'j mcell = MText "'j rtext" | MSet "string list"

record 'j rstore =
  rs_cells :: "(string \<times> 'j mcell) list"
  rs_ttl :: "(string \<times> int) list"

fun mcell_view :: "'j mcell \<Rightarrow> 'j rcell" where
  "mcell_view (MText t) = RText t"
| "mcell_view (MSet xs) = RSet (set xs)"

definition mem_cell :: "('j, 'z) rstore_scheme \<Rightarrow> string \<Rightarrow> 'j rcell option" where
  "mem_cell s k = map_option mcell_view (map_of (rs_cells s) k)"

definition mem_ttl :: "('j, 'z) rstore_scheme \<Rightarrow> string \<Rightarrow> int option" where
  "mem_ttl s k = map_of (rs_ttl s) k"

fun mcell_members :: "'j mcell option \<Rightarrow> string list" where
  "mcell_members (Some (MSet xs)) = xs"
| "mcell_members _ = []"

definition mput :: "string \<Rightarrow> 'j mcell \<Rightarrow> ('j, 'z) rstore_scheme \<Rightarrow> ('j, 'z) rstore_scheme" where
  "mput k c s = s\<lparr>rs_cells := (k, c) # rs_cells s\<rparr>"

definition mdrop :: "string list \<Rightarrow> ('j, 'z) rstore_scheme \<Rightarrow> ('j, 'z) rstore_scheme" where
  "mdrop ks s = s\<lparr>rs_cells := filter (\<lambda>p. \<not> List.member ks (fst p)) (rs_cells s),
                  rs_ttl := filter (\<lambda>p. \<not> List.member ks (fst p)) (rs_ttl s)\<rparr>"

definition mttl :: "string \<Rightarrow> int option \<Rightarrow> ('j, 'z) rstore_scheme \<Rightarrow> ('j, 'z) rstore_scheme" where
  "mttl k e s = s\<lparr>rs_ttl := (case e of None \<Rightarrow> filter (\<lambda>p. fst p \<noteq> k) (rs_ttl s) | Some t \<Rightarrow> (k, t) # rs_ttl s)\<rparr>"

definition mkeys :: "string \<Rightarrow> ('j, 'z) rstore_scheme \<Rightarrow> string list" where
  "mkeys pat s = remdups (filter (prefix (butlast pat)) (map fst (rs_cells s)))"

definition mem_redis :: "(('j, 'z) rstore_scheme, 'j) redis" where
  "mem_redis = \<lparr>
     r_get = (\<lambda>k s. (case map_of (rs_cells s) k of Some (MSet _) \<Rightarrow> (Inl (Error ''WRONGTYPE''), s)
                     | Some (MText t) \<Rightarrow> (Inr (Some t), s) | None \<Rightarrow> (Inr None, s))),
     r_set = (\<lambda>k v e s. (Inr (), mttl k e (mput k (MText v) s))),
     r_del = (\<lambda>ks s. (Inr (length (filter (\<lambda>k. map_of (rs_cells s) k \<noteq> None) (remdups ks))), mdrop ks s)),
     r_incr = (\<lambda>k s. (case map_of (rs_cells s) k of
                 None \<Rightarrow> (Inr 1, mttl k None (mput k (MText (Txt (show_int 1))) s))
               | Some (MText (Txt t)) \<Rightarrow> (case parseInt10 t of
                     Some n \<Rightarrow> (Inr (n + 1), mput k (MText (Txt (show_int (n + 1)))) s)
                   | None \<Rightarrow> (Inl (Error ''ERR value is not an integer or out of range''), s))
               | Some _ \<Rightarrow> (Inl (Error ''WRONGTYPE''), s))),
     r_expire = (\<lambda>k t s. (Inr (map_of (rs_cells s) k \<noteq> None),
               if 0 < t then (if map_of (rs_cells s) k \<noteq> None then mttl k (Some t) s else s) else mdrop [k] s)),
     r_exists = (\<lambda>k s. (Inr (map_of (rs_cells s) k \<noteq> None), s)),
     r_keys = (\<lambda>pat s. (Inr (mkeys pat s), s)),
     r_scan = (\<lambda>cursor pat s. (Inr (''0'', mkeys pat s), s)),
     r_sAdd = (\<lambda>k v s. (Inr (), mput k (MSet (List.insert v (mcell_members (map_of (rs_cells s) k)))) s)),
     r_sRem = (\<lambda>k v s. (Inr (), let ms = filter (\<lambda>x. x \<noteq> v) (mcell_members (map_of (rs_cells s) k)) in
               if ms = [] then mdrop [k] s else mput k (MSet ms) s)),
     r_sMembers = (\<lambda>k s. (Inr (remdups (mcell_members (map_of (rs_cells s) k))), s))\<rparr>"

lemma map_of_filter_fst:
  "map_of (filter (\<lambda>p. P (fst p)) xs) k = (if P k then map_of xs k else None)"
  by (induction xs) auto

lemma mem_cell_mput [simp]: "mem_cell (mput k c s) = (mem_cell s)(k \<mapsto> mcell_view c)"
  by (auto simp: mem_cell_def mput_def fun_eq_iff)

lemma mem_cell_mttl [simp]: "mem_cell (mttl k e s) = mem_cell s"
  by (simp add: mem_cell_def mttl_def fun_eq_iff)

lemma mem_cell_mdrop [simp]: "mem_cell (mdrop ks s) = (\<lambda>k. if k \<in> set ks then None else mem_cell s k)"
  by (auto simp: mem_cell_def mdrop_def fun_eq_iff map_of_filter_fst [where P = "\<lambda>k. k \<notin> set ks"])

lemma mem_ttl_mttl [simp]: "mem_ttl (mttl k e s) k = e"
  by (auto simp: mem_ttl_def mttl_def map_of_filter_fst [where P = "\<lambda>j. j \<noteq> k"] split: option.split)

lemma mkeys_set: "set (mkeys (p @ ''*'') s) = keys_of mem_cell s p"
  by (auto simp: mkeys_def keys_of_def mem_cell_def map_of_eq_None_iff image_iff)

lemma mem_cell_cases:
  obtains "map_of (rs_cells s) k = None" "mem_cell s k = None"
  | t where "map_of (rs_cells s) k = Some (MText t)" "mem_cell s k = Some (RText t)"
  | xs where "map_of (rs_cells s) k = Some (MSet xs)" "mem_cell s k = Some (RSet (set xs))"
  by (cases "map_of (rs_cells s) k"; cases "the (map_of (rs_cells s) k)") (auto simp: mem_cell_def)

lemma mem_scan: "0 < m \<Longrightarrow> scanKeys mem_redis m pat s = (Inr (Some (mkeys pat s)), s)"
  by (cases m) (simp_all add: scanKeys_def mem_redis_def bindE_def returnE_def)

lemmas mem_redis_unfold = mem_redis_def ok_def res_def fin_def

lemma mem_redis_store: "redis_store mem_redis mem_cell mem_ttl"
proof (unfold_locales, goal_cases)
  case (1 s k) then show ?case by (cases rule: mem_cell_cases [of s k]) (simp_all add: mem_redis_def)
next
  case (7 s k) then show ?case by (cases rule: mem_cell_cases [of s k]) (simp_all add: mem_redis_unfold)
next
  case (8 s k n) then show ?case by (cases rule: mem_cell_cases [of s k]) (simp_all add: mem_redis_unfold)
next
  case (10 k t s) show ?case by (cases rule: mem_cell_cases [of s k]) (simp_all add: mem_redis_unfold)
next
  case (12 t s k) then show ?case by (cases rule: mem_cell_cases [of s k]) (simp_all add: mem_redis_unfold)
next
  case (13 k s) show ?case by (cases rule: mem_cell_cases [of s k]) (simp_all add: mem_redis_unfold)
next
  case (15 p s) show ?case by (simp add: mem_redis_unfold mkeys_set)
next
  case (16 p s) show ?case
    by (rule exI [of _ 1], rule exI [of _ "mkeys (p @ ''*'') s"]) (simp add: mkeys_set mem_scan)
next
  case (18 s k x) then show ?case by (cases rule: mem_cell_cases [of s k]) (simp_all add: mem_redis_unfold)
next
  case (20 s k x) then show ?case
    by (cases rule: mem_cell_cases [of s k]) (auto simp: mem_redis_unfold fun_eq_iff Let_def filter_empty_conv)
next
  case (21 s k) then show ?case by (cases rule: mem_cell_cases [of s k]) (simp_all add: mem_redis_unfold)
qed (auto simp: mem_redis_unfold fun_eq_iff)

interpretation rmem: redis_store mem_redis mem_cell mem_ttl
  by (rule mem_redis_store)

end
