(* ===== verification/Voice_Session.thy ===== *)
theory Voice_Session
  imports Ext_Redis State_Machine Js_Json
begin

text \<open>
  The conversation state machine and the voice sessions kept in Redis
  (src/Backend/src/voice/services/conversation-state-machine.service.ts, voice-session.service.ts,
  entities/voice-session.entity.ts, types/conversation-state.enum.ts). The Redis client, the clock
  and \<open>randomUUID\<close> are the record \<open>voice_env\<close>. The invariant \<open>typed_keys\<close> separates the three
  key spaces the service uses.
\<close>

section \<open>Conversation state machine\<close>

datatype ConversationState = LISTENING | THINKING | RESPONDING | INTERRUPTED | IDLE | STALE | TERMINATED

fun conversation_value :: "ConversationState \<Rightarrow> string" where
  "conversation_value LISTENING = ''listening''"
| "conversation_value THINKING = ''thinking''"
| "conversation_value RESPONDING = ''responding''"
| "conversation_value INTERRUPTED = ''interrupted''"
| "conversation_value IDLE = ''idle''"
| "conversation_value STALE = ''stale''"
| "conversation_value TERMINATED = ''terminated''"

fun validTransitions :: "ConversationState \<Rightarrow> ConversationState list" where
  "validTransitions IDLE = [LISTENING]"
| "validTransitions LISTENING = [THINKING, INTERRUPTED]"
| "validTransitions THINKING = [RESPONDING, INTERRUPTED]"
| "validTransitions RESPONDING = [LISTENING, INTERRUPTED, IDLE]"
| "validTransitions INTERRUPTED = [LISTENING, IDLE]"
| "validTransitions STALE = []"
| "validTransitions TERMINATED = []"

definition canTransition :: "ConversationState \<Rightarrow> ConversationState \<Rightarrow> bool" where
  "canTransition a b = List.member (validTransitions a) b"

definition transition :: "ConversationState \<Rightarrow> ConversationState \<Rightarrow> transition_result" where
  "transition currentState newState =
     (if \<not> canTransition currentState newState
      then \<lparr>tr_success = False, tr_error = Some (''Invalid state transition from '' @
             conversation_value currentState @ '' to '' @ conversation_value newState)\<rparr>
      else \<lparr>tr_success = True, tr_error = None\<rparr>)"

definition getValidNextStates :: "ConversationState \<Rightarrow> ConversationState list" where
  "getValidNextStates currentState = validTransitions currentState"

definition isInterruptible :: "ConversationState \<Rightarrow> bool" where
  "isInterruptible s = List.member [THINKING, RESPONDING] s"

definition isTerminalState :: "ConversationState \<Rightarrow> bool" where
  "isTerminalState s = (s = IDLE)"

interpretation ctable: transition_table getValidNextStates canTransition
  by unfold_locales (simp add: canTransition_def getValidNextStates_def)

lemma transition_success [simp]: "tr_success (transition a b) = canTransition a b"
  by (simp add: transition_def)

section \<open>Sessions\<close>

record VoiceMessage =
  vm_id :: string
  vm_content :: string
  vm_timestamp :: int
  vm_isUser :: bool
  vm_metadata :: "jobj option"

record VoiceSession =
  vs_id :: string
  vs_userId :: string
  vs_walletAddress :: "string option"
  vs_context :: string
  vs_state :: ConversationState
  vs_messages :: "VoiceMessage list"
  vs_createdAt :: int
  vs_lastActivityAt :: int
  vs_lastPingAt :: "int option"
  vs_ttl :: int
  vs_socketId :: "string option"
  vs_metadata :: "jobj option"

record 's voice_env =
  ve_redis :: "('s, VoiceSession) redis"
  ve_now :: "'s \<Rightarrow> int"
  ve_uuid :: "'s \<Rightarrow> string"

definition VoiceSession_create :: "string \<Rightarrow> int \<Rightarrow> string \<Rightarrow> string \<Rightarrow> string option \<Rightarrow> jobj option \<Rightarrow> VoiceSession" where
  "VoiceSession_create uuid now userId context walletAddress metadata = \<lparr>
     vs_id = uuid, vs_userId = userId, vs_walletAddress = walletAddress, vs_context = context,
     vs_state = IDLE, vs_messages = [], vs_createdAt = now, vs_lastActivityAt = now,
     vs_lastPingAt = None, vs_ttl = 3600, vs_socketId = None, vs_metadata = metadata\<rparr>"

definition MAX_SESSIONS_PER_USER :: nat where "MAX_SESSIONS_PER_USER = 3"
definition HEARTBEAT_TIMEOUT_MS :: int where "HEARTBEAT_TIMEOUT_MS = 60000"
definition SESSION_PREFIX :: string where "SESSION_PREFIX = ''voice:session:''"
definition USER_SESSIONS_PREFIX :: string where "USER_SESSIONS_PREFIX = ''voice:user:sessions:''"
definition USER_ACTIVE_SESSION_PREFIX :: string where "USER_ACTIVE_SESSION_PREFIX = ''voice:usersession:''"
definition SESSION_TTL :: int where "SESSION_TTL = 3600"
definition USER_SESSION_POINTER_TTL :: int where "USER_SESSION_POINTER_TTL = 600"

definition saveSession :: "'s voice_env \<Rightarrow> VoiceSession \<Rightarrow> ('s, unit) prog" where
  "saveSession V session =
     r_setEx (ve_redis V) (SESSION_PREFIX @ vs_id session) (vs_ttl session) (Json session)"

definition addUserSession :: "'s voice_env \<Rightarrow> string \<Rightarrow> string \<Rightarrow> ('s, unit) prog" where
  "addUserSession V userId sessionId =
     seqE (r_sAdd (ve_redis V) (USER_SESSIONS_PREFIX @ userId) sessionId)
       (ignoreE (r_expire (ve_redis V) (USER_SESSIONS_PREFIX @ userId) SESSION_TTL))"

definition removeUserSession :: "'s voice_env \<Rightarrow> string \<Rightarrow> string \<Rightarrow> ('s, unit) prog" where
  "removeUserSession V userId sessionId =
     r_sRem (ve_redis V) (USER_SESSIONS_PREFIX @ userId) sessionId"

definition getSession :: "'s voice_env \<Rightarrow> string \<Rightarrow> ('s, VoiceSession option) prog" where
  "getSession V sessionId =
     catchE
       (bindE (r_get (ve_redis V) (SESSION_PREFIX @ sessionId)) (\<lambda>sessionData.
          if \<not> text_truthy sessionData then returnE None
          else bindE (JSON_parse (the sessionData)) (\<lambda>session. returnE (Some session))))
       (\<lambda>error. returnE None)"

definition getUserActiveSessions :: "'s voice_env \<Rightarrow> string \<Rightarrow> ('s, VoiceSession list) prog" where
  "getUserActiveSessions V userId =
     catchE
       (bindE (r_sMembers (ve_redis V) (USER_SESSIONS_PREFIX @ userId)) (\<lambda>sessionIds.
        bindE (mapE sessionIds (getSession V)) (\<lambda>sessions.
          returnE (List.map_filter (\<lambda>x. x) sessions))))
       (\<lambda>error. returnE [])"

definition createSession :: "'s voice_env \<Rightarrow> string \<Rightarrow> string \<Rightarrow> string option \<Rightarrow> jobj option \<Rightarrow> ('s, VoiceSession) prog" where
  "createSession V userId context walletAddress metadata =
     bindE (getUserActiveSessions V userId) (\<lambda>activeSessions.
     if MAX_SESSIONS_PER_USER \<le> length activeSessions
     then throwE (Error (''Session limit reached: users may have at most '' @
            show_nat MAX_SESSIONS_PER_USER @ '' concurrent sessions''))
     else bindE (readE (ve_now V)) (\<lambda>now. bindE (readE (ve_uuid V)) (\<lambda>uuid.
       let session = VoiceSession_create uuid now userId context walletAddress metadata in
       seqE (saveSession V session)
       (seqE (addUserSession V userId (vs_id session)) (returnE session)))))"

text \<open>The shared shape of the updates: load, change, save.\<close>

definition updateSession :: "'s voice_env \<Rightarrow> string \<Rightarrow> (int \<Rightarrow> string \<Rightarrow> VoiceSession \<Rightarrow> VoiceSession) \<Rightarrow> ('s, bool) prog" where
  "updateSession V sessionId f =
     bindE (getSession V sessionId) (\<lambda>found. case found of
       None \<Rightarrow> returnE False
     | Some session \<Rightarrow>
         bindE (readE (ve_now V)) (\<lambda>now. bindE (readE (ve_uuid V)) (\<lambda>uuid.
         seqE (saveSession V (f now uuid session)) (returnE True))))"

definition updateSessionState :: "'s voice_env \<Rightarrow> string \<Rightarrow> ConversationState \<Rightarrow> ('s, bool) prog" where
  "updateSessionState V sessionId newState =
     bindE (getSession V sessionId) (\<lambda>found. case found of
       None \<Rightarrow> returnE False
     | Some session \<Rightarrow>
         if \<not> tr_success (transition (vs_state session) newState) then returnE False
         else bindE (readE (ve_now V)) (\<lambda>now.
           seqE (saveSession V (session\<lparr>vs_state := newState, vs_lastActivityAt := now\<rparr>)) (returnE True)))"

definition addMessage :: "'s voice_env \<Rightarrow> string \<Rightarrow> string \<Rightarrow> bool \<Rightarrow> jobj option \<Rightarrow> ('s, bool) prog" where
  "addMessage V sessionId content isUser metadata =
     updateSession V sessionId (\<lambda>now uuid session. session\<lparr>
       vs_messages := vs_messages session @ [\<lparr>vm_id = uuid, vm_content = content, vm_timestamp = now,
         vm_isUser = isUser, vm_metadata = metadata\<rparr>],
       vs_lastActivityAt := now\<rparr>)"

definition updateSessionSocket :: "'s voice_env \<Rightarrow> string \<Rightarrow> string \<Rightarrow> ('s, bool) prog" where
  "updateSessionSocket V sessionId socketId =
     updateSession V sessionId (\<lambda>now uuid session. session\<lparr>vs_socketId := Some socketId, vs_lastActivityAt := now\<rparr>)"

definition updateLastPingAt :: "'s voice_env \<Rightarrow> string \<Rightarrow> ('s, bool) prog" where
  "updateLastPingAt V sessionId =
     updateSession V sessionId (\<lambda>now uuid session. session\<lparr>vs_lastPingAt := Some now, vs_lastActivityAt := now\<rparr>)"

definition interruptSession :: "'s voice_env \<Rightarrow> string \<Rightarrow> ('s, bool) prog" where
  "interruptSession V sessionId =
     bindE (getSession V sessionId) (\<lambda>found. case found of
       None \<Rightarrow> returnE False
     | Some session \<Rightarrow> if \<not> isInterruptible (vs_state session) then returnE False
         else updateSessionState V sessionId INTERRUPTED)"

definition resumeSession :: "'s voice_env \<Rightarrow> string \<Rightarrow> ('s, bool) prog" where
  "resumeSession V sessionId =
     bindE (getSession V sessionId) (\<lambda>found. case found of
       None \<Rightarrow> returnE False
     | Some session \<Rightarrow>
         let targetState = (if vs_state session = INTERRUPTED then LISTENING else IDLE)
         in updateSessionState V sessionId targetState)"

definition setUserActiveSession :: "'s voice_env \<Rightarrow> string \<Rightarrow> string \<Rightarrow> ('s, unit) prog" where
  "setUserActiveSession V userId sessionId =
     r_setEx (ve_redis V) (USER_ACTIVE_SESSION_PREFIX @ userId) USER_SESSION_POINTER_TTL (Txt sessionId)"

definition getUserActiveSession :: "'s voice_env \<Rightarrow> string \<Rightarrow> ('s, VoiceSession rtext option) prog" where
  "getUserActiveSession V userId = r_get (ve_redis V) (USER_ACTIVE_SESSION_PREFIX @ userId)"

definition deleteUserActiveSession :: "'s voice_env \<Rightarrow> string \<Rightarrow> ('s, unit) prog" where
  "deleteUserActiveSession V userId = ignoreE (r_del (ve_redis V) [USER_ACTIVE_SESSION_PREFIX @ userId])"

definition refreshUserSessionTTL :: "'s voice_env \<Rightarrow> string \<Rightarrow> ('s, unit) prog" where
  "refreshUserSessionTTL V userId =
     ignoreE (refreshTTL (ve_redis V) (USER_ACTIVE_SESSION_PREFIX @ userId) USER_SESSION_POINTER_TTL)"

definition clearUserActiveSessionIfMatches :: "'s voice_env \<Rightarrow> string \<Rightarrow> string \<Rightarrow> ('s, unit) prog" where
  "clearUserActiveSessionIfMatches V userId sessionId =
     bindE (getUserActiveSession V userId) (\<lambda>current.
       whenE (current = Some (Txt sessionId)) (deleteUserActiveSession V userId))"

definition terminateSession :: "'s voice_env \<Rightarrow> string \<Rightarrow> ('s, bool) prog" where
  "terminateSession V sessionId =
     catchE
       (bindE (getSession V sessionId) (\<lambda>found. case found of
          None \<Rightarrow> returnE False
        | Some session \<Rightarrow>
            seqE (ignoreE (r_del (ve_redis V) [SESSION_PREFIX @ sessionId]))
            (seqE (removeUserSession V (vs_userId session) sessionId)
            (seqE (clearUserActiveSessionIfMatches V (vs_userId session) sessionId)
              (returnE True)))))
       (\<lambda>error. returnE False)"

text \<open>
  The two clean-up loops. The counter survives an exception, which ends the loop; \<open>None\<close> is the
  case that \<open>n\<close> pages of the scan were not enough.
\<close>

definition cleanupWhere :: "'s voice_env \<Rightarrow> nat \<Rightarrow> (int \<Rightarrow> VoiceSession \<Rightarrow> bool) \<Rightarrow> ('s, nat option) prog" where
  "cleanupWhere V n doomed =
     bindE (readE (ve_now V)) (\<lambda>now.
     bindE (localE 0
       (catchE
         (bindE (liftL (scanKeys (ve_redis V) n (SESSION_PREFIX @ ''*''))) (\<lambda>scan. case scan of
            None \<Rightarrow> returnE False
          | Some keys \<Rightarrow>
              seqE (forE keys (\<lambda>key.
                bindE (liftL (r_get (ve_redis V) key)) (\<lambda>sessionData.
                  whenE (text_truthy sessionData)
                    (bindE (liftL (JSON_parse (the sessionData))) (\<lambda>session.
                      whenE (doomed now session)
                        (seqE (liftL (ignoreE (terminateSession V (drop (length SESSION_PREFIX) key))))
                          (modL Suc)))))))
              (returnE True)))
         (\<lambda>error. returnE True)))
       (\<lambda>(ended, cleanedCount). returnE (if ended then Some cleanedCount else None)))"

definition isStale :: "int \<Rightarrow> VoiceSession \<Rightarrow> bool" where
  "isStale now session = (vs_state session \<noteq> TERMINATED \<and> vs_state session \<noteq> STALE \<and>
     HEARTBEAT_TIMEOUT_MS < now - (case vs_lastPingAt session of Some t \<Rightarrow> t | None \<Rightarrow> vs_createdAt session))"

definition cleanupStaleSessions :: "'s voice_env \<Rightarrow> nat \<Rightarrow> ('s, nat option) prog" where
  "cleanupStaleSessions V n = cleanupWhere V n isStale"

definition isExpired :: "int \<Rightarrow> VoiceSession \<Rightarrow> bool" where
  "isExpired now session = (vs_ttl session * 1000 < now - vs_lastActivityAt session)"

definition cleanupExpiredSessions :: "'s voice_env \<Rightarrow> nat \<Rightarrow> ('s, nat option) prog" where
  "cleanupExpiredSessions V n = cleanupWhere V n isExpired"

text \<open>The requests a client of the service can make.\<close>

datatype session_op =
    OpCreate string string "string option" "jobj option"
  | OpState string ConversationState
  | OpMessage string string bool "jobj option"
  | OpInterrupt string
  | OpResume string
  | OpTerminate string
  | OpSocket string string
  | OpPing string
  | OpPointer string string

fun run_op :: "'s voice_env \<Rightarrow> session_op \<Rightarrow> ('s, unit) prog" where
  "run_op V (OpCreate u ctx wa md) = ignoreE (createSession V u ctx wa md)"
| "run_op V (OpState i st) = ignoreE (updateSessionState V i st)"
| "run_op V (OpMessage i c b md) = ignoreE (addMessage V i c b md)"
| "run_op V (OpInterrupt i) = ignoreE (interruptSession V i)"
| "run_op V (OpResume i) = ignoreE (resumeSession V i)"
| "run_op V (OpTerminate i) = ignoreE (terminateSession V i)"
| "run_op V (OpSocket i k) = ignoreE (updateSessionSocket V i k)"
| "run_op V (OpPing i) = ignoreE (updateLastPingAt V i)"
| "run_op V (OpPointer u i) = setUserActiveSession V u i"

section \<open>The stored sessions\<close>

definition stored_session :: "('s \<Rightarrow> string \<Rightarrow> VoiceSession rcell option) \<Rightarrow> 's \<Rightarrow> string \<Rightarrow> VoiceSession option" where
  "stored_session cell s i = (case cell s (SESSION_PREFIX @ i) of Some (RText (Json x)) \<Rightarrow> Some x | _ \<Rightarrow> None)"

definition typed_keys :: "('s \<Rightarrow> string \<Rightarrow> VoiceSession rcell option) \<Rightarrow> 's \<Rightarrow> bool" where
  "typed_keys cell s \<longleftrightarrow> (\<forall>i. \<not> is_rset (cell s (SESSION_PREFIX @ i)) \<and>
     \<not> is_rtext (cell s (USER_SESSIONS_PREFIX @ i)) \<and> \<not> is_rset (cell s (USER_ACTIVE_SESSION_PREFIX @ i)))"

text \<open>
  The invariant of the service: keys hold values of their type, and a stored session is stored
  under its own id with a positive time to live.
\<close>

definition sessions_wf :: "('s \<Rightarrow> string \<Rightarrow> VoiceSession rcell option) \<Rightarrow> 's \<Rightarrow> bool" where
  "sessions_wf cell s \<longleftrightarrow> typed_keys cell s \<and>
     (\<forall>i x. stored_session cell s i = Some x \<longrightarrow> vs_id x = i \<and> 0 < vs_ttl x)"

definition user_live :: "('s \<Rightarrow> string \<Rightarrow> VoiceSession rcell option) \<Rightarrow> 's \<Rightarrow> string \<Rightarrow> string set" where
  "user_live cell s u = {i \<in> cell_members (cell s (USER_SESSIONS_PREFIX @ u)). stored_session cell s i \<noteq> None}"

text \<open>A session is only changed along the conversation table.\<close>

definition states_follow_table :: "('s \<Rightarrow> string \<Rightarrow> VoiceSession rcell option) \<Rightarrow> 's \<Rightarrow> 's \<Rightarrow> bool" where
  "states_follow_table cell s s' \<longleftrightarrow> (\<forall>i x y. stored_session cell s i = Some x \<longrightarrow> stored_session cell s' i = Some y \<longrightarrow>
     vs_state y = vs_state x \<or> canTransition (vs_state x) (vs_state y))"

lemma key_spaces [simp]:
  "SESSION_PREFIX @ i \<noteq> USER_SESSIONS_PREFIX @ j" "USER_SESSIONS_PREFIX @ j \<noteq> SESSION_PREFIX @ i"
  "SESSION_PREFIX @ i \<noteq> USER_ACTIVE_SESSION_PREFIX @ j" "USER_ACTIVE_SESSION_PREFIX @ j \<noteq> SESSION_PREFIX @ i"
  "USER_SESSIONS_PREFIX @ i \<noteq> USER_ACTIVE_SESSION_PREFIX @ j"
  "USER_ACTIVE_SESSION_PREFIX @ j \<noteq> USER_SESSIONS_PREFIX @ i"
  by (simp_all add: SESSION_PREFIX_def USER_SESSIONS_PREFIX_def USER_ACTIVE_SESSION_PREFIX_def)

lemma plain_session_prefix: "plain_glob SESSION_PREFIX"
  by (simp add: plain_glob_def SESSION_PREFIX_def)

locale voice_store = redis_store "ve_redis V" cell ttl
  for V :: "'s voice_env" and cell ttl
begin

abbreviation stored :: "'s \<Rightarrow> string \<Rightarrow> VoiceSession option" where
  "stored \<equiv> stored_session cell"

abbreviation wf :: "'s \<Rightarrow> bool" where
  "wf \<equiv> sessions_wf cell"

lemma wf_types:
  assumes "wf s"
  shows "\<not> is_rset (cell s (SESSION_PREFIX @ i))" "\<not> is_rtext (cell s (USER_SESSIONS_PREFIX @ i))"
    "\<not> is_rset (cell s (USER_ACTIVE_SESSION_PREFIX @ i))"
  using assms by (auto simp: sessions_wf_def typed_keys_def)

lemma wf_stored: "wf s \<Longrightarrow> stored s i = Some x \<Longrightarrow> vs_id x = i \<and> 0 < vs_ttl x"
  by (simp add: sessions_wf_def)

lemma getSession_wp: "wf s \<Longrightarrow> wp (getSession V i) Q X s = Q (stored s i) s"
  using wf_types(1) [of s i]
  by (cases "cell s (SESSION_PREFIX @ i)")
    (auto simp: getSession_def wp_simps wp_get stored_session_def text_truthy_def JSON_parse_def
      split: rcell.splits rtext.splits)

lemma getSessions_wp: "wf s \<Longrightarrow> wp (mapE is (getSession V)) Q X s = Q (map (stored s) is) s"
  by (induction "is" arbitrary: Q) (simp_all add: wp_simps getSession_wp)

lemma active_wp:
  assumes "wf s" and "\<And>xs. length xs = card (user_live cell s u) \<Longrightarrow> Q xs s"
  shows "wp (getUserActiveSessions V u) Q X s"
proof -
  have "length (List.map_filter (\<lambda>x. x) (map (stored s) ms)) = card (user_live cell s u)"
    if ms: "set ms = cell_members (cell s (USER_SESSIONS_PREFIX @ u))" "distinct ms" for ms
  proof -
    have "length (List.map_filter (\<lambda>x. x) (map (stored s) ms)) = length (filter (\<lambda>i. stored s i \<noteq> None) ms)"
      by (induction ms) (simp_all add: List.map_filter_simps split: option.split)
    also have "\<dots> = card (set (filter (\<lambda>i. stored s i \<noteq> None) ms))"
      using ms(2) by (intro distinct_card [symmetric] distinct_filter)
    also have "set (filter (\<lambda>i. stored s i \<noteq> None) ms) = user_live cell s u"
      using ms(1) by (auto simp: user_live_def)
    finally show ?thesis .
  qed
  note count = this
  show ?thesis
    unfolding getUserActiveSessions_def wp_catchE wp_bindE
    by (rule wp_sMembers [OF wf_types(2) [OF assms(1)]])
      (simp add: getSessions_wp assms(1) wp_simps count assms(2))
qed

text \<open>Effect of the commands on the stored sessions.\<close>

lemma stored_upd:
  "cell s' = (cell s)(SESSION_PREFIX @ i \<mapsto> RText (Json x)) \<Longrightarrow> stored s' j = (if j = i then Some x else stored s j)"
  by (simp add: stored_session_def)

lemma wf_upd:
  assumes "wf s" and "cell s' = (cell s)(SESSION_PREFIX @ i \<mapsto> RText (Json x))" and "vs_id x = i" "0 < vs_ttl x"
  shows "wf s'"
  using assms stored_upd [OF assms(2)] by (auto simp: sessions_wf_def typed_keys_def split: if_splits)

lemma saveSession_wp:
  "0 < vs_ttl x \<Longrightarrow> (\<And>s'. cell s' = (cell s)(SESSION_PREFIX @ vs_id x \<mapsto> RText (Json x)) \<Longrightarrow> Q () s') \<Longrightarrow>
     wp (saveSession V x) Q X s"
  by (simp add: saveSession_def wp_setEx setEx_cell)

lemma stored_other:
  assumes "\<And>i. cell s' (SESSION_PREFIX @ i) = cell s (SESSION_PREFIX @ i)"
  shows "stored s' = stored s"
  by (simp add: stored_session_def fun_eq_iff assms)

lemma wf_set:
  assumes "wf s" and "cell s' = (cell s)(USER_SESSIONS_PREFIX @ u := c)" and "\<not> is_rtext c"
  shows "wf s' \<and> stored s' = stored s"
proof -
  have "stored s' = stored s" by (rule stored_other) (simp add: assms(2))
  with assms show ?thesis by (auto simp: sessions_wf_def typed_keys_def)
qed

lemma wf_pointer:
  assumes "wf s" and "cell s' = (cell s)(USER_ACTIVE_SESSION_PREFIX @ u := c)" and "\<not> is_rset c"
  shows "wf s' \<and> stored s' = stored s"
proof -
  have "stored s' = stored s" by (rule stored_other) (simp add: assms(2))
  with assms show ?thesis by (auto simp: sessions_wf_def typed_keys_def)
qed

lemma wf_del:
  assumes "wf s" and "cell s' = (cell s)(SESSION_PREFIX @ i := None)"
  shows "wf s' \<and> stored s' = (stored s)(i := None)"
proof -
  have "stored s' = (stored s)(i := None)"
    by (auto simp: stored_session_def fun_eq_iff assms(2))
  with assms show ?thesis by (auto simp: sessions_wf_def typed_keys_def split: if_splits)
qed

lemma addUserSession_wp:
  assumes "wf s"
    and "\<And>s'. cell s' = (cell s)(USER_SESSIONS_PREFIX @ u \<mapsto> RSet (insert i (cell_members (cell s (USER_SESSIONS_PREFIX @ u))))) \<Longrightarrow> Q () s'"
  shows "wp (addUserSession V u i) Q X s"
  using wf_types(2) [OF assms(1), of u] assms(2)
  by (simp add: addUserSession_def wp_simps wp_sAdd wp_expire expire_cell sAdd_cell SESSION_TTL_def)

lemma createSession_wp:
  assumes "wf s"
  shows "wp (createSession V u ctx wa md)
    (\<lambda>x s'. card (user_live cell s u) < MAX_SESSIONS_PER_USER \<and> wf s' \<and>
       x = VoiceSession_create (ve_uuid V s) (ve_now V s) u ctx wa md \<and>
       stored s' = (stored s)(vs_id x \<mapsto> x) \<and> user_live cell s' u = insert (vs_id x) (user_live cell s u))
    (\<lambda>e s'. MAX_SESSIONS_PER_USER \<le> card (user_live cell s u) \<and> s' = s \<and>
       e = Error ''Session limit reached: users may have at most 3 concurrent sessions'') s"
proof -
  have three: "show_nat MAX_SESSIONS_PER_USER = ''3''"
    by code_simp
  define x where "x = VoiceSession_create (ve_uuid V s) (ve_now V s) u ctx wa md"
  have x: "vs_id x = ve_uuid V s" "0 < vs_ttl x" by (simp_all add: x_def VoiceSession_create_def)
  have "wp (saveSession V x) (\<lambda>_. wp (addUserSession V u (vs_id x)) (\<lambda>_ s'. wf s' \<and>
       stored s' = (stored s)(vs_id x \<mapsto> x) \<and> user_live cell s' u = insert (vs_id x) (user_live cell s u)) X) X s" for X
  proof (rule saveSession_wp [OF x(2)])
    fix s1 assume s1: "cell s1 = (cell s)(SESSION_PREFIX @ vs_id x \<mapsto> RText (Json x))"
    have w1: "wf s1" by (rule wf_upd [OF assms s1 refl x(2)])
    show "wp (addUserSession V u (vs_id x)) (\<lambda>_ s'. wf s' \<and>
       stored s' = (stored s)(vs_id x \<mapsto> x) \<and> user_live cell s' u = insert (vs_id x) (user_live cell s u)) X s1"
    proof (rule addUserSession_wp [OF w1], goal_cases)
      case (1 s2)
      with wf_set [OF w1 1] have s2: "wf s2" "stored s2 = stored s1" by simp_all
      have "stored s1 = (stored s)(vs_id x \<mapsto> x)" using stored_upd [OF s1] by (auto simp: fun_eq_iff)
      with s2 1 s1 show ?case by (auto simp: user_live_def)
    qed
  qed
  note create = this
  show ?thesis
    unfolding createSession_def wp_bindE
    by (rule active_wp [OF assms])
      (auto simp: wp_simps Let_def three not_le simp flip: x_def intro!: wp_mono [OF create])
qed

text \<open>Loading, changing and saving keeps the invariant and the other sessions.\<close>

lemma updateSession_wp:
  assumes "wf s" and f: "\<And>now uuid x. vs_id (f now uuid x) = vs_id x \<and> vs_ttl (f now uuid x) = vs_ttl x"
  shows "wp (updateSession V i f)
    (\<lambda>b s'. wf s' \<and> b = (stored s i \<noteq> None) \<and>
       stored s' = (case stored s i of None \<Rightarrow> stored s
         | Some x \<Rightarrow> (stored s)(i \<mapsto> f (ve_now V s) (ve_uuid V s) x))) (\<lambda>_ _. False) s"
proof (cases "stored s i")
  case None
  with assms(1) show ?thesis by (simp add: updateSession_def wp_simps getSession_wp)
next
  case (Some x)
  let ?y = "f (ve_now V s) (ve_uuid V s) x"
  from wf_stored [OF assms(1) Some] f have y: "vs_id ?y = i" "0 < vs_ttl ?y" by simp_all
  have "wp (saveSession V ?y) (\<lambda>_ s'. wf s' \<and> stored s' = (stored s)(i \<mapsto> ?y)) (\<lambda>_ _. False) s"
    by (rule saveSession_wp [OF y(2)]) (use y in \<open>auto intro: wf_upd [OF assms(1)] simp: stored_upd fun_eq_iff\<close>)
  with assms(1) Some show ?thesis by (simp add: updateSession_def wp_simps getSession_wp)
qed

lemma updateSessionState_wp:
  assumes "wf s"
  shows "wp (updateSessionState V i st)
    (\<lambda>b s'. wf s' \<and> (case stored s i of None \<Rightarrow> \<not> b \<and> s' = s
       | Some x \<Rightarrow> if canTransition (vs_state x) st
           then b \<and> stored s' = (stored s)(i \<mapsto> x\<lparr>vs_state := st, vs_lastActivityAt := ve_now V s\<rparr>)
           else \<not> b \<and> s' = s)) (\<lambda>_ _. False) s"
proof (cases "stored s i")
  case None
  with assms show ?thesis by (simp add: updateSessionState_def wp_simps getSession_wp)
next
  case (Some x)
  let ?y = "x\<lparr>vs_state := st, vs_lastActivityAt := ve_now V s\<rparr>"
  from wf_stored [OF assms Some] have y: "vs_id ?y = i" "0 < vs_ttl ?y" by simp_all
  have "wp (saveSession V ?y) (\<lambda>_ s'. wf s' \<and> stored s' = (stored s)(i \<mapsto> ?y)) (\<lambda>_ _. False) s"
    by (rule saveSession_wp [OF y(2)]) (use y in \<open>auto intro: wf_upd [OF assms] simp: stored_upd fun_eq_iff\<close>)
  with assms Some show ?thesis by (simp add: updateSessionState_def wp_simps getSession_wp)
qed

lemma terminateSession_wp:
  assumes "wf s"
  shows "wp (terminateSession V i)
    (\<lambda>b s'. wf s' \<and> b = (stored s i \<noteq> None) \<and> stored s' = (stored s)(i := None) \<and>
       (\<forall>x. stored s i = Some x \<longrightarrow> i \<notin> cell_members (cell s' (USER_SESSIONS_PREFIX @ vs_userId x)) \<and>
          (\<forall>j. cell s' (SESSION_PREFIX @ j) = (if j = i then None else cell s (SESSION_PREFIX @ j))))) (\<lambda>_ _. False) s"
proof (cases "stored s i")
  case None
  with assms show ?thesis by (auto simp: terminateSession_def wp_simps getSession_wp fun_eq_iff)
next
  case (Some x)
  let ?u = "vs_userId x"
  let ?s1 = "fin (r_del (ve_redis V) [SESSION_PREFIX @ i]) s"
  have cell1: "cell ?s1 = (cell s)(SESSION_PREFIX @ i := None)" by (auto simp: del_cell fun_eq_iff)
  from wf_del [OF assms cell1] have s1: "wf ?s1" "stored ?s1 = (stored s)(i := None)" by simp_all
  let ?s2 = "fin (r_sRem (ve_redis V) (USER_SESSIONS_PREFIX @ ?u) i) ?s1"
  note cell2 = sRem_cell [OF wf_types(2) [OF s1(1)], of ?u i]
  have s2: "wf ?s2" "stored ?s2 = stored ?s1" "i \<notin> cell_members (cell ?s2 (USER_SESSIONS_PREFIX @ ?u))"
    using wf_set [OF s1(1) cell2] cell2 by auto
  let ?s3 = "fin (r_del (ve_redis V) [USER_ACTIVE_SESSION_PREFIX @ ?u]) ?s2"
  have cell3: "cell ?s3 = (cell ?s2)(USER_ACTIVE_SESSION_PREFIX @ ?u := None)" by (auto simp: del_cell fun_eq_iff)
  have s3: "wf ?s3" "stored ?s3 = stored ?s2" "i \<notin> cell_members (cell ?s3 (USER_SESSIONS_PREFIX @ ?u))"
    using wf_pointer [OF s2(1) cell3] cell3 s2(3) by simp_all
  have keys: "cell ?s2 (SESSION_PREFIX @ j) = (if j = i then None else cell s (SESSION_PREFIX @ j))"
    "cell ?s3 (SESSION_PREFIX @ j) = (if j = i then None else cell s (SESSION_PREFIX @ j))" for j
    using cell1 cell2 cell3 by simp_all
  from assms Some s1 s2 s3 keys show ?thesis
    by (simp add: terminateSession_def wp_simps getSession_wp wp_del removeUserSession_def
        wp_sRem [OF wf_types(2) [OF s1(1)]] clearUserActiveSessionIfMatches_def getUserActiveSession_def
        wp_get [OF wf_types(3) [OF s2(1)]] deleteUserActiveSession_def)
qed

text \<open>Every text under a session key is a session.\<close>

definition all_parse :: "'s \<Rightarrow> bool" where
  "all_parse s \<longleftrightarrow> (\<forall>i. cell s (SESSION_PREFIX @ i) \<noteq> None \<longrightarrow> stored s i \<noteq> None)"

definition cleanup_step :: "(int \<Rightarrow> VoiceSession \<Rightarrow> bool) \<Rightarrow> int \<Rightarrow> string \<Rightarrow> ('s \<times> nat, unit) prog" where
  "cleanup_step doomed now key =
     bindE (liftL (r_get (ve_redis V) key)) (\<lambda>sessionData.
       whenE (text_truthy sessionData)
         (bindE (liftL (JSON_parse (the sessionData))) (\<lambda>session.
           whenE (doomed now session)
             (seqE (liftL (ignoreE (terminateSession V (drop (length SESSION_PREFIX) key)))) (modL Suc)))))"

lemma cleanup_step_wp:
  assumes "wf (fst p)" and parse: "all_parse (fst p)"
  shows "wp (cleanup_step doomed now (SESSION_PREFIX @ i))
    (\<lambda>_ q. wf (fst q) \<and> all_parse (fst q) \<and> stored (fst q) = (stored (fst p))(i :=
       (case stored (fst p) i of None \<Rightarrow> None | Some x \<Rightarrow> if doomed now x then None else Some x))) (\<lambda>_ _. False) p"
proof (cases "stored (fst p) i")
  case None
  with parse have "cell (fst p) (SESSION_PREFIX @ i) = None" by (auto simp: all_parse_def)
  with assms None show ?thesis
    by (simp add: cleanup_step_def wp_simps wp_get text_truthy_def fun_upd_idem)
next
  case (Some x)
  then have c: "cell (fst p) (SESSION_PREFIX @ i) = Some (RText (Json x))"
    by (auto simp: stored_session_def split: option.splits rcell.splits rtext.splits)
  have "wp (terminateSession V i) (\<lambda>_ s'. wf s' \<and> all_parse s' \<and> stored s' = (stored (fst p))(i := None))
      (\<lambda>_ _. False) (fst p)"
    by (rule wp_mono [OF terminateSession_wp [OF assms(1)]]) (use Some parse in \<open>auto simp: all_parse_def\<close>)
  with assms Some c show ?thesis
    by (simp add: cleanup_step_def wp_simps wp_get text_truthy_def JSON_parse_def fun_upd_idem)
qed

lemma cleanup_loop_wp:
  assumes "wf (fst p)" and "all_parse (fst p)"
  shows "wp (forE (map (append SESSION_PREFIX) is) (cleanup_step doomed now))
    (\<lambda>_ q. wf (fst q) \<and> stored (fst q) = (\<lambda>i. case stored (fst p) i of None \<Rightarrow> None
       | Some x \<Rightarrow> if i \<in> set is \<and> doomed now x then None else Some x)) (\<lambda>_ _. False) p"
  using assms
proof (induction "is" arbitrary: p)
  case Nil
  then show ?case by (auto simp: wp_simps fun_eq_iff split: option.split)
next
  case (Cons i "is")
  have "wp (cleanup_step doomed now (SESSION_PREFIX @ i))
    (\<lambda>_. wp (forE (map (append SESSION_PREFIX) is) (cleanup_step doomed now))
      (\<lambda>_ q. wf (fst q) \<and> stored (fst q) = (\<lambda>j. case stored (fst p) j of None \<Rightarrow> None
       | Some x \<Rightarrow> if j \<in> set (i # is) \<and> doomed now x then None else Some x)) (\<lambda>_ _. False)) (\<lambda>_ _. False) p"
  proof (rule wp_mono [OF cleanup_step_wp [OF Cons.prems]], goal_cases)
    case (1 v q)
    then have q: "wf (fst q)" "all_parse (fst q)" by simp_all
    show ?case
      by (rule wp_mono [OF Cons.IH [OF q]]) (use 1 in \<open>auto simp: fun_eq_iff split: option.splits\<close>)
  qed
  then show ?case by (simp add: wp_simps)
qed

lemma cleanupWhere_wp:
  assumes "wf s" and "all_parse s"
  shows "\<exists>n. \<forall>m \<ge> n. wp (cleanupWhere V m doomed)
    (\<lambda>c s'. c \<noteq> None \<and> wf s' \<and> stored s' = (\<lambda>i. case stored s i of None \<Rightarrow> None
       | Some x \<Rightarrow> if doomed (ve_now V s) x then None else Some x)) (\<lambda>_ _. False) s"
proof -
  obtain n ks where ks: "set ks = keys_of cell s SESSION_PREFIX"
    and scan: "\<forall>m \<ge> n. scanKeys (ve_redis V) m (SESSION_PREFIX @ ''*'') s = (Inr (Some ks), s)"
    using scan_law [OF plain_session_prefix] by blast
  define ids where "ids = map (drop (length SESSION_PREFIX)) ks"
  have map: "ks = map (append SESSION_PREFIX) ids"
    unfolding ids_def map_map by (rule map_idI [symmetric]) (auto simp: ks keys_of_def prefix_def)
  have all: "i \<in> set ids" if "stored s i = Some x" for i x
  proof -
    from that have "cell s (SESSION_PREFIX @ i) \<noteq> None"
      by (auto simp: stored_session_def split: option.splits)
    then have "SESSION_PREFIX @ i \<in> set ks" by (simp add: ks keys_of_def)
    then show ?thesis unfolding map by auto
  qed
  have "wp (forE ks (cleanup_step doomed (ve_now V s)))
    (\<lambda>_ q. wf (fst q) \<and> stored (fst q) = (\<lambda>i. case stored s i of None \<Rightarrow> None
       | Some x \<Rightarrow> if doomed (ve_now V s) x then None else Some x)) (\<lambda>_ _. False) (s, 0)"
    unfolding map
    by (rule wp_mono [OF cleanup_loop_wp]) (use assms all in \<open>auto simp: fun_eq_iff split: option.splits\<close>)
  note loop = this [unfolded cleanup_step_def [abs_def]]
  have "wp (cleanupWhere V m doomed)
    (\<lambda>c s'. c \<noteq> None \<and> wf s' \<and> stored s' = (\<lambda>i. case stored s i of None \<Rightarrow> None
       | Some x \<Rightarrow> if doomed (ve_now V s) x then None else Some x)) (\<lambda>_ _. False) s" if "n \<le> m" for m
    using scan that
    by (simp add: cleanupWhere_def wp_simps wp_Inr) (rule wp_mono [OF loop], auto)
  then show ?thesis by blast
qed

definition op_safe :: "'s \<Rightarrow> ('s, unit) prog \<Rightarrow> bool" where
  "op_safe s m \<longleftrightarrow> wp m (\<lambda>_ s'. wf s' \<and> states_follow_table cell s s') (\<lambda>_ s'. wf s' \<and> states_follow_table cell s s') s"

lemma follow_refl: "states_follow_table cell s s"
  by (auto simp: states_follow_table_def)

lemma updateSession_safe:
  assumes "wf s" and "\<And>now uuid x. vs_id (f now uuid x) = vs_id x \<and> vs_ttl (f now uuid x) = vs_ttl x \<and> vs_state (f now uuid x) = vs_state x"
  shows "op_safe s (ignoreE (updateSession V i f))"
  unfolding op_safe_def wp_ignoreE
  by (rule wp_mono [OF updateSession_wp [OF assms(1)]])
    (use assms(2) in \<open>auto simp: states_follow_table_def split: option.splits if_splits\<close>)

lemma updateSessionState_safe:
  assumes "wf s" shows "op_safe s (ignoreE (updateSessionState V i st))"
  unfolding op_safe_def wp_ignoreE
  by (rule wp_mono [OF updateSessionState_wp [OF assms]])
    (auto simp: states_follow_table_def split: option.splits if_splits)

lemma run_op_safe:
  assumes "wf s" and "stored s (ve_uuid V s) = None"
  shows "op_safe s (run_op V cmd)"
proof (cases cmd)
  case (OpCreate u ctx wa md)
  show ?thesis
    unfolding OpCreate op_safe_def run_op.simps wp_ignoreE
    by (rule wp_mono [OF createSession_wp [OF assms(1)]])
      (use assms in \<open>auto simp: states_follow_table_def VoiceSession_create_def split: if_splits\<close>)
next
  case (OpState i st)
  with updateSessionState_safe [OF assms(1)] show ?thesis by simp
next
  case (OpMessage i c b md)
  with updateSession_safe [OF assms(1)] show ?thesis by (simp add: addMessage_def)
next
  case (OpInterrupt i)
  with updateSessionState_safe [OF assms(1)] assms(1) show ?thesis
    by (auto simp: interruptSession_def op_safe_def wp_simps getSession_wp follow_refl split: option.split)
next
  case (OpResume i)
  with updateSessionState_safe [OF assms(1)] assms(1) show ?thesis
    by (auto simp: resumeSession_def op_safe_def wp_simps getSession_wp follow_refl Let_def split: option.split)
next
  case (OpTerminate i)
  show ?thesis
    unfolding OpTerminate op_safe_def run_op.simps wp_ignoreE
    by (rule wp_mono [OF terminateSession_wp [OF assms(1)]])
      (auto simp: states_follow_table_def split: if_splits)
next
  case (OpSocket i k)
  with updateSession_safe [OF assms(1)] show ?thesis by (simp add: updateSessionSocket_def)
next
  case (OpPing i)
  with updateSession_safe [OF assms(1)] show ?thesis by (simp add: updateLastPingAt_def)
next
  case (OpPointer u i)
  let ?s' = "fin (r_setEx (ve_redis V) (USER_ACTIVE_SESSION_PREFIX @ u) 600 (Txt i)) s"
  have "cell ?s' = (cell s)(USER_ACTIVE_SESSION_PREFIX @ u \<mapsto> RText (Txt i))" by (simp add: setEx_cell)
  then have "wf ?s' \<and> stored ?s' = stored s" by (rule wf_pointer [OF assms(1)]) simp
  then show ?thesis
    by (auto simp: OpPointer op_safe_def setUserActiveSession_def USER_SESSION_POINTER_TTL_def wp_setEx
        states_follow_table_def)
qed

end

section \<open>An in-memory environment\<close>

record vstore = "VoiceSession rstore" +
  vst_clock :: int
  vst_next :: nat

definition mem_voice :: "vstore voice_env" where
  "mem_voice = \<lparr>ve_redis = mem_redis, ve_now = vst_clock, ve_uuid = (\<lambda>s. show_nat (vst_next s))\<rparr>"

lemma mem_voice_store: "voice_store mem_voice mem_cell mem_ttl"
  using mem_redis_store by (simp add: voice_store_def mem_voice_def)

interpretation vmem: voice_store mem_voice mem_cell mem_ttl
  by (rule mem_voice_store)

definition demo_session :: VoiceSession where
  "demo_session = VoiceSession_create ''7'' 0 ''alice'' ''general'' None None"

definition demo_vstore :: vstore where
  "demo_vstore = \<lparr>rs_cells = [(SESSION_PREFIX @ ''7'', MText (Json demo_session)),
       (USER_SESSIONS_PREFIX @ ''alice'', MSet [''7''])], rs_ttl = [], vst_clock = 70000, vst_next = 8\<rparr>"

lemma demo_cells: "mem_cell demo_vstore =
    [SESSION_PREFIX @ ''7'' \<mapsto> RText (Json demo_session), USER_SESSIONS_PREFIX @ ''alice'' \<mapsto> RSet {''7''}]"
  by (auto simp: mem_cell_def demo_vstore_def fun_eq_iff)

lemma demo_stored: "stored_session mem_cell demo_vstore = [''7'' \<mapsto> demo_session]"
  by (auto simp: stored_session_def demo_cells fun_eq_iff)

lemma demo_wf: "sessions_wf mem_cell demo_vstore"
  by (auto simp: sessions_wf_def typed_keys_def demo_stored demo_cells demo_session_def
      VoiceSession_create_def split: if_splits)

lemma demo_live: "user_live mem_cell demo_vstore ''alice'' = {''7''}"
  by (auto simp: user_live_def demo_stored demo_cells)

section \<open>Properties\<close>

text \<open>
  A user never gets more than three live sessions: \<open>createSession\<close> throws the limit error and
  changes nothing when the user has three or more, and otherwise stores a new idle session whose id
  is added to the user's live sessions, which are at most three afterwards.
\<close>

theorem createSession_limit:
  assumes "voice_store V cell ttl" and "sessions_wf cell s"
  shows "case createSession V u ctx wa md s of
      (Inl e, s') \<Rightarrow> 3 \<le> card (user_live cell s u) \<and> s' = s \<and>
        e = Error ''Session limit reached: users may have at most 3 concurrent sessions''
    | (Inr x, s') \<Rightarrow> vs_state x = IDLE \<and> vs_userId x = u \<and> stored_session cell s' (vs_id x) = Some x \<and>
        user_live cell s' u = insert (vs_id x) (user_live cell s u) \<and> card (user_live cell s' u) \<le> 3 \<and>
        sessions_wf cell s'"
  using voice_store.createSession_wp [OF assms, of u ctx wa md] card_insert_le_m1 [of 3 "user_live cell s u"]
  by (auto simp: wp_def MAX_SESSIONS_PER_USER_def VoiceSession_create_def split: prod.splits sum.splits)

theorem createSession_limit_witness:
  "case createSession mem_voice ''alice'' ''general'' None None demo_vstore of
      (Inl e, s') \<Rightarrow> 3 \<le> card (user_live mem_cell demo_vstore ''alice'') \<and> s' = demo_vstore \<and>
        e = Error ''Session limit reached: users may have at most 3 concurrent sessions''
    | (Inr x, s') \<Rightarrow> vs_state x = IDLE \<and> vs_userId x = ''alice'' \<and> stored_session mem_cell s' (vs_id x) = Some x \<and>
        user_live mem_cell s' ''alice'' = insert (vs_id x) (user_live mem_cell demo_vstore ''alice'') \<and>
        card (user_live mem_cell s' ''alice'') \<le> 3 \<and> sessions_wf mem_cell s'"
  by (rule createSession_limit [OF mem_voice_store demo_wf])

text \<open>
  C39. Every request keeps the stored sessions well formed and moves a session only along the
  conversation table: whatever a client asks, the state a session has afterwards is the old one or a
  valid successor of it, also when the request throws.
\<close>

theorem session_requests_safe:
  assumes "voice_store V cell ttl" and "sessions_wf cell s" and "stored_session cell s (ve_uuid V s) = None"
  shows "sessions_wf cell (snd (run_op V cmd s)) \<and> states_follow_table cell s (snd (run_op V cmd s))"
  using voice_store.run_op_safe [OF assms, of cmd] voice_store.op_safe_def [OF assms(1)]
  by (simp add: wp_final)

theorem session_requests_safe_witness:
  "sessions_wf mem_cell (snd (run_op mem_voice (OpState ''7'' LISTENING) demo_vstore)) \<and>
   states_follow_table mem_cell demo_vstore (snd (run_op mem_voice (OpState ''7'' LISTENING) demo_vstore))"
  by (rule session_requests_safe [OF mem_voice_store demo_wf])
    (simp add: demo_stored mem_voice_def demo_vstore_def, code_simp)

text \<open>
  \<open>terminateSession\<close> answers whether the session existed and then no longer does: it is gone, it
  is not among its user's sessions any more, and no other session changes.
\<close>

theorem terminateSession_spec:
  assumes "voice_store V cell ttl" and "sessions_wf cell s"
  shows "\<exists>s'. terminateSession V i s = (Inr (stored_session cell s i \<noteq> None), s') \<and>
    stored_session cell s' = (stored_session cell s)(i := None) \<and> sessions_wf cell s' \<and>
    (\<forall>x. stored_session cell s i = Some x \<longrightarrow> i \<notin> user_live cell s' (vs_userId x))"
  using voice_store.terminateSession_wp [OF assms, of i] by (auto simp: wp_value user_live_def)

theorem terminateSession_spec_witness:
  "\<exists>s'. terminateSession mem_voice ''7'' demo_vstore = (Inr (stored_session mem_cell demo_vstore ''7'' \<noteq> None), s') \<and>
    stored_session mem_cell s' = (stored_session mem_cell demo_vstore)(''7'' := None) \<and> sessions_wf mem_cell s' \<and>
    (\<forall>x. stored_session mem_cell demo_vstore ''7'' = Some x \<longrightarrow> ''7'' \<notin> user_live mem_cell s' (vs_userId x))"
  by (rule terminateSession_spec [OF mem_voice_store demo_wf])

text \<open>
  The heartbeat clean-up removes exactly the stale sessions: when every text under a session key
  is a session and the scan gets enough pages, it returns, every session silent for more than a
  minute is gone and every other session is as it was.
\<close>

theorem cleanupStale_exact:
  assumes "voice_store V cell ttl" and "sessions_wf cell s"
    and "\<forall>i. cell s (SESSION_PREFIX @ i) \<noteq> None \<longrightarrow> stored_session cell s i \<noteq> None"
  shows "\<exists>n. \<forall>m \<ge> n. \<exists>c s'. cleanupStaleSessions V m s = (Inr (Some c), s') \<and>
    stored_session cell s' = (\<lambda>i. case stored_session cell s i of None \<Rightarrow> None
       | Some x \<Rightarrow> if isStale (ve_now V s) x then None else Some x)"
proof -
  have "voice_store.all_parse cell s" using assms(3) by (simp add: voice_store.all_parse_def [OF assms(1)])
  from voice_store.cleanupWhere_wp [OF assms(1,2) this, of isStale] obtain n where
    n: "\<forall>m \<ge> n. \<exists>c s'. cleanupWhere V m isStale s = (Inr c, s') \<and> c \<noteq> None \<and> sessions_wf cell s' \<and>
      stored_session cell s' = (\<lambda>i. case stored_session cell s i of None \<Rightarrow> None
       | Some x \<Rightarrow> if isStale (ve_now V s) x then None else Some x)"
    unfolding wp_value by blast
  show ?thesis unfolding cleanupStaleSessions_def
    by (rule exI [of _ n]) (use n in fast)
qed

theorem cleanupStale_exact_witness:
  "\<exists>n. \<forall>m \<ge> n. \<exists>c s'. cleanupStaleSessions mem_voice m demo_vstore = (Inr (Some c), s') \<and>
    stored_session mem_cell s' = (\<lambda>i. case stored_session mem_cell demo_vstore i of None \<Rightarrow> None
       | Some x \<Rightarrow> if isStale (ve_now mem_voice demo_vstore) x then None else Some x)"
  by (rule cleanupStale_exact [OF mem_voice_store demo_wf]) (simp add: demo_stored demo_cells)

end
