(* ===== verification/Quota.thy ===== *)
theory Quota
  imports Ext_Redis Js_Json
begin

text \<open>
  \<open>QuotaService\<close> (src/Backend/src/voice/services/quota.service.ts): monthly, per-session and
  per-minute counters of LLM requests in Redis. The client, the clock and the offset of the server's
  local time from UTC (in minutes, east positive) are the record \<open>quota_env\<close>. A limit is an
  integer; a counter that is not a number reads \<open>NaN\<close>.
\<close>

section \<open>The service\<close>

record QuotaConfig =
  qc_monthlyLimit :: int
  qc_perSessionLimit :: int
  qc_requestsPerMinute :: int

record QuotaStatus =
  qs_monthlyUsage :: jsnum
  qs_monthlyLimit :: int
  qs_sessionUsage :: jsnum
  qs_sessionLimit :: int
  qs_requestsThisMinute :: jsnum
  qs_requestsPerMinuteLimit :: int

record ('s, 'j) quota_env =
  qe_redis :: "('s, 'j) redis"
  qe_now :: "'s \<Rightarrow> int"
  qe_tz :: int

definition defaultConfig :: QuotaConfig where
  "defaultConfig = \<lparr>qc_monthlyLimit = 1000, qc_perSessionLimit = 100, qc_requestsPerMinute = 20\<rparr>"

definition MONTHLY_QUOTA_PREFIX :: string where "MONTHLY_QUOTA_PREFIX = ''quota:monthly:''"
definition SESSION_QUOTA_PREFIX :: string where "SESSION_QUOTA_PREFIX = ''quota:session:''"
definition RPM_PREFIX :: string where "RPM_PREFIX = ''quota:rpm:''"

definition getMonthKey :: "string \<Rightarrow> int \<Rightarrow> string" where
  "getMonthKey userId now = (case utc_date now of (year, month, _) \<Rightarrow>
     MONTHLY_QUOTA_PREFIX @ userId @ '':'' @ show_int year @ ''-'' @ show_int month)"

definition getSessionKey :: "string \<Rightarrow> string" where
  "getSessionKey sessionId = SESSION_QUOTA_PREFIX @ sessionId"

definition getRpmKey :: "string \<Rightarrow> int \<Rightarrow> string" where
  "getRpmKey userId now = RPM_PREFIX @ userId @ '':'' @ show_int (now div 60000)"

definition limitKey :: "string \<Rightarrow> string" where
  "limitKey userId = MONTHLY_QUOTA_PREFIX @ userId @ '':limit''"

text \<open>
  Seconds until the first of the next UTC month, read as local midnight; \<open>Math.ceil\<close> of the
  quotient.
\<close>

definition getMonthExpiry :: "int \<Rightarrow> int \<Rightarrow> int" where
  "getMonthExpiry tz now = (case utc_date now of (y, m, _) \<Rightarrow>
     let nextMonth = (if m = 12 then days_from_civil (y + 1) 1 1 else days_from_civil y (m + 1) 1) * day_ms - tz * 60000;
         ttlMs = nextMonth - now
     in - ((- ttlMs) div 1000))"

definition readCount :: "('s, 'j) quota_env \<Rightarrow> string \<Rightarrow> ('s, jsnum) prog" where
  "readCount Q key = bindE (r_get (qe_redis Q) key) (\<lambda>v. returnE (parse_count v))"

definition getQuotaStatus :: "('s, 'j) quota_env \<Rightarrow> string \<Rightarrow> string \<Rightarrow> int \<Rightarrow> QuotaConfig \<Rightarrow> ('s, QuotaStatus) prog" where
  "getQuotaStatus Q userId sessionId now config =
     bindE (promise_all [readCount Q (getMonthKey userId now), readCount Q (getSessionKey sessionId),
              readCount Q (getRpmKey userId now)])
       (\<lambda>us. returnE \<lparr>qs_monthlyUsage = us ! 0, qs_monthlyLimit = qc_monthlyLimit config,
          qs_sessionUsage = us ! 1, qs_sessionLimit = qc_perSessionLimit config,
          qs_requestsThisMinute = us ! 2, qs_requestsPerMinuteLimit = qc_requestsPerMinute config\<rparr>)"

definition show_num :: "jsnum \<Rightarrow> string" where
  "show_num v = (case v of None \<Rightarrow> ''NaN'' | Some i \<Rightarrow> show_int i)"

definition TOO_MANY_REQUESTS :: nat where "TOO_MANY_REQUESTS = 429"

definition checkMonthlyQuota :: "('s, 'j) quota_env \<Rightarrow> string \<Rightarrow> int \<Rightarrow> int \<Rightarrow> ('s, unit) prog" where
  "checkMonthlyQuota Q userId now limit =
     bindE (r_get (qe_redis Q) (limitKey userId)) (\<lambda>customLimit.
     let effectiveLimit = (if text_truthy customLimit then parse_count customLimit else Some limit) in
     bindE (readCount Q (getMonthKey userId now)) (\<lambda>usage.
       whenE (js_ge usage effectiveLimit)
         (throwE (HttpException (''Monthly LLM quota exceeded ('' @ show_num usage @ ''/'' @ show_num effectiveLimit @
            ''). Please try again next month or contact support.'') TOO_MANY_REQUESTS))))"

definition checkSessionQuota :: "('s, 'j) quota_env \<Rightarrow> string \<Rightarrow> int \<Rightarrow> ('s, unit) prog" where
  "checkSessionQuota Q sessionId limit =
     bindE (readCount Q (getSessionKey sessionId)) (\<lambda>usage.
       whenE (js_ge usage (Some limit))
         (throwE (HttpException (''Session LLM quota exceeded ('' @ show_num usage @ ''/'' @ show_int limit @
            ''). Please start a new session.'') TOO_MANY_REQUESTS)))"

definition checkRequestsPerMinute :: "('s, 'j) quota_env \<Rightarrow> string \<Rightarrow> int \<Rightarrow> int \<Rightarrow> ('s, unit) prog" where
  "checkRequestsPerMinute Q userId now limit =
     bindE (readCount Q (getRpmKey userId now)) (\<lambda>usage.
       whenE (js_ge usage (Some limit))
         (throwE (HttpException (''Rate limit exceeded. Maximum '' @ show_int limit @
            '' requests per minute.'') TOO_MANY_REQUESTS)))"

text \<open>\<open>config\<close> is the merged configuration: the defaults with the caller's overrides.\<close>

definition enforceQuota :: "('s, 'j) quota_env \<Rightarrow> string \<Rightarrow> string \<Rightarrow> QuotaConfig \<Rightarrow> ('s, QuotaStatus) prog" where
  "enforceQuota Q userId sessionId config =
     bindE (readE (qe_now Q)) (\<lambda>now.
     catchE
       (seqE (checkMonthlyQuota Q userId now (qc_monthlyLimit config))
       (seqE (checkSessionQuota Q sessionId (qc_perSessionLimit config))
       (seqE (checkRequestsPerMinute Q userId now (qc_requestsPerMinute config))
         (getQuotaStatus Q userId sessionId now config))))
       (\<lambda>error. if is_http_exception error then throwE error
                else throwE (HttpException ''Quota check failed'' 500)))"

definition incrementWithExpiry :: "('s, 'j) quota_env \<Rightarrow> string \<Rightarrow> int \<Rightarrow> ('s, unit) prog" where
  "incrementWithExpiry Q key ttlSeconds =
     bindE (r_incr (qe_redis Q) key) (\<lambda>newValue.
       whenE (newValue = 1) (ignoreE (r_expire (qe_redis Q) key ttlSeconds)))"

definition recordRequest :: "('s, 'j) quota_env \<Rightarrow> string \<Rightarrow> string \<Rightarrow> int \<Rightarrow> ('s, unit) prog" where
  "recordRequest Q userId sessionId now =
     catchE
       (ignoreE (promise_all [incrementWithExpiry Q (getMonthKey userId now) (getMonthExpiry (qe_tz Q) now),
          incrementWithExpiry Q (getSessionKey sessionId) 604800,
          incrementWithExpiry Q (getRpmKey userId now) 60]))
       (\<lambda>error. returnE ())"

definition resetUserQuota :: "('s, 'j) quota_env \<Rightarrow> string \<Rightarrow> ('s, unit) prog" where
  "resetUserQuota Q userId =
     catchE
       (bindE (r_keys (qe_redis Q) (MONTHLY_QUOTA_PREFIX @ userId @ '':*'')) (\<lambda>keys.
          whenE (0 < length keys) (ignoreE (r_del (qe_redis Q) keys))))
       (\<lambda>error. returnE ())"

definition resetSessionQuota :: "('s, 'j) quota_env \<Rightarrow> string \<Rightarrow> ('s, unit) prog" where
  "resetSessionQuota Q sessionId =
     catchE (ignoreE (r_del (qe_redis Q) [getSessionKey sessionId])) (\<lambda>error. returnE ())"

text \<open>The comparison with the current usage only logs a warning.\<close>

definition setUserMonthlyQuota :: "('s, 'j) quota_env \<Rightarrow> string \<Rightarrow> int \<Rightarrow> ('s, unit) prog" where
  "setUserMonthlyQuota Q userId limit =
     catchE
       (bindE (readE (qe_now Q)) (\<lambda>now.
        bindE (readCount Q (getMonthKey userId now)) (\<lambda>currentUsage.
          r_set (qe_redis Q) (limitKey userId) (Txt (show_int limit)) (Some (getMonthExpiry (qe_tz Q) now)))))
       (\<lambda>error. returnE ())"

definition getUserMonthlyQuota :: "('s, 'j) quota_env \<Rightarrow> string \<Rightarrow> ('s, jsnum) prog" where
  "getUserMonthlyQuota Q userId =
     catchE
       (bindE (r_get (qe_redis Q) (limitKey userId)) (\<lambda>customLimit.
          if text_truthy customLimit then returnE (parse_count customLimit)
          else returnE (Some (qc_monthlyLimit defaultConfig))))
       (\<lambda>error. returnE (Some (qc_monthlyLimit defaultConfig)))"

section \<open>The counters of a user\<close>

text \<open>The counters of a request: month, session and minute; and the user's own monthly limit.\<close>

definition usage :: "(string \<Rightarrow> 'j rcell option) \<Rightarrow> string \<Rightarrow> string \<Rightarrow> int \<Rightarrow> int \<Rightarrow> int \<Rightarrow> int \<Rightarrow> bool" where
  "usage cells u i now a b c \<longleftrightarrow> counter (cells (getMonthKey u now)) a \<and>
     counter (cells (getSessionKey i)) b \<and> counter (cells (getRpmKey u now)) c"

definition custom_limit :: "(string \<Rightarrow> 'j rcell option) \<Rightarrow> string \<Rightarrow> int option \<Rightarrow> bool" where
  "custom_limit cells u l \<longleftrightarrow> cells (limitKey u) = map_option (\<lambda>n. RText (Txt (show_int n))) l"

definition effective_limit :: "int option \<Rightarrow> QuotaConfig \<Rightarrow> int" where
  "effective_limit l config = (case l of None \<Rightarrow> qc_monthlyLimit config | Some n \<Rightarrow> n)"

lemma quota_keys [simp]:
  "getMonthKey u now \<noteq> getSessionKey i" "getSessionKey i \<noteq> getMonthKey u now"
  "getMonthKey u now \<noteq> getRpmKey v now'" "getRpmKey v now' \<noteq> getMonthKey u now"
  "getSessionKey i \<noteq> getRpmKey v now'" "getRpmKey v now' \<noteq> getSessionKey i"
  by (auto simp: getMonthKey_def getSessionKey_def getRpmKey_def MONTHLY_QUOTA_PREFIX_def
      SESSION_QUOTA_PREFIX_def RPM_PREFIX_def split: prod.split)

text \<open>A counter after an increment with expiry \<open>t\<close>: a new one is lost when \<open>t\<close> is not positive.\<close>

definition bumped :: "int \<Rightarrow> int \<Rightarrow> int" where
  "bumped n t = (if n = 0 \<and> t \<le> 0 then 0 else n + 1)"

locale quota_store = redis_store "qe_redis Q" cell ttl
  for Q :: "('s, 'j) quota_env" and cell ttl
begin

lemma readCount_wp: "counter (cell s k) n \<Longrightarrow> wp (readCount Q k) P X s = P (Some n) s"
  by (simp add: readCount_def wp_simps wp_get counter_not_set parse_counter)

lemma increment_wp:
  assumes "counter (cell s k) n" and "0 \<le> n"
    and "\<And>s'. counter (cell s' k) (bumped n t) \<Longrightarrow> (\<And>j. j \<noteq> k \<Longrightarrow> cell s' j = cell s j) \<Longrightarrow> P () s'"
  shows "wp (incrementWithExpiry Q k t) P X s"
proof -
  have i: "ok (r_incr (qe_redis Q) k) s \<and> res (r_incr (qe_redis Q) k) s = n + 1 \<and>
      cell (fin (r_incr (qe_redis Q) k) s) = (cell s)(k \<mapsto> RText (Txt (show_int (n + 1))))"
    using assms(1) incr_new incr_old by (auto simp: counter_def)
  then show ?thesis
    using assms(2) by (auto simp: incrementWithExpiry_def wp_simps wp_ok wp_expire
        expire_cell bumped_def counter_def intro!: assms(3))
qed

lemma enforce_wp:
  assumes u: "usage (cell s) u i (qe_now Q s) a b c" and l: "custom_limit (cell s) u l"
  shows "wp (enforceQuota Q u i config)
    (\<lambda>st s'. s' = s \<and> a < effective_limit l config \<and> b < qc_perSessionLimit config \<and> c < qc_requestsPerMinute config \<and>
       st = \<lparr>qs_monthlyUsage = Some a, qs_monthlyLimit = qc_monthlyLimit config, qs_sessionUsage = Some b,
             qs_sessionLimit = qc_perSessionLimit config, qs_requestsThisMinute = Some c,
             qs_requestsPerMinuteLimit = qc_requestsPerMinute config\<rparr>)
    (\<lambda>e s'. s' = s \<and> (\<exists>m. e = HttpException m 429) \<and>
       (effective_limit l config \<le> a \<or> qc_perSessionLimit config \<le> b \<or> qc_requestsPerMinute config \<le> c)) s"
proof -
  have lk: "\<not> is_rset (cell s (limitKey u))" using l by (cases l) (auto simp: custom_limit_def)
  have le: "(if text_truthy (cell_text (cell s (limitKey u))) then parse_count (cell_text (cell s (limitKey u)))
      else Some (qc_monthlyLimit config)) = Some (effective_limit l config)"
    using l by (cases l) (auto simp: custom_limit_def text_truthy_def effective_limit_def parse_count_def or_str_def)
  have reads: "wp (readCount Q (getMonthKey u (qe_now Q s))) P X s = P (Some a) s"
    "wp (readCount Q (getSessionKey i)) P X s = P (Some b) s"
    "wp (readCount Q (getRpmKey u (qe_now Q s))) P X s = P (Some c) s" for P X
    using u by (simp_all add: usage_def readCount_wp)
  show ?thesis
    by (simp add: enforceQuota_def wp_simps checkMonthlyQuota_def checkSessionQuota_def
        checkRequestsPerMinute_def getQuotaStatus_def promise_all_def wp_get lk le Let_def reads
        TOO_MANY_REQUESTS_def not_le)
qed

lemma record_wp:
  assumes u: "usage (cell s) u i now a b c" and "0 \<le> a" "0 \<le> b" "0 \<le> c"
  shows "wp (recordRequest Q u i now)
    (\<lambda>_ s'. usage (cell s') u i now (bumped a (getMonthExpiry (qe_tz Q) now)) (b + 1) (c + 1) \<and>
       (\<forall>k. k \<notin> {getMonthKey u now, getSessionKey i, getRpmKey u now} \<longrightarrow> cell s' k = cell s k)) (\<lambda>_ _. False) s"
proof -
  let ?m = "getMonthKey u now" and ?i = "getSessionKey i" and ?r = "getRpmKey u now"
  have one: "bumped n 604800 = n + 1" "bumped n 60 = n + 1" for n by (simp_all add: bumped_def)
  show ?thesis
    unfolding recordRequest_def promise_all_def mapE.simps wp_simps
  proof (rule increment_wp [where n = a], goal_cases)
    case (3 s1)
    with u have m1: "counter (cell s1 ?m) (bumped a (getMonthExpiry (qe_tz Q) now))"
      "cell s1 ?i = cell s ?i" "cell s1 ?r = cell s ?r" by simp_all
    show ?case
    proof (rule increment_wp [where n = b], goal_cases)
      case (3 s2)
      then have m2: "cell s2 ?m = cell s1 ?m" "cell s2 ?r = cell s ?r" using m1 by simp_all
      note s2 = 3
      show ?case
      proof (rule increment_wp [where n = c], goal_cases)
        case (3 s3)
        with s2 m1 m2 \<open>\<And>j. j \<noteq> ?m \<Longrightarrow> cell s1 j = cell s j\<close> show ?case
          by (simp add: usage_def one wp_simps)
      qed (use u m2 assms(4) in \<open>simp_all add: usage_def\<close>)
    qed (use u m1 assms(3) in \<open>simp_all add: usage_def\<close>)
  qed (use u assms(2) in \<open>simp_all add: usage_def\<close>)
qed

end

section \<open>An in-memory environment\<close>

record 'j qstore = "'j rstore" +
  qst_clock :: int

definition mem_quota :: "int \<Rightarrow> ('j qstore, 'j) quota_env" where
  "mem_quota tz = \<lparr>qe_redis = mem_redis, qe_now = qst_clock, qe_tz = tz\<rparr>"

lemma mem_quota_store: "quota_store (mem_quota tz) mem_cell mem_ttl"
  using mem_redis_store by (simp add: quota_store_def mem_quota_def)

interpretation qmem: quota_store "mem_quota tz" mem_cell mem_ttl for tz
  by (rule mem_quota_store)

definition empty_qstore :: "int \<Rightarrow> unit qstore" where
  "empty_qstore t = \<lparr>rs_cells = [], rs_ttl = [], qst_clock = t\<rparr>"

lemma empty_usage: "usage (mem_cell (empty_qstore t)) u i now 0 0 0" "custom_limit (mem_cell (empty_qstore t)) u None"
  by (simp_all add: usage_def custom_limit_def counter_def mem_cell_def empty_qstore_def)

section \<open>Properties\<close>

text \<open>
  \<open>enforceQuota\<close> lets a request through exactly when all three counters are below their limits,
  the monthly one being the user's own limit if one is set; it then reports the counters. Otherwise
  it throws status 429. It never changes the store.
\<close>

theorem enforceQuota_decides:
  assumes "quota_store Q cell ttl" and "usage (cell s) u i (qe_now Q s) a b c" and "custom_limit (cell s) u l"
  shows "if a < effective_limit l config \<and> b < qc_perSessionLimit config \<and> c < qc_requestsPerMinute config
    then enforceQuota Q u i config s =
      (Inr \<lparr>qs_monthlyUsage = Some a, qs_monthlyLimit = qc_monthlyLimit config, qs_sessionUsage = Some b,
            qs_sessionLimit = qc_perSessionLimit config, qs_requestsThisMinute = Some c,
            qs_requestsPerMinuteLimit = qc_requestsPerMinute config\<rparr>, s)
    else \<exists>m. enforceQuota Q u i config s = (Inl (HttpException m 429), s)"
  using quota_store.enforce_wp [OF assms, of config]
  by (auto simp: wp_def not_less split: prod.splits sum.splits)

theorem enforceQuota_decides_witness:
  "enforceQuota (mem_quota 0) ''alice'' ''s1'' defaultConfig (empty_qstore 0) =
      (Inr \<lparr>qs_monthlyUsage = Some 0, qs_monthlyLimit = 1000, qs_sessionUsage = Some 0,
            qs_sessionLimit = 100, qs_requestsThisMinute = Some 0, qs_requestsPerMinuteLimit = 20\<rparr>, empty_qstore 0)"
  using enforceQuota_decides [where Q = "mem_quota 0" and s = "empty_qstore 0" and u = "''alice''" and i = "''s1''"
      and config = defaultConfig, OF mem_quota_store empty_usage(1) empty_usage(2)]
  by (simp add: defaultConfig_def effective_limit_def)

text \<open>
  \<open>recordRequest\<close> never throws and counts the request once in each of the three counters, and
  touches no other key; only when the month's expiry is not in the future is a new monthly counter
  lost.
\<close>

theorem recordRequest_counts:
  assumes "quota_store Q cell ttl" and "usage (cell s) u i now a b c" and "0 \<le> a" and "0 \<le> b" and "0 \<le> c"
  shows "\<exists>s'. recordRequest Q u i now s = (Inr (), s') \<and>
    usage (cell s') u i now (bumped a (getMonthExpiry (qe_tz Q) now)) (b + 1) (c + 1) \<and>
    (\<forall>k. k \<notin> {getMonthKey u now, getSessionKey i, getRpmKey u now} \<longrightarrow> cell s' k = cell s k)"
  using quota_store.record_wp [OF assms] by (auto simp: wp_value)

theorem recordRequest_counts_witness:
  "\<exists>s'. recordRequest (mem_quota 0) ''alice'' ''s1'' 0 (empty_qstore 0) = (Inr (), s') \<and>
    usage (mem_cell s') ''alice'' ''s1'' 0
      (bumped 0 (getMonthExpiry (qe_tz (mem_quota 0 :: (unit qstore, unit) quota_env)) 0)) (0 + 1) (0 + 1) \<and>
    (\<forall>k. k \<notin> {getMonthKey ''alice'' 0, getSessionKey ''s1'', getRpmKey ''alice'' 0} \<longrightarrow>
       mem_cell s' k = mem_cell (empty_qstore 0) k)"
  by (rule recordRequest_counts [OF mem_quota_store empty_usage(1)]) simp_all

text \<open>
  The monthly counter can vanish: the expiry mixes the UTC month with local midnight, so on a
  server east of UTC it is not positive in the last hours of a UTC month. At noon UTC on 31 January
  2024 on a server at UTC+14 a user's first request of the month is recorded in the session and minute
  counters but leaves no monthly usage.
\<close>

theorem monthly_usage_lost_east_of_UTC:
  "getMonthExpiry (14 * 60) 1706702400000 < 0 \<and>
   (\<exists>s'. recordRequest (mem_quota (14 * 60)) ''alice'' ''s1'' 1706702400000 (empty_qstore 0) = (Inr (), s') \<and>
      usage (mem_cell s') ''alice'' ''s1'' 1706702400000 0 1 1)"
proof
  show neg: "getMonthExpiry (14 * 60) 1706702400000 < 0" by code_simp
  obtain s' where "recordRequest (mem_quota (14 * 60)) ''alice'' ''s1'' 1706702400000 (empty_qstore 0) = (Inr (), s')"
    and "usage (mem_cell s') ''alice'' ''s1'' 1706702400000
       (bumped 0 (getMonthExpiry (qe_tz (mem_quota (14 * 60) :: (unit qstore, unit) quota_env)) 1706702400000)) (0 + 1) (0 + 1)"
    using quota_store.record_wp [OF mem_quota_store [where tz = "14 * 60"] empty_usage(1)] unfolding wp_value by force
  with neg show "\<exists>s'. recordRequest (mem_quota (14 * 60)) ''alice'' ''s1'' 1706702400000 (empty_qstore 0) = (Inr (), s') \<and>
      usage (mem_cell s') ''alice'' ''s1'' 1706702400000 0 1 1"
    by (auto simp: mem_quota_def bumped_def)
qed

end
