(* ===== verification/Llm.thy ===== *)
theory Llm
  imports Complex_Main Quota
begin

text \<open>
  \<open>LlmCacheService\<close> and \<open>LlmService\<close> (src/Backend/src/voice/services/llm-cache.service.ts and
  llm.service.ts): a response cache in Redis keyed by model and normalised prompt, and the pipeline
  quota check, cache, provider, cache write, usage record. The provider is the mock the code has; its
  random choice, the clock, the timer and the hash are the record \<open>llm_env\<close>.
\<close>

section \<open>LlmCacheService\<close>

record ('s, 'j) llm_env =
  le_quota :: "('s, 'j) quota_env"
  le_random53 :: "'s \<Rightarrow> nat"
  le_delay :: "int \<Rightarrow> 's \<Rightarrow> 's"
  le_sha256 :: "string \<Rightarrow> string"

abbreviation le_redis :: "('s, 'j) llm_env \<Rightarrow> ('s, 'j) redis" where
  "le_redis L \<equiv> qe_redis (le_quota L)"

abbreviation le_now :: "('s, 'j) llm_env \<Rightarrow> 's \<Rightarrow> int" where
  "le_now L \<equiv> qe_now (le_quota L)"

definition CACHE_PREFIX :: string where "CACHE_PREFIX = ''llm:cache:''"
definition CACHE_VERSION :: string where "CACHE_VERSION = ''v1''"
definition DEFAULT_TTL :: int where "DEFAULT_TTL = 86400"

definition generateCacheKey :: "(string \<Rightarrow> string) \<Rightarrow> string \<Rightarrow> string \<Rightarrow> string" where
  "generateCacheKey sha256 prompt model =
     CACHE_PREFIX @ CACHE_VERSION @ '':'' @ model @ '':'' @ sha256 (js_lower (js_trim prompt))"

definition generateStatsKey :: "string \<Rightarrow> string" where
  "generateStatsKey cacheKey = cacheKey @ '':stats''"

definition cacheGet :: "('s, 'j) llm_env \<Rightarrow> string \<Rightarrow> string \<Rightarrow> ('s, 'j rtext option) prog" where
  "cacheGet L prompt model =
     catchE
       (let cacheKey = generateCacheKey (le_sha256 L) prompt model in
        bindE (r_get (le_redis L) cacheKey) (\<lambda>cached.
          if text_truthy cached
          then seqE (promise_all [r_incr (le_redis L) (generateStatsKey cacheKey @ '':hits''),
                                  r_incr (le_redis L) ''llm:cache:total-hits''])
                 (returnE cached)
          else returnE None))
       (\<lambda>error. returnE None)"

definition or_ttl :: "int option \<Rightarrow> int" where
  "or_ttl t = (case t of None \<Rightarrow> DEFAULT_TTL | Some n \<Rightarrow> if n = 0 then DEFAULT_TTL else n)"

definition cacheSet :: "('s, 'j) llm_env \<Rightarrow> string \<Rightarrow> string \<Rightarrow> string \<Rightarrow> int option \<Rightarrow> ('s, unit) prog" where
  "cacheSet L prompt response model ttl =
     catchE
       (let cacheKey = generateCacheKey (le_sha256 L) prompt model; effectiveTtl = or_ttl ttl;
            statsKey = generateStatsKey cacheKey in
        seqE (r_set (le_redis L) cacheKey (Txt response) (Some effectiveTtl))
        (bindE (readE (le_now L)) (\<lambda>now.
          ignoreE (promise_all
            [r_set (le_redis L) (statsKey @ '':created'') (Txt (show_int now)) (Some effectiveTtl),
             r_set (le_redis L) (statsKey @ '':model'') (Txt model) (Some effectiveTtl),
             r_set (le_redis L) (statsKey @ '':ttl'') (Txt (show_int effectiveTtl)) (Some effectiveTtl),
             ignoreE (r_incr (le_redis L) ''llm:cache:total-entries'')]))))
       (\<lambda>error. returnE ())"

definition invalidate :: "('s, 'j) llm_env \<Rightarrow> string \<Rightarrow> string option \<Rightarrow> ('s, nat) prog" where
  "invalidate L prompt model =
     catchE
       (bindE
         (if truthy model then returnE [generateCacheKey (le_sha256 L) prompt (the model)]
          else r_keys (le_redis L) (CACHE_PREFIX @ CACHE_VERSION @ '':*:'' @ le_sha256 L (js_lower (js_trim prompt))))
         (\<lambda>keys. if length keys = 0 then returnE 0
            else seqE (r_del (le_redis L) (keys @ map generateStatsKey keys)) (returnE (length keys))))
       (\<lambda>error. returnE 0)"

definition invalidateAll :: "('s, 'j) llm_env \<Rightarrow> ('s, nat) prog" where
  "invalidateAll L =
     catchE
       (bindE (r_keys (le_redis L) (CACHE_PREFIX @ ''*'')) (\<lambda>keys.
          if length keys = 0 then returnE 0
          else seqE (r_del (le_redis L) keys) (returnE (length keys))))
       (\<lambda>error. returnE 0)"

text \<open>\<open>key.replace(CACHE_PREFIX, '')\<close> of a key that starts with the prefix.\<close>

definition strip_prefix :: "string \<Rightarrow> string" where
  "strip_prefix key = drop (length CACHE_PREFIX) key"

record CacheStats =
  cs_totalEntries :: jsnum
  cs_totalHits :: jsnum
  cs_hitRate :: "rat option"
  cs_oldestEntry :: "(string \<times> int) option"

definition hit_rate :: "jsnum \<Rightarrow> jsnum \<Rightarrow> rat option" where
  "hit_rate entries hits = (case entries of None \<Rightarrow> Some 0
     | Some n \<Rightarrow> if 0 < n then map_option (\<lambda>h. of_int h / of_int n) hits else Some 0)"

text \<open>The local object of the loop: the oldest time so far (none is \<open>Infinity\<close>) and its entry.\<close>

definition oldestLoop :: "('s, 'j) llm_env \<Rightarrow> int \<Rightarrow> string list \<Rightarrow> ('s \<times> (int \<times> string \<times> int) option, unit) prog" where
  "oldestLoop L now keys = forE keys (\<lambda>key.
     bindE (liftL (r_get (le_redis L) (generateStatsKey key @ '':created''))) (\<lambda>createdStr.
       whenE (text_truthy createdStr)
         (modL (\<lambda>best. case parse_count createdStr of
              None \<Rightarrow> best
            | Some created \<Rightarrow>
                if (case best of None \<Rightarrow> True | Some (t, _) \<Rightarrow> created < t)
                then Some (created, strip_prefix key, (now - created) div 1000) else best))))"

definition getStats :: "('s, 'j) llm_env \<Rightarrow> ('s, CacheStats) prog" where
  "getStats L =
     catchE
       (bindE (promise_all [readCount (le_quota L) ''llm:cache:total-entries'',
                            readCount (le_quota L) ''llm:cache:total-hits'']) (\<lambda>cs.
        bindE (r_keys (le_redis L) (CACHE_PREFIX @ ''*'')) (\<lambda>cacheKeys.
        bindE (readE (le_now L)) (\<lambda>now.
        bindE (localE None (oldestLoop L now cacheKeys)) (\<lambda>(_, best).
          returnE \<lparr>cs_totalEntries = cs ! 0, cs_totalHits = cs ! 1, cs_hitRate = hit_rate (cs ! 0) (cs ! 1),
                   cs_oldestEntry = map_option (\<lambda>(_, k, age). (k, age)) best\<rparr>)))))
       (\<lambda>error. returnE \<lparr>cs_totalEntries = Some 0, cs_totalHits = Some 0, cs_hitRate = Some 0,
                         cs_oldestEntry = None\<rparr>)"

definition pruneLoop :: "('s, 'j) llm_env \<Rightarrow> int \<Rightarrow> int \<Rightarrow> string list \<Rightarrow> ('s \<times> string list, unit) prog" where
  "pruneLoop L now maxAgeSeconds keys = forE keys (\<lambda>key.
     bindE (liftL (r_get (le_redis L) (generateStatsKey key @ '':created''))) (\<lambda>createdStr.
       whenE (text_truthy createdStr)
         (modL (\<lambda>acc. case parse_count createdStr of
              None \<Rightarrow> acc
            | Some created \<Rightarrow> if maxAgeSeconds * 1000 < now - created
                then acc @ [key, generateStatsKey key] else acc))))"

definition pruneOldEntries :: "('s, 'j) llm_env \<Rightarrow> int \<Rightarrow> ('s, nat) prog" where
  "pruneOldEntries L maxAgeSeconds =
     catchE
       (bindE (r_keys (le_redis L) (CACHE_PREFIX @ ''*'')) (\<lambda>cacheKeys.
        bindE (readE (le_now L)) (\<lambda>now.
        bindE (localE [] (pruneLoop L now maxAgeSeconds cacheKeys)) (\<lambda>(_, keysToDelete).
          if 0 < length keysToDelete
          then seqE (r_del (le_redis L) keysToDelete) (returnE (length keysToDelete div 2))
          else returnE 0))))
       (\<lambda>error. returnE 0)"

record cache_warm_entry =
  we_prompt :: string
  we_response :: string
  we_model :: string
  we_ttl :: "int option"

definition warmCache :: "('s, 'j) llm_env \<Rightarrow> cache_warm_entry list \<Rightarrow> ('s, nat) prog" where
  "warmCache L entries =
     catchE
       (seqE (forE entries (\<lambda>x. cacheSet L (we_prompt x) (we_response x) (we_model x) (we_ttl x)))
         (returnE (length entries)))
       (\<lambda>error. returnE 0)"

section \<open>LlmService\<close>

record LlmResponseOptions =
  lo_model :: "string option"
  lo_useCache :: "bool option"
  lo_recordQuota :: "bool option"
  lo_cacheTtl :: "int option"

record 'j LlmResponse =
  lr_content :: "'j rtext"
  lr_cached :: bool
  lr_quotaStatus :: "QuotaStatus option"
  lr_model :: string

definition FALLBACK_MESSAGE :: string where
  "FALLBACK_MESSAGE = ''I'' @ [CHR 0x27] @ ''m sorry, I'' @ [CHR 0x27] @
     ''m having trouble processing your request right now. Please try again in a moment.''"

definition DEFAULT_MODEL :: string where "DEFAULT_MODEL = ''gpt-3.5-turbo''"

definition mock_responses :: "string \<Rightarrow> string list" where
  "mock_responses prompt =
     [''I understand your question about '' @ prompt @ ''. Let me help you with that.'',
      ''That'' @ [CHR 0x27] @ ''s an interesting point. Based on what you'' @ [CHR 0x27] @
        ''ve said, I think the best approach would be to consider multiple factors.'',
      ''I can definitely help you with that. Here'' @ [CHR 0x27] @ ''s what I recommend based on your situation.'',
      ''Thanks for sharing that with me. Let me provide you with some guidance on this topic.'']"

definition callLlmWithFallback :: "('s, 'j) llm_env \<Rightarrow> string \<Rightarrow> ('s, string) prog" where
  "callLlmWithFallback L prompt =
     catchE
       (if js_includes (js_lower prompt) ''force-fail'' then throwE (Error ''Simulated provider failure'')
        else seqE (\<lambda>s. (Inr (), le_delay L 500 s))
          (bindE (readE (le_random53 L)) (\<lambda>r.
             returnE (mock_responses prompt ! (r * length (mock_responses prompt) div 2 ^ 53)))))
       (\<lambda>error. returnE FALLBACK_MESSAGE)"

definition generateResponse :: "('s, 'j) llm_env \<Rightarrow> string \<Rightarrow> string \<Rightarrow> string \<Rightarrow> LlmResponseOptions \<Rightarrow> ('s, 'j LlmResponse) prog" where
  "generateResponse L userId sessionId prompt options =
     (let model = or_str (lo_model options) DEFAULT_MODEL;
          useCache = (lo_useCache options \<noteq> Some False);
          recordQuota = (lo_recordQuota options \<noteq> Some False) in
      catchE
        (bindE (enforceQuota (le_quota L) userId sessionId defaultConfig) (\<lambda>quotaStatus.
         bindE (if useCache then cacheGet L prompt model else returnE None) (\<lambda>cachedResponse.
           if text_truthy cachedResponse
           then returnE \<lparr>lr_content = the cachedResponse, lr_cached = True, lr_quotaStatus = Some quotaStatus, lr_model = model\<rparr>
           else bindE (callLlmWithFallback L prompt) (\<lambda>response.
             seqE (whenE useCache (cacheSet L prompt response model (lo_cacheTtl options)))
             (seqE (whenE recordQuota (bindE (readE (le_now L)) (recordRequest (le_quota L) userId sessionId)))
               (returnE \<lparr>lr_content = Txt response, lr_cached = False, lr_quotaStatus = Some quotaStatus, lr_model = model\<rparr>))))))
        (\<lambda>error. if is_http_exception error then throwE error
                 else throwE (HttpException ''LLM service error'' 500)))"

definition generateResponseWithFallback :: "('s, 'j) llm_env \<Rightarrow> string \<Rightarrow> string \<Rightarrow> string \<Rightarrow> LlmResponseOptions \<Rightarrow> ('s, 'j LlmResponse) prog" where
  "generateResponseWithFallback L userId sessionId prompt options =
     catchE (generateResponse L userId sessionId prompt options)
       (\<lambda>error.
          let fallback = (\<lambda>q. \<lparr>lr_content = Txt FALLBACK_MESSAGE, lr_cached = False, lr_quotaStatus = q,
                lr_model = or_str (lo_model options) DEFAULT_MODEL\<rparr>) in
          catchE
            (bindE (readE (le_now L)) (\<lambda>now.
             bindE (getQuotaStatus (le_quota L) userId sessionId now defaultConfig) (\<lambda>quotaStatus.
               returnE (fallback (Some quotaStatus)))))
            (\<lambda>_. returnE (fallback None)))"

text \<open>The requests that \<open>LlmService\<close> passes on; \<open>config\<close> is the partial configuration completed by the defaults.\<close>

definition llm_getQuotaStatus :: "('s, 'j) llm_env \<Rightarrow> string \<Rightarrow> string \<Rightarrow> QuotaConfig \<Rightarrow> ('s, QuotaStatus) prog" where
  "llm_getQuotaStatus L userId sessionId config =
     bindE (readE (le_now L)) (\<lambda>now. getQuotaStatus (le_quota L) userId sessionId now config)"

definition getCacheStats :: "('s, 'j) llm_env \<Rightarrow> ('s, CacheStats) prog" where
  "getCacheStats L = getStats L"

definition invalidateCache :: "('s, 'j) llm_env \<Rightarrow> string \<Rightarrow> string option \<Rightarrow> ('s, nat) prog" where
  "invalidateCache L prompt model = invalidate L prompt model"

definition invalidateAllCache :: "('s, 'j) llm_env \<Rightarrow> ('s, nat) prog" where
  "invalidateAllCache L = invalidateAll L"

definition llm_resetUserQuota :: "('s, 'j) llm_env \<Rightarrow> string \<Rightarrow> ('s, unit) prog" where
  "llm_resetUserQuota L userId = resetUserQuota (le_quota L) userId"

definition llm_warmCache :: "('s, 'j) llm_env \<Rightarrow> cache_warm_entry list \<Rightarrow> ('s, nat) prog" where
  "llm_warmCache L entries = warmCache L entries"

section \<open>The cache in the store\<close>

text \<open>The statistics keys of an entry and the totals are other keys than the entry's.\<close>

lemma cache_keys [simp]:
  "generateCacheKey h p m \<noteq> generateStatsKey (generateCacheKey h p m) @ x"
  "generateCacheKey h p m \<noteq> ''llm:cache:total-hits''" "generateCacheKey h p m \<noteq> ''llm:cache:total-entries''"
  "generateStatsKey (generateCacheKey h p m) @ x \<noteq> ''llm:cache:total-hits''"
  "generateStatsKey (generateCacheKey h p m) @ x \<noteq> ''llm:cache:total-entries''"
  by (auto simp: generateStatsKey_def generateCacheKey_def CACHE_PREFIX_def CACHE_VERSION_def)

lemmas cache_keys_sym [simp] = cache_keys [THEN not_sym]

lemma or_ttl_pos: "(\<And>n. t = Some n \<Longrightarrow> 0 \<le> n) \<Longrightarrow> 0 < or_ttl t"
  by (cases t) (force simp: or_ttl_def DEFAULT_TTL_def)+

locale llm_store = quota_store "le_quota L" cell ttl
  for L :: "('s, 'j) llm_env" and cell ttl
begin

text \<open>The counters a hit and a write increment are numbers.\<close>

definition stats_ok :: "'s \<Rightarrow> string \<Rightarrow> bool" where
  "stats_ok s k \<longleftrightarrow> (\<exists>n. counter (cell s (generateStatsKey k @ '':hits'')) n) \<and>
     (\<exists>n. counter (cell s ''llm:cache:total-hits'') n) \<and> (\<exists>n. counter (cell s ''llm:cache:total-entries'') n)"

lemma cacheSet_wp:
  assumes "stats_ok s (generateCacheKey (le_sha256 L) p m)" and "0 < or_ttl t"
  shows "wp (cacheSet L p r m t)
    (\<lambda>_ s'. cell s' (generateCacheKey (le_sha256 L) p m) = Some (RText (Txt r)) \<and>
       stats_ok s' (generateCacheKey (le_sha256 L) p m)) (\<lambda>_ _. False) s"
proof -
  obtain a b c where n: "counter (cell s (generateStatsKey (generateCacheKey (le_sha256 L) p m) @ '':hits'')) a"
    "counter (cell s ''llm:cache:total-hits'') b" "counter (cell s ''llm:cache:total-entries'') c"
    using assms(1) by (auto simp: stats_ok_def)
  let ?k = "generateCacheKey (le_sha256 L) p m"
  have "wp (cacheSet L p r m t) (\<lambda>_ s'. cell s' ?k = Some (RText (Txt r)) \<and>
       counter (cell s' (generateStatsKey ?k @ '':hits'')) a \<and> counter (cell s' ''llm:cache:total-hits'') b \<and>
       counter (cell s' ''llm:cache:total-entries'') (c + 1)) (\<lambda>_ _. False) s"
    unfolding cacheSet_def Let_def promise_all_def mapE.simps wp_simps
    using n assms(2)
    by (simp add: wp_simps wp_setEx, intro wpi_incr [where n = c])
      (simp_all add: setEx_cell wp_simps counter_def [of _ "c + 1"])
  then show ?thesis by (rule wp_mono) (auto simp: stats_ok_def)
qed

lemma cacheGet_wp:
  assumes "cell s (generateCacheKey (le_sha256 L) p m) = Some (RText (Txt r))" and "r \<noteq> []"
    and "stats_ok s (generateCacheKey (le_sha256 L) p m)"
  shows "wp (cacheGet L p m) (\<lambda>v s'. v = Some (Txt r) \<and>
      cell s' (generateCacheKey (le_sha256 L) p m) = Some (RText (Txt r))) (\<lambda>_ _. False) s"
proof -
  obtain a b where n: "counter (cell s (generateStatsKey (generateCacheKey (le_sha256 L) p m) @ '':hits'')) a"
    "counter (cell s ''llm:cache:total-hits'') b"
    using assms(3) by (auto simp: stats_ok_def)
  show ?thesis
    unfolding cacheGet_def Let_def promise_all_def mapE.simps wp_simps
    using n assms(1,2)
    by (simp add: wp_get text_truthy_def wp_simps)
      (rule wpi_incr [where n = a], simp, rule wpi_incr [where n = b], simp_all add: wp_simps)
qed

end

section \<open>Properties\<close>

text \<open>
  \<open>generateResponseWithFallback\<close> always answers: whatever Redis and the provider do, it returns a
  response and never throws.
\<close>

theorem llm_fallback_total:
  "\<exists>r s'. generateResponseWithFallback L u i p opts s = (Inr r, s')"
proof -
  have "wp (generateResponseWithFallback L u i p opts) (\<lambda>_ _. True) (\<lambda>_ _. False) s"
    by (simp add: generateResponseWithFallback_def wp_simps Let_def)
  then show ?thesis by (simp add: wp_value)
qed

text \<open>
  The quota gates the pipeline: when \<open>enforceQuota\<close> throws, \<open>generateResponse\<close> throws the same
  exception with the store the check left, so neither the cache nor the provider is used; and every exception
  \<open>generateResponse\<close> throws is an \<open>HttpException\<close>.
\<close>

theorem generateResponse_gated:
  "case enforceQuota (le_quota L) u i defaultConfig s of
     (Inl e, s') \<Rightarrow> generateResponse L u i p opts s = (Inl e, s') \<and> is_http_exception e
   | (Inr _, _) \<Rightarrow> (case generateResponse L u i p opts s of (Inl e, _) \<Rightarrow> is_http_exception e | (Inr _, _) \<Rightarrow> True)"
proof -
  have "wp (enforceQuota (le_quota L) u i defaultConfig) (\<lambda>_ _. True) (\<lambda>e _. is_http_exception e) s"
    by (simp add: enforceQuota_def wp_simps)
  moreover have "wp (generateResponse L u i p opts) (\<lambda>_ _. True) (\<lambda>e _. is_http_exception e) s"
    by (simp add: generateResponse_def wp_simps Let_def)
  ultimately show ?thesis
    by (auto simp: wp_def generateResponse_def Let_def catchE_def bindE_def throwE_def
        split: prod.splits sum.splits)
qed

text \<open>
  C40. The cache returns what was stored: after \<open>set\<close>, a \<open>get\<close> for the same model and a prompt that
  differs at most in case and surrounding white space returns the stored response, for a
  non-empty response, a ttl that is not negative and statistics counters that are numbers.
\<close>

theorem llm_cache_roundtrip:
  assumes "llm_store L cell ttl" and "llm_store.stats_ok cell s (generateCacheKey (le_sha256 L) p m)"
    and "r \<noteq> []" and "\<And>n. t = Some n \<Longrightarrow> 0 \<le> n" and "js_lower (js_trim q) = js_lower (js_trim p)"
  shows "\<exists>s' s''. cacheSet L p r m t s = (Inr (), s') \<and> cacheGet L q m s' = (Inr (Some (Txt r)), s'')"
proof -
  have key: "generateCacheKey (le_sha256 L) q m = generateCacheKey (le_sha256 L) p m"
    using assms(5) by (simp add: generateCacheKey_def)
  obtain s' where s': "cacheSet L p r m t s = (Inr (), s')"
    "cell s' (generateCacheKey (le_sha256 L) p m) = Some (RText (Txt r))"
    "llm_store.stats_ok cell s' (generateCacheKey (le_sha256 L) p m)"
    using llm_store.cacheSet_wp [OF assms(1,2) or_ttl_pos [OF assms(4)]] by (auto simp: wp_value)
  with llm_store.cacheGet_wp [OF assms(1), of s' q m r] assms(3) key show ?thesis
    by (auto simp: wp_value)
qed

definition mem_llm :: "(unit qstore, unit) llm_env" where
  "mem_llm = \<lparr>le_quota = mem_quota 0, le_random53 = (\<lambda>_. 0), le_delay = (\<lambda>_ s. s), le_sha256 = (\<lambda>m. m)\<rparr>"

lemma mem_llm_store: "llm_store mem_llm mem_cell mem_ttl"
  using mem_quota_store by (simp add: llm_store_def mem_llm_def)

interpretation lmem: llm_store mem_llm mem_cell mem_ttl
  by (rule mem_llm_store)

lemma empty_stats: "lmem.stats_ok (empty_qstore t) k"
  by (auto simp: lmem.stats_ok_def counter_def mem_cell_def empty_qstore_def)

theorem llm_cache_roundtrip_witness:
  "\<exists>s' s''. cacheSet mem_llm '' Hello'' ''hi'' ''gpt-4'' None (empty_qstore 0) = (Inr (), s') \<and>
     cacheGet mem_llm ''hello'' ''gpt-4'' s' = (Inr (Some (Txt ''hi'')), s'')"
  by (rule llm_cache_roundtrip [OF mem_llm_store empty_stats]) (simp_all, code_simp)

text \<open>
  A provider failure is cached: when the provider fails, \<open>generateResponse\<close> stores the apology
  text as the response of the prompt, so that it is served from the cache for a day although the
  provider recovered.
\<close>

theorem provider_failure_is_cached:
  assumes "llm_store L cell ttl" and "usage (cell s) u i (le_now L s) a b c" and "custom_limit (cell s) u None"
    and "a < 1000" and "b < 100" and "c < 20"
    and "cell s (generateCacheKey (le_sha256 L) p DEFAULT_MODEL) = None"
    and "llm_store.stats_ok cell s (generateCacheKey (le_sha256 L) p DEFAULT_MODEL)"
    and "js_includes (js_lower p) ''force-fail''"
  shows "\<exists>r s'. generateResponse L u i p \<lparr>lo_model = None, lo_useCache = None, lo_recordQuota = Some False, lo_cacheTtl = None\<rparr> s = (Inr r, s')
    \<and> lr_content r = Txt FALLBACK_MESSAGE
    \<and> cell s' (generateCacheKey (le_sha256 L) p DEFAULT_MODEL) = Some (RText (Txt FALLBACK_MESSAGE))"
proof -
  have quota: "quota_store (le_quota L) cell ttl" using assms(1) by (simp add: llm_store_def)
  obtain st where st: "enforceQuota (le_quota L) u i defaultConfig s = (Inr st, s)"
    using quota_store.enforce_wp [OF quota assms(2,3), of defaultConfig] assms(4-6)
    by (auto simp: wp_def defaultConfig_def effective_limit_def split: prod.splits sum.splits)
  have redis: "redis_store (le_redis L) cell ttl" using quota by (simp add: quota_store_def)
  have get: "cacheGet L p DEFAULT_MODEL s = (Inr None, s)"
    using redis_store.get_law [OF redis, of s "generateCacheKey (le_sha256 L) p DEFAULT_MODEL"] assms(7)
    by (simp add: cacheGet_def Let_def catchE_def bindE_def returnE_def text_truthy_def)
  have llm: "callLlmWithFallback L p s = (Inr FALLBACK_MESSAGE, s)"
    using assms(9) by (simp add: callLlmWithFallback_def catchE_def throwE_def returnE_def)
  obtain s' where s': "cacheSet L p FALLBACK_MESSAGE DEFAULT_MODEL None s = (Inr (), s')"
    "cell s' (generateCacheKey (le_sha256 L) p DEFAULT_MODEL) = Some (RText (Txt FALLBACK_MESSAGE))"
    using llm_store.cacheSet_wp [OF assms(1,8), of None FALLBACK_MESSAGE] by (auto simp: wp_value or_ttl_def DEFAULT_TTL_def)
  have "wp (generateResponse L u i p \<lparr>lo_model = None, lo_useCache = None, lo_recordQuota = Some False, lo_cacheTtl = None\<rparr>)
      (\<lambda>r t. lr_content r = Txt FALLBACK_MESSAGE \<and> t = s') (\<lambda>_ _. False) s"
    by (simp add: generateResponse_def wp_simps wp_Inr st get llm s'(1) text_truthy_def Let_def)
  with s'(2) show ?thesis by (auto simp: wp_value)
qed

theorem provider_failure_is_cached_witness:
  "\<exists>r s'. generateResponse mem_llm ''alice'' ''s1'' ''force-fail''
      \<lparr>lo_model = None, lo_useCache = None, lo_recordQuota = Some False, lo_cacheTtl = None\<rparr> (empty_qstore 0) = (Inr r, s')
    \<and> lr_content r = Txt FALLBACK_MESSAGE
    \<and> mem_cell s' (generateCacheKey (le_sha256 mem_llm) ''force-fail'' DEFAULT_MODEL) = Some (RText (Txt FALLBACK_MESSAGE))"
  by (rule provider_failure_is_cached [OF mem_llm_store empty_usage _ _ _ _ empty_stats])
    (simp_all add: mem_cell_def empty_qstore_def, code_simp)

end
