(* ===== verification/Auth_Services.thy ===== *)
theory Auth_Services
  imports Ext_Repository Js_Json
begin

text \<open>
  The authentication services of src/Backend/src/auth/services: login nonces, wallet bindings,
  access and refresh tokens, API tokens, and the audit log they write to
  (src/Backend/src/audit/audit.service.ts). The TypeORM repositories, the clock, \<open>randomUUID\<close>, the
  JWT library, the Ed25519 check and bcrypt are the fields of the record \<open>auth_env\<close>.
\<close>

named_theorems auth_defs "the operations of the authentication services"

section \<open>Entities\<close>

text \<open>Dates are milliseconds since 1970.\<close>

record LoginNonce =
  ln_id :: string
  ln_nonce :: string
  ln_publicKey :: string
  ln_expiresAt :: int
  ln_used :: bool
  ln_createdAt :: int

record WalletBinding =
  wb_id :: string
  wb_publicKey :: string
  wb_userId :: string
  wb_boundAt :: int
  wb_isPrimary :: bool
  wb_lastUsed :: "int option"

record User =
  us_id :: string
  us_email :: "string option"
  us_username :: "string option"
  us_createdAt :: int
  us_updatedAt :: int
  us_isActive :: bool

record RefreshToken =
  rt_id :: string
  rt_token :: string
  rt_userId :: string
  rt_expiresAt :: int
  rt_revoked :: bool
  rt_revokedAt :: "int option"
  rt_createdAt :: int

record ApiToken =
  at_id :: string
  at_token :: string
  at_name :: string
  at_role :: string
  at_userId :: string
  at_expiresAt :: "int option"
  at_revoked :: bool
  at_lastUsedAt :: "int option"
  at_createdAt :: int

text \<open>The metadata the callers pass holds strings and dates.\<close>

datatype audit_value = AText string | ADate int

record AuditLog =
  al_id :: string
  al_action_type :: string
  al_actor_id :: string
  al_entity_id :: "string option"
  al_metadata :: "(string \<times> audit_value) list option"
  al_timestamp :: int

record JwtPayload =
  jp_sub :: string
  jp_walletId :: "string option"

section \<open>What the services are given\<close>

text \<open>
  \<open>ae_decodeKey\<close> is \<open>StrKey.decodeEd25519PublicKey\<close>, \<open>ae_verify\<close> is \<open>nacl.sign.detached.verify\<close> on
  message, signature and key bytes; both may throw. \<open>ae_sign\<close> and \<open>ae_jwt\<close> are \<open>sign\<close> and \<open>verify\<close> of the
  JWT library at the current time. \<open>ae_tz\<close> is the server's offset from UTC in minutes, and
  \<open>ae_defaultDays\<close> the number written in the environment variable \<open>API_TOKEN_DEFAULT_EXPIRY_DAYS\<close>.
\<close>

record 's auth_env =
  ae_nonces :: "('s, LoginNonce) repository"
  ae_wallets :: "('s, WalletBinding) repository"
  ae_users :: "('s, User) repository"
  ae_refresh :: "('s, RefreshToken) repository"
  ae_apiTokens :: "('s, ApiToken) repository"
  ae_audit :: "('s, AuditLog) repository"
  ae_now :: "'s \<Rightarrow> int"
  ae_uuid :: "('s, string) prog"
  ae_sign :: "'s \<Rightarrow> JwtPayload \<Rightarrow> string"
  ae_jwt :: "'s \<Rightarrow> string \<Rightarrow> JwtPayload option"
  ae_decodeKey :: "string \<Rightarrow> exn + string"
  ae_fromBase64 :: "string \<Rightarrow> string"
  ae_utf8 :: "string \<Rightarrow> string"
  ae_verify :: "string \<Rightarrow> string \<Rightarrow> string \<Rightarrow> exn + bool"
  ae_hash :: "string \<Rightarrow> ('s, string) prog"
  ae_compare :: "string \<Rightarrow> string \<Rightarrow> bool"
  ae_tz :: int
  ae_defaultDays :: "nat option"

definition liftS :: "exn + 'a \<Rightarrow> ('s, 'a) prog" where
  "liftS r = (case r of Inl e \<Rightarrow> throwE e | Inr v \<Rightarrow> returnE v)"

text \<open>
  \<open>setMinutes\<close> and \<open>setDate\<close> on a server whose offset from UTC does not change: the same instant moved
  by minutes, and by the days between the wanted and the current day of the month.
\<close>

definition setMinutes_plus :: "int \<Rightarrow> int \<Rightarrow> int" where
  "setMinutes_plus d m = d + m * 60 * 1000"

definition getDate :: "int \<Rightarrow> int \<Rightarrow> int" where
  "getDate tz d = snd (snd (civil_from_days ((d + tz * 60 * 1000) div day_ms)))"

definition setDate :: "int \<Rightarrow> int \<Rightarrow> int \<Rightarrow> int" where
  "setDate tz d n = d + (n - getDate tz d) * day_ms"

section \<open>AuditService\<close>

definition logAction :: "'s auth_env \<Rightarrow> string \<Rightarrow> string \<Rightarrow> string option \<Rightarrow>
    (string \<times> audit_value) list option \<Rightarrow> ('s, AuditLog) prog" where
  "logAction A action_type actor_id entity_id metadata =
     (let log = \<lparr>al_id = [], al_action_type = action_type, al_actor_id = actor_id,
                 al_entity_id = entity_id, al_metadata = metadata, al_timestamp = 0\<rparr>
      in bindE (repo_insert (ae_audit A) log) (\<lambda>(i, t).
           returnE (log\<lparr>al_id := i, al_timestamp := t\<rparr>)))"

section \<open>NonceService\<close>

definition NONCE_EXPIRATION_MINUTES :: int where
  "NONCE_EXPIRATION_MINUTES = 5"

definition sign_message :: "string \<Rightarrow> string" where
  "sign_message nonce = ''Sign this message to authenticate with Stellara: '' @ nonce"

definition generateNonce :: "'s auth_env \<Rightarrow> string \<Rightarrow> ('s, string \<times> int \<times> string) prog" where
  "generateNonce A publicKey =
     bindE (ae_uuid A) (\<lambda>nonce.
     bindE (readE (ae_now A)) (\<lambda>now.
     let expiresAt = setMinutes_plus now NONCE_EXPIRATION_MINUTES;
         loginNonce = \<lparr>ln_id = [], ln_nonce = nonce, ln_publicKey = publicKey, ln_expiresAt = expiresAt,
                       ln_used = False, ln_createdAt = 0\<rparr>
     in seqE (repo_insert (ae_nonces A) loginNonce)
          (returnE (nonce, expiresAt, sign_message nonce))))"

definition validateNonce :: "'s auth_env \<Rightarrow> string \<Rightarrow> string \<Rightarrow> ('s, LoginNonce) prog" where
  "validateNonce A nonce publicKey =
     bindE (repo_findOne (ae_nonces A) (\<lambda>n. ln_nonce n = nonce \<and> ln_publicKey n = publicKey)) (\<lambda>loginNonce.
     case loginNonce of
       None \<Rightarrow> throwE (UnauthorizedException ''Invalid nonce'')
     | Some n \<Rightarrow>
         if ln_used n then throwE (UnauthorizedException ''Nonce already used'')
         else bindE (readE (ae_now A)) (\<lambda>now.
           if ln_expiresAt n < now then throwE (UnauthorizedException ''Nonce expired'')
           else returnE n))"

definition markNonceUsed :: "'s auth_env \<Rightarrow> string \<Rightarrow> ('s, unit) prog" where
  "markNonceUsed A nonce =
     ignoreE (repo_update (ae_nonces A) (\<lambda>n. ln_nonce n = nonce) (\<lambda>n. n\<lparr>ln_used := True\<rparr>))"

definition cleanupExpiredNonces :: "'s auth_env \<Rightarrow> ('s, unit) prog" where
  "cleanupExpiredNonces A =
     bindE (readE (ae_now A)) (\<lambda>now. ignoreE (repo_delete (ae_nonces A) (\<lambda>n. ln_expiresAt n < now)))"

section \<open>WalletService\<close>

definition verifySignature :: "'s auth_env \<Rightarrow> string \<Rightarrow> string \<Rightarrow> string \<Rightarrow> ('s, bool) prog" where
  "verifySignature A publicKey signature message =
     catchE
       (bindE (liftS (ae_decodeKey A publicKey)) (\<lambda>publicKeyBytes.
          liftS (ae_verify A (ae_utf8 A message) (ae_fromBase64 A signature) publicKeyBytes)))
       (\<lambda>error. returnE False)"

text \<open>The relation \<open>user\<close> of a row is the user its foreign key names.\<close>

definition user_relation :: "'s auth_env \<Rightarrow> string \<Rightarrow> ('s, User option) prog" where
  "user_relation A userId = repo_findOne (ae_users A) (\<lambda>u. us_id u = userId)"

definition findUserByWallet :: "'s auth_env \<Rightarrow> string \<Rightarrow> ('s, User option) prog" where
  "findUserByWallet A publicKey =
     bindE (repo_findOne (ae_wallets A) (\<lambda>b. wb_publicKey b = publicKey)) (\<lambda>binding.
     case binding of None \<Rightarrow> returnE None | Some b \<Rightarrow> user_relation A (wb_userId b))"

definition bindWalletToUser :: "'s auth_env \<Rightarrow> string \<Rightarrow> string \<Rightarrow> bool \<Rightarrow> ('s, WalletBinding) prog" where
  "bindWalletToUser A publicKey userId isPrimary =
     bindE (repo_findOne (ae_wallets A) (\<lambda>b. wb_publicKey b = publicKey)) (\<lambda>existingBinding.
     if existingBinding \<noteq> None then throwE (ConflictException ''Wallet already bound to an account'')
     else
       seqE (whenE isPrimary
              (ignoreE (repo_update (ae_wallets A) (\<lambda>b. wb_userId b = userId) (\<lambda>b. b\<lparr>wb_isPrimary := False\<rparr>))))
       (bindE (readE (ae_now A)) (\<lambda>now.
        let binding = \<lparr>wb_id = [], wb_publicKey = publicKey, wb_userId = userId, wb_boundAt = 0,
                       wb_isPrimary = isPrimary, wb_lastUsed = Some now\<rparr>
        in bindE (repo_insert (ae_wallets A) binding) (\<lambda>(i, t).
             returnE (binding\<lparr>wb_id := i, wb_boundAt := t\<rparr>)))))"

definition unbindWallet :: "'s auth_env \<Rightarrow> string \<Rightarrow> string \<Rightarrow> ('s, unit) prog" where
  "unbindWallet A publicKey userId =
     bindE (repo_findOne (ae_wallets A) (\<lambda>b. wb_publicKey b = publicKey \<and> wb_userId b = userId)) (\<lambda>found.
     case found of
       None \<Rightarrow> throwE (BadRequestException ''Wallet not found or not owned by user'')
     | Some binding \<Rightarrow>
         bindE (repo_count (ae_wallets A) (\<lambda>b. wb_userId b = userId)) (\<lambda>userWalletCount.
         if userWalletCount = 1 then
           throwE (BadRequestException ''Cannot unbind the only wallet. Account must have at least one wallet.'')
         else
           seqE (repo_delete (ae_wallets A) (\<lambda>b. wb_id b = wb_id binding))
           (whenE (wb_isPrimary binding)
             (bindE (repo_findOne (ae_wallets A) (\<lambda>b. wb_userId b = userId)) (\<lambda>anotherWallet.
              case anotherWallet of
                None \<Rightarrow> returnE ()
              | Some w \<Rightarrow> ignoreE (repo_save (ae_wallets A) (w\<lparr>wb_isPrimary := True\<rparr>)))))))"

definition updateLastUsed :: "'s auth_env \<Rightarrow> string \<Rightarrow> ('s, unit) prog" where
  "updateLastUsed A publicKey =
     bindE (readE (ae_now A)) (\<lambda>now.
       ignoreE (repo_update (ae_wallets A) (\<lambda>b. wb_publicKey b = publicKey) (\<lambda>b. b\<lparr>wb_lastUsed := Some now\<rparr>)))"

definition createUserWithWallet :: "'s auth_env \<Rightarrow> string \<Rightarrow> ('s, User) prog" where
  "createUserWithWallet A publicKey =
     (let user = \<lparr>us_id = [], us_email = None, us_username = None, us_createdAt = 0, us_updatedAt = 0,
                  us_isActive = True\<rparr>
      in bindE (repo_insert (ae_users A) user) (\<lambda>(i, t).
         let savedUser = user\<lparr>us_id := i, us_createdAt := t, us_updatedAt := t\<rparr>
         in seqE (bindWalletToUser A publicKey i True) (returnE savedUser)))"

section \<open>JwtAuthService\<close>

definition generateAccessToken :: "'s auth_env \<Rightarrow> string \<Rightarrow> string option \<Rightarrow> ('s, string) prog" where
  "generateAccessToken A userId walletId =
     readE (\<lambda>s. ae_sign A s \<lparr>jp_sub = userId, jp_walletId = walletId\<rparr>)"

definition refreshDays :: int where
  "refreshDays = 7"

text \<open>The user is read for an audit event and not used.\<close>

definition generateRefreshToken :: "'s auth_env \<Rightarrow> string \<Rightarrow> ('s, string \<times> string \<times> int) prog" where
  "generateRefreshToken A userId =
     bindE (ae_uuid A) (\<lambda>token.
     bindE (readE (ae_now A)) (\<lambda>now.
     let expiresAt = setDate (ae_tz A) now (getDate (ae_tz A) now + refreshDays);
         refreshToken = \<lparr>rt_id = [], rt_token = token, rt_userId = userId, rt_expiresAt = expiresAt,
                         rt_revoked = False, rt_revokedAt = None, rt_createdAt = 0\<rparr>
     in bindE (repo_insert (ae_refresh A) refreshToken) (\<lambda>(savedId, t).
        seqE (user_relation A userId)
        (seqE (logAction A ''REFRESH_TOKEN_CREATED'' userId (Some savedId) (Some [(''expiresAt'', ADate expiresAt)]))
        (returnE (token, savedId, expiresAt))))))"

definition validateAccessToken :: "'s auth_env \<Rightarrow> string \<Rightarrow> ('s, JwtPayload) prog" where
  "validateAccessToken A token =
     bindE (readE (\<lambda>s. ae_jwt A s token)) (\<lambda>payload.
     case payload of
       None \<Rightarrow> throwE (UnauthorizedException ''Invalid or expired access token'')
     | Some p \<Rightarrow> returnE p)"

definition revokeRefreshToken :: "'s auth_env \<Rightarrow> string \<Rightarrow> ('s, unit) prog" where
  "revokeRefreshToken A tokenId =
     bindE (readE (ae_now A)) (\<lambda>now.
     seqE (repo_update (ae_refresh A) (\<lambda>t. rt_id t = tokenId) (\<lambda>t. t\<lparr>rt_revoked := True, rt_revokedAt := Some now\<rparr>))
     (ignoreE (logAction A ''REFRESH_TOKEN_REVOKED'' tokenId (Some tokenId) None)))"

definition refreshAccessToken :: "'s auth_env \<Rightarrow> string \<Rightarrow> ('s, string \<times> string) prog" where
  "refreshAccessToken A refreshToken =
     bindE (repo_findOne (ae_refresh A) (\<lambda>t. rt_token t = refreshToken)) (\<lambda>found.
     case found of
       None \<Rightarrow> throwE (UnauthorizedException ''Invalid refresh token'')
     | Some tokenRecord \<Rightarrow>
         bindE (user_relation A (rt_userId tokenRecord)) (\<lambda>user.
         if rt_revoked tokenRecord then throwE (UnauthorizedException ''Refresh token has been revoked'')
         else bindE (readE (ae_now A)) (\<lambda>now.
         if rt_expiresAt tokenRecord < now then throwE (UnauthorizedException ''Refresh token expired'')
         else (case user of
           None \<Rightarrow> throwE (TypeError ''Cannot read properties of null'')
         | Some u \<Rightarrow>
             if \<not> us_isActive u then throwE (UnauthorizedException ''User account is inactive'')
             else
               seqE (revokeRefreshToken A (rt_id tokenRecord))
               (bindE (generateAccessToken A (rt_userId tokenRecord) None) (\<lambda>accessToken.
                bindE (generateRefreshToken A (rt_userId tokenRecord)) (\<lambda>(newToken, newId, newExpires).
                seqE (logAction A ''ACCESS_TOKEN_REFRESHED'' (rt_userId tokenRecord) (Some (rt_id tokenRecord)) None)
                (returnE (accessToken, newToken)))))))))"

definition revokeAllUserRefreshTokens :: "'s auth_env \<Rightarrow> string \<Rightarrow> ('s, unit) prog" where
  "revokeAllUserRefreshTokens A userId =
     bindE (readE (ae_now A)) (\<lambda>now.
       ignoreE (repo_update (ae_refresh A) (\<lambda>t. rt_userId t = userId \<and> \<not> rt_revoked t)
         (\<lambda>t. t\<lparr>rt_revoked := True, rt_revokedAt := Some now\<rparr>)))"

text \<open>The checks that \<open>getUserFromToken\<close> and the passport strategy make on a token's subject.\<close>

definition activeUser :: "'s auth_env \<Rightarrow> string \<Rightarrow> ('s, User) prog" where
  "activeUser A sub =
     bindE (repo_findOne (ae_users A) (\<lambda>u. us_id u = sub)) (\<lambda>user.
     case user of
       None \<Rightarrow> throwE (UnauthorizedException ''User not found'')
     | Some u \<Rightarrow> if \<not> us_isActive u then throwE (UnauthorizedException ''User account is inactive'')
                else returnE u)"

definition getUserFromToken :: "'s auth_env \<Rightarrow> string \<Rightarrow> ('s, User) prog" where
  "getUserFromToken A token = bindE (validateAccessToken A token) (\<lambda>payload. activeUser A (jp_sub payload))"

section \<open>ApiTokenService\<close>

text \<open>
  \<open>configService.get\<close> returns the variable's text when it is set; \<open>getDate() + text\<close> is then a string
  concatenation, which \<open>setDate\<close> reads as a number.
\<close>

definition apiToken_expiry :: "int \<Rightarrow> nat option \<Rightarrow> nat option \<Rightarrow> int \<Rightarrow> int" where
  "apiToken_expiry tz defaultDays expiresInDays now =
     (if 0 < or_nat expiresInDays 0 then setDate tz now (getDate tz now + int (or_nat expiresInDays 0))
      else (case defaultDays of
              None \<Rightarrow> setDate tz now (getDate tz now + 90)
            | Some n \<Rightarrow> setDate tz now (int (digits_val 0 (show_int (getDate tz now) @ show_nat n)))))"

definition createApiToken :: "'s auth_env \<Rightarrow> string \<Rightarrow> string \<Rightarrow> string \<Rightarrow> nat option \<Rightarrow>
    ('s, string \<times> string \<times> int option) prog" where
  "createApiToken A userId name role expiresInDays =
     bindE (ae_uuid A) (\<lambda>u1.
     bindE (ae_uuid A) (\<lambda>u2.
     let plainToken = filter (\<lambda>c. c \<noteq> CHR ''-'') (''stl_'' @ u1 @ u2)
     in bindE (ae_hash A plainToken) (\<lambda>hashedToken.
        bindE (readE (ae_now A)) (\<lambda>now.
        let expiresAt = apiToken_expiry (ae_tz A) (ae_defaultDays A) expiresInDays now;
            apiToken = \<lparr>at_id = [], at_token = hashedToken, at_name = name, at_role = role, at_userId = userId,
                        at_expiresAt = Some expiresAt, at_revoked = False, at_lastUsedAt = None, at_createdAt = 0\<rparr>
        in bindE (repo_insert (ae_apiTokens A) apiToken) (\<lambda>(savedId, t).
           returnE (plainToken, savedId, Some expiresAt))))))"

text \<open>The loop over the records that are not revoked.\<close>

fun validate_among :: "'s auth_env \<Rightarrow> string \<Rightarrow> ApiToken list \<Rightarrow> ('s, string \<times> string \<times> string) prog" where
  "validate_among A plainToken [] = throwE (UnauthorizedException ''Invalid API token'')"
| "validate_among A plainToken (tokenRecord # rest) =
     (if ae_compare A plainToken (at_token tokenRecord) then
        bindE (readE (ae_now A)) (\<lambda>now.
        if (case at_expiresAt tokenRecord of None \<Rightarrow> False | Some x \<Rightarrow> x < now)
        then throwE (UnauthorizedException ''API token expired'')
        else bindE (user_relation A (at_userId tokenRecord)) (\<lambda>user.
        case user of
          None \<Rightarrow> throwE (TypeError ''Cannot read properties of null'')
        | Some u \<Rightarrow>
            if \<not> us_isActive u then throwE (UnauthorizedException ''User account is inactive'')
            else seqE (repo_update (ae_apiTokens A) (\<lambda>t. at_id t = at_id tokenRecord) (\<lambda>t. t\<lparr>at_lastUsedAt := Some now\<rparr>))
              (returnE (at_userId tokenRecord, at_role tokenRecord, at_id tokenRecord))))
      else validate_among A plainToken rest)"

definition validateApiToken :: "'s auth_env \<Rightarrow> string \<Rightarrow> ('s, string \<times> string \<times> string) prog" where
  "validateApiToken A plainToken =
     bindE (repo_find (ae_apiTokens A) (\<lambda>t. \<not> at_revoked t) Unordered) (validate_among A plainToken)"

definition revokeApiToken :: "'s auth_env \<Rightarrow> string \<Rightarrow> string \<Rightarrow> ('s, unit) prog" where
  "revokeApiToken A tokenId userId =
     bindE (repo_findOne (ae_apiTokens A) (\<lambda>t. at_id t = tokenId \<and> at_userId t = userId)) (\<lambda>token.
     if token = None then throwE (NotFoundException ''API token not found'')
     else ignoreE (repo_update (ae_apiTokens A) (\<lambda>t. at_id t = tokenId) (\<lambda>t. t\<lparr>at_revoked := True\<rparr>)))"

text \<open>The list shows the selected columns only, newest first.\<close>

record ApiTokenView =
  av_id :: string
  av_name :: string
  av_role :: string
  av_expiresAt :: "int option"
  av_revoked :: bool
  av_lastUsedAt :: "int option"
  av_createdAt :: int

definition ApiToken_select :: "ApiToken \<Rightarrow> ApiTokenView" where
  "ApiToken_select t = \<lparr>av_id = at_id t, av_name = at_name t, av_role = at_role t, av_expiresAt = at_expiresAt t,
     av_revoked = at_revoked t, av_lastUsedAt = at_lastUsedAt t, av_createdAt = at_createdAt t\<rparr>"

definition listUserApiTokens :: "'s auth_env \<Rightarrow> string \<Rightarrow> ('s, ApiTokenView list) prog" where
  "listUserApiTokens A userId =
     bindE (repo_find (ae_apiTokens A) (\<lambda>t. at_userId t = userId) (Desc at_createdAt)) (\<lambda>ts.
       returnE (map ApiToken_select ts))"

definition revokeAllUserApiTokens :: "'s auth_env \<Rightarrow> string \<Rightarrow> ('s, unit) prog" where
  "revokeAllUserApiTokens A userId =
     ignoreE (repo_update (ae_apiTokens A) (\<lambda>t. at_userId t = userId \<and> \<not> at_revoked t) (\<lambda>t. t\<lparr>at_revoked := True\<rparr>))"

lemmas auth_service_defs [auth_defs] =
  logAction_def generateNonce_def validateNonce_def markNonceUsed_def cleanupExpiredNonces_def
  findUserByWallet_def bindWalletToUser_def updateLastUsed_def createUserWithWallet_def user_relation_def
  generateAccessToken_def generateRefreshToken_def validateAccessToken_def revokeRefreshToken_def
  revokeAllUserRefreshTokens_def activeUser_def getUserFromToken_def

end
