(* ===== verification/Auth_Flow.thy ===== *)
theory Auth_Flow
  imports Auth_Services
begin

text \<open>
  The requests of \<open>AuthController\<close> and the guards in front of them (src/Backend/src/auth/controllers,
  guards and strategies). The locale \<open>auth_store\<close> states what the services rely on: each repository
  keeps its own table, \<open>randomUUID\<close> never repeats a value and bcrypt recognises its own hashes. The
  properties follow one nonce, one refresh token and the wallets of every user through any sequence
  of requests.
\<close>

section \<open>Guards\<close>

text \<open>\<open>JwtAuthGuard\<close> verifies the bearer token and runs \<open>JwtStrategy.validate\<close> on its payload.\<close>

definition JwtStrategy_validate :: "'s auth_env \<Rightarrow> JwtPayload \<Rightarrow> ('s, User) prog" where
  "JwtStrategy_validate A payload = activeUser A (jp_sub payload)"

definition JwtAuthGuard :: "'s auth_env \<Rightarrow> string \<Rightarrow> ('s, User) prog" where
  "JwtAuthGuard A token =
     bindE (readE (\<lambda>s. ae_jwt A s token)) (\<lambda>payload.
     case payload of None \<Rightarrow> throwE (UnauthorizedException ''Unauthorized'')
     | Some p \<Rightarrow> JwtStrategy_validate A p)"

text \<open>
  The user a guard attaches to the request. The guards read \<open>id\<close> and \<open>role\<close>; a \<open>User\<close> entity has no
  column \<open>role\<close>.
\<close>

record request_user =
  ru_id :: string
  ru_role :: "string option"
  ru_tokenId :: "string option"

definition jwt_request_user :: "User \<Rightarrow> request_user" where
  "jwt_request_user u = \<lparr>ru_id = us_id u, ru_role = None, ru_tokenId = None\<rparr>"

definition extractTokenFromHeader :: "string option \<Rightarrow> string option" where
  "extractTokenFromHeader authorization =
     (if \<not> truthy authorization then None
      else (case js_split CHR '' '' (the authorization) of
              type # token # _ \<Rightarrow> if type = ''Bearer'' then Some token else None
            | _ \<Rightarrow> None))"

definition ApiTokenGuard :: "'s auth_env \<Rightarrow> string option \<Rightarrow> ('s, request_user) prog" where
  "ApiTokenGuard A authorization =
     (let token = extractTokenFromHeader authorization
      in if \<not> truthy token then throwE (UnauthorizedException ''API token required'')
         else catchE
           (bindE (validateApiToken A (the token)) (\<lambda>(userId, role, tokenId).
              returnE \<lparr>ru_id = userId, ru_role = Some role, ru_tokenId = Some tokenId\<rparr>))
           (\<lambda>error. throwE (UnauthorizedException ''Invalid API token'')))"

text \<open>\<open>RolesGuard\<close> of auth/guards, and the one of guards/ that \<open>AppModule\<close> installs globally.\<close>

definition RolesGuard :: "string list option \<Rightarrow> request_user option \<Rightarrow> exn + bool" where
  "RolesGuard requiredRoles user =
     (if requiredRoles = None \<or> requiredRoles = Some [] then Inr True
      else (case user of
              None \<Rightarrow> Inl (ForbiddenException ''User role not found'')
            | Some u \<Rightarrow>
                if \<not> truthy (ru_role u) then Inl (ForbiddenException ''User role not found'')
                else if \<not> List.member (the requiredRoles) (the (ru_role u)) then
                  Inl (ForbiddenException (''Required role: '' @ js_join '' or '' (the requiredRoles) @
                        ''. User has: '' @ the (ru_role u)))
                else Inr True))"

definition global_RolesGuard :: "string list option \<Rightarrow> request_user option \<Rightarrow> exn + bool" where
  "global_RolesGuard requiredRoles user =
     (if requiredRoles = None \<or> requiredRoles = Some [] then Inr True
      else (case user of
              None \<Rightarrow> Inl (ForbiddenException ''User role not found'')
            | Some u \<Rightarrow>
                if \<not> truthy (ru_role u) then Inl (ForbiddenException ''User role not found'')
                else if \<not> List.member (the requiredRoles) (the (ru_role u)) then
                  Inl (ForbiddenException ''Insufficient permissions'')
                else Inr True))"

text \<open>The token of a WebSocket handshake: \<open>auth.token\<close>, the header, the query, in this order.\<close>

definition extractTokenFromHandshake :: "string option \<Rightarrow> string option \<Rightarrow> string option \<Rightarrow> string option" where
  "extractTokenFromHandshake authToken authHeader queryToken =
     (if truthy authToken then authToken
      else if truthy authHeader \<and> take 7 (the authHeader) = ''Bearer '' then Some (drop 7 (the authHeader))
      else if truthy queryToken then queryToken
      else None)"

definition WsJwtAuthGuard :: "'s auth_env \<Rightarrow> string option \<Rightarrow> string option \<Rightarrow> string option \<Rightarrow> ('s, JwtPayload) prog" where
  "WsJwtAuthGuard A authToken authHeader queryToken =
     (let token = extractTokenFromHandshake authToken authHeader queryToken
      in if \<not> truthy token then throwE (UnauthorizedException ''Authentication token required'')
         else bindE (readE (\<lambda>s. ae_jwt A s (the token))) (\<lambda>payload.
           case payload of None \<Rightarrow> throwE (UnauthorizedException ''Invalid or expired token'')
           | Some p \<Rightarrow> returnE p))"

section \<open>AuthController\<close>

record WalletLoginDto =
  wl_publicKey :: string
  wl_signature :: string
  wl_nonce :: string

record login_response =
  lr_accessToken :: string
  lr_refreshToken :: string
  lr_user :: User

text \<open>
  \<open>wallet/login\<close> and \<open>wallet/bind\<close> start with the same check of nonce and signature; it only reads.
\<close>

definition check_signed_nonce :: "'s auth_env \<Rightarrow> WalletLoginDto \<Rightarrow> ('s, unit) prog" where
  "check_signed_nonce A dto =
     seqE (validateNonce A (wl_nonce dto) (wl_publicKey dto))
     (bindE (verifySignature A (wl_publicKey dto) (wl_signature dto) (sign_message (wl_nonce dto))) (\<lambda>isValid.
        whenE (\<not> isValid) (throwE (Error ''Invalid signature''))))"

definition grant_login :: "'s auth_env \<Rightarrow> WalletLoginDto \<Rightarrow> ('s, login_response) prog" where
  "grant_login A dto =
     seqE (markNonceUsed A (wl_nonce dto))
     (bindE (findUserByWallet A (wl_publicKey dto)) (\<lambda>found.
      bindE (case found of
               Some u \<Rightarrow> returnE u
             | None \<Rightarrow>
                 bindE (createUserWithWallet A (wl_publicKey dto)) (\<lambda>u.
                 seqE (logAction A ''USER_CREATED'' (us_id u) (Some (us_id u)) (Some [(''wallet'', AText (wl_publicKey dto))]))
                 (returnE u))) (\<lambda>user.
      seqE (updateLastUsed A (wl_publicKey dto))
      (bindE (generateAccessToken A (us_id user) None) (\<lambda>accessToken.
       bindE (generateRefreshToken A (us_id user)) (\<lambda>(token, tokenId, expiresAt).
       returnE \<lparr>lr_accessToken = accessToken, lr_refreshToken = token, lr_user = user\<rparr>))))))"

definition walletLogin :: "'s auth_env \<Rightarrow> WalletLoginDto \<Rightarrow> ('s, login_response) prog" where
  "walletLogin A dto = seqE (check_signed_nonce A dto) (grant_login A dto)"

definition requestNonce :: "'s auth_env \<Rightarrow> string \<Rightarrow> ('s, string \<times> int \<times> string) prog" where
  "requestNonce A publicKey = generateNonce A publicKey"

definition refreshToken_request :: "'s auth_env \<Rightarrow> string \<Rightarrow> ('s, string \<times> string) prog" where
  "refreshToken_request A token = refreshAccessToken A token"

definition logout :: "'s auth_env \<Rightarrow> User \<Rightarrow> ('s, unit) prog" where
  "logout A user = revokeAllUserRefreshTokens A (us_id user)"

definition bindWallet :: "'s auth_env \<Rightarrow> User \<Rightarrow> WalletLoginDto \<Rightarrow> ('s, WalletBinding) prog" where
  "bindWallet A user dto =
     seqE (check_signed_nonce A dto)
     (seqE (markNonceUsed A (wl_nonce dto))
       (bindWalletToUser A (wl_publicKey dto) (us_id user) False))"

definition unbindWallet_request :: "'s auth_env \<Rightarrow> User \<Rightarrow> string \<Rightarrow> ('s, unit) prog" where
  "unbindWallet_request A user publicKey = unbindWallet A publicKey (us_id user)"

text \<open>The roles \<open>CreateApiTokenDto\<close> accepts.\<close>

definition apiToken_roles :: "string list" where
  "apiToken_roles = [''ai-service'', ''worker'', ''admin'']"

definition createApiToken_request :: "'s auth_env \<Rightarrow> User \<Rightarrow> string \<Rightarrow> string \<Rightarrow> nat option \<Rightarrow>
    ('s, string \<times> string \<times> int option) prog" where
  "createApiToken_request A user name role expiresInDays = createApiToken A (us_id user) name role expiresInDays"

definition revokeApiToken_request :: "'s auth_env \<Rightarrow> User \<Rightarrow> string \<Rightarrow> ('s, unit) prog" where
  "revokeApiToken_request A user tokenId = revokeApiToken A tokenId (us_id user)"

text \<open>A request as the server handles it; the last one is the hourly job.\<close>

datatype auth_request =
    RequestNonce string
  | WalletLogin WalletLoginDto
  | Refresh string
  | Logout string
  | BindWallet string WalletLoginDto
  | UnbindWallet string string
  | CreateApiToken string string string "nat option"
  | RevokeApiToken string string
  | UseApiToken "string option"
  | CleanupNonces

fun handle :: "'s auth_env \<Rightarrow> auth_request \<Rightarrow> ('s, unit) prog" where
  "handle A (RequestNonce publicKey) = ignoreE (requestNonce A publicKey)"
| "handle A (WalletLogin dto) = ignoreE (walletLogin A dto)"
| "handle A (Refresh token) = ignoreE (refreshToken_request A token)"
| "handle A (Logout jwt) = bindE (JwtAuthGuard A jwt) (\<lambda>user. logout A user)"
| "handle A (BindWallet jwt dto) = bindE (JwtAuthGuard A jwt) (\<lambda>user. ignoreE (bindWallet A user dto))"
| "handle A (UnbindWallet jwt publicKey) = bindE (JwtAuthGuard A jwt) (\<lambda>user. unbindWallet_request A user publicKey)"
| "handle A (CreateApiToken jwt name role days) =
     bindE (JwtAuthGuard A jwt) (\<lambda>user. ignoreE (createApiToken_request A user name role days))"
| "handle A (RevokeApiToken jwt tokenId) = bindE (JwtAuthGuard A jwt) (\<lambda>user. revokeApiToken_request A user tokenId)"
| "handle A (UseApiToken authorization) = ignoreE (ApiTokenGuard A authorization)"
| "handle A CleanupNonces = cleanupExpiredNonces A"

text \<open>The store after a sequence of requests, whether or not each of them fails.\<close>

fun serve :: "'s auth_env \<Rightarrow> auth_request list \<Rightarrow> 's \<Rightarrow> 's" where
  "serve A [] s = s"
| "serve A (r # rs) s = serve A rs (snd (handle A r s))"

lemmas auth_controller_defs [auth_defs] =
  JwtStrategy_validate_def JwtAuthGuard_def requestNonce_def refreshToken_request_def logout_def [abs_def]
  unbindWallet_request_def createApiToken_request_def revokeApiToken_request_def

section \<open>The contract of the environment\<close>

text \<open>
  The tables the properties speak about, by primary key, and the values \<open>randomUUID\<close> has returned so
  far.
\<close>

record auth_view =
  v_nonces :: "string \<Rightarrow> LoginNonce option"
  v_wallets :: "string \<Rightarrow> WalletBinding option"
  v_users :: "string \<Rightarrow> User option"
  v_refresh :: "string \<Rightarrow> RefreshToken option"
  v_apiTokens :: "string \<Rightarrow> ApiToken option"
  v_issued :: "string set"

definition ln_gen :: "string \<Rightarrow> int \<Rightarrow> LoginNonce \<Rightarrow> LoginNonce" where
  "ln_gen i t n = n\<lparr>ln_id := i, ln_createdAt := t\<rparr>"

definition wb_gen :: "string \<Rightarrow> int \<Rightarrow> WalletBinding \<Rightarrow> WalletBinding" where
  "wb_gen i t b = b\<lparr>wb_id := i, wb_boundAt := t\<rparr>"

definition us_gen :: "string \<Rightarrow> int \<Rightarrow> User \<Rightarrow> User" where
  "us_gen i t u = u\<lparr>us_id := i, us_createdAt := t, us_updatedAt := t\<rparr>"

definition rt_gen :: "string \<Rightarrow> int \<Rightarrow> RefreshToken \<Rightarrow> RefreshToken" where
  "rt_gen i t r = r\<lparr>rt_id := i, rt_createdAt := t\<rparr>"

definition at_gen :: "string \<Rightarrow> int \<Rightarrow> ApiToken \<Rightarrow> ApiToken" where
  "at_gen i t a = a\<lparr>at_id := i, at_createdAt := t\<rparr>"

lemmas auth_gen_defs = ln_gen_def wb_gen_def us_gen_def rt_gen_def at_gen_def

definition us_stamp :: "int \<Rightarrow> User \<Rightarrow> User" where
  "us_stamp t u = u\<lparr>us_updatedAt := t\<rparr>"

text \<open>
  Nonces and tokens in the tables were issued, no two rows hold one refresh token, every row of a
  nonce in \<open>N\<close> is marked used and every row of a token in \<open>T\<close> is revoked.
\<close>

definition session_inv :: "string set \<Rightarrow> string set \<Rightarrow> auth_view \<Rightarrow> bool" where
  "session_inv N T v \<longleftrightarrow>
     N \<subseteq> v_issued v \<and> T \<subseteq> v_issued v \<and>
     (\<forall>i e. v_nonces v i = Some e \<longrightarrow> ln_nonce e \<in> v_issued v \<and> (ln_nonce e \<in> N \<longrightarrow> ln_used e)) \<and>
     (\<forall>i e. v_refresh v i = Some e \<longrightarrow> rt_token e \<in> v_issued v \<and> (rt_token e \<in> T \<longrightarrow> rt_revoked e)) \<and>
     (\<forall>i j a b. v_refresh v i = Some a \<longrightarrow> v_refresh v j = Some b \<longrightarrow> rt_token a = rt_token b \<longrightarrow> i = j)"

lemma session_inv_frame [simp]:
  "session_inv N T (v\<lparr>v_wallets := f\<rparr>) = session_inv N T v"
  "session_inv N T (v\<lparr>v_users := g\<rparr>) = session_inv N T v"
  "session_inv N T (v\<lparr>v_apiTokens := h\<rparr>) = session_inv N T v"
  by (simp_all add: session_inv_def)

lemma session_inv_issue: "session_inv N T v \<Longrightarrow> session_inv N T (v\<lparr>v_issued := insert u (v_issued v)\<rparr>)"
  by (auto simp: session_inv_def)

lemma session_inv_new_nonce:
  "session_inv N T v \<Longrightarrow> u \<notin> v_issued v \<Longrightarrow> ln_nonce n = u \<Longrightarrow>
     session_inv N T (v\<lparr>v_issued := insert u (v_issued v), v_nonces := (v_nonces v)(i \<mapsto> n)\<rparr>)"
  by (auto simp: session_inv_def split: if_splits)

lemma session_inv_new_token:
  "session_inv N T v \<Longrightarrow> u \<notin> v_issued v \<Longrightarrow> rt_token r = u \<Longrightarrow>
     session_inv N T (v\<lparr>v_issued := insert u (v_issued v), v_refresh := (v_refresh v)(i \<mapsto> r)\<rparr>)"
  unfolding session_inv_def by simp (intro conjI allI impI; fastforce)

lemma session_inv_nonces:
  assumes "session_inv N T v" and "\<And>i e. f i = Some e \<Longrightarrow> \<exists>e'. v_nonces v i = Some e' \<and> ln_nonce e = ln_nonce e' \<and> (ln_used e' \<longrightarrow> ln_used e)"
  shows "session_inv N T (v\<lparr>v_nonces := f\<rparr>)"
  using assms(1) unfolding session_inv_def by simp (metis assms(2))

lemma session_inv_refresh:
  assumes "session_inv N T v" and "\<And>i e. f i = Some e \<Longrightarrow> \<exists>e'. v_refresh v i = Some e' \<and> rt_token e = rt_token e' \<and> (rt_revoked e' \<longrightarrow> rt_revoked e)"
  shows "session_inv N T (v\<lparr>v_refresh := f\<rparr>)"
  using assms(1) unfolding session_inv_def by simp (metis assms(2))

lemma session_inv_spend:
  assumes "session_inv N T v" and "n \<in> v_issued v"
    and "\<And>i e. f i = Some e \<Longrightarrow> \<exists>e'. v_nonces v i = Some e' \<and> ln_nonce e = ln_nonce e' \<and> (ln_used e' \<or> ln_nonce e' = n \<longrightarrow> ln_used e)"
  shows "session_inv (insert n N) T (v\<lparr>v_nonces := f\<rparr>)"
  using assms(1,2) unfolding session_inv_def by simp (metis assms(3))

lemma session_inv_revoke:
  assumes "session_inv N T v" and "v_refresh v k = Some r"
    and "\<And>i e. f i = Some e \<Longrightarrow> \<exists>e'. v_refresh v i = Some e' \<and> rt_token e = rt_token e' \<and> (rt_revoked e' \<or> i = k \<longrightarrow> rt_revoked e)"
  shows "session_inv N (insert (rt_token r) T) (v\<lparr>v_refresh := f\<rparr>)"
  using assms(1,2) unfolding session_inv_def by simp (metis assms(3))

text \<open>
  Every wallet belongs to a user that exists and is bound once, and every user has exactly one
  primary wallet.
\<close>

type_synonym wallet_table = "string \<Rightarrow> WalletBinding option"

definition primaries :: "wallet_table \<Rightarrow> string \<Rightarrow> string set" where
  "primaries w u = {i. \<exists>b. w i = Some b \<and> wb_userId b = u \<and> wb_isPrimary b}"

definition wallets_inv :: "wallet_table \<Rightarrow> (string \<Rightarrow> User option) \<Rightarrow> bool" where
  "wallets_inv w us \<longleftrightarrow>
     (\<forall>i b. w i = Some b \<longrightarrow> us (wb_userId b) \<noteq> None) \<and>
     (\<forall>i j a b. w i = Some a \<longrightarrow> w j = Some b \<longrightarrow> wb_publicKey a = wb_publicKey b \<longrightarrow> i = j) \<and>
     (\<forall>u. us u \<noteq> None \<longrightarrow> (\<exists>j. primaries w u = {j}))"

lemma primaries_insert:
  "w i = None \<Longrightarrow> primaries (w(i \<mapsto> b)) u = (if wb_isPrimary b \<and> wb_userId b = u then insert i (primaries w u) else primaries w u)"
  by (auto simp: primaries_def split: if_splits)

lemma wallets_inv_bind:
  assumes "wallets_inv w us" and "w i = None" and "us (wb_userId b) \<noteq> None" and "\<not> wb_isPrimary b"
    and "\<And>j a. w j = Some a \<Longrightarrow> wb_publicKey a \<noteq> wb_publicKey b"
  shows "wallets_inv (w(i \<mapsto> b)) us"
  using assms unfolding wallets_inv_def by (simp add: primaries_insert) (metis assms(5))

text \<open>The first wallet of a new user; demoting the user's other wallets changes nothing.\<close>

lemma wallets_inv_new_user:
  assumes "wallets_inv w us" and "w i = None" and "us u = None" and "wb_userId b = u" and "wb_isPrimary b"
    and "\<And>j a. w j = Some a \<Longrightarrow> wb_publicKey a \<noteq> wb_publicKey b"
  shows "wallets_inv ((\<lambda>i. map_option (\<lambda>e. if wb_userId e = u then f e else e) (w i))(i \<mapsto> b)) (us(u \<mapsto> x))"
proof -
  have own: "w j = Some a \<Longrightarrow> wb_userId a \<noteq> u" for j a
    using assms(1,3) unfolding wallets_inv_def by metis
  then have same: "(\<lambda>i. map_option (\<lambda>e. if wb_userId e = u then f e else e) (w i)) = w"
    by (intro ext, rename_tac j, case_tac "w j") auto
  have "primaries w u = {}" using own by (auto simp: primaries_def)
  with assms show ?thesis
    unfolding wallets_inv_def same by (simp add: primaries_insert) (metis assms(6))
qed

lemma wallets_inv_touch:
  assumes "wallets_inv w us" and "\<And>b. wb_userId (f b) = wb_userId b \<and> wb_publicKey (f b) = wb_publicKey b \<and> wb_isPrimary (f b) = wb_isPrimary b"
  shows "wallets_inv (\<lambda>i. map_option f (w i)) us"
proof -
  have "primaries (\<lambda>i. map_option f (w i)) u = primaries w u" for u
    using assms(2) by (auto simp: primaries_def)
  with assms show ?thesis by (auto simp: wallets_inv_def)
qed

text \<open>The user of the wallet with this key.\<close>

definition wallet_user :: "string \<Rightarrow> User \<Rightarrow> wallet_table \<Rightarrow> (string \<Rightarrow> User option) \<Rightarrow> bool" where
  "wallet_user k u w us \<longleftrightarrow> us (us_id u) = Some u \<and> (\<exists>i b. w i = Some b \<and> wb_publicKey b = k \<and> wb_userId b = us_id u)"

lemma wallet_user_touch:
  assumes "wallet_user k u w us" and "\<And>b. wb_userId (f b) = wb_userId b \<and> wb_publicKey (f b) = wb_publicKey b"
  shows "wallet_user k u (\<lambda>i. map_option f (w i)) us"
  using assms unfolding wallet_user_def by (auto, metis option.simps(9))

text \<open>A refresh token of the user that is not revoked.\<close>

definition active_token :: "string \<Rightarrow> string \<Rightarrow> (string \<Rightarrow> RefreshToken option) \<Rightarrow> bool" where
  "active_token t u rs \<longleftrightarrow> (\<exists>i r. rs i = Some r \<and> rt_token r = t \<and> rt_userId r = u \<and> \<not> rt_revoked r)"

lemma active_token_new: "\<not> rt_revoked r \<Longrightarrow> active_token (rt_token r) (rt_userId r) (rs(i \<mapsto> r))"
  unfolding active_token_def by (metis fun_upd_same)

lemma active_token_insert: "active_token t u rs \<Longrightarrow> rs i = None \<Longrightarrow> active_token t u (rs(i \<mapsto> r))"
  unfolding active_token_def by (metis fun_upd_other option.distinct(1))

text \<open>
  What decides a login: the rows of the presented nonce for the wallet, and whether the signature of the message is the
  wallet's. \<open>login_refusal\<close> says with which error each case is refused.
\<close>

definition presented_nonce :: "auth_view \<Rightarrow> WalletLoginDto \<Rightarrow> LoginNonce \<Rightarrow> bool" where
  "presented_nonce v d n \<longleftrightarrow> (\<exists>i. v_nonces v i = Some n) \<and> ln_nonce n = wl_nonce d \<and> ln_publicKey n = wl_publicKey d"

definition nonce_valid :: "auth_view \<Rightarrow> int \<Rightarrow> WalletLoginDto \<Rightarrow> bool" where
  "nonce_valid v now d \<longleftrightarrow> (\<exists>n. presented_nonce v d n \<and> \<not> ln_used n \<and> now \<le> ln_expiresAt n)"

definition signature_valid :: "'s auth_env \<Rightarrow> WalletLoginDto \<Rightarrow> bool" where
  "signature_valid A d \<longleftrightarrow> (\<exists>key. ae_decodeKey A (wl_publicKey d) = Inr key \<and>
     ae_verify A (ae_utf8 A (sign_message (wl_nonce d))) (ae_fromBase64 A (wl_signature d)) key = Inr True)"

definition login_refusal :: "'s auth_env \<Rightarrow> auth_view \<Rightarrow> int \<Rightarrow> WalletLoginDto \<Rightarrow> exn \<Rightarrow> bool" where
  "login_refusal A v now d e \<longleftrightarrow>
     e = UnauthorizedException ''Invalid nonce'' \<and> (\<forall>n. \<not> presented_nonce v d n) \<or>
     e = UnauthorizedException ''Nonce already used'' \<and> (\<exists>n. presented_nonce v d n \<and> ln_used n) \<or>
     e = UnauthorizedException ''Nonce expired'' \<and> (\<exists>n. presented_nonce v d n \<and> \<not> ln_used n \<and> ln_expiresAt n < now) \<or>
     e = Error ''Invalid signature'' \<and> nonce_valid v now d \<and> \<not> signature_valid A d"

text \<open>The unique constraint on the column \<open>nonce\<close>.\<close>

definition nonces_unique :: "auth_view \<Rightarrow> bool" where
  "nonces_unique v \<longleftrightarrow> (\<forall>i j a b. v_nonces v i = Some a \<longrightarrow> v_nonces v j = Some b \<longrightarrow> ln_nonce a = ln_nonce b \<longrightarrow> a = b)"

lemma refused_not_accepted:
  "nonces_unique v \<Longrightarrow> login_refusal A v now d e \<Longrightarrow> \<not> (nonce_valid v now d \<and> signature_valid A d)"
  unfolding login_refusal_def nonce_valid_def presented_nonce_def nonces_unique_def by (metis linorder_not_less)

text \<open>The user a login is for: the one the wallet is bound to, or else a new one.\<close>

definition login_user :: "string \<Rightarrow> wallet_table \<Rightarrow> (string \<Rightarrow> User option) \<Rightarrow> User \<Rightarrow> bool" where
  "login_user k w us u \<longleftrightarrow> (if \<exists>i b. w i = Some b \<and> wb_publicKey b = k then wallet_user k u w us else us (us_id u) = None)"

lemma wallets_inv_unbind:
  assumes "wallets_inv w us" and "w i = Some b" and "\<not> wb_isPrimary b"
  shows "wallets_inv (w(i := None)) us"
proof -
  have "primaries (w(i := None)) u = primaries w u" for u
    using assms(2,3) by (auto simp: primaries_def)
  with assms show ?thesis by (auto simp: wallets_inv_def)
qed

lemma wallets_inv_promote:
  assumes "wallets_inv w us" and "w i = Some b" and "wb_isPrimary b" and "w j = Some a" and "j \<noteq> i"
    and "wb_userId a = wb_userId b"
  shows "wallets_inv (w(i := None, j \<mapsto> a\<lparr>wb_isPrimary := True\<rparr>)) us"
proof -
  have "us (wb_userId b) \<noteq> None" and "i \<in> primaries w (wb_userId b)"
    using assms(1,2,3) by (auto simp: wallets_inv_def primaries_def)
  then have only: "primaries w (wb_userId b) = {i}"
    using assms(1) unfolding wallets_inv_def by (metis singletonD)
  have "primaries (w(i := None, j \<mapsto> a\<lparr>wb_isPrimary := True\<rparr>)) u =
      (if u = wb_userId b then {j} else primaries w u)" for u
    using only assms(2-) by (auto simp: primaries_def set_eq_iff)
  with assms show ?thesis unfolding wallets_inv_def by simp metis
qed

lemma sole_wallet:
  assumes "w i = Some b" and "wb_userId b = u" and "\<And>j e. (if j = i then None else w j) = Some e \<Longrightarrow> wb_userId e \<noteq> u"
  shows "card {j. \<exists>e. w j = Some e \<and> wb_userId e = u} = Suc 0"
proof -
  have "{j. \<exists>e. w j = Some e \<and> wb_userId e = u} = {i}"
    using assms(1,2) assms(3) [of j for j] by (auto, metis)
  then show ?thesis by simp
qed

locale auth_store =
  N: repo_table "ae_nonces A" "\<lambda>s. v_nonces (view s)" ln_id "\<lambda>_ e. e" ln_gen +
  W: repo_table "ae_wallets A" "\<lambda>s. v_wallets (view s)" wb_id "\<lambda>_ e. e" wb_gen +
  U: repo_table "ae_users A" "\<lambda>s. v_users (view s)" us_id us_stamp us_gen +
  R: repo_table "ae_refresh A" "\<lambda>s. v_refresh (view s)" rt_id "\<lambda>_ e. e" rt_gen +
  T: repo_table "ae_apiTokens A" "\<lambda>s. v_apiTokens (view s)" at_id "\<lambda>_ e. e" at_gen
  for A :: "'s auth_env" and view :: "'s \<Rightarrow> auth_view" +
  assumes nonces_only: "keeps (ae_nonces A) (\<lambda>s. (view s)\<lparr>v_nonces := Map.empty\<rparr>)"
    and wallets_only: "keeps (ae_wallets A) (\<lambda>s. (view s)\<lparr>v_wallets := Map.empty\<rparr>)"
    and users_only: "keeps (ae_users A) (\<lambda>s. (view s)\<lparr>v_users := Map.empty\<rparr>)"
    and refresh_only: "keeps (ae_refresh A) (\<lambda>s. (view s)\<lparr>v_refresh := Map.empty\<rparr>)"
    and apiTokens_only: "keeps (ae_apiTokens A) (\<lambda>s. (view s)\<lparr>v_apiTokens := Map.empty\<rparr>)"
    and audit_only: "keeps (ae_audit A) view"
    and audit_insert_ok: "ok (repo_insert (ae_audit A) l) s"
    and uuid_ok: "ok (ae_uuid A) s"
    and uuid_view: "view (fin (ae_uuid A) s) = (view s)\<lparr>v_issued := insert (res (ae_uuid A) s) (v_issued (view s))\<rparr>"
    and uuid_fresh: "res (ae_uuid A) s \<notin> v_issued (view s)"
    and hash_ok: "ok (ae_hash A p) s"
    and hash_view: "view (fin (ae_hash A p) s) = view s"
    and hash_compare: "ae_compare A p (res (ae_hash A p) s)"
begin

lemma erased_view:
  "a\<lparr>v_nonces := Map.empty\<rparr> = b\<lparr>v_nonces := Map.empty\<rparr> \<Longrightarrow> a = b\<lparr>v_nonces := v_nonces a\<rparr>"
  "a\<lparr>v_wallets := Map.empty\<rparr> = b\<lparr>v_wallets := Map.empty\<rparr> \<Longrightarrow> a = b\<lparr>v_wallets := v_wallets a\<rparr>"
  "a\<lparr>v_users := Map.empty\<rparr> = b\<lparr>v_users := Map.empty\<rparr> \<Longrightarrow> a = b\<lparr>v_users := v_users a\<rparr>"
  "a\<lparr>v_refresh := Map.empty\<rparr> = b\<lparr>v_refresh := Map.empty\<rparr> \<Longrightarrow> a = b\<lparr>v_refresh := v_refresh a\<rparr>"
  "a\<lparr>v_apiTokens := Map.empty\<rparr> = b\<lparr>v_apiTokens := Map.empty\<rparr> \<Longrightarrow> a = b\<lparr>v_apiTokens := v_apiTokens a\<rparr>"
  for a b :: auth_view
  by (cases a; cases b; simp)+

lemmas nonces_view = erased_view(1) [OF keepsD(1) [OF nonces_only]] erased_view(1) [OF keepsD(3) [OF nonces_only]]
  erased_view(1) [OF keepsD(4) [OF nonces_only]]

lemmas wallets_view = erased_view(2) [OF keepsD(1) [OF wallets_only]] erased_view(2) [OF keepsD(2) [OF wallets_only]]
  erased_view(2) [OF keepsD(3) [OF wallets_only]] erased_view(2) [OF keepsD(4) [OF wallets_only]]

lemmas users_view = erased_view(3) [OF keepsD(1) [OF users_only]]

lemmas refresh_view = erased_view(4) [OF keepsD(1) [OF refresh_only]] erased_view(4) [OF keepsD(3) [OF refresh_only]]

lemmas apiTokens_view = erased_view(5) [OF keepsD(1) [OF apiTokens_only]]
  erased_view(5) [OF keepsD(3) [OF apiTokens_only]]

lemma update_view:
  "(\<And>e. ln_id (f1 e) = ln_id e) \<Longrightarrow> view (fin (repo_update (ae_nonces A) P1 f1) s) =
     (view s)\<lparr>v_nonces := \<lambda>i. map_option (\<lambda>e. if P1 e then f1 e else e) (v_nonces (view s) i)\<rparr>"
  "(\<And>e. wb_id (f2 e) = wb_id e) \<Longrightarrow> view (fin (repo_update (ae_wallets A) P2 f2) s) =
     (view s)\<lparr>v_wallets := \<lambda>i. map_option (\<lambda>e. if P2 e then f2 e else e) (v_wallets (view s) i)\<rparr>"
  "(\<And>e. rt_id (f3 e) = rt_id e) \<Longrightarrow> view (fin (repo_update (ae_refresh A) P3 f3) s) =
     (view s)\<lparr>v_refresh := \<lambda>i. map_option (\<lambda>e. if P3 e then f3 e else e) (v_refresh (view s) i)\<rparr>"
  "(\<And>e. at_id (f4 e) = at_id e) \<Longrightarrow> view (fin (repo_update (ae_apiTokens A) P4 f4) s) =
     (view s)\<lparr>v_apiTokens := \<lambda>i. map_option (\<lambda>e. if P4 e then f4 e else e) (v_apiTokens (view s) i)\<rparr>"
  by (subst nonces_view wallets_view refresh_view apiTokens_view,
      simp add: N.update_tab W.update_tab R.update_tab T.update_tab)+

lemma delete_save_view:
  "view (fin (repo_delete (ae_nonces A) P1) s) =
     (view s)\<lparr>v_nonces := \<lambda>i. case v_nonces (view s) i of None \<Rightarrow> None | Some e \<Rightarrow> if P1 e then None else Some e\<rparr>"
  "view (fin (repo_delete (ae_wallets A) P2) s) =
     (view s)\<lparr>v_wallets := \<lambda>i. case v_wallets (view s) i of None \<Rightarrow> None | Some e \<Rightarrow> if P2 e then None else Some e\<rparr>"
  "view (fin (repo_save (ae_wallets A) b) s) = (view s)\<lparr>v_wallets := (v_wallets (view s))(wb_id b \<mapsto> b)\<rparr>"
  by (subst nonces_view wallets_view, simp add: N.delete_tab W.delete_tab W.save_tab)+

text \<open>Each call of the environment, as one step of an execution.\<close>

lemmas wpi_find_row [wp_intros] = N.wpi_findOne W.wpi_findOne R.wpi_findOne T.wpi_findOne

lemma wpi_find [wp_intros]:
  "Q3 (v_users (view s) j) s \<Longrightarrow> wp (repo_findOne (ae_users A) (\<lambda>u. us_id u = j)) Q3 X s"
  "(\<And>ts. ts = res (repo_find (ae_apiTokens A) P5 o5) s \<Longrightarrow> Q6 ts s) \<Longrightarrow> wp (repo_find (ae_apiTokens A) P5 o5) Q6 X s"
  "(\<And>c. c = card {i. \<exists>e. v_wallets (view s) i = Some e \<and> P2 e} \<Longrightarrow> Q7 c s) \<Longrightarrow> wp (repo_count (ae_wallets A) P2) Q7 X s"
  by (simp_all add: W.wp_count T.wp_repo U.wp_repo U.findOne_key W.find_card)

lemma wpi_insert [wp_intros]:
  "(\<And>i t s'. v_nonces (view s) i = None \<Longrightarrow>
      view s' = (view s)\<lparr>v_nonces := (v_nonces (view s))(i \<mapsto> ln_gen i t n)\<rparr> \<Longrightarrow> Q (i, t) s') \<Longrightarrow>
     wp (repo_insert (ae_nonces A) n) Q X s"
  "(\<And>i t s'. v_wallets (view s) i = None \<Longrightarrow>
      view s' = (view s)\<lparr>v_wallets := (v_wallets (view s))(i \<mapsto> wb_gen i t b)\<rparr> \<Longrightarrow> Q (i, t) s') \<Longrightarrow>
     wp (repo_insert (ae_wallets A) b) Q X s"
  "(\<And>i t s'. v_users (view s) i = None \<Longrightarrow>
      view s' = (view s)\<lparr>v_users := (v_users (view s))(i \<mapsto> us_gen i t u)\<rparr> \<Longrightarrow> Q (i, t) s') \<Longrightarrow>
     wp (repo_insert (ae_users A) u) Q X s"
  "(\<And>i t s'. v_refresh (view s) i = None \<Longrightarrow>
      view s' = (view s)\<lparr>v_refresh := (v_refresh (view s))(i \<mapsto> rt_gen i t r)\<rparr> \<Longrightarrow> Q (i, t) s') \<Longrightarrow>
     wp (repo_insert (ae_refresh A) r) Q X s"
  "(\<And>i t s'. v_apiTokens (view s) i = None \<Longrightarrow>
      view s' = (view s)\<lparr>v_apiTokens := (v_apiTokens (view s))(i \<mapsto> at_gen i t a)\<rparr> \<Longrightarrow> Q (i, t) s') \<Longrightarrow>
     wp (repo_insert (ae_apiTokens A) a) Q X s"
  "(\<And>i t s'. view s' = view s \<Longrightarrow> Q (i, t) s') \<Longrightarrow> wp (repo_insert (ae_audit A) l) Q X s"
proof goal_cases
  case 1 then show ?case
    using nonces_view(1) [of n s] N.insert_tab [of n s] N.insert_fresh [of n s]
    by (simp add: N.wp_repo) (metis surj_pair)
next
  case 2 then show ?case
    using wallets_view(1) [of b s] W.insert_tab [of b s] W.insert_fresh [of b s]
    by (simp add: W.wp_repo) (metis surj_pair)
next
  case 3 then show ?case
    using users_view [of u s] U.insert_tab [of u s] U.insert_fresh [of u s]
    by (simp add: U.wp_repo) (metis surj_pair)
next
  case 4 then show ?case
    using refresh_view(1) [of r s] R.insert_tab [of r s] R.insert_fresh [of r s]
    by (simp add: R.wp_repo) (metis surj_pair)
next
  case 5 then show ?case
    using apiTokens_view(1) [of a s] T.insert_tab [of a s] T.insert_fresh [of a s]
    by (simp add: T.wp_repo) (metis surj_pair)
next
  case 6 then show ?case
    using audit_only audit_insert_ok by (simp add: wp_ok keeps_def) (metis surj_pair)
qed

lemma wpi_update [wp_intros]:
  "(\<And>c s'. view s' = (view s)\<lparr>v_nonces := \<lambda>i. map_option (\<lambda>e. if P1 e then f1 e else e) (v_nonces (view s) i)\<rparr> \<Longrightarrow> Q c s') \<Longrightarrow>
     (\<And>e. ln_id (f1 e) = ln_id e) \<Longrightarrow> wp (repo_update (ae_nonces A) P1 f1) Q X s"
  "(\<And>c s'. view s' = (view s)\<lparr>v_wallets := \<lambda>i. map_option (\<lambda>e. if P2 e then f2 e else e) (v_wallets (view s) i)\<rparr> \<Longrightarrow> Q c s') \<Longrightarrow>
     (\<And>e. wb_id (f2 e) = wb_id e) \<Longrightarrow> wp (repo_update (ae_wallets A) P2 f2) Q X s"
  "(\<And>c s'. view s' = (view s)\<lparr>v_refresh := \<lambda>i. map_option (\<lambda>e. if P3 e then f3 e else e) (v_refresh (view s) i)\<rparr> \<Longrightarrow> Q c s') \<Longrightarrow>
     (\<And>e. rt_id (f3 e) = rt_id e) \<Longrightarrow> wp (repo_update (ae_refresh A) P3 f3) Q X s"
  "(\<And>c s'. view s' = (view s)\<lparr>v_apiTokens := \<lambda>i. map_option (\<lambda>e. if P4 e then f4 e else e) (v_apiTokens (view s) i)\<rparr> \<Longrightarrow> Q c s') \<Longrightarrow>
     (\<And>e. at_id (f4 e) = at_id e) \<Longrightarrow> wp (repo_update (ae_apiTokens A) P4 f4) Q X s"
  by (simp_all add: N.wp_repo W.wp_repo R.wp_repo T.wp_repo update_view)

lemma wpi_rest [wp_intros]:
  "(\<And>c s'. view s' = (view s)\<lparr>v_nonces := \<lambda>i. case v_nonces (view s) i of None \<Rightarrow> None | Some e \<Rightarrow> if P1 e then None else Some e\<rparr> \<Longrightarrow> Q c s') \<Longrightarrow>
     wp (repo_delete (ae_nonces A) P1) Q X s"
  "(\<And>t s'. view s' = (view s)\<lparr>v_wallets := (v_wallets (view s))(wb_id b \<mapsto> b)\<rparr> \<Longrightarrow> Q' t s') \<Longrightarrow> wp (repo_save (ae_wallets A) b) Q' X s"
  "(\<And>u s'. u \<notin> v_issued (view s) \<Longrightarrow> view s' = (view s)\<lparr>v_issued := insert u (v_issued (view s))\<rparr> \<Longrightarrow> Q'' u s') \<Longrightarrow> wp (ae_uuid A) Q'' X s"
  "(\<And>h s'. ae_compare A p h \<Longrightarrow> view s' = view s \<Longrightarrow> Q'' h s') \<Longrightarrow> wp (ae_hash A p) Q'' X s"
  by (simp_all add: N.wp_repo W.wp_repo delete_save_view wp_ok uuid_ok hash_ok uuid_view uuid_fresh hash_view hash_compare)

lemma wpi_remove [wp_intros]:
  assumes "\<And>c s'. view s' = (view s)\<lparr>v_wallets := (v_wallets (view s))(i := None)\<rparr> \<Longrightarrow> Q c s'"
  shows "wp (repo_delete (ae_wallets A) (\<lambda>b. wb_id b = i)) Q X s"
proof -
  have "(\<lambda>k. case v_wallets (view s) k of None \<Rightarrow> None | Some e \<Rightarrow> if wb_id e = i then None else Some e) =
      (v_wallets (view s))(i := None)"
    by (rule ext) (auto split: option.split dest: W.key_tab)
  then show ?thesis by (simp add: W.wp_repo delete_save_view assms)
qed

lemma verifySignature_reads: "(\<And>b. Q b s) \<Longrightarrow> wp (verifySignature A k g m) Q X s"
  by (simp add: verifySignature_def liftS_def wp_simps split: sum.split)

lemma reads_preserve [inv_intros]:
  "preserves I (repo_findOne (ae_nonces A) P1)" "preserves I (repo_findOne (ae_wallets A) P2)"
  "preserves I (repo_findOne (ae_users A) P3)" "preserves I (repo_findOne (ae_refresh A) P4)"
  "preserves I (repo_findOne (ae_apiTokens A) P5)" "preserves I (repo_find (ae_apiTokens A) P5 o5)"
  "preserves I (repo_count (ae_wallets A) P2)" "preserves I (verifySignature A k g m)"
  by (auto simp: preserves_def N.wp_repo W.wp_repo U.wp_repo R.wp_repo T.wp_repo W.wp_count intro: verifySignature_reads)

lemma logAction_preserves [inv_intros]: "preserves (\<lambda>s. J (view s)) (logAction A a b c d)"
  unfolding logAction_def by (intro preservesI wp_intros) simp

text \<open>Writes to the tables of wallets, users and API tokens do not touch the session invariant.\<close>

lemma other_writes_preserve [inv_intros]:
  "preserves (\<lambda>s. session_inv N T (view s)) (repo_insert (ae_wallets A) b)"
  "preserves (\<lambda>s. session_inv N T (view s)) (repo_save (ae_wallets A) b)"
  "preserves (\<lambda>s. session_inv N T (view s)) (repo_delete (ae_wallets A) (\<lambda>b. wb_id b = i))"
  "preserves (\<lambda>s. session_inv N T (view s)) (repo_insert (ae_users A) u)"
  "preserves (\<lambda>s. session_inv N T (view s)) (repo_insert (ae_apiTokens A) t)"
  "preserves (\<lambda>s. session_inv N T (view s)) (ae_hash A p)"
  by (intro preservesI wp_intros; simp)+

lemma session_writes_preserve [inv_intros]:
  "preserves (\<lambda>s. session_inv N T (view s)) (ae_uuid A)"
  "preserves (\<lambda>s. session_inv N T (view s)) (updateLastUsed A k)"
  "preserves (\<lambda>s. session_inv N T (view s)) (markNonceUsed A n)"
  "preserves (\<lambda>s. session_inv N T (view s)) (cleanupExpiredNonces A)"
  "preserves (\<lambda>s. session_inv N T (view s)) (revokeAllUserRefreshTokens A u)"
  "preserves (\<lambda>s. session_inv N T (view s)) (revokeRefreshToken A i)"
  "preserves (\<lambda>s. session_inv N T (view s)) (bindWalletToUser A k u p)"
  unfolding markNonceUsed_def cleanupExpiredNonces_def revokeAllUserRefreshTokens_def
    updateLastUsed_def bindWalletToUser_def revokeRefreshToken_def logAction_def
  by (intro preservesI wp_intros;
      auto intro!: session_inv_issue session_inv_nonces session_inv_refresh
        split: option.splits if_splits)+

lemma session_tokens_preserve [inv_intros]:
  "preserves (\<lambda>s. session_inv N T (view s)) (generateNonce A k)"
  "preserves (\<lambda>s. session_inv N T (view s)) (generateRefreshToken A u)"
  unfolding generateNonce_def generateRefreshToken_def logAction_def user_relation_def
  by (intro preservesI wp_intros;
      auto simp: ln_gen_def rt_gen_def intro!: session_inv_new_nonce session_inv_new_token split: option.splits if_splits)+

lemma session_api_preserve [inv_intros]:
  "preserves (\<lambda>s. session_inv N T (view s)) (repo_update (ae_apiTokens A) (\<lambda>t. at_id t = i) (\<lambda>t. t\<lparr>at_lastUsedAt := n\<rparr>))"
  "preserves (\<lambda>s. session_inv N T (view s)) (repo_update (ae_apiTokens A) (\<lambda>t. at_id t = i) (\<lambda>t. t\<lparr>at_revoked := True\<rparr>))"
  by (intro preservesI wp_intros; simp)+

lemma validate_among_preserves [inv_intros]: "preserves (\<lambda>s. session_inv N T (view s)) (validate_among A p ts)"
  by (induction ts) (auto simp: user_relation_def intro!: inv_intros)

text \<open>Every request keeps the session invariant.\<close>

lemmas request_parts = JwtAuthGuard_def JwtStrategy_validate_def activeUser_def requestNonce_def walletLogin_def
  check_signed_nonce_def grant_login_def validateNonce_def findUserByWallet_def createUserWithWallet_def user_relation_def
  generateAccessToken_def refreshToken_request_def refreshAccessToken_def logout_def [abs_def] bindWallet_def
  unbindWallet_request_def createApiToken_request_def createApiToken_def
  revokeApiToken_request_def revokeApiToken_def ApiTokenGuard_def validateApiToken_def

lemma handle_preserves_session: "preserves (\<lambda>s. session_inv N T (view s)) (handle A r)"
  by (cases r; simp only: handle.simps request_parts unbindWallet_def; intro inv_intros)

lemma serve_session: "session_inv N T (view s) \<Longrightarrow> session_inv N T (view (serve A rs s))"
  by (induction rs arbitrary: s) (simp_all add: preserves_snd [OF handle_preserves_session])

text \<open>The check of nonce and signature only reads, and passes only on an unused nonce of the table.\<close>

lemma check_reads:
  assumes "\<And>i n. v_nonces (view s) i = Some n \<Longrightarrow> ln_nonce n = wl_nonce d \<Longrightarrow> ln_publicKey n = wl_publicKey d \<Longrightarrow>
      \<not> ln_used n \<Longrightarrow> ae_now A s \<le> ln_expiresAt n \<Longrightarrow> Q () s"
    and "\<And>m. X (UnauthorizedException m) s" and "X (Error ''Invalid signature'') s"
  shows "wp (check_signed_nonce A d) Q X s"
  unfolding check_signed_nonce_def validateNonce_def
  by (intro wp_intros verifySignature_reads) (use assms in \<open>auto simp: not_less\<close>)

lemma wp_verifySignature: "wp (verifySignature A k g m) Q X s = Q (case ae_decodeKey A k of Inl _ \<Rightarrow> False
    | Inr key \<Rightarrow> (case ae_verify A (ae_utf8 A m) (ae_fromBase64 A g) key of Inl _ \<Rightarrow> False | Inr b \<Rightarrow> b)) s"
  by (simp add: verifySignature_def liftS_def wp_simps split: sum.split)

lemma check_decides:
  "wp (check_signed_nonce A d)
     (\<lambda>_ s'. s' = s \<and> nonce_valid (view s) (ae_now A s) d \<and> signature_valid A d)
     (\<lambda>e s'. s' = s \<and> login_refusal A (view s) (ae_now A s) d e) s"
  unfolding check_signed_nonce_def validateNonce_def
  by (intro wp_intros; (simp only: wp_verifySignature)?)
    (auto simp: wp_simps wp_verifySignature login_refusal_def nonce_valid_def presented_nonce_def signature_valid_def not_less
      split: sum.splits)

lemma spent_nonce_rejected:
  assumes "session_inv N T (view s)" and "wl_nonce d \<in> N"
  shows "\<exists>m. check_signed_nonce A d s = (Inl (UnauthorizedException m), s)"
proof -
  have "wp (validateNonce A (wl_nonce d) (wl_publicKey d)) (\<lambda>_ _. False)
      (\<lambda>e s'. s' = s \<and> (\<exists>m. e = UnauthorizedException m)) s"
    unfolding validateNonce_def using assms
    by (intro wp_intros) (simp_all add: session_inv_def)
  then show ?thesis
    by (auto simp: check_signed_nonce_def seqE_def bindE_def wp_exn)
qed

lemma spent_token_rejected:
  assumes "session_inv N T (view s)" and "t \<in> T"
  shows "\<exists>m. refreshAccessToken A t s = (Inl (UnauthorizedException m), s)"
proof -
  have "wp (refreshAccessToken A t) (\<lambda>_ _. False) (\<lambda>e s'. s' = s \<and> (\<exists>m. e = UnauthorizedException m)) s"
    unfolding refreshAccessToken_def user_relation_def using assms
    by (intro wpi_bindE wpi_option wpi_if wpi_throwE wpi_find wpi_find_row) (auto simp: session_inv_def)
  then show ?thesis by (auto simp: wp_exn)
qed

lemma mark_spends:
  assumes "session_inv N T (view s)" and "n \<in> v_issued (view s)"
  shows "wp (markNonceUsed A n) (\<lambda>_ s'. session_inv (insert n N) T (view s')) X s"
  unfolding markNonceUsed_def by (intro wp_intros) (use assms in \<open>auto intro!: session_inv_spend split: if_splits\<close>)

lemma revoked_row: "e\<lparr>rt_revoked := True, rt_revokedAt := x\<rparr> = e \<Longrightarrow> rt_revoked e"
  by (cases e) simp

lemma revoke_spends:
  assumes "session_inv N T (view s)" and "v_refresh (view s) (rt_id r) = Some r"
  shows "wp (revokeRefreshToken A (rt_id r)) (\<lambda>_ s'. session_inv N (insert (rt_token r) T) (view s')) X s"
  unfolding revokeRefreshToken_def logAction_def
proof (intro wp_intros, goal_cases)
  case (1 c s1 i t s2)
  then show ?case
    using R.key_tab by (simp, intro session_inv_revoke [OF assms]) (auto split: if_splits dest: revoked_row)
qed simp

lemma login_spends:
  assumes "session_inv N T (view s)"
  shows "wp (walletLogin A d) (\<lambda>_ s'. session_inv (insert (wl_nonce d) N) T (view s')) (\<lambda>_ _. True) s"
proof -
  let ?I = "\<lambda>s. session_inv (insert (wl_nonce d) N) T (view s)"
  have keep: "preserves ?I m \<Longrightarrow> ?I s' \<Longrightarrow> wp m (\<lambda>_. ?I) (\<lambda>_ _. True) s'" for m :: "('s, login_response) prog" and s'
    by (rule wp_mono [OF preservesD]) simp_all
  show ?thesis
    unfolding walletLogin_def
  proof (intro wpi_seqE check_reads)
    fix i n
    assume "v_nonces (view s) i = Some n" "ln_nonce n = wl_nonce d"
    with assms have "wl_nonce d \<in> v_issued (view s)" unfolding session_inv_def by metis
    with assms have "wp (markNonceUsed A (wl_nonce d)) (\<lambda>_. ?I) (\<lambda>_ _. True) s" by (rule mark_spends)
    then show "wp (grant_login A d) (\<lambda>_. ?I) (\<lambda>_ _. True) s"
      unfolding grant_login_def
      by (intro wpi_seqE, elim wp_mono, intro keep)
        (simp only: request_parts, intro inv_intros, simp_all)
  qed simp_all
qed

lemma refresh_spends:
  assumes "session_inv N T (view s)"
  shows "wp (refreshAccessToken A t) (\<lambda>_ s'. session_inv N (insert t T) (view s')) (\<lambda>_ _. True) s"
proof -
  let ?I = "\<lambda>s. session_inv N (insert t T) (view s)"
  have keep: "preserves ?I m \<Longrightarrow> ?I s' \<Longrightarrow> wp m (\<lambda>_. ?I) (\<lambda>_ _. True) s'" for m :: "('s, string \<times> string) prog" and s'
    by (rule wp_mono [OF preservesD]) simp_all
  have revoke: "v_refresh (view s) (rt_id r) = Some r \<Longrightarrow> rt_token r = t \<Longrightarrow>
      wp (revokeRefreshToken A (rt_id r)) (\<lambda>_. ?I) (\<lambda>_ _. True) s" for r
    using revoke_spends [OF assms] by blast
  show ?thesis
    unfolding refreshAccessToken_def user_relation_def
    by (intro wpi_bindE wpi_option wpi_if wpi_throwE wpi_find wpi_find_row wpi_readE wpi_seqE; simp;
        (elim conjE)?; rule wp_mono [OF revoke], assumption+; simp?;
        intro keep; simp only: request_parts; intro inv_intros; simp)
qed

subsection \<open>Wallets\<close>

lemma no_wallet_writes [inv_intros]:
  "preserves (\<lambda>s. K (v_wallets (view s)) (v_users (view s))) (ae_uuid A)"
  "preserves (\<lambda>s. K (v_wallets (view s)) (v_users (view s))) (ae_hash A p)"
  "preserves (\<lambda>s. K (v_wallets (view s)) (v_users (view s))) (generateNonce A k)"
  "preserves (\<lambda>s. K (v_wallets (view s)) (v_users (view s))) (markNonceUsed A n)"
  "preserves (\<lambda>s. K (v_wallets (view s)) (v_users (view s))) (cleanupExpiredNonces A)"
  "preserves (\<lambda>s. K (v_wallets (view s)) (v_users (view s))) (generateRefreshToken A u)"
  "preserves (\<lambda>s. K (v_wallets (view s)) (v_users (view s))) (revokeRefreshToken A i)"
  "preserves (\<lambda>s. K (v_wallets (view s)) (v_users (view s))) (revokeAllUserRefreshTokens A u)"
  "preserves (\<lambda>s. K (v_wallets (view s)) (v_users (view s))) (repo_insert (ae_apiTokens A) t)"
  "preserves (\<lambda>s. K (v_wallets (view s)) (v_users (view s)))
     (repo_update (ae_apiTokens A) (\<lambda>t. at_id t = i) (\<lambda>t. t\<lparr>at_lastUsedAt := l\<rparr>))"
  "preserves (\<lambda>s. K (v_wallets (view s)) (v_users (view s)))
     (repo_update (ae_apiTokens A) (\<lambda>t. at_id t = i) (\<lambda>t. t\<lparr>at_revoked := True\<rparr>))"
  unfolding generateNonce_def markNonceUsed_def cleanupExpiredNonces_def generateRefreshToken_def
    revokeRefreshToken_def revokeAllUserRefreshTokens_def logAction_def user_relation_def
  by (intro preservesI wp_intros; simp)+

lemma validate_among_wallets [inv_intros]:
  "preserves (\<lambda>s. K (v_wallets (view s)) (v_users (view s))) (validate_among A p ts)"
  by (induction ts) (auto simp: user_relation_def intro!: inv_intros)

abbreviation (input) wallets_ok :: "'s \<Rightarrow> bool" where
  "wallets_ok s \<equiv> wallets_inv (v_wallets (view s)) (v_users (view s))"

lemma updateLastUsed_wallets [inv_intros]:
  "preserves wallets_ok (updateLastUsed A k)"
  "preserves (\<lambda>s. wallets_ok s \<and> wallet_user j u (v_wallets (view s)) (v_users (view s))) (updateLastUsed A k)"
  unfolding updateLastUsed_def
  by (intro preservesI wp_intros; auto intro!: wallets_inv_touch wallet_user_touch split: if_splits)+

lemma bindWalletToUser_wallets:
  assumes "wallets_ok s" and "v_users (view s) u \<noteq> None"
  shows "wp (bindWalletToUser A k u False) (\<lambda>_. wallets_ok) (\<lambda>_. wallets_ok) s"
  unfolding bindWalletToUser_def
  by (intro wp_intros) (use assms in \<open>auto simp: wb_gen_def intro!: wallets_inv_bind\<close>)

lemma createUserWithWallet_wallets:
  assumes "wallets_ok s" and "\<And>j a. v_wallets (view s) j = Some a \<Longrightarrow> wb_publicKey a \<noteq> k"
  shows "wp (createUserWithWallet A k)
    (\<lambda>u s'. wallets_ok s' \<and> wallet_user k u (v_wallets (view s')) (v_users (view s'))) (\<lambda>_ _. False) s"
  unfolding createUserWithWallet_def bindWalletToUser_def
  by (intro wp_intros) (use assms in \<open>auto simp: wb_gen_def us_gen_def wallet_user_def intro!: wallets_inv_new_user\<close>)

lemma unbindWallet_wallets [inv_intros]: "preserves wallets_ok (unbindWallet A k u)"
  unfolding unbindWallet_def
  by (intro preservesI wp_intros)
    (auto intro: wallets_inv_unbind wallets_inv_promote split: if_splits, erule notE, rule sole_wallet [OF _ refl], assumption, blast)

lemma generateRefreshToken_row:
  assumes "K (v_wallets (view s)) (v_users (view s))"
  shows "wp (generateRefreshToken A u) (\<lambda>r s'. K (v_wallets (view s')) (v_users (view s')) \<and>
      active_token (fst r) u (v_refresh (view s'))) (\<lambda>_ _. False) s"
  unfolding generateRefreshToken_def logAction_def user_relation_def
  by (intro wp_intros) (use assms in \<open>auto simp: rt_gen_def active_token_def\<close>)

text \<open>After the check a login cannot fail: its three stages.\<close>

lemma issue_login_tokens:
  fixes u :: User and k :: string
  defines "K \<equiv> \<lambda>w us. wallets_inv w us \<and> wallet_user k u w us"
  assumes "K (v_wallets (view s)) (v_users (view s))"
  shows "wp (seqE (updateLastUsed A k) (bindE (generateAccessToken A (us_id u) None) (\<lambda>a.
       bindE (generateRefreshToken A (us_id u)) (\<lambda>(token, tokenId, expiresAt).
       returnE \<lparr>lr_accessToken = a, lr_refreshToken = token, lr_user = u\<rparr>))))
    (\<lambda>r s'. K (v_wallets (view s')) (v_users (view s')) \<and> lr_user r = u \<and>
       active_token (lr_refreshToken r) (us_id u) (v_refresh (view s'))) (\<lambda>_ _. False) s"
  unfolding updateLastUsed_def generateAccessToken_def
proof (intro wpi_seqE wpi_bindE wpi_readE wpi_update wpi_ignoreE, goal_cases)
  case (1 c s1)
  then have "K (v_wallets (view s1)) (v_users (view s1))"
    using assms(2) by (auto simp: K_def intro!: wallets_inv_touch wallet_user_touch split: if_splits)
  then show ?case
    by (rule wp_mono [OF generateRefreshToken_row [where K = K]]) (auto simp: wp_simps)
qed simp

lemma createUserWithWallet_fresh:
  "wp (createUserWithWallet A k) (\<lambda>u _. v_users (view s) (us_id u) = None) (\<lambda>_ _. True) s"
  unfolding createUserWithWallet_def bindWalletToUser_def Let_def by (intro wp_intros) auto

lemma create_login_user:
  assumes "wallets_ok s" and "\<And>j a. v_wallets (view s) j = Some a \<Longrightarrow> wb_publicKey a \<noteq> k"
  shows "wp (bindE (createUserWithWallet A k) (\<lambda>u. seqE (logAction A x (us_id u) (Some (us_id u)) z) (returnE u)))
    (\<lambda>u s'. wallets_ok s' \<and> wallet_user k u (v_wallets (view s')) (v_users (view s')) \<and>
      v_users (view s) (us_id u) = None) (\<lambda>_ _. False) s"
proof (rule wpi_bindE)
  have "wp (createUserWithWallet A k) (\<lambda>u s'. (wallets_ok s' \<and> wallet_user k u (v_wallets (view s')) (v_users (view s'))) \<and>
      v_users (view s) (us_id u) = None) (\<lambda>_ _. False) s"
    using createUserWithWallet_wallets [OF assms] createUserWithWallet_fresh [of k s]
    by (auto simp: wp_def split: prod.splits sum.splits)
  then show "wp (createUserWithWallet A k) (\<lambda>u. wp (seqE (logAction A x (us_id u) (Some (us_id u)) z) (returnE u))
      (\<lambda>u s'. wallets_ok s' \<and> wallet_user k u (v_wallets (view s')) (v_users (view s')) \<and> v_users (view s) (us_id u) = None)
      (\<lambda>_ _. False)) (\<lambda>_ _. False) s"
    by (rule wp_mono) (auto simp: logAction_def intro!: wp_intros)
qed

lemma find_login_user:
  assumes "wallets_ok s"
  shows "wp (findUserByWallet A k)
    (\<lambda>r s'. s' = s \<and> (case r of Some u \<Rightarrow> wallet_user k u (v_wallets (view s)) (v_users (view s))
       | None \<Rightarrow> \<forall>j a. v_wallets (view s) j = Some a \<longrightarrow> wb_publicKey a \<noteq> k)) (\<lambda>_ _. False) s"
  unfolding findUserByWallet_def user_relation_def
proof (rule wpi_bindE, rule W.wpi_findOne, goal_cases)
  case (1 b)
  then obtain u where u: "v_users (view s) (wb_userId b) = Some u"
    using assms unfolding wallets_inv_def by blast
  moreover from u have "us_id u = wb_userId b" by (rule U.key_tab)
  ultimately show ?case
    using 1 by (auto simp: wallet_user_def U.wp_repo U.findOne_key)
qed (auto simp: wp_simps)

lemma grant_login_ok:
  assumes "wallets_ok s"
  shows "wp (grant_login A d) (\<lambda>r s'. wallets_ok s' \<and>
      wallet_user (wl_publicKey d) (lr_user r) (v_wallets (view s')) (v_users (view s')) \<and>
      active_token (lr_refreshToken r) (us_id (lr_user r)) (v_refresh (view s')) \<and>
      login_user (wl_publicKey d) (v_wallets (view s)) (v_users (view s)) (lr_user r)) (\<lambda>_ _. False) s"
    (is "wp _ ?Q ?X s")
proof -
  let ?k = "wl_publicKey d"
  let ?same = "\<lambda>t. v_wallets (view t) = v_wallets (view s) \<and> v_users (view t) = v_users (view s)"
  have mark: "wp (markNonceUsed A n) (\<lambda>_. ?same) ?X s" for n
    unfolding markNonceUsed_def by (intro wp_intros) auto
  have tail: "wp (seqE (updateLastUsed A ?k) (bindE (generateAccessToken A (us_id u) None) (\<lambda>a.
       bindE (generateRefreshToken A (us_id u)) (\<lambda>(token, tokenId, expiresAt).
       returnE \<lparr>lr_accessToken = a, lr_refreshToken = token, lr_user = u\<rparr>)))) ?Q ?X t"
    if "wallets_ok t" "wallet_user ?k u (v_wallets (view t)) (v_users (view t))"
      "login_user ?k (v_wallets (view s)) (v_users (view s)) u" for t u
    by (rule wp_mono [OF issue_login_tokens [where k = ?k and u = u]]) (use that in auto)
  show ?thesis
    unfolding grant_login_def
  proof (intro wpi_seqE wpi_bindE, rule wp_mono [OF mark], goal_cases)
    case (1 v s1)
    then have same: "v_wallets (view s1) = v_wallets (view s)" "v_users (view s1) = v_users (view s)" by auto
    with assms have ok1: "wallets_ok s1" by simp
    show ?case
    proof (intro wpi_bindE, rule wp_mono [OF find_login_user [OF ok1]], goal_cases)
      case (1 r s2)
      show ?case
      proof (cases r)
        case None
        with 1 ok1 have free: "wallets_ok s2" "\<And>j a. v_wallets (view s2) j = Some a \<Longrightarrow> wb_publicKey a \<noteq> ?k" by auto
        show ?thesis unfolding None option.case
          by (rule wpi_bindE, rule wp_mono [OF create_login_user [OF free]])
            (use 1 None same in \<open>auto intro!: tail, auto simp: login_user_def\<close>)
      next
        case (Some u)
        with 1 same have "wallet_user ?k u (v_wallets (view s)) (v_users (view s))" by simp
        then have "login_user ?k (v_wallets (view s)) (v_users (view s)) u" by (auto simp: login_user_def wallet_user_def)
        then show ?thesis unfolding Some option.case
          by (intro wpi_bindE wpi_returnE, intro tail) (use 1 Some ok1 in auto)
      qed
    qed simp
  qed simp
qed

text \<open>Every request keeps the wallet invariant.\<close>

lemma guarded_wallets:
  assumes "\<And>s user. wallets_ok s \<Longrightarrow> v_users (view s) (us_id user) = Some user \<Longrightarrow> wp (m user) (\<lambda>_. wallets_ok) (\<lambda>_. wallets_ok) s"
  shows "preserves wallets_ok (bindE (JwtAuthGuard A jwt) m)"
  unfolding JwtAuthGuard_def JwtStrategy_validate_def activeUser_def
  by (intro preservesI wp_intros) (auto intro!: assms, metis U.key_tab)

lemma login_wallets [inv_intros]: "preserves wallets_ok (walletLogin A d)"
  unfolding walletLogin_def
  by (intro preservesI wpi_seqE check_reads wp_mono [OF grant_login_ok]) simp_all

lemma check_preserves [inv_intros]: "preserves I (check_signed_nonce A d)"
  by (intro preservesI check_reads)

lemma bindWallet_wallets:
  assumes "wallets_ok s" and "v_users (view s) (us_id user) = Some user"
  shows "wp (bindWallet A user d) (\<lambda>_. wallets_ok) (\<lambda>_. wallets_ok) s"
  unfolding bindWallet_def markNonceUsed_def
  by (intro wpi_seqE wpi_ignoreE check_reads wpi_update bindWalletToUser_wallets) (use assms in simp_all)

text \<open>The token a refresh returns is in force.\<close>

lemma refresh_active:
  "wp (refreshAccessToken A t) (\<lambda>r s'. \<exists>u. active_token (snd r) u (v_refresh (view s'))) (\<lambda>_ _. True) s"
proof -
  have new: "wp (generateRefreshToken A u) (\<lambda>r s'. active_token (fst r) u (v_refresh (view s'))) (\<lambda>_ _. True) s" for u s
    by (rule wp_mono [OF generateRefreshToken_row [where K = "\<lambda>_ _. True"]]) auto
  show ?thesis
    unfolding refreshAccessToken_def user_relation_def revokeRefreshToken_def logAction_def generateAccessToken_def
    by (intro wp_intros wp_mono [OF new]) (auto simp: wp_simps)
qed

lemma handle_preserves_wallets: "preserves wallets_ok (handle A r)"
proof (cases r)
  case (BindWallet jwt d)
  then show ?thesis
    by (simp only: handle.simps) (intro guarded_wallets wpi_ignoreE bindWallet_wallets)
next
  case (WalletLogin d)
  then show ?thesis by (simp only: handle.simps) (intro inv_intros)
qed (simp only: handle.simps request_parts; intro inv_intros)+

lemma serve_wallets: "wallets_ok s \<Longrightarrow> wallets_ok (serve A rs s)"
  by (induction rs arbitrary: s) (simp_all add: preserves_snd [OF handle_preserves_wallets])

subsection \<open>API tokens\<close>

lemma created_token_row:
  "wp (createApiToken A u name role days) (\<lambda>(token, i, expiresAt) s'. \<exists>row.
      v_apiTokens (view s) i = None \<and> v_apiTokens (view s') = (v_apiTokens (view s))(i \<mapsto> row) \<and> v_users (view s') = v_users (view s) \<and>
      ae_compare A token (at_token row) \<and> at_id row = i \<and> at_role row = role \<and> at_userId row = u \<and>
      at_expiresAt row = expiresAt \<and> \<not> at_revoked row) (\<lambda>_ _. False) s"
  unfolding createApiToken_def by (intro wp_intros) (auto simp: at_gen_def)

lemma validate_among_hit:
  assumes "row \<in> set ts" and "ae_compare A p (at_token row)"
    and "\<And>x. x \<in> set ts \<Longrightarrow> ae_compare A p (at_token x) \<Longrightarrow> x = row"
    and "\<And>x. at_expiresAt row = Some x \<Longrightarrow> ae_now A s \<le> x"
    and "v_users (view s) (at_userId row) = Some u" and "us_isActive u"
  shows "wp (validate_among A p ts) (\<lambda>r _. r = (at_userId row, at_role row, at_id row)) (\<lambda>_ _. False) s"
  using assms(1,3)
proof (induction ts)
  case (Cons t ts)
  show ?case
  proof (cases "ae_compare A p (at_token t)")
    case True
    with Cons.prems have "t = row" by simp
    with True show ?thesis
      using assms(4-6) unfolding validate_among.simps user_relation_def
      by (intro wp_intros) (auto split: option.splits)
  next
    case False
    with assms(2) Cons.prems(1) have "row \<in> set ts" by auto
    with Cons.prems(2) have "wp (validate_among A p ts) (\<lambda>r _. r = (at_userId row, at_role row, at_id row)) (\<lambda>_ _. False) s"
      by (intro Cons.IH) simp_all
    with False show ?thesis by simp
  qed
qed simp

lemma created_token_accepted:
  assumes run: "createApiToken A u name role days s = (Inr (token, i, expiresAt), s')"
    and others: "\<And>j x. v_apiTokens (view s) j = Some x \<Longrightarrow> \<not> ae_compare A token (at_token x)"
    and user: "v_users (view s) u = Some usr" "us_isActive usr"
    and time: "\<And>x. expiresAt = Some x \<Longrightarrow> ae_now A s' \<le> x"
    and header: "token \<noteq> []" "CHR '' '' \<notin> set token"
  shows "\<exists>s''. ApiTokenGuard A (Some (''Bearer '' @ token)) s' =
    (Inr \<lparr>ru_id = u, ru_role = Some role, ru_tokenId = Some i\<rparr>, s'')"
proof -
  obtain row where row: "v_apiTokens (view s) i = None" "v_apiTokens (view s') = (v_apiTokens (view s))(i \<mapsto> row)"
      "v_users (view s') = v_users (view s)" "ae_compare A token (at_token row)" "at_id row = i" "at_role row = role"
      "at_userId row = u" "at_expiresAt row = expiresAt" "\<not> at_revoked row"
    using created_token_row [of u name role days s] by (auto simp: wp_def run)
  have "js_split CHR '' '' (''Bearer'' @ CHR '' '' # token) = ''Bearer'' # js_split CHR '' '' token"
    by (rule js_split_append) simp
  then have "extractTokenFromHeader (Some (''Bearer '' @ token)) = Some token"
    using header by (simp add: extractTokenFromHeader_def js_split_plain)
  moreover have "wp (validateApiToken A token) (\<lambda>r _. r = (u, role, i)) (\<lambda>_ _. False) s'"
    unfolding validateApiToken_def
  proof (intro wpi_bindE wpi_find, goal_cases)
    case (1 ts)
    then have ts: "x \<in> set ts \<longleftrightarrow> v_apiTokens (view s') (at_id x) = Some x \<and> \<not> at_revoked x" for x
      using T.find_memb by simp
    have "wp (validate_among A token ts) (\<lambda>r _. r = (at_userId row, at_role row, at_id row)) (\<lambda>_ _. False) s'"
      by (rule validate_among_hit [where u = usr])
        (use row others user time in \<open>auto simp: ts split: if_splits\<close>)
    then show ?case by (simp add: row)
  qed
  ultimately show ?thesis
    using header by (auto simp: ApiTokenGuard_def catchE_def bindE_def returnE_def wp_value)
qed

end

section \<open>Two logins at the same time\<close>

text \<open>
  A login between its waits: each step is one of its reads or writes of the database, and another request may come before
  the next one.
\<close>

datatype login_point = AtCheck | AtMark | AtFind | AtStamp User | AtTokens User | LoggedIn login_response | LoginFailed exn

fun login_step :: "'s auth_env \<Rightarrow> WalletLoginDto \<Rightarrow> login_point \<Rightarrow> ('s, login_point) prog" where
  "login_step A d AtCheck = seqE (check_signed_nonce A d) (returnE AtMark)"
| "login_step A d AtMark = seqE (markNonceUsed A (wl_nonce d)) (returnE AtFind)"
| "login_step A d AtFind =
     bindE (findUserByWallet A (wl_publicKey d)) (\<lambda>found.
     bindE (case found of
              Some u \<Rightarrow> returnE u
            | None \<Rightarrow>
                bindE (createUserWithWallet A (wl_publicKey d)) (\<lambda>u.
                seqE (logAction A ''USER_CREATED'' (us_id u) (Some (us_id u)) (Some [(''wallet'', AText (wl_publicKey d))]))
                (returnE u))) (\<lambda>user. returnE (AtStamp user)))"
| "login_step A d (AtStamp user) = seqE (updateLastUsed A (wl_publicKey d)) (returnE (AtTokens user))"
| "login_step A d (AtTokens user) =
     bindE (generateAccessToken A (us_id user) None) (\<lambda>accessToken.
     bindE (generateRefreshToken A (us_id user)) (\<lambda>(token, tokenId, expiresAt).
       returnE (LoggedIn \<lparr>lr_accessToken = accessToken, lr_refreshToken = token, lr_user = user\<rparr>)))"
| "login_step A d done = returnE done"

definition login_advance :: "'s auth_env \<Rightarrow> WalletLoginDto \<Rightarrow> login_point \<times> 's \<Rightarrow> login_point \<times> 's" where
  "login_advance A d p = (case login_step A d (fst p) (snd p) of (Inl e, s') \<Rightarrow> (LoginFailed e, s') | (Inr l, s') \<Rightarrow> (l, s'))"

text \<open>Taken without interruption, the five steps are the request.\<close>

lemma login_alone:
  "(login_advance A d ^^ 5) (AtCheck, s) =
     (case walletLogin A d s of (Inl e, s') \<Rightarrow> (LoginFailed e, s') | (Inr r, s') \<Rightarrow> (LoggedIn r, s'))"
  by (simp add: numeral_eq_Suc login_advance_def walletLogin_def grant_login_def seqE_def bindE_def returnE_def
      split: prod.split sum.split option.split)

text \<open>A schedule says which of the two logins takes its next step; \<open>True\<close> is the first.\<close>

fun two_logins :: "'s auth_env \<Rightarrow> WalletLoginDto \<Rightarrow> bool list \<Rightarrow> (login_point \<times> login_point) \<times> 's \<Rightarrow> (login_point \<times> login_point) \<times> 's" where
  "two_logins A d [] c = c"
| "two_logins A d (first # rest) ((l, m), s) = two_logins A d rest
     (if first then let (l', s') = login_advance A d (l, s) in ((l', m), s')
      else let (m', s') = login_advance A d (m, s) in ((l, m'), s'))"

fun steps_left :: "login_point \<Rightarrow> nat" where
  "steps_left AtCheck = 5"
| "steps_left AtMark = 4"
| "steps_left AtFind = 3"
| "steps_left (AtStamp u) = 2"
| "steps_left (AtTokens u) = 1"
| "steps_left _ = 0"

text \<open>A login past its check, of the user \<open>u\<close>: it has not failed, and a token it returned is in force.\<close>

fun past_check :: "User \<Rightarrow> (string \<Rightarrow> RefreshToken option) \<Rightarrow> login_point \<Rightarrow> bool" where
  "past_check u rs AtCheck = False"
| "past_check u rs (AtStamp v) = (v = u)"
| "past_check u rs (AtTokens v) = (v = u)"
| "past_check u rs (LoggedIn r) = (lr_user r = u \<and> active_token (lr_refreshToken r) (us_id u) rs)"
| "past_check u rs (LoginFailed e) = False"
| "past_check u rs _ = True"

lemma past_check_mono:
  "past_check u rs l \<Longrightarrow> (\<And>t. active_token t (us_id u) rs \<Longrightarrow> active_token t (us_id u) rs') \<Longrightarrow> past_check u rs' l"
  by (cases l) auto

context auth_store
begin

text \<open>The wallet is bound to \<open>u\<close>, and the tokens in force stay so.\<close>

definition bound_to :: "string \<Rightarrow> User \<Rightarrow> 's \<Rightarrow> bool" where
  "bound_to k u s \<longleftrightarrow> wallets_ok s \<and> wallet_user k u (v_wallets (view s)) (v_users (view s))"

definition tokens_kept :: "'s \<Rightarrow> 's \<Rightarrow> bool" where
  "tokens_kept s s' \<longleftrightarrow> (\<forall>t i. active_token t i (v_refresh (view s)) \<longrightarrow> active_token t i (v_refresh (view s')))"

lemma bound_user_unique: "bound_to k u s \<Longrightarrow> wallet_user k v (v_wallets (view s)) (v_users (view s)) \<Longrightarrow> v = u"
  unfolding bound_to_def wallets_inv_def wallet_user_def by (metis option.inject)

lemma advance_ok:
  assumes "bound_to (wl_publicKey d) u s" and "past_check u (v_refresh (view s)) l"
  shows "wp (login_step A d l) (\<lambda>l' s'. bound_to (wl_publicKey d) u s' \<and> tokens_kept s s' \<and>
      past_check u (v_refresh (view s')) l' \<and> steps_left l' = steps_left l - 1) (\<lambda>_ _. False) s"
proof (cases l)
  case AtMark
  then show ?thesis
    using assms by (simp add: markNonceUsed_def, intro wp_intros) (auto simp: bound_to_def tokens_kept_def)
next
  case AtFind
  have "wp (findUserByWallet A (wl_publicKey d)) (\<lambda>r s'. s' = s \<and> r = Some u) (\<lambda>_ _. False) s"
  proof (rule wp_mono [OF find_login_user], goal_cases)
    case (2 r s')
    with assms(1) show ?case
      by (cases r) (auto simp: bound_to_def wallet_user_def, metis assms(1) bound_user_unique wallet_user_def)
  qed (use assms(1) in \<open>simp_all add: bound_to_def\<close>)
  then show ?thesis unfolding AtFind login_step.simps
    by (intro wpi_bindE, elim wp_mono) (use assms(1) in \<open>auto simp: wp_simps tokens_kept_def\<close>)
next
  case (AtStamp v)
  then show ?thesis
    using assms by (simp add: updateLastUsed_def, intro wp_intros)
      (auto simp: bound_to_def tokens_kept_def intro!: wallets_inv_touch wallet_user_touch split: if_splits)
next
  case (AtTokens v)
  then show ?thesis
    using assms
    by (simp add: generateAccessToken_def generateRefreshToken_def logAction_def user_relation_def, intro wp_intros)
      (auto simp: bound_to_def tokens_kept_def rt_gen_def intro: active_token_insert,
       rule active_token_new [where r = "RefreshToken.make _ t (us_id u) _ False _ _" for t, unfolded RefreshToken.defs, simplified])
qed (use assms in \<open>simp_all add: wp_simps tokens_kept_def\<close>)

lemma advances:
  assumes "bound_to (wl_publicKey d) u s" and "past_check u (v_refresh (view s)) l"
  obtains l' s' where "login_advance A d (l, s) = (l', s')" "bound_to (wl_publicKey d) u s'" "tokens_kept s s'"
    "past_check u (v_refresh (view s')) l'" "steps_left l' = steps_left l - 1"
  using advance_ok [OF assms] by (auto simp: login_advance_def wp_value)

lemma kept_check: "past_check u (v_refresh (view s)) l \<Longrightarrow> tokens_kept s s' \<Longrightarrow> past_check u (v_refresh (view s')) l"
  by (erule past_check_mono) (simp add: tokens_kept_def)

lemma both_finish:
  assumes "bound_to (wl_publicKey d) u s" and "past_check u (v_refresh (view s)) l" and "past_check u (v_refresh (view s)) m"
    and "steps_left l \<le> count_list bs True" and "steps_left m \<le> count_list bs False"
  shows "\<exists>l' m' s'. two_logins A d bs ((l, m), s) = ((l', m'), s') \<and> past_check u (v_refresh (view s')) l' \<and>
    past_check u (v_refresh (view s')) m' \<and> steps_left l' = 0 \<and> steps_left m' = 0"
  using assms
proof (induction bs arbitrary: l m s)
  case (Cons first bs)
  show ?case
  proof (cases first)
    case True
    obtain l' s' where "login_advance A d (l, s) = (l', s')" "bound_to (wl_publicKey d) u s'" "tokens_kept s s'"
      "past_check u (v_refresh (view s')) l'" "steps_left l' = steps_left l - 1"
      using Cons.prems(1,2) by (rule advances)
    with Cons.IH [of s' l' m] Cons.prems True show ?thesis by (simp add: kept_check)
  next
    case False
    obtain m' s' where "login_advance A d (m, s) = (m', s')" "bound_to (wl_publicKey d) u s'" "tokens_kept s s'"
      "past_check u (v_refresh (view s')) m'" "steps_left m' = steps_left m - 1"
      using Cons.prems(1,3) by (rule advances)
    with Cons.IH [of s' l m'] Cons.prems False show ?thesis by (simp add: kept_check)
  qed
qed auto

end

lemma logged_in: "past_check u rs l \<Longrightarrow> steps_left l = 0 \<Longrightarrow>
    \<exists>r. l = LoggedIn r \<and> lr_user r = u \<and> active_token (lr_refreshToken r) (us_id u) rs"
  by (cases l) auto

section \<open>An in-memory environment\<close>

text \<open>
  The tables are lists, \<open>randomUUID\<close> counts, a hash is the text behind a prefix, an access token the
  subject behind a prefix, and a signature is valid when it is the key followed by the message.
\<close>

record auth_mem =
  am_nonces :: "LoginNonce list"
  am_wallets :: "WalletBinding list"
  am_users :: "User list"
  am_refresh :: "RefreshToken list"
  am_apiTokens :: "ApiToken list"
  am_audit :: "AuditLog list"
  am_next :: nat
  am_clock :: int

definition al_gen :: "string \<Rightarrow> int \<Rightarrow> AuditLog \<Rightarrow> AuditLog" where
  "al_gen i t l = l\<lparr>al_id := i, al_timestamp := t\<rparr>"

definition mem_auth :: "auth_mem auth_env" where
  "mem_auth = \<lparr>
     ae_nonces = mem_repo am_nonces (\<lambda>xs s. s\<lparr>am_nonces := xs\<rparr>) am_clock ln_id (\<lambda>_ e. e) ln_gen,
     ae_wallets = mem_repo am_wallets (\<lambda>xs s. s\<lparr>am_wallets := xs\<rparr>) am_clock wb_id (\<lambda>_ e. e) wb_gen,
     ae_users = mem_repo am_users (\<lambda>xs s. s\<lparr>am_users := xs\<rparr>) am_clock us_id us_stamp us_gen,
     ae_refresh = mem_repo am_refresh (\<lambda>xs s. s\<lparr>am_refresh := xs\<rparr>) am_clock rt_id (\<lambda>_ e. e) rt_gen,
     ae_apiTokens = mem_repo am_apiTokens (\<lambda>xs s. s\<lparr>am_apiTokens := xs\<rparr>) am_clock at_id (\<lambda>_ e. e) at_gen,
     ae_audit = mem_repo am_audit (\<lambda>xs s. s\<lparr>am_audit := xs\<rparr>) am_clock al_id (\<lambda>_ e. e) al_gen,
     ae_now = am_clock,
     ae_uuid = (\<lambda>s. (Inr (show_nat (am_next s)), s\<lparr>am_next := Suc (am_next s)\<rparr>)),
     ae_sign = (\<lambda>s p. ''jwt:'' @ jp_sub p),
     ae_jwt = (\<lambda>s t. if take 4 t = ''jwt:'' then Some \<lparr>jp_sub = drop 4 t, jp_walletId = None\<rparr> else None),
     ae_decodeKey = Inr,
     ae_fromBase64 = (\<lambda>x. x),
     ae_utf8 = (\<lambda>x. x),
     ae_verify = (\<lambda>m g k. Inr (g = k @ m)),
     ae_hash = (\<lambda>p. returnE (''hash:'' @ p)),
     ae_compare = (\<lambda>p h. h = ''hash:'' @ p),
     ae_tz = 0,
     ae_defaultDays = None\<rparr>"

definition mem_auth_view :: "auth_mem \<Rightarrow> auth_view" where
  "mem_auth_view s = \<lparr>v_nonces = mem_tab am_nonces ln_id s, v_wallets = mem_tab am_wallets wb_id s,
     v_users = mem_tab am_users us_id s, v_refresh = mem_tab am_refresh rt_id s,
     v_apiTokens = mem_tab am_apiTokens at_id s, v_issued = {show_nat i | i. i < am_next s}\<rparr>"

lemma mem_auth_store: "auth_store mem_auth mem_auth_view"
proof -
  have "repo_table (ae_nonces mem_auth) (\<lambda>s. v_nonces (mem_auth_view s)) ln_id (\<lambda>_ e. e) ln_gen"
    "repo_table (ae_wallets mem_auth) (\<lambda>s. v_wallets (mem_auth_view s)) wb_id (\<lambda>_ e. e) wb_gen"
    "repo_table (ae_users mem_auth) (\<lambda>s. v_users (mem_auth_view s)) us_id us_stamp us_gen"
    "repo_table (ae_refresh mem_auth) (\<lambda>s. v_refresh (mem_auth_view s)) rt_id (\<lambda>_ e. e) rt_gen"
    "repo_table (ae_apiTokens mem_auth) (\<lambda>s. v_apiTokens (mem_auth_view s)) at_id (\<lambda>_ e. e) at_gen"
    by (simp_all add: mem_auth_def mem_auth_view_def auth_gen_defs us_stamp_def mem_repo_table)
  moreover have "auth_store_axioms mem_auth mem_auth_view"
  proof
    show "ok (repo_insert (ae_audit mem_auth) l) s" for l s
      by (simp add: mem_auth_def mem_repo_def ok_def Let_def)
    show "mem_auth_view (fin (ae_uuid mem_auth) s) =
        (mem_auth_view s)\<lparr>v_issued := insert (res (ae_uuid mem_auth) s) (v_issued (mem_auth_view s))\<rparr>" for s
      by (auto simp: mem_auth_def mem_auth_view_def mem_tab_def fin_def res_def less_Suc_eq)
  qed (auto simp: mem_auth_def mem_auth_view_def mem_tab_def ok_def fin_def res_def returnE_def fun_eq_iff intro!: mem_repo_keeps)
  ultimately show ?thesis by (simp add: auth_store_def)
qed

interpretation amem: auth_store mem_auth mem_auth_view
  by (rule mem_auth_store)

text \<open>A client asks for a nonce at time 0 and signs the message.\<close>

definition auth_mem_empty :: auth_mem where
  "auth_mem_empty = \<lparr>am_nonces = [], am_wallets = [], am_users = [], am_refresh = [], am_apiTokens = [],
     am_audit = [], am_next = 0, am_clock = 0\<rparr>"

definition demo_login :: WalletLoginDto where
  "demo_login = \<lparr>wl_publicKey = ''GA'', wl_signature = ''GA'' @ sign_message ''0'', wl_nonce = ''0''\<rparr>"

definition demo_nonce_store :: auth_mem where
  "demo_nonce_store = serve mem_auth [RequestNonce ''GA''] auth_mem_empty"

definition demo_logged_in :: auth_mem where
  "demo_logged_in = serve mem_auth [WalletLogin demo_login] demo_nonce_store"

definition demo_user :: User where
  "demo_user = \<lparr>us_id = ''u'', us_email = None, us_username = None, us_createdAt = 0, us_updatedAt = 0, us_isActive = True\<rparr>"

lemma empty_session: "session_inv {} {} (mem_auth_view auth_mem_empty)"
  by (simp add: session_inv_def mem_auth_view_def mem_tab_def auth_mem_empty_def)

lemma empty_wallets: "wallets_inv (v_wallets (mem_auth_view auth_mem_empty)) (v_users (mem_auth_view auth_mem_empty))"
  by (simp add: wallets_inv_def mem_auth_view_def mem_tab_def auth_mem_empty_def)

lemma demo_inv:
  "session_inv {} {} (mem_auth_view demo_nonce_store)"
  "wallets_inv (v_wallets (mem_auth_view demo_nonce_store)) (v_users (mem_auth_view demo_nonce_store))"
  unfolding demo_nonce_store_def by (intro amem.serve_session amem.serve_wallets empty_session empty_wallets)+

lemma demo_one_nonce: "length (am_nonces demo_nonce_store) = 1"
  by code_simp

lemma demo_login_runs:
  "\<exists>r. walletLogin mem_auth demo_login demo_nonce_store = (Inr r, snd (walletLogin mem_auth demo_login demo_nonce_store))"
proof -
  have "\<not> isl (fst (walletLogin mem_auth demo_login demo_nonce_store))" by code_simp
  then show ?thesis
    by (cases "walletLogin mem_auth demo_login demo_nonce_store"; cases "fst (walletLogin mem_auth demo_login demo_nonce_store)")
      auto
qed

lemma demo_admin_token:
  "createApiToken_request mem_auth demo_user ''cli'' ''admin'' None demo_logged_in =
     (Inr (''stl_23'', ''u'', Some (90 * day_ms)), snd (createApiToken_request mem_auth demo_user ''cli'' ''admin'' None demo_logged_in))"
  "ae_now mem_auth (snd (createApiToken_request mem_auth demo_user ''cli'' ''admin'' None demo_logged_in)) = 0"
  "us_isActive demo_user"
  by code_simp+

lemma demo_user_view: "v_users (mem_auth_view demo_logged_in) (us_id demo_user) = Some demo_user"
proof -
  have "mem_tab am_users us_id demo_logged_in (us_id demo_user) = Some demo_user" by code_simp
  then show ?thesis by (simp add: mem_auth_view_def)
qed

lemma demo_no_tokens: "v_apiTokens (mem_auth_view demo_logged_in) j = None"
proof -
  have "am_apiTokens demo_logged_in = []" by code_simp
  then show ?thesis by (simp add: mem_auth_view_def mem_tab_def)
qed

lemma digits_val_acc: "\<forall>c \<in> set xs. is_digit c \<Longrightarrow> digits_val acc xs = acc * 10 ^ length xs + digits_val 0 xs"
proof (induction xs arbitrary: acc)
  case (Cons c cs)
  then have "digits_val (10 * acc + digit_val c) cs = (10 * acc + digit_val c) * 10 ^ length cs + digits_val 0 cs"
    "digits_val (digit_val c) cs = digit_val c * 10 ^ length cs + digits_val 0 cs"
    by (metis list.set_intros(2))+
  with Cons.prems show ?case by (simp add: algebra_simps)
qed simp

lemma digits_val_concat: "digits_val 0 (show_nat d @ show_nat n) = d * 10 ^ length (show_nat n) + n"
  using digits_val_acc [OF show_nat_digits, of d n]
  by (simp add: digits_val_append show_nat_digits digits_val_show_nat)

section \<open>Properties\<close>

text \<open>
  C5. A login nonce is good for one login. After a login with a nonce succeeded, and after any further
  requests, a login or a wallet binding that presents the nonce again, with any key and signature, is
  refused with status 401 and changes nothing.
\<close>

theorem nonce_used_once:
  assumes "auth_store A view" and "session_inv N T (view s)" and "walletLogin A d s = (Inr r, s')"
    and "wl_nonce d' = wl_nonce d"
  shows "\<exists>m. walletLogin A d' (serve A rs s') = (Inl (UnauthorizedException m), serve A rs s') \<and>
    bindWallet A user d' (serve A rs s') = (Inl (UnauthorizedException m), serve A rs s')"
proof -
  have "session_inv (insert (wl_nonce d) N) T (view s')"
    using auth_store.login_spends [OF assms(1,2), of d] by (simp add: wp_def assms(3))
  then have "session_inv (insert (wl_nonce d) N) T (view (serve A rs s'))"
    by (rule auth_store.serve_session [OF assms(1)])
  from auth_store.spent_nonce_rejected [OF assms(1) this, of d'] assms(4) show ?thesis
    by (auto simp: walletLogin_def bindWallet_def seqE_def bindE_def)
qed

theorem nonce_used_once_witness:
  "\<exists>m. walletLogin mem_auth demo_login (serve mem_auth [CleanupNonces, RequestNonce ''GA'']
        (snd (walletLogin mem_auth demo_login demo_nonce_store))) =
     (Inl (UnauthorizedException m), serve mem_auth [CleanupNonces, RequestNonce ''GA'']
        (snd (walletLogin mem_auth demo_login demo_nonce_store)))"
  using nonce_used_once [OF mem_auth_store demo_inv(1), of demo_login _ _ demo_login] demo_login_runs by blast

text \<open>
  C6. Refresh tokens rotate. When a refresh succeeds it returns a different token that is in force, and
  the token that was presented is never accepted again: after any further requests it is refused with
  status 401 and nothing changes.
\<close>

theorem refresh_token_rotates:
  assumes "auth_store A view" and "session_inv N T (view s)" and "refreshAccessToken A t s = (Inr (a, t'), s')"
  shows "t' \<noteq> t \<and> (\<exists>u. active_token t' u (v_refresh (view s'))) \<and>
    (\<exists>m. refreshAccessToken A t (serve A rs s') = (Inl (UnauthorizedException m), serve A rs s'))"
proof -
  have spent: "session_inv N (insert t T) (view s')"
    using auth_store.refresh_spends [OF assms(1,2), of t] by (simp add: wp_def assms(3))
  moreover obtain u where u: "active_token t' u (v_refresh (view s'))"
    using auth_store.refresh_active [OF assms(1), of t s] by (auto simp: wp_def assms(3))
  ultimately have "t' \<noteq> t" by (auto simp: active_token_def session_inv_def)
  moreover from spent have "session_inv N (insert t T) (view (serve A rs s'))"
    by (rule auth_store.serve_session [OF assms(1)])
  then have "\<exists>m. refreshAccessToken A t (serve A rs s') = (Inl (UnauthorizedException m), serve A rs s')"
    by (rule auth_store.spent_token_rejected [OF assms(1)]) simp
  ultimately show ?thesis using u by blast
qed

lemma demo_refresh_runs:
  "\<exists>a t. refreshAccessToken mem_auth ''1'' demo_logged_in = (Inr (a, t), snd (refreshAccessToken mem_auth ''1'' demo_logged_in))"
proof -
  have "\<not> isl (fst (refreshAccessToken mem_auth ''1'' demo_logged_in))" by code_simp
  then show ?thesis
    by (cases "refreshAccessToken mem_auth ''1'' demo_logged_in"; cases "fst (refreshAccessToken mem_auth ''1'' demo_logged_in)")
      auto
qed

theorem refresh_token_rotates_witness:
  "\<exists>m. refreshAccessToken mem_auth ''1'' (serve mem_auth [] (snd (refreshAccessToken mem_auth ''1'' demo_logged_in))) =
     (Inl (UnauthorizedException m), serve mem_auth [] (snd (refreshAccessToken mem_auth ''1'' demo_logged_in)))"
proof -
  have "session_inv {} {} (mem_auth_view demo_logged_in)"
    unfolding demo_logged_in_def by (rule amem.serve_session [OF demo_inv(1)])
  then show ?thesis
    using refresh_token_rotates [OF mem_auth_store, of "{}" "{}" demo_logged_in "''1''"] demo_refresh_runs by blast
qed

text \<open>
  C7. What a wallet login does, decided by the rows of the presented nonce and by the signature. It succeeds exactly when the
  nonce was issued for the wallet, is unused and not expired, and the signature is the wallet's. Otherwise it changes nothing
  and fails with status 401 when the nonce is unknown, used or expired, and with a plain error (status 500, although the
  route documents 401) when the signature is wrong. A success returns the user the wallet was bound to, or a new one if there
  was none, to whom the wallet is bound then, and a refresh token of that user that is in force.
\<close>

theorem walletLogin_outcome:
  assumes "auth_store A view" and "wallets_inv (v_wallets (view s)) (v_users (view s))" and "nonces_unique (view s)"
  shows "((\<exists>r s'. walletLogin A d s = (Inr r, s')) \<longleftrightarrow> nonce_valid (view s) (ae_now A s) d \<and> signature_valid A d) \<and>
    (case walletLogin A d s of
      (Inl e, s') \<Rightarrow> s' = s \<and> login_refusal A (view s) (ae_now A s) d e
    | (Inr r, s') \<Rightarrow> login_user (wl_publicKey d) (v_wallets (view s)) (v_users (view s)) (lr_user r) \<and>
        wallet_user (wl_publicKey d) (lr_user r) (v_wallets (view s')) (v_users (view s')) \<and>
        active_token (lr_refreshToken r) (us_id (lr_user r)) (v_refresh (view s')))"
proof -
  have "wp (walletLogin A d) (\<lambda>r s'. (nonce_valid (view s) (ae_now A s) d \<and> signature_valid A d) \<and>
        login_user (wl_publicKey d) (v_wallets (view s)) (v_users (view s)) (lr_user r) \<and>
        wallet_user (wl_publicKey d) (lr_user r) (v_wallets (view s')) (v_users (view s')) \<and>
        active_token (lr_refreshToken r) (us_id (lr_user r)) (v_refresh (view s')))
      (\<lambda>e s'. s' = s \<and> login_refusal A (view s) (ae_now A s) d e) s"
    unfolding walletLogin_def
    by (intro wpi_seqE wp_mono [OF auth_store.check_decides [OF assms(1)]])
      (auto intro: wp_mono [OF auth_store.grant_login_ok [OF assms(1,2)]])
  then show ?thesis
    using refused_not_accepted [OF assms(3)] by (auto simp: wp_def split: prod.splits sum.splits)
qed

theorem walletLogin_outcome_witness:
  "nonce_valid (mem_auth_view demo_nonce_store) (ae_now mem_auth demo_nonce_store) demo_login \<and>
   signature_valid mem_auth demo_login"
proof -
  have "nonces_unique (mem_auth_view demo_nonce_store)"
    using demo_one_nonce by (auto simp: nonces_unique_def mem_auth_view_def mem_tab_def length_Suc_conv split: if_splits)
  from walletLogin_outcome [OF mem_auth_store demo_inv(2) this, of demo_login, THEN conjunct1] demo_login_runs show ?thesis by blast
qed

text \<open>
  C8. Whatever requests the server handles, in whatever order and with whatever failures, every wallet
  stays bound to one existing user and every user keeps exactly one primary wallet.
\<close>

theorem one_primary_wallet:
  assumes "auth_store A view" and "wallets_inv (v_wallets (view s)) (v_users (view s))"
  shows "wallets_inv (v_wallets (view (serve A rs s))) (v_users (view (serve A rs s)))"
  by (rule auth_store.serve_wallets [OF assms])

theorem one_primary_wallet_witness:
  "wallets_inv (v_wallets (mem_auth_view (serve mem_auth [WalletLogin demo_login, UnbindWallet ''jwt:u'' ''GA''] demo_nonce_store)))
     (v_users (mem_auth_view (serve mem_auth [WalletLogin demo_login, UnbindWallet ''jwt:u'' ''GA''] demo_nonce_store)))"
  by (rule one_primary_wallet [OF mem_auth_store demo_inv(2)])

text \<open>
  C33. The check of a nonce and its marking are separate steps. For a wallet that is bound to a user, two logins with the same
  signed nonce that both pass the check before either marks the nonce are both granted, however their remaining steps
  interleave: each returns that user and a refresh token that is in force when both are done.
\<close>

theorem concurrent_logins_share_nonce:
  assumes "auth_store A view" and "wallets_inv (v_wallets (view s)) (v_users (view s))"
    and "wallet_user (wl_publicKey d) u (v_wallets (view s)) (v_users (view s))"
    and "nonce_valid (view s) (ae_now A s) d" and "nonces_unique (view s)" and "signature_valid A d"
    and "4 \<le> count_list bs True" and "4 \<le> count_list bs False"
  shows "\<exists>r1 r2 s'. two_logins A d (True # False # bs) ((AtCheck, AtCheck), s) = ((LoggedIn r1, LoggedIn r2), s') \<and>
    lr_user r1 = u \<and> active_token (lr_refreshToken r1) (us_id u) (v_refresh (view s')) \<and>
    lr_user r2 = u \<and> active_token (lr_refreshToken r2) (us_id u) (v_refresh (view s'))"
proof -
  have "check_signed_nonce A d s = (Inr (), s)"
    using auth_store.check_decides [OF assms(1), of d s] refused_not_accepted [OF assms(5)] assms(4,6)
    by (auto simp: wp_def split: prod.splits sum.splits)
  then have checked: "login_advance A d (AtCheck, s) = (AtMark, s)"
    by (simp add: login_advance_def seqE_def bindE_def returnE_def)
  have "auth_store.bound_to view (wl_publicKey d) u s" using assms(2,3) by (simp add: auth_store.bound_to_def [OF assms(1)])
  from auth_store.both_finish [OF assms(1) this, of AtMark AtMark bs] assms(7,8)
  show ?thesis by (auto simp: checked dest!: logged_in)
qed

definition second_login :: WalletLoginDto where
  "second_login = \<lparr>wl_publicKey = ''GA'', wl_signature = ''GA'' @ sign_message ''2'', wl_nonce = ''2''\<rparr>"

definition second_nonce_store :: auth_mem where
  "second_nonce_store = serve mem_auth [RequestNonce ''GA''] demo_logged_in"

lemma second_rows:
  "map ln_nonce (am_nonces second_nonce_store) = [''0'', ''2'']"
  "list_ex (\<lambda>n. ln_nonce n = ''2'' \<and> ln_publicKey n = ''GA'' \<and> \<not> ln_used n \<and> 0 \<le> ln_expiresAt n \<and>
     List.find (\<lambda>e. ln_id e = ln_id n) (am_nonces second_nonce_store) = Some n) (am_nonces second_nonce_store)"
  "list_ex (\<lambda>u. us_id u = ''u'' \<and> List.find (\<lambda>e. us_id e = us_id u) (am_users second_nonce_store) = Some u) (am_users second_nonce_store)"
  "list_ex (\<lambda>b. wb_publicKey b = ''GA'' \<and> wb_userId b = ''u'' \<and>
     List.find (\<lambda>e. wb_id e = wb_id b) (am_wallets second_nonce_store) = Some b) (am_wallets second_nonce_store)"
  "am_clock second_nonce_store = 0"
  by code_simp+

theorem concurrent_logins_share_nonce_witness:
  "\<exists>u r1 r2 s'. us_id u = ''u'' \<and>
    two_logins mem_auth second_login [True, False, True, False, False, True, False, True, True, False] ((AtCheck, AtCheck), second_nonce_store) =
      ((LoggedIn r1, LoggedIn r2), s') \<and>
    lr_user r1 = u \<and> active_token (lr_refreshToken r1) ''u'' (v_refresh (mem_auth_view s')) \<and>
    lr_user r2 = u \<and> active_token (lr_refreshToken r2) ''u'' (v_refresh (mem_auth_view s'))"
proof -
  let ?s = second_nonce_store and ?d = second_login
  obtain u where u: "us_id u = ''u''" "v_users (mem_auth_view ?s) ''u'' = Some u"
    using second_rows(3) by (auto simp: list_ex_iff mem_auth_view_def mem_tab_def)
  have user: "wallet_user (wl_publicKey ?d) u (v_wallets (mem_auth_view ?s)) (v_users (mem_auth_view ?s))"
    using second_rows(4) u by (auto simp: list_ex_iff wallet_user_def mem_auth_view_def mem_tab_def second_login_def)
  have wallets: "wallets_inv (v_wallets (mem_auth_view ?s)) (v_users (mem_auth_view ?s))"
    unfolding second_nonce_store_def demo_logged_in_def by (intro amem.serve_wallets demo_inv)
  have valid: "nonce_valid (mem_auth_view ?s) (ae_now mem_auth ?s) ?d"
    using second_rows(2) second_rows(5)
    by (auto simp: nonce_valid_def presented_nonce_def list_ex_iff mem_auth_view_def mem_tab_def second_login_def mem_auth_def)
  have unique: "nonces_unique (mem_auth_view ?s)"
    using second_rows(1)
    by (auto simp: nonces_unique_def mem_auth_view_def mem_tab_def map_eq_Cons_conv split: if_splits)
  have signed: "signature_valid mem_auth ?d"
    by (simp add: signature_valid_def mem_auth_def second_login_def)
  show ?thesis
    using concurrent_logins_share_nonce [OF mem_auth_store wallets user valid unique signed,
        of "[True, False, False, True, False, True, True, False]"] u(1) by auto
qed

text \<open>
  The role of an API token is the caller's own choice among the accepted ones, \<open>admin\<close> included: the
  token a user has just created is accepted by \<open>ApiTokenGuard\<close> with the role asked for and passes
  \<open>RolesGuard\<close> for it, while the same user's access token never passes, since a user has no role.
\<close>

theorem api_token_grants_chosen_role:
  assumes "auth_store A view" and "createApiToken_request A user name role days s = (Inr (token, i, expiresAt), s')"
    and "role \<in> set apiToken_roles"
    and "v_users (view s) (us_id user) = Some user" and "us_isActive user"
    and "\<And>j x. v_apiTokens (view s) j = Some x \<Longrightarrow> \<not> ae_compare A token (at_token x)"
    and "\<And>x. expiresAt = Some x \<Longrightarrow> ae_now A s' \<le> x" and "token \<noteq> []" and "CHR '' '' \<notin> set token"
  shows "\<exists>ru s''. ApiTokenGuard A (Some (''Bearer '' @ token)) s' = (Inr ru, s'') \<and> ru_id ru = us_id user \<and>
    RolesGuard (Some [role]) (Some ru) = Inr True \<and>
    RolesGuard (Some [role]) (Some (jwt_request_user user)) = Inl (ForbiddenException ''User role not found'')"
proof -
  have "\<exists>s''. ApiTokenGuard A (Some (''Bearer '' @ token)) s' =
      (Inr \<lparr>ru_id = us_id user, ru_role = Some role, ru_tokenId = Some i\<rparr>, s'')"
    by (rule auth_store.created_token_accepted [OF assms(1) assms(2) [unfolded createApiToken_request_def] _ assms(4,5)])
      (fact assms)+
  moreover have "role \<noteq> []" using assms(3) by (auto simp: apiToken_roles_def)
  then have "RolesGuard (Some [role]) (Some \<lparr>ru_id = us_id user, ru_role = Some role, ru_tokenId = Some i\<rparr>) = Inr True"
    "RolesGuard (Some [role]) (Some (jwt_request_user user)) = Inl (ForbiddenException ''User role not found'')"
    by (simp_all add: RolesGuard_def jwt_request_user_def)
  ultimately show ?thesis by (metis request_user.select_convs(1))
qed

theorem api_token_grants_chosen_role_witness:
  "\<exists>ru s''. ApiTokenGuard mem_auth (Some (''Bearer '' @ ''stl_23''))
      (snd (createApiToken_request mem_auth demo_user ''cli'' ''admin'' None demo_logged_in)) = (Inr ru, s'') \<and> ru_id ru = us_id demo_user \<and>
    RolesGuard (Some [''admin'']) (Some ru) = Inr True \<and>
    RolesGuard (Some [''admin'']) (Some (jwt_request_user demo_user)) = Inl (ForbiddenException ''User role not found'')"
  by (rule api_token_grants_chosen_role [OF mem_auth_store demo_admin_token(1)])
    (simp_all add: apiToken_roles_def demo_user_view demo_no_tokens demo_admin_token(2,3) day_ms_def)

text \<open>
  With \<open>API_TOKEN_DEFAULT_EXPIRY_DAYS\<close> set, as the example configuration does, a token without an own
  lifetime does not live that many days: the variable's digits are appended to the day of the month. On
  day \<open>d\<close> of a month the setting 90 gives \<open>99 * d + 90\<close> days.
\<close>

theorem default_expiry_concatenates:
  assumes "0 \<le> getDate tz now"
  shows "apiToken_expiry tz (Some n) None now =
    now + (getDate tz now * (10 ^ length (show_nat n) - 1) + int n) * day_ms"
proof -
  have "int (digits_val 0 (show_int (getDate tz now) @ show_nat n)) = getDate tz now * 10 ^ length (show_nat n) + int n"
    using assms by (simp add: show_int_def digits_val_concat)
  then show ?thesis by (simp add: apiToken_expiry_def or_nat_def setDate_def algebra_simps)
qed

theorem default_expiry_concatenates_witness:
  "getDate 0 1705320000000 = 15 \<and> apiToken_expiry 0 (Some 90) None 1705320000000 = 1705320000000 + 1575 * day_ms"
proof -
  have "getDate 0 1705320000000 = 15" and "length (show_nat 90) = 2" by code_simp+
  with default_expiry_concatenates [of 0 1705320000000 90] show ?thesis by simp
qed

end
