(* ===== verification/Audit_Log.thy ===== *)
theory Audit_Log
  imports Auth_Flow
begin

text \<open>
  Reading the audit log (src/Backend/src/audit): the query of \<open>AuditService.getLogs\<close>, the handler of \<open>AuditController\<close>, and the
  listener that would write events. Writing is \<open>logAction\<close> of \<open>Auth_Services\<close>.
\<close>

section \<open>Operations\<close>

record audit_filter =
  af_action_type :: "string option"
  af_actor_id :: "string option"
  af_entity_id :: "string option"
  af_from :: "string option"
  af_to :: "string option"

record audit_event =
  ev_action_type :: string
  ev_actor_id :: string
  ev_entity_id :: "string option"
  ev_metadata :: "(string \<times> audit_value) list option"

text \<open>
  The database compares the times; \<open>read_time\<close> is how it reads a text as one, and a text it cannot read makes the query
  fail. A parameter that is absent or empty adds no condition.
\<close>

definition time_bound :: "(string \<Rightarrow> int option) \<Rightarrow> string option \<Rightarrow> exn + int option" where
  "time_bound read_time v =
     (if truthy v
      then (case read_time (the v) of
          None \<Rightarrow> Inl (Error (''invalid input syntax for type timestamp: '' @ the v)) | Some t \<Rightarrow> Inr (Some t))
      else Inr None)"

definition same_text :: "string option \<Rightarrow> string option \<Rightarrow> bool" where
  "same_text wanted v \<longleftrightarrow> (truthy wanted \<longrightarrow> v = wanted)"

definition not_before :: "int option \<Rightarrow> int \<Rightarrow> bool" where
  "not_before lo t = (case lo of None \<Rightarrow> True | Some a \<Rightarrow> a \<le> t)"

definition not_after :: "int option \<Rightarrow> int \<Rightarrow> bool" where
  "not_after hi t = (case hi of None \<Rightarrow> True | Some b \<Rightarrow> t \<le> b)"

definition log_matches :: "audit_filter \<Rightarrow> int option \<Rightarrow> int option \<Rightarrow> AuditLog \<Rightarrow> bool" where
  "log_matches f lo hi l \<longleftrightarrow> same_text (af_action_type f) (Some (al_action_type l))
     \<and> same_text (af_actor_id f) (Some (al_actor_id l)) \<and> same_text (af_entity_id f) (al_entity_id l)
     \<and> not_before lo (al_timestamp l) \<and> not_after hi (al_timestamp l)"

text \<open>\<open>page\<close> counts from 1.\<close>

definition getLogs :: "'s auth_env \<Rightarrow> (string \<Rightarrow> int option) \<Rightarrow> nat \<Rightarrow> nat \<Rightarrow> audit_filter \<Rightarrow> ('s, AuditLog list \<times> nat) prog" where
  "getLogs A read_time page limit f =
     bindE (liftS (time_bound read_time (af_from f))) (\<lambda>lo.
     bindE (liftS (time_bound read_time (af_to f))) (\<lambda>hi.
       repo_findAndCount (ae_audit A) (log_matches f lo hi) (Desc al_timestamp) ((page - 1) * limit) limit))"

definition clearAllLogs :: "'s auth_env \<Rightarrow> ('s, unit) prog" where
  "clearAllLogs A = ignoreE (repo_delete (ae_audit A) (\<lambda>l. True))"

definition getLogs_request :: "'s auth_env \<Rightarrow> (string \<Rightarrow> int option) \<Rightarrow> nat option \<Rightarrow> nat option \<Rightarrow> string option \<Rightarrow> string option \<Rightarrow>
    string option \<Rightarrow> string option \<Rightarrow> string option \<Rightarrow> ('s, AuditLog list \<times> nat) prog" where
  "getLogs_request A read_time page limit action_type actor_id entity_id from_time to_time =
     getLogs A read_time (case page of None \<Rightarrow> 1 | Some p \<Rightarrow> p) (case limit of None \<Rightarrow> 20 | Some l \<Rightarrow> l)
       \<lparr>af_action_type = action_type, af_actor_id = actor_id, af_entity_id = entity_id, af_from = from_time, af_to = to_time\<rparr>"

definition handleAudit :: "'s auth_env \<Rightarrow> audit_event \<Rightarrow> ('s, unit) prog" where
  "handleAudit A event = ignoreE (logAction A (ev_action_type event) (ev_actor_id event) (ev_entity_id event) (ev_metadata event))"

section \<open>Lemmas\<close>

definition no_filter :: audit_filter where
  "no_filter = \<lparr>af_action_type = None, af_actor_id = None, af_entity_id = None, af_from = None, af_to = None\<rparr>"

lemma log_matches_none: "log_matches no_filter None None = (\<lambda>l. True)"
  by (auto simp: fun_eq_iff log_matches_def no_filter_def same_text_def not_before_def not_after_def)

text \<open>The pages of a list, put together, are the list.\<close>

lemma pages_append: "concat (map (\<lambda>p. take k (drop (p * k) xs)) [0..<n]) = take (n * k) xs"
proof (induction n)
  case (Suc n)
  then show ?case using take_add [of "n * k" k xs] by (simp add: add.commute)
qed simp

locale audit_store = repo_table "ae_audit A" logs al_id stamp al_gen
  for A :: "'s auth_env" and logs :: "'s \<Rightarrow> string \<Rightarrow> AuditLog option" and stamp :: "int \<Rightarrow> AuditLog \<Rightarrow> AuditLog"
begin

lemma getLogs_result:
  assumes "time_bound rt (af_from f) = Inr lo" and "time_bound rt (af_to f) = Inr hi"
  shows "getLogs A rt page limit f s =
    (let found = res (repo_find (ae_audit A) (log_matches f lo hi) (Desc al_timestamp)) s
     in (Inr (take limit (drop ((page - 1) * limit) found), length found), s))"
proof -
  have "wp (getLogs A rt page limit f) (\<lambda>r s'. r = (let found = res (repo_find (ae_audit A) (log_matches f lo hi) (Desc al_timestamp)) s
      in (take limit (drop ((page - 1) * limit) found), length found)) \<and> s' = s) (\<lambda>_ _. False) s"
    by (simp add: getLogs_def assms liftS_def Let_def repo_findAndCount_def wp_simps wp_repo)
  then show ?thesis by (auto simp: wp_value Let_def)
qed

lemma logAction_fin:
  "\<exists>l s'. logAction A a u e m s = (Inr l, s') \<and> logs s (al_id l) = None \<and> logs s' = (logs s)(al_id l \<mapsto> l)
    \<and> al_action_type l = a \<and> al_actor_id l = u \<and> al_entity_id l = e \<and> al_metadata l = m"
proof -
  let ?l = "\<lparr>al_id = [], al_action_type = a, al_actor_id = u, al_entity_id = e, al_metadata = m, al_timestamp = 0\<rparr>"
  obtain i t where it: "res (repo_insert (ae_audit A) ?l) s = (i, t)" by (cases "res (repo_insert (ae_audit A) ?l) s")
  have "wp (logAction A a u e m) (\<lambda>l s'. logs s (al_id l) = None \<and> logs s' = (logs s)(al_id l \<mapsto> l)
      \<and> al_action_type l = a \<and> al_actor_id l = u \<and> al_entity_id l = e \<and> al_metadata l = m) (\<lambda>_ _. False) s"
    using insert_fresh [OF it] insert_tab [OF it] by (simp add: logAction_def Let_def wp_simps it al_gen_def)
  then show ?thesis by (auto simp: wp_value)
qed

end

interpretation audit_mem: audit_store mem_auth "mem_tab am_audit al_id" "\<lambda>_ e. e"
  unfolding audit_store_def by (simp add: mem_auth_def mem_repo_table al_gen_def)

section \<open>Properties\<close>

text \<open>
  The log is complete and paged without loss: what \<open>logAction\<close> or the listener wrote is found again, and for every number of
  entries per page the pages one after the other are all entries that match, newest first, each exactly once.
\<close>

theorem audit_pages_complete:
  assumes "audit_store A logs stamp" and "time_bound rt (af_from f) = Inr lo" and "time_bound rt (af_to f) = Inr hi"
    and "getLogs A rt 1 limit f s = (Inr (first, count_all), s')" and "count_all \<le> n * limit"
  shows "\<exists>rows. (\<forall>p. getLogs A rt (Suc p) limit f s = (Inr (take limit (drop (p * limit) rows), count_all), s))
    \<and> concat (map (\<lambda>p. take limit (drop (p * limit) rows)) [0..<n]) = rows
    \<and> distinct (map al_id rows) \<and> set rows = {l. logs s (al_id l) = Some l \<and> log_matches f lo hi l}
    \<and> sorted (rev (map al_timestamp rows))"
proof -
  let ?rows = "res (repo_find (ae_audit A) (log_matches f lo hi) (Desc al_timestamp)) s"
  have R: "repo_table (ae_audit A) logs al_id stamp al_gen" using assms(1) by (simp add: audit_store_def)
  have page: "getLogs A rt (Suc p) limit f s = (Inr (take limit (drop (p * limit) ?rows), length ?rows), s)" for p
    using audit_store.getLogs_result [OF assms(1-3), of "Suc p" limit s] by (simp add: Let_def)
  from page [of 0] assms(4) have "count_all = length ?rows" by auto
  moreover have "concat (map (\<lambda>p. take limit (drop (p * limit) ?rows)) [0..<n]) = ?rows"
    using assms(5) by (simp add: pages_append \<open>count_all = length ?rows\<close>)
  ultimately show ?thesis
    using page repo_table.find_distinct [OF R, of "log_matches f lo hi" "Desc al_timestamp" s]
      repo_table.find_set [OF R, of "log_matches f lo hi" "Desc al_timestamp" s]
      repo_table.find_order [OF R, of "Desc al_timestamp" "log_matches f lo hi" s]
    by (intro exI [of _ ?rows]) simp
qed

text \<open>Two entries, one per page.\<close>

definition audited :: auth_mem where
  "audited = \<lparr>am_nonces = [], am_wallets = [], am_users = [], am_refresh = [], am_apiTokens = [],
     am_audit = [\<lparr>al_id = ''1'', al_action_type = ''A'', al_actor_id = ''u'', al_entity_id = None, al_metadata = None, al_timestamp = 5\<rparr>,
                 \<lparr>al_id = ''2'', al_action_type = ''B'', al_actor_id = ''u'', al_entity_id = None, al_metadata = None, al_timestamp = 7\<rparr>],
     am_next = 0, am_clock = 9\<rparr>"

lemma audited_pages:
  "getLogs mem_auth (\<lambda>_. None) 1 1 no_filter audited =
     (Inr ([\<lparr>al_id = ''2'', al_action_type = ''B'', al_actor_id = ''u'', al_entity_id = None, al_metadata = None, al_timestamp = 7\<rparr>], 2), audited)"
  "getLogs mem_auth (\<lambda>_. None) 2 1 no_filter audited =
     (Inr ([\<lparr>al_id = ''1'', al_action_type = ''A'', al_actor_id = ''u'', al_entity_id = None, al_metadata = None, al_timestamp = 5\<rparr>], 2), audited)"
  by code_simp+

theorem audit_pages_complete_witness:
  "\<exists>rows. (\<forall>p. getLogs mem_auth (\<lambda>_. None) (Suc p) 1 no_filter audited = (Inr (take 1 (drop (p * 1) rows), 2), audited))
    \<and> map al_id rows = [''2'', ''1'']"
proof -
  have free: "time_bound (\<lambda>_. None) (af_from no_filter) = Inr None"
    "time_bound (\<lambda>_. None) (af_to no_filter) = Inr None"
    by (simp_all add: time_bound_def no_filter_def)
  obtain rows where rows:
    "\<forall>p. getLogs mem_auth (\<lambda>_. None) (Suc p) 1 no_filter audited = (Inr (take 1 (drop (p * 1) rows), 2), audited)"
    "concat (map (\<lambda>p. take 1 (drop (p * 1) rows)) [0..<2]) = rows"
    using audit_pages_complete [OF audit_mem.audit_store_axioms free audited_pages(1), of 2] by auto
  have "take 1 rows = [last (am_audit audited)]" "take 1 (drop 1 rows) = [hd (am_audit audited)]"
    using spec [OF rows(1), of 0] spec [OF rows(1), of 1] audited_pages
    by (simp_all add: numeral_2_eq_2 del: One_nat_def, simp_all add: audited_def)
  then have "rows = [last (am_audit audited), hd (am_audit audited)]"
    using rows(2) by (simp add: numeral_2_eq_2)
  with rows(1) show ?thesis by (intro exI [of _ rows]) (simp add: audited_def)
qed

end
