(* ===== verification/App_Modules.thy ===== *)
theory App_Modules
  imports Farm_Prelude
begin

text \<open>
  The modules that \<open>@Module\<close> declares (src/Backend/src/*/*.module.ts and app.module.ts): what each imports, the controllers
  and providers it declares, what it exports, and the parameters of the constructors. \<open>app_loaded\<close> are the modules reached
  from \<open>AppModule\<close>. What the modules of the framework export is an argument.
\<close>

section \<open>Modules\<close>

text \<open>
  What a constructor asks for: a class or a named value, the repository of an entity, or a queue. A provider is its token
  with the class that is built, none for a plain value.
\<close>

datatype token = Class string | Repository string | Queue string

text \<open>
  An import: a module of the application, one of a library, \<open>TypeOrmModule.forFeature\<close> with its entities,
  \<open>BullModule.registerQueue\<close>, and \<open>TypeOrmModule.forRootAsync\<close> with the entities of the data source.
\<close>

datatype module_import = Own string | Lib string | ForFeature "string list" | RegisterQueue "string list" | Database "string list"

record nest_module =
  md_name :: string
  md_imports :: "module_import list"
  md_controllers :: "string list"
  md_providers :: "(token \<times> string option) list"
  md_exports :: "token list"
  md_global :: bool

definition injectable :: "string \<Rightarrow> token \<times> string option" where
  "injectable c = (Class c, Some c)"

definition AppModule :: nest_module where
  "AppModule = \<lparr>md_name = ''AppModule'',
     md_imports = [Lib ''ConfigModule'', Lib ''ScheduleModule'',
       Database [''Workflow'', ''WorkflowStep'', ''User'', ''WalletBinding'', ''LoginNonce'', ''RefreshToken'', ''ApiToken'', ''AuditLog'', ''VoiceJob''],
       Own ''RedisModule'', Own ''AuthModule'', Own ''VoiceModule'', Own ''StellarMonitorModule'',
       Own ''WorkflowModule'', Own ''QueueModule'', Own ''MarketDataModule'', Own ''AuditModule'',
       Own ''ThrottleModule'', Own ''AiModule'', Own ''HealthModule''],
     md_controllers = [''AppController''],
     md_providers = [injectable ''AppService'', (Class ''APP_GUARD'', Some ''RolesGuard'')],
     md_exports = [], md_global = False\<rparr>"

definition RedisModule :: nest_module where
  "RedisModule = \<lparr>md_name = ''RedisModule'',
     md_imports = [],
     md_controllers = [],
     md_providers = [injectable ''RedisService''],
     md_exports = [Class ''RedisService''], md_global = True\<rparr>"

definition AuthModule :: nest_module where
  "AuthModule = \<lparr>md_name = ''AuthModule'',
     md_imports = [ForFeature [''User'', ''WalletBinding'', ''LoginNonce'', ''RefreshToken'', ''ApiToken''],
       Lib ''JwtModule'', Lib ''PassportModule'', Lib ''ConfigModule'', Own ''RedisModule'',
       Lib ''ScheduleModule'', Own ''AuditModule''],
     md_controllers = [''AuthController''],
     md_providers = [injectable ''NonceService'', injectable ''WalletService'', injectable ''JwtAuthService'',
       injectable ''ApiTokenService'', injectable ''RateLimitService'', injectable ''JwtStrategy'',
       injectable ''JwtAuthGuard'', injectable ''ApiTokenGuard'', injectable ''RateLimitGuard'',
       injectable ''RolesGuard''],
     md_exports = [Class ''JwtAuthService'', Class ''ApiTokenService'', Class ''WalletService'',
       Class ''JwtAuthGuard'', Class ''ApiTokenGuard'', Class ''RolesGuard''], md_global = False\<rparr>"

definition VoiceModule :: nest_module where
  "VoiceModule = \<lparr>md_name = ''VoiceModule'',
     md_imports = [Own ''RedisModule'', ForFeature [''VoiceSession'', ''VoiceJob'', ''AiUsageQuota''],
       RegisterQueue [''voice-processing'']],
     md_controllers = [],
     md_providers = [injectable ''VoiceGateway'', injectable ''VoiceSessionService'',
       injectable ''ConversationStateMachineService'', injectable ''StreamingResponseService'',
       injectable ''SessionCleanupService'', injectable ''LlmService'', injectable ''QuotaService'',
       injectable ''LlmCacheService'', injectable ''JwtService'', injectable ''WsJwtAuthGuard''],
     md_exports = [Class ''VoiceSessionService'', Class ''ConversationStateMachineService'',
       Class ''StreamingResponseService'', Class ''LlmService'', Class ''QuotaService'',
       Class ''LlmCacheService''], md_global = False\<rparr>"

definition StellarMonitorModule :: nest_module where
  "StellarMonitorModule = \<lparr>md_name = ''StellarMonitorModule'',
     md_imports = [ForFeature [''WebhookConsumer'', ''StellarEvent'']],
     md_controllers = [''StellarMonitorController''],
     md_providers = [injectable ''StellarEventMonitorService'', injectable ''WebhookDeliveryService'',
       injectable ''EventStorageService'', injectable ''ConsumerManagementService''],
     md_exports = [Class ''StellarEventMonitorService'', Class ''WebhookDeliveryService'',
       Class ''EventStorageService'', Class ''ConsumerManagementService''], md_global = False\<rparr>"

definition WorkflowModule :: nest_module where
  "WorkflowModule = \<lparr>md_name = ''WorkflowModule'',
     md_imports = [Lib ''ConfigModule'', Lib ''ScheduleModule'', ForFeature [''Workflow'', ''WorkflowStep'']],
     md_controllers = [''WorkflowAdminController''],
     md_providers = [injectable ''WorkflowExecutionService'', injectable ''WorkflowStateMachineService'',
       injectable ''IdempotencyService'', injectable ''WorkflowService'',
       injectable ''CompensationService'', injectable ''RecoveryService'',
       injectable ''MonitoringService''],
     md_exports = [Class ''WorkflowExecutionService'', Class ''WorkflowStateMachineService'',
       Class ''IdempotencyService'', Class ''WorkflowService'', Class ''CompensationService'',
       Class ''RecoveryService'', Class ''MonitoringService''], md_global = False\<rparr>"

definition QueueModule :: nest_module where
  "QueueModule = \<lparr>md_name = ''QueueModule'',
     md_imports = [Lib ''BullModule'',
       RegisterQueue [''deploy-contract'', ''process-tts'', ''index-market-news''],
       Own ''RedisModule''],
     md_controllers = [''QueueAdminController''],
     md_providers = [injectable ''QueueService'', injectable ''DeployContractProcessor'',
       injectable ''ProcessTtsProcessor'', injectable ''IndexMarketNewsProcessor''],
     md_exports = [Class ''QueueService''], md_global = False\<rparr>"

definition MarketDataModule :: nest_module where
  "MarketDataModule = \<lparr>md_name = ''MarketDataModule'',
     md_imports = [Lib ''EventEmitterModule''],
     md_controllers = [''MarketDataController''],
     md_providers = [injectable ''MarketCacheService'', injectable ''MarketDataService'',
       injectable ''NewsService'', injectable ''CacheMetricsService'',
       injectable ''CacheInvalidationService''],
     md_exports = [Class ''MarketCacheService'', Class ''MarketDataService'', Class ''NewsService'',
       Class ''CacheMetricsService'', Class ''CacheInvalidationService''], md_global = False\<rparr>"

definition AuditModule :: nest_module where
  "AuditModule = \<lparr>md_name = ''AuditModule'',
     md_imports = [ForFeature [''AuditLog'']],
     md_controllers = [''AuditController''],
     md_providers = [injectable ''AuditService''],
     md_exports = [Class ''AuditService''], md_global = False\<rparr>"

definition ThrottleModule :: nest_module where
  "ThrottleModule = \<lparr>md_name = ''ThrottleModule'',
     md_imports = [Own ''RedisModule''],
     md_controllers = [],
     md_providers = [injectable ''ThrottleService'', injectable ''ThrottleGuard''],
     md_exports = [Class ''ThrottleGuard''], md_global = False\<rparr>"

definition AiModule :: nest_module where
  "AiModule = \<lparr>md_name = ''AiModule'',
     md_imports = [Lib ''ConfigModule''],
     md_controllers = [''AiController''],
     md_providers = [injectable ''AiService'', injectable ''AiCacheService'', injectable ''ai/QuotaService'',
       injectable ''OpenAiProvider'', (Class ''AI_PROVIDER'', Some ''OpenAiProvider''),
       injectable ''FallbackProvider'', (Class ''AI_FALLBACK_PROVIDER'', Some ''FallbackProvider''),
       (Class ''REDIS_CLIENT'', None)],
     md_exports = [Class ''AiService''], md_global = False\<rparr>"

definition HealthModule :: nest_module where
  "HealthModule = \<lparr>md_name = ''HealthModule'',
     md_imports = [Own ''StellarMonitorModule''],
     md_controllers = [''HealthController''],
     md_providers = [],
     md_exports = [], md_global = False\<rparr>"

definition ObservabilityModule :: nest_module where
  "ObservabilityModule = \<lparr>md_name = ''ObservabilityModule'',
     md_imports = [],
     md_controllers = [''MetricsController''],
     md_providers = [injectable ''LoggingService'', injectable ''TracingService'', injectable ''MetricsService'',
       injectable ''TracingInterceptor'', injectable ''WebSocketTracingAdapter'',
       injectable ''QueueJobTracingWrapper''],
     md_exports = [Class ''LoggingService'', Class ''TracingService'', Class ''MetricsService'',
       Class ''TracingInterceptor'', Class ''WebSocketTracingAdapter'',
       Class ''QueueJobTracingWrapper''], md_global = False\<rparr>"

definition WebsocketModule :: nest_module where
  "WebsocketModule = \<lparr>md_name = ''WebsocketModule'',
     md_imports = [],
     md_controllers = [],
     md_providers = [injectable ''WebsocketGateway'', injectable ''PresenceService''],
     md_exports = [], md_global = False\<rparr>"

definition AdminModule :: nest_module where
  "AdminModule = \<lparr>md_name = ''AdminModule'',
     md_imports = [],
     md_controllers = [''AdminController''],
     md_providers = [],
     md_exports = [], md_global = False\<rparr>"

definition DatabaseModule :: nest_module where
  "DatabaseModule = \<lparr>md_name = ''DatabaseModule'',
     md_imports = [Lib ''TypeOrmModule''],
     md_controllers = [],
     md_providers = [],
     md_exports = [Class ''TypeOrmModule''], md_global = False\<rparr>"

definition app_modules :: "nest_module list" where
  "app_modules = [AppModule, RedisModule, AuthModule, VoiceModule, StellarMonitorModule, WorkflowModule, QueueModule,
     MarketDataModule, AuditModule, ThrottleModule, AiModule, HealthModule, ObservabilityModule, WebsocketModule,
     AdminModule, DatabaseModule]"

text \<open>The parameters of the constructors; a class without an entry has none.\<close>

definition constructor_params :: "(string \<times> token list) list" where
  "constructor_params =
     [(''AiController'', [Class ''AiService'']),
      (''AiService'', [Class ''ai/QuotaService'', Class ''AiCacheService'', Class ''AI_FALLBACK_PROVIDER'']),
      (''AiCacheService'', [Class ''REDIS_CLIENT'']),
      (''FallbackProvider'', [Class ''AI_PROVIDER'', Class ''AiCacheService'']),
      (''OpenAiProvider'', [Class ''ConfigService'']),
      (''AppController'', [Class ''AppService'']),
      (''AuditController'', [Class ''AuditService'']),
      (''AuditService'', [Repository ''AuditLog'']),
      (''AuthController'', [Class ''NonceService'', Class ''WalletService'', Class ''JwtAuthService'', Class ''ApiTokenService'', Class ''ConfigService'', Class ''AuditService'']),
      (''ApiTokenGuard'', [Class ''ApiTokenService'']),
      (''RateLimitGuard'', [Class ''RateLimitService'', Class ''Reflector'']),
      (''RolesGuard'', [Class ''Reflector'']),
      (''WsJwtAuthGuard'', [Class ''JwtService'']),
      (''ApiTokenService'', [Repository ''ApiToken'', Class ''ConfigService'']),
      (''JwtAuthService'', [Class ''JwtService'', Class ''ConfigService'', Repository ''RefreshToken'', Repository ''User'', Class ''AuditService'']),
      (''NonceService'', [Repository ''LoginNonce'']),
      (''RateLimitService'', [Class ''RedisService'']),
      (''WalletService'', [Repository ''WalletBinding'', Repository ''User'']),
      (''JwtStrategy'', [Class ''ConfigService'', Repository ''User'']),
      (''HealthController'', [Class ''DataSource'', Class ''RedisService'', Class ''StellarEventMonitorService'']),
      (''MarketDataController'', [Class ''MarketDataService'', Class ''NewsService'', Class ''CacheMetricsService'', Class ''MarketCacheService'']),
      (''CacheInvalidationService'', [Class ''MarketCacheService'', Class ''EventEmitter2'']),
      (''CacheMetricsService'', [Class ''MarketCacheService'']),
      (''MarketCacheService'', [Class ''RedisService'']),
      (''MarketDataService'', [Class ''MarketCacheService'']),
      (''NewsService'', [Class ''MarketCacheService'']),
      (''MetricsController'', [Class ''MetricsService'']),
      (''TracingInterceptor'', [Class ''TracingService'', Class ''LoggingService'', Class ''MetricsService'']),
      (''QueueJobTracingWrapper'', [Class ''TracingService'', Class ''LoggingService'', Class ''MetricsService'']),
      (''WebSocketTracingAdapter'', [Class ''TracingService'', Class ''LoggingService'', Class ''MetricsService'']),
      (''QueueAdminController'', [Class ''QueueService'']),
      (''QueueService'', [Queue ''deploy-contract'', Queue ''process-tts'', Queue ''index-market-news'', Class ''RedisService'']),
      (''StellarMonitorController'', [Class ''ConsumerManagementService'', Class ''EventStorageService'', Class ''StellarEventMonitorService'', Class ''WebhookDeliveryService'']),
      (''ConsumerManagementService'', [Repository ''WebhookConsumer'']),
      (''EventStorageService'', [Repository ''StellarEvent'']),
      (''StellarEventMonitorService'', [Class ''EventStorageService'', Class ''WebhookDeliveryService'']),
      (''WebhookDeliveryService'', [Class ''ConsumerManagementService'', Class ''EventStorageService'']),
      (''ThrottleGuard'', [Class ''ThrottleService'']),
      (''ThrottleService'', [Class ''RedisService'']),
      (''LlmCacheService'', [Class ''RedisService'']),
      (''LlmService'', [Class ''RedisService'', Class ''QuotaService'', Class ''LlmCacheService'']),
      (''QuotaService'', [Class ''RedisService'']),
      (''SessionCleanupService'', [Class ''VoiceSessionService'']),
      (''StreamingResponseService'', [Class ''VoiceSessionService'', Class ''LlmService'']),
      (''VoiceSessionService'', [Class ''RedisService'', Class ''ConversationStateMachineService'']),
      (''VoiceGateway'', [Class ''VoiceSessionService'', Class ''StreamingResponseService'']),
      (''VoiceController'', [Class ''VoiceService'']),
      (''VoiceService'', [Repository ''VoiceJob'', Queue ''voice-processing'']),
      (''VoiceProcessor'', [Repository ''VoiceJob'', Class ''VoiceService'']),
      (''PresenceService'', [Class ''RedisService'']),
      (''WebsocketGateway'', [Class ''PresenceService'']),
      (''WorkflowAdminController'', [Repository ''Workflow'', Repository ''WorkflowStep'', Class ''WorkflowExecutionService'', Class ''CompensationService'', Class ''RecoveryService'', Class ''MonitoringService'']),
      (''CompensationService'', [Repository ''Workflow'', Repository ''WorkflowStep'', Class ''WorkflowStateMachineService'']),
      (''MonitoringService'', [Repository ''Workflow'', Repository ''WorkflowStep'']),
      (''RecoveryService'', [Repository ''Workflow'', Repository ''WorkflowStep'', Class ''WorkflowExecutionService'', Class ''WorkflowStateMachineService'']),
      (''WorkflowExecutionService'', [Repository ''Workflow'', Repository ''WorkflowStep'', Class ''WorkflowStateMachineService'', Class ''IdempotencyService'']),
      (''WorkflowService'', [Repository ''Workflow'', Repository ''WorkflowStep'', Class ''WorkflowExecutionService'', Class ''CompensationService'', Class ''RecoveryService'', Class ''MonitoringService''])]"

section \<open>The modules of the application\<close>

definition own_imports :: "nest_module \<Rightarrow> string list" where
  "own_imports m = List.map_filter (\<lambda>i. case i of Own n \<Rightarrow> Some n | _ \<Rightarrow> None) (md_imports m)"

definition imports_of :: "string list \<Rightarrow> string list" where
  "imports_of ns = concat (map own_imports (filter (\<lambda>m. List.member ns (md_name m)) app_modules))"

text \<open>A module belongs to the application when \<open>AppModule\<close> imports it, directly or through another module.\<close>

inductive loaded :: "string \<Rightarrow> bool" where
  root: "loaded ''AppModule''"
| imported: "loaded n \<Longrightarrow> m \<in> set app_modules \<Longrightarrow> md_name m = n \<Longrightarrow> i \<in> set (own_imports m) \<Longrightarrow> loaded i"

fun load_names :: "nat \<Rightarrow> string list \<Rightarrow> string list" where
  "load_names 0 ns = ns"
| "load_names (Suc n) ns = (let ms = remdups (imports_of ns @ ns) in if length ms = length ns then ns else load_names n ms)"

definition app_loaded :: "nest_module list" where
  "app_loaded = filter (\<lambda>m. List.member (load_names (length app_modules) [''AppModule'']) (md_name m)) app_modules"

section \<open>Linking\<close>

text \<open>The modules of the libraries: what each exports, and what is available everywhere.\<close>

record library =
  lb_exports :: "string \<Rightarrow> token list"
  lb_global :: "token list"

locale nest_library =
  fixes L :: library
  assumes jwt_module: "Class ''JwtService'' \<in> set (lb_exports L ''JwtModule'')"
    and config_global: "Class ''ConfigService'' \<in> set (lb_global L)"
    and data_source: "Class ''DataSource'' \<in> set (lb_global L)"
    and emitter: "Class ''EventEmitter2'' \<in> set (lb_global L)"
    and reflector: "Class ''Reflector'' \<in> set (lb_global L)"

definition provided :: "library \<Rightarrow> module_import \<Rightarrow> token list" where
  "provided L i = (case i of
       Own n \<Rightarrow> (case List.find (\<lambda>m. md_name m = n) app_modules of None \<Rightarrow> [] | Some m \<Rightarrow> md_exports m)
     | Lib n \<Rightarrow> lb_exports L n
     | ForFeature es \<Rightarrow> map Repository es
     | RegisterQueue qs \<Rightarrow> map Queue qs
     | Database es \<Rightarrow> [])"

definition visible :: "library \<Rightarrow> nest_module list \<Rightarrow> nest_module \<Rightarrow> token list" where
  "visible L ms m = map fst (md_providers m) @ concat (map (provided L) (md_imports m)) @
     concat (map md_exports (filter md_global ms)) @ lb_global L"

definition built :: "nest_module \<Rightarrow> string list" where
  "built m = md_controllers m @ List.map_filter snd (md_providers m)"

definition requirements :: "nest_module \<Rightarrow> (string \<times> token) list" where
  "requirements m = concat (map (\<lambda>c. case map_of constructor_params c of None \<Rightarrow> [] | Some ts \<Rightarrow> map (Pair c) ts) (built m))"

definition unresolved :: "library \<Rightarrow> nest_module list \<Rightarrow> (nest_module \<times> string \<times> token) list" where
  "unresolved L ms = concat (map (\<lambda>m. map (Pair m) (filter (\<lambda>r. \<not> List.member (visible L ms m) (snd r)) (requirements m))) ms)"

definition registered_entities :: "nest_module list \<Rightarrow> string list" where
  "registered_entities ms = concat (map (\<lambda>i. case i of ForFeature es \<Rightarrow> es | _ \<Rightarrow> []) (concat (map md_imports ms)))"

definition source_entities :: "nest_module list \<Rightarrow> string list" where
  "source_entities ms = concat (map (\<lambda>i. case i of Database es \<Rightarrow> es | _ \<Rightarrow> []) (concat (map md_imports ms)))"

definition missing_entities :: "nest_module list \<Rightarrow> string list" where
  "missing_entities ms = filter (\<lambda>e. \<not> List.member (source_entities ms) e) (registered_entities ms)"

lemmas module_tables = AppModule_def RedisModule_def AuthModule_def VoiceModule_def StellarMonitorModule_def
  WorkflowModule_def QueueModule_def MarketDataModule_def AuditModule_def ThrottleModule_def AiModule_def HealthModule_def
  ObservabilityModule_def WebsocketModule_def AdminModule_def DatabaseModule_def

definition no_library :: library where
  "no_library = \<lparr>lb_exports = (\<lambda>n. []), lb_global = []\<rparr>"

lemma app_loaded_eq: "app_loaded =
    [AppModule, RedisModule, AuthModule, VoiceModule, StellarMonitorModule, WorkflowModule, QueueModule,
     MarketDataModule, AuditModule, ThrottleModule, AiModule, HealthModule]"
  by code_simp

lemma loaded_closed:
  assumes "m \<in> set app_loaded" and "i \<in> set (own_imports m)"
  shows "i \<in> md_name ` set app_loaded"
  using assms unfolding app_loaded_eq
  by (auto simp: own_imports_def module_tables List.map_filter_def)

lemma app_module_names: "distinct (map md_name app_modules)"
  by code_simp

text \<open>The list holds the modules that are imported, and no others.\<close>

lemma loaded_iff: "loaded n \<longleftrightarrow> n \<in> md_name ` set app_loaded"
proof
  assume "loaded n"
  then show "n \<in> md_name ` set app_loaded"
  proof induction
    case root
    then show ?case by (simp add: app_loaded_eq AppModule_def)
  next
    case (imported n m i)
    then obtain m' where m': "m' \<in> set app_loaded" "md_name m' = md_name m" by force
    then have "m' = m"
      using imported.hyps(2) app_module_names by (auto simp: app_loaded_def distinct_map inj_on_def)
    with m' imported.hyps(4) loaded_closed show ?case by simp
  qed
next
  have app: "loaded x" if "m \<in> set app_modules" "loaded (md_name m)" "x \<in> set (own_imports m)" for m x
    using that loaded.imported by blast
  have "list_all loaded (own_imports AppModule)"
    using loaded.root app [of AppModule] by (auto simp: list_all_iff app_modules_def AppModule_def)
  moreover assume "n \<in> md_name ` set app_loaded"
  ultimately show "loaded n"
    using loaded.root
    by (auto simp: app_loaded_eq own_imports_def module_tables List.map_filter_def)
qed

lemma own_unresolved: "unresolved no_library app_loaded =
    [(AppModule, ''RolesGuard'', Class ''Reflector''),
     (AuthModule, ''AuthController'', Class ''ConfigService''),
     (AuthModule, ''JwtAuthService'', Class ''JwtService''),
     (AuthModule, ''JwtAuthService'', Class ''ConfigService''),
     (AuthModule, ''ApiTokenService'', Class ''ConfigService''),
     (AuthModule, ''JwtStrategy'', Class ''ConfigService''),
     (AuthModule, ''RateLimitGuard'', Class ''Reflector''),
     (AuthModule, ''RolesGuard'', Class ''Reflector''),
     (MarketDataModule, ''CacheInvalidationService'', Class ''EventEmitter2''),
     (AiModule, ''OpenAiProvider'', Class ''ConfigService''),
     (AiModule, ''OpenAiProvider'', Class ''ConfigService''),
     (HealthModule, ''HealthController'', Class ''DataSource'')]"
  by code_simp

lemma provided_no_library: "set (provided no_library i) \<subseteq> set (provided L i)"
  by (cases i) (simp_all add: provided_def no_library_def)

lemma visible_no_library: "set (visible no_library ms m) \<subseteq> set (visible L ms m)"
  using provided_no_library by (fastforce simp: visible_def no_library_def)

lemma visible_global: "t \<in> set (lb_global L) \<Longrightarrow> t \<in> set (visible L ms m)"
  by (simp add: visible_def)

lemma visible_import: "t \<in> set (lb_exports L n) \<Longrightarrow> Lib n \<in> set (md_imports m) \<Longrightarrow> t \<in> set (visible L ms m)"
  by (force simp: visible_def provided_def)

lemma unresolved_iff: "(m, c, t) \<in> set (unresolved L ms) \<longleftrightarrow>
    m \<in> set ms \<and> (c, t) \<in> set (requirements m) \<and> t \<notin> set (visible L ms m)"
  by (force simp: unresolved_def)

context nest_library
begin

lemma library_tokens:
  assumes "(m, c, t) \<in> set (unresolved no_library app_loaded)"
  shows "t \<in> set (visible L app_loaded m)"
  using assms unfolding own_unresolved
  by (auto intro: visible_global config_global data_source emitter reflector
      visible_import [OF jwt_module] simp: AuthModule_def)

lemma all_resolved: "unresolved L app_loaded = []"
proof -
  have "x \<notin> set (unresolved L app_loaded)" for x
    using library_tokens visible_no_library by (cases x) (force simp: unresolved_iff)
  then show ?thesis by (metis last_in_set)
qed

end

text \<open>The libraries' exports that the application uses.\<close>

definition used_library :: library where
  "used_library = \<lparr>lb_exports = (\<lambda>n. if n = ''JwtModule'' then [Class ''JwtService''] else []),
     lb_global = [Class ''ConfigService'', Class ''DataSource'', Class ''EventEmitter2'', Class ''Reflector'']\<rparr>"

interpretation used: nest_library used_library
  by unfold_locales (simp_all add: used_library_def)

section \<open>Starting the application\<close>

definition REQUIRED_ENV_VARS :: "string list" where
  "REQUIRED_ENV_VARS = [''JWT_SECRET'', ''DB_HOST'', ''REDIS_URL'']"

text \<open>\<open>env\<close> is \<open>process.env\<close>; an empty variable counts as missing.\<close>

definition missing_env :: "(string \<Rightarrow> string option) \<Rightarrow> string list" where
  "missing_env env = filter (\<lambda>key. \<not> truthy (env key)) REQUIRED_ENV_VARS"

definition validateRequiredEnv :: "(string \<Rightarrow> string option) \<Rightarrow> exn + unit" where
  "validateRequiredEnv env = (if 0 < length (missing_env env)
     then Inl (Error (''Missing required environment variables: '' @ js_join '', '' (missing_env env) @ ''.'' @ [CHR 0x0A] @
       ''Set them in your .env file or export them before starting the server.'' @ [CHR 0x0A] @
       ''Required: JWT_SECRET, DB_HOST, REDIS_URL (or REDIS_HOST + REDIS_PORT)''))
     else Inr ())"

lemma validateRequiredEnv_iff: "validateRequiredEnv env = Inr () \<longleftrightarrow> list_all (\<lambda>key. truthy (env key)) REQUIRED_ENV_VARS"
  by (simp add: validateRequiredEnv_def missing_env_def filter_empty_conv list_all_iff)

text \<open>The message offers a host and a port in place of \<open>REDIS_URL\<close>; the check does not accept them.\<close>

lemma redis_host_refused: "env ''REDIS_URL'' = None \<Longrightarrow> validateRequiredEnv env \<noteq> Inr ()"
  by (simp add: validateRequiredEnv_iff REQUIRED_ENV_VARS_def)

section \<open>Properties\<close>

text \<open>
  C23. The modules link: in every module that \<open>AppModule\<close> reaches, each parameter of each constructor is provided by the
  module itself, exported by a module it imports, or available everywhere.
\<close>

theorem modules_link:
  assumes "nest_library L"
  shows "unresolved L app_loaded = []"
  by (rule nest_library.all_resolved [OF assms])

theorem modules_link_witness: "unresolved used_library app_loaded = []"
  by (rule modules_link [OF used.nest_library_axioms])

text \<open>
  Four entities whose repositories the modules of the application register are missing from the entities of the data
  source: those of the voice sessions and the usage quota, and both of the Stellar monitor.
\<close>

theorem entities_missing:
  "missing_entities app_loaded = [''VoiceSession'', ''AiUsageQuota'', ''WebhookConsumer'', ''StellarEvent'']"
  by code_simp

end
