(* ===== verification/Db_Migration.thy ===== *)
theory Db_Migration
  imports Workflow_Types App_Modules
begin

text \<open>
  The database schema: the entities of the workflow engine and of the Stellar monitor as their decorators declare them, and the
  migration that creates their tables (src/Backend/src/database). A migration is a list of SQL statements, whose meaning on
  the catalogue of a database is \<open>run_ddl\<close>; how TypeORM chooses the type of a column is an argument with laws. Names of
  constraints that no other statement uses are left out.
\<close>

section \<open>Statements\<close>

datatype sql_type = Builtin string | EnumType string

datatype sql_default = NoDefault | DefCall string | DefLit string

record sql_column =
  sc_name :: string
  sc_type :: sql_type
  sc_notNull :: bool
  sc_default :: sql_default

definition column :: "string \<Rightarrow> sql_type \<Rightarrow> bool \<Rightarrow> sql_default \<Rightarrow> sql_column" where
  "column n t b d = \<lparr>sc_name = n, sc_type = t, sc_notNull = b, sc_default = d\<rparr>"

text \<open>What a foreign key does to the rows that refer to a row when that row is deleted, or its key updated.\<close>

datatype fk_action = NoAction | Cascade

text \<open>A table has its columns, the columns with a unique constraint, and its primary key.\<close>

datatype ddl =
    CreateType string "string list"
  | CreateTable string "sql_column list" "string list" string
  | CreateIndex string string string
  | AddForeignKey string string string string string fk_action fk_action
  | DropConstraint string string
  | DropIndex string
  | DropTable string
  | DropType string

record table_def =
  td_columns :: "sql_column list"
  td_unique :: "string list"
  td_primary :: string

text \<open>Indices are name, table, column; foreign keys name, table, column, table that is referred to, and
  their actions on delete and on update.\<close>

record catalog =
  ct_types :: "(string \<times> string list) list"
  ct_tables :: "(string \<times> table_def) list"
  ct_indices :: "(string \<times> string \<times> string) list"
  ct_foreign :: "(string \<times> string \<times> string \<times> string \<times> fk_action \<times> fk_action) list"

definition empty_catalog :: catalog where
  "empty_catalog = \<lparr>ct_types = [], ct_tables = [], ct_indices = [], ct_foreign = []\<rparr>"

definition has_column :: "catalog \<Rightarrow> string \<Rightarrow> string \<Rightarrow> bool" where
  "has_column c t k = (case map_of (ct_tables c) t of None \<Rightarrow> False | Some td \<Rightarrow> list_ex (\<lambda>x. sc_name x = k) (td_columns td))"

fun type_known :: "catalog \<Rightarrow> sql_type \<Rightarrow> bool" where
  "type_known c (Builtin t) = True"
| "type_known c (EnumType t) = (map_of (ct_types c) t \<noteq> None)"

definition relation_free :: "catalog \<Rightarrow> string \<Rightarrow> bool" where
  "relation_free c n \<longleftrightarrow> map_of (ct_tables c) n = None \<and> map_of (ct_indices c) n = None"

text \<open>\<open>None\<close> is a statement the database refuses, which stops the migration.\<close>

fun run_ddl :: "ddl \<Rightarrow> catalog \<Rightarrow> catalog option" where
  "run_ddl (CreateType n vs) c =
     (if map_of (ct_types c) n = None then Some (c\<lparr>ct_types := ct_types c @ [(n, vs)]\<rparr>) else None)"
| "run_ddl (CreateTable n cs us k) c =
     (if relation_free c n \<and> distinct (map sc_name cs) \<and> list_all (\<lambda>x. type_known c (sc_type x)) cs
         \<and> list_all (\<lambda>u. list_ex (\<lambda>x. sc_name x = u) cs) (k # us)
      then Some (c\<lparr>ct_tables := ct_tables c @ [(n, \<lparr>td_columns = cs, td_unique = us, td_primary = k\<rparr>)]\<rparr>) else None)"
| "run_ddl (CreateIndex n t k) c =
     (if relation_free c n \<and> has_column c t k then Some (c\<lparr>ct_indices := ct_indices c @ [(n, t, k)]\<rparr>) else None)"
| "run_ddl (AddForeignKey t n k r rk onDelete onUpdate) c =
     (if has_column c t k \<and> map_option td_primary (map_of (ct_tables c) r) = Some rk \<and> map_of (ct_foreign c) n = None
      then Some (c\<lparr>ct_foreign := ct_foreign c @ [(n, t, k, r, onDelete, onUpdate)]\<rparr>) else None)"
| "run_ddl (DropConstraint t n) c =
     (if map_option fst (map_of (ct_foreign c) n) = Some t
      then Some (c\<lparr>ct_foreign := filter (\<lambda>p. fst p \<noteq> n) (ct_foreign c)\<rparr>) else None)"
| "run_ddl (DropIndex n) c =
     (if map_of (ct_indices c) n \<noteq> None then Some (c\<lparr>ct_indices := filter (\<lambda>p. fst p \<noteq> n) (ct_indices c)\<rparr>) else None)"
| "run_ddl (DropTable n) c =
     (if map_of (ct_tables c) n \<noteq> None \<and> \<not> list_ex (\<lambda>(i, t, k, r, acts). r = n \<and> t \<noteq> n) (ct_foreign c)
      then Some (c\<lparr>ct_tables := filter (\<lambda>p. fst p \<noteq> n) (ct_tables c),
                  ct_indices := filter (\<lambda>(i, t, k). t \<noteq> n) (ct_indices c),
                  ct_foreign := filter (\<lambda>(i, t, k). t \<noteq> n) (ct_foreign c)\<rparr>) else None)"
| "run_ddl (DropType n) c =
     (if map_of (ct_types c) n \<noteq> None
         \<and> \<not> list_ex (\<lambda>(t, td). list_ex (\<lambda>x. sc_type x = EnumType n) (td_columns td)) (ct_tables c)
      then Some (c\<lparr>ct_types := filter (\<lambda>p. fst p \<noteq> n) (ct_types c)\<rparr>) else None)"

fun run_all :: "ddl list \<Rightarrow> catalog \<Rightarrow> catalog option" where
  "run_all [] c = Some c"
| "run_all (s # ss) c = (case run_ddl s c of None \<Rightarrow> None | Some c' \<Rightarrow> run_all ss c')"

section \<open>The migration\<close>

definition workflows_columns :: "sql_column list" where
  "workflows_columns =
     [column ''id'' (Builtin ''uuid'') True (DefCall ''uuid_generate_v4''),
      column ''idempotencyKey'' (Builtin ''character varying'') True NoDefault,
      column ''type'' (EnumType ''workflows_type_enum'') True NoDefault,
      column ''state'' (EnumType ''workflows_state_enum'') True (DefLit ''pending''),
      column ''userId'' (Builtin ''character varying'') False NoDefault,
      column ''walletAddress'' (Builtin ''character varying'') False NoDefault,
      column ''input'' (Builtin ''jsonb'') True NoDefault,
      column ''output'' (Builtin ''jsonb'') False NoDefault,
      column ''context'' (Builtin ''jsonb'') False NoDefault,
      column ''currentStepIndex'' (Builtin ''integer'') True (DefLit ''0''),
      column ''totalSteps'' (Builtin ''integer'') True (DefLit ''0''),
      column ''startedAt'' (Builtin ''TIMESTAMP'') False NoDefault,
      column ''completedAt'' (Builtin ''TIMESTAMP'') False NoDefault,
      column ''failedAt'' (Builtin ''TIMESTAMP'') False NoDefault,
      column ''failureReason'' (Builtin ''character varying'') False NoDefault,
      column ''retryCount'' (Builtin ''integer'') True (DefLit ''0''),
      column ''maxRetries'' (Builtin ''integer'') True (DefLit ''3''),
      column ''nextRetryAt'' (Builtin ''TIMESTAMP'') False NoDefault,
      column ''requiresCompensation'' (Builtin ''boolean'') True (DefLit ''false''),
      column ''isCompensated'' (Builtin ''boolean'') True (DefLit ''false''),
      column ''createdAt'' (Builtin ''TIMESTAMP'') True (DefCall ''now''),
      column ''updatedAt'' (Builtin ''TIMESTAMP'') True (DefCall ''now'')]"

definition workflow_steps_columns :: "sql_column list" where
  "workflow_steps_columns =
     [column ''id'' (Builtin ''uuid'') True (DefCall ''uuid_generate_v4''),
      column ''workflowId'' (Builtin ''uuid'') True NoDefault,
      column ''stepName'' (Builtin ''character varying'') True NoDefault,
      column ''stepIndex'' (Builtin ''integer'') True NoDefault,
      column ''state'' (EnumType ''workflow_steps_state_enum'') True (DefLit ''pending''),
      column ''input'' (Builtin ''jsonb'') False NoDefault,
      column ''output'' (Builtin ''jsonb'') False NoDefault,
      column ''config'' (Builtin ''jsonb'') False NoDefault,
      column ''retryCount'' (Builtin ''integer'') True (DefLit ''0''),
      column ''maxRetries'' (Builtin ''integer'') True (DefLit ''3''),
      column ''startedAt'' (Builtin ''TIMESTAMP'') False NoDefault,
      column ''completedAt'' (Builtin ''TIMESTAMP'') False NoDefault,
      column ''failedAt'' (Builtin ''TIMESTAMP'') False NoDefault,
      column ''failureReason'' (Builtin ''character varying'') False NoDefault,
      column ''nextRetryAt'' (Builtin ''TIMESTAMP'') False NoDefault,
      column ''requiresCompensation'' (Builtin ''boolean'') True (DefLit ''false''),
      column ''isCompensated'' (Builtin ''boolean'') True (DefLit ''false''),
      column ''compensatedAt'' (Builtin ''TIMESTAMP'') False NoDefault,
      column ''compensationStepName'' (Builtin ''character varying'') False NoDefault,
      column ''compensationConfig'' (Builtin ''jsonb'') False NoDefault,
      column ''isIdempotent'' (Builtin ''boolean'') True (DefLit ''false''),
      column ''idempotencyKey'' (Builtin ''character varying'') False NoDefault,
      column ''createdAt'' (Builtin ''TIMESTAMP'') True (DefCall ''now''),
      column ''updatedAt'' (Builtin ''TIMESTAMP'') True (DefCall ''now'')]"

definition webhook_consumers_columns :: "sql_column list" where
  "webhook_consumers_columns =
     [column ''id'' (Builtin ''uuid'') True (DefCall ''uuid_generate_v4''),
      column ''name'' (Builtin ''character varying(100)'') True NoDefault,
      column ''url'' (Builtin ''character varying(500)'') True NoDefault,
      column ''secret'' (Builtin ''character varying(100)'') False NoDefault,
      column ''status'' (Builtin ''character varying(20)'') True (DefLit ''active''),
      column ''maxRetries'' (Builtin ''integer'') True (DefLit ''5''),
      column ''timeoutMs'' (Builtin ''integer'') True (DefLit ''5000''),
      column ''isActive'' (Builtin ''boolean'') True (DefLit ''true''),
      column ''createdAt'' (Builtin ''TIMESTAMP'') True (DefCall ''now''),
      column ''updatedAt'' (Builtin ''TIMESTAMP'') True (DefCall ''now''),
      column ''metadata'' (Builtin ''text'') False NoDefault,
      column ''lastDeliveryAttempt'' (Builtin ''TIMESTAMP'') False NoDefault,
      column ''lastDeliverySuccess'' (Builtin ''TIMESTAMP'') False NoDefault,
      column ''totalDeliveries'' (Builtin ''integer'') True (DefLit ''0''),
      column ''failedDeliveries'' (Builtin ''integer'') True (DefLit ''0'')]"

definition stellar_events_columns :: "sql_column list" where
  "stellar_events_columns =
     [column ''id'' (Builtin ''uuid'') True (DefCall ''uuid_generate_v4''),
      column ''eventType'' (Builtin ''character varying(20)'') True NoDefault,
      column ''ledgerSequence'' (Builtin ''integer'') True NoDefault,
      column ''timestamp'' (Builtin ''TIMESTAMP WITH TIME ZONE'') True NoDefault,
      column ''transactionHash'' (Builtin ''character varying(64)'') True NoDefault,
      column ''sourceAccount'' (Builtin ''character varying(56)'') True NoDefault,
      column ''payload'' (Builtin ''text'') True NoDefault,
      column ''deliveryStatus'' (Builtin ''character varying(20)'') True (DefLit ''pending''),
      column ''deliveryAttempts'' (Builtin ''integer'') True (DefLit ''0''),
      column ''lastAttemptAt'' (Builtin ''TIMESTAMP WITH TIME ZONE'') False NoDefault,
      column ''deliveredAt'' (Builtin ''TIMESTAMP WITH TIME ZONE'') False NoDefault,
      column ''deliveredTo'' (Builtin ''text'') False NoDefault,
      column ''failedDeliveries'' (Builtin ''text'') False NoDefault,
      column ''createdAt'' (Builtin ''TIMESTAMP'') True (DefCall ''now''),
      column ''updatedAt'' (Builtin ''TIMESTAMP'') True (DefCall ''now''),
      column ''errorMessage'' (Builtin ''text'') False NoDefault,
      column ''isProcessed'' (Builtin ''boolean'') True (DefLit ''false'')]"

definition InitialSchema_up :: "ddl list" where
  "InitialSchema_up =
     [CreateType ''workflows_type_enum'' [''contract_deployment'', ''trade_execution'', ''ai_job_chain'', ''indexing_verification'', ''portfolio_update'', ''reward_grant''],
      CreateType ''workflows_state_enum'' [''pending'', ''running'', ''completed'', ''failed'', ''cancelled'', ''compensating'', ''compensated''],
      CreateTable ''workflows'' workflows_columns [''idempotencyKey''] ''id'',
      CreateIndex ''IDX_e6b7312458454123287286afa6'' ''workflows'' ''userId'',
      CreateIndex ''IDX_15206576633d3e612da44c882d'' ''workflows'' ''type'',
      CreateIndex ''IDX_98afa5ee1ac04e690c908bbf85'' ''workflows'' ''state'',
      CreateIndex ''IDX_619a202a61b92e73f20de8d29e'' ''workflows'' ''idempotencyKey'',
      CreateType ''workflow_steps_state_enum'' [''pending'', ''running'', ''completed'', ''failed'', ''skipped'', ''compensating'', ''compensated''],
      CreateTable ''workflow_steps'' workflow_steps_columns [] ''id'',
      CreateIndex ''IDX_5a56ecdb592cc9ed1924cd56eb'' ''workflow_steps'' ''state'',
      CreateIndex ''IDX_eb0c057661503827a7cd6d8ea4'' ''workflow_steps'' ''workflowId'',
      CreateTable ''webhook_consumers'' webhook_consumers_columns [] ''id'',
      CreateIndex ''IDX_f9a012d6f30c9ad8e5f5d8c6d6'' ''webhook_consumers'' ''url'',
      CreateIndex ''IDX_2b2d74b0fecc64757b033373ca'' ''webhook_consumers'' ''status'',
      CreateIndex ''IDX_60519c0ef4651ab9ce331d47ed'' ''webhook_consumers'' ''isActive'',
      CreateTable ''stellar_events'' stellar_events_columns [] ''id'',
      CreateIndex ''IDX_56e937f62e6766e06118ae9b6c'' ''stellar_events'' ''eventType'',
      CreateIndex ''IDX_b6f5c1c7a4a8adaed3728b05d3'' ''stellar_events'' ''ledgerSequence'',
      CreateIndex ''IDX_f8d00fffa3b5110edf867481dd'' ''stellar_events'' ''timestamp'',
      CreateIndex ''IDX_9f76c9efc1e76d48e01f8eebe9'' ''stellar_events'' ''transactionHash'',
      CreateIndex ''IDX_3297c60e536613d9a6984b5466'' ''stellar_events'' ''sourceAccount'',
      CreateIndex ''IDX_842c30a1d102e48a388b3de116'' ''stellar_events'' ''deliveryStatus'',
      CreateIndex ''IDX_f33cdaaaeb7d011cd9167d45de'' ''stellar_events'' ''lastAttemptAt'',
      CreateIndex ''IDX_ff0223ec6b4d2088d80a275370'' ''stellar_events'' ''isProcessed'',
      AddForeignKey ''workflow_steps'' ''FK_eb0c057661503827a7cd6d8ea41'' ''workflowId'' ''workflows'' ''id'' Cascade NoAction]"

definition InitialSchema_down :: "ddl list" where
  "InitialSchema_down =
     [DropConstraint ''workflow_steps'' ''FK_eb0c057661503827a7cd6d8ea41'',
      DropIndex ''IDX_ff0223ec6b4d2088d80a275370'',
      DropIndex ''IDX_f33cdaaaeb7d011cd9167d45de'',
      DropIndex ''IDX_842c30a1d102e48a388b3de116'',
      DropIndex ''IDX_3297c60e536613d9a6984b5466'',
      DropIndex ''IDX_9f76c9efc1e76d48e01f8eebe9'',
      DropIndex ''IDX_f8d00fffa3b5110edf867481dd'',
      DropIndex ''IDX_b6f5c1c7a4a8adaed3728b05d3'',
      DropIndex ''IDX_56e937f62e6766e06118ae9b6c'',
      DropTable ''stellar_events'',
      DropIndex ''IDX_60519c0ef4651ab9ce331d47ed'',
      DropIndex ''IDX_2b2d74b0fecc64757b033373ca'',
      DropIndex ''IDX_f9a012d6f30c9ad8e5f5d8c6d6'',
      DropTable ''webhook_consumers'',
      DropIndex ''IDX_eb0c057661503827a7cd6d8ea4'',
      DropIndex ''IDX_5a56ecdb592cc9ed1924cd56eb'',
      DropTable ''workflow_steps'',
      DropType ''workflow_steps_state_enum'',
      DropIndex ''IDX_619a202a61b92e73f20de8d29e'',
      DropIndex ''IDX_98afa5ee1ac04e690c908bbf85'',
      DropIndex ''IDX_15206576633d3e612da44c882d'',
      DropIndex ''IDX_e6b7312458454123287286afa6'',
      DropTable ''workflows'',
      DropType ''workflows_state_enum'',
      DropType ''workflows_type_enum'']"

section \<open>The entities\<close>

text \<open>
  The type of a column is what TypeScript reflects for the property, what the decorator says, an enumeration, or that of the
  key a relation joins, with what the relation says of \<open>onDelete\<close>: nothing when that is \<open>NoAction\<close>. No relation here names \<open>onUpdate\<close>.
\<close>

datatype ts_type = TsString | TsNumber | TsBoolean | TsDate

datatype col_type = Reflected ts_type | Declared string | EnumOf "string list" | Joined string fk_action | GeneratedUuid | Stamped

record column_decl =
  cd_name :: string
  cd_type :: col_type
  cd_length :: "nat option"
  cd_nullable :: bool
  cd_unique :: bool
  cd_default :: "string option"
  cd_index :: bool

definition col :: "string \<Rightarrow> col_type \<Rightarrow> column_decl" where
  "col n t = \<lparr>cd_name = n, cd_type = t, cd_length = None, cd_nullable = False, cd_unique = False, cd_default = None, cd_index = False\<rparr>"

definition sized :: "nat \<Rightarrow> column_decl \<Rightarrow> column_decl" where
  "sized n d = d\<lparr>cd_length := Some n\<rparr>"

definition uniq :: "column_decl \<Rightarrow> column_decl" where
  "uniq d = d\<lparr>cd_unique := True\<rparr>"

definition optional_col :: "column_decl \<Rightarrow> column_decl" where
  "optional_col d = d\<lparr>cd_nullable := True\<rparr>"

definition dflt :: "string \<Rightarrow> column_decl \<Rightarrow> column_decl" where
  "dflt v d = d\<lparr>cd_default := Some v\<rparr>"

definition indexed :: "column_decl \<Rightarrow> column_decl" where
  "indexed d = d\<lparr>cd_index := True\<rparr>"

definition primary_uuid :: "string \<Rightarrow> column_decl" where
  "primary_uuid n = col n GeneratedUuid"

definition now_column :: "string \<Rightarrow> column_decl" where
  "now_column n = col n Stamped"

definition WorkflowType_values :: "string list" where
  "WorkflowType_values = [''contract_deployment'', ''trade_execution'', ''ai_job_chain'', ''indexing_verification'',
     ''portfolio_update'', ''reward_grant'']"

definition WorkflowState_values :: "string list" where
  "WorkflowState_values = map workflow_state_value
     [WPENDING, WRUNNING, WCOMPLETED, WFAILED, WCANCELLED, WCOMPENSATING, WCOMPENSATED]"

definition StepState_values :: "string list" where
  "StepState_values = map step_state_value
     [SPENDING, SRUNNING, SCOMPLETED, SFAILED, SSKIPPED, SCOMPENSATING, SCOMPENSATED]"

text \<open>An entity with the columns its class is decorated with an index for.\<close>

record entity_decl =
  en_class :: string
  en_table :: string
  en_indices :: "string list"
  en_columns :: "column_decl list"

definition Workflow_entity :: entity_decl where
  "Workflow_entity = \<lparr>en_class = ''Workflow'', en_table = ''workflows'', en_indices = [''idempotencyKey'', ''state'', ''type'', ''userId''], en_columns =
     [primary_uuid ''id'',
      uniq (col ''idempotencyKey'' (Reflected TsString)),
      col ''type'' (EnumOf WorkflowType_values),
      dflt (workflow_state_value WPENDING) (col ''state'' (EnumOf WorkflowState_values)),
      optional_col (col ''userId'' (Reflected TsString)),
      optional_col (col ''walletAddress'' (Reflected TsString)),
      col ''input'' (Declared ''jsonb''),
      optional_col (col ''output'' (Declared ''jsonb'')),
      optional_col (col ''context'' (Declared ''jsonb'')),
      dflt ''0'' (col ''currentStepIndex'' (Reflected TsNumber)),
      dflt ''0'' (col ''totalSteps'' (Reflected TsNumber)),
      optional_col (col ''startedAt'' (Declared ''timestamp'')),
      optional_col (col ''completedAt'' (Declared ''timestamp'')),
      optional_col (col ''failedAt'' (Declared ''timestamp'')),
      optional_col (col ''failureReason'' (Reflected TsString)),
      dflt ''0'' (col ''retryCount'' (Reflected TsNumber)),
      dflt ''3'' (col ''maxRetries'' (Reflected TsNumber)),
      optional_col (col ''nextRetryAt'' (Declared ''timestamp'')),
      dflt ''false'' (col ''requiresCompensation'' (Reflected TsBoolean)),
      dflt ''false'' (col ''isCompensated'' (Reflected TsBoolean)),
      now_column ''createdAt'',
      now_column ''updatedAt'']\<rparr>"

definition WorkflowStep_entity :: entity_decl where
  "WorkflowStep_entity = \<lparr>en_class = ''WorkflowStep'', en_table = ''workflow_steps'', en_indices = [''workflowId'', ''state''], en_columns =
     [primary_uuid ''id'',
      col ''workflowId'' (Joined ''workflows'' Cascade),
      col ''stepName'' (Reflected TsString),
      col ''stepIndex'' (Reflected TsNumber),
      dflt (step_state_value SPENDING) (col ''state'' (EnumOf StepState_values)),
      optional_col (col ''input'' (Declared ''jsonb'')),
      optional_col (col ''output'' (Declared ''jsonb'')),
      optional_col (col ''config'' (Declared ''jsonb'')),
      dflt ''0'' (col ''retryCount'' (Reflected TsNumber)),
      dflt ''3'' (col ''maxRetries'' (Reflected TsNumber)),
      optional_col (col ''startedAt'' (Declared ''timestamp'')),
      optional_col (col ''completedAt'' (Declared ''timestamp'')),
      optional_col (col ''failedAt'' (Declared ''timestamp'')),
      optional_col (col ''failureReason'' (Reflected TsString)),
      optional_col (col ''nextRetryAt'' (Declared ''timestamp'')),
      dflt ''false'' (col ''requiresCompensation'' (Reflected TsBoolean)),
      dflt ''false'' (col ''isCompensated'' (Reflected TsBoolean)),
      optional_col (col ''compensatedAt'' (Declared ''timestamp'')),
      optional_col (col ''compensationStepName'' (Reflected TsString)),
      optional_col (col ''compensationConfig'' (Declared ''jsonb'')),
      dflt ''false'' (col ''isIdempotent'' (Reflected TsBoolean)),
      optional_col (col ''idempotencyKey'' (Reflected TsString)),
      now_column ''createdAt'',
      now_column ''updatedAt'']\<rparr>"

definition WebhookConsumer_entity :: entity_decl where
  "WebhookConsumer_entity = \<lparr>en_class = ''WebhookConsumer'', en_table = ''webhook_consumers'', en_indices = [], en_columns =
     [primary_uuid ''id'',
      sized 100 (col ''name'' (Reflected TsString)),
      indexed (sized 500 (col ''url'' (Reflected TsString))),
      optional_col (sized 100 (col ''secret'' (Reflected TsString))),
      indexed (dflt ''active'' (sized 20 (col ''status'' (Declared ''varchar'')))),
      dflt ''5'' (col ''maxRetries'' (Reflected TsNumber)),
      dflt ''5000'' (col ''timeoutMs'' (Reflected TsNumber)),
      indexed (dflt ''true'' (col ''isActive'' (Reflected TsBoolean))),
      now_column ''createdAt'',
      now_column ''updatedAt'',
      optional_col (col ''metadata'' (Declared ''simple-json'')),
      optional_col (col ''lastDeliveryAttempt'' (Reflected TsDate)),
      optional_col (col ''lastDeliverySuccess'' (Reflected TsDate)),
      dflt ''0'' (col ''totalDeliveries'' (Reflected TsNumber)),
      dflt ''0'' (col ''failedDeliveries'' (Reflected TsNumber))]\<rparr>"

definition StellarEvent_entity :: entity_decl where
  "StellarEvent_entity = \<lparr>en_class = ''StellarEvent'', en_table = ''stellar_events'', en_indices = [], en_columns =
     [primary_uuid ''id'',
      indexed (sized 20 (col ''eventType'' (Declared ''varchar''))),
      indexed (col ''ledgerSequence'' (Reflected TsNumber)),
      indexed (col ''timestamp'' (Declared ''timestamptz'')),
      indexed (sized 64 (col ''transactionHash'' (Reflected TsString))),
      indexed (sized 56 (col ''sourceAccount'' (Reflected TsString))),
      col ''payload'' (Declared ''simple-json''),
      indexed (dflt ''pending'' (sized 20 (col ''deliveryStatus'' (Declared ''varchar'')))),
      dflt ''0'' (col ''deliveryAttempts'' (Reflected TsNumber)),
      indexed (optional_col (col ''lastAttemptAt'' (Declared ''timestamptz''))),
      optional_col (col ''deliveredAt'' (Declared ''timestamptz'')),
      optional_col (col ''deliveredTo'' (Declared ''simple-array'')),
      optional_col (col ''failedDeliveries'' (Declared ''simple-array'')),
      now_column ''createdAt'',
      now_column ''updatedAt'',
      optional_col (col ''errorMessage'' (Declared ''text'')),
      indexed (dflt ''false'' (col ''isProcessed'' (Reflected TsBoolean)))]\<rparr>"

definition migrated_entities :: "entity_decl list" where
  "migrated_entities = [Workflow_entity, WorkflowStep_entity, WebhookConsumer_entity, StellarEvent_entity]"

text \<open>All entity classes of the repository with their tables.\<close>

definition entity_tables :: "(string \<times> string) list" where
  "entity_tables =
     [(''Workflow'', ''workflows''), (''WorkflowStep'', ''workflow_steps''), (''User'', ''users''),
      (''WalletBinding'', ''wallet_bindings''), (''LoginNonce'', ''login_nonces''), (''RefreshToken'', ''refresh_tokens''),
      (''ApiToken'', ''api_tokens''), (''AuditLog'', ''audit_logs''), (''VoiceJob'', ''voice_jobs''),
      (''VoiceSession'', ''voice_sessions''), (''AiUsageQuota'', ''ai_usage_quota''),
      (''WebhookConsumer'', ''webhook_consumers''), (''StellarEvent'', ''stellar_events'')]"

subsection \<open>Columns\<close>

fun length_suffix :: "nat option \<Rightarrow> string" where
  "length_suffix None = []"
| "length_suffix (Some n) = ''('' @ show_nat n @ '')''"

text \<open>The names PostgreSQL has for the types decorators may give; lists and objects are kept in a text.\<close>

definition declared_names :: "(string \<times> string) list" where
  "declared_names = [(''varchar'', ''character varying''), (''timestamp'', ''TIMESTAMP''), (''timestamptz'', ''TIMESTAMP WITH TIME ZONE''),
     (''jsonb'', ''jsonb''), (''text'', ''text''), (''simple-json'', ''text''), (''simple-array'', ''text'')]"

definition enum_name :: "string \<Rightarrow> string \<Rightarrow> string" where
  "enum_name t k = t @ ''_'' @ k @ ''_enum''"

text \<open>
  \<open>db_type t d\<close> is the type TypeORM gives the column declared by \<open>d\<close> in table \<open>t\<close> of a PostgreSQL database. All tables here have
  a generated key, which is what a joined column refers to.
\<close>

locale orm_types =
  fixes db_type :: "string \<Rightarrow> column_decl \<Rightarrow> sql_type"
  assumes text_type: "cd_type d = Reflected TsString \<Longrightarrow> db_type t d = Builtin (''character varying'' @ length_suffix (cd_length d))"
    and number_type: "cd_type d = Reflected TsNumber \<Longrightarrow> db_type t d = Builtin ''integer''"
    and boolean_type: "cd_type d = Reflected TsBoolean \<Longrightarrow> db_type t d = Builtin ''boolean''"
    and date_type: "cd_type d = Reflected TsDate \<Longrightarrow> db_type t d = Builtin ''TIMESTAMP''"
    and declared_type: "cd_type d = Declared n \<Longrightarrow> map_of declared_names n = Some m \<Longrightarrow>
      db_type t d = Builtin (m @ length_suffix (cd_length d))"
    and enum_type: "cd_type d = EnumOf vs \<Longrightarrow> db_type t d = EnumType (enum_name t (cd_name d))"
    and joined_type: "cd_type d = Joined r a \<Longrightarrow> db_type t d = Builtin ''uuid''"
    and key_type: "cd_type d = GeneratedUuid \<Longrightarrow> db_type t d = Builtin ''uuid''"
    and stamped_type: "cd_type d = Stamped \<Longrightarrow> db_type t d = Builtin ''TIMESTAMP''"

fun postgres_type :: "string \<Rightarrow> column_decl \<Rightarrow> sql_type" where
  "postgres_type t d = (case cd_type d of
       Reflected k \<Rightarrow> (case k of
           TsString \<Rightarrow> Builtin (''character varying'' @ length_suffix (cd_length d))
         | TsNumber \<Rightarrow> Builtin ''integer'' | TsBoolean \<Rightarrow> Builtin ''boolean'' | TsDate \<Rightarrow> Builtin ''TIMESTAMP'')
     | Declared n \<Rightarrow> Builtin (the (map_of declared_names n) @ length_suffix (cd_length d))
     | EnumOf vs \<Rightarrow> EnumType (enum_name t (cd_name d))
     | Joined r a \<Rightarrow> Builtin ''uuid'' | GeneratedUuid \<Rightarrow> Builtin ''uuid'' | Stamped \<Rightarrow> Builtin ''TIMESTAMP'')"

interpretation postgres: orm_types postgres_type
  by unfold_locales auto

definition column_default :: "column_decl \<Rightarrow> sql_default" where
  "column_default d = (case cd_type d of GeneratedUuid \<Rightarrow> DefCall ''uuid_generate_v4'' | Stamped \<Rightarrow> DefCall ''now''
     | _ \<Rightarrow> (case cd_default d of None \<Rightarrow> NoDefault | Some v \<Rightarrow> DefLit v))"

definition entity_columns :: "(string \<Rightarrow> column_decl \<Rightarrow> sql_type) \<Rightarrow> entity_decl \<Rightarrow> sql_column list" where
  "entity_columns db_type e =
     map (\<lambda>d. column (cd_name d) (db_type (en_table e) d) (\<not> cd_nullable d) (column_default d)) (en_columns e)"

definition entity_table :: "(string \<Rightarrow> column_decl \<Rightarrow> sql_type) \<Rightarrow> entity_decl \<Rightarrow> table_def" where
  "entity_table db_type e = \<lparr>td_columns = entity_columns db_type e,
     td_unique = map cd_name (filter cd_unique (en_columns e)), td_primary = ''id''\<rparr>"

definition index_columns :: "entity_decl \<Rightarrow> string set" where
  "index_columns e = set (en_indices e) \<union> cd_name ` set (filter cd_index (en_columns e))"

fun enum_values :: "col_type \<Rightarrow> string list option" where
  "enum_values (EnumOf vs) = Some vs"
| "enum_values _ = None"

definition entity_enums :: "entity_decl \<Rightarrow> (string \<times> string list) list" where
  "entity_enums e = map (\<lambda>d. (enum_name (en_table e) (cd_name d), the (enum_values (cd_type d))))
     (filter (\<lambda>d. enum_values (cd_type d) \<noteq> None) (en_columns e))"

section \<open>Connections\<close>

text \<open>
  The application and the command that runs the migrations read their connection from different variables of the environment.
\<close>

record connection =
  cn_host :: "string option"
  cn_username :: "string option"
  cn_password :: "string option"
  cn_database :: "string option"
  cn_synchronize :: bool

definition app_connection :: "(string \<Rightarrow> string option) \<Rightarrow> connection" where
  "app_connection env =
     \<lparr>cn_host = Some (or_str (env ''DB_HOST'') ''localhost''), cn_username = Some (or_str (env ''DB_USERNAME'') ''postgres''),
      cn_password = Some (or_str (env ''DB_PASSWORD'') ''password''),
      cn_database = Some (or_str (env ''DB_DATABASE'') ''stellara_workflows''),
      cn_synchronize = (env ''NODE_ENV'' = Some ''development'')\<rparr>"

definition AppDataSource :: "(string \<Rightarrow> string option) \<Rightarrow> connection" where
  "AppDataSource env = \<lparr>cn_host = env ''DB_HOST'', cn_username = env ''DB_USER'', cn_password = env ''DB_PASSWORD'',
     cn_database = env ''DB_NAME'', cn_synchronize = False\<rparr>"

section \<open>Lemmas\<close>

definition migrated :: catalog where
  "migrated = the (run_all InitialSchema_up empty_catalog)"

lemma migration_runs: "run_all InitialSchema_up empty_catalog = Some migrated"
proof -
  have "run_all InitialSchema_up empty_catalog \<noteq> None" by code_simp
  then show ?thesis by (auto simp: migrated_def)
qed

lemma migrated_standard:
  "map (\<lambda>e. map_of (ct_tables migrated) (en_table e)) migrated_entities = map (\<lambda>e. Some (entity_table postgres_type e)) migrated_entities"
  by code_simp

lemma known_declared:
  "list_all (\<lambda>e. list_all (\<lambda>d. case cd_type d of Declared n \<Rightarrow> map_of declared_names n \<noteq> None | _ \<Rightarrow> True) (en_columns e))
     migrated_entities"
  by code_simp

context orm_types
begin

lemma type_standard:
  assumes "case cd_type d of Declared n \<Rightarrow> map_of declared_names n \<noteq> None | _ \<Rightarrow> True"
  shows "db_type t d = postgres_type t d"
  using assms
  by (cases "cd_type d") (auto simp: number_type boolean_type date_type text_type declared_type enum_type joined_type key_type stamped_type
      split: ts_type.split)

lemma table_standard: "e \<in> set migrated_entities \<Longrightarrow> entity_table db_type e = entity_table postgres_type e"
  using known_declared by (auto simp: entity_table_def entity_columns_def list_all_iff type_standard)

end

lemma migrated_extras:
  "list_all (\<lambda>e. set (map (\<lambda>p. snd (snd p)) (filter (\<lambda>(n, t, k). t = en_table e) (ct_indices migrated))) = index_columns e) migrated_entities"
  "concat (map entity_enums migrated_entities) = ct_types migrated"
  by code_simp+

text \<open>The foreign keys of an entity: column, table, and the actions.\<close>

definition joined_columns :: "entity_decl \<Rightarrow> (string \<times> string \<times> fk_action \<times> fk_action) list" where
  "joined_columns e = concat (map (\<lambda>d. case cd_type d of Joined r a \<Rightarrow> [(cd_name d, r, a, NoAction)] | _ \<Rightarrow> []) (en_columns e))"

lemma joined_columns_set:
  "set (joined_columns e) = {(cd_name d, r, a, NoAction) | d r a. d \<in> set (en_columns e) \<and> cd_type d = Joined r a}"
  by (force simp: joined_columns_def split: col_type.splits)

lemma foreign_of: "set (map (\<lambda>p. snd (snd p)) (filter (\<lambda>(n, t, k). t = x) fs)) = {k. \<exists>n. (n, x, k) \<in> set fs}"
  by force

lemma migrated_foreign:
  "list_all (\<lambda>e. map (\<lambda>p. snd (snd p)) (filter (\<lambda>(n, t, k). t = en_table e) (ct_foreign migrated)) = joined_columns e) migrated_entities"
  by code_simp

definition without_table :: "catalog \<Rightarrow> string list" where
  "without_table c = map fst (filter (\<lambda>(k, t). map_of (ct_tables c) t = None) entity_tables)"

section \<open>Properties\<close>

text \<open>
  The migration can be undone. On an empty database \<open>up\<close> runs to its end, after it \<open>down\<close> does too and leaves the database
  empty, with no enumeration, index or constraint forgotten; and \<open>up\<close> is refused where it has run already.
\<close>

theorem migration_roundtrip:
  "run_all InitialSchema_up empty_catalog = Some migrated \<and> run_all InitialSchema_down migrated = Some empty_catalog
   \<and> run_all InitialSchema_up migrated = None"
proof -
  have "run_all InitialSchema_down migrated = Some empty_catalog" "run_all InitialSchema_up migrated = None" by code_simp+
  with migration_runs show ?thesis by simp
qed

text \<open>
  C30. The migration creates what the entities declare. For each of its four entities the table has exactly the declared columns
  in their order, with the types TypeORM chooses for them, their defaults and constraints; the indices are those of the
  decorators, and the foreign keys are the relations, with the action on delete that the relation names and none on update. The
  enumerations of the database are those of the entities, with the values of the code, and no others.
\<close>

theorem migration_matches_entities:
  assumes "orm_types db_type" and "e \<in> set migrated_entities"
  shows "map_of (ct_tables migrated) (en_table e) = Some (entity_table db_type e)
    \<and> {k. \<exists>n. (n, en_table e, k) \<in> set (ct_indices migrated)} = index_columns e
    \<and> {f. \<exists>n. (n, en_table e, f) \<in> set (ct_foreign migrated)} =
        {(cd_name d, r, onDelete, NoAction) | d r onDelete. d \<in> set (en_columns e) \<and> cd_type d = Joined r onDelete}
    \<and> set (entity_enums e) \<subseteq> set (ct_types migrated)
    \<and> ct_types migrated = concat (map entity_enums migrated_entities)"
proof -
  have "map_of (ct_tables migrated) (en_table e) = Some (entity_table db_type e)"
    using migrated_standard assms(2) orm_types.table_standard [OF assms] by auto
  moreover have "{k. \<exists>n. (n, en_table e, k) \<in> set (ct_indices migrated)} = index_columns e"
    unfolding foreign_of [symmetric] using migrated_extras(1) assms(2) by (simp add: list_all_iff)
  moreover have "set (entity_enums e) \<subseteq> set (ct_types migrated)"
    using assms(2) unfolding migrated_extras(2) [symmetric] by auto
  moreover have "{f. \<exists>n. (n, en_table e, f) \<in> set (ct_foreign migrated)} =
      {(cd_name d, r, onDelete, NoAction) | d r onDelete. d \<in> set (en_columns e) \<and> cd_type d = Joined r onDelete}"
    unfolding joined_columns_set [symmetric] foreign_of [symmetric] using migrated_foreign assms(2) by (simp add: list_all_iff)
  ultimately show ?thesis using migrated_extras(2) by simp
qed

theorem migration_matches_entities_witness:
  "map_of (ct_tables migrated) ''workflow_steps'' = Some (entity_table postgres_type WorkflowStep_entity)
   \<and> (''workflowId'', ''workflows'', Cascade, NoAction) \<in> {f. \<exists>n. (n, ''workflow_steps'', f) \<in> set (ct_foreign migrated)}"
proof -
  have step: "WorkflowStep_entity \<in> set migrated_entities" by (simp add: migrated_entities_def)
  have "en_table WorkflowStep_entity = ''workflow_steps''" by (simp add: WorkflowStep_entity_def)
  moreover have "col ''workflowId'' (Joined ''workflows'' Cascade) \<in> set (en_columns WorkflowStep_entity)" by (simp add: WorkflowStep_entity_def)
  then have "(''workflowId'', ''workflows'', Cascade, NoAction) \<in>
      {(cd_name d, r, a, NoAction) | d r a. d \<in> set (en_columns WorkflowStep_entity) \<and> cd_type d = Joined r a}"
    by (force simp: col_def)
  ultimately show ?thesis using migration_matches_entities [OF postgres.orm_types_axioms step] by simp
qed

text \<open>
  The tables of nine entities are never created. The migration is the only one; outside development the application does not
  create tables itself, so that every entity of the authentication, the audit log and the voice jobs, which the application
  registers, has no table.
\<close>

lemma tables_never_created:
  "without_table migrated = [''User'', ''WalletBinding'', ''LoginNonce'', ''RefreshToken'', ''ApiToken'', ''AuditLog'', ''VoiceJob'',
     ''VoiceSession'', ''AiUsageQuota'']
   \<and> filter (List.member (without_table migrated)) (source_entities [AppModule]) =
     [''User'', ''WalletBinding'', ''LoginNonce'', ''RefreshToken'', ''ApiToken'', ''AuditLog'', ''VoiceJob'']
   \<and> {env. cn_synchronize (app_connection env)} = {env. env ''NODE_ENV'' = Some ''development''}"
proof (intro conjI)
  show "{env. cn_synchronize (app_connection env)} = {env. env ''NODE_ENV'' = Some ''development''}"
    by (simp add: app_connection_def)
qed code_simp+

text \<open>
  The migrations run against the database of the application exactly when the same user and database are named in the
  variables of both.
\<close>

lemma same_database_iff:
  "cn_username (AppDataSource env) = cn_username (app_connection env)
   \<and> cn_database (AppDataSource env) = cn_database (app_connection env) \<longleftrightarrow>
   env ''DB_USER'' = Some (or_str (env ''DB_USERNAME'') ''postgres'')
   \<and> env ''DB_NAME'' = Some (or_str (env ''DB_DATABASE'') ''stellara_workflows'')"
  by (simp add: app_connection_def AppDataSource_def)

end
