(* ===== verification/Rate_Limit.thy ===== *)
theory Rate_Limit
  imports Ext_Redis
begin

text \<open>
  The two rate limiters in front of the controllers: the sliding window of
  src/Backend/src/auth/services/rate-limit.service.ts with its guard, and the counters with
  temporary bans of src/Backend/src/throttle. The sorted-set commands of the \<open>redis\<close> client are the
  fields of the record \<open>rate_env\<close>, with their laws in the locale \<open>window_store\<close>.
\<close>

section \<open>RateLimitService\<close>

text \<open>
  A sorted set maps its members to scores. \<open>zRange k\<close> is \<open>zRange(key, 0, 0)\<close>, the member with the
  lowest score in a list, empty when the set is.
\<close>

record 's rate_env =
  ra_now :: "'s \<Rightarrow> int"
  ra_zRemRangeByScore :: "string \<Rightarrow> int \<Rightarrow> int \<Rightarrow> ('s, unit) prog"
  ra_zCard :: "string \<Rightarrow> ('s, int) prog"
  ra_zRange :: "string \<Rightarrow> ('s, string list) prog"
  ra_zAdd :: "string \<Rightarrow> int \<Rightarrow> string \<Rightarrow> ('s, unit) prog"
  ra_expire :: "string \<Rightarrow> int \<Rightarrow> ('s, unit) prog"
  ra_del :: "string \<Rightarrow> ('s, unit) prog"

record rate_result =
  rr_allowed :: bool
  rr_remaining :: int
  rr_resetAt :: jsnum

definition rate_key :: "string \<Rightarrow> string" where
  "rate_key key = ''rate_limit:'' @ key"

definition checkRateLimit :: "'s rate_env \<Rightarrow> string \<Rightarrow> int \<Rightarrow> int \<Rightarrow> ('s, rate_result) prog" where
  "checkRateLimit R key limit windowSeconds =
     (let redisKey = rate_key key
      in bindE (readE (ra_now R)) (\<lambda>now.
         let windowStart = now - windowSeconds * 1000
         in catchE
           (seqE (ra_zRemRangeByScore R redisKey 0 windowStart)
           (bindE (ra_zCard R redisKey) (\<lambda>requestCount.
              if limit \<le> requestCount then
                bindE (ra_zRange R redisKey) (\<lambda>oldestEntry.
                let resetTime = (case oldestEntry of
                      e # _ \<Rightarrow> map_option (\<lambda>n. n + windowSeconds * 1000) (parseInt10 e)
                    | [] \<Rightarrow> Some (now + windowSeconds * 1000))
                in returnE \<lparr>rr_allowed = False, rr_remaining = 0, rr_resetAt = resetTime\<rparr>)
              else
                seqE (ra_zAdd R redisKey now (show_int now))
                (seqE (ra_expire R redisKey windowSeconds)
                (returnE \<lparr>rr_allowed = True, rr_remaining = limit - requestCount - 1,
                          rr_resetAt = Some (now + windowSeconds * 1000)\<rparr>)))))
           (\<lambda>error. returnE \<lparr>rr_allowed = True, rr_remaining = limit,
                            rr_resetAt = Some (now + windowSeconds * 1000)\<rparr>)))"

definition resetRateLimit :: "'s rate_env \<Rightarrow> string \<Rightarrow> ('s, unit) prog" where
  "resetRateLimit R key = catchE (ra_del R (rate_key key)) (\<lambda>error. returnE ())"

definition generateKeyForIp :: "string \<Rightarrow> string \<Rightarrow> string" where
  "generateKeyForIp ip endpoint = ''ip:'' @ ip @ '':'' @ endpoint"

definition generateKeyForUser :: "string \<Rightarrow> string \<Rightarrow> string" where
  "generateKeyForUser userId endpoint = ''user:'' @ userId @ '':'' @ endpoint"

record RateLimitOptions =
  ro_limit :: int
  ro_windowSeconds :: int
  ro_keyPrefix :: "string option"

text \<open>
  The guard: \<open>options\<close> are the metadata of the handler called \<open>handler\<close>, \<open>ip\<close> and \<open>remoteAddress\<close> the
  request's addresses. It returns the rate-limit headers it sets.
\<close>

definition RateLimitGuard :: "'s rate_env \<Rightarrow> RateLimitOptions option \<Rightarrow> string \<Rightarrow> string option \<Rightarrow> string \<Rightarrow>
    ('s, rate_result option) prog" where
  "RateLimitGuard R options handler ip remoteAddress =
     (case options of
        None \<Rightarrow> returnE None
      | Some opts \<Rightarrow>
          bindE (checkRateLimit R (generateKeyForIp (or_str ip remoteAddress) (or_str (ro_keyPrefix opts) handler))
                   (ro_limit opts) (ro_windowSeconds opts)) (\<lambda>result.
          if \<not> rr_allowed result then throwE (HttpException ''Too many requests'' 429)
          else returnE (Some result)))"

section \<open>ThrottleService\<close>

record throttle_rule =
  tr_limit :: int
  tr_window :: int

definition GLOBAL_LIMIT :: throttle_rule where
  "GLOBAL_LIMIT = \<lparr>tr_limit = 100, tr_window = 60\<rparr>"

definition AUTH_LIMIT :: throttle_rule where
  "AUTH_LIMIT = \<lparr>tr_limit = 5, tr_window = 60\<rparr>"

definition MAX_VIOLATIONS :: int where
  "MAX_VIOLATIONS = 3"

definition BASE_BAN_SECONDS :: int where
  "BASE_BAN_SECONDS = 60"

text \<open>The \<open>redis\<close> client and its command \<open>ttl\<close>.\<close>

record ('s, 'j) throttle_env =
  te_redis :: "('s, 'j) redis"
  te_ttl :: "string \<Rightarrow> ('s, int) prog"

definition buildBanKey :: "string \<Rightarrow> string" where
  "buildBanKey identifier = ''ban:'' @ identifier"

definition throttle_checkRateLimit :: "('s, 'j) throttle_env \<Rightarrow> string \<Rightarrow> int \<Rightarrow> int \<Rightarrow> ('s, int \<times> int \<times> int) prog" where
  "throttle_checkRateLimit E key limit windowSeconds =
     bindE (r_incr (te_redis E) key) (\<lambda>current.
     seqE (whenE (current = 1) (ignoreE (r_expire (te_redis E) key windowSeconds)))
     (bindE (te_ttl E key) (\<lambda>ttl. returnE (current, limit, ttl))))"

definition checkBan :: "('s, 'j) throttle_env \<Rightarrow> string \<Rightarrow> ('s, unit) prog" where
  "checkBan E identifier =
     bindE (r_get (te_redis E) (buildBanKey identifier)) (\<lambda>banned.
       whenE (text_truthy banned) (throwE (HttpException ''Temporarily banned'' 429)))"

definition violations_key :: "string \<Rightarrow> string" where
  "violations_key identifier = ''violations:'' @ identifier"

definition registerViolation :: "('s, 'j) throttle_env \<Rightarrow> string \<Rightarrow> ('s, unit) prog" where
  "registerViolation E identifier =
     bindE (r_incr (te_redis E) (violations_key identifier)) (\<lambda>violations.
     seqE (whenE (violations = 1) (ignoreE (r_expire (te_redis E) (violations_key identifier) 3600)))
     (whenE (MAX_VIOLATIONS \<le> violations)
        (r_setEx (te_redis E) (buildBanKey identifier) (BASE_BAN_SECONDS * 2 ^ nat (violations - 1)) (Txt ''1''))))"

definition throttle_config :: "string \<Rightarrow> throttle_rule" where
  "throttle_config path = (if js_includes path ''/auth'' then AUTH_LIMIT else GLOBAL_LIMIT)"

definition throttle_key :: "string \<Rightarrow> string \<Rightarrow> string" where
  "throttle_key path identifier = ''rate:'' @ path @ '':'' @ identifier"

definition throttle_identifier :: "string option \<Rightarrow> string \<Rightarrow> string" where
  "throttle_identifier userId ip = (case userId of Some u \<Rightarrow> u | None \<Rightarrow> ip)"

text \<open>The guard returns the headers it sets: limit, remaining and reset.\<close>

definition ThrottleGuard :: "('s, 'j) throttle_env \<Rightarrow> string \<Rightarrow> string \<Rightarrow> string option \<Rightarrow> ('s, int \<times> int \<times> int) prog" where
  "ThrottleGuard E path ip userId =
     (let identifier = throttle_identifier userId ip
      in seqE (checkBan E identifier)
         (let config = throttle_config path
          in bindE (throttle_checkRateLimit E (throttle_key path identifier) (tr_limit config) (tr_window config))
             (\<lambda>(current, limit, ttl).
             if limit < current then
               seqE (registerViolation E identifier) (throwE (HttpException ''Rate limit exceeded'' 429))
             else returnE (limit, max 0 (limit - current), ttl))))"

section \<open>The contracts\<close>

text \<open>The entries of a sorted set that \<open>zRemRangeByScore(key, 0, b)\<close> leaves.\<close>

definition trim :: "int \<Rightarrow> (string \<Rightarrow> int option) \<Rightarrow> string \<Rightarrow> int option" where
  "trim b z = (\<lambda>m. case z m of None \<Rightarrow> None | Some x \<Rightarrow> if 0 \<le> x \<and> x \<le> b then None else Some x)"

lemma trim_empty [simp]: "trim b (\<lambda>_. None) = (\<lambda>_. None)"
  by (simp add: trim_def)

text \<open>\<open>zset s k\<close> is the sorted set at \<open>k\<close>, by member; the connection works.\<close>

locale window_store =
  fixes R :: "'s rate_env" and zset :: "'s \<Rightarrow> string \<Rightarrow> string \<Rightarrow> int option"
  assumes finite_zset: "finite (dom (zset s k))"
    and zRem_ok: "ok (ra_zRemRangeByScore R k 0 b) s"
    and zRem_zset: "zset (fin (ra_zRemRangeByScore R k 0 b) s) = (zset s)(k := trim b (zset s k))"
    and zCard_law: "ra_zCard R k s = (Inr (int (card (dom (zset s k)))), s)"
    and zRange_ok: "ok (ra_zRange R k) s \<and> fin (ra_zRange R k) s = s"
    and zAdd_ok: "ok (ra_zAdd R k x m) s"
    and zAdd_zset: "zset (fin (ra_zAdd R k x m) s) = (zset s)(k := (zset s k)(m \<mapsto> x))"
    and expire_ok: "ok (ra_expire R k t) s"
    and expire_zset: "0 < t \<Longrightarrow> zset (fin (ra_expire R k t) s) = zset s"
begin

lemma zCard_wp: "wp (ra_zCard R k) Q X s = Q (int (card (dom (zset s k)))) s"
  by (simp add: wp_def zCard_law)

lemma check_wp:
  assumes "0 < windowSeconds"
    and "z = trim (ra_now R s - windowSeconds * 1000) (zset s (rate_key key))"
  shows "wp (checkRateLimit R key limit windowSeconds)
    (\<lambda>r s'. rr_allowed r = (int (card (dom z)) < limit) \<and>
       rr_remaining r = (if rr_allowed r then limit - int (card (dom z)) - 1 else 0) \<and>
       zset s' = (zset s)(rate_key key := (if rr_allowed r then z(show_int (ra_now R s) \<mapsto> ra_now R s) else z)))
    (\<lambda>_ _. False) s"
  using assms
  by (simp add: checkRateLimit_def wp_simps Let_def wp_ok zRem_ok zRem_zset zCard_wp zRange_ok zAdd_ok zAdd_zset
      expire_ok expire_zset not_le)

end

locale throttle_store = redis_store "te_redis E" cell ttl
  for E :: "('s, 'j) throttle_env" and cell ttl +
  assumes ttl_reads: "ok (te_ttl E k) s \<and> fin (te_ttl E k) s = s"
begin

lemma bump_wp:
  assumes "counter (cell s k) n" and "0 \<le> n" and "0 < t"
    and "\<And>s'. cell s' = (cell s)(k \<mapsto> RText (Txt (show_int (n + 1)))) \<Longrightarrow> Q (n + 1) s'"
  shows "wp (r_incr (te_redis E) k) (\<lambda>v. wp (whenE (v = 1) (ignoreE (r_expire (te_redis E) k t))) (\<lambda>_. Q v) X) X s"
proof -
  have "ok (r_incr (te_redis E) k) s \<and> res (r_incr (te_redis E) k) s = n + 1 \<and>
      cell (fin (r_incr (te_redis E) k) s) = (cell s)(k \<mapsto> RText (Txt (show_int (n + 1))))"
    using assms(1) incr_new incr_old by (auto simp: counter_def)
  then show ?thesis
    using assms(3,4) by (cases "n = 0") (simp_all add: wp_simps wp_ok wp_expire expire_cell)
qed

lemma throttle_check_wp:
  assumes "counter (cell s k) n" and "0 \<le> n" and "0 < t"
    and "\<And>s' l. cell s' = (cell s)(k \<mapsto> RText (Txt (show_int (n + 1)))) \<Longrightarrow> Q (n + 1, limit, l) s'"
  shows "wp (throttle_checkRateLimit E k limit t) Q X s"
  unfolding throttle_checkRateLimit_def wp_bindE wp_seqE
  by (rule bump_wp [OF assms(1-3)]) (simp add: wp_ok ttl_reads wp_simps assms(4))

lemma violation_wp:
  assumes "counter (cell s (violations_key u)) v" and "0 \<le> v" and "cell s (buildBanKey u) = None"
    and "\<And>s'. cell s' = (cell s)(violations_key u \<mapsto> RText (Txt (show_int (v + 1))),
        buildBanKey u := (if MAX_VIOLATIONS \<le> v + 1 then Some (RText (Txt ''1'')) else None)) \<Longrightarrow>
      (MAX_VIOLATIONS \<le> v + 1 \<Longrightarrow> ttl s' (buildBanKey u) = Some (BASE_BAN_SECONDS * 2 ^ nat v)) \<Longrightarrow> Q () s'"
  shows "wp (registerViolation E u) Q X s"
  unfolding registerViolation_def wp_bindE wp_seqE
proof (rule bump_wp [OF assms(1,2)], simp, goal_cases)
  case (1 s1)
  have pos: "0 < BASE_BAN_SECONDS * 2 ^ nat v" by (simp add: BASE_BAN_SECONDS_def)
  have sep: "buildBanKey u \<noteq> violations_key u" by (simp add: buildBanKey_def violations_key_def)
  show ?case
  proof (cases "MAX_VIOLATIONS \<le> v + 1")
    case True
    then show ?thesis
      using 1 pos by (simp add: wp_simps wp_setEx) (rule assms(4), simp_all add: setEx_cell setEx_ttl)
  next
    case False
    then show ?thesis
      using 1 assms(3) sep by (simp add: wp_simps) (rule assms(4), simp_all add: fun_upd_idem)
  qed
qed

lemma guard_banned:
  assumes "cell s (buildBanKey u) = Some (RText (Txt ''1''))"
  shows "checkBan E u s = (Inl (HttpException ''Temporarily banned'' 429), s)"
  using get_law [of s "buildBanKey u"] assms
  by (simp add: checkBan_def bindE_def whenE_def throwE_def text_truthy_def)

lemma checkBan_wp: "cell s (buildBanKey u) = None \<Longrightarrow> wp (checkBan E u) Q X s = Q () s"
  by (simp add: checkBan_def wp_simps wp_get text_truthy_def)

lemma guard_wp:
  assumes "counter (cell s (throttle_key path u)) n" and "0 \<le> n"
    and "counter (cell s (violations_key u)) v" and "0 \<le> v" and "cell s (buildBanKey u) = None"
    and "limit = tr_limit (throttle_config path)" and "u = throttle_identifier userId ip"
  shows "wp (ThrottleGuard E path ip userId)
    (\<lambda>r s'. n < limit \<and> fst r = limit \<and> fst (snd r) = limit - (n + 1) \<and>
       cell s' = (cell s)(throttle_key path u \<mapsto> RText (Txt (show_int (n + 1)))))
    (\<lambda>e s'. limit \<le> n \<and> e = HttpException ''Rate limit exceeded'' 429 \<and>
       cell s' = (cell s)(throttle_key path u \<mapsto> RText (Txt (show_int (n + 1))),
         violations_key u \<mapsto> RText (Txt (show_int (v + 1))),
         buildBanKey u := (if MAX_VIOLATIONS \<le> v + 1 then Some (RText (Txt ''1'')) else None)) \<and>
       (MAX_VIOLATIONS \<le> v + 1 \<longrightarrow> ttl s' (buildBanKey u) = Some (BASE_BAN_SECONDS * 2 ^ nat v))) s"
    (is "wp _ ?Q ?X s")
proof -
  have sep: "throttle_key path u \<noteq> violations_key u" "throttle_key path u \<noteq> buildBanKey u"
    by (simp_all add: buildBanKey_def violations_key_def throttle_key_def)
  have window: "0 < tr_window (throttle_config path)"
    by (simp add: throttle_config_def AUTH_LIMIT_def GLOBAL_LIMIT_def)
  have violate: "wp (registerViolation E u) (\<lambda>_. wp (throwE (HttpException ''Rate limit exceeded'' 429)) ?Q ?X) ?X s1"
    if "limit \<le> n" and "cell s1 = (cell s)(throttle_key path u \<mapsto> RText (Txt (show_int (n + 1))))" for s1
    by (rule violation_wp [where v = v]) (use that assms sep in \<open>simp_all add: wp_simps\<close>)
  show ?thesis
    unfolding ThrottleGuard_def Let_def assms(7) [symmetric] assms(6) [symmetric] wp_seqE checkBan_wp [OF assms(5)]
      wp_bindE
  proof (rule throttle_check_wp [OF assms(1,2) window], goal_cases)
    case (1 s1 l)
    then show ?case using violate [of s1] by (simp add: wp_simps)
  qed
qed

end

section \<open>In-memory environments\<close>

text \<open>One sorted set per key, as an association list of members and scores.\<close>

record rate_mem =
  rm_sets :: "(string \<times> (string \<times> int) list) list"
  rm_clock :: int

definition rm_set :: "rate_mem \<Rightarrow> string \<Rightarrow> (string \<times> int) list" where
  "rm_set s k = (case map_of (rm_sets s) k of None \<Rightarrow> [] | Some z \<Rightarrow> z)"

definition rm_put :: "string \<Rightarrow> (string \<times> int) list \<Rightarrow> rate_mem \<Rightarrow> rate_mem" where
  "rm_put k z s = s\<lparr>rm_sets := (k, z) # rm_sets s\<rparr>"

definition mem_rate :: "rate_mem rate_env" where
  "mem_rate = \<lparr>ra_now = rm_clock,
     ra_zRemRangeByScore = (\<lambda>k a b s. (Inr (), rm_put k (filter (\<lambda>(m, x). \<not> (a \<le> x \<and> x \<le> b)) (AList.clearjunk (rm_set s k))) s)),
     ra_zCard = (\<lambda>k s. (Inr (int (length (AList.clearjunk (rm_set s k)))), s)),
     ra_zRange = (\<lambda>k s. (Inr (map fst (take 1 (sort_key snd (AList.clearjunk (rm_set s k))))), s)),
     ra_zAdd = (\<lambda>k x m s. (Inr (), rm_put k ((m, x) # rm_set s k) s)),
     ra_expire = (\<lambda>k t. returnE ()),
     ra_del = (\<lambda>k s. (Inr (), rm_put k [] s))\<rparr>"

definition mem_zset :: "rate_mem \<Rightarrow> string \<Rightarrow> string \<Rightarrow> int option" where
  "mem_zset s k = map_of (rm_set s k)"

lemma map_of_trim:
  "distinct (map fst z) \<Longrightarrow> map_of (filter (\<lambda>(m, x). 0 \<le> x \<longrightarrow> \<not> x \<le> b) z) = trim b (map_of z)"
  by (induction z) (auto simp: trim_def fun_eq_iff map_of_eq_None_iff image_iff split: option.splits)

lemma mem_window_store: "window_store mem_rate mem_zset"
proof
  show "finite (dom (mem_zset s k))" for s k by (simp add: mem_zset_def finite_dom_map_of)
  show "mem_zset (fin (ra_zRemRangeByScore mem_rate k 0 b) s) = (mem_zset s)(k := trim b (mem_zset s k))" for k b s
    by (rule ext) (simp add: mem_rate_def fin_def mem_zset_def rm_set_def rm_put_def map_of_trim distinct_clearjunk
        map_of_clearjunk split: option.split)
  show "ra_zCard mem_rate k s = (Inr (int (card (dom (mem_zset s k)))), s)" for k s
    by (simp add: mem_rate_def mem_zset_def) (metis distinct_card distinct_clearjunk dom_clearjunk dom_map_of_conv_image_fst length_map set_map)
qed (auto simp: mem_rate_def mem_zset_def rm_set_def rm_put_def ok_def fin_def returnE_def fun_eq_iff)

interpretation wmem: window_store mem_rate mem_zset
  by (rule mem_window_store)

definition mem_throttle :: "(('j, 'z) rstore_scheme, 'j) throttle_env" where
  "mem_throttle = \<lparr>te_redis = mem_redis,
     te_ttl = (\<lambda>k s. (Inr (case map_of (rs_ttl s) k of None \<Rightarrow> - 1 | Some t \<Rightarrow> t), s))\<rparr>"

lemma mem_throttle_store: "throttle_store mem_throttle mem_cell mem_ttl"
  using mem_redis_store
  by (simp add: throttle_store_def throttle_store_axioms_def mem_throttle_def ok_def fin_def)

interpretation tmem: throttle_store mem_throttle mem_cell mem_ttl
  by (rule mem_throttle_store)

section \<open>Properties\<close>

lemma dom_trim: "dom (trim b z) \<subseteq> dom z"
  by (auto simp: trim_def split: option.splits)

text \<open>
  C34. \<open>checkRateLimit\<close> never throws. Of the entries recorded for the key it drops those at least a window
  old; it allows the request exactly when fewer than \<open>limit\<close> entries are left, reports how many more
  are allowed, and then records the request under its time; a refused request is not recorded. Other keys
  are not touched.
\<close>

theorem checkRateLimit_decides:
  assumes "window_store R zset" and "0 < windowSeconds"
    and "z = trim (ra_now R s - windowSeconds * 1000) (zset s (rate_key key))"
  shows "\<exists>r s'. checkRateLimit R key limit windowSeconds s = (Inr r, s') \<and>
    rr_allowed r = (int (card (dom z)) < limit) \<and>
    rr_remaining r = (if rr_allowed r then limit - int (card (dom z)) - 1 else 0) \<and>
    zset s' = (zset s)(rate_key key := (if rr_allowed r then z(show_int (ra_now R s) \<mapsto> ra_now R s) else z))"
  using window_store.check_wp [OF assms] by (simp add: wp_value)

definition demo_rate :: rate_mem where
  "demo_rate = \<lparr>rm_sets = [(rate_key ''ip:1:login'', [(''1000'', 1000), (''70000'', 70000)])], rm_clock = 80000\<rparr>"

theorem checkRateLimit_decides_witness:
  "\<exists>r s'. checkRateLimit mem_rate ''ip:1:login'' 5 60 demo_rate = (Inr r, s') \<and> rr_allowed r \<and> rr_remaining r = 3"
proof -
  let ?z = "trim 20000 (mem_zset demo_rate (rate_key ''ip:1:login''))"
  have "?z = [''70000'' \<mapsto> 70000]"
    by (auto simp: demo_rate_def trim_def mem_zset_def rm_set_def fun_eq_iff)
  then have "card (dom ?z) = 1" by simp
  moreover have "ra_now mem_rate demo_rate = 80000" by (simp add: mem_rate_def demo_rate_def)
  ultimately show ?thesis
    using checkRateLimit_decides [OF mem_window_store, of 60 ?z demo_rate "''ip:1:login''" 5] by auto
qed

text \<open>
  Requests of one millisecond count once, since an entry is named by its time: with a limit of at
  least two, any number of requests for a fresh key at one time is allowed.
\<close>

theorem burst_is_not_limited:
  assumes "window_store R zset" and "0 < windowSeconds" and "2 \<le> limit" and "\<And>s. ra_now R s = t"
    and "dom (zset s (rate_key key)) \<subseteq> {show_int t}"
  shows "\<exists>rs s'. mapE [0..<n] (\<lambda>_. checkRateLimit R key limit windowSeconds) s = (Inr rs, s') \<and>
    length rs = n \<and> list_all rr_allowed rs"
proof -
  let ?I = "\<lambda>s. dom (zset s (rate_key key)) \<subseteq> {show_int t}"
  have one: "wp (checkRateLimit R key limit windowSeconds) (\<lambda>r s'. rr_allowed r \<and> ?I s') (\<lambda>_ _. False) s" if "?I s" for s
  proof -
    let ?z = "trim (ra_now R s - windowSeconds * 1000) (zset s (rate_key key))"
    have sub: "dom ?z \<subseteq> {show_int t}" using dom_trim that by blast
    then have "card (dom ?z) \<le> 1" by (metis card.empty card_insert_disjoint card_mono empty_iff finite.intros One_nat_def)
    with assms(3) sub show ?thesis
      by (intro wp_mono [OF window_store.check_wp [OF assms(1,2) refl]]) (auto simp: assms(4))
  qed
  have "wp (mapE xs (\<lambda>_. checkRateLimit R key limit windowSeconds)) (\<lambda>rs s'. length rs = length xs \<and> list_all rr_allowed rs)
      (\<lambda>_ _. False) s" if "?I s" for xs :: "nat list" and s
    using that
  proof (induction xs arbitrary: s)
    case (Cons x xs)
    have "wp (mapE xs (\<lambda>_. checkRateLimit R key limit windowSeconds)) (\<lambda>rs s'. length (y # rs) = length (x # xs) \<and> list_all rr_allowed (y # rs))
        (\<lambda>_ _. False) s'" if "rr_allowed y" "?I s'" for y s'
      by (rule wp_mono [OF Cons.IH]) (use that in auto)
    then show ?case
      by (simp add: wp_simps) (rule wp_mono [OF one [OF Cons.prems]], auto)
  qed (simp add: wp_simps)
  from this [OF assms(5), of "[0..<n]"] show ?thesis by (auto simp: wp_value)
qed

definition still_rate :: "rate_mem rate_env" where
  "still_rate = mem_rate\<lparr>ra_now := \<lambda>_. 7\<rparr>"

lemma still_window_store: "window_store still_rate mem_zset"
  using mem_window_store by (simp add: window_store_def still_rate_def)

theorem burst_is_not_limited_witness:
  "\<exists>rs s'. mapE [0..<1000] (\<lambda>_. checkRateLimit still_rate ''ip:1:login'' 5 60) \<lparr>rm_sets = [], rm_clock = 7\<rparr> = (Inr rs, s') \<and>
    length rs = 1000 \<and> list_all rr_allowed rs"
  by (rule burst_is_not_limited [OF still_window_store, where t = 7])
    (simp_all add: still_rate_def mem_zset_def rm_set_def)

text \<open>
  \<open>ThrottleGuard\<close> on a client that is not banned counts the request. It lets the request pass while
  the count does not exceed the limit of the path; otherwise it refuses with status 429, counts a violation
  and, from the third violation on, bans the client for \<open>60 * 2 ^ violations\<close> seconds (the exponent counts
  the violations before this one), so that the next request is refused whatever its path.
\<close>

theorem ThrottleGuard_spec:
  assumes "throttle_store E cell ttl" and "u = throttle_identifier userId ip"
    and "counter (cell s (throttle_key path u)) n" and "0 \<le> n"
    and "counter (cell s (violations_key u)) v" and "0 \<le> v" and "cell s (buildBanKey u) = None"
  shows "case ThrottleGuard E path ip userId s of
      (Inr r, s') \<Rightarrow> n < tr_limit (throttle_config path) \<and> fst (snd r) = tr_limit (throttle_config path) - (n + 1) \<and>
        cell s' = (cell s)(throttle_key path u \<mapsto> RText (Txt (show_int (n + 1))))
    | (Inl e, s') \<Rightarrow> tr_limit (throttle_config path) \<le> n \<and> e = HttpException ''Rate limit exceeded'' 429 \<and>
        cell s' (throttle_key path u) = Some (RText (Txt (show_int (n + 1)))) \<and>
        cell s' (violations_key u) = Some (RText (Txt (show_int (v + 1)))) \<and>
        (2 \<le> v \<longrightarrow> ttl s' (buildBanKey u) = Some (60 * 2 ^ nat v) \<and>
          (\<forall>path'. ThrottleGuard E path' ip userId s' = (Inl (HttpException ''Temporarily banned'' 429), s')))"
proof -
  have sep: "throttle_key path u \<noteq> violations_key u" "throttle_key path u \<noteq> buildBanKey u" "buildBanKey u \<noteq> violations_key u"
    by (simp_all add: buildBanKey_def violations_key_def throttle_key_def)
  have banned: "ThrottleGuard E path' ip userId s' = (Inl (HttpException ''Temporarily banned'' 429), s')"
    if "cell s' (buildBanKey u) = Some (RText (Txt ''1''))" for path' s'
    using throttle_store.guard_banned [OF assms(1) that] by (simp add: ThrottleGuard_def Let_def seqE_def bindE_def assms(2))
  show ?thesis
    using throttle_store.guard_wp [OF assms(1) assms(3-7) refl assms(2)] banned sep
    by (auto simp: wp_def MAX_VIOLATIONS_def BASE_BAN_SECONDS_def split: prod.splits sum.splits)
qed

definition demo_throttle :: "unit rstore" where
  "demo_throttle = \<lparr>rs_cells = [(throttle_key ''/auth/nonce'' ''1.2.3.4'', MText (Txt (show_int 5))),
     (violations_key ''1.2.3.4'', MText (Txt (show_int 2)))], rs_ttl = []\<rparr>"

theorem ThrottleGuard_spec_witness:
  "\<exists>s'. ThrottleGuard mem_throttle ''/auth/nonce'' ''1.2.3.4'' None demo_throttle =
      (Inl (HttpException ''Rate limit exceeded'' 429), s') \<and> mem_ttl s' (buildBanKey ''1.2.3.4'') = Some 240"
proof -
  have sep: "throttle_key p u \<noteq> violations_key w" "violations_key w \<noteq> throttle_key p u" "buildBanKey u \<noteq> violations_key w"
    "throttle_key p u \<noteq> buildBanKey w" "violations_key u \<noteq> buildBanKey w" "buildBanKey w \<noteq> throttle_key p u" for p u w
    by (simp_all add: buildBanKey_def violations_key_def throttle_key_def)
  have "tr_limit (throttle_config ''/auth/nonce'') = 5" by code_simp
  with ThrottleGuard_spec [OF mem_throttle_store, of "''1.2.3.4''" None "''1.2.3.4''" demo_throttle "''/auth/nonce''" 5 2]
  show ?thesis
    by (auto simp: throttle_identifier_def demo_throttle_def mem_cell_def counter_def sep split: prod.splits sum.splits)
qed

end
