(* ===== verification/Stellar_Storage.thy ===== *)
theory Stellar_Storage
  imports Complex_Main Ext_Repository Js_Json
begin

text \<open>
  The tables of the Stellar monitor and the two services that own them
  (src/Backend/src/stellar-monitor: types, entities, services/event-storage.service.ts and
  services/consumer-management.service.ts). The repositories, the clock, \<open>randomUUID\<close>, the HTTP client
  and the HMAC are the fields of the record \<open>stellar_env\<close>; the locale \<open>stellar_store\<close> states that each
  repository keeps its own table and that the HTTP client touches neither.
\<close>

section \<open>Types and entities\<close>

datatype EventType = EV_PAYMENT | EV_OFFER | EV_CONTRACT | EV_ACCOUNT | EV_TRUSTLINE

datatype DeliveryStatus = DS_PENDING | DS_DELIVERED | DS_FAILED | DS_RETRYING

datatype ConsumerStatus = CS_ACTIVE | CS_INACTIVE | CS_SUSPENDED

definition EventType_values :: "EventType list" where
  "EventType_values = [EV_PAYMENT, EV_OFFER, EV_CONTRACT, EV_ACCOUNT, EV_TRUSTLINE]"

definition ConsumerStatus_values :: "ConsumerStatus list" where
  "ConsumerStatus_values = [CS_ACTIVE, CS_INACTIVE, CS_SUSPENDED]"

fun event_type_text :: "EventType \<Rightarrow> string" where
  "event_type_text EV_PAYMENT = ''payment''"
| "event_type_text EV_OFFER = ''offer''"
| "event_type_text EV_CONTRACT = ''contract''"
| "event_type_text EV_ACCOUNT = ''account''"
| "event_type_text EV_TRUSTLINE = ''trustline''"

text \<open>
  Dates are milliseconds since 1970. The id of an event is chosen by the caller, so that its creation
  date is unset until the first \<open>save\<close>.
\<close>

record StellarEvent =
  se_id :: string
  se_eventType :: EventType
  se_ledgerSequence :: int
  se_timestamp :: int
  se_transactionHash :: string
  se_sourceAccount :: string
  se_payload :: jobj
  se_deliveryStatus :: DeliveryStatus
  se_deliveryAttempts :: nat
  se_lastAttemptAt :: "int option"
  se_deliveredAt :: "int option"
  se_deliveredTo :: "string list option"
  se_failedDeliveries :: "string list option"
  se_createdAt :: "int option"
  se_updatedAt :: "int option"
  se_errorMessage :: "string option"
  se_isProcessed :: bool

record WebhookConsumer =
  wc_id :: string
  wc_name :: string
  wc_url :: string
  wc_secret :: "string option"
  wc_status :: ConsumerStatus
  wc_maxRetries :: nat
  wc_timeoutMs :: nat
  wc_isActive :: bool
  wc_createdAt :: int
  wc_updatedAt :: int
  wc_metadata :: "jobj option"
  wc_lastDeliveryAttempt :: "int option"
  wc_lastDeliverySuccess :: "int option"
  wc_totalDeliveries :: int
  wc_failedDeliveries :: int

record StellarEventDto =
  sd_id :: string
  sd_eventType :: EventType
  sd_ledgerSequence :: int
  sd_timestamp :: int
  sd_transactionHash :: string
  sd_sourceAccount :: string
  sd_payload :: jobj

record CreateConsumerDto =
  cc_name :: string
  cc_url :: string
  cc_secret :: "string option"
  cc_maxRetries :: "nat option"
  cc_timeoutMs :: "nat option"
  cc_isActive :: "bool option"

record UpdateConsumerDto =
  uc_name :: "string option"
  uc_url :: "string option"
  uc_secret :: "string option"
  uc_maxRetries :: "nat option"
  uc_timeoutMs :: "nat option"
  uc_isActive :: "bool option"

text \<open>
  \<open>st_post url payload headers timeout\<close> is the HTTP client's \<open>post\<close>: it returns the response status or
  throws; \<open>st_errorStatus\<close> is \<open>error.response?.status\<close>. \<open>st_hmac payload secret\<close> is the hex HMAC-SHA256.
\<close>

record 's stellar_env =
  st_events :: "('s, StellarEvent) repository"
  st_consumers :: "('s, WebhookConsumer) repository"
  st_now :: "'s \<Rightarrow> int"
  st_uuid :: "('s, string) prog"
  st_post :: "string \<Rightarrow> json \<Rightarrow> (string \<times> string) list \<Rightarrow> nat \<Rightarrow> ('s, nat) prog"
  st_errorStatus :: "exn \<Rightarrow> nat option"
  st_hmac :: "string \<Rightarrow> string \<Rightarrow> string"

text \<open>What \<open>save\<close> writes to the generated columns.\<close>

definition se_stamp :: "int \<Rightarrow> StellarEvent \<Rightarrow> StellarEvent" where
  "se_stamp t e = e\<lparr>se_updatedAt := Some t,
     se_createdAt := (case se_createdAt e of None \<Rightarrow> Some t | Some c \<Rightarrow> Some c)\<rparr>"

definition se_gen :: "string \<Rightarrow> int \<Rightarrow> StellarEvent \<Rightarrow> StellarEvent" where
  "se_gen i t e = e\<lparr>se_id := i, se_createdAt := Some t, se_updatedAt := Some t\<rparr>"

definition wc_stamp :: "int \<Rightarrow> WebhookConsumer \<Rightarrow> WebhookConsumer" where
  "wc_stamp t c = c\<lparr>wc_updatedAt := t\<rparr>"

definition wc_gen :: "string \<Rightarrow> int \<Rightarrow> WebhookConsumer \<Rightarrow> WebhookConsumer" where
  "wc_gen i t c = c\<lparr>wc_id := i, wc_createdAt := t, wc_updatedAt := t\<rparr>"

text \<open>\<open>save\<close> of an event or a consumer that has an id, with the object it returns.\<close>

definition saveStellarEvent :: "'s stellar_env \<Rightarrow> StellarEvent \<Rightarrow> ('s, StellarEvent) prog" where
  "saveStellarEvent A e = bindE (repo_save (st_events A) e) (\<lambda>t. returnE (se_stamp t e))"

definition saveConsumer :: "'s stellar_env \<Rightarrow> WebhookConsumer \<Rightarrow> ('s, WebhookConsumer) prog" where
  "saveConsumer A c = bindE (repo_save (st_consumers A) c) (\<lambda>t. returnE (wc_stamp t c))"

section \<open>EventStorageService\<close>

definition new_event :: "StellarEventDto \<Rightarrow> StellarEvent" where
  "new_event d =
     \<lparr>se_id = sd_id d, se_eventType = sd_eventType d, se_ledgerSequence = sd_ledgerSequence d,
      se_timestamp = sd_timestamp d, se_transactionHash = sd_transactionHash d,
      se_sourceAccount = sd_sourceAccount d, se_payload = sd_payload d,
      se_deliveryStatus = DS_PENDING, se_deliveryAttempts = 0, se_lastAttemptAt = None, se_deliveredAt = None,
      se_deliveredTo = None, se_failedDeliveries = None, se_createdAt = None, se_updatedAt = None,
      se_errorMessage = None, se_isProcessed = False\<rparr>"

definition saveEvent :: "'s stellar_env \<Rightarrow> StellarEventDto \<Rightarrow> ('s, StellarEvent) prog" where
  "saveEvent A d = saveStellarEvent A (new_event d)"

definition getEventById :: "'s stellar_env \<Rightarrow> string \<Rightarrow> ('s, StellarEvent option) prog" where
  "getEventById A i = repo_findOne (st_events A) (\<lambda>e. se_id e = i)"

definition opt_le :: "int option \<Rightarrow> int \<Rightarrow> bool" where
  "opt_le lo x = (case lo of None \<Rightarrow> True | Some l \<Rightarrow> l \<le> x)"

definition opt_ge :: "int option \<Rightarrow> int \<Rightarrow> bool" where
  "opt_ge hi x = (case hi of None \<Rightarrow> True | Some h \<Rightarrow> x \<le> h)"

definition getEvents :: "'s stellar_env \<Rightarrow> nat \<Rightarrow> nat \<Rightarrow> EventType option \<Rightarrow> int option \<Rightarrow> int option \<Rightarrow>
    DeliveryStatus option \<Rightarrow> ('s, StellarEvent list \<times> nat) prog" where
  "getEvents A page limit eventType startDate endDate deliveryStatus =
     repo_findAndCount (st_events A)
       (\<lambda>e. (eventType = None \<or> eventType = Some (se_eventType e)) \<and>
            opt_le startDate (se_timestamp e) \<and> opt_ge endDate (se_timestamp e) \<and>
            (deliveryStatus = None \<or> deliveryStatus = Some (se_deliveryStatus e)))
       (Desc se_timestamp) ((page - 1) * limit) limit"

definition getRecentEvents :: "'s stellar_env \<Rightarrow> nat \<Rightarrow> ('s, StellarEvent list) prog" where
  "getRecentEvents A limit =
     bindE (repo_find (st_events A) (\<lambda>_. True) (Desc se_timestamp)) (\<lambda>es. returnE (take limit es))"

definition created_time :: "StellarEvent \<Rightarrow> int" where
  "created_time e = (case se_createdAt e of None \<Rightarrow> 0 | Some t \<Rightarrow> t)"

definition getPendingEvents :: "'s stellar_env \<Rightarrow> nat \<Rightarrow> ('s, StellarEvent list) prog" where
  "getPendingEvents A limit =
     bindE (repo_find (st_events A) (\<lambda>e. se_deliveryStatus e = DS_PENDING \<and> \<not> se_isProcessed e) (Asc created_time))
       (\<lambda>es. returnE (take limit es))"

text \<open>\<open>xs = xs || []; if (!xs.includes(x)) xs.push(x)\<close>.\<close>

definition push_once :: "string \<Rightarrow> string list option \<Rightarrow> string list option" where
  "push_once x xs = (let ys = (case xs of None \<Rightarrow> [] | Some ys \<Rightarrow> ys) in
     Some (if List.member ys x then ys else ys @ [x]))"

definition record_attempt :: "DeliveryStatus \<Rightarrow> string option \<Rightarrow> string option \<Rightarrow> int \<Rightarrow> StellarEvent \<Rightarrow> StellarEvent" where
  "record_attempt status consumerId errorMessage now e =
     (let e1 = e\<lparr>se_deliveryStatus := status, se_deliveryAttempts := se_deliveryAttempts e + 1,
                 se_lastAttemptAt := Some now\<rparr>;
          e2 = (if status = DS_DELIVERED then
                  (let e' = e1\<lparr>se_deliveredAt := Some now\<rparr> in
                   if truthy consumerId then e'\<lparr>se_deliveredTo := push_once (the consumerId) (se_deliveredTo e')\<rparr> else e')
                else if status = DS_FAILED \<and> truthy consumerId then
                  e1\<lparr>se_failedDeliveries := push_once (the consumerId) (se_failedDeliveries e1)\<rparr>
                else e1)
      in if truthy errorMessage then e2\<lparr>se_errorMessage := errorMessage\<rparr> else e2)"

definition updateEventStatus :: "'s stellar_env \<Rightarrow> string \<Rightarrow> DeliveryStatus \<Rightarrow> string option \<Rightarrow> string option \<Rightarrow> ('s, StellarEvent) prog" where
  "updateEventStatus A eventId status consumerId errorMessage =
     bindE (getEventById A eventId) (\<lambda>found. case found of
       None \<Rightarrow> throwE (Error (''Event '' @ eventId @ '' not found''))
     | Some event \<Rightarrow> bindE (readE (st_now A)) (\<lambda>now.
         saveStellarEvent A (record_attempt status consumerId errorMessage now event)))"

definition markEventAsProcessed :: "'s stellar_env \<Rightarrow> string \<Rightarrow> ('s, StellarEvent) prog" where
  "markEventAsProcessed A eventId =
     bindE (getEventById A eventId) (\<lambda>found. case found of
       None \<Rightarrow> throwE (Error (''Event '' @ eventId @ '' not found''))
     | Some event \<Rightarrow> saveStellarEvent A (event\<lparr>se_isProcessed := True\<rparr>))"

record event_stats =
  es_totalEvents :: nat
  es_pendingEvents :: nat
  es_deliveredEvents :: nat
  es_failedEvents :: nat
  es_eventsByType :: "(EventType \<times> nat) list"
  es_eventsByDay :: "(string \<times> nat) list"

text \<open>The grouped query: one row per day with an event, days ascending.\<close>

definition daily_counts :: "StellarEvent list \<Rightarrow> (string \<times> nat) list" where
  "daily_counts es = (let days = map (\<lambda>e. iso_day (se_timestamp e)) es in
     map (\<lambda>d. (d, count_list days d)) (sort (remdups days)))"

definition eventStats :: "'s stellar_env \<Rightarrow> ('s, event_stats) prog" where
  "eventStats A =
     bindE (repo_count (st_events A) (\<lambda>_. True)) (\<lambda>totalEvents.
     bindE (repo_count (st_events A) (\<lambda>e. se_deliveryStatus e = DS_PENDING)) (\<lambda>pendingEvents.
     bindE (repo_count (st_events A) (\<lambda>e. se_deliveryStatus e = DS_DELIVERED)) (\<lambda>deliveredEvents.
     bindE (repo_count (st_events A) (\<lambda>e. se_deliveryStatus e = DS_FAILED)) (\<lambda>failedEvents.
     bindE (mapE EventType_values (\<lambda>t. bindE (repo_count (st_events A) (\<lambda>e. se_eventType e = t)) (\<lambda>n. returnE (t, n)))) (\<lambda>eventsByType.
     bindE (readE (st_now A)) (\<lambda>now.
     bindE (repo_find (st_events A) (\<lambda>e. now - 30 * day_ms \<le> se_timestamp e) Unordered) (\<lambda>recent.
       returnE \<lparr>es_totalEvents = totalEvents, es_pendingEvents = pendingEvents, es_deliveredEvents = deliveredEvents,
         es_failedEvents = failedEvents, es_eventsByType = eventsByType, es_eventsByDay = daily_counts recent\<rparr>)))))))"

definition cleanupOldEvents :: "'s stellar_env \<Rightarrow> int \<Rightarrow> ('s, nat) prog" where
  "cleanupOldEvents A daysToKeep =
     bindE (readE (st_now A)) (\<lambda>now.
       repo_delete (st_events A) (\<lambda>e. created_time e < now - daysToKeep * day_ms))"

section \<open>ConsumerManagementService\<close>

definition new_consumer :: "CreateConsumerDto \<Rightarrow> WebhookConsumer" where
  "new_consumer d = \<lparr>wc_id = [], wc_name = cc_name d, wc_url = cc_url d, wc_secret = cc_secret d,
     wc_status = CS_ACTIVE, wc_maxRetries = (case cc_maxRetries d of None \<Rightarrow> 5 | Some n \<Rightarrow> n),
     wc_timeoutMs = (case cc_timeoutMs d of None \<Rightarrow> 5000 | Some n \<Rightarrow> n),
     wc_isActive = (case cc_isActive d of None \<Rightarrow> True | Some b \<Rightarrow> b),
     wc_createdAt = 0, wc_updatedAt = 0, wc_metadata = None, wc_lastDeliveryAttempt = None,
     wc_lastDeliverySuccess = None, wc_totalDeliveries = 0, wc_failedDeliveries = 0\<rparr>"

text \<open>
  \<open>createConsumer\<close> up to its first \<open>await\<close> that answers, and from there on. The column \<open>url\<close> has an index and no unique
  constraint, so the insert does not check again.
\<close>

definition check_url :: "'s stellar_env \<Rightarrow> CreateConsumerDto \<Rightarrow> ('s, unit) prog" where
  "check_url A d =
     bindE (repo_findOne (st_consumers A) (\<lambda>c. wc_url c = cc_url d)) (\<lambda>existingConsumer.
     if existingConsumer \<noteq> None then throwE (BadRequestException ''Consumer with this URL already exists'') else returnE ())"

definition insert_consumer :: "'s stellar_env \<Rightarrow> CreateConsumerDto \<Rightarrow> ('s, WebhookConsumer) prog" where
  "insert_consumer A d =
     (let consumer = new_consumer d in
      bindE (repo_insert (st_consumers A) consumer) (\<lambda>(i, t). returnE (wc_gen i t consumer)))"

definition createConsumer :: "'s stellar_env \<Rightarrow> CreateConsumerDto \<Rightarrow> ('s, WebhookConsumer) prog" where
  "createConsumer A d = seqE (check_url A d) (insert_consumer A d)"

definition getAllConsumers :: "'s stellar_env \<Rightarrow> bool \<Rightarrow> ('s, WebhookConsumer list) prog" where
  "getAllConsumers A activeOnly =
     repo_find (st_consumers A) (\<lambda>c. activeOnly \<longrightarrow> wc_isActive c) (Desc wc_createdAt)"

definition getConsumerById :: "'s stellar_env \<Rightarrow> string \<Rightarrow> ('s, WebhookConsumer) prog" where
  "getConsumerById A i =
     bindE (repo_findOne (st_consumers A) (\<lambda>c. wc_id c = i)) (\<lambda>found. case found of
       None \<Rightarrow> throwE (NotFoundException (''Consumer with ID '' @ i @ '' not found''))
     | Some consumer \<Rightarrow> returnE consumer)"

text \<open>\<open>Object.assign(consumer, updateDto)\<close>: the properties the request has.\<close>

definition assign_opt :: "'v option \<Rightarrow> 'v \<Rightarrow> 'v" where
  "assign_opt v old = (case v of None \<Rightarrow> old | Some x \<Rightarrow> x)"

definition assign_consumer :: "UpdateConsumerDto \<Rightarrow> WebhookConsumer \<Rightarrow> WebhookConsumer" where
  "assign_consumer d c = c\<lparr>wc_name := assign_opt (uc_name d) (wc_name c), wc_url := assign_opt (uc_url d) (wc_url c),
     wc_secret := (case uc_secret d of None \<Rightarrow> wc_secret c | Some x \<Rightarrow> Some x),
     wc_maxRetries := assign_opt (uc_maxRetries d) (wc_maxRetries c),
     wc_timeoutMs := assign_opt (uc_timeoutMs d) (wc_timeoutMs c),
     wc_isActive := assign_opt (uc_isActive d) (wc_isActive c)\<rparr>"

definition updateConsumer :: "'s stellar_env \<Rightarrow> string \<Rightarrow> UpdateConsumerDto \<Rightarrow> ('s, WebhookConsumer) prog" where
  "updateConsumer A i d =
     bindE (getConsumerById A i) (\<lambda>consumer.
     seqE (whenE (truthy (uc_url d) \<and> the (uc_url d) \<noteq> wc_url consumer)
             (bindE (repo_findOne (st_consumers A) (\<lambda>c. wc_url c = the (uc_url d))) (\<lambda>existingConsumer.
                case existingConsumer of None \<Rightarrow> returnE ()
                | Some x \<Rightarrow> whenE (wc_id x \<noteq> i)
                    (throwE (BadRequestException ''Another consumer with this URL already exists'')))))
       (saveConsumer A (assign_consumer d consumer)))"

definition deleteConsumer :: "'s stellar_env \<Rightarrow> string \<Rightarrow> ('s, unit) prog" where
  "deleteConsumer A i =
     bindE (getConsumerById A i) (\<lambda>consumer.
       ignoreE (repo_delete (st_consumers A) (\<lambda>c. wc_id c = wc_id consumer)))"

definition activateConsumer :: "'s stellar_env \<Rightarrow> string \<Rightarrow> ('s, WebhookConsumer) prog" where
  "activateConsumer A i = bindE (getConsumerById A i) (\<lambda>consumer.
     saveConsumer A (consumer\<lparr>wc_isActive := True, wc_status := CS_ACTIVE\<rparr>))"

definition deactivateConsumer :: "'s stellar_env \<Rightarrow> string \<Rightarrow> ('s, WebhookConsumer) prog" where
  "deactivateConsumer A i = bindE (getConsumerById A i) (\<lambda>consumer.
     saveConsumer A (consumer\<lparr>wc_isActive := False, wc_status := CS_INACTIVE\<rparr>))"

definition spread_metadata :: "jobj option \<Rightarrow> jobj \<Rightarrow> jobj option" where
  "spread_metadata m ps = Some (obj_spread (case m of None \<Rightarrow> [] | Some qs \<Rightarrow> qs) ps)"

definition suspendConsumer :: "'s stellar_env \<Rightarrow> string \<Rightarrow> string option \<Rightarrow> ('s, WebhookConsumer) prog" where
  "suspendConsumer A i reason = bindE (getConsumerById A i) (\<lambda>consumer.
     bindE (readE (st_now A)) (\<lambda>now.
       let c = consumer\<lparr>wc_isActive := False, wc_status := CS_SUSPENDED\<rparr> in
       saveConsumer A (if truthy reason then c\<lparr>wc_metadata := spread_metadata (wc_metadata c)
           [(''suspensionReason'', JStr (the reason)), (''suspendedAt'', JStr (toISOString now))]\<rparr> else c)))"

definition getActiveConsumers :: "'s stellar_env \<Rightarrow> ('s, WebhookConsumer list) prog" where
  "getActiveConsumers A =
     repo_find (st_consumers A) (\<lambda>c. wc_isActive c \<and> wc_status c = CS_ACTIVE) (Asc wc_createdAt)"

definition count_delivery :: "bool \<Rightarrow> int \<Rightarrow> WebhookConsumer \<Rightarrow> WebhookConsumer" where
  "count_delivery isSuccess now consumer =
     (let c = consumer\<lparr>wc_totalDeliveries := wc_totalDeliveries consumer + 1, wc_lastDeliveryAttempt := Some now\<rparr> in
      if isSuccess
      then c\<lparr>wc_lastDeliverySuccess := Some now, wc_failedDeliveries := max 0 (wc_failedDeliveries c - 1)\<rparr>
      else (let c' = c\<lparr>wc_failedDeliveries := wc_failedDeliveries c + 1\<rparr> in
            if 10 < wc_failedDeliveries c'
            then c'\<lparr>wc_isActive := False, wc_status := CS_SUSPENDED,
                    wc_metadata := spread_metadata (wc_metadata c')
                      [(''autoSuspended'', JBool True),
                       (''autoSuspensionReason'', JStr ''Too many consecutive failures''),
                       (''autoSuspendedAt'', JStr (toISOString now))]\<rparr>
            else c'))"

text \<open>The callers never pass a delivery time.\<close>

definition updateDeliveryStats :: "'s stellar_env \<Rightarrow> string \<Rightarrow> bool \<Rightarrow> ('s, WebhookConsumer) prog" where
  "updateDeliveryStats A consumerId isSuccess =
     bindE (getConsumerById A consumerId) (\<lambda>consumer.
     bindE (readE (st_now A)) (\<lambda>now. saveConsumer A (count_delivery isSuccess now consumer)))"

record health_stats =
  hs_successRate :: rat
  hs_recentFailures :: int
  hs_avgResponseTime :: int
  hs_lastDelivery :: "int option"

text \<open>\<open>parseFloat(x.toFixed(2))\<close> of an exact ratio: the nearest multiple of one hundredth, halves up.\<close>

definition to_fixed2 :: "rat \<Rightarrow> rat" where
  "to_fixed2 r = of_int \<lfloor>100 * r + 1 / 2\<rfloor> / 100"

definition getConsumerHealthStats :: "'s stellar_env \<Rightarrow> string \<Rightarrow> ('s, health_stats) prog" where
  "getConsumerHealthStats A consumerId =
     bindE (getConsumerById A consumerId) (\<lambda>consumer.
     let successRate = (if 0 < wc_totalDeliveries consumer
           then of_int (wc_totalDeliveries consumer - wc_failedDeliveries consumer) / of_int (wc_totalDeliveries consumer) * 100
           else 100) in
     returnE \<lparr>hs_successRate = to_fixed2 successRate, hs_recentFailures = wc_failedDeliveries consumer,
              hs_avgResponseTime = 0, hs_lastDelivery = wc_lastDeliveryAttempt consumer\<rparr>)"

record consumer_stats =
  ct_totalConsumers :: nat
  ct_activeConsumers :: nat
  ct_inactiveConsumers :: nat
  ct_suspendedConsumers :: nat
  ct_consumersByStatus :: "(ConsumerStatus \<times> nat) list"

definition consumerStats :: "'s stellar_env \<Rightarrow> ('s, consumer_stats) prog" where
  "consumerStats A =
     bindE (repo_count (st_consumers A) (\<lambda>_. True)) (\<lambda>totalConsumers.
     bindE (repo_count (st_consumers A) wc_isActive) (\<lambda>activeConsumers.
     bindE (repo_count (st_consumers A) (\<lambda>c. wc_status c = CS_INACTIVE)) (\<lambda>inactiveConsumers.
     bindE (repo_count (st_consumers A) (\<lambda>c. wc_status c = CS_SUSPENDED)) (\<lambda>suspendedConsumers.
     bindE (mapE ConsumerStatus_values (\<lambda>st. bindE (repo_count (st_consumers A) (\<lambda>c. wc_status c = st)) (\<lambda>n. returnE (st, n)))) (\<lambda>consumersByStatus.
       returnE \<lparr>ct_totalConsumers = totalConsumers, ct_activeConsumers = activeConsumers,
         ct_inactiveConsumers = inactiveConsumers, ct_suspendedConsumers = suspendedConsumers,
         ct_consumersByStatus = consumersByStatus\<rparr>)))))"

section \<open>What the services rely on\<close>

text \<open>The keys of the active consumers.\<close>

definition active_ids :: "(string \<Rightarrow> WebhookConsumer option) \<Rightarrow> string set" where
  "active_ids t = {i. \<exists>c. t i = Some c \<and> wc_isActive c \<and> wc_status c = CS_ACTIVE}"

locale stellar_store =
  E: repo_table "st_events A" ev se_id se_stamp se_gen +
  C: repo_table "st_consumers A" co wc_id wc_stamp wc_gen
  for A :: "'s stellar_env" and ev :: "'s \<Rightarrow> string \<Rightarrow> StellarEvent option"
    and co :: "'s \<Rightarrow> string \<Rightarrow> WebhookConsumer option" +
  assumes events_only: "keeps (st_events A) co"
    and consumers_only: "keeps (st_consumers A) ev"
    and post_ev: "ev (snd (st_post A url body hs t s)) = ev s"
    and post_co: "co (snd (st_post A url body hs t s)) = co s"
    and uuid_ok: "ok (st_uuid A) s"
    and uuid_ev: "ev (fin (st_uuid A) s) = ev s"
    and uuid_co: "co (fin (st_uuid A) s) = co s"
    and uuid_fresh: "ev s (res (st_uuid A) s) = None"
begin

lemmas frame_laws [simp] = keepsD [OF events_only] keepsD [OF consumers_only] uuid_ev uuid_co

lemma wpi_saveStellarEvent:
  assumes "\<And>t s'. ev s' = (ev s)(se_id e \<mapsto> se_stamp t e) \<Longrightarrow> co s' = co s \<Longrightarrow> Q (se_stamp t e) s'"
  shows "wp (saveStellarEvent A e) Q X s"
  unfolding saveStellarEvent_def
  by (simp add: wp_simps E.wp_repo) (rule assms; simp add: E.save_tab)

lemma wpi_saveConsumer:
  assumes "\<And>t s'. co s' = (co s)(wc_id c \<mapsto> wc_stamp t c) \<Longrightarrow> ev s' = ev s \<Longrightarrow> Q (wc_stamp t c) s'"
  shows "wp (saveConsumer A c) Q X s"
  unfolding saveConsumer_def
  by (simp add: wp_simps C.wp_repo) (rule assms; simp add: C.save_tab)

lemma wpi_getEventById:
  assumes "\<And>e. ev s i = Some e \<Longrightarrow> se_id e = i \<Longrightarrow> Q (Some e) s" and "ev s i = None \<Longrightarrow> Q None s"
  shows "wp (getEventById A i) Q X s"
  using assms E.key_tab by (cases "ev s i") (simp_all add: getEventById_def E.wp_repo E.findOne_key)

lemma wpi_getConsumerById:
  assumes "\<And>c. co s i = Some c \<Longrightarrow> wc_id c = i \<Longrightarrow> Q c s"
    and "co s i = None \<Longrightarrow> X (NotFoundException (''Consumer with ID '' @ i @ '' not found'')) s"
  shows "wp (getConsumerById A i) Q X s"
  using assms C.key_tab
  by (cases "co s i") (simp_all add: getConsumerById_def wp_simps C.wp_repo C.findOne_key)

lemma wpi_findConsumer:
  assumes "\<And>c. co s (wc_id c) = Some c \<Longrightarrow> P c \<Longrightarrow> Q (Some c) s"
    and "(\<And>i c. co s i = Some c \<Longrightarrow> \<not> P c) \<Longrightarrow> Q None s"
  shows "wp (repo_findOne (st_consumers A) P) Q X s"
  using assms by (rule C.wpi_findOne)

lemma wpi_insertConsumer:
  assumes "\<And>i t s'. co s i = None \<Longrightarrow> co s' = (co s)(i \<mapsto> wc_gen i t c) \<Longrightarrow> ev s' = ev s \<Longrightarrow> Q (i, t) s'"
  shows "wp (repo_insert (st_consumers A) c) Q X s"
proof (cases "res (repo_insert (st_consumers A) c) s")
  case (Pair i t)
  then have "Q (i, t) (fin (repo_insert (st_consumers A) c) s)"
    using C.insert_fresh C.insert_tab by (intro assms) auto
  with Pair show ?thesis by (simp add: C.wp_repo)
qed

lemma wpi_deleteConsumer:
  assumes "\<And>n s'. co s' = (\<lambda>i. case co s i of None \<Rightarrow> None | Some c \<Rightarrow> if P c then None else Some c) \<Longrightarrow> ev s' = ev s \<Longrightarrow> Q n s'"
  shows "wp (repo_delete (st_consumers A) P) Q X s"
  by (simp add: C.wp_repo) (rule assms; simp add: C.delete_tab)

lemma wpi_deleteEvent:
  assumes "\<And>n s'. ev s' = (\<lambda>i. case ev s i of None \<Rightarrow> None | Some e \<Rightarrow> if P e then None else Some e) \<Longrightarrow> co s' = co s \<Longrightarrow> Q n s'"
  shows "wp (repo_delete (st_events A) P) Q X s"
  by (simp add: E.wp_repo) (rule assms; simp add: E.delete_tab)

lemma wpi_getActiveConsumers:
  assumes "\<And>cs. set cs = {c. co s (wc_id c) = Some c \<and> wc_isActive c \<and> wc_status c = CS_ACTIVE} \<Longrightarrow>
      distinct (map wc_id cs) \<Longrightarrow> length cs = card (active_ids (co s)) \<Longrightarrow> Q cs s"
  shows "wp (getActiveConsumers A) Q X s"
  unfolding getActiveConsumers_def
  by (simp add: C.wp_repo) (rule assms; simp add: C.find_set C.find_distinct C.find_card active_ids_def)

lemma wpi_post:
  assumes "\<And>v s'. ev s' = ev s \<Longrightarrow> co s' = co s \<Longrightarrow> Q v s'" and "\<And>e s'. ev s' = ev s \<Longrightarrow> co s' = co s \<Longrightarrow> X e s'"
  shows "wp (st_post A url body hs t) Q X s"
  using assms post_ev [of url body hs t s] post_co [of url body hs t s]
  by (auto simp: wp_def split: prod.split sum.split)

lemma wpi_uuid:
  assumes "\<And>i s'. ev s i = None \<Longrightarrow> ev s' = ev s \<Longrightarrow> co s' = co s \<Longrightarrow> Q i s'"
  shows "wp (st_uuid A) Q X s"
  by (simp add: wp_ok [OF uuid_ok]) (rule assms; simp add: uuid_fresh)

lemmas wpi_stellar = wpi_saveStellarEvent wpi_saveConsumer wpi_getEventById wpi_getConsumerById wpi_findConsumer
  wpi_insertConsumer wpi_deleteConsumer wpi_deleteEvent wpi_getActiveConsumers wpi_post wpi_uuid

end

section \<open>Well-formed rows\<close>

text \<open>
  An event's row: nobody is listed twice, a delivered event has a delivery date, an attempt is dated, and
  no more consumers are listed than attempts were recorded. A consumer's row: the failure counter lies between
  zero and the number of deliveries.
\<close>

definition opt_list :: "'v list option \<Rightarrow> 'v list" where
  "opt_list xs = (case xs of None \<Rightarrow> [] | Some ys \<Rightarrow> ys)"

definition event_wf :: "StellarEvent \<Rightarrow> bool" where
  "event_wf e \<longleftrightarrow> distinct (opt_list (se_deliveredTo e)) \<and> distinct (opt_list (se_failedDeliveries e)) \<and>
     (se_deliveryStatus e = DS_DELIVERED \<longrightarrow> se_deliveredAt e \<noteq> None) \<and>
     (se_deliveryAttempts e = 0 \<longleftrightarrow> se_lastAttemptAt e = None) \<and>
     length (opt_list (se_deliveredTo e)) + length (opt_list (se_failedDeliveries e)) \<le> se_deliveryAttempts e"

definition consumer_wf :: "WebhookConsumer \<Rightarrow> bool" where
  "consumer_wf c \<longleftrightarrow> 0 \<le> wc_failedDeliveries c \<and> wc_failedDeliveries c \<le> wc_totalDeliveries c"

definition events_inv :: "(string \<Rightarrow> StellarEvent option) \<Rightarrow> bool" where
  "events_inv t \<longleftrightarrow> (\<forall>i e. t i = Some e \<longrightarrow> event_wf e)"

definition urls_unique :: "(string \<Rightarrow> WebhookConsumer option) \<Rightarrow> bool" where
  "urls_unique t \<longleftrightarrow> (\<forall>i j c d. t i = Some c \<longrightarrow> t j = Some d \<longrightarrow> wc_url c = wc_url d \<longrightarrow> i = j)"

definition consumers_inv :: "(string \<Rightarrow> WebhookConsumer option) \<Rightarrow> bool" where
  "consumers_inv t \<longleftrightarrow> urls_unique t \<and> (\<forall>i c. t i = Some c \<longrightarrow> consumer_wf c)"

lemma push_once_distinct: "distinct (opt_list xs) \<Longrightarrow> distinct (opt_list (push_once x xs))"
  by (auto simp: opt_list_def push_once_def Let_def split: option.split)

lemma push_once_length: "length (opt_list (push_once x xs)) \<le> Suc (length (opt_list xs))"
  by (auto simp: opt_list_def push_once_def Let_def split: option.split)

lemma event_wf_stamp [simp]: "event_wf (se_stamp t e) = event_wf e"
  by (simp add: event_wf_def se_stamp_def)

lemma event_wf_processed [simp]: "event_wf (e\<lparr>se_isProcessed := b\<rparr>) = event_wf e"
  by (simp add: event_wf_def)

lemma event_wf_new [simp]: "event_wf (new_event d)"
  by (simp add: event_wf_def new_event_def opt_list_def)

lemma event_wf_attempt: "event_wf e \<Longrightarrow> event_wf (record_attempt st c m now e)"
  using push_once_length [of "the c" "se_deliveredTo e"] push_once_length [of "the c" "se_failedDeliveries e"]
  by (auto simp: event_wf_def record_attempt_def Let_def push_once_distinct)

lemma consumer_wf_stamp [simp]: "consumer_wf (wc_stamp t c) = consumer_wf c"
  by (simp add: consumer_wf_def wc_stamp_def)

lemma consumer_wf_status [simp]:
  "consumer_wf (c\<lparr>wc_isActive := b\<rparr>) = consumer_wf c" "consumer_wf (c\<lparr>wc_status := st\<rparr>) = consumer_wf c"
  "consumer_wf (c\<lparr>wc_metadata := m\<rparr>) = consumer_wf c"
  by (simp_all add: consumer_wf_def)

lemma consumer_wf_count: "consumer_wf c \<Longrightarrow> consumer_wf (count_delivery b now c)"
  by (auto simp: consumer_wf_def count_delivery_def Let_def)

lemma events_inv_upd: "events_inv t \<Longrightarrow> event_wf e \<Longrightarrow> events_inv (t(i \<mapsto> e))"
  by (simp add: events_inv_def)

lemma events_inv_del: "events_inv t \<Longrightarrow> events_inv (\<lambda>i. case t i of None \<Rightarrow> None | Some e \<Rightarrow> if P e then None else Some e)"
  by (auto simp: events_inv_def split: option.splits if_splits)

text \<open>A row saved under its own id with its own address, or with an address no other row has.\<close>

lemma consumers_inv_same:
  "consumers_inv t \<Longrightarrow> t i = Some c \<Longrightarrow> wc_url d = wc_url c \<Longrightarrow> consumer_wf d \<Longrightarrow> consumers_inv (t(i \<mapsto> d))"
  unfolding consumers_inv_def urls_unique_def by (auto split: if_splits)

lemma consumers_inv_new:
  "consumers_inv t \<Longrightarrow> consumer_wf d \<Longrightarrow> (\<And>j c. t j = Some c \<Longrightarrow> j \<noteq> i \<Longrightarrow> wc_url c \<noteq> wc_url d) \<Longrightarrow> consumers_inv (t(i \<mapsto> d))"
  unfolding consumers_inv_def urls_unique_def by (auto split: if_splits) metis+

lemma consumers_inv_del:
  "consumers_inv t \<Longrightarrow> consumers_inv (\<lambda>i. case t i of None \<Rightarrow> None | Some c \<Rightarrow> if P c then None else Some c)"
  unfolding consumers_inv_def urls_unique_def by (auto split: option.splits if_splits)

lemma url_inj: "consumers_inv t \<Longrightarrow> t i = Some c \<Longrightarrow> t j = Some d \<Longrightarrow> wc_url c = wc_url d \<Longrightarrow> i = j"
  by (simp add: consumers_inv_def urls_unique_def)

lemma wf_of: "consumers_inv t \<Longrightarrow> t i = Some c \<Longrightarrow> consumer_wf c"
  by (simp add: consumers_inv_def)

lemma wf_event_of: "events_inv t \<Longrightarrow> t i = Some e \<Longrightarrow> event_wf e"
  by (simp add: events_inv_def)

text \<open>The projections of changed consumers the invariant looks at.\<close>

lemma consumer_fields [simp]:
  "wc_id (wc_stamp t c) = wc_id c" "wc_url (wc_stamp t c) = wc_url c"
  "wc_id (count_delivery b n c) = wc_id c" "wc_url (count_delivery b n c) = wc_url c"
  "wc_id (assign_consumer d c) = wc_id c" "wc_url (assign_consumer d c) = assign_opt (uc_url d) (wc_url c)"
  "consumer_wf (assign_consumer d c) = consumer_wf c"
  by (simp_all add: wc_stamp_def count_delivery_def assign_consumer_def consumer_wf_def Let_def)

lemma event_fields [simp]:
  "se_id (se_stamp t e) = se_id e" "se_id (record_attempt st c m now e) = se_id e"
  by (simp_all add: se_stamp_def record_attempt_def Let_def)

context stellar_store
begin

abbreviation rows_inv :: "'s \<Rightarrow> bool" where
  "rows_inv s \<equiv> events_inv (ev s) \<and> consumers_inv (co s)"

lemma saveConsumer_keeps:
  assumes "co s (wc_id d) = Some c" and "wc_url d = wc_url c" and "rows_inv s" and "consumer_wf d"
  shows "wp (saveConsumer A d) (\<lambda>_. rows_inv) X s"
  by (rule wpi_saveConsumer) (use assms in \<open>auto intro!: consumers_inv_same\<close>)

lemma update_keeps: "preserves rows_inv (updateDeliveryStats A i b)"
  unfolding updateDeliveryStats_def
  by (intro preservesI wp_intros wpi_getConsumerById; (intro saveConsumer_keeps)?)
    (auto intro: consumer_wf_count wf_of)

lemma wpi_check_url:
  assumes "\<forall>i c. co s i = Some c \<longrightarrow> wc_url c \<noteq> cc_url d \<Longrightarrow> Q () s"
    and "\<And>c. co s (wc_id c) = Some c \<Longrightarrow> wc_url c = cc_url d \<Longrightarrow> X (BadRequestException ''Consumer with this URL already exists'') s"
  shows "wp (check_url A d) Q X s"
  unfolding check_url_def by (intro wp_intros wpi_findConsumer) (use assms in auto)

lemma wpi_insert_consumer:
  assumes "\<And>i t s'. co s i = None \<Longrightarrow> co s' = (co s)(i \<mapsto> wc_gen i t (new_consumer d)) \<Longrightarrow> ev s' = ev s \<Longrightarrow> Q (wc_gen i t (new_consumer d)) s'"
  shows "wp (insert_consumer A d) Q X s"
  unfolding insert_consumer_def Let_def by (intro wp_intros wpi_insertConsumer) (use assms in auto)

lemma createConsumer_keeps: "preserves rows_inv (createConsumer A d)"
  unfolding createConsumer_def
  by (intro preservesI wp_intros wpi_check_url wpi_insert_consumer)
    (auto intro!: consumers_inv_new simp: wc_gen_def consumer_wf_def new_consumer_def)

lemma updateConsumer_keeps: "uc_url d \<noteq> Some [] \<Longrightarrow> preserves rows_inv (updateConsumer A i d)"
  unfolding updateConsumer_def
  by (intro preservesI wp_intros wpi_findConsumer wpi_getConsumerById wpi_saveConsumer)
    (auto intro!: consumers_inv_new consumers_inv_same simp: assign_opt_def wf_of split: option.splits dest: url_inj)

lemma deleteConsumer_keeps: "preserves rows_inv (deleteConsumer A i)"
  unfolding deleteConsumer_def
  by (intro preservesI wp_intros wpi_deleteConsumer wpi_getConsumerById) (auto intro: consumers_inv_del)

lemma status_keeps:
  "preserves rows_inv (activateConsumer A i)" "preserves rows_inv (deactivateConsumer A i)"
  "preserves rows_inv (suspendConsumer A i reason)"
  unfolding activateConsumer_def deactivateConsumer_def suspendConsumer_def
  by (intro preservesI wp_intros wpi_getConsumerById wpi_saveConsumer;
      auto intro!: consumers_inv_same dest: wf_of)+

lemma saveEvent_keeps: "preserves rows_inv (saveEvent A d)"
  unfolding saveEvent_def
  by (intro preservesI wp_intros wpi_saveStellarEvent)
    (auto intro!: events_inv_upd)

lemma updateEventStatus_keeps: "preserves rows_inv (updateEventStatus A i st c m)"
  unfolding updateEventStatus_def
  by (intro preservesI wp_intros wpi_getEventById wpi_saveStellarEvent)
    (auto intro!: events_inv_upd event_wf_attempt dest: wf_event_of)

lemma markEventAsProcessed_keeps: "preserves rows_inv (markEventAsProcessed A i)"
  unfolding markEventAsProcessed_def
  by (intro preservesI wp_intros wpi_getEventById wpi_saveStellarEvent)
    (auto intro!: events_inv_upd dest: wf_event_of)

lemma cleanupOldEvents_keeps: "preserves rows_inv (cleanupOldEvents A n)"
  unfolding cleanupOldEvents_def
  by (intro preservesI wp_intros wpi_deleteEvent) (auto intro: events_inv_del)

end

end
