(* ===== verification/Webhook_Delivery.thy ===== *)
theory Webhook_Delivery
  imports Stellar_Storage
begin

text \<open>
  \<open>WebhookDeliveryService\<close> and \<open>StellarEventMonitorService\<close> (src/Backend/src/stellar-monitor/services):
  every payment or offer seen on the ledger is stored and queued for the active consumers, a batch of the
  queue is posted to them, and a failed delivery is scheduled again. The service's own fields are the record
  \<open>delivery\<close>, the object beside the store. A batch is taken synchronously (\<open>processQueue_take\<close>) and settles
  later (\<open>processQueue_settle\<close>), so that other events may come in between; the deliveries of one batch run
  one after the other.
\<close>

section \<open>WebhookDeliveryService\<close>

record DeliveryResult =
  dr_success :: bool
  dr_statusCode :: "nat option"
  dr_errorMessage :: "string option"

type_synonym queued = "StellarEvent \<times> WebhookConsumer"

text \<open>
  \<open>wd_inflight\<close> are the batches whose deliveries are under way, one for each call of \<open>processQueue\<close> that has
  passed its guard and not ended, and \<open>wd_timers\<close> are the pending \<open>setTimeout\<close>
  calls with their delay.
\<close>

record delivery =
  wd_deliveryQueue :: "queued list"
  wd_isProcessingQueue :: bool
  wd_inflight :: "queued list list"
  wd_timers :: "(int \<times> queued) list"

definition calculateBackoffDelay :: "nat \<Rightarrow> int" where
  "calculateBackoffDelay attempt = min (1000 * 2 ^ (attempt - 1)) 300000"

text \<open>\<open>deliveryAttempts\<close> is undefined in the partial event of a test delivery.\<close>

definition delivery_payload :: "StellarEvent \<Rightarrow> int \<Rightarrow> json" where
  "delivery_payload e now = JObj [(''id'', JStr (se_id e)), (''eventType'', JStr (event_type_text (se_eventType e))),
     (''ledgerSequence'', JNum (se_ledgerSequence e)), (''timestamp'', JStr (toISOString (se_timestamp e))),
     (''transactionHash'', JStr (se_transactionHash e)), (''sourceAccount'', JStr (se_sourceAccount e)),
     (''payload'', JObj (se_payload e)), (''deliveredAt'', JStr (toISOString now))]"

definition delivery_headers :: "StellarEvent \<Rightarrow> nat option \<Rightarrow> (string \<times> string) list" where
  "delivery_headers e attempts = [(''X-Stellar-Event-ID'', se_id e), (''X-Stellar-Event-Type'', event_type_text (se_eventType e)),
     (''X-Delivery-Attempt'', case attempts of None \<Rightarrow> ''NaN'' | Some n \<Rightarrow> show_nat (n + 1))]"

definition attemptDelivery :: "'s stellar_env \<Rightarrow> StellarEvent \<Rightarrow> nat option \<Rightarrow> WebhookConsumer \<Rightarrow> ('s, DeliveryResult) prog" where
  "attemptDelivery A event attempts consumer =
     bindE (readE (st_now A)) (\<lambda>now.
     let payload = delivery_payload event now;
         headers = (if truthy (wc_secret consumer)
           then delivery_headers event attempts @ [(''X-Signature'', st_hmac A (json_text payload) (the (wc_secret consumer)))]
           else delivery_headers event attempts) in
     catchE
       (bindE (st_post A (wc_url consumer) payload headers (wc_timeoutMs consumer)) (\<lambda>status.
          returnE \<lparr>dr_success = True, dr_statusCode = Some status, dr_errorMessage = None\<rparr>))
       (\<lambda>error. returnE \<lparr>dr_success = False, dr_statusCode = st_errorStatus A error, dr_errorMessage = Some (exn_message error)\<rparr>))"

definition delivered_count :: "StellarEvent \<Rightarrow> nat" where
  "delivered_count event = length (opt_list (se_deliveredTo event)) + 1"

definition handleSuccessfulDelivery :: "'s stellar_env \<Rightarrow> StellarEvent \<Rightarrow> WebhookConsumer \<Rightarrow> ('s, unit) prog" where
  "handleSuccessfulDelivery A event consumer =
     seqE (ignoreE (updateEventStatus A (se_id event) DS_DELIVERED (Some (wc_id consumer)) None))
     (seqE (ignoreE (updateDeliveryStats A (wc_id consumer) True))
     (bindE (getActiveConsumers A) (\<lambda>activeConsumers.
        whenE (length activeConsumers \<le> delivered_count event)
          (ignoreE (markEventAsProcessed A (se_id event))))))"

definition schedule :: "int \<Rightarrow> queued \<Rightarrow> delivery \<Rightarrow> delivery" where
  "schedule t q d = d\<lparr>wd_timers := wd_timers d @ [(t, q)]\<rparr>"

definition handleFailedDelivery :: "'s stellar_env \<Rightarrow> StellarEvent \<Rightarrow> WebhookConsumer \<Rightarrow> string option \<Rightarrow> ('s \<times> delivery, unit) prog" where
  "handleFailedDelivery A event consumer errorMessage =
     seqE (liftL (ignoreE (updateDeliveryStats A (wc_id consumer) False)))
     (let attemptNumber = se_deliveryAttempts event + 1 in
      if wc_maxRetries consumer \<le> attemptNumber
      then liftL (ignoreE (updateEventStatus A (se_id event) DS_FAILED (Some (wc_id consumer)) errorMessage))
      else modL (schedule (calculateBackoffDelay attemptNumber) (event, consumer)))"

definition deliverEventToConsumer :: "'s stellar_env \<Rightarrow> StellarEvent \<Rightarrow> WebhookConsumer \<Rightarrow> ('s \<times> delivery, unit) prog" where
  "deliverEventToConsumer A event consumer =
     catchE
       (bindE (liftL (getConsumerById A (wc_id consumer))) (\<lambda>freshConsumer.
          if \<not> wc_isActive freshConsumer then returnE ()
          else bindE (liftL (attemptDelivery A event (Some (se_deliveryAttempts event)) freshConsumer)) (\<lambda>result.
            if dr_success result then liftL (handleSuccessfulDelivery A event consumer)
            else handleFailedDelivery A event consumer (dr_errorMessage result))))
       (\<lambda>error. handleFailedDelivery A event consumer (Some (exn_message error)))"

text \<open>\<open>processQueue\<close> up to its first \<open>await\<close>: the guard, the flag, and the batch spliced off the queue.\<close>

definition batchSize :: nat where "batchSize = 10"

definition take_batch :: "delivery \<Rightarrow> delivery" where
  "take_batch d = (if wd_isProcessingQueue d \<or> length (wd_deliveryQueue d) = 0 then d
     else d\<lparr>wd_isProcessingQueue := True, wd_inflight := wd_inflight d @ [take batchSize (wd_deliveryQueue d)],
            wd_deliveryQueue := drop batchSize (wd_deliveryQueue d)\<rparr>)"

definition processQueue_take :: "('s \<times> delivery, unit) prog" where
  "processQueue_take = modL take_batch"

text \<open>The rest of the \<open>i\<close>-th call under way: \<open>Promise.all\<close> over its batch, errors logged, and the \<open>finally\<close> block.\<close>

definition end_batch :: "nat \<Rightarrow> delivery \<Rightarrow> delivery" where
  "end_batch i d = d\<lparr>wd_isProcessingQueue := False, wd_inflight := take i (wd_inflight d) @ drop (Suc i) (wd_inflight d)\<rparr>"

definition processQueue_settle :: "'s stellar_env \<Rightarrow> nat \<Rightarrow> ('s \<times> delivery, unit) prog" where
  "processQueue_settle A i =
     bindE getL (\<lambda>d.
       whenE (i < length (wd_inflight d))
         (seqE (catchE (ignoreE (promise_all (map (\<lambda>(event, consumer). deliverEventToConsumer A event consumer) (wd_inflight d ! i))))
                (\<lambda>error. returnE ()))
           (modL (end_batch i))))"

definition push_queue :: "queued list \<Rightarrow> delivery \<Rightarrow> delivery" where
  "push_queue qs d = d\<lparr>wd_deliveryQueue := wd_deliveryQueue d @ qs\<rparr>"

definition queueEventForDelivery :: "'s stellar_env \<Rightarrow> StellarEvent \<Rightarrow> ('s \<times> delivery, unit) prog" where
  "queueEventForDelivery A event =
     bindE (liftL (getActiveConsumers A)) (\<lambda>activeConsumers.
     if length activeConsumers = 0 then liftL (ignoreE (markEventAsProcessed A (se_id event)))
     else seqE (modL (push_queue (map (\<lambda>consumer. (event, consumer)) activeConsumers))) processQueue_take)"

text \<open>The callback of the \<open>i\<close>-th pending \<open>setTimeout\<close>.\<close>

definition fire_timer :: "nat \<Rightarrow> delivery \<Rightarrow> delivery" where
  "fire_timer i d = (if i < length (wd_timers d)
     then take_batch (push_queue [snd (wd_timers d ! i)]
       (d\<lparr>wd_timers := take i (wd_timers d) @ drop (Suc i) (wd_timers d)\<rparr>))
     else d)"

definition test_event :: "int \<Rightarrow> StellarEvent" where
  "test_event now = (new_event \<lparr>sd_id = ''test-'' @ show_int now, sd_eventType = EV_PAYMENT, sd_ledgerSequence = 123456,
     sd_timestamp = now, sd_transactionHash = ''test-transaction-hash'', sd_sourceAccount = ''test-source-account'',
     sd_payload = [(''test'', JBool True), (''message'', JStr ''This is a test event'')]\<rparr>)"

definition deliverTestEvent :: "'s stellar_env \<Rightarrow> string \<Rightarrow> ('s, DeliveryResult) prog" where
  "deliverTestEvent A consumerId =
     bindE (getConsumerById A consumerId) (\<lambda>consumer.
     if \<not> wc_isActive consumer
     then returnE \<lparr>dr_success = False, dr_statusCode = None, dr_errorMessage = Some ''Consumer is not active''\<rparr>
     else bindE (readE (st_now A)) (\<lambda>now. attemptDelivery A (test_event now) None consumer))"

definition getQueueSize :: "delivery \<Rightarrow> nat" where
  "getQueueSize d = length (wd_deliveryQueue d)"

definition getDeliveryStats :: "'s stellar_env \<Rightarrow> ('s \<times> delivery, nat \<times> nat \<times> nat) prog" where
  "getDeliveryStats A =
     bindE (liftL (getActiveConsumers A)) (\<lambda>activeConsumers.
     bindE (liftL (getPendingEvents A 50)) (\<lambda>pendingEvents.
     bindE getL (\<lambda>d. returnE (length (wd_deliveryQueue d), length activeConsumers, length pendingEvents))))"

section \<open>StellarEventMonitorService\<close>

text \<open>
  A record of the Horizon stream. \<open>created_at\<close> is the time value of the text Horizon sends, none when it is
  not a date; \<open>transaction_attr\<close> is only there when Horizon joins the transaction.
\<close>

record transaction_attr =
  ta_ledger :: int
  ta_memo :: "string option"
  ta_memo_type :: "string option"

record HorizonPaymentOperation =
  hp_created_at :: "int option"
  hp_transaction_hash :: string
  hp_asset_type :: string
  hp_asset_code :: "string option"
  hp_asset_issuer :: "string option"
  hp_from :: string
  hp_to :: string
  hp_amount :: string
  hp_transaction_attr :: "transaction_attr option"

record HorizonManageOfferOperation =
  ho_source_account :: string
  ho_type :: string
  ho_created_at :: "int option"
  ho_transaction_hash :: string
  ho_offer_id :: "string option"
  ho_amount :: string
  ho_price :: string
  ho_selling_asset_type :: string
  ho_selling_asset_code :: "string option"
  ho_selling_asset_issuer :: "string option"
  ho_buying_asset_type :: string
  ho_buying_asset_code :: "string option"
  ho_buying_asset_issuer :: "string option"
  ho_transaction_attr :: "transaction_attr option"

text \<open>A property that is \<open>undefined\<close> does not reach the stored JSON.\<close>

definition defined_props :: "(string \<times> string option) list \<Rightarrow> jobj" where
  "defined_props ps = List.map_filter (\<lambda>(k, v). map_option (\<lambda>x. (k, JStr x)) v) ps"

definition need :: "exn \<Rightarrow> 'v option \<Rightarrow> ('s, 'v) prog" where
  "need e v = (case v of None \<Rightarrow> throwE e | Some x \<Rightarrow> returnE x)"

text \<open>
  \<open>parseFloat(s) === 0\<close>: white space, a sign, and a decimal number whose digits are all zero (a number so
  small that it underflows aside).
\<close>

definition parseFloat_zero :: "string \<Rightarrow> bool" where
  "parseFloat_zero s =
     (let u = dropWhile is_space s;
          v = (case u of [] \<Rightarrow> [] | c # cs \<Rightarrow> if c = CHR ''-'' \<or> c = CHR ''+'' then cs else u);
          whole = takeWhile is_digit v;
          rest = dropWhile is_digit v;
          frac = (case rest of [] \<Rightarrow> [] | c # cs \<Rightarrow> if c = CHR ''.'' then takeWhile is_digit cs else [])
      in whole @ frac \<noteq> [] \<and> (\<forall>c \<in> set (whole @ frac). c = CHR ''0''))"

definition determineOfferType :: "HorizonManageOfferOperation \<Rightarrow> string" where
  "determineOfferType offer = (if parseFloat_zero (ho_amount offer) then ''delete''
     else if truthy (ho_offer_id offer) then ''update'' else ''create'')"

definition payment_dto :: "string \<Rightarrow> HorizonPaymentOperation \<Rightarrow> transaction_attr \<Rightarrow> int \<Rightarrow> StellarEventDto" where
  "payment_dto i p tx time = \<lparr>sd_id = i, sd_eventType = EV_PAYMENT, sd_ledgerSequence = ta_ledger tx,
     sd_timestamp = time, sd_transactionHash = hp_transaction_hash p, sd_sourceAccount = hp_from p,
     sd_payload = defined_props [(''amount'', Some (hp_amount p)), (''assetType'', Some (hp_asset_type p)),
       (''assetCode'', hp_asset_code p), (''assetIssuer'', hp_asset_issuer p), (''from'', Some (hp_from p)),
       (''to'', Some (hp_to p)), (''memo'', ta_memo tx), (''memoType'', ta_memo_type tx)]\<rparr>"

definition offer_dto :: "string \<Rightarrow> HorizonManageOfferOperation \<Rightarrow> transaction_attr \<Rightarrow> int \<Rightarrow> StellarEventDto" where
  "offer_dto i p tx time = \<lparr>sd_id = i, sd_eventType = EV_OFFER, sd_ledgerSequence = ta_ledger tx,
     sd_timestamp = time, sd_transactionHash = ho_transaction_hash p, sd_sourceAccount = ho_source_account p,
     sd_payload = defined_props [(''offerId'', ho_offer_id p), (''seller'', Some (ho_source_account p)),
       (''sellingAssetType'', Some (ho_selling_asset_type p)), (''sellingAssetCode'', ho_selling_asset_code p),
       (''sellingAssetIssuer'', ho_selling_asset_issuer p), (''buyingAssetType'', Some (ho_buying_asset_type p)),
       (''buyingAssetCode'', ho_buying_asset_code p), (''buyingAssetIssuer'', ho_buying_asset_issuer p),
       (''amount'', Some (ho_amount p)), (''price'', Some (ho_price p)), (''type'', Some (determineOfferType p))]\<rparr>"

text \<open>Storing an event and queueing it, the common end of both handlers.\<close>

definition store_and_queue :: "'s stellar_env \<Rightarrow> StellarEventDto \<Rightarrow> ('s \<times> delivery, StellarEvent) prog" where
  "store_and_queue A dto =
     bindE (liftL (saveEvent A dto)) (\<lambda>savedEvent. seqE (queueEventForDelivery A savedEvent) (returnE savedEvent))"

definition handlePaymentEvent :: "'s stellar_env \<Rightarrow> HorizonPaymentOperation \<Rightarrow> ('s \<times> delivery, unit) prog" where
  "handlePaymentEvent A payment =
     catchE
       (bindE (liftL (st_uuid A)) (\<lambda>i.
        bindE (need (TypeError ''Cannot read properties of undefined (reading ledger)'') (hp_transaction_attr payment)) (\<lambda>tx.
        bindE (need (Error ''Invalid time value'') (hp_created_at payment)) (\<lambda>time.
          ignoreE (store_and_queue A (payment_dto i payment tx time))))))
       (\<lambda>error. returnE ())"

definition handleOfferEvent :: "'s stellar_env \<Rightarrow> HorizonManageOfferOperation \<Rightarrow> ('s \<times> delivery, unit) prog" where
  "handleOfferEvent A offer =
     catchE
       (bindE (liftL (st_uuid A)) (\<lambda>i.
        bindE (need (TypeError ''Cannot read properties of undefined (reading ledger)'') (ho_transaction_attr offer)) (\<lambda>tx.
        bindE (need (Error ''Invalid time value'') (ho_created_at offer)) (\<lambda>time.
          ignoreE (store_and_queue A (offer_dto i offer tx time))))))
       (\<lambda>error. returnE ())"

text \<open>\<open>onmessage\<close> of the operations stream handles the manage-offer operations.\<close>

definition offer_onmessage :: "'s stellar_env \<Rightarrow> HorizonManageOfferOperation \<Rightarrow> ('s \<times> delivery, unit) prog" where
  "offer_onmessage A offer =
     whenE (ho_type offer = ''manage_sell_offer'' \<or> ho_type offer = ''manage_buy_offer'') (handleOfferEvent A offer)"

definition simulatePaymentEvent :: "'s stellar_env \<Rightarrow> int \<Rightarrow> string \<Rightarrow> string \<Rightarrow> string \<Rightarrow> string \<Rightarrow> ('s \<times> delivery, StellarEvent) prog" where
  "simulatePaymentEvent A lastLedgerSequence from to amount assetType =
     bindE (liftL (st_uuid A)) (\<lambda>i.
     bindE (liftL (readE (st_now A))) (\<lambda>now.
     bindE (liftL (st_uuid A)) (\<lambda>h.
       store_and_queue A \<lparr>sd_id = i, sd_eventType = EV_PAYMENT, sd_ledgerSequence = lastLedgerSequence + 1,
         sd_timestamp = now, sd_transactionHash = ''simulated-'' @ h, sd_sourceAccount = from,
         sd_payload = [(''amount'', JStr amount), (''assetType'', JStr assetType), (''from'', JStr from),
           (''to'', JStr to), (''simulated'', JBool True)]\<rparr>)))"

text \<open>
  \<open>ratio_text\<close> is the text of the quotient of two decimal texts, which the code computes in floating point; \<open>Date.now()\<close> is read
  after the two identifiers are made.
\<close>

definition simulateOfferEvent :: "'s stellar_env \<Rightarrow> (string \<Rightarrow> string \<Rightarrow> string) \<Rightarrow> int \<Rightarrow> string \<Rightarrow> string \<Rightarrow> string \<Rightarrow>
    ('s \<times> delivery, StellarEvent) prog" where
  "simulateOfferEvent A ratio_text lastLedgerSequence seller sellingAmount buyingAmount =
     (let price = ratio_text buyingAmount sellingAmount in
     bindE (liftL (st_uuid A)) (\<lambda>i.
     bindE (liftL (readE (st_now A))) (\<lambda>now.
     bindE (liftL (st_uuid A)) (\<lambda>h.
     bindE (liftL (readE (st_now A))) (\<lambda>now'.
       store_and_queue A \<lparr>sd_id = i, sd_eventType = EV_OFFER, sd_ledgerSequence = lastLedgerSequence + 1,
         sd_timestamp = now, sd_transactionHash = ''simulated-'' @ h, sd_sourceAccount = seller,
         sd_payload = [(''offerId'', JStr (''simulated-'' @ show_int now')), (''seller'', JStr seller),
           (''sellingAssetType'', JStr ''credit_alphanum4''), (''sellingAssetCode'', JStr ''USD''),
           (''sellingAssetIssuer'', JStr ''GAIH3ULLFQ4DGSECF2AR555KZ4KNDGEKN4AFI4SU2M7B43MGK3QJZNSR''),
           (''buyingAssetType'', JStr ''native''), (''amount'', JStr sellingAmount), (''price'', JStr price),
           (''type'', JStr ''create''), (''simulated'', JBool True)]\<rparr>)))))"

section \<open>The system\<close>

text \<open>
  What can happen: a request changes the consumers, Horizon sends an operation, an operator simulates one,
  the interval of one second elapses, one of the batches under way settles, or a timer fires. Each of them is
  one step; a request or a handler is not interrupted by another.
\<close>

datatype consumer_request = CreateConsumer CreateConsumerDto | UpdateConsumer string UpdateConsumerDto
  | DeleteConsumer string | ActivateConsumer string | DeactivateConsumer string
  | SuspendConsumer string "string option" | TestConsumer string | CleanupEvents int

fun serve_consumer :: "'s stellar_env \<Rightarrow> consumer_request \<Rightarrow> ('s, unit) prog" where
  "serve_consumer A (CreateConsumer d) = ignoreE (createConsumer A d)"
| "serve_consumer A (UpdateConsumer i d) = ignoreE (updateConsumer A i d)"
| "serve_consumer A (DeleteConsumer i) = deleteConsumer A i"
| "serve_consumer A (ActivateConsumer i) = ignoreE (activateConsumer A i)"
| "serve_consumer A (DeactivateConsumer i) = ignoreE (deactivateConsumer A i)"
| "serve_consumer A (SuspendConsumer i r) = ignoreE (suspendConsumer A i r)"
| "serve_consumer A (TestConsumer i) = ignoreE (deliverTestEvent A i)"
| "serve_consumer A (CleanupEvents n) = ignoreE (cleanupOldEvents A n)"

text \<open>The validation of the request body refuses an empty address.\<close>

fun valid_request :: "consumer_request \<Rightarrow> bool" where
  "valid_request (UpdateConsumer i d) = (uc_url d \<noteq> Some [])"
| "valid_request _ = True"

datatype stellar_action = Request consumer_request | Payment HorizonPaymentOperation
  | Operation HorizonManageOfferOperation | Simulate int string string string string
  | SimulateOffer "string \<Rightarrow> string \<Rightarrow> string" int string string string
  | Interval | BatchSettles nat | TimerFires nat

fun perform :: "'s stellar_env \<Rightarrow> stellar_action \<Rightarrow> ('s \<times> delivery, unit) prog" where
  "perform A (Request r) = liftL (serve_consumer A r)"
| "perform A (Payment p) = handlePaymentEvent A p"
| "perform A (Operation p) = offer_onmessage A p"
| "perform A (Simulate l f t a k) = ignoreE (simulatePaymentEvent A l f t a k)"
| "perform A (SimulateOffer quot l x a b) = ignoreE (simulateOfferEvent A quot l x a b)"
| "perform A Interval = processQueue_take"
| "perform A (BatchSettles i) = processQueue_settle A i"
| "perform A (TimerFires i) = modL (fire_timer i)"

inductive stellar_reach :: "'s stellar_env \<Rightarrow> 's \<times> delivery \<Rightarrow> 's \<times> delivery \<Rightarrow> bool" for A p where
  start: "stellar_reach A p p"
| step: "stellar_reach A p q \<Longrightarrow> (\<And>r. a = Request r \<Longrightarrow> valid_request r) \<Longrightarrow> stellar_reach A p (snd (perform A a q))"

definition idle_delivery :: delivery where
  "idle_delivery = \<lparr>wd_deliveryQueue = [], wd_isProcessingQueue = False, wd_inflight = [], wd_timers = []\<rparr>"

lemma reach_preserves:
  assumes "stellar_reach A p q" and "I p"
    and "\<And>a. (\<And>r. a = Request r \<Longrightarrow> valid_request r) \<Longrightarrow> preserves I (perform A a)"
  shows "I q"
  using assms(1)
proof (induction rule: stellar_reach.induct)
  case start
  show ?case by (rule assms(2))
next
  case (step q a)
  have "preserves I (perform A a)" by (rule assms(3)) (simp add: step.hyps)
  then show ?case using step.IH by (rule preserves_snd)
qed

section \<open>Invariants\<close>

text \<open>
  The flag tells whether a batch is under way, and there is at most one, of one to ten deliveries; every queued event is as
  \<open>saveEvent\<close> stored it and every retry waits the first delay.
\<close>

definition as_saved :: "StellarEvent \<Rightarrow> bool" where
  "as_saved e \<longleftrightarrow> se_deliveryAttempts e = 0 \<and> se_deliveredTo e = None"

definition delivery_inv :: "delivery \<Rightarrow> bool" where
  "delivery_inv d \<longleftrightarrow> (wd_isProcessingQueue d \<longleftrightarrow> wd_inflight d \<noteq> []) \<and> length (wd_inflight d) \<le> 1 \<and>
     (\<forall>b \<in> set (wd_inflight d). b \<noteq> [] \<and> length b \<le> batchSize) \<and>
     (\<forall>q \<in> set (wd_deliveryQueue d) \<union> set (concat (wd_inflight d)). as_saved (fst q)) \<and>
     (\<forall>t \<in> set (wd_timers d). as_saved (fst (snd t)) \<and> fst t = 1000)"










abbreviation delivery_ok :: "'s \<times> delivery \<Rightarrow> bool" where
  "delivery_ok p \<equiv> delivery_inv (snd p)"

lemma liftL_keeps_delivery [inv_intros]: "preserves delivery_ok (liftL m)"
  by (rule preserves_liftL) (simp add: preserves_def)







lemma need_preserves [inv_intros]: "preserves I (need e v)"
  unfolding need_def by (intro inv_intros)


text \<open>The rows of both tables stay well formed; the delivery object is not looked at.\<close>

context stellar_store
begin

abbreviation rows_ok :: "'s \<times> delivery \<Rightarrow> bool" where
  "rows_ok p \<equiv> rows_inv (fst p)"

lemma liftL_rows: "preserves rows_inv m \<Longrightarrow> preserves rows_ok (liftL m)"
  by (rule preserves_liftL) simp

lemma modL_rows: "preserves rows_ok (modL g)"
  by (rule preserves_modL) simp

lemma find_rows: "preserves rows_inv (repo_find (st_consumers A) P ord)" "preserves rows_inv (getActiveConsumers A)"
  by (simp_all add: preserves_def getActiveConsumers_def wp_simps)

lemma getConsumer_rows: "preserves rows_inv (getConsumerById A i)"
  by (intro preservesI wpi_getConsumerById)

lemma post_rows: "preserves rows_inv (st_post A url body hs t)"
  by (intro preservesI wpi_post) simp_all

lemma uuid_rows: "preserves rows_inv (st_uuid A)"
  by (intro preservesI wpi_uuid) simp

lemma attempt_rows: "preserves rows_inv (attemptDelivery A e n c)"
  unfolding attemptDelivery_def Let_def by (intro inv_intros post_rows)

lemmas rows_intros = inv_intros liftL_rows modL_rows find_rows getConsumer_rows uuid_rows attempt_rows
  update_keeps createConsumer_keeps updateConsumer_keeps deleteConsumer_keeps status_keeps saveEvent_keeps
  updateEventStatus_keeps markEventAsProcessed_keeps cleanupOldEvents_keeps

lemma success_rows: "preserves rows_inv (handleSuccessfulDelivery A e c)"
  unfolding handleSuccessfulDelivery_def by (intro rows_intros)

lemma failed_rows: "preserves rows_ok (handleFailedDelivery A e c m)"
  unfolding handleFailedDelivery_def Let_def by (intro rows_intros)

lemma deliver_rows: "preserves rows_ok (deliverEventToConsumer A e c)"
  unfolding deliverEventToConsumer_def by (intro rows_intros success_rows failed_rows)

lemma settle_rows: "preserves rows_ok (processQueue_settle A i)"
  unfolding processQueue_settle_def by (intro rows_intros) (auto intro: deliver_rows)

lemma queue_rows: "preserves rows_ok (queueEventForDelivery A e)"
  unfolding queueEventForDelivery_def processQueue_take_def by (intro rows_intros)

lemma request_rows: "valid_request r \<Longrightarrow> preserves rows_inv (serve_consumer A r)"
  by (cases r; simp only: serve_consumer.simps deliverTestEvent_def; intro rows_intros; simp)

lemma perform_rows: "(\<And>r. a = Request r \<Longrightarrow> valid_request r) \<Longrightarrow> preserves rows_ok (perform A a)"
  by (cases a; simp only: perform.simps handlePaymentEvent_def offer_onmessage_def handleOfferEvent_def
        simulatePaymentEvent_def simulateOfferEvent_def Let_def processQueue_take_def store_and_queue_def;
      intro rows_intros need_preserves settle_rows queue_rows request_rows; simp)

lemma reach_rows: "stellar_reach A p q \<Longrightarrow> rows_ok p \<Longrightarrow> rows_ok q"
  by (erule reach_preserves) (simp_all add: perform_rows)

end

section \<open>Outcomes of a delivery\<close>

definition refuses :: "'s stellar_env \<Rightarrow> string \<Rightarrow> bool" where
  "refuses A url \<longleftrightarrow> (\<forall>body hs t s. isl (fst (st_post A url body hs t s)))"

definition waiting :: "queued \<Rightarrow> delivery" where
  "waiting q = idle_delivery\<lparr>wd_timers := [(1000, q)]\<rparr>"

text \<open>The timer of the only waiting delivery fires and its batch settles.\<close>

definition retry_round :: "'s stellar_env \<Rightarrow> 's \<times> delivery \<Rightarrow> 's \<times> delivery" where
  "retry_round A p = snd (perform A (BatchSettles 0) (snd (perform A (TimerFires 0) p)))"

lemma waiting_fires:
  "fire_timer 0 (waiting q) = idle_delivery\<lparr>wd_isProcessingQueue := True, wd_inflight := [[q]]\<rparr>"
  by (simp add: fire_timer_def waiting_def push_queue_def take_batch_def idle_delivery_def batchSize_def)

lemma wp_promise_all1 [wp_simps]: "wp (promise_all [m]) Q X = wp m (\<lambda>v. Q [v]) X"
  by (simp add: promise_all_def wp_simps)

lemma round_wp:
  assumes "wp (deliverEventToConsumer A e c) (\<lambda>_. Q) (\<lambda>_. Q) (s, idle_delivery\<lparr>wd_isProcessingQueue := True, wd_inflight := [[(e, c)]]\<rparr>)"
    and "\<And>t d. Q (t, d) \<Longrightarrow> R (t, end_batch 0 d)"
  shows "R (retry_round A (s, waiting (e, c)))"
proof -
  have "wp (processQueue_settle A 0) (\<lambda>_. R) (\<lambda>_. R) (s, idle_delivery\<lparr>wd_isProcessingQueue := True, wd_inflight := [[(e, c)]]\<rparr>)"
    unfolding processQueue_settle_def
    by (simp add: wp_simps) (rule wp_mono [OF assms(1)]; use assms(2) in force)
  then show ?thesis
    by (simp add: retry_round_def waiting_fires modL_def wp_final)
qed

context stellar_store
begin

lemma wpi_refused:
  assumes "refuses A url" and "\<And>e s'. ev s' = ev s \<Longrightarrow> co s' = co s \<Longrightarrow> X e s'"
  shows "wp (st_post A url body hs t) Q X s"
proof (cases "st_post A url body hs t s")
  case (Pair r s')
  then obtain x where "r = Inl x" using assms(1) by (metis fst_conv isl_def refuses_def)
  with Pair post_ev [of url body hs t s] post_co [of url body hs t s] assms(2) show ?thesis by (simp add: wp_def)
qed

lemma refused_attempt:
  assumes "refuses A (wc_url r)" and "\<And>v s'. \<not> dr_success v \<Longrightarrow> ev s' = ev s \<Longrightarrow> co s' = co s \<Longrightarrow> Q v s'"
  shows "wp (attemptDelivery A e n r) Q X s"
  unfolding attemptDelivery_def Let_def
  by (intro wp_intros wpi_refused assms) simp_all

lemma failing_delivery:
  assumes "co s (wc_id c) = Some r" and "wc_isActive r" and "refuses A (wc_url r)"
    and "as_saved e" and "2 \<le> wc_maxRetries c"
    and "\<And>t now s'. ev s' = ev s \<Longrightarrow> co s' = (co s)(wc_id c \<mapsto> wc_stamp t (count_delivery False now r)) \<Longrightarrow>
      Q () (s', schedule 1000 (e, c) d)"
  shows "wp (deliverEventToConsumer A e c) Q X (s, d)"
proof -
  have delay: "calculateBackoffDelay (se_deliveryAttempts e + 1) = 1000" "\<not> wc_maxRetries c \<le> se_deliveryAttempts e + 1"
    using assms(4,5) by (simp_all add: as_saved_def calculateBackoffDelay_def)
  show ?thesis
    unfolding deliverEventToConsumer_def handleFailedDelivery_def updateDeliveryStats_def Let_def delay
    by (intro wp_intros wpi_getConsumerById wpi_saveConsumer refused_attempt)
      (use assms delay in auto)
qed

lemma inactive_delivery:
  assumes "co s (wc_id c) = Some r" and "\<not> wc_isActive r" and "Q () (s, d)"
  shows "wp (deliverEventToConsumer A e c) Q X (s, d)"
  unfolding deliverEventToConsumer_def by (intro wp_intros wpi_getConsumerById) (use assms in auto)

end

text \<open>
  After \<open>k\<close> failed rounds: the timer is set again, the events are untouched, the failure counter has grown by
  \<open>k\<close>, and the consumer is active as long as it is at most ten.
\<close>

definition after_rounds :: "queued \<Rightarrow> WebhookConsumer \<Rightarrow> ('s \<Rightarrow> string \<Rightarrow> StellarEvent option) \<Rightarrow>
    ('s \<Rightarrow> string \<Rightarrow> WebhookConsumer option) \<Rightarrow> 's \<Rightarrow> nat \<Rightarrow> 's \<times> delivery \<Rightarrow> bool" where
  "after_rounds q r ev co s k p \<longleftrightarrow> snd p = waiting q \<and> ev (fst p) = ev s \<and>
     (\<exists>r'. co (fst p) (wc_id (snd q)) = Some r' \<and> wc_url r' = wc_url r \<and>
        wc_failedDeliveries r' = wc_failedDeliveries r + int k \<and> (wc_isActive r' \<longleftrightarrow> wc_failedDeliveries r' \<le> 10) \<and>
        (10 < wc_failedDeliveries r' \<longrightarrow> wc_status r' = CS_SUSPENDED))"

lemma waiting_again:
  "end_batch 0 (schedule 1000 q (idle_delivery\<lparr>wd_isProcessingQueue := True, wd_inflight := [[q]]\<rparr>)) = waiting q"
  by (simp add: schedule_def waiting_def idle_delivery_def end_batch_def)

context stellar_store
begin

lemma one_round:
  assumes "after_rounds (e, c) r ev co s k p" and "wc_failedDeliveries r + int k \<le> 10"
    and "refuses A (wc_url r)" and "as_saved e" and "2 \<le> wc_maxRetries c"
  shows "after_rounds (e, c) r ev co s (Suc k) (retry_round A p)"
proof -
  obtain s1 r1 where p: "p = (s1, waiting (e, c))" "ev s1 = ev s" "co s1 (wc_id c) = Some r1"
    "wc_url r1 = wc_url r" "wc_failedDeliveries r1 = wc_failedDeliveries r + int k" "wc_isActive r1"
    using assms(1,2) by (cases p) (auto simp: after_rounds_def)
  let ?Q = "\<lambda>q. after_rounds (e, c) r ev co s (Suc k) (fst q, end_batch 0 (snd q))"
  have Q: "?Q (s', schedule 1000 (e, c) (idle_delivery\<lparr>wd_isProcessingQueue := True, wd_inflight := [[(e, c)]]\<rparr>))"
    if "ev s' = ev s1" "co s' = (co s1)(wc_id c \<mapsto> wc_stamp t (count_delivery False now r1))" for s' t now
    using that p by (auto simp: after_rounds_def waiting_again wc_stamp_def count_delivery_def Let_def)
  have "wp (deliverEventToConsumer A e c) (\<lambda>_. ?Q) (\<lambda>_. ?Q)
      (s1, idle_delivery\<lparr>wd_isProcessingQueue := True, wd_inflight := [[(e, c)]]\<rparr>)"
    by (rule failing_delivery [OF p(3,6)]) (use p assms Q in auto)
  then show ?thesis unfolding p(1) by (rule round_wp) simp
qed

lemma all_rounds:
  assumes "after_rounds (e, c) r ev co s 0 (s, waiting (e, c))" and "refuses A (wc_url r)" and "as_saved e"
    and "2 \<le> wc_maxRetries c" and "wc_failedDeliveries r + int k \<le> 11"
  shows "after_rounds (e, c) r ev co s k ((retry_round A ^^ k) (s, waiting (e, c)))"
  using assms(5)
proof (induction k)
  case (Suc k)
  then show ?case using one_round assms(2-4) by simp
qed (use assms(1) in simp)

lemma suspended_round:
  assumes "co s (wc_id c) = Some r" and "\<not> wc_isActive r"
  shows "retry_round A (s, waiting (e, c)) = (s, idle_delivery)"
proof (rule round_wp [where R = "\<lambda>p. p = (s, idle_delivery)"])
  show "wp (deliverEventToConsumer A e c) (\<lambda>_ q. q = (s, idle_delivery\<lparr>wd_isProcessingQueue := True, wd_inflight := [[(e, c)]]\<rparr>))
      (\<lambda>_ q. q = (s, idle_delivery\<lparr>wd_isProcessingQueue := True, wd_inflight := [[(e, c)]]\<rparr>))
      (s, idle_delivery\<lparr>wd_isProcessingQueue := True, wd_inflight := [[(e, c)]]\<rparr>)"
    using assms by (rule inactive_delivery) simp
qed (simp add: idle_delivery_def end_batch_def)

text \<open>A successful delivery writes the event's and the consumer's row.\<close>

lemma success_wp:
  assumes "ev s (se_id e) = Some row" and "co s (wc_id c) = Some r" and "as_saved e" and "wc_id c \<noteq> []"
  shows "wp (handleSuccessfulDelivery A e c)
    (\<lambda>_ s'. (\<exists>row'. ev s' (se_id e) = Some row' \<and> se_deliveryStatus row' = DS_DELIVERED \<and>
        se_deliveryAttempts row' = se_deliveryAttempts row + 1 \<and>
        se_deliveredTo row' = push_once (wc_id c) (se_deliveredTo row) \<and>
        (se_isProcessed row' \<longleftrightarrow> se_isProcessed row \<or> card (active_ids (co s')) \<le> 1)) \<and>
      (\<exists>t now. co s' = (co s)(wc_id c \<mapsto> wc_stamp t (count_delivery True now r))))
    (\<lambda>_ _. False) s"
  unfolding handleSuccessfulDelivery_def updateEventStatus_def updateDeliveryStats_def markEventAsProcessed_def
  by (intro wp_intros wpi_stellar)
    (use assms in \<open>auto simp: se_stamp_def record_attempt_def Let_def delivered_count_def opt_list_def as_saved_def\<close>)

lemma active_ids_find:
  "wc_id ` {c. co s (wc_id c) = Some c \<and> wc_isActive c \<and> wc_status c = CS_ACTIVE} = active_ids (co s)"
  by (auto simp: active_ids_def image_iff) (metis C.key_tab)

text \<open>A stored event nobody listens to is marked; otherwise it is queued once for every active consumer.\<close>

lemma wpi_store_and_queue:
  assumes "\<And>t u s'. active_ids (co s) = {} \<Longrightarrow> co s' = co s \<Longrightarrow>
      ev s' = (ev s)(sd_id dto \<mapsto> (se_stamp t (new_event dto))\<lparr>se_isProcessed := True, se_updatedAt := Some u\<rparr>) \<Longrightarrow>
      Q (se_stamp t (new_event dto)) (s', d)"
    and "\<And>t cs s'. cs \<noteq> [] \<Longrightarrow> distinct (map wc_id cs) \<Longrightarrow> wc_id ` set cs = active_ids (co s) \<Longrightarrow> co s' = co s \<Longrightarrow>
      ev s' = (ev s)(sd_id dto \<mapsto> se_stamp t (new_event dto)) \<Longrightarrow>
      Q (se_stamp t (new_event dto)) (s', take_batch (push_queue (map (Pair (se_stamp t (new_event dto))) cs) d))"
  shows "wp (store_and_queue A dto) Q X (s, d)"
proof -
  have twice: "se_stamp u ((se_stamp t e)\<lparr>se_isProcessed := True\<rparr>) = (se_stamp t e)\<lparr>se_isProcessed := True, se_updatedAt := Some u\<rparr>"
    for u t e by (simp add: se_stamp_def split: option.split)
  have i: "se_id (new_event dto) = sd_id dto" by (simp add: new_event_def)
  show ?thesis
    unfolding store_and_queue_def saveEvent_def queueEventForDelivery_def markEventAsProcessed_def processQueue_take_def
  proof (intro wp_intros wpi_saveStellarEvent wpi_getActiveConsumers wpi_getEventById, goal_cases)
    case (2 t s1 cs e e' u s2)
    from 2(3) have "active_ids (co s1) = wc_id ` set cs" by (simp only: active_ids_find)
    with 2 show ?case using assms(1) [of s2 u t] by (auto simp: i twice)
  next
    case (5 t s1 cs)
    then have "cs \<noteq> []" by auto
    with 5 show ?case using assms(2) [of cs s1 t] active_ids_find [of s1] by (simp add: i)
  qed (simp_all add: i)
qed

lemma wpi_payment:
  assumes "hp_transaction_attr p = Some tx" and "hp_created_at p = Some time"
    and "\<And>i s'. ev s i = None \<Longrightarrow> ev s' = ev s \<Longrightarrow> co s' = co s \<Longrightarrow>
      wp (store_and_queue A (payment_dto i p tx time)) (\<lambda>_. Q ()) (\<lambda>_. Q ()) (s', d)"
  shows "wp (handlePaymentEvent A p) Q X (s, d)"
  unfolding handlePaymentEvent_def need_def assms option.case
  by (intro wp_intros wpi_uuid) (simp add: wp_simps assms)

end

section \<open>An in-memory store\<close>

record stellar_mem =
  sm_events :: "StellarEvent list"
  sm_consumers :: "WebhookConsumer list"

definition mem_stellar :: "(string \<Rightarrow> exn + nat) \<Rightarrow> stellar_mem stellar_env" where
  "mem_stellar answer = \<lparr>
     st_events = mem_repo sm_events (\<lambda>x s. s\<lparr>sm_events := x\<rparr>) (\<lambda>_. 0) se_id se_stamp se_gen,
     st_consumers = mem_repo sm_consumers (\<lambda>x s. s\<lparr>sm_consumers := x\<rparr>) (\<lambda>_. 0) wc_id wc_stamp wc_gen,
     st_now = (\<lambda>_. 0), st_uuid = (\<lambda>s. (Inr (fresh_id se_id (sm_events s)), s)),
     st_post = (\<lambda>url body hs t s. (answer url, s)), st_errorStatus = (\<lambda>_. None), st_hmac = (\<lambda>p k. p @ k)\<rparr>"

abbreviation mem_ev :: "stellar_mem \<Rightarrow> string \<Rightarrow> StellarEvent option" where
  "mem_ev \<equiv> mem_tab sm_events se_id"

abbreviation mem_co :: "stellar_mem \<Rightarrow> string \<Rightarrow> WebhookConsumer option" where
  "mem_co \<equiv> mem_tab sm_consumers wc_id"

lemma mem_stellar_store: "stellar_store (mem_stellar answer) mem_ev mem_co"
proof -
  have "repo_table (st_events (mem_stellar answer)) mem_ev se_id se_stamp se_gen"
    "repo_table (st_consumers (mem_stellar answer)) mem_co wc_id wc_stamp wc_gen"
    by (simp_all add: mem_stellar_def mem_repo_table se_gen_def wc_gen_def)
  moreover have "stellar_store_axioms (mem_stellar answer) mem_ev mem_co"
    by unfold_locales
      (auto simp: mem_stellar_def mem_tab_def ok_def fin_def res_def fun_eq_iff fresh_id_fresh intro!: mem_repo_keeps)
  ultimately show ?thesis by (rule stellar_store.intro)
qed

interpretation smem: stellar_store "mem_stellar answer" mem_ev mem_co for answer
  by (rule mem_stellar_store)

definition demo_consumer :: WebhookConsumer where
  "demo_consumer = \<lparr>wc_id = ''c1'', wc_name = ''hook'', wc_url = ''https://down'', wc_secret = Some ''k'', wc_status = CS_ACTIVE,
     wc_maxRetries = 5, wc_timeoutMs = 5000, wc_isActive = True, wc_createdAt = 0, wc_updatedAt = 0, wc_metadata = None,
     wc_lastDeliveryAttempt = None, wc_lastDeliverySuccess = None, wc_totalDeliveries = 9, wc_failedDeliveries = 9\<rparr>"

definition demo_payment :: HorizonPaymentOperation where
  "demo_payment = \<lparr>hp_created_at = Some 0, hp_transaction_hash = ''tx'', hp_asset_type = ''native'', hp_asset_code = None,
     hp_asset_issuer = None, hp_from = ''GA'', hp_to = ''GB'', hp_amount = ''10'',
     hp_transaction_attr = Some \<lparr>ta_ledger = 7, ta_memo = None, ta_memo_type = None\<rparr>\<rparr>"

definition demo_event :: StellarEvent where
  "demo_event = se_stamp 0 (new_event (payment_dto ''e1'' demo_payment \<lparr>ta_ledger = 7, ta_memo = None, ta_memo_type = None\<rparr> 0))"

definition demo_stellar :: stellar_mem where
  "demo_stellar = \<lparr>sm_events = [demo_event], sm_consumers = [demo_consumer]\<rparr>"

definition demo_create :: CreateConsumerDto where
  "demo_create = \<lparr>cc_name = ''hook'', cc_url = ''https://up'', cc_secret = None, cc_maxRetries = None, cc_timeoutMs = None, cc_isActive = None\<rparr>"

lemma demo_rows: "events_inv (mem_ev demo_stellar)" "consumers_inv (mem_co demo_stellar)"
  "mem_ev demo_stellar ''e1'' = Some demo_event" "mem_co demo_stellar ''c1'' = Some demo_consumer"
  by (simp_all add: events_inv_def consumers_inv_def urls_unique_def mem_tab_def demo_stellar_def demo_event_def
      payment_dto_def new_event_def se_stamp_def event_wf_def opt_list_def demo_consumer_def consumer_wf_def)

abbreviation down :: "string \<Rightarrow> exn + nat" where
  "down \<equiv> (\<lambda>_. Inl (Error ''ECONNREFUSED''))"

lemma down_refuses: "refuses (mem_stellar down) url"
  by (simp add: refuses_def mem_stellar_def)

lemma demo_saved: "as_saved demo_event"
  by (simp add: as_saved_def demo_event_def se_stamp_def new_event_def)

section \<open>Properties\<close>



text \<open>
  C10. The rows stay well formed through any sequence of requests, ledger operations, batches and timers, each of them run to
  its end before the next one starts: no consumer is listed twice on an event, a delivered event has a delivery date, attempts are
  dated and count at least the listed consumers; no two consumers share an address, and a consumer's failure counter lies
  between zero and its number of deliveries. Requests that overlap can break the addresses (\<open>overlapping_creates\<close>).
\<close>

theorem stellar_rows_typed:
  assumes "stellar_store A ev co" and "stellar_reach A (s, idle_delivery) (s', d)"
    and "events_inv (ev s)" and "consumers_inv (co s)"
  shows "events_inv (ev s') \<and> consumers_inv (co s')"
  using stellar_store.reach_rows [OF assms(1,2)] assms(3,4) by simp

theorem stellar_rows_typed_witness:
  "events_inv (mem_ev (fst (snd (perform (mem_stellar down) (BatchSettles 0) (demo_stellar, idle_delivery))))) \<and>
   consumers_inv (mem_co (fst (snd (perform (mem_stellar down) (BatchSettles 0) (demo_stellar, idle_delivery)))))"
proof -
  have "stellar_reach (mem_stellar down) (demo_stellar, idle_delivery)
      (snd (perform (mem_stellar down) (BatchSettles 0) (demo_stellar, idle_delivery)))"
    by (rule stellar_reach.step [OF stellar_reach.start]) simp
  then have r: "stellar_reach (mem_stellar down) (demo_stellar, idle_delivery)
      (fst (snd (perform (mem_stellar down) (BatchSettles 0) (demo_stellar, idle_delivery))),
       snd (snd (perform (mem_stellar down) (BatchSettles 0) (demo_stellar, idle_delivery))))" by simp
  show ?thesis by (rule stellar_rows_typed [OF mem_stellar_store r demo_rows(1,2)])
qed

lemma new_row [simp]: "wc_id (wc_gen i t c) = i" "wc_url (wc_gen i t c) = wc_url c" "wc_url (new_consumer d) = cc_url d"
  by (simp_all add: wc_gen_def new_consumer_def)

text \<open>
  Two requests for a consumer. Overlapping: both have looked for the address before either inserts its row. One after the
  other: the second starts when the first has answered.
\<close>

definition overlapping :: "'s stellar_env \<Rightarrow> CreateConsumerDto \<Rightarrow> CreateConsumerDto \<Rightarrow> ('s, WebhookConsumer \<times> WebhookConsumer) prog" where
  "overlapping A d d' =
     seqE (check_url A d) (seqE (check_url A d')
     (bindE (insert_consumer A d) (\<lambda>a. bindE (insert_consumer A d') (\<lambda>b. returnE (a, b)))))"

definition one_after_the_other :: "'s stellar_env \<Rightarrow> CreateConsumerDto \<Rightarrow> CreateConsumerDto \<Rightarrow> ('s, WebhookConsumer \<times> WebhookConsumer) prog" where
  "one_after_the_other A d d' =
     bindE (createConsumer A d) (\<lambda>a. bindE (createConsumer A d') (\<lambda>b. returnE (a, b)))"

context stellar_store
begin

lemma wpi_overlapping:
  assumes "\<forall>i c. co s i = Some c \<longrightarrow> wc_url c \<noteq> cc_url d" and "cc_url d' = cc_url d"
  shows "wp (overlapping A d d') (\<lambda>(a, b) s'. wc_id a \<noteq> wc_id b \<and> wc_url a = cc_url d \<and> wc_url b = cc_url d \<and>
      co s' = (co s)(wc_id a \<mapsto> a, wc_id b \<mapsto> b)) (\<lambda>_ _. False) s"
  unfolding overlapping_def
  by (intro wp_intros wpi_check_url wpi_insert_consumer) (use assms in \<open>auto split: if_splits\<close>)

lemma wpi_one_after_the_other:
  assumes "\<forall>i c. co s i = Some c \<longrightarrow> wc_url c \<noteq> cc_url d" and "cc_url d' = cc_url d"
  shows "wp (one_after_the_other A d d') (\<lambda>_ _. False)
      (\<lambda>x s'. x = BadRequestException ''Consumer with this URL already exists'' \<and>
        (\<exists>a. co s' = (co s)(wc_id a \<mapsto> a) \<and> co s (wc_id a) = None \<and> wc_url a = cc_url d)) s"
  unfolding one_after_the_other_def createConsumer_def
  by (intro wp_intros wpi_check_url wpi_insert_consumer)
    (use assms in \<open>auto split: if_splits dest: spec [where x = "wc_gen i t (new_consumer d)" for i t]\<close>)

end

text \<open>
  C31. One address for two consumers. The service refuses a second consumer with an address that a row has, but it looks before it
  inserts and the column has no unique constraint: two requests for the same new address, each of which looks before the other
  inserts, are both answered with a stored row, so the addresses are no longer unique and every event is posted there twice. One
  after the other, the second is refused and one row is stored.
\<close>

theorem overlapping_creates:
  assumes "stellar_store A ev co" and "\<forall>i c. co s i = Some c \<longrightarrow> wc_url c \<noteq> cc_url d" and "cc_url d' = cc_url d"
  shows "(\<exists>a b s'. overlapping A d d' s = (Inr (a, b), s') \<and> co s' = (co s)(wc_id a \<mapsto> a, wc_id b \<mapsto> b) \<and>
      wc_id a \<noteq> wc_id b \<and> wc_url a = cc_url d \<and> wc_url b = cc_url d \<and> \<not> consumers_inv (co s')) \<and>
    (\<exists>a s'. one_after_the_other A d d' s = (Inl (BadRequestException ''Consumer with this URL already exists''), s') \<and>
      co s' = (co s)(wc_id a \<mapsto> a) \<and> co s (wc_id a) = None \<and> wc_url a = cc_url d)"
proof (rule conjI)
  obtain a b s' where o: "overlapping A d d' s = (Inr (a, b), s')" "co s' = (co s)(wc_id a \<mapsto> a, wc_id b \<mapsto> b)"
    "wc_id a \<noteq> wc_id b" "wc_url a = cc_url d" "wc_url b = cc_url d"
    using stellar_store.wpi_overlapping [OF assms] by (auto simp: wp_value)
  then have "\<not> consumers_inv (co s')"
    using url_inj [of "co s'" "wc_id a" a "wc_id b" b] by auto
  with o show "\<exists>a b s'. overlapping A d d' s = (Inr (a, b), s') \<and> co s' = (co s)(wc_id a \<mapsto> a, wc_id b \<mapsto> b) \<and>
      wc_id a \<noteq> wc_id b \<and> wc_url a = cc_url d \<and> wc_url b = cc_url d \<and> \<not> consumers_inv (co s')" by metis
  show "\<exists>a s'. one_after_the_other A d d' s = (Inl (BadRequestException ''Consumer with this URL already exists''), s') \<and>
      co s' = (co s)(wc_id a \<mapsto> a) \<and> co s (wc_id a) = None \<and> wc_url a = cc_url d"
    using stellar_store.wpi_one_after_the_other [OF assms] by (auto simp: wp_def split: prod.splits sum.splits)
qed

theorem overlapping_creates_witness:
  "\<exists>a b s'. overlapping (mem_stellar down) demo_create demo_create demo_stellar = (Inr (a, b), s') \<and>
     mem_co s' = (mem_co demo_stellar)(wc_id a \<mapsto> a, wc_id b \<mapsto> b) \<and>
     wc_id a \<noteq> wc_id b \<and> wc_url a = cc_url demo_create \<and> wc_url b = cc_url demo_create \<and> \<not> consumers_inv (mem_co s')"
proof (rule overlapping_creates [OF mem_stellar_store, THEN conjunct1])
  show "\<forall>i c. mem_co demo_stellar i = Some c \<longrightarrow> wc_url c \<noteq> cc_url demo_create"
    by (auto simp: mem_tab_def demo_stellar_def demo_consumer_def demo_create_def split: if_splits)
qed (rule refl)



text \<open>
  C9. The retries of a delivery end, and not by \<open>maxRetries\<close>: for a consumer with \<open>f\<close> recorded failures whose
  endpoint refuses every request and an event that allows a retry, the delivery is scheduled again after
  every one of the next \<open>11 - f\<close> rounds, whatever \<open>maxRetries\<close> is; then the consumer is suspended and the next
  round drops the delivery, while the event's row is still the one that was saved.
\<close>

theorem retries_end_by_suspension:
  assumes "stellar_store A ev co" and "co s (wc_id c) = Some r" and "wc_isActive r" and "wc_failedDeliveries r \<le> 10"
    and "refuses A (wc_url r)" and "as_saved e" and "2 \<le> wc_maxRetries c" and "n = nat (11 - wc_failedDeliveries r)"
  shows "(\<forall>k \<le> n. snd ((retry_round A ^^ k) (s, waiting (e, c))) = waiting (e, c)) \<and>
    (\<exists>s' r'. (retry_round A ^^ Suc n) (s, waiting (e, c)) = (s', idle_delivery) \<and> ev s' = ev s \<and>
       co s' (wc_id c) = Some r' \<and> wc_failedDeliveries r' = 11 \<and> wc_status r' = CS_SUSPENDED \<and> \<not> wc_isActive r')"
proof -
  have start: "after_rounds (e, c) r ev co s 0 (s, waiting (e, c))"
    using assms(2-4) by (simp add: after_rounds_def)
  have rounds: "after_rounds (e, c) r ev co s k ((retry_round A ^^ k) (s, waiting (e, c)))" if "k \<le> n" for k
    using that assms(4,8) by (intro stellar_store.all_rounds [OF assms(1) start assms(5-7)]) linarith
  then obtain s' r' where s': "(retry_round A ^^ n) (s, waiting (e, c)) = (s', waiting (e, c))" "ev s' = ev s"
    "co s' (wc_id c) = Some r'" "wc_failedDeliveries r' = wc_failedDeliveries r + int n"
    "wc_isActive r' \<longleftrightarrow> wc_failedDeliveries r' \<le> 10" "10 < wc_failedDeliveries r' \<longrightarrow> wc_status r' = CS_SUSPENDED"
    unfolding after_rounds_def by (metis order_refl prod.collapse snd_conv)
  moreover from this assms(4,8) have "wc_failedDeliveries r' = 11" by simp
  ultimately have "(retry_round A ^^ Suc n) (s, waiting (e, c)) = (s', idle_delivery)"
    using stellar_store.suspended_round [OF assms(1)] by simp
  with s' rounds \<open>wc_failedDeliveries r' = 11\<close> show ?thesis by (simp add: after_rounds_def)
qed

theorem retries_end_by_suspension_witness:
  "\<exists>s' r'. (retry_round (mem_stellar down) ^^ Suc 2) (demo_stellar, waiting (demo_event, demo_consumer)) = (s', idle_delivery) \<and>
     mem_ev s' = mem_ev demo_stellar \<and> mem_co s' (wc_id demo_consumer) = Some r' \<and> wc_failedDeliveries r' = 11 \<and>
     wc_status r' = CS_SUSPENDED \<and> \<not> wc_isActive r'"
proof (rule retries_end_by_suspension [where r = demo_consumer, OF mem_stellar_store, THEN conjunct2])
  show "mem_co demo_stellar (wc_id demo_consumer) = Some demo_consumer" "wc_isActive demo_consumer"
    "wc_failedDeliveries demo_consumer \<le> 10" "2 \<le> wc_maxRetries demo_consumer" "2 = nat (11 - wc_failedDeliveries demo_consumer)"
    using demo_rows(4) by (simp_all add: demo_consumer_def)
qed (rule down_refuses demo_saved)+

text \<open>
  A successful delivery records the consumer on the event exactly once and counts it, and it marks
  the event as processed only when at most one consumer is active: the number of deliveries is read from the
  queued copy, so an event for two or more active consumers is never marked although all of them received it.
\<close>

theorem successful_delivery_outcome:
  assumes "stellar_store A ev co" and "ev s (se_id e) = Some row" and "co s (wc_id c) = Some r"
    and "as_saved e" and "wc_id c \<noteq> []"
  shows "\<exists>s' row'. handleSuccessfulDelivery A e c s = (Inr (), s') \<and> ev s' (se_id e) = Some row' \<and>
    se_deliveryStatus row' = DS_DELIVERED \<and> se_deliveryAttempts row' = se_deliveryAttempts row + 1 \<and>
    se_deliveredTo row' = push_once (wc_id c) (se_deliveredTo row) \<and>
    (se_isProcessed row' \<longleftrightarrow> se_isProcessed row \<or> card (active_ids (co s')) \<le> 1)"
  using stellar_store.success_wp [OF assms] unfolding wp_value by (metis (full_types) old.unit.exhaust)

theorem successful_delivery_outcome_witness:
  "\<exists>s' row'. handleSuccessfulDelivery (mem_stellar (\<lambda>_. Inr 200)) demo_event demo_consumer demo_stellar = (Inr (), s') \<and>
    mem_ev s' (se_id demo_event) = Some row' \<and> se_deliveryStatus row' = DS_DELIVERED \<and>
    se_deliveryAttempts row' = se_deliveryAttempts demo_event + 1 \<and>
    se_deliveredTo row' = push_once (wc_id demo_consumer) (se_deliveredTo demo_event) \<and>
    (se_isProcessed row' \<longleftrightarrow> se_isProcessed demo_event \<or> card (active_ids (mem_co s')) \<le> 1)"
proof (rule successful_delivery_outcome [OF mem_stellar_store _ _ demo_saved])
  show "mem_ev demo_stellar (se_id demo_event) = Some demo_event"
    using demo_rows(3) by (simp add: demo_event_def new_event_def payment_dto_def)
  show "mem_co demo_stellar (wc_id demo_consumer) = Some demo_consumer" "wc_id demo_consumer \<noteq> []"
    using demo_rows(4) by (simp_all add: demo_consumer_def)
qed

end
