(* ===== verification/Stellar_Monitor.thy ===== *)
theory Stellar_Monitor
  imports Webhook_Delivery
begin

text \<open>
  The life cycle of the Horizon streams in \<open>StellarEventMonitorService\<close> (start, stop, restart after an
  error) and the requests of \<open>StellarMonitorController\<close> on consumers and single events
  (src/Backend/src/stellar-monitor). A stream is open from \<open>stream\<close> until its close function is called.
\<close>

section \<open>The streams\<close>

datatype stream_kind = PaymentStream | OfferStream

text \<open>
  \<open>mo_open\<close> are the streams Horizon sends on, numbered in the order they were opened, \<open>mo_starting\<close> the
  calls of \<open>startMonitoring\<close> that wait for the latest ledger, \<open>mo_restarts\<close> the pending restart timers.
\<close>

record monitor =
  mo_paymentStream :: "nat option"
  mo_offerStream :: "nat option"
  mo_isMonitoring :: bool
  mo_lastLedgerSequence :: int
  mo_open :: "(nat \<times> stream_kind) list"
  mo_next :: nat
  mo_starting :: nat
  mo_restarts :: "stream_kind list"

definition stopped_monitor :: monitor where
  "stopped_monitor = \<lparr>mo_paymentStream = None, mo_offerStream = None, mo_isMonitoring = False, mo_lastLedgerSequence = 0,
     mo_open = [], mo_next = 0, mo_starting = 0, mo_restarts = []\<rparr>"

definition startPaymentStream :: "monitor \<Rightarrow> monitor" where
  "startPaymentStream m = m\<lparr>mo_paymentStream := Some (mo_next m), mo_open := mo_open m @ [(mo_next m, PaymentStream)],
     mo_next := Suc (mo_next m)\<rparr>"

definition startOfferStream :: "monitor \<Rightarrow> monitor" where
  "startOfferStream m = m\<lparr>mo_offerStream := Some (mo_next m), mo_open := mo_open m @ [(mo_next m, OfferStream)],
     mo_next := Suc (mo_next m)\<rparr>"

text \<open>\<open>startMonitoring\<close> up to the call of Horizon, and what follows its answer.\<close>

definition startMonitoring_begin :: "monitor \<Rightarrow> monitor" where
  "startMonitoring_begin m = (if mo_isMonitoring m then m
     else m\<lparr>mo_isMonitoring := True, mo_starting := Suc (mo_starting m)\<rparr>)"

definition startMonitoring_answer :: "exn + int \<Rightarrow> monitor \<Rightarrow> monitor" where
  "startMonitoring_answer r m =
     (let m' = m\<lparr>mo_starting := mo_starting m - 1\<rparr> in
      case r of Inl e \<Rightarrow> m'\<lparr>mo_isMonitoring := False\<rparr>
      | Inr sequence \<Rightarrow> startOfferStream (startPaymentStream (m'\<lparr>mo_lastLedgerSequence := sequence\<rparr>)))"

definition close_stream :: "nat option \<Rightarrow> monitor \<Rightarrow> monitor" where
  "close_stream i m = (case i of None \<Rightarrow> m | Some n \<Rightarrow> m\<lparr>mo_open := filter (\<lambda>p. fst p \<noteq> n) (mo_open m)\<rparr>)"

definition stopMonitoring :: "monitor \<Rightarrow> monitor" where
  "stopMonitoring m = (if \<not> mo_isMonitoring m then m
     else (let m1 = (close_stream (mo_paymentStream m) m)\<lparr>mo_paymentStream := None\<rparr>;
               m2 = (close_stream (mo_offerStream m1) m1)\<lparr>mo_offerStream := None\<rparr>
           in m2\<lparr>mo_isMonitoring := False\<rparr>))"

text \<open>\<open>onerror\<close> schedules a restart; the timer restarts the stream when monitoring is still on.\<close>

definition stream_onerror :: "stream_kind \<Rightarrow> monitor \<Rightarrow> monitor" where
  "stream_onerror k m = m\<lparr>mo_restarts := mo_restarts m @ [k]\<rparr>"

definition restart_timer :: "monitor \<Rightarrow> monitor" where
  "restart_timer m = (case mo_restarts m of [] \<Rightarrow> m
     | k # ks \<Rightarrow> (let m' = m\<lparr>mo_restarts := ks\<rparr> in
         if mo_isMonitoring m' then (case k of PaymentStream \<Rightarrow> startPaymentStream m' | OfferStream \<Rightarrow> startOfferStream m')
         else m'))"

definition onModuleInit :: "string option \<Rightarrow> monitor \<Rightarrow> monitor" where
  "onModuleInit STELLAR_MONITOR_ENABLED m =
     (if STELLAR_MONITOR_ENABLED \<noteq> Some ''false'' then startMonitoring_begin m else m)"

definition getStatus :: "monitor \<Rightarrow> string \<Rightarrow> bool \<times> int \<times> string" where
  "getStatus m horizonUrl = (mo_isMonitoring m, mo_lastLedgerSequence m, horizonUrl)"

definition getLatestLedger :: "exn + int \<Rightarrow> monitor \<Rightarrow> int" where
  "getLatestLedger r m = (case r of Inl e \<Rightarrow> mo_lastLedgerSequence m | Inr sequence \<Rightarrow> sequence)"

text \<open>
  The steps of the life cycle. \<open>stop\<close> only comes when no call of \<open>startMonitoring\<close> waits for Horizon;
  the label says whether a stream failed.
\<close>

inductive monitor_step :: "bool \<Rightarrow> monitor \<Rightarrow> monitor \<Rightarrow> bool" where
  starts: "monitor_step False m (startMonitoring_begin m)"
| answer: "0 < mo_starting m \<Longrightarrow> monitor_step False m (startMonitoring_answer r m)"
| stop: "mo_starting m = 0 \<Longrightarrow> monitor_step False m (stopMonitoring m)"
| error: "monitor_step True m (stream_onerror k m)"
| restart: "monitor_step False m (restart_timer m)"

inductive monitor_reach :: "bool \<Rightarrow> monitor \<Rightarrow> bool" where
  start: "monitor_reach False stopped_monitor"
| step: "monitor_reach b m \<Longrightarrow> monitor_step c m m' \<Longrightarrow> monitor_reach (b \<or> c) m'"

text \<open>
  As long as no stream failed, the open streams are the two the service knows, and there are none before the
  answer of Horizon and after a stop.
\<close>

definition streams_known :: "monitor \<Rightarrow> bool" where
  "streams_known m \<longleftrightarrow> mo_restarts m = [] \<and> mo_starting m \<le> 1 \<and>
     (if mo_isMonitoring m \<and> mo_starting m = 0
      then (\<exists>i. mo_paymentStream m = Some i \<and> mo_offerStream m = Some (Suc i) \<and> mo_open m = [(i, PaymentStream), (Suc i, OfferStream)] \<and>
        Suc i < mo_next m)
      else mo_open m = [] \<and> mo_paymentStream m = None \<and> mo_offerStream m = None) \<and>
     (mo_starting m = 1 \<longrightarrow> mo_isMonitoring m)"

lemmas monitor_defs = startMonitoring_begin_def startMonitoring_answer_def stopMonitoring_def close_stream_def
  startPaymentStream_def startOfferStream_def restart_timer_def stream_onerror_def

lemma step_known: "monitor_step b m m' \<Longrightarrow> \<not> b \<Longrightarrow> streams_known m \<Longrightarrow> streams_known m'"
  by (induction rule: monitor_step.induct)
    (auto simp: streams_known_def monitor_defs Let_def split: sum.split if_splits)

lemma reach_known: "monitor_reach b m \<Longrightarrow> \<not> b \<Longrightarrow> streams_known m"
proof (induction rule: monitor_reach.induct)
  case start
  show ?case by (simp add: streams_known_def stopped_monitor_def)
next
  case (step b m c m')
  then show ?case by (intro step_known [of c m m']) simp_all
qed

text \<open>
  As long as no stream reports an error and no stop overtakes a start, monitoring keeps at most one
  stream of each kind open, and a stopped monitor has none.
\<close>

theorem monitor_streams_closed:
  assumes "monitor_reach False m"
  shows "distinct (map snd (mo_open m)) \<and> (\<not> mo_isMonitoring m \<longrightarrow> mo_open m = [])"
  using reach_known [OF assms] by (auto simp: streams_known_def split: if_splits)

lemma demo_monitor: "monitor_reach False (startMonitoring_answer (Inr 5) (startMonitoring_begin stopped_monitor))"
  using monitor_reach.step [OF monitor_reach.step [OF monitor_reach.start monitor_step.starts] monitor_step.answer]
  by (simp add: startMonitoring_begin_def stopped_monitor_def)

theorem monitor_streams_closed_witness:
  "mo_open (stopMonitoring (startMonitoring_answer (Inr 5) (startMonitoring_begin stopped_monitor))) = []"
proof -
  let ?m = "startMonitoring_answer (Inr 5) (startMonitoring_begin stopped_monitor)"
  have m: "mo_isMonitoring ?m" "mo_starting ?m = 0"
    by (simp_all add: monitor_defs stopped_monitor_def Let_def)
  have "monitor_reach False (stopMonitoring ?m)"
    using monitor_reach.step [OF demo_monitor monitor_step.stop [OF m(2)]] by simp
  moreover have "\<not> mo_isMonitoring (stopMonitoring ?m)" using m(1) by (simp add: stopMonitoring_def Let_def)
  ultimately show ?thesis using monitor_streams_closed by blast
qed

text \<open>
  A restarted stream leaks: when the timer restarts the payment stream, the failed stream stays open
  and is forgotten, so that after a stop it still delivers payments, once more for every restart.
\<close>

theorem restart_leaks_stream:
  assumes "monitor_reach False m" and "mo_isMonitoring m" and "mo_starting m = 0"
  shows "\<exists>i. mo_open (stopMonitoring (restart_timer (stream_onerror PaymentStream m))) = [(i, PaymentStream)] \<and>
    \<not> mo_isMonitoring (stopMonitoring (restart_timer (stream_onerror PaymentStream m)))"
  using reach_known [OF assms(1)] assms(2,3) by (auto simp: streams_known_def monitor_defs Let_def)

theorem restart_leaks_stream_witness:
  "\<exists>i. mo_open (stopMonitoring (restart_timer (stream_onerror PaymentStream
       (startMonitoring_answer (Inr 5) (startMonitoring_begin stopped_monitor))))) = [(i, PaymentStream)] \<and>
    \<not> mo_isMonitoring (stopMonitoring (restart_timer (stream_onerror PaymentStream
       (startMonitoring_answer (Inr 5) (startMonitoring_begin stopped_monitor)))))"
  by (rule restart_leaks_stream [OF demo_monitor]) (simp_all add: monitor_defs stopped_monitor_def Let_def)

section \<open>StellarMonitorController\<close>

text \<open>Most requests turn every exception of the service into an \<open>HttpException\<close> with a fixed status.\<close>

definition with_status :: "nat \<Rightarrow> ('s, 'a) prog \<Rightarrow> ('s, 'a) prog" where
  "with_status n m = catchE m (\<lambda>error. throwE (HttpException (exn_message error) n))"

definition createConsumer_request :: "'s stellar_env \<Rightarrow> CreateConsumerDto \<Rightarrow> ('s, WebhookConsumer) prog" where
  "createConsumer_request A d = with_status 400 (createConsumer A d)"

definition getConsumers_request :: "'s stellar_env \<Rightarrow> string option \<Rightarrow> ('s, WebhookConsumer list) prog" where
  "getConsumers_request A activeOnly = getAllConsumers A (activeOnly = Some ''true'')"

definition getConsumer_request :: "'s stellar_env \<Rightarrow> string \<Rightarrow> ('s, WebhookConsumer) prog" where
  "getConsumer_request A i = with_status 404 (getConsumerById A i)"

definition updateConsumer_request :: "'s stellar_env \<Rightarrow> string \<Rightarrow> UpdateConsumerDto \<Rightarrow> ('s, WebhookConsumer) prog" where
  "updateConsumer_request A i d =
     catchE (updateConsumer A i d)
       (\<lambda>error. if is_http_exception error then throwE error else throwE (HttpException (exn_message error) 400))"

definition deleteConsumer_request :: "'s stellar_env \<Rightarrow> string \<Rightarrow> ('s, unit) prog" where
  "deleteConsumer_request A i = with_status 404 (deleteConsumer A i)"

definition activateConsumer_request :: "'s stellar_env \<Rightarrow> string \<Rightarrow> ('s, WebhookConsumer) prog" where
  "activateConsumer_request A i = with_status 404 (activateConsumer A i)"

definition deactivateConsumer_request :: "'s stellar_env \<Rightarrow> string \<Rightarrow> ('s, WebhookConsumer) prog" where
  "deactivateConsumer_request A i = with_status 404 (deactivateConsumer A i)"

definition testConsumer_request :: "'s stellar_env \<Rightarrow> string \<Rightarrow> ('s, string \<times> bool \<times> nat option \<times> string option) prog" where
  "testConsumer_request A i =
     with_status 404 (bindE (deliverTestEvent A i) (\<lambda>result.
       returnE (i, dr_success result, dr_statusCode result, dr_errorMessage result)))"

definition getEvent_request :: "'s stellar_env \<Rightarrow> string \<Rightarrow> ('s, StellarEvent) prog" where
  "getEvent_request A i =
     bindE (getEventById A i) (\<lambda>event. case event of
       None \<Rightarrow> throwE (HttpException ''Event not found'' 404) | Some e \<Rightarrow> returnE e)"

definition simulatePayment_request :: "'s stellar_env \<Rightarrow> int \<Rightarrow> string option \<Rightarrow> string option \<Rightarrow> string option \<Rightarrow> string option \<Rightarrow>
    ('s \<times> delivery, StellarEvent) prog" where
  "simulatePayment_request A lastLedgerSequence from to amount assetType =
     simulatePaymentEvent A lastLedgerSequence
       (assign_opt from ''GAIH3ULLFQ4DGSECF2AR555KZ4KNDGEKN4AFI4SU2M7B43MGK3QJZNSR'')
       (assign_opt to ''GA5ZSEJYB37JRC5AVCIA5MOP4RHTM335X2KGX3IHOJAPP5RE34K4KZVN'')
       (or_str amount ''100'') (or_str assetType ''native'')"

definition simulateOffer_request :: "'s stellar_env \<Rightarrow> (string \<Rightarrow> string \<Rightarrow> string) \<Rightarrow> int \<Rightarrow> string option \<Rightarrow> string option \<Rightarrow>
    string option \<Rightarrow> ('s \<times> delivery, StellarEvent) prog" where
  "simulateOffer_request A ratio_text lastLedgerSequence seller sellingAmount buyingAmount =
     simulateOfferEvent A ratio_text lastLedgerSequence
       (assign_opt seller ''GAIH3ULLFQ4DGSECF2AR555KZ4KNDGEKN4AFI4SU2M7B43MGK3QJZNSR'')
       (or_str sellingAmount ''1000'') (or_str buyingAmount ''50'')"

text \<open>
  The list of events. \<open>invalid\<close> is what the repository does with a page or a limit that is not a number or would skip a
  negative number of rows; the handler passes it on unchecked.
\<close>

definition getEvents_request :: "'s stellar_env \<Rightarrow> ('s, (StellarEvent list \<times> nat) \<times> jsnum \<times> jsnum) prog \<Rightarrow> string option \<Rightarrow> string option \<Rightarrow>
    EventType option \<Rightarrow> DeliveryStatus option \<Rightarrow> ('s, (StellarEvent list \<times> nat) \<times> jsnum \<times> jsnum) prog" where
  "getEvents_request A invalid page limit eventType deliveryStatus =
     (let pageNum = parseInt10 (or_str page ''1''); limitNum = parseInt10 (or_str limit ''50'') in
      case (pageNum, limitNum) of
        (Some p, Some l) \<Rightarrow> if 1 \<le> p \<and> 0 \<le> l
          then bindE (getEvents A (nat p) (nat l) eventType None None deliveryStatus) (\<lambda>found. returnE (found, pageNum, limitNum))
          else invalid
      | _ \<Rightarrow> invalid)"

definition getStats_request :: "'s stellar_env \<Rightarrow> monitor \<Rightarrow> string \<Rightarrow>
    ('s \<times> delivery, event_stats \<times> consumer_stats \<times> (nat \<times> nat \<times> nat) \<times> (bool \<times> int \<times> string)) prog" where
  "getStats_request A m horizonUrl =
     bindE (liftL (eventStats A)) (\<lambda>eventStatistics.
     bindE (liftL (consumerStats A)) (\<lambda>consumerStatistics.
     bindE (getDeliveryStats A) (\<lambda>deliveryStats.
       returnE (eventStatistics, consumerStatistics, deliveryStats, getStatus m horizonUrl))))"

text \<open>
  The answer to a request that starts monitoring, when the service was monitoring already or Horizon has answered; an error of
  Horizon is the service's.
\<close>

definition startMonitoring_request :: "monitor \<Rightarrow> exn + int \<Rightarrow> string \<Rightarrow> exn + (string \<times> bool \<times> int \<times> string)" where
  "startMonitoring_request m r horizonUrl =
     (if mo_isMonitoring m then Inr (''Monitoring started successfully'', getStatus m horizonUrl)
      else case r of Inl e \<Rightarrow> Inl e
        | Inr sequence \<Rightarrow> Inr (''Monitoring started successfully'',
            getStatus (startMonitoring_answer (Inr sequence) (startMonitoring_begin m)) horizonUrl))"

definition stopMonitoring_request :: "monitor \<Rightarrow> string \<times> monitor" where
  "stopMonitoring_request m = (''Monitoring stopped successfully'', stopMonitoring m)"

definition getMonitoringStatus_request :: "monitor \<Rightarrow> string \<Rightarrow> bool \<times> int \<times> string" where
  "getMonitoringStatus_request m horizonUrl = getStatus m horizonUrl"

lemma start_reports_monitoring:
  "startMonitoring_request m r url = Inr (msg, on, sequence, u) \<Longrightarrow> on \<and> msg = ''Monitoring started successfully'' \<and> u = url"
  by (auto simp: startMonitoring_request_def getStatus_def monitor_defs Let_def split: if_splits sum.splits)

text \<open>Paging without parameters shows the first fifty events.\<close>

lemma default_page: "parseInt10 ''1'' = Some 1" "parseInt10 ''50'' = Some 50"
  by code_simp+

lemma getEvents_default:
  "getEvents_request A invalid None None t d =
     bindE (getEvents A 1 50 t None None d) (\<lambda>found. returnE (found, Some 1, Some 50))"
  by (simp add: getEvents_request_def default_page)

end
