(* ===== verification/Job_Queue.thy ===== *)
theory Job_Queue
  imports Ext_Redis Js_Json
begin

text \<open>
  \<open>QueueService\<close> and \<open>QueueAdminController\<close> (src/Backend/src/queue): jobs in Bull queues, and a dead-letter
  list in Redis for the jobs whose attempts are used up. Bull and the Redis list commands are the fields of
  \<open>queue_env\<close>; the locale \<open>queue_store\<close> states what the service relies on.
\<close>

section \<open>Types\<close>

datatype JobStatus = JOB_PENDING | JOB_ACTIVE | JOB_COMPLETED | JOB_FAILED | JOB_DELAYED

text \<open>A job of Bull; \<open>jb_progress\<close> is present when the progress is a number.\<close>

record Job =
  jb_id :: string
  jb_name :: string
  jb_data :: json
  jb_attempts :: "nat option"
  jb_backoff :: "json option"
  jb_attemptsMade :: nat
  jb_progress :: "int option"
  jb_returnvalue :: json
  jb_failedReason :: "string option"
  jb_timestamp :: int
  jb_processedOn :: "int option"
  jb_finishedOn :: "int option"
  jb_queue :: string

record JobInfo =
  ji_id :: string
  ji_name :: string
  ji_status :: JobStatus
  ji_progress :: int
  ji_attempts :: nat
  ji_maxAttempts :: nat
  ji_data :: json
  ji_result :: "(bool \<times> json) option"
  ji_error :: "string option"
  ji_createdAt :: int
  ji_processedAt :: "int option"
  ji_completedAt :: "int option"

record job_options =
  jo_removeOnComplete :: bool
  jo_removeOnFail :: bool
  jo_attempts :: "nat option"
  jo_backoff :: "json option"

text \<open>The object written to the dead-letter list.\<close>

record dlq_item =
  dq_id :: string
  dq_name :: string
  dq_data :: json
  dq_error :: string
  dq_attempts :: nat
  dq_maxAttempts :: nat
  dq_failedAt :: string

record 's queue_env =
  q_add :: "string \<Rightarrow> string \<Rightarrow> json \<Rightarrow> job_options \<Rightarrow> ('s, Job) prog"
  q_getJob :: "string \<Rightarrow> string \<Rightarrow> ('s, Job option) prog"
  q_getJobs :: "string \<Rightarrow> string \<Rightarrow> ('s, Job list) prog"
  q_getState :: "Job \<Rightarrow> ('s, string) prog"
  q_clean :: "string \<Rightarrow> string \<Rightarrow> ('s, string list) prog"
  q_getJobCounts :: "string \<Rightarrow> ('s, (string \<times> nat) list) prog"
  q_progress :: "Job \<Rightarrow> int \<Rightarrow> ('s, unit) prog"
  q_lRange :: "string \<Rightarrow> int \<Rightarrow> int \<Rightarrow> ('s, dlq_item rtext list) prog"
  q_lTrim :: "string \<Rightarrow> int \<Rightarrow> int \<Rightarrow> ('s, unit) prog"
  q_rPush :: "string \<Rightarrow> dlq_item rtext \<Rightarrow> ('s, unit) prog"
  q_now :: "'s \<Rightarrow> int"

section \<open>QueueService\<close>

definition DLQ_PREFIX :: string where "DLQ_PREFIX = ''queue:dlq:''"

definition queue_names :: "string list" where
  "queue_names = [''deploy-contract'', ''process-tts'', ''index-market-news'']"

text \<open>A queue is identified by its name.\<close>

definition getQueueByName :: "string \<Rightarrow> ('s, string) prog" where
  "getQueueByName queueName = (if List.member queue_names queueName then returnE queueName
     else throwE (Error (''Unknown queue: '' @ queueName)))"

text \<open>\<open>{removeOnComplete: false, removeOnFail: false, ...options}\<close> for options that set attempts and backoff.\<close>

definition addJob :: "'s queue_env \<Rightarrow> string \<Rightarrow> string \<Rightarrow> json \<Rightarrow> nat option \<Rightarrow> json option \<Rightarrow> ('s, Job) prog" where
  "addJob Q queueName jobName data attempts backoff =
     bindE (getQueueByName queueName) (\<lambda>queue.
       q_add Q queue jobName data \<lparr>jo_removeOnComplete = False, jo_removeOnFail = False,
         jo_attempts = attempts, jo_backoff = backoff\<rparr>)"

definition mapJobState :: "string \<Rightarrow> JobStatus" where
  "mapJobState state = (if state = ''pending'' then JOB_PENDING else if state = ''active'' then JOB_ACTIVE
     else if state = ''completed'' then JOB_COMPLETED else if state = ''failed'' then JOB_FAILED
     else if state = ''delayed'' then JOB_DELAYED else JOB_PENDING)"

definition opt_time :: "int option \<Rightarrow> int option" where
  "opt_time t = (case t of None \<Rightarrow> None | Some n \<Rightarrow> if n = 0 then None else Some n)"

definition job_info :: "string \<Rightarrow> Job \<Rightarrow> JobInfo" where
  "job_info state job = \<lparr>ji_id = jb_id job, ji_name = jb_name job, ji_status = mapJobState state,
     ji_progress = (case jb_progress job of None \<Rightarrow> 0 | Some p \<Rightarrow> p), ji_attempts = jb_attemptsMade job,
     ji_maxAttempts = or_nat (jb_attempts job) 1, ji_data = jb_data job,
     ji_result = (if json_truthy (jb_returnvalue job) then Some (True, jb_returnvalue job) else None),
     ji_error = (if truthy (jb_failedReason job) then jb_failedReason job else None),
     ji_createdAt = jb_timestamp job, ji_processedAt = opt_time (jb_processedOn job),
     ji_completedAt = opt_time (jb_finishedOn job)\<rparr>"

definition getJobInfo :: "'s queue_env \<Rightarrow> string \<Rightarrow> string \<Rightarrow> ('s, JobInfo option) prog" where
  "getJobInfo Q queueName jobId =
     bindE (getQueueByName queueName) (\<lambda>queue.
     bindE (q_getJob Q queue jobId) (\<lambda>found. case found of
       None \<Rightarrow> returnE None
     | Some job \<Rightarrow> bindE (q_getState Q job) (\<lambda>state. returnE (Some (job_info state job)))))"

definition default_statuses :: "string list" where
  "default_statuses = [''active'', ''completed'', ''failed'', ''delayed'']"

definition getQueueJobs :: "'s queue_env \<Rightarrow> string \<Rightarrow> string list option \<Rightarrow> ('s, JobInfo list) prog" where
  "getQueueJobs Q queueName statuses =
     bindE (getQueueByName queueName) (\<lambda>queue.
     bindE (mapE (case statuses of None \<Rightarrow> default_statuses | Some xs \<Rightarrow> xs) (q_getJobs Q queue)) (\<lambda>groups.
       promise_all (map (\<lambda>job. bindE (q_getState Q job) (\<lambda>state. returnE (job_info state job))) (concat groups))))"

text \<open>An entry that is not JSON is returned as it is.\<close>

definition getDeadLetterQueue :: "'s queue_env \<Rightarrow> string \<Rightarrow> int \<Rightarrow> ('s, dlq_item rtext list) prog" where
  "getDeadLetterQueue Q queueName limit = q_lRange Q (DLQ_PREFIX @ queueName) 0 (limit - 1)"

definition requeueJob :: "'s queue_env \<Rightarrow> string \<Rightarrow> string \<Rightarrow> ('s, Job) prog" where
  "requeueJob Q queueName jobId =
     bindE (getQueueByName queueName) (\<lambda>queue.
     bindE (q_getJob Q queue jobId) (\<lambda>found. case found of
       None \<Rightarrow> throwE (Error (''Job '' @ jobId @ '' not found in queue '' @ queueName))
     | Some job \<Rightarrow> q_add Q queue (jb_name job) (jb_data job)
         \<lparr>jo_removeOnComplete = False, jo_removeOnFail = False, jo_attempts = Some (or_nat (jb_attempts job) 3),
          jo_backoff = jb_backoff job\<rparr>))"

text \<open>The loop of \<open>requeueFromDLQ\<close>; its local object is \<open>requeuedJobs\<close>.\<close>

definition requeueItem :: "'s queue_env \<Rightarrow> string \<Rightarrow> dlq_item rtext \<Rightarrow> ('s \<times> Job list, unit) prog" where
  "requeueItem Q queueName item =
     catchE
       (bindE (JSON_parse item) (\<lambda>jobData.
        bindE (getQueueByName queueName) (\<lambda>queue.
        bindE (liftL (q_add Q queue (dq_name jobData) (dq_data jobData)
                 \<lparr>jo_removeOnComplete = False, jo_removeOnFail = False,
                  jo_attempts = Some (or_nat (Some (dq_maxAttempts jobData)) 3), jo_backoff = None\<rparr>)) (\<lambda>newJob.
          modL (\<lambda>jobs. jobs @ [newJob])))))
       (\<lambda>error. returnE ())"

definition requeueFromDLQ :: "'s queue_env \<Rightarrow> string \<Rightarrow> int \<Rightarrow> ('s, Job list) prog" where
  "requeueFromDLQ Q queueName limit =
     (let dlqKey = DLQ_PREFIX @ queueName in
      bindE (q_lRange Q dlqKey 0 (limit - 1)) (\<lambda>dlqData.
      bindE (localE [] (forE dlqData (requeueItem Q queueName))) (\<lambda>(_, requeuedJobs).
      seqE (whenE (0 < length requeuedJobs) (q_lTrim Q dlqKey (int (length requeuedJobs)) (- 1)))
        (returnE requeuedJobs))))"

definition purgeQueue :: "'s queue_env \<Rightarrow> string \<Rightarrow> ('s, nat) prog" where
  "purgeQueue Q queueName =
     bindE (getQueueByName queueName) (\<lambda>queue.
     bindE (q_clean Q queue ''failed'') (\<lambda>jobs. returnE (length jobs)))"

record queue_stats =
  qs_active :: nat
  qs_completed :: nat
  qs_failed :: nat
  qs_delayed :: nat
  qs_waiting :: nat

definition getQueueStats :: "'s queue_env \<Rightarrow> string \<Rightarrow> ('s, queue_stats) prog" where
  "getQueueStats Q queueName =
     bindE (getQueueByName queueName) (\<lambda>queue.
     bindE (q_getJobCounts Q queue) (\<lambda>counts.
       let n = (\<lambda>k. or_nat (map_of counts k) 0) in
       returnE \<lparr>qs_active = n ''active'', qs_completed = n ''completed'', qs_failed = n ''failed'',
                qs_delayed = n ''delayed'', qs_waiting = n ''waiting''\<rparr>))"

definition updateJobProgress :: "'s queue_env \<Rightarrow> string \<Rightarrow> string \<Rightarrow> int \<Rightarrow> ('s, unit) prog" where
  "updateJobProgress Q queueName jobId progress =
     bindE (getQueueByName queueName) (\<lambda>queue.
     bindE (q_getJob Q queue jobId) (\<lambda>found. case found of
       None \<Rightarrow> throwE (Error (''Job '' @ jobId @ '' not found''))
     | Some job \<Rightarrow> q_progress Q job progress))"

definition dlq_entry :: "Job \<Rightarrow> exn \<Rightarrow> int \<Rightarrow> dlq_item" where
  "dlq_entry job error now = \<lparr>dq_id = jb_id job, dq_name = jb_name job, dq_data = jb_data job,
     dq_error = exn_message error, dq_attempts = jb_attemptsMade job, dq_maxAttempts = or_nat (jb_attempts job) 1,
     dq_failedAt = toISOString now\<rparr>"

definition handleJobFailure :: "'s queue_env \<Rightarrow> Job \<Rightarrow> exn \<Rightarrow> ('s, unit) prog" where
  "handleJobFailure Q job error =
     whenE (or_nat (jb_attempts job) 1 \<le> jb_attemptsMade job)
       (bindE (readE (q_now Q)) (\<lambda>now.
         catchE (q_rPush Q (DLQ_PREFIX @ jb_queue job) (Json (dlq_entry job error now))) (\<lambda>dlqError. returnE ())))"

text \<open>What \<open>initializeQueues\<close> attaches to the events of every queue; a completed job and an error of the queue are only logged.\<close>

datatype queue_event = FailedEvent Job exn | CompletedEvent Job | ErrorEvent exn

fun on_queue_event :: "'s queue_env \<Rightarrow> queue_event \<Rightarrow> ('s, unit) prog" where
  "on_queue_event Q (FailedEvent job error) = handleJobFailure Q job error"
| "on_queue_event Q (CompletedEvent job) = returnE ()"
| "on_queue_event Q (ErrorEvent error) = returnE ()"

section \<open>QueueAdminController\<close>

definition check_queue :: "string \<Rightarrow> ('s, 'a) prog \<Rightarrow> ('s, 'a) prog" where
  "check_queue queueName m = (if \<not> List.member queue_names queueName
     then throwE (BadRequestException (''Invalid queue name. Valid options: '' @ js_join '', '' queue_names)) else m)"

definition admin_getAllQueueStats :: "'s queue_env \<Rightarrow> ('s, (string \<times> queue_stats) list) prog" where
  "admin_getAllQueueStats Q = promise_all (map (\<lambda>queue.
     bindE (getQueueStats Q queue) (\<lambda>stats. returnE (queue, stats))) queue_names)"

definition admin_getQueueStats :: "'s queue_env \<Rightarrow> string \<Rightarrow> ('s, queue_stats) prog" where
  "admin_getQueueStats Q queueName = check_queue queueName (getQueueStats Q queueName)"

definition admin_getQueueJobs :: "'s queue_env \<Rightarrow> string \<Rightarrow> string option \<Rightarrow> ('s, nat \<times> JobInfo list) prog" where
  "admin_getQueueJobs Q queueName statusQuery = check_queue queueName
     (bindE (getQueueJobs Q queueName (if truthy statusQuery then Some (js_split CHR '','' (the statusQuery)) else None))
       (\<lambda>jobs. returnE (length jobs, jobs)))"

definition admin_getJob :: "'s queue_env \<Rightarrow> string \<Rightarrow> string \<Rightarrow> ('s, JobInfo) prog" where
  "admin_getJob Q queueName jobId = check_queue queueName
     (bindE (getJobInfo Q queueName jobId) (\<lambda>found. case found of
        None \<Rightarrow> throwE (BadRequestException (''Job '' @ jobId @ '' not found in queue '' @ queueName))
      | Some job \<Rightarrow> returnE job))"

definition admin_getDeadLetterQueue :: "'s queue_env \<Rightarrow> string \<Rightarrow> int \<Rightarrow> ('s, nat \<times> dlq_item rtext list) prog" where
  "admin_getDeadLetterQueue Q queueName limit = check_queue queueName
     (bindE (getDeadLetterQueue Q queueName limit) (\<lambda>dlqItems. returnE (length dlqItems, dlqItems)))"

definition admin_requeueJob :: "'s queue_env \<Rightarrow> string \<Rightarrow> string \<Rightarrow> ('s, string \<times> string \<times> string) prog" where
  "admin_requeueJob Q queueName jobId = check_queue queueName
     (catchE (bindE (requeueJob Q queueName jobId) (\<lambda>requeuedJob. returnE (jobId, jb_id requeuedJob, queueName)))
       (\<lambda>error. throwE (BadRequestException (exn_message error))))"

definition admin_requeueFromDLQ :: "'s queue_env \<Rightarrow> string \<Rightarrow> int \<Rightarrow> ('s, nat \<times> string list) prog" where
  "admin_requeueFromDLQ Q queueName limit = check_queue queueName
     (bindE (requeueFromDLQ Q queueName limit) (\<lambda>requeuedJobs. returnE (length requeuedJobs, map jb_id requeuedJobs)))"

definition admin_purgeQueue :: "'s queue_env \<Rightarrow> string \<Rightarrow> ('s, nat) prog" where
  "admin_purgeQueue Q queueName = check_queue queueName (purgeQueue Q queueName)"

section \<open>What the service relies on\<close>

text \<open>The entries from \<open>a\<close> to \<open>b\<close> of a Redis list; negative positions count from the end.\<close>

definition redis_range :: "'v list \<Rightarrow> int \<Rightarrow> int \<Rightarrow> 'v list" where
  "redis_range xs a b =
     (let n = int (length xs); a' = (if a < 0 then max 0 (n + a) else a); b' = (if b < 0 then n + b else b)
      in take (nat (b' - a' + 1)) (drop (nat a') xs))"

lemma redis_range_first: "0 < n \<Longrightarrow> redis_range xs 0 (n - 1) = take (nat n) xs"
  by (simp add: redis_range_def)

lemma redis_range_whole: "redis_range xs 0 (- 1) = xs"
  by (simp add: redis_range_def)

lemma redis_range_drop: "redis_range xs (int n) (- 1) = drop n xs"
  by (simp add: redis_range_def Let_def)

text \<open>
  \<open>dlq s k\<close> is the list at key \<open>k\<close> and \<open>jobs s q\<close> the jobs added to the queue \<open>q\<close>, in order: what matters of a
  job is its name, data and number of attempts. The connection works.
\<close>

type_synonym job_spec = "string \<times> json \<times> nat option"

definition job_spec :: "Job \<Rightarrow> job_spec" where
  "job_spec j = (jb_name j, jb_data j, jb_attempts j)"

locale queue_store =
  fixes Q :: "'s queue_env"
    and dlq :: "'s \<Rightarrow> string \<Rightarrow> dlq_item rtext list"
    and jobs :: "'s \<Rightarrow> string \<Rightarrow> job_spec list"
  assumes lRange_law: "q_lRange Q k a b s = (Inr (redis_range (dlq s k) a b), s)"
    and lTrim_law: "\<exists>s'. q_lTrim Q k a b s = (Inr (), s') \<and> dlq s' = (dlq s)(k := redis_range (dlq s k) a b) \<and> jobs s' = jobs s"
    and rPush_law: "\<exists>s'. q_rPush Q k x s = (Inr (), s') \<and> dlq s' = (dlq s)(k := dlq s k @ [x]) \<and> jobs s' = jobs s"
    and add_law: "\<exists>j s'. q_add Q q n v opts s = (Inr j, s') \<and> job_spec j = (n, v, jo_attempts opts) \<and>
        dlq s' = dlq s \<and> jobs s' = (jobs s)(q := jobs s q @ [job_spec j])"
begin

lemma wpi_lRange: "P (redis_range (dlq s k) a b) s \<Longrightarrow> wp (q_lRange Q k a b) P X s"
  by (simp add: wp_def lRange_law)

lemma wpi_lTrim:
  "(\<And>s'. dlq s' = (dlq s)(k := redis_range (dlq s k) a b) \<Longrightarrow> jobs s' = jobs s \<Longrightarrow> P () s') \<Longrightarrow> wp (q_lTrim Q k a b) P X s"
  using lTrim_law [of k a b s] by (auto simp: wp_def)

lemma wpi_rPush:
  "(\<And>s'. dlq s' = (dlq s)(k := dlq s k @ [v]) \<Longrightarrow> jobs s' = jobs s \<Longrightarrow> P () s') \<Longrightarrow> wp (q_rPush Q k v) P X s"
  using rPush_law [of k v s] by (auto simp: wp_def)

lemma wpi_add:
  "(\<And>j s'. job_spec j = (n, v, jo_attempts opts) \<Longrightarrow> dlq s' = dlq s \<Longrightarrow>
      jobs s' = (jobs s)(q := jobs s q @ [(n, v, jo_attempts opts)]) \<Longrightarrow> P j s') \<Longrightarrow> wp (q_add Q q n v opts) P X s"
  using add_law [of q n v opts s] by (auto simp: wp_def)

end

section \<open>Moving the dead letters\<close>

text \<open>The job made of an entry; an entry that does not parse makes none.\<close>

fun item_job :: "dlq_item rtext \<Rightarrow> job_spec option" where
  "item_job (Json d) = Some (dq_name d, dq_data d, Some (or_nat (Some (dq_maxAttempts d)) 3))"
| "item_job (Txt t) = None"

text \<open>
  The abstract queue has a list of dead letters and a list of jobs; \<open>move n\<close> takes the first \<open>n\<close> dead
  letters and appends their jobs.
\<close>

type_synonym abs_queue = "dlq_item rtext list \<times> job_spec list"

definition abs_move :: "nat \<Rightarrow> abs_queue \<Rightarrow> abs_queue" where
  "abs_move n a = (drop n (fst a), snd a @ List.map_filter item_job (take n (fst a)))"

definition queue_abs :: "('s \<Rightarrow> string \<Rightarrow> dlq_item rtext list) \<Rightarrow> ('s \<Rightarrow> string \<Rightarrow> job_spec list) \<Rightarrow> string \<Rightarrow> 's \<Rightarrow> abs_queue" where
  "queue_abs dlq jobs q s = (dlq s (DLQ_PREFIX @ q), jobs s q)"

text \<open>The failures of a queue's jobs that had no attempt left.\<close>

fun exhausted_failure :: "string \<Rightarrow> queue_event \<Rightarrow> (Job \<times> exn) option" where
  "exhausted_failure q (FailedEvent job e) =
     (if jb_queue job = q \<and> or_nat (jb_attempts job) 1 \<le> jb_attemptsMade job then Some (job, e) else None)"
| "exhausted_failure q _ = None"

definition exhausted :: "string \<Rightarrow> queue_event list \<Rightarrow> (Job \<times> exn) list" where
  "exhausted q events = List.map_filter (exhausted_failure q) events"

context queue_store
begin

lemma requeueItem_wp:
  assumes "List.member queue_names q"
    and "\<And>j s'. item_job item = Some (job_spec j) \<Longrightarrow> dlq s' = dlq s \<Longrightarrow> jobs s' = (jobs s)(q := jobs s q @ [job_spec j]) \<Longrightarrow> P () (s', js @ [j])"
    and "item_job item = None \<Longrightarrow> P () (s, js)"
  shows "wp (requeueItem Q q item) P X (s, js)"
proof (cases item)
  case (Json d)
  show ?thesis
    unfolding requeueItem_def JSON_parse_def getQueueByName_def Json rtext.case
    by (intro wp_intros wpi_add) (use assms Json in auto)
next
  case (Txt t)
  with assms(3) show ?thesis by (simp add: requeueItem_def JSON_parse_def wp_simps)
qed

lemma requeueLoop_wp:
  assumes "List.member queue_names q"
  shows "wp (forE items (requeueItem Q q))
    (\<lambda>_ p. dlq (fst p) = dlq s \<and> jobs (fst p) = (jobs s)(q := jobs s q @ List.map_filter item_job items) \<and>
       map job_spec (snd p) = map job_spec js @ List.map_filter item_job items)
    (\<lambda>_ _. False) (s, js)"
proof (induction items arbitrary: s js)
  case Nil
  then show ?case by (simp add: wp_simps List.map_filter_simps)
next
  case (Cons item items)
  show ?case unfolding forE.simps
    by (intro wp_intros requeueItem_wp assms; rule wp_mono [OF Cons.IH])
      (auto simp: List.map_filter_simps)
qed

text \<open>What \<open>requeueFromDLQ\<close> does on any list: the jobs of the entries that parse are added, and as many entries are cut off the front.\<close>

lemma requeueFromDLQ_wp:
  assumes "List.member queue_names q" and "items = redis_range (dlq s (DLQ_PREFIX @ q)) 0 (limit - 1)"
    and "moved = List.map_filter item_job items"
  shows "wp (requeueFromDLQ Q q limit)
    (\<lambda>js s'. map job_spec js = moved \<and> jobs s' = (jobs s)(q := jobs s q @ moved) \<and>
       dlq s' = (dlq s)(DLQ_PREFIX @ q := drop (length moved) (dlq s (DLQ_PREFIX @ q))))
    (\<lambda>_ _. False) s"
proof -
  have loop: "wp (forE items (requeueItem Q q)) (\<lambda>_ p. dlq (fst p) = dlq s \<and> jobs (fst p) = (jobs s)(q := jobs s q @ moved) \<and>
       map job_spec (snd p) = moved) (\<lambda>_ _. False) (s, [])"
    using requeueLoop_wp [OF assms(1), of items s "[]"] by (simp add: assms(3))
  show ?thesis
    unfolding requeueFromDLQ_def Let_def
    by (intro wp_intros wpi_lRange, simp only: assms(2) [symmetric] wp_localE, rule wp_mono [OF loop], intro wp_intros wpi_lTrim)
      (auto simp: redis_range_drop fun_eq_iff)
qed

lemma handleJobFailure_wp:
  "wp (handleJobFailure Q job e)
    (\<lambda>_ s'. jobs s' = jobs s \<and>
      (if or_nat (jb_attempts job) 1 \<le> jb_attemptsMade job
       then dlq s' = (dlq s)(DLQ_PREFIX @ jb_queue job := dlq s (DLQ_PREFIX @ jb_queue job) @ [Json (dlq_entry job e (q_now Q s))])
       else s' = s)) (\<lambda>_ _. False) s"
  unfolding handleJobFailure_def by (intro wp_intros wpi_rPush) auto

text \<open>A run of events adds to the list of a queue one entry for each exhausted job of that queue that failed, in order.\<close>

lemma events_wp:
  "wp (forE events (on_queue_event Q))
    (\<lambda>_ s'. jobs s' = jobs s \<and> (\<exists>ys. dlq s' (DLQ_PREFIX @ q) = dlq s (DLQ_PREFIX @ q) @ ys \<and>
       list_all2 (\<lambda>f y. \<exists>now. y = Json (dlq_entry (fst f) (snd f) now)) (exhausted q events) ys)) (\<lambda>_ _. False) s"
proof (induction events arbitrary: s)
  case Nil
  then show ?case by (simp add: wp_simps exhausted_def List.map_filter_simps)
next
  case (Cons ev events)
  show ?case
  proof (cases ev)
    case (FailedEvent job e)
    show ?thesis unfolding forE.simps FailedEvent on_queue_event.simps
      by (intro wp_intros, rule wp_mono [OF handleJobFailure_wp], rule wp_mono [OF Cons.IH])
        (auto simp: exhausted_def List.map_filter_simps split: if_splits)
  qed (simp_all add: wp_simps, use Cons.IH in \<open>simp_all add: exhausted_def List.map_filter_simps\<close>)
qed

end

section \<open>An in-memory queue\<close>

record queue_mem =
  qm_dlq :: "string \<Rightarrow> dlq_item rtext list"
  qm_jobs :: "string \<Rightarrow> Job list"

definition mem_job :: "string \<Rightarrow> string \<Rightarrow> json \<Rightarrow> job_options \<Rightarrow> Job list \<Rightarrow> Job" where
  "mem_job q n v opts js = \<lparr>jb_id = show_nat (length js), jb_name = n, jb_data = v, jb_attempts = jo_attempts opts,
     jb_backoff = jo_backoff opts, jb_attemptsMade = 0, jb_progress = None, jb_returnvalue = JNull, jb_failedReason = None,
     jb_timestamp = 0, jb_processedOn = None, jb_finishedOn = None, jb_queue = q\<rparr>"

definition mem_queue :: "queue_mem queue_env" where
  "mem_queue = \<lparr>
     q_add = (\<lambda>q n v opts s. let j = mem_job q n v opts (qm_jobs s q) in (Inr j, s\<lparr>qm_jobs := (qm_jobs s)(q := qm_jobs s q @ [j])\<rparr>)),
     q_getJob = (\<lambda>q i s. (Inr (List.find (\<lambda>j. jb_id j = i) (qm_jobs s q)), s)),
     q_getJobs = (\<lambda>q st s. (Inr [], s)), q_getState = (\<lambda>j s. (Inr ''waiting'', s)),
     q_clean = (\<lambda>q st s. (Inr [], s)), q_getJobCounts = (\<lambda>q s. (Inr [(''waiting'', length (qm_jobs s q))], s)),
     q_progress = (\<lambda>j p s. (Inr (), s)),
     q_lRange = (\<lambda>k a b s. (Inr (redis_range (qm_dlq s k) a b), s)),
     q_lTrim = (\<lambda>k a b s. (Inr (), s\<lparr>qm_dlq := (qm_dlq s)(k := redis_range (qm_dlq s k) a b)\<rparr>)),
     q_rPush = (\<lambda>k v s. (Inr (), s\<lparr>qm_dlq := (qm_dlq s)(k := qm_dlq s k @ [v])\<rparr>)),
     q_now = (\<lambda>_. 0)\<rparr>"

abbreviation mem_jobs :: "queue_mem \<Rightarrow> string \<Rightarrow> job_spec list" where
  "mem_jobs \<equiv> \<lambda>s q. map job_spec (qm_jobs s q)"

lemma mem_queue_store: "queue_store mem_queue qm_dlq mem_jobs"
  by unfold_locales (auto simp: mem_queue_def Let_def fun_eq_iff job_spec_def mem_job_def)

interpretation qmem: queue_store mem_queue qm_dlq mem_jobs
  by (rule mem_queue_store)

section \<open>Properties\<close>

lemma map_filter_all: "(\<And>x. x \<in> set xs \<Longrightarrow> f x \<noteq> None) \<Longrightarrow> length (List.map_filter f xs) = length xs"
proof (induction xs)
  case (Cons x xs)
  then obtain y where "f x = Some y" by fastforce
  with Cons show ?case by (simp add: List.map_filter_simps)
qed (simp add: List.map_filter_simps)

text \<open>
  C11. \<open>requeueFromDLQ\<close> refines the abstract move: when the entries it reads are JSON, a call with a positive
  limit takes exactly the first \<open>limit\<close> dead letters off the list and appends their jobs, in order, to the queue, with the
  name and data of the failed job; no other queue or list changes.
\<close>

theorem requeueFromDLQ_refines:
  assumes "queue_store Q dlq jobs" and "List.member queue_names q" and "0 < limit"
    and "\<And>x. x \<in> set (take (nat limit) (dlq s (DLQ_PREFIX @ q))) \<Longrightarrow> item_job x \<noteq> None"
  shows "\<exists>js s'. requeueFromDLQ Q q limit s = (Inr js, s') \<and>
    queue_abs dlq jobs q s' = abs_move (nat limit) (queue_abs dlq jobs q s) \<and>
    (\<forall>q'. q' \<noteq> q \<longrightarrow> queue_abs dlq jobs q' s' = queue_abs dlq jobs q' s)"
proof -
  let ?xs = "dlq s (DLQ_PREFIX @ q)"
  have items: "take (nat limit) ?xs = redis_range ?xs 0 (limit - 1)" using assms(3) by (simp add: redis_range_first)
  have "length (List.map_filter item_job (take (nat limit) ?xs)) = min (length ?xs) (nat limit)"
    using map_filter_all [of "take (nat limit) ?xs" item_job] assms(4) by simp
  then have "drop (length (List.map_filter item_job (take (nat limit) ?xs))) ?xs = drop (nat limit) ?xs"
    by (simp add: min_def)
  then show ?thesis
    using queue_store.requeueFromDLQ_wp [OF assms(1,2) items refl]
    unfolding wp_value by (auto simp: queue_abs_def abs_move_def)
qed

definition demo_item :: dlq_item where
  "demo_item = \<lparr>dq_id = ''7'', dq_name = ''speak'', dq_data = JObj [(''text'', JStr ''hi'')], dq_error = ''boom'', dq_attempts = 3,
     dq_maxAttempts = 3, dq_failedAt = ''2024-01-01T00:00:00.000Z''\<rparr>"

definition demo_queue :: "dlq_item rtext list \<Rightarrow> queue_mem" where
  "demo_queue xs = \<lparr>qm_dlq = (\<lambda>_. [])(DLQ_PREFIX @ ''process-tts'' := xs), qm_jobs = (\<lambda>_. [])\<rparr>"

theorem requeueFromDLQ_refines_witness:
  "\<exists>js s'. requeueFromDLQ mem_queue ''process-tts'' 1 (demo_queue [Json demo_item, Json demo_item]) = (Inr js, s') \<and>
    queue_abs qm_dlq mem_jobs ''process-tts'' s' =
      abs_move 1 (queue_abs qm_dlq mem_jobs ''process-tts'' (demo_queue [Json demo_item, Json demo_item]))"
  using requeueFromDLQ_refines [OF mem_queue_store, of "''process-tts''" 1 "demo_queue [Json demo_item, Json demo_item]"]
  by (auto simp: queue_names_def demo_queue_def)

text \<open>
  An entry that is not JSON breaks the count: with such an entry in front of a good one, a call that reads
  both adds the good one's job but cuts one entry off the front. The bad entry is lost, and the good one
  stays in the list, to be queued again by the next call.
\<close>

theorem requeue_duplicates_after_bad_entry:
  assumes "queue_store Q dlq jobs" and "List.member queue_names q"
    and "dlq s (DLQ_PREFIX @ q) = Txt t # Json d # rest"
  shows "\<exists>js s'. requeueFromDLQ Q q 2 s = (Inr js, s') \<and> dlq s' (DLQ_PREFIX @ q) = Json d # rest \<and>
    jobs s' q = jobs s q @ [the (item_job (Json d))]"
proof -
  have items: "[Txt t, Json d] = redis_range (dlq s (DLQ_PREFIX @ q)) 0 (2 - 1)"
    by (simp add: assms(3) redis_range_def)
  show ?thesis
    using queue_store.requeueFromDLQ_wp [OF assms(1,2) items refl] assms(3)
    unfolding wp_value by (auto simp: List.map_filter_simps)
qed

theorem requeue_duplicates_after_bad_entry_witness:
  "\<exists>js s'. requeueFromDLQ mem_queue ''process-tts'' 2 (demo_queue [Txt ''{broken'', Json demo_item]) = (Inr js, s') \<and>
    qm_dlq s' (DLQ_PREFIX @ ''process-tts'') = [Json demo_item] \<and>
    mem_jobs s' ''process-tts'' = mem_jobs (demo_queue [Txt ''{broken'', Json demo_item]) ''process-tts'' @ [the (item_job (Json demo_item))]"
  by (rule requeue_duplicates_after_bad_entry [OF mem_queue_store, where rest = "[]" and t = "''{broken''"])
    (simp_all add: queue_names_def demo_queue_def)

text \<open>
  A job's way through the dead-letter list keeps it: a job whose attempts are used up is appended to the list of its
  queue, and requeueing it from an empty list gives the queue a job with the same name, data and number of attempts
  and leaves the list empty; a job with attempts left is not moved.
\<close>

theorem dlq_roundtrip:
  assumes "queue_store Q dlq jobs" and "List.member queue_names (jb_queue job)"
    and "dlq s (DLQ_PREFIX @ jb_queue job) = []"
  shows "\<exists>s1. handleJobFailure Q job e s = (Inr (), s1) \<and> jobs s1 = jobs s \<and>
    (if or_nat (jb_attempts job) 1 \<le> jb_attemptsMade job
     then \<exists>js s2. requeueFromDLQ Q (jb_queue job) 1 s1 = (Inr js, s2) \<and> dlq s2 = dlq s \<and>
       jobs s2 = (jobs s)(jb_queue job := jobs s (jb_queue job) @ [(jb_name job, jb_data job, Some (or_nat (jb_attempts job) 1))])
     else s1 = s)"
proof -
  obtain s1 where s1: "handleJobFailure Q job e s = (Inr (), s1)" "jobs s1 = jobs s"
    "if or_nat (jb_attempts job) 1 \<le> jb_attemptsMade job
       then dlq s1 = (dlq s)(DLQ_PREFIX @ jb_queue job := [Json (dlq_entry job e (q_now Q s))]) else s1 = s"
    using queue_store.handleJobFailure_wp [OF assms(1), of job e s] assms(3) by (auto simp: wp_value split: if_splits)
  have pos: "or_nat (Some (or_nat (jb_attempts job) 1)) 3 = or_nat (jb_attempts job) 1"
    by (simp add: or_nat_def split: option.split)
  show ?thesis
  proof (cases "or_nat (jb_attempts job) 1 \<le> jb_attemptsMade job")
    case True
    with s1(3) have d: "dlq s1 = (dlq s)(DLQ_PREFIX @ jb_queue job := [Json (dlq_entry job e (q_now Q s))])" by simp
    then have items: "[Json (dlq_entry job e (q_now Q s))] = redis_range (dlq s1 (DLQ_PREFIX @ jb_queue job)) 0 (1 - 1)"
      by (simp add: redis_range_def)
    show ?thesis
      using queue_store.requeueFromDLQ_wp [OF assms(1,2) items refl] s1 True assms(3) pos d
      unfolding wp_value by (auto simp: List.map_filter_simps dlq_entry_def fun_upd_idem)
  qed (use s1 in simp)
qed

theorem dlq_roundtrip_witness:
  "\<exists>s1. handleJobFailure mem_queue (mem_job ''process-tts'' ''speak'' JNull \<lparr>jo_removeOnComplete = False, jo_removeOnFail = False, jo_attempts = Some 2, jo_backoff = None\<rparr> [])
      (Error ''boom'') (demo_queue []) = (Inr (), s1) \<and> s1 = demo_queue []"
  using dlq_roundtrip [OF mem_queue_store, of "mem_job ''process-tts'' ''speak'' JNull \<lparr>jo_removeOnComplete = False, jo_removeOnFail = False, jo_attempts = Some 2, jo_backoff = None\<rparr> []"
      "demo_queue []" "Error ''boom''"]
  by (auto simp: mem_job_def queue_names_def demo_queue_def or_nat_def)

text \<open>What an exhausted job is requeued as.\<close>

definition again :: "Job \<Rightarrow> job_spec" where
  "again job = (jb_name job, jb_data job, Some (or_nat (jb_attempts job) 1))"

lemma requeued_entry: "item_job (Json (dlq_entry job e now)) = Some (again job)"
  by (simp add: dlq_entry_def again_def or_nat_def split: option.split)

lemma requeued_entries:
  "list_all2 (\<lambda>f y. \<exists>now. y = Json (dlq_entry (fst f) (snd f) now)) fs ys \<Longrightarrow>
   map item_job ys = map (Some \<circ> again \<circ> fst) fs"
  by (induction rule: list_all2_induct) (auto simp: requeued_entry simp del: item_job.simps)

text \<open>\<open>requeueFromDLQ\<close> called \<open>k\<close> times with the same limit, as an operator does to work off a list.\<close>

primrec requeue_calls :: "'s queue_env \<Rightarrow> string \<Rightarrow> int \<Rightarrow> nat \<Rightarrow> ('s, unit) prog" where
  "requeue_calls Q q limit 0 = returnE ()"
| "requeue_calls Q q limit (Suc k) = seqE (ignoreE (requeueFromDLQ Q q limit)) (requeue_calls Q q limit k)"

lemma map_filter_parsed: "map f xs = map Some ys \<Longrightarrow> List.map_filter f xs = ys"
  by (induction xs arbitrary: ys) (auto simp: List.map_filter_simps)

context queue_store
begin

lemma requeue_calls_wp:
  assumes "List.member queue_names q" and "0 < limit" and "map item_job (dlq s (DLQ_PREFIX @ q)) = map Some waiting"
  shows "wp (requeue_calls Q q limit k)
    (\<lambda>_ s'. map item_job (dlq s' (DLQ_PREFIX @ q)) = map Some (drop (k * nat limit) waiting) \<and>
       jobs s' q = jobs s q @ take (k * nat limit) waiting) (\<lambda>_ _. False) s"
  using assms(3)
proof (induction k arbitrary: s waiting)
  case (Suc k)
  let ?xs = "dlq s (DLQ_PREFIX @ q)" and ?n = "nat limit"
  have parsed: "map item_job (take ?n ?xs) = map Some (take ?n waiting)" "map item_job (drop ?n ?xs) = map Some (drop ?n waiting)"
    by (simp_all add: Suc.prems take_map [symmetric] drop_map [symmetric])
  have moved: "take ?n waiting = List.map_filter item_job (take ?n ?xs)" using map_filter_parsed [OF parsed(1)] by simp
  have read: "take ?n ?xs = redis_range ?xs 0 (limit - 1)" using assms(2) by (simp add: redis_range_first)
  have same: "length waiting = length ?xs" using Suc.prems by (metis length_map)
  show ?case unfolding requeue_calls.simps wp_seqE
  proof (simp only: wp_seqE ignoreE_def wp_bindE wp_returnE, rule wp_mono [OF requeueFromDLQ_wp [OF assms(1) read moved]], elim conjE, goal_cases)
    case (1 js s1)
    then have d: "map item_job (dlq s1 (DLQ_PREFIX @ q)) = map Some (drop ?n waiting)"
      using parsed(2) same by (cases "length ?xs \<le> ?n") simp_all
    then show ?case
      by (rule wp_mono [OF Suc.IH]) (use 1 in \<open>auto simp: take_add add.commute\<close>)
  qed simp
qed (simp add: wp_simps)

end

text \<open>
  C36. No failed job is lost, and none is requeued twice. After any run of events of all queues, whatever dead letters, all of
  them readable, the queue had before, every call requeues as many of them as its limit allows, ten when none is given, the oldest first: after \<open>k\<close> calls the first
  \<open>k * limit\<close> are jobs of the queue, namely first the ones of the old entries and then one for each job of the queue that failed with no attempt
  left, in the order of the failures and with the name, data and number of attempts of the failed job; exactly the others are still in
  the list.
\<close>

theorem failed_jobs_requeued:
  assumes "queue_store Q dlq jobs" and "List.member queue_names q" and "0 < limit"
    and "map item_job (dlq s (DLQ_PREFIX @ q)) = map Some old"
  shows "\<exists>s1 s2. forE events (on_queue_event Q) s = (Inr (), s1) \<and> jobs s1 = jobs s \<and>
    requeue_calls Q q limit k s1 = (Inr (), s2) \<and>
    (let waiting = old @ map (again \<circ> fst) (exhausted q events) in
     jobs s2 q = jobs s q @ take (k * nat limit) waiting \<and>
     map item_job (dlq s2 (DLQ_PREFIX @ q)) = map Some (drop (k * nat limit) waiting))"
proof -
  obtain s1 ys where s1: "forE events (on_queue_event Q) s = (Inr (), s1)" "jobs s1 = jobs s"
      "dlq s1 (DLQ_PREFIX @ q) = dlq s (DLQ_PREFIX @ q) @ ys"
    and ys: "list_all2 (\<lambda>f y. \<exists>now. y = Json (dlq_entry (fst f) (snd f) now)) (exhausted q events) ys"
    using queue_store.events_wp [OF assms(1), where events = events and q = q and s = s] unfolding wp_value by auto
  have "map item_job (dlq s1 (DLQ_PREFIX @ q)) = map Some (old @ map (again \<circ> fst) (exhausted q events))"
    using s1(3) assms(4) requeued_entries [OF ys] by simp
  then show ?thesis
    using queue_store.requeue_calls_wp [OF assms(1-3), where k = k] s1 unfolding wp_value Let_def by fastforce
qed

definition failing_job :: "string \<Rightarrow> nat \<Rightarrow> Job" where
  "failing_job q n = (mem_job q ''speak'' (JStr ''hi'') \<lparr>jo_removeOnComplete = False, jo_removeOnFail = False, jo_attempts = Some 2,
     jo_backoff = None\<rparr> [])\<lparr>jb_attemptsMade := n\<rparr>"

definition failing_run :: "queue_event list" where
  "failing_run = [FailedEvent (failing_job ''process-tts'' 1) (Error ''boom''), CompletedEvent (failing_job ''deploy-contract'' 1),
     FailedEvent (failing_job ''process-tts'' 2) (Error ''boom''), FailedEvent (failing_job ''deploy-contract'' 2) (Error ''gas'')]"

theorem failed_jobs_requeued_witness:
  "\<exists>s1 s2. forE failing_run (on_queue_event mem_queue) (demo_queue [Json demo_item]) = (Inr (), s1) \<and>
    requeue_calls mem_queue ''process-tts'' 1 2 s1 = (Inr (), s2) \<and> qm_dlq s2 (DLQ_PREFIX @ ''process-tts'') = [] \<and>
    mem_jobs s2 ''process-tts'' = [(''speak'', JObj [(''text'', JStr ''hi'')], Some 3), (''speak'', JStr ''hi'', Some 2)]"
proof -
  have "exhausted ''process-tts'' failing_run = [(failing_job ''process-tts'' 2, Error ''boom'')]"
    by (simp add: exhausted_def failing_run_def failing_job_def mem_job_def List.map_filter_simps or_nat_def)
  then show ?thesis
    using failed_jobs_requeued [OF mem_queue_store, of "''process-tts''" 1 "demo_queue [Json demo_item]"
        "[(''speak'', JObj [(''text'', JStr ''hi'')], Some 3)]" failing_run 2]
    by (auto simp: queue_names_def demo_queue_def demo_item_def again_def failing_job_def mem_job_def or_nat_def)
qed

end
