(* ===== verification/Queue_Processors.thy ===== *)
theory Queue_Processors
  imports Complex_Main Job_Queue
begin

text \<open>
  The processors of the three queues (src/Backend/src/queue/processors). They simulate their work with timers and
  random numbers; \<open>processor_env\<close> holds \<open>job.progress\<close>, the clock, the timer, the random numbers and the
  Base64 encoder.
\<close>

record 's processor_env =
  pe_progress :: "nat \<Rightarrow> ('s, unit) prog"
  pe_now :: "'s \<Rightarrow> int"
  pe_delay :: "int \<Rightarrow> 's \<Rightarrow> 's"
  pe_randomHex :: "('s, string) prog"
  pe_randomDay :: "('s, int) prog"
  pe_base64 :: "string \<Rightarrow> string"

definition pe_wait :: "'s processor_env \<Rightarrow> int \<Rightarrow> ('s, unit) prog" where
  "pe_wait E ms = (\<lambda>s. (Inr (), pe_delay E ms s))"

record JobResult =
  jr_success :: bool
  jr_data :: json

section \<open>deploy-contract\<close>

record DeployContractData =
  dc_contractName :: "string option"
  dc_contractCode :: "string option"
  dc_network :: "string option"
  dc_initializer :: "string option"

definition compileContract :: "'s processor_env \<Rightarrow> string \<Rightarrow> ('s, string + string) prog" where
  "compileContract E contractCode =
     seqE (pe_wait E 1000) (returnE (if length contractCode = 0 then Inl ''Empty contract code''
       else Inr (pe_base64 E contractCode)))"

text \<open>\<open>x.padEnd(n, '0')\<close>; \<open>pe_randomHex\<close> is \<open>Math.random().toString(16).slice(2)\<close>.\<close>

definition pad_end :: "nat \<Rightarrow> string \<Rightarrow> string" where
  "pad_end n s = s @ replicate (n - length s) CHR ''0''"

definition deployToNetwork :: "'s processor_env \<Rightarrow> ('s, string \<times> string) prog" where
  "deployToNetwork E = seqE (pe_wait E 2000)
     (bindE (pe_randomHex E) (\<lambda>a. bindE (pe_randomHex E) (\<lambda>h.
       returnE (''0x'' @ pad_end 40 a, ''0x'' @ pad_end 64 h))))"

definition handleDeployContract :: "'s processor_env \<Rightarrow> DeployContractData \<Rightarrow> ('s, JobResult) prog" where
  "handleDeployContract E d =
     seqE (pe_progress E 10)
     (if \<not> truthy (dc_contractName d) \<or> \<not> truthy (dc_contractCode d) \<or> \<not> truthy (dc_network d)
      then throwE (Error ''Missing required fields: contractName, contractCode, network'')
      else seqE (pe_progress E 30)
        (bindE (compileContract E (the (dc_contractCode d))) (\<lambda>compilationResult. case compilationResult of
           Inl e \<Rightarrow> throwE (Error (''Compilation failed: '' @ e))
         | Inr bytecode \<Rightarrow>
             seqE (pe_progress E 50)
             (bindE (deployToNetwork E) (\<lambda>(contractAddress, transactionHash).
              seqE (pe_progress E 90)
              (seqE (pe_progress E 100)
              (bindE (readE (pe_now E)) (\<lambda>now.
                returnE \<lparr>jr_success = True, jr_data = JObj [(''contractAddress'', JStr contractAddress),
                  (''transactionHash'', JStr transactionHash), (''network'', JStr (the (dc_network d))),
                  (''contractName'', JStr (the (dc_contractName d))), (''deployedAt'', JStr (toISOString now))]\<rparr>))))))))"

section \<open>index-market-news\<close>

record NewsItem =
  ni_id :: string
  ni_title :: string
  ni_content :: string
  ni_source :: string
  ni_publishedAt :: string
  ni_tags :: "string list"

record IndexMarketNewsData =
  im_source :: "string option"
  im_limit :: "nat option"

text \<open>\<open>pe_randomDay\<close> is \<open>Math.random() * 86400000\<close>, cut to milliseconds as \<open>Date\<close> does.\<close>

definition fetchNews :: "'s processor_env \<Rightarrow> string \<Rightarrow> nat \<Rightarrow> ('s, NewsItem list) prog" where
  "fetchNews E source limit = seqE (pe_wait E 1500)
     (mapE [0..<or_nat (Some limit) 10] (\<lambda>i.
        bindE (readE (pe_now E)) (\<lambda>now. bindE (pe_randomDay E) (\<lambda>r.
          returnE \<lparr>ni_id = ''news-'' @ show_int now @ ''-'' @ show_nat i,
            ni_title = ''Market News '' @ show_nat (i + 1) @ '' from '' @ source,
            ni_content = ''This is a sample news article about market trends and opportunities from '' @ source @ ''.'',
            ni_source = source, ni_publishedAt = toISOString (now - r),
            ni_tags = [''market'', ''crypto'', js_lower source]\<rparr>))))"

definition enrichNews :: "'s processor_env \<Rightarrow> NewsItem list \<Rightarrow> ('s, NewsItem list) prog" where
  "enrichNews E newsItems = seqE (pe_wait E 1000)
     (returnE (map (\<lambda>item. item\<lparr>ni_tags := ni_tags item @ [''enriched'', ''indexed'']\<rparr>) newsItems))"

text \<open>\<open>Math.floor(n * 0.05)\<close> is the exact quotient for every length a job can have.\<close>

definition indexNews :: "'s processor_env \<Rightarrow> NewsItem list \<Rightarrow> ('s, nat \<times> nat) prog" where
  "indexNews E newsItems = seqE (pe_wait E 1500)
     (let failedCount = length newsItems div 20 in returnE (length newsItems - failedCount, failedCount))"

definition handleIndexMarketNews :: "'s processor_env \<Rightarrow> IndexMarketNewsData \<Rightarrow> ('s, JobResult) prog" where
  "handleIndexMarketNews E d =
     (let limit = (case im_limit d of None \<Rightarrow> 100 | Some n \<Rightarrow> n) in
      seqE (pe_progress E 10)
      (if \<not> truthy (im_source d) then throwE (Error ''Missing required field: source'')
       else seqE (pe_progress E 20)
         (bindE (fetchNews E (the (im_source d)) limit) (\<lambda>newsItems.
          seqE (pe_progress E 50)
          (bindE (enrichNews E newsItems) (\<lambda>enrichedNews.
           seqE (pe_progress E 75)
           (bindE (indexNews E enrichedNews) (\<lambda>(indexedCount, failedCount).
            seqE (pe_progress E 100)
            (bindE (readE (pe_now E)) (\<lambda>now.
              returnE \<lparr>jr_success = True, jr_data = JObj [(''source'', JStr (the (im_source d))),
                (''indexedCount'', JNum (int indexedCount)), (''failedCount'', JNum (int failedCount)),
                (''lastIndexedAt'', JStr (toISOString now)), (''itemsProcessed'', JNum (int (length enrichedNews)))]\<rparr>))))))))))"

section \<open>process-tts\<close>

record ProcessTtsData =
  tt_text :: "string option"
  tt_voiceId :: "string option"
  tt_language :: "string option"
  tt_speed :: "rat option"
  tt_sessionId :: "string option"

definition is_word_char :: "char \<Rightarrow> bool" where
  "is_word_char c = (let n = (of_char c :: nat) in
     is_digit c \<or> (65 \<le> n \<and> n \<le> 90) \<or> (97 \<le> n \<and> n \<le> 122) \<or> c = CHR ''_'')"

text \<open>\<open>replace(/\s+/g, ' ')\<close>: every run of white space becomes one space.\<close>

fun collapse_space :: "string \<Rightarrow> string" where
  "collapse_space [] = []"
| "collapse_space (c # cs) =
     (if is_space c then (case cs of [] \<Rightarrow> '' '' | d # _ \<Rightarrow> if is_space d then collapse_space cs else CHR '' '' # collapse_space cs)
      else c # collapse_space cs)"

definition speakable :: "char \<Rightarrow> bool" where
  "speakable c = (is_word_char c \<or> is_space c \<or> List.member ''.,!?-'' c)"

definition preprocessText :: "string \<Rightarrow> string" where
  "preprocessText text = filter speakable (collapse_space (js_trim text))"

text \<open>The audio buffers hold zeros; only their lengths matter. One word is 4800 bytes, and 30 percent of it 1440.\<close>

definition synthesizeAudio :: "'s processor_env \<Rightarrow> string \<Rightarrow> ('s, nat) prog" where
  "synthesizeAudio E text = seqE (pe_wait E 2000)
     (returnE (length (js_split CHR '' '' text) * 100 * 48000 div 1000))"

definition encodeAudio :: "'s processor_env \<Rightarrow> nat \<Rightarrow> ('s, nat) prog" where
  "encodeAudio E audioLength = seqE (pe_wait E 1000) (returnE (audioLength * 3 div 10))"

record tts_result =
  tr_audioUrl :: string
  tr_duration :: rat
  tr_voiceId :: string
  tr_language :: string
  tr_speed :: rat
  tr_sessionId :: "string option"
  tr_processedAt :: string

text \<open>The first log line reads \<open>text.length\<close> before the checks, so that a job without a text throws a \<open>TypeError\<close>.\<close>

definition handleProcessTts :: "'s processor_env \<Rightarrow> string \<Rightarrow> ProcessTtsData \<Rightarrow> ('s, tts_result) prog" where
  "handleProcessTts E jobId d =
     (case tt_text d of
        None \<Rightarrow> throwE (TypeError ''Cannot read properties of undefined (reading length)'')
      | Some text \<Rightarrow>
          seqE (pe_progress E 10)
          (if text = [] \<or> \<not> truthy (tt_voiceId d) then throwE (Error ''Missing required fields: text, voiceId'')
           else if 5000 < length text then throwE (Error ''Text exceeds maximum length of 5000 characters'')
           else seqE (pe_progress E 30)
             (let preprocessedText = preprocessText text in
              seqE (pe_progress E 50)
              (bindE (synthesizeAudio E preprocessedText) (\<lambda>audioLength.
               seqE (pe_progress E 80)
               (bindE (encodeAudio E audioLength) (\<lambda>encodedLength.
                seqE (pe_progress E 100)
                (bindE (readE (pe_now E)) (\<lambda>now.
                  returnE \<lparr>tr_audioUrl = ''/audio/'' @ jobId @ ''.mp3'', tr_duration = of_nat audioLength / 48000,
                    tr_voiceId = the (tt_voiceId d), tr_language = (case tt_language d of None \<Rightarrow> ''en'' | Some l \<Rightarrow> l),
                    tr_speed = (case tt_speed d of None \<Rightarrow> 1 | Some v \<Rightarrow> v), tr_sessionId = tt_sessionId d,
                    tr_processedAt = toISOString now\<rparr>)))))))))"

section \<open>Progress and results\<close>

text \<open>The environment reports progress without failing, and its other operations do not touch the reports.\<close>

locale processor =
  fixes E :: "'s processor_env" and reports :: "'s \<Rightarrow> nat list"
  assumes progress_law: "\<exists>s'. pe_progress E p s = (Inr (), s') \<and> reports s' = reports s @ [p]"
    and delay_law: "reports (pe_delay E ms s) = reports s"
    and hex_law: "\<exists>h s'. pe_randomHex E s = (Inr h, s') \<and> reports s' = reports s"
    and day_law: "\<exists>r s'. pe_randomDay E s = (Inr r, s') \<and> reports s' = reports s"
begin

lemma wpi_progress: "(\<And>s'. reports s' = reports s @ [p] \<Longrightarrow> Q () s') \<Longrightarrow> wp (pe_progress E p) Q X s"
  using progress_law [of p s] by (auto simp: wp_def)

lemma wpi_wait: "(\<And>s'. reports s' = reports s \<Longrightarrow> Q () s') \<Longrightarrow> wp (pe_wait E ms) Q X s"
  by (simp add: wp_def pe_wait_def delay_law)

lemma wpi_hex: "(\<And>h s'. reports s' = reports s \<Longrightarrow> Q h s') \<Longrightarrow> wp (pe_randomHex E) Q X s"
  using hex_law [of s] by (auto simp: wp_def)

lemma wpi_day: "(\<And>r s'. reports s' = reports s \<Longrightarrow> Q r s') \<Longrightarrow> wp (pe_randomDay E) Q X s"
  using day_law [of s] by (auto simp: wp_def)

lemmas wpi_processor = wpi_progress wpi_wait wpi_hex wpi_day

lemma fetch_wp: "wp (fetchNews E source limit) (\<lambda>items s'. length items = or_nat (Some limit) 10 \<and> reports s' = reports s) (\<lambda>_ _. False) s"
proof -
  have loop: "wp (mapE is (\<lambda>i. bindE (readE (pe_now E)) (\<lambda>now. bindE (pe_randomDay E) (\<lambda>r. returnE (f i now r)))))
      (\<lambda>items s'. length items = length is \<and> reports s' = reports t) (\<lambda>_ _. False) t" for f :: "nat \<Rightarrow> int \<Rightarrow> int \<Rightarrow> NewsItem" and "is" t
  proof (induction "is" arbitrary: t)
    case (Cons i "is")
    show ?case unfolding mapE.simps
      by (intro wp_intros wpi_day, rule wp_mono [OF Cons.IH]) (auto simp: wp_simps)
  qed (simp add: wp_simps)
  show ?thesis unfolding fetchNews_def
    by (intro wp_intros wpi_wait, rule wp_mono [OF loop]) auto
qed

lemma wpi_fetch:
  "(\<And>items s'. length items = or_nat (Some limit) 10 \<Longrightarrow> reports s' = reports s \<Longrightarrow> Q items s') \<Longrightarrow> wp (fetchNews E source limit) Q X s"
  by (rule wp_mono [OF fetch_wp]) auto

text \<open>A job that returns has reported its whole progress; one that throws has reported the first stage.\<close>

lemma wpi_compile:
  "c \<noteq> [] \<Longrightarrow> (\<And>s'. reports s' = reports s \<Longrightarrow> Q (Inr (pe_base64 E c)) s') \<Longrightarrow> wp (compileContract E c) Q X s"
  unfolding compileContract_def by (intro wp_intros wpi_wait) simp

lemma wpi_deploy: "(\<And>a h s'. reports s' = reports s \<Longrightarrow> Q (a, h) s') \<Longrightarrow> wp (deployToNetwork E) Q X s"
  unfolding deployToNetwork_def by (intro wp_intros wpi_processor) simp

lemma deploy_wp:
  "wp (handleDeployContract E d) (\<lambda>r s'. jr_success r \<and> reports s' = reports s @ [10, 30, 50, 90, 100])
     (\<lambda>e s'. reports s' = reports s @ [10]) s"
proof (cases "truthy (dc_contractName d) \<and> truthy (dc_contractCode d) \<and> truthy (dc_network d)")
  case True
  then have code: "the (dc_contractCode d) \<noteq> []" by (cases "dc_contractCode d") auto
  show ?thesis unfolding handleDeployContract_def
    by (intro wp_intros wpi_progress wpi_compile [OF code]; (use True in simp)?)
      (intro wp_intros wpi_progress wpi_deploy, simp)
next
  case False
  then show ?thesis unfolding handleDeployContract_def by (intro wp_intros wpi_progress) auto
qed

lemma tts_wp:
  "wp (handleProcessTts E i d) (\<lambda>r s'. reports s' = reports s @ [10, 30, 50, 80, 100] \<and>
       (\<exists>text. tt_text d = Some text \<and> text \<noteq> [] \<and> length text \<le> 5000 \<and>
          tr_duration r = of_nat (length (js_split CHR '' '' (preprocessText text))) / 10))
     (\<lambda>e s'. reports s' = reports s \<or> reports s' = reports s @ [10]) s"
  unfolding handleProcessTts_def synthesizeAudio_def encodeAudio_def
  by (intro wp_intros wpi_processor) auto

lemma news_wp:
  assumes "n = or_nat (Some (case im_limit d of None \<Rightarrow> 100 | Some k \<Rightarrow> k)) 10"
  shows "wp (handleIndexMarketNews E d) (\<lambda>r s'. reports s' = reports s @ [10, 20, 50, 75, 100] \<and>
       (\<exists>t. jr_data r = JObj [(''source'', JStr (the (im_source d))), (''indexedCount'', JNum (int (n - n div 20))),
          (''failedCount'', JNum (int (n div 20))), (''lastIndexedAt'', t), (''itemsProcessed'', JNum (int n))]))
     (\<lambda>e s'. reports s' = reports s @ [10]) s"
  unfolding handleIndexMarketNews_def enrichNews_def indexNews_def Let_def
  by (intro wp_intros wpi_progress wpi_wait wpi_fetch) (simp_all add: assms)

end

lemma js_split_length: "length (js_split c s) \<le> length s + 1"
  by (induction s) (auto split: list.split)

lemma collapse_length: "length (collapse_space s) \<le> length s"
proof (induction s rule: collapse_space.induct)
  case (2 c cs)
  then show ?case by (cases cs) auto
qed simp

lemma js_trim_length: "length (js_trim s) \<le> length s"
  unfolding js_trim_def by (metis length_dropWhile_le length_rev order_trans)

lemma preprocess_length: "length (preprocessText s) \<le> length s"
  unfolding preprocessText_def using collapse_length [of "js_trim s"] js_trim_length [of s]
  by (meson length_filter_le order_trans)

record processor_mem =
  pm_reports :: "nat list"

definition mem_processor :: "processor_mem processor_env" where
  "mem_processor = \<lparr>pe_progress = (\<lambda>p s. (Inr (), s\<lparr>pm_reports := pm_reports s @ [p]\<rparr>)), pe_now = (\<lambda>_. 0), pe_delay = (\<lambda>_ s. s),
     pe_randomHex = (\<lambda>s. (Inr ''8a'', s)), pe_randomDay = (\<lambda>s. (Inr 5, s)), pe_base64 = (\<lambda>x. x)\<rparr>"

lemma mem_processor_laws: "processor mem_processor pm_reports"
  by unfold_locales (simp_all add: mem_processor_def)

interpretation pmem: processor mem_processor pm_reports
  by (rule mem_processor_laws)

section \<open>Properties\<close>

text \<open>
  A speech job either fails before its second progress report or reports 10, 30, 50, 80 and 100 percent
  in this order; then its text had between 1 and 5000 characters and its duration, a tenth of a second per word of
  the cleaned text, is at most 500.1 seconds.
\<close>

theorem tts_duration_bounded:
  assumes "processor E reports"
  shows "case handleProcessTts E i d s of
      (Inl e, s') \<Rightarrow> reports s' = reports s \<or> reports s' = reports s @ [10]
    | (Inr r, s') \<Rightarrow> reports s' = reports s @ [10, 30, 50, 80, 100] \<and> 0 < tr_duration r \<and> tr_duration r \<le> 5001 / 10"
proof -
  have bound: "0 < (of_nat (length (js_split CHR '' '' (preprocessText x))) / 10 :: rat) \<and>
      (of_nat (length (js_split CHR '' '' (preprocessText x))) / 10 :: rat) \<le> 5001 / 10" if "length x \<le> 5000" for x
  proof -
    have "length (js_split CHR '' '' (preprocessText x)) \<le> 5001"
      using js_split_length [of "CHR '' ''" "preprocessText x"] preprocess_length [of x] that by linarith
    then have "(of_nat (length (js_split CHR '' '' (preprocessText x))) :: rat) \<le> of_nat 5001" by (rule of_nat_mono)
    then show ?thesis by simp
  qed
  have "wp (handleProcessTts E i d) (\<lambda>r s'. reports s' = reports s @ [10, 30, 50, 80, 100] \<and> 0 < tr_duration r \<and> tr_duration r \<le> 5001 / 10)
      (\<lambda>e s'. reports s' = reports s \<or> reports s' = reports s @ [10]) s"
    by (rule wp_mono [OF processor.tts_wp [OF assms]]) (use bound in \<open>metis (no_types, lifting)\<close>)+
  then show ?thesis by (simp add: wp_def split: prod.splits sum.splits)
qed

theorem tts_duration_bounded_witness:
  "case handleProcessTts mem_processor ''1'' \<lparr>tt_text = Some ''hello world'', tt_voiceId = Some ''v'', tt_language = None, tt_speed = None, tt_sessionId = None\<rparr>
        \<lparr>pm_reports = []\<rparr> of
      (Inl e, s') \<Rightarrow> pm_reports s' = [] \<or> pm_reports s' = [] @ [10]
    | (Inr r, s') \<Rightarrow> pm_reports s' = [] @ [10, 30, 50, 80, 100] \<and> 0 < tr_duration r \<and> tr_duration r \<le> 5001 / 10"
  using tts_duration_bounded [OF mem_processor_laws, where i = "''1''" and
      d = "\<lparr>tt_text = Some ''hello world'', tt_voiceId = Some ''v'', tt_language = None, tt_speed = None, tt_sessionId = None\<rparr>" and s = "\<lparr>pm_reports = []\<rparr>"]
  by (simp only: processor_mem.simps)

end
