(* ===== verification/Market_Cache.thy ===== *)
theory Market_Cache
  imports Complex_Main Ext_Redis Js_Json
begin

text \<open>
  The cache of src/Backend/src/market-data: \<open>MarketCacheService\<close>, \<open>CacheInvalidationService\<close> and
  \<open>CacheMetricsService\<close>, with the types they share. An entry lives in Redis under its namespace and the first
  sixteen hex digits of the hash of its key. The locale \<open>cache_map\<close> is what a client of the cache relies on, a map
  from keys to values; it is interpreted on the service.
\<close>

section \<open>Types\<close>

datatype CacheNamespace = MARKET_SNAPSHOT | NEWS | ASSET_DATA | PRICE_DATA

fun ns_text :: "CacheNamespace \<Rightarrow> string" where
  "ns_text MARKET_SNAPSHOT = ''market:snapshot''"
| "ns_text NEWS = ''news''"
| "ns_text ASSET_DATA = ''asset:data''"
| "ns_text PRICE_DATA = ''price:data''"

definition CacheNamespace_values :: "CacheNamespace list" where
  "CacheNamespace_values = [MARKET_SNAPSHOT, NEWS, ASSET_DATA, PRICE_DATA]"

fun CACHE_TTL_CONFIG :: "CacheNamespace \<Rightarrow> int" where
  "CACHE_TTL_CONFIG MARKET_SNAPSHOT = 300"
| "CACHE_TTL_CONFIG NEWS = 900"
| "CACHE_TTL_CONFIG ASSET_DATA = 600"
| "CACHE_TTL_CONFIG PRICE_DATA = 60"

text \<open>A date of a cached object: a \<open>Date\<close>, or the text it becomes in JSON.\<close>

datatype js_date = DateObj int | DateText string

datatype NewsCategory = NC_MARKET | NC_TECHNOLOGY | NC_REGULATION | NC_STELLAR | NC_DEFI | NC_NFT

record AssetPriceDto =
  ap_code :: string
  ap_issuer :: string
  ap_priceUSD :: rat
  ap_change24h :: rat
  ap_volume24h :: int
  ap_marketCap :: int

record MarketSnapshotDto =
  ms_assets :: "AssetPriceDto list"
  ms_timestamp :: js_date
  ms_source :: string
  ms_cached :: bool

record NewsArticleDto =
  na_id :: string
  na_title :: string
  na_summary :: string
  na_url :: string
  na_publishedAt :: js_date
  na_source :: string
  na_imageUrl :: "string option"
  na_category :: "NewsCategory option"
  na_tags :: "string list"

record NewsResponseDto =
  nr_articles :: "NewsArticleDto list"
  nr_total :: nat
  nr_timestamp :: js_date
  nr_cached :: bool

text \<open>What the cache holds: the values of its clients, and the metadata object \<open>{createdAt, ttl, namespace}\<close>.\<close>

datatype cached = CSnapshot MarketSnapshotDto | CPrice AssetPriceDto | CNews NewsResponseDto
  | CArticle NewsArticleDto | CMeta int int string

fun json_date :: "js_date \<Rightarrow> js_date" where
  "json_date (DateObj t) = DateText (toISOString t)"
| "json_date (DateText x) = DateText x"

definition json_article :: "NewsArticleDto \<Rightarrow> NewsArticleDto" where
  "json_article a = a\<lparr>na_publishedAt := json_date (na_publishedAt a)\<rparr>"

text \<open>\<open>JSON.parse(JSON.stringify(v))\<close>: dates become texts.\<close>

fun json_image :: "cached \<Rightarrow> cached" where
  "json_image (CSnapshot m) = CSnapshot (m\<lparr>ms_timestamp := json_date (ms_timestamp m)\<rparr>)"
| "json_image (CPrice p) = CPrice p"
| "json_image (CNews n) = CNews (n\<lparr>nr_articles := map json_article (nr_articles n), nr_timestamp := json_date (nr_timestamp n)\<rparr>)"
| "json_image (CArticle a) = CArticle (json_article a)"
| "json_image (CMeta c t n) = CMeta c t n"

record 's market_env =
  mk_redis :: "('s, cached) redis"
  mk_ttl :: "string \<Rightarrow> ('s, int) prog"
  mk_now :: "'s \<Rightarrow> int"
  mk_sha256 :: "string \<Rightarrow> string"
  mk_delay :: "int \<Rightarrow> 's \<Rightarrow> 's"

section \<open>MarketCacheService\<close>

definition marketCacheKey :: "'s market_env \<Rightarrow> string \<Rightarrow> CacheNamespace \<Rightarrow> string" where
  "marketCacheKey M key ns = ns_text ns @ '':'' @ take 16 (mk_sha256 M key)"

definition marketGet :: "'s market_env \<Rightarrow> string \<Rightarrow> CacheNamespace \<Rightarrow> ('s, cached option) prog" where
  "marketGet M key ns =
     catchE
       (let cacheKey = marketCacheKey M key ns in
        bindE (r_get (mk_redis M) cacheKey) (\<lambda>cached.
          if text_truthy cached
          then seqE (promise_all [r_incr (mk_redis M) (ns_text ns @ '':stats:hits''), r_incr (mk_redis M) ''market:cache:total-hits''])
                 (bindE (JSON_parse (the cached)) (\<lambda>v. returnE (Some v)))
          else seqE (promise_all [r_incr (mk_redis M) (ns_text ns @ '':stats:misses''), r_incr (mk_redis M) ''market:cache:total-misses''])
                 (returnE None)))
       (\<lambda>error. returnE None)"

definition ns_ttl :: "CacheNamespace \<Rightarrow> int option \<Rightarrow> int" where
  "ns_ttl ns customTtl = (case customTtl of None \<Rightarrow> CACHE_TTL_CONFIG ns | Some t \<Rightarrow> if t = 0 then CACHE_TTL_CONFIG ns else t)"

definition marketSet :: "'s market_env \<Rightarrow> string \<Rightarrow> cached \<Rightarrow> CacheNamespace \<Rightarrow> int option \<Rightarrow> ('s, unit) prog" where
  "marketSet M key v ns customTtl =
     catchE
       (let cacheKey = marketCacheKey M key ns; ttl = ns_ttl ns customTtl in
        seqE (r_set (mk_redis M) cacheKey (Json (json_image v)) (Some ttl))
        (bindE (readE (mk_now M)) (\<lambda>now.
          ignoreE (promise_all
            [r_set (mk_redis M) (cacheKey @ '':metadata'') (Json (CMeta now ttl (ns_text ns))) (Some ttl),
             ignoreE (r_incr (mk_redis M) (ns_text ns @ '':stats:total-entries''))]))))
       (\<lambda>error. returnE ())"

definition marketInvalidate :: "'s market_env \<Rightarrow> string list \<Rightarrow> CacheNamespace \<Rightarrow> ('s, nat) prog" where
  "marketInvalidate M keys ns =
     catchE
       (if length keys = 0 then returnE 0
        else let cacheKeys = map (\<lambda>key. marketCacheKey M key ns) keys;
                 metadataKeys = map (\<lambda>key. key @ '':metadata'') cacheKeys in
          seqE (r_del (mk_redis M) (cacheKeys @ metadataKeys)) (returnE (length keys)))
       (\<lambda>error. returnE 0)"

definition invalidateByPattern :: "'s market_env \<Rightarrow> string \<Rightarrow> CacheNamespace \<Rightarrow> ('s, nat) prog" where
  "invalidateByPattern M pattern ns =
     catchE
       (bindE (r_keys (mk_redis M) ((ns_text ns @ '':'' @ pattern) @ ''*'')) (\<lambda>keys.
          if length keys = 0 then returnE 0
          else seqE (r_del (mk_redis M) keys) (returnE (length keys))))
       (\<lambda>error. returnE 0)"

definition invalidateNamespace :: "'s market_env \<Rightarrow> CacheNamespace \<Rightarrow> ('s, nat) prog" where
  "invalidateNamespace M ns =
     catchE
       (bindE (r_keys (mk_redis M) ((ns_text ns @ '':'') @ ''*'')) (\<lambda>keys.
          if length keys = 0 then returnE 0
          else seqE (r_del (mk_redis M) keys)
            (seqE (promise_all [r_del (mk_redis M) [ns_text ns @ '':stats:hits''], r_del (mk_redis M) [ns_text ns @ '':stats:misses''],
                                r_del (mk_redis M) [ns_text ns @ '':stats:total-entries'']])
              (returnE (length keys)))))
       (\<lambda>error. returnE 0)"

record CacheMetrics =
  cm_hits :: jsnum
  cm_misses :: jsnum
  cm_hitRate :: rat
  cm_totalKeys :: nat
  cm_namespace :: CacheNamespace

definition market_count :: "'s market_env \<Rightarrow> string \<Rightarrow> ('s, jsnum) prog" where
  "market_count M key = bindE (r_get (mk_redis M) key) (\<lambda>v. returnE (parse_count v))"

text \<open>\<open>total > 0 ? hits / total : 0\<close>; \<open>NaN\<close> is not greater than zero.\<close>

definition market_hit_rate :: "jsnum \<Rightarrow> jsnum \<Rightarrow> rat" where
  "market_hit_rate hits misses = (case (hits, misses) of
     (Some h, Some m) \<Rightarrow> if 0 < h + m then of_int h / of_int (h + m) else 0 | _ \<Rightarrow> 0)"

definition marketStats :: "'s market_env \<Rightarrow> CacheNamespace \<Rightarrow> ('s, CacheMetrics) prog" where
  "marketStats M ns =
     catchE
       (bindE (market_count M (ns_text ns @ '':stats:hits'')) (\<lambda>hits.
        bindE (market_count M (ns_text ns @ '':stats:misses'')) (\<lambda>misses.
        bindE (r_keys (mk_redis M) ((ns_text ns @ '':'') @ ''*'')) (\<lambda>keys.
          returnE \<lparr>cm_hits = hits, cm_misses = misses, cm_hitRate = market_hit_rate hits misses,
            cm_totalKeys = length (filter (\<lambda>k. \<not> js_includes k '':stats:'' \<and> \<not> js_includes k '':metadata'') keys),
            cm_namespace = ns\<rparr>))))
       (\<lambda>error. returnE \<lparr>cm_hits = Some 0, cm_misses = Some 0, cm_hitRate = 0, cm_totalKeys = 0, cm_namespace = ns\<rparr>)"

record OverallStats =
  os_totalHits :: jsnum
  os_totalMisses :: jsnum
  os_hitRate :: rat
  os_namespaces :: "CacheMetrics list"

definition getOverallStats :: "'s market_env \<Rightarrow> ('s, OverallStats) prog" where
  "getOverallStats M =
     catchE
       (bindE (market_count M ''market:cache:total-hits'') (\<lambda>totalHits.
        bindE (market_count M ''market:cache:total-misses'') (\<lambda>totalMisses.
        bindE (promise_all (map (marketStats M) CacheNamespace_values)) (\<lambda>namespaces.
          returnE \<lparr>os_totalHits = totalHits, os_totalMisses = totalMisses,
            os_hitRate = market_hit_rate totalHits totalMisses, os_namespaces = namespaces\<rparr>))))
       (\<lambda>error. returnE \<lparr>os_totalHits = Some 0, os_totalMisses = Some 0, os_hitRate = 0, os_namespaces = []\<rparr>)"

definition marketHas :: "'s market_env \<Rightarrow> string \<Rightarrow> CacheNamespace \<Rightarrow> ('s, bool) prog" where
  "marketHas M key ns = catchE (r_exists (mk_redis M) (marketCacheKey M key ns)) (\<lambda>error. returnE False)"

definition getTtl :: "'s market_env \<Rightarrow> string \<Rightarrow> CacheNamespace \<Rightarrow> ('s, int) prog" where
  "getTtl M key ns = catchE (mk_ttl M (marketCacheKey M key ns)) (\<lambda>error. returnE (- 1))"

section \<open>CacheInvalidationService\<close>

text \<open>The handlers of the three events. The event \<open>cache.invalidated\<close> they emit has no listener in the repository.\<close>

record AssetUpdateEvent =
  au_assetCode :: string
  au_issuer :: string
  au_updateType :: string
  au_timestamp :: int

definition handleAssetUpdate :: "'s market_env \<Rightarrow> AssetUpdateEvent \<Rightarrow> ('s, unit) prog" where
  "handleAssetUpdate M event =
     catchE
       (seqE (ignoreE (invalidateByPattern M (au_assetCode event) PRICE_DATA))
             (ignoreE (invalidateNamespace M MARKET_SNAPSHOT)))
       (\<lambda>error. returnE ())"

definition handleNewsPublished :: "'s market_env \<Rightarrow> ('s, unit) prog" where
  "handleNewsPublished M = catchE (ignoreE (invalidateNamespace M NEWS)) (\<lambda>error. returnE ())"

record manual_invalidation =
  mi_namespace :: "CacheNamespace option"
  mi_keys :: "string list option"
  mi_pattern :: "string option"

definition handleManualInvalidation :: "'s market_env \<Rightarrow> manual_invalidation \<Rightarrow> ('s, unit) prog" where
  "handleManualInvalidation M event =
     catchE
       (ignoreE
         (if mi_namespace event \<noteq> None then invalidateNamespace M (the (mi_namespace event))
          else if truthy (mi_pattern event) \<and> mi_namespace event \<noteq> None
            then invalidateByPattern M (the (mi_pattern event)) (the (mi_namespace event))
          else if mi_keys event \<noteq> None \<and> mi_namespace event \<noteq> None
            then marketInvalidate M (the (mi_keys event)) (the (mi_namespace event))
          else returnE 0))
       (\<lambda>error. returnE ())"

text \<open>The triggers emit the events; the handlers above are their only listeners.\<close>

definition triggerAssetUpdate :: "'s market_env \<Rightarrow> string \<Rightarrow> string \<Rightarrow> string \<Rightarrow> ('s, unit) prog" where
  "triggerAssetUpdate M assetCode issuer updateType = bindE (readE (mk_now M)) (\<lambda>now.
     handleAssetUpdate M \<lparr>au_assetCode = assetCode, au_issuer = issuer, au_updateType = updateType, au_timestamp = now\<rparr>)"

definition triggerNewsPublished :: "'s market_env \<Rightarrow> ('s, unit) prog" where
  "triggerNewsPublished M = handleNewsPublished M"

definition triggerManualInvalidation :: "'s market_env \<Rightarrow> CacheNamespace option \<Rightarrow> string list option \<Rightarrow> string option \<Rightarrow> ('s, unit) prog" where
  "triggerManualInvalidation M ns keys pattern =
     handleManualInvalidation M \<lparr>mi_namespace = ns, mi_keys = keys, mi_pattern = pattern\<rparr>"

section \<open>CacheMetricsService\<close>

record CacheStatsDto =
  cd_metrics :: CacheMetrics
  cd_timestamp :: int

definition getNamespaceStats :: "'s market_env \<Rightarrow> CacheNamespace \<Rightarrow> ('s, CacheStatsDto) prog" where
  "getNamespaceStats M ns = bindE (marketStats M ns) (\<lambda>stats. bindE (readE (mk_now M)) (\<lambda>now.
     returnE \<lparr>cd_metrics = stats, cd_timestamp = now\<rparr>))"

definition metricsOverallStats :: "'s market_env \<Rightarrow> ('s, OverallStats \<times> CacheStatsDto list \<times> int) prog" where
  "metricsOverallStats M = bindE (getOverallStats M) (\<lambda>stats. bindE (readE (mk_now M)) (\<lambda>now.
     returnE (stats, map (\<lambda>n. \<lparr>cd_metrics = n, cd_timestamp = now\<rparr>) (os_namespaces stats), now)))"

definition getMarketDataStats :: "'s market_env \<Rightarrow> ('s, CacheStatsDto) prog" where
  "getMarketDataStats M = getNamespaceStats M MARKET_SNAPSHOT"

definition getNewsStats :: "'s market_env \<Rightarrow> ('s, CacheStatsDto) prog" where
  "getNewsStats M = getNamespaceStats M NEWS"

definition getPriceDataStats :: "'s market_env \<Rightarrow> ('s, CacheStatsDto) prog" where
  "getPriceDataStats M = getNamespaceStats M PRICE_DATA"

section \<open>The cache as a map\<close>

text \<open>
  \<open>look s k\<close> is the value a client finds under \<open>k\<close>, for the keys in \<open>K\<close>; \<open>img\<close> is what storing does to a value.
\<close>

locale cache_map =
  fixes get :: "'k \<Rightarrow> ('s, 'v option) prog"
    and put :: "'k \<Rightarrow> 'v \<Rightarrow> ('s, unit) prog"
    and look :: "'s \<Rightarrow> 'k \<Rightarrow> 'v option"
    and good :: "'s \<Rightarrow> bool"
    and K :: "'k set"
    and img :: "'v \<Rightarrow> 'v"
  assumes get_law: "good s \<Longrightarrow> k \<in> K \<Longrightarrow> wp (get k) (\<lambda>v s'. v = look s k \<and> good s' \<and> (\<forall>j \<in> K. look s' j = look s j)) (\<lambda>_ _. False) s"
    and put_law: "good s \<Longrightarrow> k \<in> K \<Longrightarrow> wp (put k v) (\<lambda>_ s'. good s' \<and> (\<forall>j \<in> K. look s' j = (if j = k then Some (img v) else look s j))) (\<lambda>_ _. False) s"

text \<open>The cache-first strategy the services share: the value, and whether it came from the cache.\<close>

definition cacheFirst :: "('s, 'v option) prog \<Rightarrow> ('v \<Rightarrow> ('s, unit) prog) \<Rightarrow> bool \<Rightarrow> ('s, 'v) prog \<Rightarrow> ('s, 'v \<times> bool) prog" where
  "cacheFirst get put bypassCache fetch =
     bindE (if \<not> bypassCache then get else returnE None) (\<lambda>cached. case cached of
       Some v \<Rightarrow> returnE (v, True)
     | None \<Rightarrow> bindE fetch (\<lambda>fresh. seqE (put fresh) (returnE (fresh, False))))"

context cache_map
begin

text \<open>A fetch that leaves the cache alone.\<close>

definition pure_fetch :: "('s, 'v) prog \<Rightarrow> ('v \<Rightarrow> bool) \<Rightarrow> bool" where
  "pure_fetch fetch P \<longleftrightarrow> (\<forall>s. good s \<longrightarrow> wp fetch (\<lambda>v s'. P v \<and> good s' \<and> (\<forall>j \<in> K. look s' j = look s j)) (\<lambda>_ _. False) s)"

lemma cacheFirst_wp:
  assumes "good s" and "k \<in> K" and "pure_fetch fetch P"
  shows "wp (cacheFirst (get k) (put k) bypass fetch)
    (\<lambda>r s'. good s' \<and> (\<forall>j \<in> K. j \<noteq> k \<longrightarrow> look s' j = look s j) \<and>
       (if \<not> bypass \<and> look s k \<noteq> None then r = (the (look s k), True) \<and> look s' k = look s k
        else P (fst r) \<and> \<not> snd r \<and> look s' k = Some (img (fst r))))
    (\<lambda>_ _. False) s"
proof -
  have miss: "wp (bindE fetch (\<lambda>fresh. seqE (put k fresh) (returnE (fresh, False))))
      (\<lambda>r s'. good s' \<and> (\<forall>j \<in> K. j \<noteq> k \<longrightarrow> look s' j = look t j) \<and> P (fst r) \<and> \<not> snd r \<and> look s' k = Some (img (fst r)))
      (\<lambda>_ _. False) t" if "good t" for t
  proof (rule wpi_bindE, rule wp_mono)
    show "wp fetch (\<lambda>v s'. P v \<and> good s' \<and> (\<forall>j \<in> K. look s' j = look t j)) (\<lambda>_ _. False) t"
      using assms(3) that by (simp add: pure_fetch_def)
  next
    fix v t'
    assume t': "P v \<and> good t' \<and> (\<forall>j \<in> K. look t' j = look t j)"
    show "wp (seqE (put k v) (returnE (v, False)))
      (\<lambda>r s'. good s' \<and> (\<forall>j \<in> K. j \<noteq> k \<longrightarrow> look s' j = look t j) \<and> P (fst r) \<and> \<not> snd r \<and> look s' k = Some (img (fst r))) (\<lambda>_ _. False) t'"
      unfolding wp_seqE by (rule wp_mono [OF put_law [of t' k v]]) (use t' assms(2) in \<open>auto simp: wp_simps\<close>)
  qed
  show ?thesis
  proof (cases bypass)
    case True
    then show ?thesis using miss [OF assms(1)] by (simp add: cacheFirst_def wp_bindE wp_returnE)
  next
    case False
    have "wp (get k) (\<lambda>cached. wp (case cached of Some v \<Rightarrow> returnE (v, True)
          | None \<Rightarrow> bindE fetch (\<lambda>fresh. seqE (put k fresh) (returnE (fresh, False))))
       (\<lambda>r s'. good s' \<and> (\<forall>j \<in> K. j \<noteq> k \<longrightarrow> look s' j = look s j) \<and>
       (if look s k \<noteq> None then r = (the (look s k), True) \<and> look s' k = look s k
        else P (fst r) \<and> \<not> snd r \<and> look s' k = Some (img (fst r)))) (\<lambda>_ _. False)) (\<lambda>_ _. False) s"
    proof (rule wp_mono [OF get_law [OF assms(1,2)]])
      fix v t
      assume t: "v = look s k \<and> good t \<and> (\<forall>j \<in> K. look t j = look s j)"
      then show "wp (case v of Some v \<Rightarrow> returnE (v, True) | None \<Rightarrow> bindE fetch (\<lambda>fresh. seqE (put k fresh) (returnE (fresh, False))))
         (\<lambda>r s'. good s' \<and> (\<forall>j \<in> K. j \<noteq> k \<longrightarrow> look s' j = look s j) \<and>
         (if look s k \<noteq> None then r = (the (look s k), True) \<and> look s' k = look s k
          else P (fst r) \<and> \<not> snd r \<and> look s' k = Some (img (fst r)))) (\<lambda>_ _. False) t"
        using assms(2) by (cases "look s k") (auto simp: wp_returnE intro!: wp_mono [OF miss [of t]])
    qed simp
    with False show ?thesis by (simp add: cacheFirst_def wp_bindE)
  qed
qed

end

section \<open>The service implements the map\<close>

definition stat_keys :: "string list" where
  "stat_keys = [''market:cache:total-hits'', ''market:cache:total-misses''] @
     concat (map (\<lambda>ns. map (\<lambda>x. ns_text ns @ x) ['':stats:hits'', '':stats:misses'', '':stats:total-entries'']) CacheNamespace_values)"

definition is_hex :: "char \<Rightarrow> bool" where
  "is_hex c = (is_digit c \<or> (97 \<le> (of_char c :: nat) \<and> (of_char c :: nat) \<le> 102))"

text \<open>The statistics are numbers, and an entry is a JSON text.\<close>

definition stats_numbers :: "(string \<Rightarrow> cached rcell option) \<Rightarrow> bool" where
  "stats_numbers c \<longleftrightarrow> (\<forall>k \<in> set stat_keys. \<exists>n. counter (c k) n)"

definition entry_value :: "cached rcell option \<Rightarrow> cached option" where
  "entry_value x = (case x of Some (RText (Json v)) \<Rightarrow> Some v | _ \<Rightarrow> None)"

definition entry_ok :: "cached rcell option \<Rightarrow> bool" where
  "entry_ok x \<longleftrightarrow> x = None \<or> (\<exists>v. x = Some (RText (Json v)))"

text \<open>\<open>same_data c c'\<close>: only statistics differ.\<close>

definition same_data :: "(string \<Rightarrow> cached rcell option) \<Rightarrow> (string \<Rightarrow> cached rcell option) \<Rightarrow> bool" where
  "same_data c c' \<longleftrightarrow> stats_numbers c' \<and> (\<forall>k. k \<notin> set stat_keys \<longrightarrow> c' k = c k)"

lemma same_data_trans: "same_data a b \<Longrightarrow> same_data b c \<Longrightarrow> same_data a c"
  by (simp add: same_data_def)

lemma same_data_count: "stats_numbers c \<Longrightarrow> k \<in> set stat_keys \<Longrightarrow> same_data c (c(k \<mapsto> RText (Txt (show_int n))))"
  by (auto simp: same_data_def stats_numbers_def counter_def)

lemma ns_in_values: "ns \<in> set CacheNamespace_values"
  by (cases ns) (simp_all add: CacheNamespace_values_def)

lemma stat_keys_ns [simp]:
  "ns_text ns @ '':stats:hits'' \<in> set stat_keys" "ns_text ns @ '':stats:misses'' \<in> set stat_keys"
  "ns_text ns @ '':stats:total-entries'' \<in> set stat_keys"
  "''market:cache:total-hits'' \<in> set stat_keys" "''market:cache:total-misses'' \<in> set stat_keys"
  using ns_in_values [of ns] unfolding stat_keys_def by auto

text \<open>Keys \<open>namespace:hash\<close> with a hash of hex digits are apart from each other, from the statistics and the metadata.\<close>

lemma hex_chars: "is_hex c \<Longrightarrow> c \<noteq> CHR '':'' \<and> c \<noteq> CHR ''s'' \<and> c \<noteq> CHR ''t''"
  by (auto simp: is_hex_def is_digit_def)

lemma entry_key_inj:
  assumes "ns_text ns @ '':'' @ h = ns_text ns' @ '':'' @ h'" and "list_all is_hex h" and "list_all is_hex h'"
    and "length h = 16" and "length h' = 16"
  shows "ns = ns' \<and> h = h'"
proof -
  have len: "length (ns_text ns) = length (ns_text ns')" using arg_cong [OF assms(1), of length] assms(4,5) by simp
  with assms(1) have "ns_text ns = ns_text ns'" "h = h'" by simp_all
  then show ?thesis by (cases ns; cases ns') simp_all
qed

lemma entry_key_not_stat:
  assumes "list_all is_hex h" and "length h = 16"
  shows "ns_text ns @ '':'' @ h \<notin> set stat_keys"
proof
  assume "ns_text ns @ '':'' @ h \<in> set stat_keys"
  moreover have "h ! 0 \<noteq> CHR ''s''" "h ! 0 \<noteq> CHR ''t''" "h \<noteq> []"
    using assms hex_chars [of "h ! 0"] by (auto simp: list_all_length)
  ultimately show False
    using assms(2) by (cases ns; cases h) (auto simp: stat_keys_def CacheNamespace_values_def)
qed

lemma entry_key_not_meta:
  assumes "list_all is_hex h" and "length h = 16"
  shows "ns_text ns @ '':'' @ h \<noteq> x @ '':metadata''"
proof
  assume eq: "ns_text ns @ '':'' @ h = x @ '':metadata''"
  have "suffix '':metadata'' (ns_text ns @ '':'' @ h)" unfolding eq by (simp add: suffix_def)
  moreover have "suffix h (ns_text ns @ '':'' @ h)" by (simp add: suffix_def)
  ultimately have "suffix '':metadata'' h" by (rule suffix_length_suffix) (simp add: assms(2))
  then have "CHR '':'' \<in> set h" by (auto simp: suffix_def)
  with assms(1) show False using hex_chars by (auto simp: list_all_iff)
qed

lemma meta_not_stat: "x @ '':metadata'' \<notin> set stat_keys"
proof
  assume "x @ '':metadata'' \<in> set stat_keys"
  then have "last (x @ '':metadata'') \<in> last ` set stat_keys" by blast
  then show False by (auto simp: stat_keys_def CacheNamespace_values_def)
qed

locale market_store = redis_store "mk_redis M" cell ttl
  for M :: "'s market_env" and cell ttl +
  assumes sha_hex: "list_all is_hex (mk_sha256 M k)" and sha_length: "length (mk_sha256 M k) = 64"
    and delay_cell: "cell (mk_delay M t s) = cell s"
begin

lemma hash16: "list_all is_hex (take 16 (mk_sha256 M k))" "length (take 16 (mk_sha256 M k)) = 16"
  using sha_hex [of k] sha_length [of k] by (auto simp: list_all_iff dest: in_set_takeD)

lemma key_not_stat: "marketCacheKey M k ns \<notin> set stat_keys"
  unfolding marketCacheKey_def by (rule entry_key_not_stat [OF hash16])

lemma key_not_meta: "marketCacheKey M k ns \<noteq> x @ '':metadata''"
  unfolding marketCacheKey_def by (rule entry_key_not_meta [OF hash16])

lemma key_inj: "marketCacheKey M k ns = marketCacheKey M j ns' \<longleftrightarrow> ns = ns' \<and> take 16 (mk_sha256 M k) = take 16 (mk_sha256 M j)"
  unfolding marketCacheKey_def using entry_key_inj [OF _ hash16(1) hash16(1) hash16(2) hash16(2)] by blast

definition market_good :: "'s \<Rightarrow> bool" where
  "market_good s \<longleftrightarrow> stats_numbers (cell s) \<and> (\<forall>k ns. entry_ok (cell s (marketCacheKey M k ns)))"

definition market_look :: "'s \<Rightarrow> CacheNamespace \<times> string \<Rightarrow> cached option" where
  "market_look s p = entry_value (cell s (marketCacheKey M (snd p) (fst p)))"

lemma good_same: "market_good s \<Longrightarrow> same_data (cell s) (cell s') \<Longrightarrow> market_good s'"
  using key_not_stat by (simp add: market_good_def same_data_def)

lemma look_same: "same_data (cell s) (cell s') \<Longrightarrow> market_look s' = market_look s"
  using key_not_stat by (simp add: market_look_def same_data_def fun_eq_iff)

lemma wpi_stat:
  assumes "stats_numbers (cell s)" and "k \<in> set stat_keys" and "\<And>n s'. same_data (cell s) (cell s') \<Longrightarrow> Q n s'"
  shows "wp (r_incr (mk_redis M) k) Q X s"
proof -
  obtain n where "counter (cell s k) n" using assms(1,2) by (auto simp: stats_numbers_def)
  then show ?thesis by (rule wpi_incr) (use assms same_data_count in metis)
qed

lemma two_stats:
  assumes "stats_numbers (cell s)" and "k \<in> set stat_keys" and "j \<in> set stat_keys"
    and "\<And>v s'. same_data (cell s) (cell s') \<Longrightarrow> Q v s'"
  shows "wp (promise_all [r_incr (mk_redis M) k, r_incr (mk_redis M) j]) Q X s"
proof (rule wpi_promise_all2, rule wpi_stat [OF assms(1,2)])
  fix n t
  assume t: "same_data (cell s) (cell t)"
  then have "stats_numbers (cell t)" by (simp add: same_data_def)
  then show "wp (r_incr (mk_redis M) j) (\<lambda>b. Q [n, b]) (\<lambda>_ _. False) t"
    using assms(3) by (rule wpi_stat) (use t assms(4) same_data_trans in blast)
qed

lemma marketGet_wp:
  assumes "market_good s"
  shows "wp (marketGet M k ns) (\<lambda>v s'. v = market_look s (ns, k) \<and> same_data (cell s) (cell s')) (\<lambda>_ _. False) s"
proof -
  have stats: "stats_numbers (cell s)" using assms by (simp add: market_good_def)
  have "entry_ok (cell s (marketCacheKey M k ns))" using assms by (simp add: market_good_def)
  then show ?thesis
    unfolding marketGet_def Let_def entry_ok_def
    by (intro wp_intros wpi_get two_stats stats)
      (auto simp: text_truthy_def market_look_def entry_value_def JSON_parse_def wp_simps)
qed

lemma ns_ttl_pos: "(\<And>n. t = Some n \<Longrightarrow> 0 \<le> n) \<Longrightarrow> 0 < ns_ttl ns t"
  by (cases t; cases ns) (force simp: ns_ttl_def)+

lemma marketSet_wp:
  assumes "market_good s" and "\<And>n. t = Some n \<Longrightarrow> 0 \<le> n"
  shows "wp (marketSet M k v ns t) (\<lambda>_ s'. \<exists>m. same_data ((cell s)(marketCacheKey M k ns \<mapsto> RText (Json (json_image v)),
      marketCacheKey M k ns @ '':metadata'' \<mapsto> m)) (cell s')) (\<lambda>_ _. False) s"
proof -
  have stats: "stats_numbers ((cell s)(marketCacheKey M k ns \<mapsto> x, marketCacheKey M k ns @ '':metadata'' \<mapsto> m))" for x m
    using assms(1) key_not_stat [of k ns] meta_not_stat [of "marketCacheKey M k ns"]
    by (auto simp: market_good_def stats_numbers_def)
  show ?thesis
    unfolding marketSet_def Let_def
  proof (intro wp_intros wpi_setEx wpi_promise_all2 ns_ttl_pos assms(2))
    fix s1 s2
    assume s1: "cell s1 = (cell s)(marketCacheKey M k ns \<mapsto> RText (Json (json_image v)))"
      "cell s2 = (cell s1)(marketCacheKey M k ns @ '':metadata'' \<mapsto> RText (Json (CMeta (mk_now M s1) (ns_ttl ns t) (ns_text ns))))"
    show "wp (r_incr (mk_redis M) (ns_text ns @ '':stats:total-entries''))
      (\<lambda>_ s'. \<exists>m. same_data ((cell s)(marketCacheKey M k ns \<mapsto> RText (Json (json_image v)), marketCacheKey M k ns @ '':metadata'' \<mapsto> m)) (cell s'))
      (\<lambda>_ _. False) s2"
      by (rule wpi_stat) (use s1 stats in auto)
  qed
qed

lemma marketInvalidate_wp:
  "wp (marketInvalidate M ks ns) (\<lambda>n s'. n = length ks \<and> cell s' = (\<lambda>k. if k \<in> (\<lambda>k. marketCacheKey M k ns) ` set ks \<or>
      k \<in> (\<lambda>k. marketCacheKey M k ns @ '':metadata'') ` set ks then None else cell s k)) (\<lambda>_ _. False) s"
  unfolding marketInvalidate_def Let_def by (intro wp_intros wpi_del) (auto simp: fun_eq_iff)

lemma plain_ns: "plain_glob (ns_text ns @ '':'')"
  by (cases ns) (simp_all add: plain_glob_def)

text \<open>A pattern removes the keys that start with it.\<close>

lemma pattern_wp:
  assumes "plain_glob p"
  shows "wp (invalidateByPattern M p ns) (\<lambda>_ s'. cell s' = (\<lambda>k. if prefix (ns_text ns @ '':'' @ p) k then None else cell s k)) (\<lambda>_ _. False) s"
proof -
  have p: "plain_glob (ns_text ns @ '':'' @ p)" using assms by (cases ns) (simp_all add: plain_glob_def)
  show ?thesis unfolding invalidateByPattern_def
    by (intro wp_intros wpi_keys [OF p] wpi_del) (auto simp: fun_eq_iff keys_of_def)
qed

lemma namespace_wp:
  "wp (invalidateNamespace M ns) (\<lambda>_ s'. cell s' = (\<lambda>k. if prefix (ns_text ns @ '':'') k then None else cell s k)) (\<lambda>_ _. False) s"
  unfolding invalidateNamespace_def
  by (intro wp_intros wpi_keys [OF plain_ns] wpi_del wpi_promise_all3) (auto simp: fun_eq_iff keys_of_def)

text \<open>What the operations do to the map, in terms of \<open>market_look\<close>.\<close>

lemma set_look:
  assumes "same_data ((cell s)(marketCacheKey M k ns \<mapsto> RText (Json v), marketCacheKey M k ns @ '':metadata'' \<mapsto> m)) (cell s')"
  shows "market_look s' (ns', j) = (if ns' = ns \<and> take 16 (mk_sha256 M j) = take 16 (mk_sha256 M k) then Some v else market_look s (ns', j))"
    and "market_good s \<Longrightarrow> market_good s'"
proof -
  have c: "cell s' (marketCacheKey M j ns') = (if ns' = ns \<and> take 16 (mk_sha256 M j) = take 16 (mk_sha256 M k) then Some (RText (Json v))
      else cell s (marketCacheKey M j ns'))" for j ns'
    using assms key_not_stat [of j ns'] key_not_meta [of j ns' "marketCacheKey M k ns"] key_inj [of j ns' k ns]
    by (simp add: same_data_def)
  then show "market_look s' (ns', j) = (if ns' = ns \<and> take 16 (mk_sha256 M j) = take 16 (mk_sha256 M k) then Some v else market_look s (ns', j))"
    by (simp add: market_look_def entry_value_def)
  show "market_good s'" if "market_good s"
    using that assms c by (auto simp: market_good_def same_data_def entry_ok_def)
qed

lemma namespace_prefix: "prefix (ns_text ns @ '':'') (marketCacheKey M k ns') \<longleftrightarrow> ns = ns'"
  by (cases ns; cases ns') (simp_all add: marketCacheKey_def)

lemma namespace_look:
  assumes "cell s' = (\<lambda>k. if prefix (ns_text ns @ '':'') k then None else cell s k)"
  shows "market_look s' (ns', j) = (if ns' = ns then None else market_look s (ns', j))"
  using assms namespace_prefix [of ns j ns'] by (auto simp: market_look_def entry_value_def)

end

text \<open>Keys whose hashes do not collide make the cache a map.\<close>

locale market_keys = market_store M cell ttl
  for M :: "'s market_env" and cell ttl +
  fixes K :: "string set"
  assumes no_collision: "inj_on (\<lambda>k. take 16 (mk_sha256 M k)) K"

sublocale market_keys \<subseteq> cache_map "\<lambda>p. marketGet M (snd p) (fst p)" "\<lambda>p v. marketSet M (snd p) v (fst p) None"
    market_look market_good "UNIV \<times> K" json_image
proof
  fix s and k :: "CacheNamespace \<times> string"
  assume good: "market_good s" and k: "k \<in> UNIV \<times> K"
  show "wp (marketGet M (snd k) (fst k)) (\<lambda>v s'. v = market_look s k \<and> market_good s' \<and> (\<forall>j \<in> UNIV \<times> K. market_look s' j = market_look s j)) (\<lambda>_ _. False) s"
    by (rule wp_mono [OF marketGet_wp [OF good]]) (use good good_same look_same in auto)
  show "wp (marketSet M (snd k) v (fst k) None) (\<lambda>_ s'. market_good s' \<and> (\<forall>j \<in> UNIV \<times> K. market_look s' j =
      (if j = k then Some (json_image v) else market_look s j))) (\<lambda>_ _. False) s" for v
  proof (rule wp_mono [OF marketSet_wp [OF good, of None "snd k" v "fst k"]], goal_cases)
    case (2 u s')
    then obtain m where m: "same_data ((cell s)(marketCacheKey M (snd k) (fst k) \<mapsto> RText (Json (json_image v)),
        marketCacheKey M (snd k) (fst k) @ '':metadata'' \<mapsto> m)) (cell s')" by blast
    have "j = k \<longleftrightarrow> fst j = fst k \<and> take 16 (mk_sha256 M (snd j)) = take 16 (mk_sha256 M (snd k))" if "j \<in> UNIV \<times> K" for j
      using that k inj_onD [OF no_collision, of "snd j" "snd k"] by (auto simp: prod_eq_iff)
    then show ?case using set_look [OF m] good by (auto simp: prod_eq_iff split: if_splits)
  qed simp_all
qed

context market_keys
begin

lemmas set_law = put_law

lemmas read_through = cacheFirst_wp

lemmas fetch_def = pure_fetch_def

end

section \<open>An in-memory cache\<close>

definition mem_sha :: "string \<Rightarrow> string" where
  "mem_sha k = take 64 (concat (map (\<lambda>c. [hex_digit ((of_char c :: nat) div 16), hex_digit ((of_char c :: nat) mod 16)]) k) @ replicate 64 CHR ''0'')"

definition mem_market :: "cached rstore market_env" where
  "mem_market = \<lparr>mk_redis = mem_redis, mk_ttl = (\<lambda>k s. (Inr 60, s)), mk_now = (\<lambda>_. 0), mk_sha256 = mem_sha, mk_delay = (\<lambda>_ s. s)\<rparr>"

lemma hex_digit_hex: "d < 16 \<Longrightarrow> is_hex (hex_digit d)"
  by (auto simp: hex_digit_def is_hex_def)

lemma char_hex: "is_hex (hex_digit ((of_char c :: nat) div 16))" "is_hex (hex_digit ((of_char c :: nat) mod 16))"
  using nat_of_char_less_256 [of c] by (auto intro!: hex_digit_hex simp: less_mult_imp_div_less)

lemma mem_sha_hex: "list_all is_hex (mem_sha k)"
proof -
  have "list_all is_hex (concat (map (\<lambda>c. [hex_digit ((of_char c :: nat) div 16), hex_digit ((of_char c :: nat) mod 16)]) k))"
    by (induction k) (simp_all add: char_hex)
  moreover have "list_all is_hex (replicate 64 CHR ''0'')" by (simp add: list_all_iff is_hex_def is_digit_def)
  ultimately show ?thesis unfolding mem_sha_def by (auto simp: list_all_iff dest!: in_set_takeD)
qed

lemma mem_sha_length: "length (mem_sha k) = 64"
  by (simp add: mem_sha_def min_def)

lemma mem_market_store: "market_store mem_market mem_cell mem_ttl"
  using mem_redis_store mem_sha_hex mem_sha_length
  by (simp add: market_store_def market_store_axioms_def mem_market_def)

interpretation mmem: market_store mem_market mem_cell mem_ttl
  by (rule mem_market_store)

definition demo_keys :: "string set" where
  "demo_keys = {''all'', ''news'', ''XLM:nat''}"

lemma demo_keys_inj: "inj_on (\<lambda>k. take 16 (mk_sha256 mem_market k)) demo_keys"
proof -
  have "take 16 (mem_sha ''all'') \<noteq> take 16 (mem_sha ''news'')" "take 16 (mem_sha ''all'') \<noteq> take 16 (mem_sha ''XLM:nat'')"
    "take 16 (mem_sha ''news'') \<noteq> take 16 (mem_sha ''XLM:nat'')" by code_simp+
  then show ?thesis by (auto simp: inj_on_def demo_keys_def mem_market_def)
qed

interpretation kmem: market_keys mem_market mem_cell mem_ttl demo_keys
  by unfold_locales (rule demo_keys_inj)

definition empty_cache :: "cached rstore" where
  "empty_cache = \<lparr>rs_cells = [], rs_ttl = []\<rparr>"

lemma empty_good: "mmem.market_good empty_cache"
  by (simp add: mmem.market_good_def stats_numbers_def entry_ok_def counter_def mem_cell_def empty_cache_def)

section \<open>Properties\<close>

text \<open>
  C12. The cache implements a map from namespaces and keys to values, for keys whose hashes do not collide:
  \<open>get\<close> returns the value of the key and changes no entry, \<open>set\<close> changes exactly the entry of the key to the JSON image
  of the value, \<open>invalidate\<close> removes exactly the entries of the keys, and \<open>invalidateNamespace\<close> exactly those of the
  namespace. None of them throws.
\<close>

theorem market_cache_refines_map:
  assumes "market_keys M cell ttl K" and "market_store.market_good M cell s" and "k \<in> K" and "set ks \<subseteq> K"
    and "look = market_store.market_look M cell"
  shows "(\<exists>s'. marketGet M k ns s = (Inr (look s (ns, k)), s') \<and> look s' = look s) \<and>
    (\<exists>s'. marketSet M k v ns None s = (Inr (), s') \<and>
       (\<forall>ns' j. j \<in> K \<longrightarrow> look s' (ns', j) = (if (ns', j) = (ns, k) then Some (json_image v) else look s (ns', j)))) \<and>
    (\<exists>s'. marketInvalidate M ks ns s = (Inr (length ks), s') \<and>
       (\<forall>ns' j. j \<in> K \<longrightarrow> look s' (ns', j) = (if ns' = ns \<and> j \<in> set ks then None else look s (ns', j)))) \<and>
    (\<exists>n s'. invalidateNamespace M ns s = (Inr n, s') \<and>
       (\<forall>ns' j. look s' (ns', j) = (if ns' = ns then None else look s (ns', j))))"
proof (intro conjI)
  have ms: "market_store M cell ttl" using assms(1) by (simp add: market_keys_def)
  show "\<exists>s'. marketGet M k ns s = (Inr (look s (ns, k)), s') \<and> look s' = look s"
    using market_store.marketGet_wp [OF ms assms(2), of k ns] market_store.look_same [OF ms]
    unfolding wp_value assms(5) by blast
  show "\<exists>s'. marketSet M k v ns None s = (Inr (), s') \<and>
      (\<forall>ns' j. j \<in> K \<longrightarrow> look s' (ns', j) = (if (ns', j) = (ns, k) then Some (json_image v) else look s (ns', j)))"
    using market_keys.set_law [OF assms(1,2), of "(ns, k)" v] assms(3) unfolding wp_value assms(5) by fastforce
  have key: "marketCacheKey M j ns' \<in> (\<lambda>k. marketCacheKey M k ns) ` set ks \<longleftrightarrow> ns' = ns \<and> j \<in> set ks" if "j \<in> K" for j ns'
  proof -
    have "marketCacheKey M j ns' = marketCacheKey M i ns \<longleftrightarrow> ns' = ns \<and> j = i" if "i \<in> set ks" for i
      unfolding market_store.key_inj [OF ms]
      using inj_on_eq_iff [OF market_keys.no_collision [OF assms(1)] \<open>j \<in> K\<close>, of i] that assms(4) by auto
    then show ?thesis by (auto simp: image_iff)
  qed
  obtain s1 where s1: "marketInvalidate M ks ns s = (Inr (length ks), s1)" and c1: "cell s1 = (\<lambda>k. if k \<in> (\<lambda>k. marketCacheKey M k ns) ` set ks \<or>
      k \<in> (\<lambda>k. marketCacheKey M k ns @ '':metadata'') ` set ks then None else cell s k)"
    using market_store.marketInvalidate_wp [OF ms, of ks ns s] unfolding wp_value by (elim exE conjE) simp
  have meta: "marketCacheKey M j ns' \<notin> (\<lambda>k. marketCacheKey M k ns @ '':metadata'') ` set ks" for j ns'
    using market_store.key_not_meta [OF ms] by blast
  have "look s1 (ns', j) = (if ns' = ns \<and> j \<in> set ks then None else look s (ns', j))" if "j \<in> K" for ns' j
    unfolding assms(5) market_store.market_look_def [OF ms] c1 using key [OF that, of ns'] meta [of j ns'] by (simp add: entry_value_def)
  with s1 show "\<exists>s'. marketInvalidate M ks ns s = (Inr (length ks), s') \<and>
      (\<forall>ns' j. j \<in> K \<longrightarrow> look s' (ns', j) = (if ns' = ns \<and> j \<in> set ks then None else look s (ns', j)))" by blast
  show "\<exists>n s'. invalidateNamespace M ns s = (Inr n, s') \<and>
      (\<forall>ns' j. look s' (ns', j) = (if ns' = ns then None else look s (ns', j)))"
    using market_store.namespace_wp [OF ms, of ns s] market_store.namespace_look [OF ms]
    unfolding wp_value assms(5) by blast
qed

theorem market_cache_refines_map_witness:
  "(\<exists>s'. marketGet mem_market ''all'' NEWS empty_cache = (Inr None, s')) \<and>
   (\<exists>s'. marketSet mem_market ''all'' (CMeta 1 2 ''x'') NEWS None empty_cache = (Inr (), s') \<and>
      mmem.market_look s' (NEWS, ''all'') = Some (CMeta 1 2 ''x'') \<and> mmem.market_look s' (NEWS, ''news'') = None)"
proof -
  have empty: "mmem.market_look empty_cache p = None" for p
    by (simp add: mmem.market_look_def entry_value_def mem_cell_def empty_cache_def)
  show ?thesis
    using market_cache_refines_map [OF kmem.market_keys_axioms empty_good, of "''all''" "[]" mmem.market_look NEWS "CMeta 1 2 ''x''"] empty
    by (simp add: demo_keys_def) fastforce
qed

text \<open>
  An asset update does not reach the prices: the handler looks for keys that start with the asset code, but the
  keys hold a hash. For every code with a character that is no lower-case hex digit, such as all codes in capitals,
  every cached price survives the update, while all market snapshots are removed.
\<close>

theorem asset_update_keeps_prices:
  assumes "market_store M cell ttl" and "plain_glob (au_assetCode event)" and "c \<in> set (au_assetCode event)" and "\<not> is_hex c"
  shows "\<exists>s'. handleAssetUpdate M event s = (Inr (), s') \<and>
    (\<forall>k. market_store.market_look M cell s' (PRICE_DATA, k) = market_store.market_look M cell s (PRICE_DATA, k) \<and>
         market_store.market_look M cell s' (MARKET_SNAPSHOT, k) = None)"
proof -
  have keep: "\<not> prefix (ns_text PRICE_DATA @ '':'' @ au_assetCode event) (marketCacheKey M k PRICE_DATA)" for k
  proof
    assume "prefix (ns_text PRICE_DATA @ '':'' @ au_assetCode event) (marketCacheKey M k PRICE_DATA)"
    then have "prefix (au_assetCode event) (take 16 (mk_sha256 M k))" by (simp add: marketCacheKey_def)
    then have "c \<in> set (take 16 (mk_sha256 M k))" using assms(3) by (auto simp: prefix_def)
    then show False using market_store.hash16(1) [OF assms(1), of k] assms(4) by (auto simp: list_all_iff)
  qed
  have "wp (handleAssetUpdate M event) (\<lambda>_ s'. cell s' = (\<lambda>k. if prefix (ns_text MARKET_SNAPSHOT @ '':'') k then None
      else if prefix (ns_text PRICE_DATA @ '':'' @ au_assetCode event) k then None else cell s k)) (\<lambda>_ _. False) s"
    unfolding handleAssetUpdate_def
    by (intro wp_intros, rule wp_mono [OF market_store.pattern_wp [OF assms(1,2)]], intro wp_intros,
        rule wp_mono [OF market_store.namespace_wp [OF assms(1)]]) (simp_all add: wp_simps fun_eq_iff)
  then obtain s' where s': "handleAssetUpdate M event s = (Inr (), s')" "cell s' = (\<lambda>k. if prefix (ns_text MARKET_SNAPSHOT @ '':'') k then None
      else if prefix (ns_text PRICE_DATA @ '':'' @ au_assetCode event) k then None else cell s k)"
    by (auto simp: wp_value)
  have "market_store.market_look M cell s' (PRICE_DATA, k) = market_store.market_look M cell s (PRICE_DATA, k) \<and>
      market_store.market_look M cell s' (MARKET_SNAPSHOT, k) = None" for k
    using market_store.namespace_prefix [OF assms(1), of MARKET_SNAPSHOT k] keep [of k]
    by (simp add: market_store.market_look_def [OF assms(1)] s'(2) entry_value_def)
  with s'(1) show ?thesis by blast
qed

definition xlm_update :: AssetUpdateEvent where
  "xlm_update = \<lparr>au_assetCode = ''XLM'', au_issuer = ''native'', au_updateType = ''price'', au_timestamp = 0\<rparr>"

theorem asset_update_keeps_prices_witness:
  "\<exists>s'. handleAssetUpdate mem_market xlm_update empty_cache = (Inr (), s') \<and>
    (\<forall>k. mmem.market_look s' (PRICE_DATA, k) = mmem.market_look empty_cache (PRICE_DATA, k) \<and>
         mmem.market_look s' (MARKET_SNAPSHOT, k) = None)"
  by (rule asset_update_keeps_prices [OF mem_market_store, where c = "CHR ''X''"])
    (simp_all add: xlm_update_def plain_glob_def is_hex_def is_digit_def)

text \<open>
  A manual invalidation that names a namespace removes all its entries, whatever keys or pattern it asks for:
  the branches for keys and patterns are never reached, and without a namespace nothing is removed.
\<close>

theorem manual_invalidation_ignores_keys:
  assumes "market_store M cell ttl"
  shows "\<exists>s'. handleManualInvalidation M event s = (Inr (), s') \<and>
    (case mi_namespace event of
       None \<Rightarrow> s' = s
     | Some ns \<Rightarrow> \<forall>ns' k. market_store.market_look M cell s' (ns', k) = (if ns' = ns then None else market_store.market_look M cell s (ns', k)))"
proof (cases "mi_namespace event")
  case None
  then show ?thesis by (simp add: handleManualInvalidation_def catchE_def ignoreE_def bindE_def returnE_def)
next
  case (Some ns)
  have "wp (handleManualInvalidation M event) (\<lambda>_ s'. cell s' = (\<lambda>k. if prefix (ns_text ns @ '':'') k then None else cell s k)) (\<lambda>_ _. False) s"
    unfolding handleManualInvalidation_def Some
    by (simp add: wp_simps, rule wp_mono [OF market_store.namespace_wp [OF assms]]) simp_all
  with Some market_store.namespace_look [OF assms] show ?thesis by (auto simp: wp_value)
qed

theorem manual_invalidation_ignores_keys_witness:
  "\<exists>s'. handleManualInvalidation mem_market \<lparr>mi_namespace = None, mi_keys = Some [''all''], mi_pattern = None\<rparr> empty_cache = (Inr (), s') \<and>
     s' = empty_cache"
  using manual_invalidation_ignores_keys [OF mem_market_store, of "\<lparr>mi_namespace = None, mi_keys = Some [''all''], mi_pattern = None\<rparr>" empty_cache]
  by simp

end
