(* ===== verification/Market_Data.thy ===== *)
theory Market_Data
  imports Market_Cache
begin

text \<open>
  \<open>MarketDataService\<close>, \<open>NewsService\<close> and \<open>MarketDataController\<close> (src/Backend/src/market-data): the mock market
  and news data of the code, served through the cache. A value a service reads from the cache has the shape it
  stored there; another shape would need two keys with one hash, and is passed on unchanged.
\<close>

section \<open>MarketDataService\<close>

definition mk_wait :: "'s market_env \<Rightarrow> int \<Rightarrow> ('s, unit) prog" where
  "mk_wait M ms = (\<lambda>s. (Inr (), mk_delay M ms s))"

definition xlm_price :: AssetPriceDto where
  "xlm_price = \<lparr>ap_code = ''XLM'', ap_issuer = ''native'', ap_priceUSD = 125 / 1000, ap_change24h = 25 / 10,
     ap_volume24h = 125000000, ap_marketCap = 3500000000\<rparr>"

definition usdc_issuer :: string where
  "usdc_issuer = ''GA5ZSEJYB37JRC5AVCIA5MOP4RHTM335X2KGX3IHOJAPP5RE34K4KZVN''"

definition usdc_price :: AssetPriceDto where
  "usdc_price = \<lparr>ap_code = ''USDC'', ap_issuer = usdc_issuer, ap_priceUSD = 1, ap_change24h = 1 / 100,
     ap_volume24h = 50000000, ap_marketCap = 45000000000\<rparr>"

definition mockAssets :: "AssetPriceDto list" where
  "mockAssets = [xlm_price, usdc_price,
     \<lparr>ap_code = ''AQUA'', ap_issuer = ''GBNZILSTVQZ4R7IKQDGHYGY2QXL5QOFJYQMXPKWRRM5PAV7Y4M67AQUA'', ap_priceUSD = 45 / 1000,
      ap_change24h = - 12 / 10, ap_volume24h = 8000000, ap_marketCap = 180000000\<rparr>,
     \<lparr>ap_code = ''yXLM'', ap_issuer = ''GARDNV3Q7YGT4AKSDF25LT32YSCCW4EV22Y2TV3I2PU2MMXJTEDL5T55'', ap_priceUSD = 13 / 100,
      ap_change24h = 28 / 10, ap_volume24h = 12000000, ap_marketCap = 26000000\<rparr>]"

definition filter_assets :: "string list option \<Rightarrow> AssetPriceDto list" where
  "filter_assets assetFilter = (case assetFilter of None \<Rightarrow> mockAssets
     | Some fs \<Rightarrow> if 0 < length fs then filter (\<lambda>a. List.member fs (js_upper (ap_code a))) mockAssets else mockAssets)"

definition fetchMarketSnapshot :: "'s market_env \<Rightarrow> string list option \<Rightarrow> ('s, cached) prog" where
  "fetchMarketSnapshot M assetFilter = seqE (mk_wait M 500) (bindE (readE (mk_now M)) (\<lambda>now.
     returnE (CSnapshot \<lparr>ms_assets = filter_assets assetFilter, ms_timestamp = DateObj now,
       ms_source = ''Stellar DEX / CoinGecko'', ms_cached = False\<rparr>)))"

definition fetchAssetPrice :: "'s market_env \<Rightarrow> string \<Rightarrow> string \<Rightarrow> ('s, AssetPriceDto option) prog" where
  "fetchAssetPrice M assetCode issuer = seqE (mk_wait M 300)
     (let key = assetCode @ '':'' @ issuer in
      returnE (if key = ''XLM:native'' then Some xlm_price
        else if key = ''USDC:'' @ usdc_issuer then Some usdc_price else None))"

text \<open>\<open>sort\<close> orders strings by their character codes.\<close>

definition generateMarketSnapshotKey :: "string list option \<Rightarrow> string" where
  "generateMarketSnapshotKey assetFilter = (case assetFilter of None \<Rightarrow> ''all-assets''
     | Some fs \<Rightarrow> if length fs = 0 then ''all-assets'' else ''assets:'' @ js_join '','' (sort fs))"

text \<open>\<open>{...value, cached: b}\<close>.\<close>

fun mark_cached :: "bool \<Rightarrow> cached \<Rightarrow> cached" where
  "mark_cached b (CSnapshot m) = CSnapshot (m\<lparr>ms_cached := b\<rparr>)"
| "mark_cached b (CNews n) = CNews (n\<lparr>nr_cached := b\<rparr>)"
| "mark_cached b v = v"

definition getMarketSnapshot :: "'s market_env \<Rightarrow> string list option \<Rightarrow> bool \<Rightarrow> ('s, cached) prog" where
  "getMarketSnapshot M assetFilter bypassCache =
     (let cacheKey = generateMarketSnapshotKey assetFilter in
      bindE (cacheFirst (marketGet M cacheKey MARKET_SNAPSHOT) (\<lambda>v. marketSet M cacheKey v MARKET_SNAPSHOT None) bypassCache
               (fetchMarketSnapshot M assetFilter))
        (\<lambda>(v, fromCache). returnE (mark_cached fromCache v)))"

definition getAssetPrice :: "'s market_env \<Rightarrow> string \<Rightarrow> string \<Rightarrow> ('s, cached option) prog" where
  "getAssetPrice M assetCode issuer =
     (let cacheKey = assetCode @ '':'' @ issuer in
      bindE (marketGet M cacheKey PRICE_DATA) (\<lambda>cached. case cached of
        Some v \<Rightarrow> returnE (Some v)
      | None \<Rightarrow> bindE (fetchAssetPrice M assetCode issuer) (\<lambda>priceData. case priceData of
            None \<Rightarrow> returnE None
          | Some p \<Rightarrow> seqE (marketSet M cacheKey (CPrice p) PRICE_DATA None) (returnE (Some (CPrice p))))))"

definition invalidateMarketCache :: "'s market_env \<Rightarrow> string option \<Rightarrow> ('s, nat) prog" where
  "invalidateMarketCache M assetCode = (if truthy assetCode then invalidateByPattern M (the assetCode) PRICE_DATA
     else invalidateNamespace M MARKET_SNAPSHOT)"

section \<open>NewsService\<close>

fun category_text :: "NewsCategory \<Rightarrow> string" where
  "category_text NC_MARKET = ''market''"
| "category_text NC_TECHNOLOGY = ''technology''"
| "category_text NC_REGULATION = ''regulation''"
| "category_text NC_STELLAR = ''stellar''"
| "category_text NC_DEFI = ''defi''"
| "category_text NC_NFT = ''nft''"

definition mock_article :: "int \<Rightarrow> string \<Rightarrow> string \<Rightarrow> string \<Rightarrow> string \<Rightarrow> int \<Rightarrow> string \<Rightarrow> string \<Rightarrow> NewsCategory \<Rightarrow> string list \<Rightarrow> NewsArticleDto" where
  "mock_article now i title summary url age source img category tags =
     \<lparr>na_id = i, na_title = title, na_summary = summary, na_url = url, na_publishedAt = DateObj (now - age), na_source = source,
      na_imageUrl = Some img, na_category = Some category, na_tags = tags\<rparr>"

definition record_article :: "int \<Rightarrow> NewsArticleDto" where
  "record_article now = mock_article now ''news-1'' ''Stellar Network Processes Record Transaction Volume''
     ''The Stellar blockchain has achieved a new milestone, processing over 10 million transactions in a single day...''
     ''https://stellar.org/blog/record-transaction-volume'' 3600000 ''Stellar Blog'' ''https://example.com/stellar-news-1.jpg''
     NC_STELLAR [''stellar'', ''blockchain'', ''transactions'']"

definition mockArticles :: "int \<Rightarrow> NewsArticleDto list" where
  "mockArticles now = [record_article now,
     mock_article now ''news-2'' ''Bitcoin Surges Past $50,000 Mark''
       ''Bitcoin has broken through the $50,000 resistance level amid growing institutional adoption...''
       ''https://example.com/bitcoin-50k'' 7200000 ''CryptoNews'' ''https://example.com/bitcoin-news.jpg'' NC_MARKET [''bitcoin'', ''market'', ''price''],
     mock_article now ''news-3'' ''New DeFi Protocol Launches on Stellar''
       ''A new decentralized finance protocol has launched on Stellar, offering yield farming opportunities...''
       ''https://example.com/stellar-defi'' 10800000 ''DeFi Pulse'' ''https://example.com/defi-news.jpg'' NC_DEFI [''stellar'', ''defi'', ''yield-farming''],
     mock_article now ''news-4'' ''SEC Announces New Cryptocurrency Regulations''
       ''The Securities and Exchange Commission has unveiled new regulatory framework for digital assets...''
       ''https://example.com/sec-regulations'' 14400000 ''Regulatory News'' ''https://example.com/regulation-news.jpg'' NC_REGULATION [''regulation'', ''sec'', ''compliance''],
     mock_article now ''news-5'' ''Soroban Smart Contracts Gain Traction''
       ''Developers are increasingly adopting Soroban for building decentralized applications on Stellar...''
       ''https://example.com/soroban-adoption'' 18000000 ''Stellar Developers'' ''https://example.com/soroban-news.jpg'' NC_TECHNOLOGY [''stellar'', ''soroban'', ''smart-contracts''],
     mock_article now ''news-6'' ''Major Bank Partners with Stellar for Cross-Border Payments''
       ''A leading international bank has announced partnership with Stellar to facilitate faster cross-border transactions...''
       ''https://example.com/bank-stellar-partnership'' 21600000 ''Financial Times'' ''https://example.com/partnership-news.jpg'' NC_STELLAR [''stellar'', ''banking'', ''partnerships'']]"

definition select_articles :: "NewsCategory option \<Rightarrow> nat \<Rightarrow> int \<Rightarrow> NewsArticleDto list" where
  "select_articles category limit now =
     take limit (case category of None \<Rightarrow> mockArticles now | Some c \<Rightarrow> filter (\<lambda>a. na_category a = Some c) (mockArticles now))"

definition fetchNewsResponse :: "'s market_env \<Rightarrow> NewsCategory option \<Rightarrow> nat \<Rightarrow> ('s, cached) prog" where
  "fetchNewsResponse M category limit = seqE (mk_wait M 700) (bindE (readE (mk_now M)) (\<lambda>now.
     let limitedArticles = select_articles category limit now in
     returnE (CNews \<lparr>nr_articles = limitedArticles, nr_total = length limitedArticles, nr_timestamp = DateObj now, nr_cached = False\<rparr>)))"

definition fetchArticleById :: "'s market_env \<Rightarrow> string \<Rightarrow> ('s, NewsArticleDto option) prog" where
  "fetchArticleById M articleId = seqE (mk_wait M 300) (bindE (readE (mk_now M)) (\<lambda>now.
     returnE (if articleId = ''news-1'' then Some (record_article now) else None)))"

definition generateNewsKey :: "NewsCategory option \<Rightarrow> nat \<Rightarrow> string" where
  "generateNewsKey category limit = js_join '':'' ([''news''] @ (case category of None \<Rightarrow> [] | Some c \<Rightarrow> [category_text c]) @
     (if limit \<noteq> 0 then [''limit:'' @ show_nat limit] else []))"

definition getNews :: "'s market_env \<Rightarrow> NewsCategory option \<Rightarrow> nat \<Rightarrow> bool \<Rightarrow> ('s, cached) prog" where
  "getNews M category limit bypassCache =
     (let cacheKey = generateNewsKey category limit in
      bindE (cacheFirst (marketGet M cacheKey NEWS) (\<lambda>v. marketSet M cacheKey v NEWS None) bypassCache
               (fetchNewsResponse M category limit))
        (\<lambda>(v, fromCache). returnE (mark_cached fromCache v)))"

definition getArticleById :: "'s market_env \<Rightarrow> string \<Rightarrow> ('s, cached option) prog" where
  "getArticleById M articleId =
     (let cacheKey = ''article:'' @ articleId in
      bindE (marketGet M cacheKey NEWS) (\<lambda>cached. case cached of
        Some v \<Rightarrow> returnE (Some v)
      | None \<Rightarrow> bindE (fetchArticleById M articleId) (\<lambda>article. case article of
            None \<Rightarrow> returnE None
          | Some a \<Rightarrow> seqE (marketSet M cacheKey (CArticle a) NEWS (Some 3600)) (returnE (Some (CArticle a))))))"

definition invalidateNewsCache :: "'s market_env \<Rightarrow> NewsCategory option \<Rightarrow> ('s, nat) prog" where
  "invalidateNewsCache M category = (case category of
     Some c \<Rightarrow> invalidateByPattern M (''news:'' @ category_text c) NEWS | None \<Rightarrow> invalidateNamespace M NEWS)"

section \<open>MarketDataController\<close>

datatype bypass_query = BypassBool bool | BypassText string

definition bypass_of :: "bypass_query option \<Rightarrow> bool" where
  "bypass_of q = (q = Some (BypassBool True) \<or> q = Some (BypassText ''true''))"

definition snapshot_request :: "'s market_env \<Rightarrow> string option \<Rightarrow> bypass_query option \<Rightarrow> ('s, cached) prog" where
  "snapshot_request M assets bypassCache =
     getMarketSnapshot M (if truthy assets then Some (map (\<lambda>a. js_upper (js_trim a)) (js_split CHR '','' (the assets))) else None)
       (bypass_of bypassCache)"

definition news_request :: "'s market_env \<Rightarrow> NewsCategory option \<Rightarrow> nat option \<Rightarrow> bypass_query option \<Rightarrow> ('s, cached) prog" where
  "news_request M category limit bypassCache = getNews M category (or_nat limit 20) (bypass_of bypassCache)"

record CacheInvalidateDto =
  ci_keys :: "string list option"
  ci_pattern :: "string option"
  ci_namespace :: "CacheNamespace option"

definition invalidateCache_request :: "'s market_env \<Rightarrow> CacheInvalidateDto \<Rightarrow> ('s, nat) prog" where
  "invalidateCache_request M dto =
     (if ci_namespace dto \<noteq> None then invalidateNamespace M (the (ci_namespace dto))
      else if truthy (ci_pattern dto) then invalidateByPattern M (the (ci_pattern dto)) MARKET_SNAPSHOT
      else if ci_keys dto \<noteq> None \<and> 0 < length (the (ci_keys dto)) then marketInvalidate M (the (ci_keys dto)) MARKET_SNAPSHOT
      else returnE 0)"

record CacheInvalidateResponse =
  cr_success :: bool
  cr_invalidatedCount :: nat
  cr_message :: string

definition invalidated :: "('s, nat) prog \<Rightarrow> string \<Rightarrow> string \<Rightarrow> ('s, CacheInvalidateResponse) prog" where
  "invalidated p before after = bindE p (\<lambda>count. returnE
     \<lparr>cr_success = True, cr_invalidatedCount = count, cr_message = before @ show_nat count @ after\<rparr>)"

definition invalidateCache_response :: "'s market_env \<Rightarrow> CacheInvalidateDto \<Rightarrow> ('s, CacheInvalidateResponse) prog" where
  "invalidateCache_response M dto = invalidated (invalidateCache_request M dto) ''Successfully invalidated '' '' cache entries''"

definition invalidateMarketCache_request :: "'s market_env \<Rightarrow> ('s, CacheInvalidateResponse) prog" where
  "invalidateMarketCache_request M = invalidated (invalidateMarketCache M None) ''Invalidated '' '' market data cache entries''"

definition invalidateNewsCache_request :: "'s market_env \<Rightarrow> ('s, CacheInvalidateResponse) prog" where
  "invalidateNewsCache_request M = invalidated (invalidateNewsCache M None) ''Invalidated '' '' news cache entries''"

definition getCacheStats_request :: "'s market_env \<Rightarrow> ('s, OverallStats \<times> CacheStatsDto list \<times> int) prog" where
  "getCacheStats_request M = metricsOverallStats M"

definition getMarketDataCacheStats_request :: "'s market_env \<Rightarrow> ('s, CacheStatsDto) prog" where
  "getMarketDataCacheStats_request M = getMarketDataStats M"

definition getNewsCacheStats_request :: "'s market_env \<Rightarrow> ('s, CacheStatsDto) prog" where
  "getNewsCacheStats_request M = getNewsStats M"

section \<open>Properties\<close>

lemma wpi_mk_wait: "Q () (mk_delay M ms s) \<Longrightarrow> wp (mk_wait M ms) Q X s"
  by (simp add: wp_def mk_wait_def)

context market_keys
begin

lemma delay_good: "market_good (mk_delay M t s) = market_good s" "market_look (mk_delay M t s) = market_look s"
  by (simp_all add: market_good_def market_look_def delay_cell fun_eq_iff)

lemma snapshot_fetch:
  "pure_fetch (fetchMarketSnapshot M fs) (\<lambda>v. \<exists>t. v = CSnapshot \<lparr>ms_assets = filter_assets fs, ms_timestamp = DateObj t,
     ms_source = ''Stellar DEX / CoinGecko'', ms_cached = False\<rparr>)"
  unfolding fetch_def fetchMarketSnapshot_def
  by (intro allI impI wp_intros wpi_mk_wait) (simp add: delay_good)

text \<open>The first request fetches, the second is served from the cache.\<close>

lemma snapshot_first:
  assumes "market_good s" and "generateMarketSnapshotKey fs \<in> K" and "bypass \<or> market_look s (MARKET_SNAPSHOT, generateMarketSnapshotKey fs) = None"
  shows "wp (getMarketSnapshot M fs bypass) (\<lambda>v s'. market_good s' \<and> (\<exists>t. v = CSnapshot \<lparr>ms_assets = filter_assets fs, ms_timestamp = DateObj t,
      ms_source = ''Stellar DEX / CoinGecko'', ms_cached = False\<rparr> \<and> market_look s' (MARKET_SNAPSHOT, generateMarketSnapshotKey fs) = Some (json_image v)))
    (\<lambda>_ _. False) s"
proof -
  have "wp (cacheFirst (marketGet M (generateMarketSnapshotKey fs) MARKET_SNAPSHOT)
      (\<lambda>v. marketSet M (generateMarketSnapshotKey fs) v MARKET_SNAPSHOT None) bypass (fetchMarketSnapshot M fs))
    (\<lambda>r s'. market_good s' \<and> (\<exists>t. r = (CSnapshot \<lparr>ms_assets = filter_assets fs, ms_timestamp = DateObj t,
      ms_source = ''Stellar DEX / CoinGecko'', ms_cached = False\<rparr>, False)) \<and>
      market_look s' (MARKET_SNAPSHOT, generateMarketSnapshotKey fs) = Some (json_image (fst r))) (\<lambda>_ _. False) s"
    by (rule wp_mono [OF read_through [OF assms(1) _ snapshot_fetch, of "(MARKET_SNAPSHOT, generateMarketSnapshotKey fs)" bypass, simplified]])
      (use assms(2,3) in \<open>auto split: if_splits\<close>)
  then show ?thesis
    unfolding getMarketSnapshot_def Let_def wp_bindE by (rule wp_mono) (auto simp: wp_simps)
qed

lemma snapshot_again:
  assumes "market_good s" and "generateMarketSnapshotKey fs \<in> K" and "market_look s (MARKET_SNAPSHOT, generateMarketSnapshotKey fs) = Some v"
  shows "wp (getMarketSnapshot M fs False) (\<lambda>r s'. r = mark_cached True v) (\<lambda>_ _. False) s"
proof -
  have "wp (cacheFirst (marketGet M (generateMarketSnapshotKey fs) MARKET_SNAPSHOT)
      (\<lambda>v. marketSet M (generateMarketSnapshotKey fs) v MARKET_SNAPSHOT None) False (fetchMarketSnapshot M fs))
    (\<lambda>r s'. r = (v, True)) (\<lambda>_ _. False) s"
    by (rule wp_mono [OF read_through [OF assms(1) _ snapshot_fetch, of "(MARKET_SNAPSHOT, generateMarketSnapshotKey fs)" False, simplified]])
      (use assms(2,3) in auto)
  then show ?thesis
    unfolding getMarketSnapshot_def Let_def wp_bindE by (rule wp_mono) (auto simp: wp_simps)
qed

end

text \<open>
  A market snapshot is served once from the source and then from the cache: on an empty entry (or when
  bypassing) the first request returns the assets of the filter with a \<open>Date\<close>, marked as fresh, and the next
  request with the same filter returns the same assets marked as cached, with the date as an ISO text.
\<close>

theorem snapshot_served_from_cache:
  assumes "market_keys M cell ttl K" and "market_store.market_good M cell s" and "generateMarketSnapshotKey fs \<in> K"
    and "bypass \<or> market_store.market_look M cell s (MARKET_SNAPSHOT, generateMarketSnapshotKey fs) = None"
  shows "\<exists>m t s1 s2. getMarketSnapshot M fs bypass s = (Inr (CSnapshot m), s1) \<and> ms_assets m = filter_assets fs \<and>
    ms_timestamp m = DateObj t \<and> \<not> ms_cached m \<and>
    getMarketSnapshot M fs False s1 = (Inr (CSnapshot (m\<lparr>ms_timestamp := DateText (toISOString t), ms_cached := True\<rparr>)), s2)"
proof -
  obtain t s1 where s1: "getMarketSnapshot M fs bypass s = (Inr (CSnapshot \<lparr>ms_assets = filter_assets fs, ms_timestamp = DateObj t,
      ms_source = ''Stellar DEX / CoinGecko'', ms_cached = False\<rparr>), s1)" "market_store.market_good M cell s1"
    "market_store.market_look M cell s1 (MARKET_SNAPSHOT, generateMarketSnapshotKey fs) =
      Some (CSnapshot \<lparr>ms_assets = filter_assets fs, ms_timestamp = DateText (toISOString t), ms_source = ''Stellar DEX / CoinGecko'', ms_cached = False\<rparr>)"
    using market_keys.snapshot_first [OF assms] by (auto simp: wp_value)
  show ?thesis
    using market_keys.snapshot_again [OF assms(1) s1(2) assms(3) s1(3)] s1(1) by (auto simp: wp_value)
qed

lemma demo_asset_key: "generateMarketSnapshotKey None \<in> {''all-assets''}"
  by (simp add: generateMarketSnapshotKey_def)

lemma one_key: "market_keys mem_market mem_cell mem_ttl {''all-assets''}"
  by unfold_locales simp

theorem snapshot_served_from_cache_witness:
  "\<exists>m t s1 s2. getMarketSnapshot mem_market None False empty_cache = (Inr (CSnapshot m), s1) \<and> ms_assets m = filter_assets None \<and>
    ms_timestamp m = DateObj t \<and> \<not> ms_cached m \<and>
    getMarketSnapshot mem_market None False s1 = (Inr (CSnapshot (m\<lparr>ms_timestamp := DateText (toISOString t), ms_cached := True\<rparr>)), s2)"
  by (rule snapshot_served_from_cache [OF one_key empty_good demo_asset_key])
    (simp add: mmem.market_look_def entry_value_def mem_cell_def empty_cache_def)

end
