(* ===== verification/Ai_Module.thy ===== *)
theory Ai_Module
  imports Js_Json
begin

text \<open>
  The AI module (src/Backend/src/ai): the monthly quota in memory, the response cache, the OpenAI provider with its
  circuit breaker, the provider that falls back to a fixed text, and \<open>AiService.handlePrompt\<close> over them. The chat
  service, Redis, the clock and the hash are the fields of \<open>ai_env\<close>; the module itself passes \<open>null\<close> for Redis.
\<close>

section \<open>Data\<close>

datatype circuit_state = CClosed | COpen | CHalfOpen

record CircuitBreakerState =
  cb_failures :: nat
  cb_openedAt :: "int option"
  cb_state :: circuit_state

record QuotaRecord =
  qr_requestCount :: nat
  qr_tokenCount :: nat

record AiRequestDto =
  ar_prompt :: string
  ar_userId :: "string option"

text \<open>What a provider answers; a \<open>content\<close> of \<open>null\<close> passes as a response.\<close>

record ai_result =
  res_response :: "string option"
  res_tokensUsed :: nat

text \<open>What a request answers: \<open>{response, cached}\<close> or \<open>{response, degraded}\<close>.\<close>

record prompt_result =
  pr_response :: "string option"
  pr_cached :: "bool option"
  pr_degraded :: "bool option"

text \<open>
  The part of the chat service's answer the provider reads; every part may be missing. A choice is its message, a
  message its content.
\<close>

record ChatCompletion =
  cc_choices :: "string option option list option"
  cc_total_tokens :: "nat option"

record chat_request =
  cq_url :: string
  cq_model :: string
  cq_content :: string
  cq_authorization :: string
  cq_timeout :: int

record 'w ai_redis =
  ai_get :: "string \<Rightarrow> ('w, string option) prog"
  ai_set :: "string \<Rightarrow> string option \<Rightarrow> int \<Rightarrow> ('w, unit) prog"

record 'w ai_env =
  ae_redis :: "'w ai_redis option"
  ae_now :: "'w \<Rightarrow> int"
  ae_sha256 :: "string \<Rightarrow> string"
  ae_post :: "chat_request \<Rightarrow> ('w, ChatCompletion) prog"
  ae_apiKey :: "string option"
  ae_timeoutMs :: "int option"
  ae_model :: "string option"

text \<open>The world outside with the fields of the three services.\<close>

record 'w ai_state =
  ai_world :: 'w
  ai_cb :: CircuitBreakerState
  ai_cache :: "string \<Rightarrow> string option"
  ai_quotas :: "string \<Rightarrow> QuotaRecord option"

definition worldE :: "('w, 'a) prog \<Rightarrow> ('w ai_state, 'a) prog" where
  "worldE m = (\<lambda>s. case m (ai_world s) of (r, w) \<Rightarrow> (r, s\<lparr>ai_world := w\<rparr>))"

definition updE :: "('s \<Rightarrow> 's) \<Rightarrow> ('s, unit) prog" where
  "updE f = (\<lambda>s. (Inr (), f s))"

definition breakerE :: "(CircuitBreakerState, 'a) prog \<Rightarrow> ('w ai_state, 'a) prog" where
  "breakerE m = (\<lambda>s. case m (ai_cb s) of (r, cb) \<Rightarrow> (r, s\<lparr>ai_cb := cb\<rparr>))"

definition ai_time :: "'w ai_env \<Rightarrow> ('w ai_state, int) prog" where
  "ai_time A = readE (\<lambda>s. ae_now A (ai_world s))"

section \<open>QuotaService\<close>

definition MAX_REQUESTS :: nat where "MAX_REQUESTS = 1000"

definition ai_quotaKey :: "string \<Rightarrow> int \<Rightarrow> string" where
  "ai_quotaKey userId now = userId @ '':'' @ take 7 (toISOString now)"

definition assertQuota :: "'w ai_env \<Rightarrow> string \<Rightarrow> ('w ai_state, unit) prog" where
  "assertQuota A userId =
     bindE (ai_time A) (\<lambda>now. bindE (readE (\<lambda>s. ai_quotas s (ai_quotaKey userId now))) (\<lambda>quota.
       whenE (\<exists>q \<in> set_option quota. MAX_REQUESTS \<le> qr_requestCount q)
         (throwE (ForbiddenException ''Monthly AI usage quota exceeded''))))"

definition ai_recordUsage :: "'w ai_env \<Rightarrow> string \<Rightarrow> nat \<Rightarrow> ('w ai_state, unit) prog" where
  "ai_recordUsage A userId tokens =
     bindE (ai_time A) (\<lambda>now. let key = ai_quotaKey userId now in
     bindE (readE (\<lambda>s. ai_quotas s key)) (\<lambda>quota.
       let existing = (case quota of None \<Rightarrow> \<lparr>qr_requestCount = 0, qr_tokenCount = 0\<rparr> | Some q \<Rightarrow> q) in
       updE (\<lambda>s. s\<lparr>ai_quotas := (ai_quotas s)(key \<mapsto>
         \<lparr>qr_requestCount = qr_requestCount existing + 1, qr_tokenCount = qr_tokenCount existing + tokens\<rparr>)\<rparr>)))"

section \<open>AiCacheService\<close>

definition AI_TTL :: int where "AI_TTL = 3600"

definition ai_cacheGet :: "'w ai_env \<Rightarrow> string \<Rightarrow> ('w ai_state, string option) prog" where
  "ai_cacheGet A key = (case ae_redis A of
       Some redis \<Rightarrow> worldE (ai_get redis key)
     | None \<Rightarrow> readE (\<lambda>s. if truthy (ai_cache s key) then ai_cache s key else None))"

definition ai_cacheSet :: "'w ai_env \<Rightarrow> string \<Rightarrow> string option \<Rightarrow> ('w ai_state, unit) prog" where
  "ai_cacheSet A key v = (case ae_redis A of
       Some redis \<Rightarrow> worldE (ai_set redis key v AI_TTL)
     | None \<Rightarrow> updE (\<lambda>s. s\<lparr>ai_cache := (ai_cache s)(key := v)\<rparr>))"

definition ai_buildKey :: "'w ai_env \<Rightarrow> string \<Rightarrow> string \<Rightarrow> string" where
  "ai_buildKey A input model = ''ai:'' @ model @ '':'' @ ae_sha256 A input"

section \<open>OpenAiProvider\<close>

definition FAILURE_THRESHOLD :: nat where "FAILURE_THRESHOLD = 5"
definition HALF_OPEN_AFTER_MS :: int where "HALF_OPEN_AFTER_MS = 60000"

definition circuit_init :: CircuitBreakerState where
  "circuit_init = \<lparr>cb_failures = 0, cb_openedAt = None, cb_state = CClosed\<rparr>"

text \<open>The three methods on the breaker; \<open>checkCircuit\<close> returns or throws, and leaves the breaker in its second part.\<close>

definition checkCircuit :: "int \<Rightarrow> (CircuitBreakerState, unit) prog" where
  "checkCircuit now cb =
     (if cb_state cb = COpen
      then let elapsed = now - (case cb_openedAt cb of None \<Rightarrow> 0 | Some t \<Rightarrow> t) in
           if HALF_OPEN_AFTER_MS \<le> elapsed then (Inr (), cb\<lparr>cb_state := CHalfOpen\<rparr>)
           else (Inl (Error ''Circuit breaker is open''), cb)
      else (Inr (), cb))"

definition recordSuccess :: "CircuitBreakerState \<Rightarrow> CircuitBreakerState" where
  "recordSuccess cb = cb\<lparr>cb_failures := 0, cb_state := CClosed, cb_openedAt := None\<rparr>"

definition recordFailure :: "int \<Rightarrow> CircuitBreakerState \<Rightarrow> CircuitBreakerState" where
  "recordFailure now cb =
     (let cb1 = cb\<lparr>cb_failures := cb_failures cb + 1\<rparr> in
      if FAILURE_THRESHOLD \<le> cb_failures cb1 then cb1\<lparr>cb_state := COpen, cb_openedAt := Some now\<rparr> else cb1)"

definition getCircuitState :: "'w ai_state \<Rightarrow> circuit_state" where
  "getCircuitState s = cb_state (ai_cb s)"

definition chat_request_of :: "'w ai_env \<Rightarrow> string \<Rightarrow> chat_request" where
  "chat_request_of A prompt =
     \<lparr>cq_url = ''https://api.openai.com/v1/chat/completions'',
      cq_model = (case ae_model A of None \<Rightarrow> ''gpt-4'' | Some m \<Rightarrow> m), cq_content = prompt,
      cq_authorization = ''Bearer '' @ (case ae_apiKey A of None \<Rightarrow> [] | Some k \<Rightarrow> k),
      cq_timeout = (case ae_timeoutMs A of None \<Rightarrow> 30000 | Some t \<Rightarrow> t)\<rparr>"

text \<open>\<open>res.data.choices[0].message.content\<close> and \<open>res.data.usage?.total_tokens ?? 0\<close>.\<close>

definition read_answer :: "ChatCompletion \<Rightarrow> exn + ai_result" where
  "read_answer answer = (case cc_choices answer of
       None \<Rightarrow> Inl (TypeError ''Cannot read properties of undefined (reading '0')'')
     | Some [] \<Rightarrow> Inl (TypeError ''Cannot read properties of undefined (reading 'message')'')
     | Some (None # _) \<Rightarrow> Inl (TypeError ''Cannot read properties of undefined (reading 'content')'')
     | Some (Some content # _) \<Rightarrow> Inr \<lparr>res_response = content,
         res_tokensUsed = (case cc_total_tokens answer of None \<Rightarrow> 0 | Some n \<Rightarrow> n)\<rparr>)"

definition openai_generate :: "'w ai_env \<Rightarrow> string \<Rightarrow> ('w ai_state, ai_result) prog" where
  "openai_generate A prompt =
     bindE (ai_time A) (\<lambda>now. seqE (breakerE (checkCircuit now))
       (catchE
          (bindE (worldE (ae_post A (chat_request_of A prompt))) (\<lambda>answer.
           seqE (updE (\<lambda>s. s\<lparr>ai_cb := recordSuccess (ai_cb s)\<rparr>))
             (case read_answer answer of Inl err \<Rightarrow> throwE err | Inr result \<Rightarrow> returnE result)))
          (\<lambda>err. bindE (ai_time A) (\<lambda>later.
             seqE (updE (\<lambda>s. s\<lparr>ai_cb := recordFailure later (ai_cb s)\<rparr>)) (throwE err)))))"

section \<open>FallbackProvider\<close>

definition APOLOGY :: string where
  "APOLOGY = ''AI service is temporarily unavailable. Please try again later.''"

definition fallback_generate :: "'w ai_env \<Rightarrow> string \<Rightarrow> ('w ai_state, ai_result) prog" where
  "fallback_generate A prompt =
     catchE (openai_generate A prompt) (\<lambda>primaryErr.
       bindE (ai_cacheGet A (ai_buildKey A prompt ''fallback'')) (\<lambda>cached.
         if truthy cached then returnE \<lparr>res_response = cached, res_tokensUsed = 0\<rparr>
         else returnE \<lparr>res_response = Some APOLOGY, res_tokensUsed = 0\<rparr>))"

section \<open>AiService\<close>

definition whenSome :: "string option \<Rightarrow> (string \<Rightarrow> ('s, unit) prog) \<Rightarrow> ('s, unit) prog" where
  "whenSome x f = (case x of None \<Rightarrow> returnE () | Some u \<Rightarrow> if u = [] then returnE () else f u)"

definition handlePrompt :: "'w ai_env \<Rightarrow> AiRequestDto \<Rightarrow> ('w ai_state, prompt_result) prog" where
  "handlePrompt A dto =
     seqE (whenSome (ar_userId dto) (assertQuota A))
     (let cacheKey = ai_buildKey A (ar_prompt dto) ''gpt-4'' in
      bindE (ai_cacheGet A cacheKey) (\<lambda>cached.
      if truthy cached then returnE \<lparr>pr_response = cached, pr_cached = Some True, pr_degraded = None\<rparr>
      else catchE
        (bindE (fallback_generate A (ar_prompt dto)) (\<lambda>result.
         seqE (ai_cacheSet A cacheKey (res_response result))
         (seqE (whenSome (ar_userId dto) (\<lambda>userId. ai_recordUsage A userId (res_tokensUsed result)))
           (returnE \<lparr>pr_response = res_response result, pr_cached = Some False, pr_degraded = None\<rparr>))))
        (\<lambda>err. returnE \<lparr>pr_response = Some APOLOGY, pr_cached = None, pr_degraded = Some True\<rparr>)))"

definition ai_controller_prompt :: "'w ai_env \<Rightarrow> AiRequestDto \<Rightarrow> ('w ai_state, prompt_result) prog" where
  "ai_controller_prompt A dto = handlePrompt A dto"


section \<open>Running the operations\<close>

lemma wp_worldE [wp_simps]:
  "wp (worldE m) Q X = (\<lambda>s. wp m (\<lambda>v w. Q v (s\<lparr>ai_world := w\<rparr>)) (\<lambda>e w. X e (s\<lparr>ai_world := w\<rparr>)) (ai_world s))"
  by (rule ext) (simp add: wp_def worldE_def split: prod.split sum.split)

lemma wp_breakerE [wp_simps]:
  "wp (breakerE m) Q X = (\<lambda>s. wp m (\<lambda>v cb. Q v (s\<lparr>ai_cb := cb\<rparr>)) (\<lambda>e cb. X e (s\<lparr>ai_cb := cb\<rparr>)) (ai_cb s))"
  by (rule ext) (simp add: wp_def breakerE_def split: prod.split sum.split)

lemma wp_updE [wp_simps]: "wp (updE f) Q X = (\<lambda>s. Q () (f s))"
  by (rule ext) (simp add: wp_def updE_def)

lemma wp_whenSome:
  "wp (whenSome x f) Q X = (\<lambda>s. if truthy x then wp (f (the x)) Q X s else Q () s)"
  by (rule ext) (simp add: whenSome_def truthy_def wp_simps split: option.split)

definition quota_reached :: "'w ai_env \<Rightarrow> string option \<Rightarrow> 'w ai_state \<Rightarrow> bool" where
  "quota_reached A user s = (truthy user \<and>
     (case ai_quotas s (ai_quotaKey (the user) (ae_now A (ai_world s))) of
        None \<Rightarrow> False | Some q \<Rightarrow> MAX_REQUESTS \<le> qr_requestCount q))"

lemma wp_quota:
  "wp (whenSome user (assertQuota A)) Q X = (\<lambda>s.
     if quota_reached A user s then X (ForbiddenException ''Monthly AI usage quota exceeded'') s else Q () s)"
  by (rule ext, cases user)
    (auto simp: quota_reached_def assertQuota_def ai_time_def wp_simps wp_whenSome truthy_def split: option.split)

lemma wp_cacheGet:
  "ae_redis A = None \<Longrightarrow>
     wp (ai_cacheGet A k) Q X = (\<lambda>s. Q (if truthy (ai_cache s k) then ai_cache s k else None) s)"
  by (simp add: ai_cacheGet_def wp_simps)

lemma wp_cacheSet:
  "ae_redis A = None \<Longrightarrow> wp (ai_cacheSet A k v) Q X = (\<lambda>s. Q () (s\<lparr>ai_cache := (ai_cache s)(k := v)\<rparr>))"
  by (simp add: ai_cacheSet_def wp_simps)

definition count_usage :: "QuotaRecord option \<Rightarrow> nat \<Rightarrow> QuotaRecord" where
  "count_usage q tokens = (case q of None \<Rightarrow> \<lparr>qr_requestCount = 1, qr_tokenCount = tokens\<rparr>
     | Some r \<Rightarrow> \<lparr>qr_requestCount = qr_requestCount r + 1, qr_tokenCount = qr_tokenCount r + tokens\<rparr>)"

lemma wp_recordUsage:
  "wp (ai_recordUsage A u tokens) Q X = (\<lambda>s. let key = ai_quotaKey u (ae_now A (ai_world s)) in
     Q () (s\<lparr>ai_quotas := (ai_quotas s)(key \<mapsto> count_usage (ai_quotas s key) tokens)\<rparr>))"
  by (rule ext) (simp add: ai_recordUsage_def ai_time_def wp_simps count_usage_def Let_def split: option.split)

lemma wp_usage:
  "wp (whenSome user (\<lambda>u. ai_recordUsage A u tokens)) Q X =
     (\<lambda>s. if truthy user then wp (ai_recordUsage A (the user) tokens) Q X s else Q () s)"
  by (simp add: wp_whenSome)

text \<open>A request while the breaker is open is refused before anything is sent.\<close>

definition circuit_refuses :: "int \<Rightarrow> CircuitBreakerState \<Rightarrow> bool" where
  "circuit_refuses now cb = isl (fst (checkCircuit now cb))"

lemma circuit_refuses_iff:
  "circuit_refuses now cb \<longleftrightarrow> cb_state cb = COpen \<and>
     now - (case cb_openedAt cb of None \<Rightarrow> 0 | Some t \<Rightarrow> t) < HALF_OPEN_AFTER_MS"
  by (auto simp: circuit_refuses_def checkCircuit_def Let_def)

lemma circuit_refused:
  "circuit_refuses now cb \<Longrightarrow> checkCircuit now cb = (Inl (Error ''Circuit breaker is open''), cb)"
  by (auto simp: circuit_refuses_def checkCircuit_def Let_def split: if_splits)

lemma generate_refused:
  "circuit_refuses (ae_now A (ai_world s)) (ai_cb s) \<Longrightarrow>
     openai_generate A prompt s = (Inl (Error ''Circuit breaker is open''), s)"
  by (simp add: openai_generate_def ai_time_def circuit_refused breakerE_def readE_def bindE_def seqE_def)

lemma fallback_total:
  assumes "ae_redis A = None"
  shows "wp (fallback_generate A prompt) (\<lambda>_ _. True) (\<lambda>_ _. False) s"
  unfolding fallback_generate_def wp_catchE
proof (rule wp_mono [where Q = "\<lambda>_ _. True" and X = "\<lambda>_ _. True"])
  show "wp (openai_generate A prompt) (\<lambda>_ _. True) (\<lambda>_ _. True) s" by simp
qed (simp_all add: wp_simps wp_cacheGet [OF assms])

lemma fallback_refused:
  assumes "ae_redis A = None" and "circuit_refuses (ae_now A (ai_world s)) (ai_cb s)"
    and "\<not> truthy (ai_cache s (ai_buildKey A prompt ''fallback''))"
  shows "wp (fallback_generate A prompt) Q X s = Q \<lparr>res_response = Some APOLOGY, res_tokensUsed = 0\<rparr> s"
  by (simp add: fallback_generate_def wp_simps wp_cacheGet [OF assms(1)] assms(3) wp_Inl [of "openai_generate A prompt", OF generate_refused [OF assms(2)]])

section \<open>The circuit breaker under interleaved requests\<close>

text \<open>
  A request runs \<open>checkCircuit\<close> when it starts and \<open>recordSuccess\<close> or \<open>recordFailure\<close> when the chat service
  answered; other requests may start or end in between. \<open>ru_flight\<close> counts the requests that were sent and not answered, and
  \<open>ru_failedAt\<close> is the time of the last request that failed; no operation of the breaker reads it.
\<close>

record circuit_run =
  ru_cb :: CircuitBreakerState
  ru_now :: int
  ru_flight :: nat
  ru_failedAt :: "int option"

inductive circuit_step :: "circuit_run \<Rightarrow> circuit_run \<Rightarrow> bool" where
  tick: "0 \<le> d \<Longrightarrow> circuit_step r (r\<lparr>ru_now := ru_now r + d\<rparr>)"
| send: "checkCircuit (ru_now r) (ru_cb r) = (Inr (), cb) \<Longrightarrow> circuit_step r (r\<lparr>ru_cb := cb, ru_flight := Suc (ru_flight r)\<rparr>)"
| refused: "checkCircuit (ru_now r) (ru_cb r) = (Inl e, cb) \<Longrightarrow> circuit_step r (r\<lparr>ru_cb := cb\<rparr>)"
| answered: "ru_flight r = Suc n \<Longrightarrow> circuit_step r (r\<lparr>ru_cb := recordSuccess (ru_cb r), ru_flight := n\<rparr>)"
| unreadable: "ru_flight r = Suc n \<Longrightarrow> circuit_step r
    (r\<lparr>ru_cb := recordFailure (ru_now r) (recordSuccess (ru_cb r)), ru_flight := n, ru_failedAt := Some (ru_now r)\<rparr>)"
| failed: "ru_flight r = Suc n \<Longrightarrow> circuit_step r
    (r\<lparr>ru_cb := recordFailure (ru_now r) (ru_cb r), ru_flight := n, ru_failedAt := Some (ru_now r)\<rparr>)"

inductive_cases circuit_stepE [elim]: "circuit_step r r'"

abbreviation circuit_steps :: "circuit_run \<Rightarrow> circuit_run \<Rightarrow> bool" where
  "circuit_steps \<equiv> circuit_step\<^sup>*\<^sup>*"

definition circuit_start :: "int \<Rightarrow> circuit_run" where
  "circuit_start t = \<lparr>ru_cb = circuit_init, ru_now = t, ru_flight = 0, ru_failedAt = None\<rparr>"

definition circuit_good :: "circuit_run \<Rightarrow> bool" where
  "circuit_good r = (let cb = ru_cb r in
     (cb_state cb = CClosed \<longleftrightarrow> cb_failures cb < FAILURE_THRESHOLD) \<and>
     (case cb_openedAt cb of None \<Rightarrow> cb_state cb = CClosed
      | Some t \<Rightarrow> cb_state cb \<noteq> CClosed \<and> t \<le> ru_now r \<and> ru_failedAt r = Some t))"

lemmas circuit_ops = checkCircuit_def recordSuccess_def recordFailure_def FAILURE_THRESHOLD_def HALF_OPEN_AFTER_MS_def

lemma circuit_step_good: "circuit_step r r' \<Longrightarrow> circuit_good r \<Longrightarrow> circuit_good r'"
  by (induction rule: circuit_step.induct)
    (auto simp: circuit_good_def circuit_ops Let_def split: option.splits if_splits)

lemma circuit_steps_good: "circuit_steps r r' \<Longrightarrow> circuit_good r \<Longrightarrow> circuit_good r'"
  by (induction rule: rtranclp_induct) (auto intro: circuit_step_good)

lemma circuit_start_good: "circuit_good (circuit_start t)"
  by (simp add: circuit_good_def circuit_start_def circuit_init_def FAILURE_THRESHOLD_def)

text \<open>One call of \<open>generate\<close>, run alone, is such steps.\<close>

definition run_of :: "'w ai_env \<Rightarrow> int option \<Rightarrow> 'w ai_state \<Rightarrow> circuit_run" where
  "run_of A f s = \<lparr>ru_cb = ai_cb s, ru_now = ae_now A (ai_world s), ru_flight = 0, ru_failedAt = f\<rparr>"

definition clock_forward :: "'w ai_env \<Rightarrow> bool" where
  "clock_forward A = (\<forall>q w. ae_now A w \<le> ae_now A (snd (ae_post A q w)))"

lemma send_steps:
  assumes "checkCircuit (ru_now r) (ru_cb r) = (Inr (), cb)" and "ru_now r \<le> t"
  shows "circuit_steps r (r\<lparr>ru_cb := cb, ru_flight := Suc (ru_flight r), ru_now := t\<rparr>)"
  using rtranclp.rtrancl_into_rtrancl [OF r_into_rtranclp [of circuit_step, OF send [OF assms(1)]] tick [of "t - ru_now r"]] assms(2)
  by simp

lemma generate_steps:
  assumes "clock_forward A"
  shows "wp (openai_generate A prompt) (\<lambda>_ s'. circuit_steps (run_of A f s) (run_of A f s'))
           (\<lambda>_ s'. \<exists>f'. circuit_steps (run_of A f s) (run_of A f' s')) s"
proof (cases "checkCircuit (ae_now A (ai_world s)) (ai_cb s)")
  case (Pair v cb)
  define w where "w = snd (ae_post A (chat_request_of A prompt) (ai_world s))"
  show ?thesis
  proof (cases v)
    case (Inl e)
    with Pair refused [of "run_of A f s" e cb] show ?thesis
      by (auto simp: openai_generate_def ai_time_def wp_simps wp_Inl run_of_def)
  next
    case (Inr u)
    have "ae_now A (ai_world s) \<le> ae_now A w" using assms by (simp add: clock_forward_def w_def)
    with Pair Inr send_steps [of "run_of A f s" cb "ae_now A w"]
    have sent: "circuit_steps (run_of A f s) \<lparr>ru_cb = cb, ru_now = ae_now A w, ru_flight = 1, ru_failedAt = f\<rparr>"
      by (simp add: run_of_def)
    note ends = rtranclp.rtrancl_into_rtrancl [OF sent]
    show ?thesis
      using ends [OF answered [of _ 0]] ends [OF unreadable [of _ 0]] ends [OF failed [of _ 0]] Pair Inr
      by (auto simp: openai_generate_def ai_time_def wp_simps wp_Inr run_of_def wp_def [of "ae_post A q" for q] w_def
          split: prod.splits sum.splits)
  qed
qed

text \<open>Opening the breaker, waiting, and starting requests.\<close>

definition closed_after :: "int \<Rightarrow> nat \<Rightarrow> circuit_run" where
  "closed_after t n = \<lparr>ru_cb = \<lparr>cb_failures = n, cb_openedAt = None, cb_state = CClosed\<rparr>, ru_now = t, ru_flight = 0,
     ru_failedAt = (if n = 0 then None else Some t)\<rparr>"

lemma failing_requests: "n < FAILURE_THRESHOLD \<Longrightarrow> circuit_steps (circuit_start t) (closed_after t n)"
proof (induction n)
  case 0
  then show ?case by (simp add: circuit_start_def circuit_init_def closed_after_def)
next
  case (Suc n)
  let ?sent = "closed_after t n\<lparr>ru_flight := 1\<rparr>"
  have "circuit_step (closed_after t n) ?sent"
    using send [of "closed_after t n" "ru_cb (closed_after t n)"] by (simp add: checkCircuit_def closed_after_def)
  moreover have "circuit_step ?sent (closed_after t (Suc n))"
    using failed [of ?sent 0] Suc.prems by (simp add: recordFailure_def closed_after_def)
  ultimately show ?case using Suc by (meson Suc_lessD rtranclp.rtrancl_into_rtrancl)
qed

definition half_open_with :: "int \<Rightarrow> nat \<Rightarrow> circuit_run" where
  "half_open_with t n = \<lparr>ru_cb = \<lparr>cb_failures = 5, cb_openedAt = Some t, cb_state = CHalfOpen\<rparr>,
     ru_now = t + HALF_OPEN_AFTER_MS, ru_flight = n, ru_failedAt = Some t\<rparr>"

definition open_since :: "int \<Rightarrow> int \<Rightarrow> circuit_run" where
  "open_since t now = \<lparr>ru_cb = \<lparr>cb_failures = 5, cb_openedAt = Some t, cb_state = COpen\<rparr>, ru_now = now, ru_flight = 0,
     ru_failedAt = Some t\<rparr>"

lemma reach_open: "t \<le> now \<Longrightarrow> circuit_steps (circuit_start t) (open_since t now)"
proof -
  assume now: "t \<le> now"
  let ?four = "closed_after t 4"
  have "circuit_steps (circuit_start t) ?four" by (rule failing_requests) (simp add: FAILURE_THRESHOLD_def)
  moreover have "circuit_step ?four (?four\<lparr>ru_flight := 1\<rparr>)"
    using send [of ?four "ru_cb ?four"] by (simp add: checkCircuit_def closed_after_def)
  moreover have "circuit_step (?four\<lparr>ru_flight := 1\<rparr>) (open_since t t)"
    using failed [of "?four\<lparr>ru_flight := 1\<rparr>" 0] by (simp add: recordFailure_def FAILURE_THRESHOLD_def closed_after_def open_since_def)
  moreover have "circuit_step (open_since t t) (open_since t now)"
    using tick [of "now - t" "open_since t t"] now by (simp add: open_since_def)
  ultimately show ?thesis by (meson rtranclp.rtrancl_into_rtrancl)
qed

lemma reach_half_open: "circuit_steps (circuit_start t) (half_open_with t 1)"
proof -
  have "circuit_steps (circuit_start t) (open_since t (t + HALF_OPEN_AFTER_MS))"
    by (rule reach_open) (simp add: HALF_OPEN_AFTER_MS_def)
  moreover have "circuit_step (open_since t (t + HALF_OPEN_AFTER_MS)) (half_open_with t 1)"
    using send [of "open_since t (t + HALF_OPEN_AFTER_MS)"] by (simp add: checkCircuit_def half_open_with_def open_since_def Let_def)
  ultimately show ?thesis by (rule rtranclp.rtrancl_into_rtrancl)
qed

text \<open>A chat service that is down, a clock as the world, and a breaker that opened at time 0.\<close>

definition demo_ai :: "int ai_env" where
  "demo_ai = \<lparr>ae_redis = None, ae_now = (\<lambda>w. w), ae_sha256 = (\<lambda>x. x), ae_post = (\<lambda>_. throwE (Error ''timeout'')),
     ae_apiKey = None, ae_timeoutMs = None, ae_model = None\<rparr>"

definition demo_open :: "int ai_state" where
  "demo_open = \<lparr>ai_world = 10, ai_cb = \<lparr>cb_failures = 5, cb_openedAt = Some 0, cb_state = COpen\<rparr>,
     ai_cache = (\<lambda>_. None), ai_quotas = (\<lambda>_. None)\<rparr>"

section \<open>Properties\<close>

text \<open>
  C13. However the requests interleave, refused ones included, the breaker is closed exactly while fewer than five failures are
  counted and then lets every request through; it has an opening time exactly when it is not closed, namely the time of the last
  request that failed, and a request made at the time \<open>now\<close> is let through exactly when the breaker is half open or a minute has
  passed since that opening: refusing requests does not put this off, so the breaker never locks up.
\<close>

theorem circuit_invariant:
  assumes "circuit_steps (circuit_start t) r"
  shows "(cb_state (ru_cb r) = CClosed \<longleftrightarrow> cb_failures (ru_cb r) < 5) \<and>
    (cb_state (ru_cb r) = CClosed \<longleftrightarrow> cb_openedAt (ru_cb r) = None) \<and>
    (cb_state (ru_cb r) = CClosed \<longrightarrow> (\<forall>now. checkCircuit now (ru_cb r) = (Inr (), ru_cb r))) \<and>
    (\<forall>a. cb_openedAt (ru_cb r) = Some a \<longrightarrow> a \<le> ru_now r \<and> ru_failedAt r = Some a \<and>
       (\<forall>now. fst (checkCircuit now (ru_cb r)) = Inr () \<longleftrightarrow> cb_state (ru_cb r) = CHalfOpen \<or> a + 60000 \<le> now))"
  using circuit_steps_good [OF assms circuit_start_good]
  by (cases "cb_state (ru_cb r)") (auto simp: circuit_good_def circuit_ops Let_def split: option.splits)

theorem circuit_invariant_witness:
  "ru_failedAt (open_since 0 59999) = Some 0 \<and> fst (checkCircuit 59999 (ru_cb (open_since 0 59999))) \<noteq> Inr () \<and>
   fst (checkCircuit 60000 (ru_cb (open_since 0 59999))) = Inr ()"
  using circuit_invariant [OF reach_open [of 0 59999]] by (simp add: open_since_def)

text \<open>
  The half-open breaker does not admit a single probe: any number of requests is sent at the same time.
\<close>

theorem half_open_admits_all:
  "circuit_steps (circuit_start t) (half_open_with t (Suc n)) \<and> cb_state (ru_cb (half_open_with t (Suc n))) = CHalfOpen"
proof (induction n)
  case 0
  then show ?case using reach_half_open by (simp add: half_open_with_def)
next
  case (Suc n)
  have "circuit_step (half_open_with t (Suc n)) (half_open_with t (Suc (Suc n)))"
    using send [of "half_open_with t (Suc n)"] by (simp add: checkCircuit_def half_open_with_def)
  with Suc show ?case by (auto simp: half_open_with_def intro: rtranclp.rtrancl_into_rtrancl)
qed

text \<open>
  Without Redis, as the module is put together, a prompt is refused exactly when its user has made 1000
  requests this month, with the state unchanged; every other prompt is answered and the answer is never marked as degraded.
\<close>

theorem handlePrompt_throws_only_on_quota:
  assumes "ae_redis A = None"
  shows "if quota_reached A (ar_userId dto) s
    then handlePrompt A dto s = (Inl (ForbiddenException ''Monthly AI usage quota exceeded''), s)
    else \<exists>r s'. handlePrompt A dto s = (Inr r, s') \<and> pr_degraded r = None"
proof (cases "quota_reached A (ar_userId dto) s")
  case True
  have "wp (handlePrompt A dto) (\<lambda>_ _. False) (\<lambda>e t. e = ForbiddenException ''Monthly AI usage quota exceeded'' \<and> t = s) s"
    by (simp add: handlePrompt_def wp_seqE wp_quota True)
  then show ?thesis using True by (simp add: wp_exn)
next
  case False
  have "wp (handlePrompt A dto) (\<lambda>r _. pr_degraded r = None) (\<lambda>_ _. False) s"
    by (simp add: handlePrompt_def wp_simps wp_quota wp_cacheGet [OF assms] False Let_def wp_cacheSet [OF assms]
        wp_usage wp_recordUsage impI wp_mono [OF fallback_total [OF assms]])
  with False show ?thesis unfolding wp_value by simp
qed

theorem handlePrompt_throws_only_on_quota_witness:
  "\<exists>r s'. handlePrompt demo_ai \<lparr>ar_prompt = ''hi'', ar_userId = Some ''u''\<rparr> demo_open = (Inr r, s') \<and> pr_degraded r = None"
  using handlePrompt_throws_only_on_quota [of demo_ai "\<lparr>ar_prompt = ''hi'', ar_userId = Some ''u''\<rparr>" demo_open]
  by (simp add: demo_ai_def demo_open_def quota_reached_def truthy_def)

text \<open>
  The excuse is cached as an answer: a prompt that meets an open breaker is answered with it, nothing is sent, it counts
  against the user's quota and it is stored under the key of the answers, without an expiry. From then on everyone who sends
  that prompt gets it as a cached answer, in every later state that keeps the entry, whatever the provider could do.
\<close>

theorem apology_is_cached:
  assumes "ae_redis A = None" and "circuit_refuses (ae_now A (ai_world s)) (ai_cb s)"
    and "\<not> truthy (ai_cache s (ai_buildKey A p ''gpt-4''))" and "\<not> truthy (ai_cache s (ai_buildKey A p ''fallback''))"
    and "u \<noteq> []" and "\<not> quota_reached A (Some u) s" and "key = ai_quotaKey u (ae_now A (ai_world s))"
  shows "\<exists>s'. handlePrompt A \<lparr>ar_prompt = p, ar_userId = Some u\<rparr> s =
      (Inr \<lparr>pr_response = Some APOLOGY, pr_cached = Some False, pr_degraded = None\<rparr>, s') \<and>
    ai_world s' = ai_world s \<and> ai_quotas s' key = Some (count_usage (ai_quotas s key) 0) \<and>
    (\<forall>t. ai_cache t = ai_cache s' \<longrightarrow> handlePrompt A \<lparr>ar_prompt = p, ar_userId = None\<rparr> t =
       (Inr \<lparr>pr_response = Some APOLOGY, pr_cached = Some True, pr_degraded = None\<rparr>, t))"
proof -
  define s' where "s' = s\<lparr>ai_cache := (ai_cache s)(ai_buildKey A p ''gpt-4'' \<mapsto> APOLOGY),
    ai_quotas := (ai_quotas s)(key \<mapsto> count_usage (ai_quotas s key) 0)\<rparr>"
  have "wp (handlePrompt A \<lparr>ar_prompt = p, ar_userId = Some u\<rparr>) (\<lambda>r t.
      r = \<lparr>pr_response = Some APOLOGY, pr_cached = Some False, pr_degraded = None\<rparr> \<and> t = s') (\<lambda>_ _. False) s"
    using assms(3,5,6,7) by (simp add: handlePrompt_def wp_simps wp_quota wp_cacheGet [OF assms(1)] wp_cacheSet [OF assms(1)]
        fallback_refused [OF assms(1,2,4)] wp_usage wp_recordUsage truthy_def Let_def s'_def)
  then have run: "handlePrompt A \<lparr>ar_prompt = p, ar_userId = Some u\<rparr> s =
      (Inr \<lparr>pr_response = Some APOLOGY, pr_cached = Some False, pr_degraded = None\<rparr>, s')"
    by (simp add: wp_value)
  have "wp (handlePrompt A \<lparr>ar_prompt = p, ar_userId = None\<rparr>) (\<lambda>r t'.
      r = \<lparr>pr_response = Some APOLOGY, pr_cached = Some True, pr_degraded = None\<rparr> \<and> t' = t) (\<lambda>_ _. False) t"
    if "ai_cache t = ai_cache s'" for t
    using that by (simp add: handlePrompt_def wp_simps wp_quota quota_reached_def wp_cacheGet [OF assms(1)] truthy_def APOLOGY_def Let_def s'_def)
  then show ?thesis using run by (intro exI [of _ s']) (simp add: wp_value, simp add: s'_def)
qed

theorem apology_is_cached_witness:
  "\<exists>s'. handlePrompt demo_ai \<lparr>ar_prompt = ''hi'', ar_userId = Some ''u''\<rparr> demo_open =
      (Inr \<lparr>pr_response = Some APOLOGY, pr_cached = Some False, pr_degraded = None\<rparr>, s') \<and>
    ai_quotas s' (ai_quotaKey ''u'' 10) = Some \<lparr>qr_requestCount = 1, qr_tokenCount = 0\<rparr>"
proof -
  have hyps: "ae_redis demo_ai = None" "circuit_refuses (ae_now demo_ai (ai_world demo_open)) (ai_cb demo_open)"
    "\<not> truthy (ai_cache demo_open k)" "\<not> quota_reached demo_ai (Some ''u'') demo_open" for k
    by (simp_all add: demo_ai_def demo_open_def quota_reached_def truthy_def circuit_refuses_def circuit_ops)
  have key: "ai_quotaKey ''u'' 10 = ai_quotaKey ''u'' (ae_now demo_ai (ai_world demo_open))"
    "count_usage (ai_quotas demo_open k) 0 = \<lparr>qr_requestCount = 1, qr_tokenCount = 0\<rparr>" for k
    by (simp_all add: demo_ai_def demo_open_def count_usage_def)
  from apology_is_cached [OF hyps(1-3) hyps(3) _ hyps(4) key(1)] key(2) show ?thesis
    by (metis (no_types, lifting) list.distinct(1))
qed

end
