(* ===== verification/Voice_Stream.thy ===== *)
theory Voice_Stream
  imports Voice_Session Llm
begin

text \<open>
  \<open>StreamingResponseService\<close> (src/Backend/src/voice/services/streaming-response.service.ts): the answers in progress, sent
  word by word to the client. The service's own memory, what it sent over the socket server and the timers it set live beside
  the store; a timer runs on its own, between any two requests, and an exception that leaves it has no handler.
\<close>

section \<open>Data\<close>

record StreamingChunk =
  sc_id :: string
  sc_content :: string
  sc_isComplete :: bool
  sc_isPartial :: bool

record StreamingResponse =
  sr_id :: string
  sr_sessionId :: string
  sr_chunks :: "StreamingChunk list"
  sr_startTime :: int
  sr_endTime :: "int option"
  sr_isInterrupted :: bool

text \<open>The events of the \<open>/voice\<close> namespace, with what happens to a socket itself.\<close>

datatype voice_event =
    VThinking string string
  | VResponding string string
  | VChunk string string StreamingChunk
  | VComplete string string string
  | VInterrupted string string
  | VError "string option" string
  | VResumed string ConversationState
  | VSessionCreated VoiceSession
  | VInterruptAcknowledged string "string option"
  | VStateUpdated string ConversationState
  | VTerminated string
  | VPong int
  | VJoin string
  | VLeave string
  | VDisconnect

text \<open>
  A timer is the continuation it runs: the start of the answer, or the iteration \<open>i\<close> of the loop over the words with the
  text so far.
\<close>

record word_loop =
  wl_room :: string
  wl_sessionId :: string
  wl_streamId :: string
  wl_words :: "string list"
  wl_i :: nat
  wl_currentText :: string
  wl_fullResponse :: string

datatype stream_task = GenerateTask string string string | WordTask word_loop

record streaming =
  sm_active :: "(string \<times> StreamingResponse) list"
  sm_sent :: "(string \<times> voice_event) list"
  sm_timers :: "stream_task list"
  sm_unhandled :: "exn list"

record 's stream_env =
  sv_voice :: "'s voice_env"
  sv_llm :: "('s, VoiceSession) llm_env"
  sv_stringify :: "VoiceSession \<Rightarrow> string"
  sv_uuid :: "'s \<times> streaming \<Rightarrow> string"

section \<open>The memory of the service\<close>

definition emit :: "string \<Rightarrow> voice_event \<Rightarrow> streaming \<Rightarrow> streaming" where
  "emit room event l = l\<lparr>sm_sent := sm_sent l @ [(room, event)]\<rparr>"

definition set_stream :: "string \<Rightarrow> StreamingResponse \<Rightarrow> streaming \<Rightarrow> streaming" where
  "set_stream i r l = l\<lparr>sm_active := assoc_set i r (sm_active l)\<rparr>"

definition delete_stream :: "string \<Rightarrow> streaming \<Rightarrow> streaming" where
  "delete_stream i l = l\<lparr>sm_active := map_delete i (sm_active l)\<rparr>"

definition setTimeout :: "stream_task \<Rightarrow> streaming \<Rightarrow> streaming" where
  "setTimeout task l = l\<lparr>sm_timers := sm_timers l @ [task]\<rparr>"

definition room_of :: "VoiceSession \<Rightarrow> string \<Rightarrow> string" where
  "room_of session sessionId = or_str (vs_socketId session) sessionId"

text \<open>The text of a Redis value.\<close>

definition text_of :: "'s stream_env \<Rightarrow> VoiceSession rtext \<Rightarrow> string" where
  "text_of A t = (case t of Txt x \<Rightarrow> x | Json v \<Rightarrow> sv_stringify A v)"

definition noOptions :: LlmResponseOptions where
  "noOptions = \<lparr>lo_model = None, lo_useCache = None, lo_recordQuota = None, lo_cacheTtl = None\<rparr>"

section \<open>Streaming an answer\<close>

definition startStreamingResponse :: "'s stream_env \<Rightarrow> string \<Rightarrow> string \<Rightarrow> ('s \<times> streaming, string) prog" where
  "startStreamingResponse A sessionId userMessage =
     bindE (readE (sv_uuid A)) (\<lambda>streamId.
     bindE (liftL (getSession (sv_voice A) sessionId)) (\<lambda>found. case found of
       None \<Rightarrow> throwE (Error (''Session '' @ sessionId @ '' not found''))
     | Some session \<Rightarrow>
         seqE (liftL (ignoreE (addMessage (sv_voice A) sessionId userMessage True None)))
         (seqE (liftL (ignoreE (updateSessionState (sv_voice A) sessionId THINKING)))
         (bindE (liftL (readE (ve_now (sv_voice A)))) (\<lambda>now.
          seqE (modL (set_stream streamId \<lparr>sr_id = streamId, sr_sessionId = sessionId, sr_chunks = [], sr_startTime = now,
                  sr_endTime = None, sr_isInterrupted = False\<rparr>))
          (seqE (modL (emit (room_of session sessionId) (VThinking sessionId streamId)))
          (seqE (modL (setTimeout (GenerateTask sessionId streamId userMessage)))
            (returnE streamId))))))))"

definition completeStreamingResponse :: "'s stream_env \<Rightarrow> string \<Rightarrow> string \<Rightarrow> string \<Rightarrow> ('s \<times> streaming, unit) prog" where
  "completeStreamingResponse A sessionId streamId fullResponse =
     bindE (liftL (getSession (sv_voice A) sessionId)) (\<lambda>found. case found of
       None \<Rightarrow> returnE ()
     | Some session \<Rightarrow> bindE getL (\<lambda>l. case map_of (sm_active l) streamId of
         None \<Rightarrow> returnE ()
       | Some streamingResponse \<Rightarrow>
           bindE (liftL (readE (ve_now (sv_voice A)))) (\<lambda>now.
           seqE (modL (set_stream streamId (streamingResponse\<lparr>sr_endTime := Some now\<rparr>)))
           (seqE (liftL (ignoreE (addMessage (sv_voice A) sessionId fullResponse False None)))
           (seqE (modL (emit (room_of session sessionId) (VComplete sessionId streamId fullResponse)))
           (seqE (liftL (ignoreE (updateSessionState (sv_voice A) sessionId LISTENING)))
             (modL (delete_stream streamId))))))))"

text \<open>One iteration of the loop over the words; the delay of all but the last sets a timer for the next.\<close>

definition streamWord :: "'s stream_env \<Rightarrow> word_loop \<Rightarrow> ('s \<times> streaming, unit) prog" where
  "streamWord A w =
     bindE getL (\<lambda>l. case map_of (sm_active l) (wl_streamId w) of
       None \<Rightarrow> returnE ()
     | Some check \<Rightarrow>
         if sr_isInterrupted check then returnE ()
         else let i = wl_i w; last = length (wl_words w) - 1;
                  currentText = wl_currentText w @ (if 0 < i then '' '' else []) @ wl_words w ! i in
           bindE (readE (sv_uuid A)) (\<lambda>uuid.
           let chunk = \<lparr>sc_id = uuid, sc_content = currentText, sc_isComplete = (i = last), sc_isPartial = (i < last)\<rparr> in
           seqE (modL (set_stream (wl_streamId w) (check\<lparr>sr_chunks := sr_chunks check @ [chunk]\<rparr>)))
           (seqE (modL (emit (wl_room w) (VChunk (wl_sessionId w) (wl_streamId w) chunk)))
             (if i < last then modL (setTimeout (WordTask (w\<lparr>wl_i := i + 1, wl_currentText := currentText\<rparr>)))
              else completeStreamingResponse A (wl_sessionId w) (wl_streamId w) (wl_fullResponse w)))))"

definition generateStreamingResponse :: "'s stream_env \<Rightarrow> string \<Rightarrow> string \<Rightarrow> string \<Rightarrow> ('s \<times> streaming, unit) prog" where
  "generateStreamingResponse A sessionId streamId userMessage =
     bindE (liftL (getSession (sv_voice A) sessionId)) (\<lambda>found. case found of
       None \<Rightarrow> returnE ()
     | Some session \<Rightarrow> bindE getL (\<lambda>l. case map_of (sm_active l) streamId of
         None \<Rightarrow> returnE ()
       | Some streamingResponse \<Rightarrow>
           if sr_isInterrupted streamingResponse then returnE ()
           else
             seqE (liftL (ignoreE (updateSessionState (sv_voice A) sessionId RESPONDING)))
             (bindE (liftL (generateResponse (sv_llm A) (or_str (Some (vs_userId session)) ''anonymous'') sessionId userMessage noOptions))
               (\<lambda>response. let fullResponse = text_of A (lr_content response) in
                seqE (modL (emit (room_of session sessionId) (VResponding sessionId streamId)))
                  (streamWord A \<lparr>wl_room = room_of session sessionId, wl_sessionId = sessionId, wl_streamId = streamId,
                     wl_words = js_split CHR '' '' fullResponse, wl_i = 0, wl_currentText = [], wl_fullResponse = fullResponse\<rparr>)))))"

definition run_task :: "'s stream_env \<Rightarrow> stream_task \<Rightarrow> ('s \<times> streaming, unit) prog" where
  "run_task A task = (case task of
       GenerateTask sessionId streamId userMessage \<Rightarrow> generateStreamingResponse A sessionId streamId userMessage
     | WordTask w \<Rightarrow> streamWord A w)"

text \<open>The event loop runs a timer; a rejected promise of the callback is not handled by anyone.\<close>

definition fire :: "'s stream_env \<Rightarrow> nat \<Rightarrow> ('s \<times> streaming, unit) prog" where
  "fire A k = bindE getL (\<lambda>l.
     if k < length (sm_timers l)
     then seqE (modL (\<lambda>l. l\<lparr>sm_timers := take k (sm_timers l) @ drop (Suc k) (sm_timers l)\<rparr>))
       (catchE (run_task A (sm_timers l ! k)) (\<lambda>e. modL (\<lambda>l. l\<lparr>sm_unhandled := sm_unhandled l @ [e]\<rparr>)))
     else returnE ())"

text \<open>The event loop with no request in between: \<open>n\<close> times the oldest timer.\<close>

primrec drain :: "'s stream_env \<Rightarrow> nat \<Rightarrow> ('s \<times> streaming, unit) prog" where
  "drain A 0 = returnE ()"
| "drain A (Suc n) = seqE (fire A 0) (drain A n)"

section \<open>Interrupting\<close>

definition mark_interrupted :: "int \<Rightarrow> string \<Rightarrow> StreamingResponse \<Rightarrow> streaming \<Rightarrow> streaming" where
  "mark_interrupted now i response l = set_stream i (response\<lparr>sr_isInterrupted := True, sr_endTime := Some now\<rparr>) l"

text \<open>The bodies of the two loops that interrupt all streams of a session.\<close>

definition mark_loop :: "int \<Rightarrow> string \<Rightarrow> string \<Rightarrow> string \<times> StreamingResponse \<Rightarrow> ('s \<times> streaming, unit) prog" where
  "mark_loop now room i = (\<lambda>(k, response).
     whenE (sr_sessionId response = i)
       (seqE (modL (mark_interrupted now k response)) (modL (emit room (VInterrupted i k)))))"

definition delete_loop :: "string \<Rightarrow> string \<Rightarrow> ('s \<times> streaming, unit) prog" where
  "delete_loop i k = bindE getL (\<lambda>l'.
     whenE (\<exists>response \<in> set_option (map_of (sm_active l') k). sr_sessionId response = i) (modL (delete_stream k)))"

definition interruptStream :: "'s stream_env \<Rightarrow> string \<Rightarrow> string option \<Rightarrow> ('s \<times> streaming, bool) prog" where
  "interruptStream A sessionId streamId =
     bindE (liftL (getSession (sv_voice A) sessionId)) (\<lambda>found. case found of
       None \<Rightarrow> returnE False
     | Some session \<Rightarrow>
         bindE (liftL (readE (ve_now (sv_voice A)))) (\<lambda>now. bindE getL (\<lambda>l.
         seqE
           (if truthy streamId
            then (case map_of (sm_active l) (the streamId) of
                None \<Rightarrow> returnE ()
              | Some response \<Rightarrow>
                  seqE (modL (mark_interrupted now (the streamId) response))
                  (seqE (modL (emit (room_of session sessionId) (VInterrupted sessionId (the streamId))))
                    (modL (delete_stream (the streamId)))))
            else seqE
              (forE (sm_active l) (mark_loop now (room_of session sessionId) sessionId))
              (forE (map fst (sm_active l)) (delete_loop sessionId)))
           (seqE (liftL (ignoreE (interruptSession (sv_voice A) sessionId))) (returnE True)))))"

definition getActiveStreamCount :: "streaming \<Rightarrow> nat" where
  "getActiveStreamCount l = length (sm_active l)"

definition getActiveStreamsForSession :: "string \<Rightarrow> streaming \<Rightarrow> StreamingResponse list" where
  "getActiveStreamsForSession sessionId l = filter (\<lambda>r. sr_sessionId r = sessionId) (map snd (sm_active l))"

section \<open>Facts about the texts and the map\<close>

lemma js_join_snoc: "ws \<noteq> [] \<Longrightarrow> js_join sep (ws @ [w]) = js_join sep ws @ sep @ w"
  by (induction sep ws rule: js_join.induct) auto

lemma js_join_split: "js_join [c] (js_split c s) = s"
proof (induction s)
  case (Cons x s)
  then show ?case
    by (cases "js_split c s"; cases "tl (js_split c s)") auto
qed simp

lemma js_join_take:
  "i < length ws \<Longrightarrow> js_join sep (take (Suc i) ws) = js_join sep (take i ws) @ (if 0 < i then sep else []) @ ws ! i"
  using js_join_snoc [of "take i ws" sep "ws ! i"]
  by (cases "i = 0") (simp_all add: take_Suc_conv_app_nth, metis length_0_conv less_nat_zero_code)

lemma assoc_set_same: "map_of m k = Some v \<Longrightarrow> assoc_set k v m = m"
  by (induction k v m rule: assoc_set.induct) (auto split: if_splits)

lemma assoc_set_twice [simp]: "assoc_set k v (assoc_set k u m) = assoc_set k v m"
  by (induction m) auto

section \<open>The loop over the words\<close>

text \<open>The chunk of iteration \<open>i\<close>: the first \<open>i + 1\<close> words, complete exactly with the last one.\<close>

definition chunk_ok :: "string list \<Rightarrow> nat \<Rightarrow> StreamingChunk \<Rightarrow> bool" where
  "chunk_ok words i c \<longleftrightarrow> sc_content c = js_join '' '' (take (Suc i) words) \<and>
     (sc_isComplete c \<longleftrightarrow> Suc i = length words) \<and> (sc_isPartial c \<longleftrightarrow> Suc i < length words)"

definition chunk_events :: "word_loop \<Rightarrow> StreamingChunk list \<Rightarrow> (string \<times> voice_event) list" where
  "chunk_events w cs = map (\<lambda>c. (wl_room w, VChunk (wl_sessionId w) (wl_streamId w) c)) cs"

definition at_word :: "word_loop \<Rightarrow> nat \<Rightarrow> word_loop" where
  "at_word w k = w\<lparr>wl_i := k, wl_currentText := js_join '' '' (take k (wl_words w))\<rparr>"

text \<open>After \<open>k\<close> words the chunks were sent and recorded and nothing else happened.\<close>

definition after_words :: "word_loop \<Rightarrow> StreamingResponse \<Rightarrow> streaming \<Rightarrow> StreamingChunk list \<Rightarrow> streaming" where
  "after_words w r l cs = l\<lparr>sm_active := assoc_set (wl_streamId w) (r\<lparr>sr_chunks := sr_chunks r @ cs\<rparr>) (sm_active l),
     sm_sent := sm_sent l @ chunk_events w cs\<rparr>"

lemma at_word_fields [simp]:
  "wl_room (at_word w k) = wl_room w" "wl_sessionId (at_word w k) = wl_sessionId w" "wl_streamId (at_word w k) = wl_streamId w"
  "wl_words (at_word w k) = wl_words w" "wl_i (at_word w k) = k" "wl_fullResponse (at_word w k) = wl_fullResponse w"
  "wl_currentText (at_word w k) = js_join '' '' (take k (wl_words w))" "at_word (at_word w j) k = at_word w k"
  by (simp_all add: at_word_def)

lemma after_words_snoc: "emit (wl_room w) (VChunk (wl_sessionId w) (wl_streamId w) c)
    (set_stream (wl_streamId w) (r\<lparr>sr_chunks := sr_chunks r @ cs @ [c]\<rparr>) (after_words w r l cs)) = after_words w r l (cs @ [c])"
  by (simp add: after_words_def emit_def set_stream_def chunk_events_def)

definition after_chunk :: "'s stream_env \<Rightarrow> word_loop \<Rightarrow> nat \<Rightarrow> ('s \<times> streaming, unit) prog" where
  "after_chunk A w k = (if Suc k < length (wl_words w) then modL (setTimeout (WordTask (at_word w (Suc k))))
     else completeStreamingResponse A (wl_sessionId w) (wl_streamId w) (wl_fullResponse w))"

lemma streamWord_wp:
  assumes "k < length (wl_words w)" and "\<not> sr_isInterrupted r"
    and "\<And>c. chunk_ok (wl_words w) k c \<Longrightarrow> wp (after_chunk A w k) Q X (s, after_words w r l (cs @ [c]))"
  shows "wp (streamWord A (at_word w k)) Q X (s, after_words w r l cs)"
proof -
  define c where "c = \<lparr>sc_id = sv_uuid A (s, after_words w r l cs), sc_content = js_join '' '' (take (Suc k) (wl_words w)),
    sc_isComplete = (k = length (wl_words w) - 1), sc_isPartial = (k < length (wl_words w) - 1)\<rparr>"
  have c: "chunk_ok (wl_words w) k c" using assms(1) by (auto simp: chunk_ok_def c_def)
  have next_word: "(at_word w k)\<lparr>wl_i := Suc k, wl_currentText := js_join '' '' (take (Suc k) (wl_words w))\<rparr> = at_word w (Suc k)"
    by (simp add: at_word_def)
  have active: "map_of (sm_active (after_words w r l cs)) (wl_streamId w) = Some (r\<lparr>sr_chunks := sr_chunks r @ cs\<rparr>)"
    by (simp add: after_words_def)
  note run = streamWord_def wp_simps active Let_def js_join_take [OF assms(1), symmetric] after_words_snoc next_word
  show ?thesis
  proof (cases "Suc k < length (wl_words w)")
    case True
    with assms(1,2) assms(3) [OF c] show ?thesis
      by (simp add: run after_chunk_def c_def less_diff_conv)
  next
    case False
    with assms(1) have "length (wl_words w) = Suc k" by simp
    with assms(2) assms(3) [OF c] show ?thesis
      by (simp add: run after_chunk_def c_def)
  qed
qed


section \<open>Completing and running to the end\<close>

text \<open>The session after an answer: one message more, and back to listening where the conversation table allows it.\<close>

definition answered_session :: "string \<Rightarrow> VoiceSession \<Rightarrow> VoiceSession \<Rightarrow> bool" where
  "answered_session full x y \<longleftrightarrow>
     (\<exists>m. vs_messages y = vs_messages x @ [m] \<and> vm_content m = full \<and> \<not> vm_isUser m) \<and>
     vs_state y = (if canTransition (vs_state x) LISTENING then LISTENING else vs_state x)"

lemma delete_after_set [simp]: "map_delete k (assoc_set k v m) = map_delete k m"
  by (induction k v m rule: assoc_set.induct) (auto simp: map_delete_def)

locale stream_store = voice_store "sv_voice A" cell ttl
  for A :: "'s stream_env" and cell ttl
begin

lemma addMessage_wp:
  assumes "wf s" and "stored s i = Some x"
    and "\<And>m s'. wf s' \<Longrightarrow> stored s' = (stored s)(i \<mapsto> x\<lparr>vs_messages := vs_messages x @ [m], vs_lastActivityAt := ve_now (sv_voice A) s\<rparr>) \<Longrightarrow>
      vm_content m = c \<Longrightarrow> vm_isUser m = b \<Longrightarrow> Q True s'"
  shows "wp (addMessage (sv_voice A) i c b md) Q X s"
  unfolding addMessage_def by (rule wp_mono [OF updateSession_wp [OF assms(1)]]) (auto simp: assms(2) intro!: assms(3))

lemma updateState_wp:
  assumes "wf s" and "stored s i = Some x"
    and "\<And>s' y. wf s' \<Longrightarrow> stored s' = (stored s)(i \<mapsto> y) \<Longrightarrow> vs_messages y = vs_messages x \<Longrightarrow> vs_userId y = vs_userId x \<Longrightarrow>
      vs_socketId y = vs_socketId x \<Longrightarrow> vs_state y = (if canTransition (vs_state x) st then st else vs_state x) \<Longrightarrow>
      Q (canTransition (vs_state x) st) s'"
  shows "wp (updateSessionState (sv_voice A) i st) Q X s"
  by (rule wp_mono [OF updateSessionState_wp [OF assms(1)]])
    (use assms(2) assms(3) [of _ x] assms(3) [of _ "x\<lparr>vs_state := st, vs_lastActivityAt := t\<rparr>" for t]
     in \<open>auto simp: fun_upd_idem split: if_splits\<close>)

lemma complete_wp:
  assumes "wf s" and "stored s i = Some x" and "map_of (sm_active l) st = Some r"
    and "\<And>s' y. wf s' \<Longrightarrow> stored s' = (stored s)(i \<mapsto> y) \<Longrightarrow> answered_session full x y \<Longrightarrow>
      Q () (s', l\<lparr>sm_sent := sm_sent l @ [(room_of x i, VComplete i st full)], sm_active := map_delete st (sm_active l)\<rparr>)"
  shows "wp (completeStreamingResponse A i st full) Q X (s, l)"
proof -
  let ?l' = "l\<lparr>sm_sent := sm_sent l @ [(room_of x i, VComplete i st full)], sm_active := map_delete st (sm_active l)\<rparr>"
  have "wp (addMessage (sv_voice A) i full False None)
     (\<lambda>_. wp (updateSessionState (sv_voice A) i LISTENING) (\<lambda>_ s'. Q () (s', ?l')) (\<lambda>e s'. X e (s', l1)))
     (\<lambda>e s'. X e (s', l2)) s" for l1 l2
  proof (rule addMessage_wp [OF assms(1,2)], goal_cases)
    case (1 m s1)
    show ?case
      by (rule updateState_wp [OF 1(1), of i]) (simp add: 1(2), rule assms(4), use 1(2-4) in \<open>auto simp: answered_session_def\<close>)
  qed
  then show ?thesis
    unfolding completeStreamingResponse_def
    by (simp add: wp_simps getSession_wp [OF assms(1)] assms(2,3) emit_def set_stream_def delete_stream_def)
qed

lemma fire_wp:
  assumes "sm_timers l = [t]" and "wp (run_task A t) Q (\<lambda>_ _. False) (s, l\<lparr>sm_timers := []\<rparr>)"
  shows "wp (fire A 0) Q X (s, l)"
  using wp_mono [OF assms(2), of Q] by (simp add: fire_def wp_simps assms(1))

lemma timer_of [simp]:
  "sm_timers l = [] \<Longrightarrow> setTimeout t (after_words w r l cs) = (after_words w r l cs)\<lparr>sm_timers := [t]\<rparr>"
  "sm_timers l = [] \<Longrightarrow> (after_words w r l cs)\<lparr>sm_timers := []\<rparr> = after_words w r l cs"
  by (simp_all add: setTimeout_def after_words_def)

lemma drain_words:
  assumes "wf s" and "stored s (wl_sessionId w) = Some x" and "\<not> sr_isInterrupted r" and "sm_timers l = []"
    and "k + Suc n = length (wl_words w)" and "length cs = k" and "\<forall>j < k. chunk_ok (wl_words w) j (cs ! j)"
    and ended: "\<And>s' y cs'. wf s' \<Longrightarrow> stored s' = (stored s)(wl_sessionId w \<mapsto> y) \<Longrightarrow> answered_session (wl_fullResponse w) x y \<Longrightarrow>
      length cs' = length (wl_words w) \<Longrightarrow> \<forall>j < length cs'. chunk_ok (wl_words w) j (cs' ! j) \<Longrightarrow>
      Q () (s', l\<lparr>sm_sent := sm_sent l @ chunk_events w cs' @
          [(room_of x (wl_sessionId w), VComplete (wl_sessionId w) (wl_streamId w) (wl_fullResponse w))],
        sm_active := map_delete (wl_streamId w) (sm_active l)\<rparr>)"
  shows "wp (streamWord A (at_word w k)) (\<lambda>_. wp (drain A n) Q (\<lambda>_ _. False)) (\<lambda>_ _. False) (s, after_words w r l cs)"
  using assms(5-7)
proof (induction n arbitrary: k cs)
  case 0
  then have k: "k < length (wl_words w)" "\<not> Suc k < length (wl_words w)" by simp_all
  show ?case
  proof (rule streamWord_wp [OF k(1) assms(3)])
    fix c assume "chunk_ok (wl_words w) k c"
    then have chunks: "\<forall>j < Suc k. chunk_ok (wl_words w) j ((cs @ [c]) ! j)"
      using "0.prems"(2,3) by (auto simp: nth_append less_Suc_eq)
    have "map_of (sm_active (after_words w r l (cs @ [c]))) (wl_streamId w) = Some (r\<lparr>sr_chunks := sr_chunks r @ cs @ [c]\<rparr>)"
      by (simp add: after_words_def)
    then have "wp (completeStreamingResponse A (wl_sessionId w) (wl_streamId w) (wl_fullResponse w)) Q (\<lambda>_ _. False)
        (s, after_words w r l (cs @ [c]))"
    proof (rule complete_wp [OF assms(1,2)], goal_cases)
      case (1 s' y)
      from ended [OF this, of "cs @ [c]"] chunks "0.prems" show ?case by (simp add: after_words_def)
    qed
    with k(2) show "wp (after_chunk A w k) (\<lambda>_. wp (drain A 0) Q (\<lambda>_ _. False)) (\<lambda>_ _. False) (s, after_words w r l (cs @ [c]))"
      by (simp add: after_chunk_def wp_simps)
  qed
next
  case (Suc n)
  then have k: "k < length (wl_words w)" "Suc k < length (wl_words w)" by simp_all
  show ?case
  proof (rule streamWord_wp [OF k(1) assms(3)])
    fix c assume c: "chunk_ok (wl_words w) k c"
    have "wp (streamWord A (at_word w (Suc k))) (\<lambda>_. wp (drain A n) Q (\<lambda>_ _. False)) (\<lambda>_ _. False) (s, after_words w r l (cs @ [c]))"
      using Suc.prems c by (intro Suc.IH) (auto simp: nth_append less_Suc_eq)
    then have "wp (fire A 0) (\<lambda>_. wp (drain A n) Q (\<lambda>_ _. False)) (\<lambda>_ _. False)
        (s, (after_words w r l (cs @ [c]))\<lparr>sm_timers := [WordTask (at_word w (Suc k))]\<rparr>)"
      using assms(4) by (intro fire_wp [where t = "WordTask (at_word w (Suc k))"]) (simp_all add: run_task_def)
    with k(2) assms(4) show "wp (after_chunk A w k) (\<lambda>_. wp (drain A (Suc n)) Q (\<lambda>_ _. False)) (\<lambda>_ _. False)
        (s, after_words w r l (cs @ [c]))"
      by (simp add: after_chunk_def wp_simps)
  qed
qed

lemma interruptSession_wp:
  assumes "wf s" and "stored s i = Some x"
    and "\<And>b s' y. wf s' \<Longrightarrow> stored s' = (stored s)(i \<mapsto> y) \<Longrightarrow>
      vs_state y = (if isInterruptible (vs_state x) then INTERRUPTED else vs_state x) \<Longrightarrow> Q b s'"
  shows "wp (interruptSession (sv_voice A) i) Q X s"
proof (cases "isInterruptible (vs_state x)")
  case True
  then have "canTransition (vs_state x) INTERRUPTED"
    by (auto simp: isInterruptible_def canTransition_def)
  with True show ?thesis
    by (simp add: interruptSession_def wp_simps getSession_wp [OF assms(1)] assms(2))
      (rule updateState_wp [OF assms(1,2)], rule assms(3), auto)
next
  case False
  with assms show ?thesis
    by (simp add: interruptSession_def wp_simps getSession_wp [OF assms(1)] assms(3) [of s x] fun_upd_idem)
qed

end

text \<open>The effect of the two loops.\<close>

definition of_session :: "string \<Rightarrow> string \<times> StreamingResponse \<Rightarrow> bool" where
  "of_session i p = (sr_sessionId (snd p) = i)"

definition session_at :: "streaming \<Rightarrow> string \<Rightarrow> string option" where
  "session_at l k = map_option sr_sessionId (map_of (sm_active l) k)"

lemma mark_loop_wp:
  assumes "\<forall>p \<in> set ps. session_at l (fst p) = Some (sr_sessionId (snd p))"
    and "\<And>l'. session_at l' = session_at l \<Longrightarrow> (\<forall>k. session_at l k \<noteq> Some i \<longrightarrow> map_of (sm_active l') k = map_of (sm_active l) k) \<Longrightarrow>
      sm_sent l' = sm_sent l @ map (\<lambda>p. (room, VInterrupted i (fst p))) (filter (of_session i) ps) \<Longrightarrow>
      sm_timers l' = sm_timers l \<Longrightarrow> sm_unhandled l' = sm_unhandled l \<Longrightarrow> Q () (s, l')"
  shows "wp (forE ps (mark_loop now room i)) Q X (s, l)"
  using assms
proof (induction ps arbitrary: l)
  case (Cons p ps)
  obtain k r where p: "p = (k, r)" by (cases p)
  let ?l = "emit room (VInterrupted i k) (mark_interrupted now k r l)"
  show ?case
  proof (cases "sr_sessionId r = i")
    case True
    with Cons.prems(1) p have k: "session_at l k = Some i" by simp
    then have same: "session_at ?l = session_at l" using True
      by (auto simp: session_at_def emit_def mark_interrupted_def set_stream_def fun_eq_iff)
    have "wp (forE ps (mark_loop now room i)) Q X (s, ?l)"
    proof (rule Cons.IH, goal_cases)
      case 1
      then show ?case using Cons.prems(1) same by simp
    next
      case (2 l')
      then show ?case using same k True p
        by (intro Cons.prems(2)) (auto simp: of_session_def emit_def mark_interrupted_def set_stream_def)
    qed
    with True p show ?thesis by (simp add: wp_simps mark_loop_def)
  next
    case False
    with Cons p show ?thesis by (simp add: wp_simps mark_loop_def of_session_def)
  qed
qed (simp add: wp_simps)

lemma delete_loop_wp:
  assumes "\<And>l'. (\<forall>k. map_of (sm_active l') k = (if k \<in> set ks \<and> session_at l k = Some i then None else map_of (sm_active l) k)) \<Longrightarrow>
      sm_sent l' = sm_sent l \<Longrightarrow> sm_timers l' = sm_timers l \<Longrightarrow> sm_unhandled l' = sm_unhandled l \<Longrightarrow> Q () (s, l')"
  shows "wp (forE ks (delete_loop i)) Q X (s, l)"
  using assms
proof (induction ks arbitrary: l)
  case (Cons k ks)
  show ?case
  proof (cases "session_at l k = Some i")
    case True
    have "wp (forE ks (delete_loop i)) Q X (s, delete_stream k l)"
      by (rule Cons.IH, rule Cons.prems) (use True in \<open>auto simp: delete_stream_def session_at_def\<close>)
    with True show ?thesis by (auto simp: wp_simps delete_loop_def [of i k] session_at_def)
  next
    case False
    have "wp (forE ks (delete_loop i)) Q X (s, l)"
      by (rule Cons.IH, rule Cons.prems) (use False in auto)
    with False show ?thesis by (auto simp: wp_simps delete_loop_def [of i k] session_at_def)
  qed
qed (simp add: wp_simps)

context stream_store
begin

lemma interrupt_all_wp:
  assumes "wf s" and "stored s i = Some x" and "distinct (map fst (sm_active l))"
    and "\<And>s' y l'. wf s' \<Longrightarrow> stored s' = (stored s)(i \<mapsto> y) \<Longrightarrow>
      vs_state y = (if isInterruptible (vs_state x) then INTERRUPTED else vs_state x) \<Longrightarrow>
      (\<forall>k. map_of (sm_active l') k = (if session_at l k = Some i then None else map_of (sm_active l) k)) \<Longrightarrow>
      sm_sent l' = sm_sent l @ map (\<lambda>p. (room_of x i, VInterrupted i (fst p))) (filter (of_session i) (sm_active l)) \<Longrightarrow>
      sm_timers l' = sm_timers l \<Longrightarrow> sm_unhandled l' = sm_unhandled l \<Longrightarrow> Q True (s', l')"
  shows "wp (interruptStream A i None) Q X (s, l)"
proof -
  have graph: "\<forall>p \<in> set (sm_active l). session_at l (fst p) = Some (sr_sessionId (snd p))"
    using assms(3) by (auto simp: session_at_def)
  have keys: "session_at l k = Some i \<Longrightarrow> k \<in> set (map fst (sm_active l))" for k
    by (auto simp: session_at_def dest!: map_of_SomeD intro: rev_image_eqI)
  have "wp (forE (sm_active l) (mark_loop now (room_of x i) i))
      (\<lambda>_. wp (forE (map fst (sm_active l)) (delete_loop i))
        (\<lambda>_ p. wp (interruptSession (sv_voice A) i) (\<lambda>_ s'. Q True (s', snd p)) (\<lambda>e s'. X e (s', snd p)) (fst p)) X) X (s, l)" for now
  proof (rule mark_loop_wp [OF graph], rule delete_loop_wp, goal_cases)
    case (1 l1 l2)
    have "map_of (sm_active l2) k = (if session_at l k = Some i then None else map_of (sm_active l) k)" for k
      using 1(1,2,6) keys [of k] by auto
    with 1 show ?case
      by (simp, intro interruptSession_wp [OF assms(1,2)] assms(4) [where l' = l2]) simp_all
  qed
  then show ?thesis
    by (simp add: interruptStream_def wp_simps getSession_wp [OF assms(1)] assms(2) truthy_def)
qed

lemma removed_task:
  assumes "wf s" and "map_of (sm_active l) (case t of GenerateTask _ st _ \<Rightarrow> st | WordTask w \<Rightarrow> wl_streamId w) = None"
  shows "run_task A t (s, l) = (Inr (), (s, l))"
proof -
  have "wp (run_task A t) (\<lambda>_ p. p = (s, l)) (\<lambda>_ _. False) (s, l)"
    using assms by (cases t) (simp_all add: run_task_def generateStreamingResponse_def streamWord_def wp_simps
        getSession_wp split: option.split)
  then show ?thesis by (simp add: wp_value)
qed

lemma interrupt_one_wp:
  assumes "wf s" and "stored s i = Some x" and "st \<noteq> []" and "map_of (sm_active l) st = Some r"
    and "\<And>s' y. wf s' \<Longrightarrow> stored s' = (stored s)(i \<mapsto> y) \<Longrightarrow>
      vs_state y = (if isInterruptible (vs_state x) then INTERRUPTED else vs_state x) \<Longrightarrow>
      Q True (s', l\<lparr>sm_sent := sm_sent l @ [(room_of x i, VInterrupted i st)], sm_active := map_delete st (sm_active l)\<rparr>)"
  shows "wp (interruptStream A i (Some st)) Q X (s, l)"
proof -
  have "wp (interruptSession (sv_voice A) i) (\<lambda>_ s'. Q True (s', l\<lparr>sm_sent := sm_sent l @ [(room_of x i, VInterrupted i st)],
      sm_active := map_delete st (sm_active l)\<rparr>)) X' s" for X'
    by (rule interruptSession_wp [OF assms(1,2)], rule assms(5))
  then show ?thesis
    by (simp add: interruptStream_def wp_simps getSession_wp [OF assms(1)] assms(2-4) truthy_def emit_def
        mark_interrupted_def set_stream_def delete_stream_def)
qed

end

definition mem_stream :: "vstore stream_env" where
  "mem_stream = \<lparr>sv_voice = mem_voice,
     sv_llm = \<lparr>le_quota = \<lparr>qe_redis = mem_redis, qe_now = vst_clock, qe_tz = 0\<rparr>, le_random53 = (\<lambda>_. 0),
       le_delay = (\<lambda>_ s. s), le_sha256 = (\<lambda>m. m)\<rparr>,
     sv_stringify = (\<lambda>_. []), sv_uuid = (\<lambda>(s, l). show_nat (length (sm_sent l)))\<rparr>"

lemma mem_stream_store: "stream_store mem_stream mem_cell mem_ttl"
  using mem_voice_store by (simp add: stream_store_def mem_stream_def)

interpretation smem: stream_store mem_stream mem_cell mem_ttl
  by (rule mem_stream_store)

definition demo_stream :: "string \<Rightarrow> StreamingResponse" where
  "demo_stream i = \<lparr>sr_id = ''st'', sr_sessionId = i, sr_chunks = [], sr_startTime = 0, sr_endTime = None, sr_isInterrupted = False\<rparr>"

definition demo_streaming :: "string \<Rightarrow> stream_task list \<Rightarrow> streaming" where
  "demo_streaming i ts = \<lparr>sm_active = [(''st'', demo_stream i)], sm_sent = [], sm_timers = ts, sm_unhandled = []\<rparr>"

section \<open>Properties\<close>

definition word_loop_of :: "string \<Rightarrow> string \<Rightarrow> string \<Rightarrow> string \<Rightarrow> word_loop" where
  "word_loop_of room i st full = \<lparr>wl_room = room, wl_sessionId = i, wl_streamId = st, wl_words = js_split CHR '' '' full,
     wl_i = 0, wl_currentText = [], wl_fullResponse = full\<rparr>"

text \<open>
  C14. Once the answer is there, a stream that nobody interrupts ends: after one timer per further word no timer is left
  and the stream is closed. The client got one chunk per word, chunk \<open>j\<close> with the first \<open>j + 1\<close> words, only the last one
  marked complete and equal to the full answer, then the completion; the answer is the last message of the session, which
  listens again where the conversation table allows it.
\<close>

theorem stream_delivers:
  assumes "stream_store A cell ttl" and "sessions_wf cell s" and "stored_session cell s i = Some x"
    and "map_of (sm_active l) st = Some r" and "\<not> sr_isInterrupted r" and "sm_timers l = []"
    and "words = js_split CHR '' '' full"
  shows "\<exists>s' l' cs y. seqE (streamWord A (word_loop_of room i st full)) (drain A (length words - 1)) (s, l) = (Inr (), (s', l')) \<and>
    sm_timers l' = [] \<and> sm_unhandled l' = sm_unhandled l \<and> map_of (sm_active l') st = None \<and>
    sm_sent l' = sm_sent l @ map (\<lambda>c. (room, VChunk i st c)) cs @ [(room_of x i, VComplete i st full)] \<and>
    length cs = length words \<and> (\<forall>j < length cs. chunk_ok words j (cs ! j)) \<and> sc_content (last cs) = full \<and>
    stored_session cell s' = (stored_session cell s)(i \<mapsto> y) \<and> answered_session full x y"
proof -
  let ?w = "word_loop_of room i st full"
  have w: "wl_words ?w = words" "wl_sessionId ?w = i" "wl_streamId ?w = st" "wl_fullResponse ?w = full" "wl_room ?w = room"
    "at_word ?w 0 = ?w" "words \<noteq> []"
    by (simp_all add: word_loop_of_def at_word_def assms(7))
  have start: "after_words ?w r l [] = l"
    using assms(4) by (simp add: after_words_def chunk_events_def w assoc_set_same)
  have last: "sc_content (last cs) = full" if "length cs = length words" "\<forall>j < length cs. chunk_ok words j (cs ! j)" for cs
  proof -
    from that w(7) have "chunk_ok words (length words - 1) (last cs)"
      by (metis diff_less last_conv_nth length_0_conv length_greater_0_conv zero_less_one)
    then show ?thesis using w(7) js_join_split [of "CHR '' ''" full] by (simp add: chunk_ok_def assms(7))
  qed
  let ?Q = "\<lambda>_ p. \<exists>cs y. sm_timers (snd p) = [] \<and>
      sm_unhandled (snd p) = sm_unhandled l \<and> map_of (sm_active (snd p)) st = None \<and>
      sm_sent (snd p) = sm_sent l @ map (\<lambda>c. (room, VChunk i st c)) cs @ [(room_of x i, VComplete i st full)] \<and>
      length cs = length words \<and> (\<forall>j < length cs. chunk_ok words j (cs ! j)) \<and> sc_content (last cs) = full \<and>
      stored_session cell (fst p) = (stored_session cell s)(i \<mapsto> y) \<and> answered_session full x y"
  have "wp (streamWord A (at_word ?w 0)) (\<lambda>_. wp (drain A (length words - 1)) ?Q (\<lambda>_ _. False)) (\<lambda>_ _. False)
      (s, after_words ?w r l [])"
  proof (rule stream_store.drain_words [where x = x and w = ?w, OF assms(1,2) _ assms(5,6)], goal_cases)
    case (5 s' y cs)
    with last [of cs] assms(6) w show ?case
      by (intro exI [of _ cs] exI [of _ y]) (simp add: chunk_events_def)
  qed (use assms(3) w in auto)
  then have "wp (seqE (streamWord A ?w) (drain A (length words - 1))) ?Q (\<lambda>_ _. False) (s, l)"
    unfolding start w(6) wp_seqE .
  then show ?thesis unfolding wp_value by auto
qed

theorem stream_delivers_witness:
  "\<exists>s' l' cs. seqE (streamWord mem_stream (word_loop_of ''r'' ''7'' ''st'' ''a b'')) (drain mem_stream 1) (demo_vstore, demo_streaming ''7'' []) =
      (Inr (), (s', l')) \<and> sm_timers l' = [] \<and>
    sm_sent l' = map (\<lambda>c. (''r'', VChunk ''7'' ''st'' c)) cs @ [(''7'', VComplete ''7'' ''st'' ''a b'')] \<and>
    length cs = 2 \<and> sc_content (last cs) = ''a b''"
proof -
  have hyps: "stored_session mem_cell demo_vstore ''7'' = Some demo_session"
    "map_of (sm_active (demo_streaming ''7'' [])) ''st'' = Some (demo_stream ''7'')" "\<not> sr_isInterrupted (demo_stream ''7'')"
    "sm_timers (demo_streaming ''7'' []) = []" "[''a'', ''b''] = js_split CHR '' '' ''a b''"
    by (simp_all add: demo_stored demo_streaming_def demo_stream_def)
  have sent: "room_of demo_session ''7'' = ''7''" "sm_sent (demo_streaming ''7'' []) = []" "length [''a'', ''b''] - 1 = 1"
    by (simp_all add: room_of_def demo_session_def VoiceSession_create_def or_str_def demo_streaming_def)
  obtain s' l' cs y where run: "seqE (streamWord mem_stream (word_loop_of ''r'' ''7'' ''st'' ''a b''))
      (drain mem_stream (length [''a'', ''b''] - 1)) (demo_vstore, demo_streaming ''7'' []) = (Inr (), (s', l'))"
    "sm_timers l' = []" "length cs = length [''a'', ''b'']" "sc_content (last cs) = ''a b''"
    "sm_sent l' = sm_sent (demo_streaming ''7'' []) @ map (\<lambda>c. (''r'', VChunk ''7'' ''st'' c)) cs @
       [(room_of demo_session ''7'', VComplete ''7'' ''st'' ''a b'')]"
    using stream_delivers [OF mem_stream_store demo_wf hyps, of "''r''"] by (elim exE conjE)
  from run(1,5) have "seqE (streamWord mem_stream (word_loop_of ''r'' ''7'' ''st'' ''a b'')) (drain mem_stream 1)
      (demo_vstore, demo_streaming ''7'' []) = (Inr (), (s', l'))"
    "sm_sent l' = map (\<lambda>c. (''r'', VChunk ''7'' ''st'' c)) cs @ [(''7'', VComplete ''7'' ''st'' ''a b'')]"
    unfolding sent by simp_all
  moreover have "length cs = 2" using run(3) by simp
  ultimately show ?thesis using run(2,4) by (intro exI [of _ s'] exI [of _ l'] exI [of _ cs] conjI)
qed

text \<open>
  Interrupting a session stops all its streams and no others: they are removed, each is reported once to the client,
  the conversation is interrupted where it can be, and a timer of a removed stream that fires later does nothing.
\<close>

theorem interrupt_silences:
  assumes "stream_store A cell ttl" and "sessions_wf cell s" and "stored_session cell s i = Some x"
    and "distinct (map fst (sm_active l))"
  shows "\<exists>s' l' y. interruptStream A i None (s, l) = (Inr True, (s', l')) \<and>
    (\<forall>k. map_of (sm_active l') k = (if session_at l k = Some i then None else map_of (sm_active l) k)) \<and>
    sm_sent l' = sm_sent l @ map (\<lambda>p. (room_of x i, VInterrupted i (fst p))) (filter (of_session i) (sm_active l)) \<and>
    sm_timers l' = sm_timers l \<and> stored_session cell s' = (stored_session cell s)(i \<mapsto> y) \<and>
    vs_state y = (if isInterruptible (vs_state x) then INTERRUPTED else vs_state x) \<and>
    (\<forall>t. session_at l (case t of GenerateTask _ st _ \<Rightarrow> st | WordTask w \<Rightarrow> wl_streamId w) = Some i \<longrightarrow>
       run_task A t (s', l') = (Inr (), (s', l')))"
proof -
  let ?Q = "\<lambda>b p. b \<and> sessions_wf cell (fst p) \<and>
    (\<forall>k. map_of (sm_active (snd p)) k = (if session_at l k = Some i then None else map_of (sm_active l) k)) \<and>
    sm_sent (snd p) = sm_sent l @ map (\<lambda>p. (room_of x i, VInterrupted i (fst p))) (filter (of_session i) (sm_active l)) \<and>
    sm_timers (snd p) = sm_timers l \<and> (\<exists>y. stored_session cell (fst p) = (stored_session cell s)(i \<mapsto> y) \<and>
    vs_state y = (if isInterruptible (vs_state x) then INTERRUPTED else vs_state x))"
  have "wp (interruptStream A i None) ?Q (\<lambda>_ _. False) (s, l)"
    by (rule stream_store.interrupt_all_wp [OF assms]) auto
  then obtain b p where "interruptStream A i None (s, l) = (Inr b, p)" "?Q b p" unfolding wp_value by blast
  then have run: "interruptStream A i None (s, l) = (Inr True, (fst p, snd p))" "?Q True p" by simp_all
  moreover from run(2) have "run_task A t (fst p, snd p) = (Inr (), (fst p, snd p))"
    if "session_at l (case t of GenerateTask _ st _ \<Rightarrow> st | WordTask w \<Rightarrow> wl_streamId w) = Some i" for t
    using that by (intro stream_store.removed_task [OF assms(1)]) simp_all
  ultimately show ?thesis by blast
qed

theorem interrupt_silences_witness:
  "\<exists>s' l'. interruptStream mem_stream ''7'' None (demo_vstore, demo_streaming ''7'' []) = (Inr True, (s', l')) \<and>
     map_of (sm_active l') ''st'' = None"
proof -
  have "distinct (map fst (sm_active (demo_streaming ''7'' [])))" "stored_session mem_cell demo_vstore ''7'' = Some demo_session"
    by (simp_all add: demo_streaming_def demo_stored)
  from interrupt_silences [OF mem_stream_store demo_wf this(2,1)] obtain s' l' where
    "interruptStream mem_stream ''7'' None (demo_vstore, demo_streaming ''7'' []) = (Inr True, (s', l'))"
    "\<forall>k. map_of (sm_active l') k = (if session_at (demo_streaming ''7'' []) k = Some ''7'' then None
       else map_of (sm_active (demo_streaming ''7'' [])) k)" by (elim exE conjE)
  then show ?thesis
    by (intro exI [of _ s'] exI [of _ l']) (simp add: session_at_def demo_streaming_def demo_stream_def)
qed

text \<open>
  A stream id is not checked against the session: with the id of another session's stream the call reports success,
  removes that stream, tells only the caller, and interrupts the caller's own conversation. The session whose answer was cut off
  is left unchanged, and its timer does nothing any more.
\<close>

theorem foreign_stream_interrupted:
  assumes "stream_store A cell ttl" and "sessions_wf cell s" and "stored_session cell s i = Some x" and "st \<noteq> []"
    and "map_of (sm_active l) st = Some r" and "sr_sessionId r = j" and "j \<noteq> i"
  shows "\<exists>s' l'. interruptStream A i (Some st) (s, l) = (Inr True, (s', l')) \<and>
    map_of (sm_active l') st = None \<and> sm_sent l' = sm_sent l @ [(room_of x i, VInterrupted i st)] \<and>
    stored_session cell s' j = stored_session cell s j \<and> (\<forall>u. run_task A (GenerateTask j st u) (s', l') = (Inr (), (s', l')))"
proof -
  let ?Q = "\<lambda>b p. b \<and> sessions_wf cell (fst p) \<and> map_of (sm_active (snd p)) st = None \<and>
    sm_sent (snd p) = sm_sent l @ [(room_of x i, VInterrupted i st)] \<and> stored_session cell (fst p) j = stored_session cell s j"
  have "wp (interruptStream A i (Some st)) ?Q (\<lambda>_ _. False) (s, l)"
    by (rule stream_store.interrupt_one_wp [OF assms(1-5)]) (use assms(7) in auto)
  then obtain b p where "interruptStream A i (Some st) (s, l) = (Inr b, p)" "?Q b p" unfolding wp_value by blast
  then have run: "interruptStream A i (Some st) (s, l) = (Inr True, (fst p, snd p))" "?Q True p" by simp_all
  moreover from run(2) have "run_task A (GenerateTask j st u) (fst p, snd p) = (Inr (), (fst p, snd p))" for u
    by (intro stream_store.removed_task [OF assms(1)]) simp_all
  ultimately show ?thesis by blast
qed

theorem foreign_stream_interrupted_witness:
  "\<exists>s' l'. interruptStream mem_stream ''7'' (Some ''st'') (demo_vstore, demo_streaming ''8'' []) = (Inr True, (s', l')) \<and>
     map_of (sm_active l') ''st'' = None"
proof -
  have hyps: "stored_session mem_cell demo_vstore ''7'' = Some demo_session" "''st'' \<noteq> []"
    "map_of (sm_active (demo_streaming ''8'' [])) ''st'' = Some (demo_stream ''8'')" "sr_sessionId (demo_stream ''8'') = ''8''" "''8'' \<noteq> ''7''"
    by (simp_all add: demo_streaming_def demo_stream_def demo_stored)
  show ?thesis using foreign_stream_interrupted [OF mem_stream_store demo_wf hyps] by (elim exE conjE) (intro exI conjI)
qed

text \<open>
  An answer that fails, for example on the quota, strands its stream: the exception leaves the timer unhandled, the
  client hears nothing, no timer remains and the stream stays active for ever.
\<close>

theorem failed_answer_strands_stream:
  assumes "stream_store A cell ttl" and "sessions_wf cell s" and "stored_session cell s i = Some x"
    and "map_of (sm_active l) st = Some r" and "\<not> sr_isInterrupted r" and "sm_timers l = [GenerateTask i st u]"
    and "generateResponse (sv_llm A) (or_str (Some (vs_userId x)) ''anonymous'') i u noOptions
      (snd (updateSessionState (sv_voice A) i RESPONDING s)) = (Inl e, s')"
  shows "fire A 0 (s, l) = (Inr (), (s', l\<lparr>sm_timers := [], sm_unhandled := sm_unhandled l @ [e]\<rparr>))"
proof -
  have "wp (updateSessionState (sv_voice A) i RESPONDING) (\<lambda>_ _. True) (\<lambda>_ _. False) s"
    by (rule wp_mono [OF voice_store.updateSessionState_wp [OF _ assms(2)]]) (use assms(1) in \<open>simp_all add: stream_store_def\<close>)
  then obtain b s1 where up: "updateSessionState (sv_voice A) i RESPONDING s = (Inr b, s1)" by (auto simp: wp_value)
  have vs: "voice_store (sv_voice A) cell ttl" using assms(1) by (simp add: stream_store_def)
  have "wp (fire A 0) (\<lambda>_ p. p = (s', l\<lparr>sm_timers := [], sm_unhandled := sm_unhandled l @ [e]\<rparr>)) (\<lambda>_ _. False) (s, l)"
    using assms(4-7) up
    by (simp add: fire_def run_task_def generateStreamingResponse_def wp_simps voice_store.getSession_wp [OF vs assms(2)]
        assms(3) wp_Inr [of "updateSessionState (sv_voice A) i RESPONDING", OF up] wp_def [of "generateResponse L a b c d" for L a b c d])
  then show ?thesis by (simp add: wp_value)
qed

definition spent_vstore :: vstore where
  "spent_vstore = \<lparr>rs_cells = [(SESSION_PREFIX @ ''7'', MText (Json demo_session)), (getSessionKey ''7'', MText (Txt ''100''))],
     rs_ttl = [], vst_clock = 70000, vst_next = 8\<rparr>"

theorem failed_answer_strands_stream_witness:
  "\<exists>e s'. fire mem_stream 0 (spent_vstore, demo_streaming ''7'' [GenerateTask ''7'' ''st'' ''hi'']) =
     (Inr (), (s', (demo_streaming ''7'' [GenerateTask ''7'' ''st'' ''hi''])\<lparr>sm_timers := [], sm_unhandled := [e]\<rparr>))"
proof -
  let ?r = "generateResponse (sv_llm mem_stream) (or_str (Some (vs_userId demo_session)) ''anonymous'') ''7'' ''hi'' noOptions
      (snd (updateSessionState (sv_voice mem_stream) ''7'' RESPONDING spent_vstore))"
  have "isl (fst ?r)" by code_simp
  then obtain e where r: "?r = (Inl e, snd ?r)" by (metis isl_def prod.collapse)
  have keys: "getSessionKey ''7'' \<noteq> SESSION_PREFIX @ j" "getSessionKey ''7'' \<noteq> USER_SESSIONS_PREFIX @ j"
    "getSessionKey ''7'' \<noteq> USER_ACTIVE_SESSION_PREFIX @ j" for j
    by (simp_all add: getSessionKey_def SESSION_QUOTA_PREFIX_def SESSION_PREFIX_def USER_SESSIONS_PREFIX_def USER_ACTIVE_SESSION_PREFIX_def)
  have cells: "mem_cell spent_vstore = [SESSION_PREFIX @ ''7'' \<mapsto> RText (Json demo_session), getSessionKey ''7'' \<mapsto> RText (Txt ''100'')]"
    using keys(1) [of "''7''"] by (auto simp: mem_cell_def spent_vstore_def fun_eq_iff)
  have stored: "stored_session mem_cell spent_vstore = [''7'' \<mapsto> demo_session]"
    using keys(1) keys(1) [symmetric] by (auto simp: stored_session_def cells fun_eq_iff)
  have wf: "sessions_wf mem_cell spent_vstore"
    using keys keys [symmetric] by (auto simp: sessions_wf_def typed_keys_def stored cells demo_session_def VoiceSession_create_def split: if_splits)
  have hyps: "stored_session mem_cell spent_vstore ''7'' = Some demo_session"
    "map_of (sm_active (demo_streaming ''7'' [GenerateTask ''7'' ''st'' ''hi''])) ''st'' = Some (demo_stream ''7'')"
    "\<not> sr_isInterrupted (demo_stream ''7'')" "sm_timers (demo_streaming ''7'' [GenerateTask ''7'' ''st'' ''hi'']) = [GenerateTask ''7'' ''st'' ''hi'']"
    "sm_unhandled (demo_streaming ''7'' [GenerateTask ''7'' ''st'' ''hi'']) = []"
    by (simp_all add: stored demo_streaming_def demo_stream_def)
  show ?thesis
    using failed_answer_strands_stream [OF mem_stream_store wf hyps(1-4) r] unfolding hyps(5) append_Nil by (intro exI)
qed

end
