(* ===== verification/Voice_Gateway.thy ===== *)
theory Voice_Gateway
  imports Voice_Stream
begin

text \<open>
  \<open>VoiceGateway\<close> (src/Backend/src/voice/voice.gateway.ts), the socket handlers over the sessions and the streams, and
  \<open>SessionCleanupService\<close> (services/session-cleanup.service.ts). A client is its socket id, the token payload the guard
  stored on it and the session id of its handshake; what a handler emits to it is logged under its socket id.
\<close>

section \<open>Clients\<close>

record voice_user =
  vu_sub :: "string option"
  vu_userId :: "string option"

record voice_client =
  vc_id :: string
  vc_user :: "voice_user option"
  vc_sessionId :: "string option"

record CreateSessionDto =
  cs_userId :: string
  cs_walletAddress :: "string option"
  cs_context :: string
  cs_metadata :: "jobj option"

record SessionActionDto =
  sa_state :: "ConversationState option"
  sa_interrupt :: bool

text \<open>\<open>client.data.user?.sub || client.data.user?.userId\<close>, and its text in a key.\<close>

definition client_user :: "voice_client \<Rightarrow> string option" where
  "client_user client = (case vc_user client of None \<Rightarrow> None
     | Some u \<Rightarrow> if truthy (vu_sub u) then vu_sub u else vu_userId u)"

definition js_opt :: "string option \<Rightarrow> string" where
  "js_opt x = (case x of None \<Rightarrow> ''undefined'' | Some t \<Rightarrow> t)"

abbreviation toClient :: "voice_client \<Rightarrow> voice_event \<Rightarrow> ('s \<times> streaming, unit) prog" where
  "toClient client event \<equiv> modL (emit (vc_id client) event)"

section \<open>Connections\<close>

definition handleConnection :: "'s stream_env \<Rightarrow> voice_client \<Rightarrow> ('s \<times> streaming, unit) prog" where
  "handleConnection A client =
     (let userId = client_user client; sessionId = vc_sessionId client in
      if \<not> truthy userId
      then seqE (toClient client (VError None ''Authentication failed'')) (toClient client VDisconnect)
      else whenE (truthy sessionId)
        (bindE (liftL (getSession (sv_voice A) (the sessionId))) (\<lambda>found. case found of
           Some session \<Rightarrow>
             if Some (vs_userId session) = userId
             then seqE (liftL (ignoreE (updateSessionSocket (sv_voice A) (the sessionId) (vc_id client))))
               (seqE (liftL (ignoreE (resumeSession (sv_voice A) (the sessionId))))
               (seqE (toClient client (VJoin (the sessionId)))
               (seqE (liftL (setUserActiveSession (sv_voice A) (the userId) (the sessionId)))
                 (toClient client (VResumed (the sessionId) (vs_state session))))))
             else seqE (toClient client (VError None ''Invalid session'')) (toClient client VDisconnect)
         | None \<Rightarrow> seqE (toClient client (VError None ''Invalid session'')) (toClient client VDisconnect))))"

definition handleDisconnect :: "'s stream_env \<Rightarrow> voice_client \<Rightarrow> ('s \<times> streaming, unit) prog" where
  "handleDisconnect A client =
     (let userId = client_user client; sessionId = vc_sessionId client in
      whenE (truthy userId \<and> truthy sessionId)
        (seqE (liftL (ignoreE (updateSessionState (sv_voice A) (the sessionId) IDLE)))
          (liftL (deleteUserActiveSession (sv_voice A) (the userId)))))"

section \<open>Messages\<close>

definition attach_session :: "'s stream_env \<Rightarrow> voice_client \<Rightarrow> string \<Rightarrow> VoiceSession \<Rightarrow> ('s \<times> streaming, unit) prog" where
  "attach_session A client userId session =
     seqE (liftL (ignoreE (updateSessionSocket (sv_voice A) (vs_id session) (vc_id client))))
     (seqE (toClient client (VJoin (vs_id session)))
     (seqE (liftL (setUserActiveSession (sv_voice A) userId (vs_id session)))
       (toClient client (VSessionCreated session))))"

definition gateway_createSession :: "'s stream_env \<Rightarrow> voice_client \<Rightarrow> CreateSessionDto \<Rightarrow> ('s \<times> streaming, unit) prog" where
  "gateway_createSession A client dto =
     catchE
       (let userId = client_user client in
        if \<not> truthy userId then toClient client (VError None ''Authentication required'')
        else bindE (liftL (getUserActiveSessions (sv_voice A) (the userId))) (\<lambda>existingSessions.
          if 0 < length existingSessions then attach_session A client (the userId) (existingSessions ! 0)
          else bindE (catchE
              (bindE (liftL (createSession (sv_voice A) (cs_userId dto) (cs_context dto) (cs_walletAddress dto) (cs_metadata dto)))
                (\<lambda>session. returnE (Some session)))
              (\<lambda>err. if js_includes (exn_message err) ''Session limit reached''
                 then seqE (toClient client (VError (Some ''SESSION_LIMIT_REACHED'') (exn_message err))) (returnE None)
                 else throwE err))
            (\<lambda>created. case created of None \<Rightarrow> returnE () | Some session \<Rightarrow> attach_session A client (the userId) session)))
       (\<lambda>error. toClient client (VError None ''Failed to create session''))"

text \<open>The handlers below start with the user's active session; without one they answer with an error.\<close>

definition with_active_session :: "'s stream_env \<Rightarrow> voice_client \<Rightarrow> string \<Rightarrow> (string \<Rightarrow> ('s \<times> streaming, unit) prog) \<Rightarrow> ('s \<times> streaming, unit) prog" where
  "with_active_session A client failure f =
     catchE
       (bindE (liftL (getUserActiveSession (sv_voice A) (js_opt (client_user client)))) (\<lambda>sessionId.
          if \<not> text_truthy sessionId then toClient client (VError None ''No active session'')
          else f (text_of A (the sessionId))))
       (\<lambda>error. toClient client (VError None failure))"

definition handleMessage :: "'s stream_env \<Rightarrow> voice_client \<Rightarrow> string \<Rightarrow> ('s \<times> streaming, unit) prog" where
  "handleMessage A client content = with_active_session A client ''Failed to process message'' (\<lambda>sessionId.
     bindE (liftL (getSession (sv_voice A) sessionId)) (\<lambda>found. case found of
       None \<Rightarrow> toClient client (VError None ''Invalid session'')
     | Some session \<Rightarrow>
         if Some (vs_userId session) \<noteq> client_user client then toClient client (VError None ''Invalid session'')
         else ignoreE (startStreamingResponse A sessionId content)))"

definition handleInterrupt :: "'s stream_env \<Rightarrow> voice_client \<Rightarrow> string option \<Rightarrow> ('s \<times> streaming, unit) prog" where
  "handleInterrupt A client streamId = with_active_session A client ''Failed to interrupt'' (\<lambda>sessionId.
     bindE (interruptStream A sessionId streamId) (\<lambda>success.
       if success then toClient client (VInterruptAcknowledged sessionId streamId)
       else toClient client (VError None ''Failed to interrupt'')))"

definition handleSessionAction :: "'s stream_env \<Rightarrow> voice_client \<Rightarrow> SessionActionDto \<Rightarrow> ('s \<times> streaming, unit) prog" where
  "handleSessionAction A client dto = with_active_session A client ''Failed to perform action'' (\<lambda>sessionId.
     seqE (whenE (sa_interrupt dto) (ignoreE (interruptStream A sessionId None)))
     (case sa_state dto of
        None \<Rightarrow> returnE ()
      | Some state \<Rightarrow> bindE (liftL (updateSessionState (sv_voice A) sessionId state)) (\<lambda>success.
          if success then toClient client (VStateUpdated sessionId state)
          else toClient client (VError None ''Invalid state transition''))))"

definition handleTerminate :: "'s stream_env \<Rightarrow> voice_client \<Rightarrow> ('s \<times> streaming, unit) prog" where
  "handleTerminate A client = with_active_session A client ''Failed to terminate session'' (\<lambda>sessionId.
     seqE (ignoreE (interruptStream A sessionId None))
     (bindE (liftL (terminateSession (sv_voice A) sessionId)) (\<lambda>success.
        if success
        then seqE (toClient client (VLeave sessionId))
          (seqE (liftL (deleteUserActiveSession (sv_voice A) (js_opt (client_user client))))
            (toClient client (VTerminated sessionId)))
        else toClient client (VError None ''Failed to terminate session''))))"

definition handlePing :: "'s stream_env \<Rightarrow> voice_client \<Rightarrow> ('s \<times> streaming, unit) prog" where
  "handlePing A client =
     bindE (liftL (getUserActiveSession (sv_voice A) (js_opt (client_user client)))) (\<lambda>found.
     seqE (whenE (text_truthy found)
       (let sessionId = text_of A (the found) in
        seqE (liftL (ignoreE (updateSessionSocket (sv_voice A) sessionId (vc_id client))))
        (seqE (liftL (ignoreE (updateLastPingAt (sv_voice A) sessionId)))
          (liftL (refreshUserSessionTTL (sv_voice A) (js_opt (client_user client)))))))
     (bindE (liftL (readE (ve_now (sv_voice A)))) (\<lambda>now. toClient client (VPong now))))"

section \<open>Scheduled clean-up\<close>

text \<open>\<open>n\<close> bounds the pages of a scan, as in the clean-up loops.\<close>

definition triggerCleanup :: "'s voice_env \<Rightarrow> nat \<Rightarrow> ('s, nat option \<times> nat option) prog" where
  "triggerCleanup V n = bindE (promise_all [cleanupStaleSessions V n, cleanupExpiredSessions V n])
     (\<lambda>counts. returnE (counts ! 0, counts ! 1))"

definition performCleanup :: "'s voice_env \<Rightarrow> nat \<Rightarrow> ('s, unit) prog" where
  "performCleanup V n =
     catchE (ignoreE (promise_all [cleanupStaleSessions V n, cleanupExpiredSessions V n])) (\<lambda>error. returnE ())"

section \<open>Running the handlers\<close>

definition active_pointer :: "('s \<Rightarrow> string \<Rightarrow> VoiceSession rcell option) \<Rightarrow> 's \<Rightarrow> string \<Rightarrow> VoiceSession rtext option" where
  "active_pointer cell s u = cell_text (cell s (USER_ACTIVE_SESSION_PREFIX @ u))"

text \<open>\<open>x\<close> is the active session of the user, stored under \<open>i\<close>, and belongs to the user.\<close>

definition own_session :: "('s \<Rightarrow> string \<Rightarrow> VoiceSession rcell option) \<Rightarrow> 's \<Rightarrow> string option \<Rightarrow> string \<Rightarrow> VoiceSession \<Rightarrow> bool" where
  "own_session cell s u i x \<longleftrightarrow> active_pointer cell s (js_opt u) = Some (Txt i) \<and> i \<noteq> [] \<and>
     stored_session cell s i = Some x \<and> u = Some (vs_userId x)"

context stream_store
begin

lemma pointer_wp: "wf s \<Longrightarrow> wp (getUserActiveSession (sv_voice A) u) Q X s = Q (active_pointer cell s u) s"
  by (simp add: getUserActiveSession_def active_pointer_def wp_get wf_types)

lemma setPointer_wp:
  assumes "wf s"
    and "\<And>s'. wf s' \<Longrightarrow> stored s' = stored s \<Longrightarrow> active_pointer cell s' u = Some (Txt i) \<Longrightarrow> Q () s'"
  shows "wp (setUserActiveSession (sv_voice A) u i) Q X s"
  unfolding setUserActiveSession_def
  by (rule wpi_setEx) (use wf_pointer [OF assms(1)] in \<open>auto simp: USER_SESSION_POINTER_TTL_def active_pointer_def intro!: assms(2)\<close>)

lemma deletePointer_wp:
  assumes "wf s" and "\<And>s'. wf s' \<Longrightarrow> stored s' = stored s \<Longrightarrow> Q () s'"
  shows "wp (deleteUserActiveSession (sv_voice A) u) Q X s"
  unfolding deleteUserActiveSession_def wp_ignoreE
proof (rule wpi_del, goal_cases)
  case (1 n s')
  then have "cell s' = (cell s)(USER_ACTIVE_SESSION_PREFIX @ u := None)" by (auto simp: fun_eq_iff)
  from wf_pointer [OF assms(1) this] show ?case by (intro assms(2)) simp_all
qed

lemma updateSocket_wp:
  assumes "wf s" and "stored s i = Some x"
    and "\<And>s' y. wf s' \<Longrightarrow> stored s' = (stored s)(i \<mapsto> y) \<Longrightarrow> vs_userId y = vs_userId x \<Longrightarrow> vs_state y = vs_state x \<Longrightarrow> Q True s'"
  shows "wp (updateSessionSocket (sv_voice A) i k) Q X s"
  unfolding updateSessionSocket_def
  by (rule wp_mono [OF updateSession_wp [OF assms(1)]]) (auto simp: assms(2) intro!: assms(3))

lemma attach_wp:
  assumes "wf s" and "stored s (vs_id x) = Some x"
    and "\<And>s' y l'. wf s' \<Longrightarrow> stored s' = (stored s)(vs_id x \<mapsto> y) \<Longrightarrow> vs_userId y = vs_userId x \<Longrightarrow>
      active_pointer cell s' u = Some (Txt (vs_id x)) \<Longrightarrow>
      sm_sent l' = sm_sent l @ [(vc_id c, VJoin (vs_id x)), (vc_id c, VSessionCreated x)] \<Longrightarrow> sm_timers l' = sm_timers l \<Longrightarrow> Q () (s', l')"
  shows "wp (attach_session A c u x) Q X (s, l)"
  unfolding attach_session_def
proof (simp add: wp_simps, rule updateSocket_wp [OF assms(1,2)], goal_cases)
  case (1 s1 y)
  show ?case
  proof (rule setPointer_wp [OF 1(1)], goal_cases)
    case (1 s2)
    with \<open>stored s1 = _\<close> \<open>vs_userId y = _\<close> show ?case by (intro assms(3) [of s2 y]) (simp_all add: emit_def)
  qed
qed

lemma start_wp:
  assumes "wf s" and "stored s i = Some x"
    and "\<And>s' y m l'. wf s' \<Longrightarrow> stored s' = (stored s)(i \<mapsto> y) \<Longrightarrow> vs_messages y = vs_messages x @ [m] \<Longrightarrow> vm_content m = c \<Longrightarrow> vm_isUser m \<Longrightarrow>
      vs_state y = (if canTransition (vs_state x) THINKING then THINKING else vs_state x) \<Longrightarrow>
      session_at l' (sv_uuid A (s, l)) = Some i \<Longrightarrow> sm_timers l' = sm_timers l @ [GenerateTask i (sv_uuid A (s, l)) c] \<Longrightarrow>
      sm_sent l' = sm_sent l @ [(room_of x i, VThinking i (sv_uuid A (s, l)))] \<Longrightarrow> Q (sv_uuid A (s, l)) (s', l')"
  shows "wp (startStreamingResponse A i c) Q X (s, l)"
proof -
  have "wp (addMessage (sv_voice A) i c True None) (\<lambda>_. wp (updateSessionState (sv_voice A) i THINKING) (\<lambda>_ s'.
      Q (sv_uuid A (s, l)) (s', setTimeout (GenerateTask i (sv_uuid A (s, l)) c) (emit (room_of x i) (VThinking i (sv_uuid A (s, l)))
        (set_stream (sv_uuid A (s, l)) \<lparr>sr_id = sv_uuid A (s, l), sr_sessionId = i, sr_chunks = [], sr_startTime = ve_now (sv_voice A) s',
          sr_endTime = None, sr_isInterrupted = False\<rparr> l)))) X1) X2 s" for X1 X2
  proof (rule addMessage_wp [OF assms(1,2)], goal_cases)
    case (1 m s1)
    show ?case
      by (rule updateState_wp [OF 1(1), of i], simp add: 1(2), rule assms(3))
        (use 1(2-4) in \<open>auto simp: session_at_def setTimeout_def emit_def set_stream_def\<close>)
  qed
  then show ?thesis
    by (simp add: startStreamingResponse_def wp_simps getSession_wp [OF assms(1)] assms(2))
qed

lemma message_refused:
  assumes "wf s" and "active_pointer cell s (js_opt (client_user c)) = Some (Txt i)" and "i \<noteq> []" and "stored s i = Some x"
    and "Some (vs_userId x) \<noteq> client_user c" and "Q () (s, emit (vc_id c) (VError None ''Invalid session'') l)"
  shows "wp (handleMessage A c content) Q X (s, l)"
  using assms(2-6) by (simp add: handleMessage_def with_active_session_def wp_simps pointer_wp [OF assms(1)] getSession_wp [OF assms(1)]
      text_truthy_def text_of_def)

end

section \<open>A conversation in memory\<close>

definition talk_session :: VoiceSession where
  "talk_session = demo_session\<lparr>vs_state := RESPONDING\<rparr>"

definition talk_vstore :: vstore where
  "talk_vstore = \<lparr>rs_cells = [(SESSION_PREFIX @ ''7'', MText (Json talk_session)), (USER_ACTIVE_SESSION_PREFIX @ ''alice'', MText (Txt ''7''))],
     rs_ttl = [], vst_clock = 70000, vst_next = 8\<rparr>"

definition talk_client :: "string \<Rightarrow> voice_client" where
  "talk_client u = \<lparr>vc_id = ''k'', vc_user = Some \<lparr>vu_sub = Some u, vu_userId = None\<rparr>, vc_sessionId = Some ''7''\<rparr>"

lemma talk_cells: "mem_cell talk_vstore =
    [SESSION_PREFIX @ ''7'' \<mapsto> RText (Json talk_session), USER_ACTIVE_SESSION_PREFIX @ ''alice'' \<mapsto> RText (Txt ''7'')]"
  by (auto simp: mem_cell_def talk_vstore_def fun_eq_iff)

lemma talk_stored: "stored_session mem_cell talk_vstore = [''7'' \<mapsto> talk_session]"
  by (auto simp: stored_session_def talk_cells fun_eq_iff)

lemma talk_wf: "sessions_wf mem_cell talk_vstore"
  by (auto simp: sessions_wf_def typed_keys_def talk_stored talk_cells talk_session_def demo_session_def
      VoiceSession_create_def split: if_splits)

lemma talk_store_facts:
  "active_pointer mem_cell talk_vstore ''alice'' = Some (Txt ''7'')" "user_live mem_cell talk_vstore u = {}"
  by (simp_all add: active_pointer_def user_live_def talk_cells)

lemma talk_uuid: "ve_uuid (sv_voice mem_stream) talk_vstore = ''8''"
  by code_simp

lemma talk_client_facts:
  "u \<noteq> [] \<Longrightarrow> client_user (talk_client u) = Some u" "vc_id (talk_client u) = ''k''" "vc_sessionId (talk_client u) = Some ''7''"
  by (simp_all add: client_user_def talk_client_def truthy_def)

lemma talk_session_facts: "vs_userId talk_session = ''alice''" "vs_state talk_session = RESPONDING"
  by (simp_all add: talk_session_def demo_session_def VoiceSession_create_def)

lemmas talk_facts = talk_store_facts talk_uuid talk_client_facts talk_session_facts

section \<open>Properties\<close>

text \<open>
  C15. A message is only answered in the sender's own session: a stream is started exactly when the sender's active
  session exists and belongs to the sender, and then for that session, with the message stored in it and one timer set; in every other case
  the store is unchanged and the sender gets one error.
\<close>

theorem message_only_own_session:
  assumes "stream_store A cell ttl" and "sessions_wf cell s" and "u = client_user c"
    and "\<And>v. active_pointer cell s (js_opt u) \<noteq> Some (Json v)"
  shows "\<exists>s' l'. handleMessage A c content (s, l) = (Inr (), (s', l')) \<and>
    (if \<exists>i x. own_session cell s u i x
     then \<exists>i x y m st. own_session cell s u i x \<and> stored_session cell s' = (stored_session cell s)(i \<mapsto> y) \<and> vs_messages y = vs_messages x @ [m] \<and>
       vm_content m = content \<and> session_at l' st = Some i \<and> sm_timers l' = sm_timers l @ [GenerateTask i st content]
     else s' = s \<and> (\<exists>msg. l' = emit (vc_id c) (VError None msg) l))"
proof (cases "\<exists>i x. own_session cell s u i x")
  case True
  then obtain i x where own: "own_session cell s u i x" by blast
  then have i: "active_pointer cell s (js_opt u) = Some (Txt i)" "i \<noteq> []" "stored_session cell s i = Some x" "u = Some (vs_userId x)"
    unfolding own_session_def by blast+
  have "wp (startStreamingResponse A i content) (\<lambda>_ p. \<exists>y m st. stored_session cell (fst p) = (stored_session cell s)(i \<mapsto> y) \<and>
      vs_messages y = vs_messages x @ [m] \<and> vm_content m = content \<and> session_at (snd p) st = Some i \<and>
      sm_timers (snd p) = sm_timers l @ [GenerateTask i st content]) X (s, l)" for X
    by (rule stream_store.start_wp [OF assms(1,2) i(3)]) auto
  then have "wp (handleMessage A c content) (\<lambda>_ p. \<exists>y m st. stored_session cell (fst p) = (stored_session cell s)(i \<mapsto> y) \<and>
      vs_messages y = vs_messages x @ [m] \<and> vm_content m = content \<and> session_at (snd p) st = Some i \<and>
      sm_timers (snd p) = sm_timers l @ [GenerateTask i st content]) (\<lambda>_ _. False) (s, l)"
    using i assms(3) stream_store.pointer_wp [OF assms(1,2)] voice_store.getSession_wp [OF stream_store.axioms [OF assms(1)] assms(2)]
    by (simp add: handleMessage_def with_active_session_def wp_simps text_truthy_def text_of_def)
  then obtain s' l' y m st where "handleMessage A c content (s, l) = (Inr (), (s', l'))"
    "stored_session cell s' = (stored_session cell s)(i \<mapsto> y)" "vs_messages y = vs_messages x @ [m]" "vm_content m = content"
    "session_at l' st = Some i" "sm_timers l' = sm_timers l @ [GenerateTask i st content]"
    unfolding wp_value by auto
  with own True show ?thesis by (intro exI [of _ s'] exI [of _ l']) (simp only: if_True, blast)
next
  case False
  have "wp (handleMessage A c content) (\<lambda>_ p. fst p = s \<and> (\<exists>msg. snd p = emit (vc_id c) (VError None msg) l)) (\<lambda>_ _. False) (s, l)"
    using False assms(3,4) stream_store.pointer_wp [OF assms(1,2)] voice_store.getSession_wp [OF stream_store.axioms [OF assms(1)] assms(2)]
    by (cases "active_pointer cell s (js_opt u)"; cases "the (active_pointer cell s (js_opt u))")
      (auto simp: handleMessage_def with_active_session_def wp_simps text_truthy_def text_of_def own_session_def split: option.split)
  with False show ?thesis unfolding wp_value by auto
qed

theorem message_only_own_session_witness:
  "\<exists>s' l' st. handleMessage mem_stream (talk_client ''alice'') ''hi'' (talk_vstore, demo_streaming ''9'' []) = (Inr (), (s', l')) \<and>
     session_at l' st = Some ''7'' \<and> sm_timers l' = [GenerateTask ''7'' st ''hi'']"
proof -
  have own: "own_session mem_cell talk_vstore (Some ''alice'') ''7'' talk_session"
    by (simp add: own_session_def js_opt_def talk_facts talk_stored)
  have only: "i = ''7''" if "own_session mem_cell talk_vstore (Some ''alice'') i x" for i x
    using that by (simp add: own_session_def js_opt_def talk_facts)
  have hyps: "Some ''alice'' = client_user (talk_client ''alice'')" "active_pointer mem_cell talk_vstore (js_opt (Some ''alice'')) \<noteq> Some (Json v)" for v
    by (simp_all add: talk_facts js_opt_def)
  have ex: "\<exists>i x. own_session mem_cell talk_vstore (Some ''alice'') i x" using own by blast
  obtain s' l' i x st where "handleMessage mem_stream (talk_client ''alice'') ''hi'' (talk_vstore, demo_streaming ''9'' []) = (Inr (), (s', l'))"
    "own_session mem_cell talk_vstore (Some ''alice'') i x" "session_at l' st = Some i"
    "sm_timers l' = sm_timers (demo_streaming ''9'' []) @ [GenerateTask i st ''hi'']"
    using message_only_own_session [OF mem_stream_store talk_wf hyps(1) hyps(2), of "''hi''" "demo_streaming ''9'' []", unfolded if_P [OF ex]]
    by blast
  with only show ?thesis by (auto simp: demo_streaming_def)
qed

text \<open>
  A session made for another user id than the token's cannot be used: \<open>voice:create-session\<close> takes the owner from the
  request, so a client that names someone else's id fills that user's sessions, becomes attached to the session, and
  every message it then sends is answered with the error for an invalid session.
\<close>

theorem session_for_other_user_unusable:
  assumes "stream_store A cell ttl" and "sessions_wf cell s" and "client_user c = Some u" and "u \<noteq> []"
    and "user_live cell s u = {}" and "cs_userId dto \<noteq> u" and "card (user_live cell s (cs_userId dto)) < 3"
    and "i = ve_uuid (sv_voice A) s" and "i \<noteq> []"
  shows "\<exists>s' l'. seqE (gateway_createSession A c dto) (handleMessage A c content) (s, l) = (Inr (), (s', l')) \<and>
    (\<exists>y. stored_session cell s' i = Some y \<and> vs_userId y = cs_userId dto) \<and> sm_timers l' = sm_timers l \<and>
    last (sm_sent l') = (vc_id c, VError None ''Invalid session'')"
proof -
  have vs: "voice_store (sv_voice A) cell ttl" by (rule stream_store.axioms [OF assms(1)])
  let ?Q = "\<lambda>_ p. (\<exists>y. stored_session cell (fst p) i = Some y \<and> vs_userId y = cs_userId dto) \<and>
    sm_timers (snd p) = sm_timers l \<and> last (sm_sent (snd p)) = (vc_id c, VError None ''Invalid session'')"
  let ?M = "wp (handleMessage A c content) ?Q (\<lambda>_ _. False)"
  define x where "x = VoiceSession_create i (ve_now (sv_voice A) s) (cs_userId dto) (cs_context dto) (cs_walletAddress dto) (cs_metadata dto)"
  have x: "vs_id x = i" "vs_userId x = cs_userId dto" by (simp_all add: x_def VoiceSession_create_def)
  have attach: "wp (attach_session A c u x) (\<lambda>_. ?M) X (s1, l)"
    if s1: "sessions_wf cell s1" "stored_session cell s1 i = Some x" for s1 X
  proof (rule stream_store.attach_wp [OF assms(1) s1(1)], goal_cases)
    case (2 s2 y l2)
    then have "active_pointer cell s2 (js_opt (client_user c)) = Some (Txt i)" "stored_session cell s2 i = Some y"
      "Some (vs_userId y) \<noteq> client_user c" "vs_userId y = cs_userId dto"
      using assms(3,6) x by (auto simp: js_opt_def)
    from stream_store.message_refused [OF assms(1) 2(1) this(1) assms(9) this(2,3)] this(2,4) 2 show ?case
      by (simp add: emit_def)
  qed (use s1(2) x in simp)
  have create: "wp (createSession (sv_voice A) (cs_userId dto) (cs_context dto) (cs_walletAddress dto) (cs_metadata dto))
      (\<lambda>y t. y = x \<and> sessions_wf cell t \<and> stored_session cell t i = Some x) (\<lambda>_ _. False) s"
    by (rule wp_mono [OF voice_store.createSession_wp [OF vs assms(2)]])
      (use assms(7,8) x in \<open>auto simp: x_def MAX_SESSIONS_PER_USER_def\<close>)
  have "wp (getUserActiveSessions (sv_voice A) u) (\<lambda>xs t. xs = [] \<and> t = s) (\<lambda>_ _. False) s"
    by (rule voice_store.active_wp [OF vs assms(2)]) (simp add: assms(5))
  then have "wp (gateway_createSession A c dto) (\<lambda>_. ?M) (\<lambda>_ _. False) (s, l)"
    unfolding gateway_createSession_def using assms(3,4)
    by (simp add: wp_simps truthy_def Let_def)
      (rule wp_mono, assumption, simp_all, rule wp_mono [OF create], simp_all add: attach)
  then have "wp (seqE (gateway_createSession A c dto) (handleMessage A c content)) ?Q (\<lambda>_ _. False) (s, l)"
    by (simp add: wp_simps)
  then show ?thesis unfolding wp_value by auto
qed

theorem session_for_other_user_unusable_witness:
  "\<exists>s' l'. seqE (gateway_createSession mem_stream (talk_client ''bob'') \<lparr>cs_userId = ''alice'', cs_walletAddress = None, cs_context = ''general'',
       cs_metadata = None\<rparr>) (handleMessage mem_stream (talk_client ''bob'') ''hi'') (talk_vstore, demo_streaming ''9'' []) = (Inr (), (s', l')) \<and>
     last (sm_sent l') = (''k'', VError None ''Invalid session'')"
  using session_for_other_user_unusable [OF mem_stream_store talk_wf, where c = "talk_client ''bob''" and u = "''bob''" and i = "''8''" and content = "''hi''"
      and l = "demo_streaming ''9'' []" and dto = "\<lparr>cs_userId = ''alice'', cs_walletAddress = None, cs_context = ''general'', cs_metadata = None\<rparr>"]
  unfolding talk_facts by (simp add: talk_facts) blast

text \<open>
  A refused client can still end someone's conversation: a client whose handshake names the session of another user is told
  that the session is invalid and is disconnected, but the handler of its disconnection does not ask who owns the session and
  sets it to idle.
\<close>

theorem refused_client_idles_session:
  assumes "stream_store A cell ttl" and "sessions_wf cell s" and "client_user c = Some u" and "u \<noteq> []"
    and "vc_sessionId c = Some i" and "i \<noteq> []" and "stored_session cell s i = Some x" and "vs_userId x \<noteq> u"
    and "canTransition (vs_state x) IDLE"
  shows "\<exists>s' y. seqE (handleConnection A c) (handleDisconnect A c) (s, l) =
      (Inr (), (s', emit (vc_id c) VDisconnect (emit (vc_id c) (VError None ''Invalid session'') l))) \<and>
    stored_session cell s' i = Some y \<and> vs_state y = IDLE"
proof -
  have vs: "voice_store (sv_voice A) cell ttl" by (rule stream_store.axioms [OF assms(1)])
  let ?l = "emit (vc_id c) VDisconnect (emit (vc_id c) (VError None ''Invalid session'') l)"
  have "wp (updateSessionState (sv_voice A) i IDLE) (\<lambda>_. wp (deleteUserActiveSession (sv_voice A) u)
      (\<lambda>_ s'. \<exists>y. stored_session cell s' i = Some y \<and> vs_state y = IDLE) (\<lambda>_ _. False)) (\<lambda>_ _. False) s"
    by (rule stream_store.updateState_wp [OF assms(1,2,7)], rule stream_store.deletePointer_wp [OF assms(1)])
      (use assms(9) in auto)
  then have "wp (seqE (handleConnection A c) (handleDisconnect A c))
      (\<lambda>_ p. snd p = ?l \<and> (\<exists>y. stored_session cell (fst p) i = Some y \<and> vs_state y = IDLE)) (\<lambda>_ _. False) (s, l)"
    using assms(3-8) by (simp add: handleConnection_def handleDisconnect_def wp_simps truthy_def
        voice_store.getSession_wp [OF vs assms(2)] Let_def)
  then show ?thesis unfolding wp_value by auto
qed

theorem refused_client_idles_session_witness:
  "\<exists>s' l' y. seqE (handleConnection mem_stream (talk_client ''bob'')) (handleDisconnect mem_stream (talk_client ''bob''))
       (talk_vstore, demo_streaming ''9'' []) = (Inr (), (s', l')) \<and>
     stored_session mem_cell s' ''7'' = Some y \<and> vs_state y = IDLE"
  using refused_client_idles_session [OF mem_stream_store talk_wf, where c = "talk_client ''bob''" and u = "''bob''" and i = "''7''" and x = talk_session
      and l = "demo_streaming ''9'' []"]
  by (simp add: talk_facts talk_stored canTransition_def) blast

end
