(* ===== verification/Voice_Jobs.thy ===== *)
theory Voice_Jobs
  imports Ext_Repository
begin

text \<open>
  Speech jobs (src/Backend/src/voice/services/voice.service.ts, voice.processor.ts, voice.controller.ts,
  entities/voice-job.entity.ts): requests are stored as rows and queued, a processor works on them and counts its
  failures. The repository, the queue, the file system, the clock, the hash and the working directory are the fields of
  \<open>speech_env\<close>; a buffer is the text of its bytes.
\<close>

section \<open>Data\<close>

datatype SpeechStatus = SPENDING | SPROCESSING | SCOMPLETED | SFAILED

datatype JobType = STT | TTS

record VoiceJob =
  vj_id :: string
  vj_type :: JobType
  vj_status :: SpeechStatus
  vj_userId :: "string option"
  vj_audioUrl :: "string option"
  vj_audioHash :: "string option"
  vj_transcribedText :: "string option"
  vj_generatedAudioUrl :: "string option"
  vj_inputText :: "string option"
  vj_errorMessage :: "string option"
  vj_retryCount :: nat
  vj_maxRetries :: nat
  vj_createdAt :: int
  vj_updatedAt :: int
  vj_completedAt :: "int option"

record 's speech_env =
  sp_repo :: "('s, VoiceJob) repository"
  sp_now :: "'s \<Rightarrow> int"
  sp_sha256 :: "string \<Rightarrow> string"
  sp_cwd :: string
  sp_mkdir :: "string \<Rightarrow> ('s, unit) prog"
  sp_writeFile :: "string \<Rightarrow> string \<Rightarrow> ('s, unit) prog"
  sp_add :: "string \<Rightarrow> string \<Rightarrow> ('s, unit) prog"
  sp_delay :: "int \<Rightarrow> 's \<Rightarrow> 's"

text \<open>
  \<open>path.join\<close> on a POSIX system: the parts joined with \<open>/\<close>, without empty and \<open>.\<close> segments, and with each \<open>..\<close>
  taking the segment before it away.
\<close>

fun resolve_segments :: "bool \<Rightarrow> string list \<Rightarrow> string list \<Rightarrow> string list" where
  "resolve_segments absolute acc [] = rev acc"
| "resolve_segments absolute acc (x # xs) =
     (if x = [] \<or> x = ''.'' then resolve_segments absolute acc xs
      else if x = ''..'' then
        (case acc of [] \<Rightarrow> resolve_segments absolute (if absolute then [] else [x]) xs
         | y # ys \<Rightarrow> if y = ''..'' then resolve_segments absolute (x # acc) xs else resolve_segments absolute ys xs)
      else resolve_segments absolute (x # acc) xs)"

definition path_join :: "string list \<Rightarrow> string" where
  "path_join parts =
     (let joined = js_join ''/'' (filter (\<lambda>p. p \<noteq> []) parts); absolute = (take 1 joined = ''/'');
          path = js_join ''/'' (resolve_segments absolute [] (js_split CHR ''/'' joined));
          trailing = (if path \<noteq> [] \<and> last joined = CHR ''/'' then ''/'' else []) in
      if joined = [] then ''.'' else if absolute then ''/'' @ path @ trailing else if path = [] then ''.'' else path @ trailing)"

section \<open>VoiceService\<close>

text \<open>A row that \<open>create\<close> makes, with the defaults of the columns.\<close>

definition VoiceJob_create :: "JobType \<Rightarrow> string option \<Rightarrow> string option \<Rightarrow> string \<Rightarrow> VoiceJob" where
  "VoiceJob_create type audioUrl inputText audioHash = \<lparr>vj_id = [], vj_type = type, vj_status = SPENDING, vj_userId = None,
     vj_audioUrl = audioUrl, vj_audioHash = Some audioHash, vj_transcribedText = None, vj_generatedAudioUrl = None,
     vj_inputText = inputText, vj_errorMessage = None, vj_retryCount = 0, vj_maxRetries = 3, vj_createdAt = 0, vj_updatedAt = 0,
     vj_completedAt = None\<rparr>"

definition finished_duplicate :: "string \<Rightarrow> JobType \<Rightarrow> VoiceJob \<Rightarrow> bool" where
  "finished_duplicate audioHash type j = (vj_audioHash j = Some audioHash \<and> vj_type j = type \<and> vj_status j = SCOMPLETED)"

definition processSTT :: "'s speech_env \<Rightarrow> string \<Rightarrow> string \<Rightarrow> ('s, string) prog" where
  "processSTT S buffer originalname =
     (let audioHash = sp_sha256 S buffer in
      bindE (repo_findOne (sp_repo S) (finished_duplicate audioHash STT)) (\<lambda>existingJob. case existingJob of
        Some existing \<Rightarrow> returnE (vj_id existing)
      | None \<Rightarrow>
          let uploadDir = path_join [sp_cwd S, ''uploads'', ''audio''] in
          seqE (sp_mkdir S uploadDir)
          (bindE (readE (sp_now S)) (\<lambda>now.
           let filePath = path_join [uploadDir, show_int now @ ''-'' @ originalname] in
           seqE (sp_writeFile S filePath buffer)
           (bindE (repo_insert (sp_repo S) (VoiceJob_create STT (Some filePath) None audioHash)) (\<lambda>(jobId, _).
            seqE (sp_add S ''process-stt'' jobId) (returnE jobId)))))))"

definition processTTS :: "'s speech_env \<Rightarrow> string \<Rightarrow> ('s, string) prog" where
  "processTTS S txt =
     (let audioHash = sp_sha256 S txt in
      bindE (repo_findOne (sp_repo S) (finished_duplicate audioHash TTS)) (\<lambda>existingJob. case existingJob of
        Some existing \<Rightarrow> returnE (vj_id existing)
      | None \<Rightarrow>
          bindE (repo_insert (sp_repo S) (VoiceJob_create TTS None (Some txt) audioHash)) (\<lambda>(jobId, _).
            seqE (sp_add S ''process-tts'' jobId) (returnE jobId))))"

definition find_job :: "'s speech_env \<Rightarrow> string \<Rightarrow> ('s, VoiceJob option) prog" where
  "find_job S jobId = repo_findOne (sp_repo S) (\<lambda>j. vj_id j = jobId)"

record job_status =
  js_id :: string
  js_type :: JobType
  js_status :: SpeechStatus
  js_text :: "string option"
  js_audioUrl :: "string option"
  js_resultAudioUrl :: "string option"
  js_errorMessage :: "string option"
  js_createdAt :: int
  js_updatedAt :: int

definition job_text :: "VoiceJob \<Rightarrow> string option" where
  "job_text job = (if truthy (vj_inputText job) then vj_inputText job else vj_transcribedText job)"

definition getJobStatus :: "'s speech_env \<Rightarrow> string \<Rightarrow> ('s, job_status) prog" where
  "getJobStatus S jobId =
     bindE (find_job S jobId) (\<lambda>found. case found of
       None \<Rightarrow> throwE (NotFoundException ''Job not found'')
     | Some job \<Rightarrow> returnE \<lparr>js_id = vj_id job, js_type = vj_type job, js_status = vj_status job, js_text = job_text job,
         js_audioUrl = vj_audioUrl job, js_resultAudioUrl = vj_generatedAudioUrl job, js_errorMessage = vj_errorMessage job,
         js_createdAt = vj_createdAt job, js_updatedAt = vj_updatedAt job\<rparr>)"

datatype job_result =
    NotCompleted SpeechStatus string
  | Completed JobType "string option" "string option"

definition getJobResult :: "'s speech_env \<Rightarrow> string \<Rightarrow> ('s, job_result) prog" where
  "getJobResult S jobId =
     bindE (find_job S jobId) (\<lambda>found. case found of
       None \<Rightarrow> throwE (NotFoundException ''Job not found'')
     | Some job \<Rightarrow>
         if vj_status job \<noteq> SCOMPLETED then returnE (NotCompleted (vj_status job) ''Job not completed yet'')
         else returnE (Completed (vj_type job) (job_text job) (vj_generatedAudioUrl job)))"

text \<open>\<open>update\<close> writes the given columns and the update column.\<close>

definition update_job :: "'s speech_env \<Rightarrow> string \<Rightarrow> (VoiceJob \<Rightarrow> VoiceJob) \<Rightarrow> ('s, unit) prog" where
  "update_job S jobId f =
     bindE (readE (sp_now S)) (\<lambda>now.
       ignoreE (repo_update (sp_repo S) (\<lambda>j. vj_id j = jobId) (\<lambda>j. (f j)\<lparr>vj_updatedAt := now\<rparr>)))"

definition updateJobStatus :: "'s speech_env \<Rightarrow> string \<Rightarrow> SpeechStatus \<Rightarrow> (VoiceJob \<Rightarrow> VoiceJob) \<Rightarrow> ('s, unit) prog" where
  "updateJobStatus S jobId status updates = update_job S jobId (\<lambda>j. updates (j\<lparr>vj_status := status\<rparr>))"

definition incrementRetry :: "'s speech_env \<Rightarrow> string \<Rightarrow> ('s, bool) prog" where
  "incrementRetry S jobId =
     bindE (find_job S jobId) (\<lambda>found. case found of
       None \<Rightarrow> returnE False
     | Some job \<Rightarrow>
         let newRetryCount = vj_retryCount job + 1 in
         seqE (update_job S jobId (\<lambda>j. j\<lparr>vj_retryCount := newRetryCount\<rparr>))
           (returnE (newRetryCount < vj_maxRetries job)))"

section \<open>VoiceProcessor\<close>

definition transcribeAudio :: "'s speech_env \<Rightarrow> string option \<Rightarrow> ('s, string) prog" where
  "transcribeAudio S audioPath = (\<lambda>s. (Inr ''Transcribed text from audio'', sp_delay S 2000 s))"

definition generateSpeech :: "'s speech_env \<Rightarrow> string \<Rightarrow> ('s, string) prog" where
  "generateSpeech S txt =
     (let outputDir = path_join [sp_cwd S, ''uploads'', ''tts''] in
      seqE (sp_mkdir S outputDir)
      (bindE (readE (sp_now S)) (\<lambda>now.
       let filePath = path_join [outputDir, show_int now @ ''-speech.mp3''] in
       seqE (sp_writeFile S filePath []) (returnE filePath))))"

text \<open>The catch blocks of both handlers.\<close>

definition retry_or_fail :: "'s speech_env \<Rightarrow> string \<Rightarrow> exn \<Rightarrow> ('s, unit) prog" where
  "retry_or_fail S jobId error =
     bindE (incrementRetry S jobId) (\<lambda>canRetry.
       if canRetry then seqE (updateJobStatus S jobId SPENDING (\<lambda>j. j)) (throwE error)
       else updateJobStatus S jobId SFAILED (\<lambda>j. j\<lparr>vj_errorMessage := Some (exn_message error)\<rparr>))"

definition handleSTT :: "'s speech_env \<Rightarrow> string \<Rightarrow> ('s, unit) prog" where
  "handleSTT S jobId =
     catchE
       (bindE (find_job S jobId) (\<lambda>found. case found of
          None \<Rightarrow> throwE (Error ''Job not found'')
        | Some voiceJob \<Rightarrow>
            seqE (updateJobStatus S jobId SPROCESSING (\<lambda>j. j))
            (bindE (transcribeAudio S (vj_audioUrl voiceJob)) (\<lambda>transcribedText.
              updateJobStatus S jobId SCOMPLETED (\<lambda>j. j\<lparr>vj_transcribedText := Some transcribedText\<rparr>)))))
       (retry_or_fail S jobId)"

definition handleTTS :: "'s speech_env \<Rightarrow> string \<Rightarrow> ('s, unit) prog" where
  "handleTTS S jobId =
     catchE
       (bindE (find_job S jobId) (\<lambda>found. case found of
          None \<Rightarrow> throwE (Error ''Job not found'')
        | Some voiceJob \<Rightarrow>
            seqE (updateJobStatus S jobId SPROCESSING (\<lambda>j. j))
            (bindE (generateSpeech S (or_str (vj_inputText voiceJob) [])) (\<lambda>audioPath.
              updateJobStatus S jobId SCOMPLETED (\<lambda>j. j\<lparr>vj_generatedAudioUrl := Some audioPath\<rparr>)))))
       (retry_or_fail S jobId)"

text \<open>
  What Bull does with a job that has \<open>n\<close> attempts: it runs the handler, and runs it again after an exception as long as an attempt is
  left. A job that is added without options has one.
\<close>

primrec bull_runs :: "nat \<Rightarrow> ('s, unit) prog \<Rightarrow> ('s, unit) prog" where
  "bull_runs 0 handler = returnE ()"
| "bull_runs (Suc n) handler = (if n = 0 then handler else catchE handler (\<lambda>_. bull_runs n handler))"

section \<open>VoiceController\<close>

definition uploadAudio :: "'s speech_env \<Rightarrow> (string \<times> string) option \<Rightarrow> ('s, string) prog" where
  "uploadAudio S file = (case file of
       None \<Rightarrow> throwE (BadRequestException ''No audio file provided'')
     | Some (buffer, originalname) \<Rightarrow> processSTT S buffer originalname)"

definition generateTTS :: "'s speech_env \<Rightarrow> string \<Rightarrow> ('s, string) prog" where
  "generateTTS S txt = processTTS S txt"

section \<open>The table of jobs\<close>

text \<open>What a handler did to its row after a failure.\<close>

definition failed_row :: "SpeechStatus \<Rightarrow> VoiceJob \<Rightarrow> VoiceJob \<Rightarrow> bool" where
  "failed_row st r r' \<longleftrightarrow> vj_status r' = st \<and> vj_retryCount r' = Suc (vj_retryCount r) \<and> vj_maxRetries r' = vj_maxRetries r \<and>
     vj_generatedAudioUrl r' = vj_generatedAudioUrl r"

definition completed_row :: "VoiceJob \<Rightarrow> VoiceJob \<Rightarrow> bool" where
  "completed_row r r' \<longleftrightarrow> vj_status r' = SCOMPLETED \<and> (\<exists>p. vj_generatedAudioUrl r' = Some p) \<and> vj_retryCount r' = vj_retryCount r"

text \<open>The row \<open>i\<close> is a completed text-to-speech job with the hash.\<close>

definition spoken :: "('s \<Rightarrow> string \<Rightarrow> VoiceJob option) \<Rightarrow> 's \<Rightarrow> string \<Rightarrow> string \<Rightarrow> bool" where
  "spoken tab s h i \<longleftrightarrow> (\<exists>r. tab s i = Some r \<and> finished_duplicate h TTS r)"

text \<open>The repository works, and neither the file system, the queue nor the timer touches the table.\<close>

locale speech_store = repo_table "sp_repo S" tab vj_id stamp gen
  for S :: "'s speech_env" and tab stamp gen +
  assumes mkdir_tab: "tab (snd (sp_mkdir S p s)) = tab s"
    and writeFile_tab: "tab (snd (sp_writeFile S p b s)) = tab s"
    and add_ok: "ok (sp_add S n i) s" and add_tab: "tab (snd (sp_add S n i s)) = tab s"
    and delay_tab: "tab (sp_delay S ms s) = tab s"
    and gen_job: "gen i t j = j\<lparr>vj_id := i, vj_createdAt := t, vj_updatedAt := t\<rparr>"
begin

lemma find_job_wp: "wp (find_job S i) Q X = (\<lambda>s. Q (tab s i) s)"
  by (rule ext) (simp add: find_job_def wp_simps findOne_key)

lemma update_job_wp:
  assumes "tab s i = Some r" and "\<And>j. vj_id (f j) = vj_id j"
    and "\<And>s' t. tab s' = (tab s)(i \<mapsto> (f r)\<lparr>vj_updatedAt := t\<rparr>) \<Longrightarrow> Q () s'"
  shows "wp (update_job S i f) Q X s"
proof -
  let ?f = "\<lambda>j. (f j)\<lparr>vj_updatedAt := sp_now S s\<rparr>"
  have "tab (fin (repo_update (sp_repo S) (\<lambda>j. vj_id j = i) ?f) s) = (tab s)(i \<mapsto> ?f r)"
  proof (rule ext)
    fix j
    have "vj_id (?f x) = vj_id x" for x by (simp add: assms(2))
    then have upd: "tab (fin (repo_update (sp_repo S) (\<lambda>j. vj_id j = i) ?f) s) j = map_option (\<lambda>x. if vj_id x = i then ?f x else x) (tab s j)"
      by (simp add: update_tab)
    then show "tab (fin (repo_update (sp_repo S) (\<lambda>j. vj_id j = i) ?f) s) j = ((tab s)(i \<mapsto> ?f r)) j"
    proof (cases "tab s j")
      case None
      with assms(1) have "j \<noteq> i" by auto
      with None upd show ?thesis by simp
    next
      case (Some x)
      then have "vj_id x = j" by (rule key_tab)
      with Some upd assms(1) show ?thesis by (cases "j = i") simp_all
    qed
  qed
  then show ?thesis by (simp add: update_job_def wp_simps assms(3))
qed

lemma retry_or_fail_wp:
  assumes "tab s i = Some r"
    and "\<And>s' r'. Suc (vj_retryCount r) < vj_maxRetries r \<Longrightarrow> tab s' = (tab s)(i \<mapsto> r') \<Longrightarrow> failed_row SPENDING r r' \<Longrightarrow> X e s'"
    and "\<And>s' r'. \<not> Suc (vj_retryCount r) < vj_maxRetries r \<Longrightarrow> tab s' = (tab s)(i \<mapsto> r') \<Longrightarrow> failed_row SFAILED r r' \<Longrightarrow>
      vj_errorMessage r' = Some (exn_message e) \<Longrightarrow> Q () s'"
  shows "wp (retry_or_fail S i e) Q X s"
proof -
  have "wp (update_job S i (\<lambda>j. j\<lparr>vj_retryCount := Suc (vj_retryCount r)\<rparr>)) (\<lambda>_ s1.
      (Suc (vj_retryCount r) < vj_maxRetries r \<longrightarrow> wp (updateJobStatus S i SPENDING (\<lambda>j. j)) (\<lambda>_. X e) X s1) \<and>
      (\<not> Suc (vj_retryCount r) < vj_maxRetries r \<longrightarrow>
         wp (updateJobStatus S i SFAILED (\<lambda>j. j\<lparr>vj_errorMessage := Some (exn_message e)\<rparr>)) Q X s1)) X s"
  proof (rule update_job_wp [OF assms(1)], goal_cases)
    case (2 s1 t)
    then have row: "tab s1 i = Some (r\<lparr>vj_retryCount := Suc (vj_retryCount r), vj_updatedAt := t\<rparr>)" by simp
    show ?case
    proof (intro conjI impI)
      assume "Suc (vj_retryCount r) < vj_maxRetries r"
      note retry = assms(2) [OF this]
      show "wp (updateJobStatus S i SPENDING (\<lambda>j. j)) (\<lambda>_. X e) X s1"
        unfolding updateJobStatus_def by (rule update_job_wp [OF row]) (simp, rule retry, simp add: 2(1), simp add: failed_row_def)
    next
      assume "\<not> Suc (vj_retryCount r) < vj_maxRetries r"
      note fail = assms(3) [OF this]
      show "wp (updateJobStatus S i SFAILED (\<lambda>j. j\<lparr>vj_errorMessage := Some (exn_message e)\<rparr>)) Q X s1"
        unfolding updateJobStatus_def by (rule update_job_wp [OF row]) (simp, rule fail, simp add: 2(1), simp_all add: failed_row_def)
    qed
  qed simp
  then show ?thesis
    by (simp add: retry_or_fail_def incrementRetry_def find_job_wp wp_simps assms(1) Let_def cong: if_cong)
qed

text \<open>One attempt at a text-to-speech job, when the speech cannot be written for whatever reason, and with a file system that works.\<close>

lemma generateSpeech_fails:
  assumes "isl (fst (generateSpeech S x s))" and "\<And>e s'. tab s' = tab s \<Longrightarrow> X e s'"
  shows "wp (generateSpeech S x) Q X s"
proof -
  have m: "tab s' = tab t" if "sp_mkdir S p t = (v, s')" for p t v s' using mkdir_tab [of p t] that by simp
  have w: "tab s' = tab t" if "sp_writeFile S p b t = (v, s')" for p b t v s' using writeFile_tab [of p b t] that by simp
  have "tab (snd (generateSpeech S x s)) = tab s"
    by (auto simp: generateSpeech_def Let_def seqE_def bindE_def readE_def returnE_def split: prod.split sum.split dest!: m w)
  with assms show ?thesis by (cases "generateSpeech S x s") (auto simp: wp_def isl_def)
qed

lemma handleTTS_failing:
  assumes "tab s i = Some r" and broken: "\<And>x t. isl (fst (generateSpeech S x t))"
    and "\<And>e s' r'. Suc (vj_retryCount r) < vj_maxRetries r \<Longrightarrow> tab s' = (tab s)(i \<mapsto> r') \<Longrightarrow> failed_row SPENDING r r' \<Longrightarrow> X e s'"
    and "\<And>s' r'. \<not> Suc (vj_retryCount r) < vj_maxRetries r \<Longrightarrow> tab s' = (tab s)(i \<mapsto> r') \<Longrightarrow> failed_row SFAILED r r' \<Longrightarrow> Q () s'"
  shows "wp (handleTTS S i) Q X s"
proof -
  have attempt: "wp (generateSpeech S x) P (\<lambda>e. wp (retry_or_fail S i e) Q X) s1"
    if "tab s1 = (tab s)(i \<mapsto> r\<lparr>vj_status := SPROCESSING, vj_updatedAt := t\<rparr>)" for x P s1 t
  proof (rule generateSpeech_fails [OF broken])
    let ?r = "r\<lparr>vj_status := SPROCESSING, vj_updatedAt := t\<rparr>"
    fix e s2
    assume "tab s2 = tab s1"
    with that have "tab s2 = (tab s)(i \<mapsto> ?r)" by simp
    moreover have "failed_row st ?r r' \<longleftrightarrow> failed_row st r r'" for st r' by (simp add: failed_row_def)
    ultimately show "wp (retry_or_fail S i e) Q X s2"
      by (intro retry_or_fail_wp [where r = ?r]) (simp, rule assms(3), simp_all, rule assms(4), simp_all)
  qed
  show ?thesis
    unfolding handleTTS_def updateJobStatus_def
    by (simp add: find_job_wp wp_simps assms(1)) (rule update_job_wp [OF assms(1)], simp, rule attempt, simp)
qed

lemma handleTTS_working:
  assumes "tab s i = Some r" and mk: "\<And>p t. ok (sp_mkdir S p) t" and wr: "\<And>p b t. ok (sp_writeFile S p b) t"
  shows "wp (handleTTS S i) (\<lambda>_ s'. \<exists>r'. tab s' = (tab s)(i \<mapsto> r') \<and> completed_row r r') (\<lambda>_ _. False) s"
proof -
  have fs: "tab (fin (sp_writeFile S p b) t) = tab t" "tab (fin (sp_mkdir S p) t) = tab t" for p b t
    by (simp_all add: fin_def writeFile_tab mkdir_tab)
  have done_wp: "wp (update_job S i (\<lambda>j. j\<lparr>vj_status := SCOMPLETED, vj_generatedAudioUrl := Some p\<rparr>))
      (\<lambda>_ s'. \<exists>r'. tab s' = (tab s)(i \<mapsto> r') \<and> completed_row r r') X s2"
    if "tab s2 = (tab s)(i \<mapsto> r\<lparr>vj_status := SPROCESSING, vj_updatedAt := t\<rparr>)" for p X s2 t
    by (rule update_job_wp [where r = "r\<lparr>vj_status := SPROCESSING, vj_updatedAt := t\<rparr>"]) (use that in \<open>auto simp: completed_row_def\<close>)
  show ?thesis
    unfolding handleTTS_def updateJobStatus_def
    by (simp add: wp_simps find_job_wp assms(1) generateSpeech_def Let_def wp_ok_all [OF mk] wp_ok_all [OF wr])
      (rule update_job_wp [OF assms(1)], simp, rule done_wp, simp add: fs)
qed

lemma bull_runs_failing:
  assumes "\<And>x t. isl (fst (generateSpeech S x t))" and "0 < n" and "tab s i = Some r" and "vj_retryCount r < vj_maxRetries r"
  shows "wp (bull_runs n (handleTTS S i))
    (\<lambda>_ s'. vj_maxRetries r - vj_retryCount r \<le> n \<and> (\<exists>r'. tab s' i = Some r' \<and> vj_status r' = SFAILED \<and>
       vj_retryCount r' = vj_maxRetries r \<and> vj_generatedAudioUrl r' = vj_generatedAudioUrl r))
    (\<lambda>_ s'. n < vj_maxRetries r - vj_retryCount r \<and> (\<exists>r'. tab s' i = Some r' \<and> vj_status r' = SPENDING \<and>
       vj_retryCount r' = vj_retryCount r + n \<and> vj_generatedAudioUrl r' = vj_generatedAudioUrl r)) s"
  using assms(2-4)
proof (induction n arbitrary: s r)
  case (Suc n)
  show ?case
  proof (cases "n = 0")
    case True
    then show ?thesis unfolding bull_runs.simps
      by (simp only: simp_thms if_True) (rule handleTTS_failing [OF Suc.prems(2) assms(1)]; use Suc.prems in \<open>auto simp: failed_row_def\<close>)
  next
    case False
    show ?thesis unfolding bull_runs.simps if_not_P [OF False] wp_catchE
    proof (rule handleTTS_failing [OF Suc.prems(2) assms(1)], goal_cases)
      case (1 e s' r')
      then have r': "tab s' i = Some r'" "vj_retryCount r' = Suc (vj_retryCount r)" "vj_maxRetries r' = vj_maxRetries r"
        "vj_generatedAudioUrl r' = vj_generatedAudioUrl r" by (simp_all add: failed_row_def)
      show ?case by (rule wp_mono [OF Suc.IH [OF _ r'(1)]]) (use False r' 1(1) in auto)
    next
      case (2 s' r')
      then show ?case using Suc.prems(3) by (auto simp: failed_row_def)
    qed
  qed
qed simp

lemma processTTS_wp:
  shows "wp (processTTS S x) (\<lambda>i s'.
     (if \<exists>j. spoken tab s (sp_sha256 S x) j then spoken tab s (sp_sha256 S x) i \<and> s' = s
      else tab s i = None \<and> (\<exists>r. tab s' = (tab s)(i \<mapsto> r) \<and> vj_status r = SPENDING \<and> vj_type r = TTS \<and> vj_inputText r = Some x \<and>
        vj_retryCount r = 0 \<and> vj_maxRetries r = 3))) (\<lambda>_ _. False) s"
proof (cases "res (repo_findOne (sp_repo S) (finished_duplicate (sp_sha256 S x) TTS)) s")
  case (Some r)
  then have "tab s (vj_id r) = Some r \<and> finished_duplicate (sp_sha256 S x) TTS r" by (rule findOne_Some)
  with Some show ?thesis by (auto simp: processTTS_def wp_simps Let_def spoken_def)
next
  case None
  then have none: "\<not> finished_duplicate (sp_sha256 S x) TTS r" if "tab s j = Some r" for j r
    using that findOne_None by blast
  let ?new = "VoiceJob_create TTS None (Some x) (sp_sha256 S x)"
  obtain i t where it: "res (repo_insert (sp_repo S) ?new) s = (i, t)" by (metis surj_pair)
  from insert_fresh [OF it] insert_tab [OF it] have "tab s i = None" "tab (fin (repo_insert (sp_repo S) ?new) s) = (tab s)(i \<mapsto> gen i t ?new)"
    by simp_all
  moreover have "tab (fin (sp_add S n j) s') = tab s'" for n j s' by (simp add: fin_def add_tab)
  moreover have "vj_status (gen i t ?new) = SPENDING" "vj_type (gen i t ?new) = TTS" "vj_inputText (gen i t ?new) = Some x"
    "vj_retryCount (gen i t ?new) = 0" "vj_maxRetries (gen i t ?new) = 3"
    by (simp_all add: gen_job VoiceJob_create_def)
  ultimately show ?thesis using None none it
    by (auto simp: processTTS_def wp_simps Let_def wp_ok_all [OF add_ok] spoken_def)
qed

end

section \<open>A store in memory\<close>

record speech_store_state =
  ss_jobs :: "VoiceJob list"
  ss_clock :: int

definition stamp_job :: "int \<Rightarrow> VoiceJob \<Rightarrow> VoiceJob" where
  "stamp_job t j = j\<lparr>vj_updatedAt := t\<rparr>"

definition gen_job :: "string \<Rightarrow> int \<Rightarrow> VoiceJob \<Rightarrow> VoiceJob" where
  "gen_job i t j = j\<lparr>vj_id := i, vj_createdAt := t, vj_updatedAt := t\<rparr>"

definition mem_speech :: "exn option \<Rightarrow> speech_store_state speech_env" where
  "mem_speech broken = \<lparr>sp_repo = mem_repo ss_jobs (\<lambda>js s. s\<lparr>ss_jobs := js\<rparr>) ss_clock vj_id stamp_job gen_job, sp_now = ss_clock,
     sp_sha256 = (\<lambda>x. x), sp_cwd = ''/srv'', sp_mkdir = (\<lambda>p. case broken of None \<Rightarrow> returnE () | Some e \<Rightarrow> throwE e),
     sp_writeFile = (\<lambda>p b. returnE ()), sp_add = (\<lambda>n i. returnE ()), sp_delay = (\<lambda>ms s. s)\<rparr>"

abbreviation mem_speech_jobs :: "speech_store_state \<Rightarrow> string \<Rightarrow> VoiceJob option" where
  "mem_speech_jobs \<equiv> mem_tab ss_jobs vj_id"

lemma mem_speech_store: "speech_store (mem_speech broken) mem_speech_jobs stamp_job gen_job"
proof -
  have "repo_table (sp_repo (mem_speech broken)) mem_speech_jobs vj_id stamp_job gen_job"
    by (simp add: mem_speech_def) (rule mem_repo_table, simp_all add: stamp_job_def gen_job_def)
  then show ?thesis
    by (simp add: speech_store_def speech_store_axioms_def mem_speech_def returnE_def throwE_def ok_def gen_job_def split: option.split)
qed

interpretation spmem: speech_store "mem_speech broken" mem_speech_jobs stamp_job gen_job for broken
  by (rule mem_speech_store)

definition demo_job :: VoiceJob where
  "demo_job = (VoiceJob_create TTS None (Some ''hello'') ''h'')\<lparr>vj_id := ''1''\<rparr>"

definition demo_jobs :: speech_store_state where
  "demo_jobs = \<lparr>ss_jobs = [demo_job], ss_clock = 5\<rparr>"

section \<open>Properties\<close>



text \<open>
  A text is not spoken twice once it has been: a request whose text has the hash of a completed text-to-speech job is answered with such a
  job and changes nothing; every other request stores one new pending job under an unused id and answers with that id.
\<close>

theorem processTTS_deduplicates:
  assumes "speech_store S tab stamp gen" and "h = sp_sha256 S x"
  shows "\<exists>i s'. processTTS S x s = (Inr i, s') \<and>
    (if \<exists>j. spoken tab s h j then spoken tab s h i \<and> s' = s
     else tab s i = None \<and> (\<exists>r. tab s' = (tab s)(i \<mapsto> r) \<and> vj_status r = SPENDING \<and> vj_type r = TTS \<and> vj_inputText r = Some x \<and>
       vj_retryCount r = 0 \<and> vj_maxRetries r = 3))"
  using speech_store.processTTS_wp [OF assms(1), of x s] unfolding wp_value assms(2) by blast

theorem processTTS_deduplicates_witness:
  "\<exists>i s' r. processTTS (mem_speech None) ''hi'' demo_jobs = (Inr i, s') \<and> mem_speech_jobs s' i = Some r \<and> vj_status r = SPENDING"
proof -
  have none: "\<not> (\<exists>j. spoken mem_speech_jobs demo_jobs ''hi'' j)"
    by (auto simp: spoken_def mem_tab_def demo_jobs_def demo_job_def VoiceJob_create_def finished_duplicate_def split: if_splits)
  have "''hi'' = sp_sha256 (mem_speech None) ''hi''" by (simp add: mem_speech_def)
  from processTTS_deduplicates [OF mem_speech_store this, of demo_jobs, unfolded if_not_P [OF none]] show ?thesis by auto
qed

end
