(* ===== verification/Http_Routes.thy ===== *)
theory Http_Routes
  imports Farm_Prelude
begin

text \<open>
  Routes as the decorators of the controllers declare them (\<open>@Controller\<close>, \<open>@Get\<close>, \<open>@Post\<close>, \<open>@Put\<close>, \<open>@Delete\<close>), and the
  router of the framework, which is an argument with its documented behaviour as the laws of \<open>http_router\<close>.
\<close>

section \<open>Routes\<close>

text \<open>A path is the list of its segments; a parameter segment matches every segment.\<close>

datatype segment = Lit string | Param string

datatype http_method = GET | POST | PUT | DELETE

record route =
  rt_method :: http_method
  rt_path :: "segment list"
  rt_handler :: string

abbreviation at_route :: "http_method \<Rightarrow> segment list \<Rightarrow> string \<Rightarrow> route" where
  "at_route m p h \<equiv> \<lparr>rt_method = m, rt_path = p, rt_handler = h\<rparr>"

text \<open>A path as it is written in a decorator.\<close>

definition path_of :: "string \<Rightarrow> segment list" where
  "path_of p = map (\<lambda>x. if take 1 x = '':'' then Param (drop 1 x) else Lit x) (filter (\<lambda>x. x \<noteq> []) (js_split CHR ''/'' p))"

fun match_path :: "segment list \<Rightarrow> string list \<Rightarrow> (string \<times> string) list option" where
  "match_path [] [] = Some []"
| "match_path (Lit l # ps) (x # xs) = (if l = x then match_path ps xs else None)"
| "match_path (Param n # ps) (x # xs) = map_option (Cons (n, x)) (match_path ps xs)"
| "match_path _ _ = None"

definition route_matches :: "route \<Rightarrow> http_method \<Rightarrow> string list \<Rightarrow> (string \<times> string) list option" where
  "route_matches r m xs = (if rt_method r = m then match_path (rt_path r) xs else None)"

section \<open>The router\<close>

text \<open>
  The router of the framework is an argument: given the routes in the order of their declaration, it takes the first that
  matches. \<open>first_route\<close> is a router that does.
\<close>

type_synonym router = "route list \<Rightarrow> http_method \<Rightarrow> string list \<Rightarrow> (string \<times> (string \<times> string) list) option"

locale http_router =
  fixes dispatch :: router
  assumes skips: "route_matches r m xs = None \<Longrightarrow> dispatch (r # rs) m xs = dispatch rs m xs"
    and takes: "route_matches r m xs = Some ps \<Longrightarrow> dispatch (r # rs) m xs = Some (rt_handler r, ps)"
    and no_route: "dispatch [] m xs = None"
begin

lemma dispatch_Cons:
  "dispatch (r # rs) m xs = (case route_matches r m xs of Some ps \<Rightarrow> Some (rt_handler r, ps) | None \<Rightarrow> dispatch rs m xs)"
  by (simp add: skips takes split: option.split)

end

fun first_route :: router where
  "first_route [] m xs = None"
| "first_route (r # rs) m xs =
     (case route_matches r m xs of Some ps \<Rightarrow> Some (rt_handler r, ps) | None \<Rightarrow> first_route rs m xs)"

interpretation first: http_router first_route
  by unfold_locales simp_all

end
