(* ===== verification/Workflow_Admin.thy ===== *)
theory Workflow_Admin
  imports Workflow_Monitoring Http_Routes
begin

text \<open>
  \<open>WorkflowAdminController\<close> (src/Backend/src/workflow/controllers/workflow-admin.controller.ts): the requests of the operators on
  the workflows, and the table of routes that its decorators declare, from which the router takes the first that matches.
\<close>

section \<open>Routes\<close>

text \<open>A path is the list of its segments below \<open>admin/workflows\<close>; a parameter segment matches every segment.\<close>

definition admin_routes :: "route list" where
  "admin_routes =
     [at_route GET [] ''getWorkflows'',
      at_route GET [Param ''id''] ''getWorkflow'',
      at_route GET [Param ''id'', Lit ''timeline''] ''getWorkflowTimeline'',
      at_route POST [Param ''id'', Lit ''retry''] ''retryWorkflow'',
      at_route POST [Param ''id'', Lit ''cancel''] ''cancelWorkflow'',
      at_route POST [Param ''id'', Lit ''compensate''] ''compensateWorkflow'',
      at_route GET [Param ''id'', Lit ''steps'', Param ''stepId''] ''getWorkflowStep'',
      at_route POST [Param ''id'', Lit ''steps'', Param ''stepId'', Lit ''retry''] ''retryWorkflowStep'',
      at_route GET [Lit ''stats'', Lit ''overview''] ''getWorkflowStats'',
      at_route GET [Lit ''search''] ''searchWorkflows'',
      at_route POST [Lit ''recovery'', Lit ''trigger''] ''triggerRecovery'',
      at_route GET [Lit ''metrics''] ''getMetrics'',
      at_route GET [Lit ''health''] ''getHealth'',
      at_route GET [Lit ''compensatable''] ''getCompensatableWorkflows'',
      at_route POST [Param ''id'', Lit ''force-compensate''] ''forceCompensateWorkflow'']"

section \<open>Queries\<close>

text \<open>\<open>Math.ceil(total / limit)\<close>; a limit of 0 gives no finite number.\<close>

definition totalPages :: "nat \<Rightarrow> int \<Rightarrow> int option" where
  "totalPages n limit = (if limit = 0 then None else Some (- ((- int n) div limit)))"

record pagination =
  pg_page :: int
  pg_limit :: int
  pg_total :: nat
  pg_totalPages :: "int option"

text \<open>\<open>findAndCount\<close> with the steps; a negative offset or limit is an error of the database.\<close>

definition admin_page :: "'s engine \<Rightarrow> (Workflow \<Rightarrow> bool) \<Rightarrow> int \<Rightarrow> int \<Rightarrow> ('s, (Workflow \<times> WorkflowStep list) list \<times> pagination) prog" where
  "admin_page E P page limit =
     (let skip = (page - 1) * limit in
      if skip < 0 \<or> limit < 0 then throwE (Error ''OFFSET must not be negative'')
      else bindE (repo_findAndCount (eng_workflows E) P (Desc wf_createdAt) (nat skip) (nat limit)) (\<lambda>(workflows, n).
        bindE (mapE workflows (\<lambda>w. bindE (loadSteps E (wf_id w)) (\<lambda>steps. returnE (w, steps)))) (\<lambda>rows.
          returnE (rows, \<lparr>pg_page = page, pg_limit = limit, pg_total = n, pg_totalPages = totalPages n limit\<rparr>))))"

definition admin_getWorkflows :: "'s engine \<Rightarrow> int \<Rightarrow> int \<Rightarrow> WorkflowState option \<Rightarrow> string option \<Rightarrow> string option \<Rightarrow> string option \<Rightarrow>
    ('s, (Workflow \<times> WorkflowStep list) list \<times> pagination) prog" where
  "admin_getWorkflows E page limit state ty userId walletAddress =
     admin_page E (\<lambda>w. (state = None \<or> wf_state w = the state) \<and> (truthy ty \<longrightarrow> wf_type w = the ty) \<and>
       (truthy userId \<longrightarrow> wf_userId w = userId) \<and> (truthy walletAddress \<longrightarrow> wf_walletAddress w = walletAddress)) page limit"

definition admin_getWorkflow :: "'s engine \<Rightarrow> string \<Rightarrow> ('s, Workflow \<times> WorkflowStep list) prog" where
  "admin_getWorkflow E i = bindE (getWorkflow E i) (\<lambda>found. case found of
       None \<Rightarrow> throwE (NotFoundException ''Workflow not found'') | Some w \<Rightarrow> returnE w)"

definition admin_getWorkflowStep :: "'s engine \<Rightarrow> string \<Rightarrow> string \<Rightarrow> ('s, WorkflowStep) prog" where
  "admin_getWorkflowStep E workflowId stepId =
     bindE (repo_findOne (eng_steps E) (\<lambda>x. st_id x = stepId \<and> st_workflowId x = workflowId)) (\<lambda>found. case found of
       None \<Rightarrow> throwE (NotFoundException ''Step not found'') | Some step \<Rightarrow> returnE step)"

text \<open>\<open>like pattern text\<close> is the database's \<open>LIKE\<close>.\<close>

definition admin_searchWorkflows :: "(string \<Rightarrow> string \<Rightarrow> bool) \<Rightarrow> 's engine \<Rightarrow> string \<Rightarrow> int \<Rightarrow> int \<Rightarrow> ('s, (Workflow \<times> WorkflowStep list) list \<times> pagination) prog" where
  "admin_searchWorkflows like E query page limit =
     admin_page E (\<lambda>w. like (''%'' @ query @ ''%'') (wf_idempotencyKey w) \<or>
       (\<exists>a \<in> set_option (wf_walletAddress w). like (''%'' @ query @ ''%'') a)) page limit"

text \<open>\<open>GROUP BY state\<close>: each state that occurs with its number of rows.\<close>

definition groupCount :: "('e \<Rightarrow> string) \<Rightarrow> 'e list \<Rightarrow> (string \<times> nat) list" where
  "groupCount f xs = fold (\<lambda>x acc. bump acc (f x)) xs []"

record state_counts =
  sc_total :: nat
  sc_byState :: "(string \<times> nat) list"

definition state_counts_of :: "(string \<times> nat) list \<Rightarrow> state_counts" where
  "state_counts_of stats = \<lparr>sc_total = sum_list (map snd stats), sc_byState = stats\<rparr>"

definition admin_getWorkflowStats :: "'s engine \<Rightarrow> ('s, state_counts \<times> state_counts) prog" where
  "admin_getWorkflowStats E =
     bindE (repo_find (eng_workflows E) (\<lambda>_. True) Unordered) (\<lambda>ws.
     bindE (repo_find (eng_steps E) (\<lambda>_. True) Unordered) (\<lambda>xs.
       returnE (state_counts_of (groupCount (\<lambda>w. workflow_state_value (wf_state w)) ws),
                state_counts_of (groupCount (\<lambda>x. step_state_value (st_state x)) xs))))"

section \<open>The timeline\<close>

record admin_event =
  ae_type :: string
  ae_timestamp :: int
  ae_state :: string
  ae_stepName :: "string option"
  ae_stepIndex :: "nat option"
  ae_failureReason :: "string option"
  ae_retryCount :: "nat option"
  ae_message :: string

definition null_text :: "string option \<Rightarrow> string" where
  "null_text v = (case v of None \<Rightarrow> ''null'' | Some t \<Rightarrow> t)"

definition workflow_event :: "Workflow \<Rightarrow> string \<Rightarrow> string \<Rightarrow> int \<Rightarrow> admin_event" where
  "workflow_event w ty msg t = \<lparr>ae_type = ty, ae_timestamp = t, ae_state = workflow_state_value (wf_state w), ae_stepName = None,
     ae_stepIndex = None, ae_failureReason = None, ae_retryCount = None, ae_message = msg\<rparr>"

definition step_event :: "WorkflowStep \<Rightarrow> string \<Rightarrow> string \<Rightarrow> int \<Rightarrow> admin_event" where
  "step_event x ty verb t = \<lparr>ae_type = ty, ae_timestamp = t, ae_state = step_state_value (st_state x), ae_stepName = Some (st_stepName x),
     ae_stepIndex = Some (st_stepIndex x), ae_failureReason = None, ae_retryCount = None,
     ae_message = ''Step '' @ [CHR 0x22] @ st_stepName x @ [CHR 0x22] @ verb\<rparr>"

definition opt_event :: "int option \<Rightarrow> (int \<Rightarrow> admin_event) \<Rightarrow> admin_event list" where
  "opt_event t f = (case t of None \<Rightarrow> [] | Some x \<Rightarrow> [f x])"

definition admin_stepEvents :: "WorkflowStep \<Rightarrow> admin_event list" where
  "admin_stepEvents x =
     opt_event (st_startedAt x) (step_event x ''step_started'' '' started'') @
     opt_event (st_completedAt x) (step_event x ''step_completed'' '' completed'') @
     opt_event (st_failedAt x) (\<lambda>t. (step_event x ''step_failed'' ('' failed: '' @ null_text (st_failureReason x)) t)
       \<lparr>ae_failureReason := st_failureReason x, ae_retryCount := Some (st_retryCount x)\<rparr>) @
     opt_event (st_compensatedAt x) (step_event x ''step_compensated'' '' compensated'')"

definition admin_events :: "Workflow \<Rightarrow> WorkflowStep list \<Rightarrow> admin_event list" where
  "admin_events w steps =
     [workflow_event w ''workflow_created'' ''Workflow created'' (wf_createdAt w)] @
     opt_event (wf_startedAt w) (workflow_event w ''workflow_started'' ''Workflow execution started'') @
     concat (map admin_stepEvents steps) @
     opt_event (wf_completedAt w) (workflow_event w ''workflow_completed'' ''Workflow completed successfully'') @
     opt_event (wf_failedAt w) (\<lambda>t. (workflow_event w ''workflow_failed'' (''Workflow failed: '' @ null_text (wf_failureReason w)) t)
       \<lparr>ae_failureReason := wf_failureReason w, ae_retryCount := Some (wf_retryCount w)\<rparr>)"

definition admin_getWorkflowTimeline :: "'s engine \<Rightarrow> string \<Rightarrow> ('s, string \<times> admin_event list) prog" where
  "admin_getWorkflowTimeline E i =
     bindE (getWorkflow E i) (\<lambda>found. case found of
       None \<Rightarrow> throwE (NotFoundException ''Workflow not found'')
     | Some (w, steps) \<Rightarrow> returnE (wf_id w, sort_key ae_timestamp (admin_events w steps)))"

section \<open>Commands\<close>

definition or_http :: "nat \<Rightarrow> ('s, 'a) prog \<Rightarrow> ('s, 'a) prog" where
  "or_http status m = catchE m (\<lambda>error. throwE (HttpException (exn_message error) status))"

definition admin_retryWorkflow :: "'s engine \<Rightarrow> 's definitions \<Rightarrow> string \<Rightarrow> ('s, unit) prog" where
  "admin_retryWorkflow E defs i = or_http 400 (retryWorkflow E defs i)"

definition admin_cancelWorkflow :: "'s engine \<Rightarrow> string \<Rightarrow> ('s, unit) prog" where
  "admin_cancelWorkflow E i = or_http 400 (cancelWorkflow E i)"

definition admin_compensateWorkflow :: "'s engine \<Rightarrow> string \<Rightarrow> ('s, unit) prog" where
  "admin_compensateWorkflow E i = or_http 400 (compensateWorkflow E i)"

definition admin_forceCompensateWorkflow :: "'s engine \<Rightarrow> string \<Rightarrow> ('s, unit) prog" where
  "admin_forceCompensateWorkflow E i = or_http 400 (forceCompensateWorkflow E i)"

definition admin_retryWorkflowStep :: "'s engine \<Rightarrow> 's definitions \<Rightarrow> string \<Rightarrow> string \<Rightarrow> ('s, unit) prog" where
  "admin_retryWorkflowStep E defs workflowId stepId =
     bindE (repo_findOne (eng_steps E) (\<lambda>x. st_id x = stepId \<and> st_workflowId x = workflowId)) (\<lambda>found. case found of
       None \<Rightarrow> throwE (NotFoundException ''Step not found'')
     | Some step \<Rightarrow>
         if st_state step \<noteq> SFAILED then throwE (BadRequestException ''Step is not in a failed state'')
         else seqE (ignoreE (repo_save (eng_steps E) (step\<lparr>st_state := SPENDING, st_retryCount := st_retryCount step + 1\<rparr>)))
           (retryWorkflow E defs workflowId))"

definition admin_triggerRecovery :: "'s engine \<Rightarrow> 's definitions \<Rightarrow> ('s, recovery_counts) prog" where
  "admin_triggerRecovery E defs = or_http 500 (triggerManualRecovery E defs)"

definition admin_getMetrics :: "'s engine \<Rightarrow> ('s, unit) prog \<Rightarrow> int \<Rightarrow> ('s, workflow_metrics \<times> step_metrics \<times> system_health) prog" where
  "admin_getMetrics E ping hours = or_http 500
     (bindE (getWorkflowMetrics E hours) (\<lambda>workflowMetrics. bindE (getStepMetrics E hours) (\<lambda>stepMetrics.
      bindE (getSystemHealth E ping) (\<lambda>systemHealth. returnE (workflowMetrics, stepMetrics, systemHealth)))))"

definition admin_getHealth :: "'s engine \<Rightarrow> ('s, unit) prog \<Rightarrow> ('s, system_health) prog" where
  "admin_getHealth E ping = or_http 500 (getSystemHealth E ping)"

definition admin_getCompensatableWorkflows :: "'s engine \<Rightarrow> ('s, Workflow list) prog" where
  "admin_getCompensatableWorkflows E = or_http 500 (getCompensatableWorkflows E)"

section \<open>Lemmas\<close>

lemma match_path_length: "match_path ps xs = Some r \<Longrightarrow> length xs = length ps"
  by (induction ps xs arbitrary: r rule: match_path.induct) (auto split: if_splits)

context http_router
begin

lemma dispatch_declared:
  "dispatch rs m xs = Some r \<Longrightarrow>
    (fst r, m, length xs) \<in> (\<lambda>t. (rt_handler t, rt_method t, length (rt_path t))) ` set rs"
  by (induction rs) (auto simp: dispatch_Cons no_route route_matches_def split: option.splits if_splits dest!: match_path_length)

end

lemma shadowed_shape:
  "(h, m, n) \<in> (\<lambda>t. (rt_handler t, rt_method t, length (rt_path t))) ` set admin_routes \<Longrightarrow>
    h \<in> set [''searchWorkflows'', ''getMetrics'', ''getHealth'', ''getCompensatableWorkflows''] \<Longrightarrow> m = GET \<and> n = 1"
  unfolding admin_routes_def by auto

text \<open>What a timeline says of one event: when, and which kind.\<close>

definition event_kind :: "timeline_event \<Rightarrow> int \<times> string" where
  "event_kind e = (ev_timestamp e, ev_eventType e)"

definition admin_kind :: "admin_event \<Rightarrow> int \<times> string" where
  "admin_kind e = (ae_timestamp e, js_upper (ae_type e))"

lemma upper_types [simp]:
  "js_upper ''workflow_created'' = ''WORKFLOW_CREATED''"
  "js_upper ''workflow_started'' = ''WORKFLOW_STARTED''"
  "js_upper ''workflow_completed'' = ''WORKFLOW_COMPLETED''"
  "js_upper ''workflow_failed'' = ''WORKFLOW_FAILED''"
  "js_upper ''step_started'' = ''STEP_STARTED''"
  "js_upper ''step_completed'' = ''STEP_COMPLETED''"
  "js_upper ''step_failed'' = ''STEP_FAILED''"
  "js_upper ''step_compensated'' = ''STEP_COMPENSATED''"
  by code_simp+

lemmas kind_defs = event_kind_def admin_kind_def workflow_event_def step_event_def optEvent_def opt_event_def

lemma step_kinds: "map admin_kind (admin_stepEvents x) = map event_kind (stepEvents x)"
  by (cases "st_startedAt x"; cases "st_completedAt x"; cases "st_failedAt x"; cases "st_compensatedAt x")
    (simp_all add: stepEvents_def admin_stepEvents_def kind_defs)

lemma concat_step_kinds: "map admin_kind (concat (map admin_stepEvents xs)) = map event_kind (concat (map stepEvents xs))"
  by (simp add: map_concat comp_def step_kinds)

text \<open>The event that only the monitoring service reports.\<close>

definition compensation_kind :: "Workflow \<Rightarrow> (int \<times> string) list" where
  "compensation_kind w = (if wf_isCompensated w
     then [(case wf_completedAt w of Some t \<Rightarrow> t | None \<Rightarrow> wf_updatedAt w, ''WORKFLOW_COMPENSATED'')] else [])"

lemma admin_kinds:
  assumes "endEvents w = Inr ends"
  shows "mset (map event_kind (startEvents w @ concat (map stepEvents xs) @ ends)) =
    mset (map admin_kind (admin_events w xs)) + mset (compensation_kind w)"
proof -
  have ends: "mset (map event_kind ends) =
      mset (map admin_kind (opt_event (wf_completedAt w) (workflow_event w ''workflow_completed'' ''Workflow completed successfully''))) +
      mset (map admin_kind (opt_event (wf_failedAt w) (\<lambda>t. (workflow_event w ''workflow_failed''
        (''Workflow failed: '' @ null_text (wf_failureReason w)) t)
        \<lparr>ae_failureReason := wf_failureReason w, ae_retryCount := Some (wf_retryCount w)\<rparr>))) + mset (compensation_kind w)"
    using assms by (cases "wf_completedAt w"; cases "wf_failedAt w"; cases "wf_startedAt w")
      (auto simp: endEvents_def Let_def kind_defs compensation_kind_def)
  moreover have "map event_kind (startEvents w) = map admin_kind
      ([workflow_event w ''workflow_created'' ''Workflow created'' (wf_createdAt w)] @
       opt_event (wf_startedAt w) (workflow_event w ''workflow_started'' ''Workflow execution started''))"
    by (cases "wf_startedAt w") (simp_all add: startEvents_def kind_defs)
  ultimately show ?thesis
    by (simp only: admin_events_def map_append mset_append concat_step_kinds ac_simps)
qed

lemma mset_concat_sort: "mset (map f (concat (map g (sort_key k xs)))) = mset (map f (concat (map g xs)))"
proof -
  have "mset (map f (concat (map g ys))) = (\<Sum>x\<in>#mset ys. mset (map f (g x)))" for ys
    by (induction ys) simp_all
  then show ?thesis by (simp only: mset_sort)
qed

context engine_env
begin

lemma timelines_wp:
  "wp (getWorkflowTimeline E i)
    (\<lambda>evs t. wp (admin_getWorkflowTimeline E i)
       (\<lambda>(j, evs') u. u = s \<and> j = i \<and> sorted (map ae_timestamp evs') \<and>
          (\<exists>w. wtab s i = Some w \<and> mset (map event_kind evs) = mset (map admin_kind evs') + mset (compensation_kind w)))
       (\<lambda>_ _. False) t)
    (\<lambda>_ t. t = s \<and> (case wtab s i of
        None \<Rightarrow> wp (admin_getWorkflowTimeline E i) (\<lambda>_ _. False) (\<lambda>e _. e = HttpException ''Workflow not found'' 404) t
      | Some w \<Rightarrow> wf_startedAt w = None \<and> wf_completedAt w \<noteq> None \<and>
          wp (admin_getWorkflowTimeline E i) (\<lambda>(_, evs') _. evs' = sort_key ae_timestamp (admin_events w (res (loadSteps E i) s)))
            (\<lambda>_ _. False) t)) s"
proof (cases "wtab s i")
  case None
  then show ?thesis
    by (simp add: getWorkflowTimeline_def admin_getWorkflowTimeline_def getWorkflow_def wp_simps W.findOne_key)
next
  case (Some w)
  then have w: "wf_id w = i" using W.key_tab by blast
  have load: "ok (loadSteps E i) s" "fin (loadSteps E i) s = s"
    by (simp_all add: loadSteps_def S.find_ok)
  show ?thesis
  proof (cases "endEvents w")
    case (Inl e)
    then have "wf_startedAt w = None \<and> wf_completedAt w \<noteq> None"
      by (auto simp: endEvents_def Let_def split: option.splits)
    with Inl Some w load show ?thesis
      by (simp add: getWorkflowTimeline_def admin_getWorkflowTimeline_def getWorkflow_def wp_simps W.findOne_key wp_ok)
  next
    case (Inr ends)
    let ?xs = "res (loadSteps E i) s"
    have "mset (map event_kind (startEvents w @ concat (map stepEvents (sort_key st_stepIndex ?xs)) @ ends)) =
        mset (map admin_kind (admin_events w ?xs)) + mset (compensation_kind w)"
      using admin_kinds [OF Inr, of ?xs] by (simp only: map_append mset_append mset_concat_sort)
    with Inr Some w load show ?thesis
      by (simp add: getWorkflowTimeline_def admin_getWorkflowTimeline_def getWorkflow_def wp_simps W.findOne_key wp_ok)
  qed
qed

lemma retry_step_wp:
  assumes w: "wtab s i = Some w" "wf_state w = WFAILED" "defs (wf_type w) = Some d"
    and x: "stab s k = Some x" "st_workflowId x = i" "st_state x = SFAILED"
  shows "wp (admin_retryWorkflowStep E defs i k) (\<lambda>_ _. False)
    (\<lambda>e s'. e = Error ''Cannot start workflow: Invalid workflow state transition from running to running''
       \<and> (\<exists>w' x'. wtab s' i = Some w' \<and> wf_state w' = WRUNNING \<and> stab s' k = Some x' \<and> st_state x' = SPENDING
              \<and> st_retryCount x' = st_retryCount x + 1 \<and> st_failedAt x' = st_failedAt x
              \<and> st_failureReason x' = st_failureReason x)) s"
proof -
  have id: "wf_id w = i" "st_id x = k" using W.key_tab S.key_tab w(1) x(1) by blast+
  have found: "res (repo_findOne (eng_steps E) (\<lambda>x. st_id x = k \<and> st_workflowId x = i)) s = Some x"
    by (rule S.findOne_unique [of s k x]) (use id x S.key_tab in blast)+
  define t where "t = fin (repo_save (eng_steps E) (x\<lparr>st_state := SPENDING, st_retryCount := Suc (st_retryCount x)\<rparr>)) s"
  have t: "wtab t = wtab s" "\<exists>u. stab t k = Some (st_stamp u (x\<lparr>st_state := SPENDING, st_retryCount := Suc (st_retryCount x)\<rparr>))"
    using id by (auto simp: t_def)
  have other: "st_id y \<noteq> k"
    if "List.find (\<lambda>x. st_state x = SFAILED) (res (repo_find (eng_steps E) (\<lambda>x. st_workflowId x = i) Unordered) t) = Some y" for y
  proof -
    have "y \<in> set (res (repo_find (eng_steps E) (\<lambda>x. st_workflowId x = i) Unordered) t)" and "st_state y = SFAILED"
      using find_Some_in [OF that] by blast+
    then show ?thesis using t(2) by (auto simp: S.find_set st_stamp_def)
  qed
  have run: "wp (admin_retryWorkflowStep E defs i k) Q X s = wp (retryWorkflow E defs i) Q X t" for Q X
    using x found by (simp add: admin_retryWorkflowStep_def wp_simps t_def)
  show ?thesis
    unfolding run using w id t other
    by (auto simp: retryWorkflow_def loadSteps_def executeWorkflow_def getWorkflowDefinition_def wp_simps Let_def
        W.findOne_key isWorkflowRecoverable_def transitionWorkflow_def can_run_workflow wf_stamp_def st_stamp_def
        split: option.split)
qed

end
section \<open>Properties\<close>

text \<open>
  Four handlers are never reached: a \<open>GET\<close> with one segment is always taken by \<open>getWorkflow\<close>, which is declared first, so
  \<open>search\<close>, \<open>metrics\<close>, \<open>health\<close> and \<open>compensatable\<close> are looked up as workflow ids and no request, of whatever method and
  path, gets to their handlers; \<open>stats/overview\<close> and \<open>recovery/trigger\<close> have their own shape and do get there.
\<close>

theorem routes_shadowed:
  assumes "http_router dispatch"
  shows "dispatch admin_routes GET [x] = Some (''getWorkflow'', [(''id'', x)])
   \<and> fst ` set_option (dispatch admin_routes m p) \<inter>
       {''searchWorkflows'', ''getMetrics'', ''getHealth'', ''getCompensatableWorkflows''} = {}
   \<and> dispatch admin_routes GET [''stats'', ''overview''] = Some (''getWorkflowStats'', [])
   \<and> dispatch admin_routes POST [''recovery'', ''trigger''] = Some (''triggerRecovery'', [])"
proof -
  note D = http_router.dispatch_Cons [OF assms] http_router.no_route [OF assms] admin_routes_def route_matches_def
  have one: "dispatch admin_routes GET [y] = Some (''getWorkflow'', [(''id'', y)])" for y
    by (simp add: D)
  moreover have "fst r \<notin> set [''searchWorkflows'', ''getMetrics'', ''getHealth'', ''getCompensatableWorkflows'']"
    if r: "dispatch admin_routes m p = Some r" for r
  proof
    assume h: "fst r \<in> set [''searchWorkflows'', ''getMetrics'', ''getHealth'', ''getCompensatableWorkflows'']"
    then have "m = GET \<and> length p = 1"
      using http_router.dispatch_declared [OF assms r] by (rule shadowed_shape [rotated])
    then obtain y where "m = GET" "p = [y]" by (auto simp: length_Suc_conv)
    with r h one [of y] show False by auto
  qed
  ultimately show ?thesis by (auto simp: D)
qed

theorem routes_shadowed_witness:
  "first_route admin_routes GET [''metrics''] = Some (''getWorkflow'', [(''id'', ''metrics'')])
   \<and> fst ` set_option (first_route admin_routes GET [''metrics'']) \<inter>
       {''searchWorkflows'', ''getMetrics'', ''getHealth'', ''getCompensatableWorkflows''} = {}
   \<and> first_route admin_routes GET [''stats'', ''overview''] = Some (''getWorkflowStats'', [])
   \<and> first_route admin_routes POST [''recovery'', ''trigger''] = Some (''triggerRecovery'', [])"
  by (rule routes_shadowed [OF first.http_router_axioms])

text \<open>
  C16. The two timelines agree. Whenever the monitoring service returns the timeline of a workflow, the admin request for the
  same workflow returns one with the same events, each as often and at the same time, except that the monitoring service
  alone reports a finished compensation; both leave the store alone, and the admin's is in order of time. Where the
  monitoring service throws, the workflow either does not exist, and the admin request is a 404, or was cancelled before it
  ever started, and there the admin request answers with all of its events.
\<close>

theorem timelines_agree:
  assumes "engine_env E wtab stab"
  shows "case getWorkflowTimeline E i s of
      (Inr evs, t) \<Rightarrow> t = s \<and> (\<exists>w evs'. wtab s i = Some w \<and> admin_getWorkflowTimeline E i s = (Inr (i, evs'), s)
         \<and> sorted (map ae_timestamp evs')
         \<and> mset (map event_kind evs) = mset (map admin_kind evs') + mset (compensation_kind w))
    | (Inl e, t) \<Rightarrow> t = s \<and> (case wtab s i of
        None \<Rightarrow> fst (admin_getWorkflowTimeline E i s) = Inl (HttpException ''Workflow not found'' 404)
      | Some w \<Rightarrow> wf_startedAt w = None \<and> wf_completedAt w \<noteq> None \<and> (\<exists>j. fst (admin_getWorkflowTimeline E i s) =
          Inr (j, sort_key ae_timestamp (admin_events w (res (loadSteps E i) s)))))"
proof (cases "getWorkflowTimeline E i s")
  case (Pair r t)
  have t: "t = s"
    using engine_env.timeline_sorted_wp [OF assms, of i s] Pair by (auto simp: wp_def split: sum.splits)
  show ?thesis
  proof (cases r)
    case (Inl e)
    with engine_env.timelines_wp [OF assms, of i s] Pair t show ?thesis
      by (cases "wtab s i") (auto simp: wp_Inl wp_exn wp_value)
  next
    case (Inr evs)
    with engine_env.timelines_wp [OF assms, of i s] Pair t show ?thesis
      by (simp add: wp_Inr wp_value split: prod.splits) blast
  qed
qed

theorem timelines_agree_witness:
  "case getWorkflowTimeline mem_engine ''w1'' (demo_store WPENDING) of
      (Inr evs, t) \<Rightarrow> t = demo_store WPENDING \<and> (\<exists>w evs'. mem_wtab (demo_store WPENDING) ''w1'' = Some w
         \<and> admin_getWorkflowTimeline mem_engine ''w1'' (demo_store WPENDING) = (Inr (''w1'', evs'), demo_store WPENDING)
         \<and> sorted (map ae_timestamp evs')
         \<and> mset (map event_kind evs) = mset (map admin_kind evs') + mset (compensation_kind w))
    | (Inl e, t) \<Rightarrow> t = demo_store WPENDING \<and> (case mem_wtab (demo_store WPENDING) ''w1'' of
        None \<Rightarrow> fst (admin_getWorkflowTimeline mem_engine ''w1'' (demo_store WPENDING)) = Inl (HttpException ''Workflow not found'' 404)
      | Some w \<Rightarrow> wf_startedAt w = None \<and> wf_completedAt w \<noteq> None \<and>
          (\<exists>j. fst (admin_getWorkflowTimeline mem_engine ''w1'' (demo_store WPENDING)) =
            Inr (j, sort_key ae_timestamp (admin_events w (res (loadSteps mem_engine ''w1'') (demo_store WPENDING))))))"
  by (rule timelines_agree [OF mem_engine_env])

text \<open>
  Retrying a failed step of a failed workflow always ends in an error and leaves both rows changed: the step is pending
  with one more retry counted and its old failure time and reason still stored, the workflow is running, and the error is the
  engine's own, not one of the announced HTTP answers.
\<close>

theorem step_retry_left_reset:
  assumes "engine_env E wtab stab" and "wtab s i = Some w" and "wf_state w = WFAILED" and "defs (wf_type w) = Some d"
    and "stab s k = Some x" and "st_workflowId x = i" and "st_state x = SFAILED"
  shows "\<exists>s' w' x'. admin_retryWorkflowStep E defs i k s =
      (Inl (Error ''Cannot start workflow: Invalid workflow state transition from running to running''), s')
    \<and> wtab s' i = Some w' \<and> wf_state w' = WRUNNING \<and> stab s' k = Some x' \<and> st_state x' = SPENDING
    \<and> st_retryCount x' = st_retryCount x + 1 \<and> st_failedAt x' = st_failedAt x \<and> st_failureReason x' = st_failureReason x"
  using engine_env.retry_step_wp [OF assms(1), of s i w defs d k x] assms(2-) by (auto simp: wp_exn)

definition failed_step_store :: mem_store where
  "failed_step_store = (demo_store WFAILED)\<lparr>ms_steps := [demo_step\<lparr>st_state := SFAILED, st_failedAt := Some 5\<rparr>]\<rparr>"

theorem step_retry_left_reset_witness:
  "\<exists>s' w' x'. admin_retryWorkflowStep mem_engine demo_defs ''w1'' ''s1'' failed_step_store =
      (Inl (Error ''Cannot start workflow: Invalid workflow state transition from running to running''), s')
    \<and> mem_wtab s' ''w1'' = Some w' \<and> wf_state w' = WRUNNING \<and> mem_stab s' ''s1'' = Some x' \<and> st_state x' = SPENDING
    \<and> st_retryCount x' = st_retryCount (demo_step\<lparr>st_state := SFAILED, st_failedAt := Some 5\<rparr>) + 1
    \<and> st_failedAt x' = st_failedAt (demo_step\<lparr>st_state := SFAILED, st_failedAt := Some 5\<rparr>)
    \<and> st_failureReason x' = st_failureReason (demo_step\<lparr>st_state := SFAILED, st_failedAt := Some 5\<rparr>)"
  by (rule step_retry_left_reset [OF mem_engine_env, of _ _ "demo_workflow WFAILED"])
    (simp_all add: failed_step_store_def demo_store_def demo_workflow_def mem_tab_def demo_defs_def newWorkflow_def
      registerWorkflowDefinition_def demo_step_def newStep_def)

end
