(* ===== verification/Js_Value.thy ===== *)
theory Js_Value
  imports Complex_Main Js_Json
begin

text \<open>
  JavaScript values with numbers that are not integers, \<open>undefined\<close> and date objects: property access, comparison, addition
  and \<open>parseFloat\<close>. Numbers are exact; rounding to 64-bit floating point is not modelled.
\<close>

section \<open>Values\<close>

text \<open>A date object holds its time, or nothing when it is invalid; \<open>Infinite True\<close> is the negative infinity.\<close>

datatype jsval = Undef | Null | BoolV bool | NumV rat | NaN | Infinite bool | StrV string
  | DateV "int option" | ArrV "jsval list" | ObjV "(string \<times> jsval) list"

definition get_prop :: "jsval \<Rightarrow> string \<Rightarrow> jsval" where
  "get_prop v k = (case v of ObjV ps \<Rightarrow> (case map_of ps k of None \<Rightarrow> Undef | Some x \<Rightarrow> x) | _ \<Rightarrow> Undef)"

fun elems :: "jsval \<Rightarrow> jsval list" where
  "elems (ArrV xs) = xs"
| "elems _ = []"

text \<open>The number a value stands for in a comparison or a sum; strings and objects do not occur there.\<close>

fun js_number :: "jsval \<Rightarrow> jsval" where
  "js_number (NumV x) = NumV x"
| "js_number (Infinite n) = Infinite n"
| "js_number (DateV (Some t)) = NumV (of_int t)"
| "js_number (BoolV b) = NumV (if b then 1 else 0)"
| "js_number Null = NumV 0"
| "js_number _ = NaN"

fun num_less :: "jsval \<Rightarrow> jsval \<Rightarrow> bool" where
  "num_less (NumV x) (NumV y) = (x < y)"
| "num_less (NumV x) (Infinite n) = (\<not> n)"
| "num_less (Infinite n) (NumV y) = n"
| "num_less (Infinite n) (Infinite k) = (n \<and> \<not> k)"
| "num_less _ _ = False"

definition js_less :: "jsval \<Rightarrow> jsval \<Rightarrow> bool" where
  "js_less a b = num_less (js_number a) (js_number b)"

definition js_le :: "jsval \<Rightarrow> jsval \<Rightarrow> bool" where
  "js_le a b = (js_less a b \<or> js_number a = js_number b \<and> js_number a \<noteq> NaN)"

fun num_add :: "jsval \<Rightarrow> jsval \<Rightarrow> jsval" where
  "num_add (NumV x) (NumV y) = NumV (x + y)"
| "num_add (NumV x) (Infinite n) = Infinite n"
| "num_add (Infinite n) (NumV y) = Infinite n"
| "num_add (Infinite n) (Infinite k) = (if n = k then Infinite n else NaN)"
| "num_add _ _ = NaN"

subsection \<open>parseFloat\<close>

definition signed :: "string \<Rightarrow> bool \<times> string" where
  "signed s = (case s of [] \<Rightarrow> (False, []) | c # cs \<Rightarrow>
     if c = CHR ''-'' then (True, cs) else if c = CHR ''+'' then (False, cs) else (False, s))"

text \<open>The digits behind a point, and the exponent behind an \<open>e\<close> that digits follow.\<close>

definition fraction :: "string \<Rightarrow> string \<times> string" where
  "fraction s = (case s of [] \<Rightarrow> ([], []) | c # cs \<Rightarrow>
     if c = CHR ''.'' then (takeWhile is_digit cs, dropWhile is_digit cs) else ([], s))"

definition exponent :: "string \<Rightarrow> int" where
  "exponent s = (case s of [] \<Rightarrow> 0 | c # cs \<Rightarrow>
     if c = CHR ''e'' \<or> c = CHR ''E''
     then (let (neg, ds) = signed cs; n = int (digits_val 0 ds) in if neg then - n else n)
     else 0)"

definition scale10 :: "int \<Rightarrow> rat \<Rightarrow> rat" where
  "scale10 e x = (if 0 \<le> e then x * 10 ^ nat e else x / 10 ^ nat (- e))"

definition parseFloat :: "string \<Rightarrow> jsval" where
  "parseFloat s =
     (let (neg, body) = signed (dropWhile is_space s);
          whole = takeWhile is_digit body;
          (frac, rest) = fraction (dropWhile is_digit body);
          x = scale10 (exponent rest - int (length frac)) (of_nat (digits_val 0 (whole @ frac))) in
      if take 8 body = ''Infinity'' then Infinite neg
      else if whole = [] \<and> frac = [] then NaN
      else NumV (if neg then - x else x))"

subsection \<open>Truth, dates and text\<close>

fun js_truthy :: "jsval \<Rightarrow> bool" where
  "js_truthy Undef = False"
| "js_truthy Null = False"
| "js_truthy (BoolV b) = b"
| "js_truthy (NumV x) = (x \<noteq> 0)"
| "js_truthy NaN = False"
| "js_truthy (StrV s) = (s \<noteq> [])"
| "js_truthy _ = True"

text \<open>The time of \<open>new Date(v)\<close>; \<open>parse\<close> reads a text. A date made of a list or an object does not occur.\<close>

fun new_date :: "(string \<Rightarrow> int option) \<Rightarrow> jsval \<Rightarrow> int option" where
  "new_date parse (DateV t) = t"
| "new_date parse (StrV s) = parse s"
| "new_date parse (NumV x) = Some (if x < 0 then - \<lfloor>- x\<rfloor> else \<lfloor>x\<rfloor>)"
| "new_date parse (BoolV b) = Some (if b then 1 else 0)"
| "new_date parse Null = Some 0"
| "new_date parse _ = None"

text \<open>
  \<open>x.toFixed(d)\<close>: the nearest number with \<open>d\<close> decimals, the larger of two in absolute value. A number as text is exact
  up to twenty decimals, which is what can be typed into a form; from \<open>10^21\<close> on the language writes exponents, which are
  left out.
\<close>

definition toFixed :: "nat \<Rightarrow> rat \<Rightarrow> string" where
  "toFixed d x =
     (let n = nat \<lfloor>\<bar>x\<bar> * 10 ^ d + 1 / 2\<rfloor>; s = show_nat (n div 10 ^ d) in
      (if x < 0 then ''-'' else []) @ s @ (if d = 0 then [] else ''.'' @ pad_left d (show_nat (n mod 10 ^ d))))"

definition decimals :: "rat \<Rightarrow> nat" where
  "decimals x = (case List.find (\<lambda>d. x * 10 ^ d = of_int \<lfloor>x * 10 ^ d\<rfloor>) [0..<20] of Some d \<Rightarrow> d | None \<Rightarrow> 20)"

definition show_number :: "rat \<Rightarrow> string" where
  "show_number x = toFixed (decimals x) x"

end
