(* ===== verification/Campaign_Schema.thy ===== *)
theory Campaign_Schema
  imports Js_Value
begin

text \<open>
  The validation of the campaign form (src/Frontend/web/src/validation/campaignSchemas.ts). The file builds schema values of
  the Zod library; they are data here too, and what the library accepts is an argument, \<open>accepts\<close>, with its documented
  behaviour as the laws of \<open>zod_library\<close>. Numbers are exact; the length of a string is counted in characters.
\<close>

section \<open>Schemas of the library\<close>

text \<open>
  A schema as the code writes it: the base kind, its \<open>min\<close> and \<open>max\<close> checks with their messages, \<open>optional\<close>, and \<open>refine\<close>
  with its predicate, message and path.
\<close>

datatype zcheck = Min rat "string option" | Max rat "string option"

datatype zschema =
    ZString "zcheck list"
  | ZNumber "zcheck list"
  | ZDate "zcheck list"
  | ZBoolean
  | ZEnum "string list"
  | ZArray zschema "zcheck list"
  | ZObject "(string \<times> zschema) list"
  | ZOptional zschema
  | ZRefine zschema "jsval \<Rightarrow> bool" "string option" "string list"

fun in_check :: "rat \<Rightarrow> zcheck \<Rightarrow> bool" where
  "in_check x (Min b msg) = (b \<le> x)"
| "in_check x (Max b msg) = (x \<le> b)"

fun infinite_check :: "bool \<Rightarrow> zcheck \<Rightarrow> bool" where
  "infinite_check neg (Min b msg) = (\<not> neg)"
| "infinite_check neg (Max b msg) = neg"

fun string_ok :: "zcheck list \<Rightarrow> jsval \<Rightarrow> bool" where
  "string_ok cs (StrV s) = list_all (in_check (of_nat (length s))) cs"
| "string_ok cs _ = False"

fun number_ok :: "zcheck list \<Rightarrow> jsval \<Rightarrow> bool" where
  "number_ok cs (NumV x) = list_all (in_check x) cs"
| "number_ok cs (Infinite n) = list_all (infinite_check n) cs"
| "number_ok cs _ = False"

fun date_ok :: "zcheck list \<Rightarrow> jsval \<Rightarrow> bool" where
  "date_ok cs (DateV (Some t)) = list_all (in_check (of_int t)) cs"
| "date_ok cs _ = False"

fun is_obj :: "jsval \<Rightarrow> bool" where
  "is_obj (ObjV ps) = True"
| "is_obj _ = False"

fun is_bool :: "jsval \<Rightarrow> bool" where
  "is_bool (BoolV b) = True"
| "is_bool _ = False"

fun enum_ok :: "string list \<Rightarrow> jsval \<Rightarrow> bool" where
  "enum_ok xs (StrV s) = List.member xs s"
| "enum_ok xs _ = False"

fun is_arr :: "jsval \<Rightarrow> bool" where
  "is_arr (ArrV xs) = True"
| "is_arr _ = False"

locale zod_library =
  fixes accepts :: "zschema \<Rightarrow> jsval \<Rightarrow> bool"
  assumes string: "accepts (ZString cs) v \<longleftrightarrow> string_ok cs v"
    and number: "accepts (ZNumber cs) v \<longleftrightarrow> number_ok cs v"
    and date: "accepts (ZDate cs) v \<longleftrightarrow> date_ok cs v"
    and boolean: "accepts ZBoolean v \<longleftrightarrow> is_bool v"
    and enum: "accepts (ZEnum xs) v \<longleftrightarrow> enum_ok xs v"
    and array: "accepts (ZArray z cs) v \<longleftrightarrow> is_arr v \<and> list_all (in_check (of_nat (length (elems v)))) cs
      \<and> (\<forall>x\<in>set (elems v). accepts z x)"
    and object: "accepts (ZObject fs) v \<longleftrightarrow> is_obj v \<and> (\<forall>f\<in>set fs. accepts (snd f) (get_prop v (fst f)))"
    and optional: "accepts (ZOptional z) v \<longleftrightarrow> v = Undef \<or> accepts z v"
    and refine: "accepts (ZRefine z p msg path) v \<longleftrightarrow> accepts z v \<and> p v"
begin

lemmas zod_laws = string number date boolean enum array object optional refine

end

text \<open>A library that satisfies the laws.\<close>

function zod_accepts :: "zschema \<Rightarrow> jsval \<Rightarrow> bool" where
  "zod_accepts (ZString cs) v = string_ok cs v"
| "zod_accepts (ZNumber cs) v = number_ok cs v"
| "zod_accepts (ZDate cs) v = date_ok cs v"
| "zod_accepts ZBoolean v = is_bool v"
| "zod_accepts (ZEnum xs) v = enum_ok xs v"
| "zod_accepts (ZArray z cs) v = (is_arr v \<and> list_all (in_check (of_nat (length (elems v)))) cs \<and> list_all (zod_accepts z) (elems v))"
| "zod_accepts (ZObject fs) v = (is_obj v \<and> list_all (\<lambda>f. zod_accepts (snd f) (get_prop v (fst f))) fs)"
| "zod_accepts (ZOptional z) v = (v = Undef \<or> zod_accepts z v)"
| "zod_accepts (ZRefine z p msg path) v = (zod_accepts z v \<and> p v)"
  by pat_completeness auto

termination
proof (relation "measure (\<lambda>(z, v). size z)", goal_cases)
  case (3 fs v f)
  have "size (snd f) \<le> size_prod (\<lambda>_. 0) size f" by (cases f) simp
  also have "\<dots> \<le> size_list (size_prod (\<lambda>_. 0) size) fs"
    using 3 by (auto intro: size_list_estimation')
  finally show ?case by simp
qed simp_all

interpretation zod: zod_library zod_accepts
  by unfold_locales (simp_all add: list_all_iff)

section \<open>The schemas of the form\<close>

text \<open>Numeric texts: \<open>!isNaN(parseFloat(val)) && parseFloat(val) > 0\<close>, and the same with \<open>>= 0\<close>.\<close>

fun positive_text :: "jsval \<Rightarrow> bool" where
  "positive_text (StrV s) = (parseFloat s \<noteq> NaN \<and> js_less (NumV 0) (parseFloat s))"
| "positive_text _ = False"

fun nonnegative_text :: "jsval \<Rightarrow> bool" where
  "nonnegative_text (StrV s) = (parseFloat s \<noteq> NaN \<and> js_le (NumV 0) (parseFloat s))"
| "nonnegative_text _ = False"

definition limits :: "rat \<Rightarrow> rat \<Rightarrow> zcheck list" where
  "limits a b = [Min a None, Max b None]"

definition limits_msg :: "rat \<Rightarrow> string \<Rightarrow> rat \<Rightarrow> string \<Rightarrow> zcheck list" where
  "limits_msg a m b n = [Min a (Some m), Max b (Some n)]"

definition basicInfoSchema :: zschema where
  "basicInfoSchema = ZObject
     [(''name'', ZString (limits_msg 3 ''Campaign name must be at least 3 characters'' 100 ''Campaign name must not exceed 100 characters'')),
      (''description'', ZString (limits_msg 10 ''Description must be at least 10 characters'' 1000 ''Description must not exceed 1000 characters'')),
      (''cropType'', ZString (limits_msg 2 ''Crop type is required'' 50 ''Crop type must not exceed 50 characters'')),
      (''location'', ZObject
         [(''latitude'', ZNumber (limits_msg (- 90) ''Latitude must be between -90 and 90'' 90 ''Latitude must be between -90 and 90'')),
          (''longitude'', ZNumber (limits_msg (- 180) ''Longitude must be between -180 and 180'' 180 ''Longitude must be between -180 and 180'')),
          (''address'', ZString (limits_msg 5 ''Address must be at least 5 characters'' 200 ''Address must not exceed 200 characters''))]),
      (''farmSize'', ZNumber (limits_msg (1 / 10) ''Farm size must be at least 0.1'' 10000 ''Farm size must not exceed 10000'')),
      (''farmSizeUnit'', ZEnum [''hectares'', ''acres''])]"

text \<open>The percentage that the chosen structure asks for.\<close>

definition roi_given :: "jsval \<Rightarrow> bool" where
  "roi_given v =
     (if get_prop v ''roiStructure'' = StrV ''fixed_return''
      then get_prop v ''fixedReturnPercentage'' \<noteq> Undef \<and> js_less (NumV 0) (get_prop v ''fixedReturnPercentage'')
      else if get_prop v ''roiStructure'' = StrV ''revenue_share''
      then get_prop v ''revenueSharePercentage'' \<noteq> Undef \<and> js_less (NumV 0) (get_prop v ''revenueSharePercentage'')
      else True)"

definition financialTermsSchema :: zschema where
  "financialTermsSchema = ZRefine (ZObject
     [(''targetAmount'', ZRefine (ZString [Min 1 (Some ''Target amount is required'')]) positive_text
         (Some ''Target amount must be a positive number'') []),
      (''assetType'', ZEnum [''USDC'', ''XLM'']),
      (''roiStructure'', ZEnum [''fixed_return'', ''revenue_share'']),
      (''fixedReturnPercentage'', ZOptional (ZNumber (limits_msg 0 ''Fixed return percentage must be at least 0''
         100 ''Fixed return percentage must not exceed 100''))),
      (''revenueSharePercentage'', ZOptional (ZNumber (limits_msg 0 ''Revenue share percentage must be at least 0''
         100 ''Revenue share percentage must not exceed 100'')))])
     roi_given (Some ''ROI percentage is required based on the selected structure'') [''roiStructure'']"

definition harvest_after_start :: "jsval \<Rightarrow> bool" where
  "harvest_after_start v = js_less (get_prop v ''startDate'') (get_prop v ''expectedHarvestDate'')"

text \<open>\<open>now\<close> is what \<open>new Date()\<close> gives when the module is evaluated.\<close>

definition timelineSchema :: "int \<Rightarrow> zschema" where
  "timelineSchema now = ZRefine (ZObject
     [(''startDate'', ZDate [Min (of_int now) (Some ''Start date must be in the future'')]),
      (''expectedHarvestDate'', ZDate [Min (of_int now) (Some ''Harvest date must be in the future'')]),
      (''milestoneWindows'', ZOptional (ZArray (ZObject
         [(''startDate'', ZDate []), (''endDate'', ZDate []),
          (''bufferDays'', ZNumber (limits_msg 0 ''Buffer days must be at least 0'' 30 ''Buffer days must not exceed 30''))]) []))])
     harvest_after_start (Some ''Harvest date must be after start date'') [''expectedHarvestDate'']"

definition milestoneSchema :: "int \<Rightarrow> zschema" where
  "milestoneSchema now = ZObject
     [(''id'', ZOptional (ZString [])),
      (''name'', ZString (limits_msg 3 ''Milestone name must be at least 3 characters'' 100 ''Milestone name must not exceed 100 characters'')),
      (''description'', ZString (limits_msg 10 ''Description must be at least 10 characters'' 500 ''Description must not exceed 500 characters'')),
      (''targetDate'', ZDate [Min (of_int now) (Some ''Target date must be in the future'')]),
      (''verificationType'', ZEnum [''single_agent'', ''multi_party'', ''satellite_cross_check'']),
      (''requiredAgentCount'', ZOptional (ZNumber (limits_msg 1 ''Required agent count must be at least 1''
         10 ''Required agent count must not exceed 10''))),
      (''stakingRequirement'', ZOptional (ZRefine (ZString [Min 1 (Some ''Staking requirement is required'')]) nonnegative_text
         (Some ''Staking requirement must be a valid number'') [])),
      (''releasePercentage'', ZNumber (limits_msg 1 ''Release percentage must be at least 1'' 100 ''Release percentage must not exceed 100'')),
      (''evidenceRequirements'', ZObject [(''photos'', ZBoolean), (''gps'', ZBoolean), (''satelliteCrossCheck'', ZBoolean)]),
      (''bufferDays'', ZNumber (limits_msg 0 ''Buffer days must be at least 0'' 30 ''Buffer days must not exceed 30''))]"

text \<open>\<open>milestones.reduce((sum, m) => sum + m.releasePercentage, 0)\<close> and the test on it.\<close>

definition totalPercentage :: "jsval \<Rightarrow> jsval" where
  "totalPercentage ms = fold (\<lambda>m sum. num_add sum (js_number (get_prop m ''releasePercentage''))) (elems ms) (NumV 0)"

definition sums_to_100 :: "jsval \<Rightarrow> bool" where
  "sums_to_100 ms = (case totalPercentage ms of NumV x \<Rightarrow> \<bar>x - 100\<bar> < 1 / 100 | _ \<Rightarrow> False)"

definition milestoneDefinitionSchema :: "int \<Rightarrow> zschema" where
  "milestoneDefinitionSchema now = ZObject
     [(''milestones'', ZRefine (ZArray (milestoneSchema now)
         (limits_msg 3 ''At least 3 milestones are required'' 6 ''Maximum 6 milestones allowed'')) sums_to_100
         (Some ''Total release percentage must equal 100%'') [])]"

definition threshold_fits :: "jsval \<Rightarrow> bool" where
  "threshold_fits v =
     (if get_prop v ''multiSigRequired'' = BoolV True
      then get_prop v ''multiSigThreshold'' \<noteq> Undef
        \<and> js_le (get_prop v ''multiSigThreshold'') (get_prop v ''requiredAgentCount'')
      else True)"

definition verificationSetupSchema :: zschema where
  "verificationSetupSchema = ZObject
     [(''agentRequirements'', ZRefine (ZObject
         [(''minStakeAmount'', ZRefine (ZString [Min 1 (Some ''Minimum stake amount is required'')]) positive_text
             (Some ''Minimum stake amount must be a positive number'') []),
          (''requiredAgentCount'', ZNumber (limits_msg 1 ''Required agent count must be at least 1'' 10 ''Required agent count must not exceed 10'')),
          (''multiSigRequired'', ZBoolean),
          (''multiSigThreshold'', ZOptional (ZNumber (limits_msg 2 ''Multi-sig threshold must be at least 2''
             10 ''Multi-sig threshold must not exceed 10'')))])
         threshold_fits (Some ''Multi-sig threshold must not exceed required agent count'') [''multiSigThreshold''])]"

text \<open>The complete form; \<open>milestoneSchema\<close> is the one above, evaluated at \<open>before\<close>.\<close>

definition campaignFormSchema :: "int \<Rightarrow> int \<Rightarrow> zschema" where
  "campaignFormSchema before now =
     ZRefine (ZRefine (ZRefine (ZObject
       [(''name'', ZString (limits 3 100)),
        (''description'', ZString (limits 10 1000)),
        (''cropType'', ZString (limits 2 50)),
        (''location'', ZObject
           [(''latitude'', ZNumber (limits (- 90) 90)), (''longitude'', ZNumber (limits (- 180) 180)),
            (''address'', ZString (limits 5 200))]),
        (''farmSize'', ZNumber (limits (1 / 10) 10000)),
        (''farmSizeUnit'', ZEnum [''hectares'', ''acres'']),
        (''targetAmount'', ZRefine (ZString []) positive_text None []),
        (''assetType'', ZEnum [''USDC'', ''XLM'']),
        (''roiStructure'', ZEnum [''fixed_return'', ''revenue_share'']),
        (''fixedReturnPercentage'', ZOptional (ZNumber (limits 0 100))),
        (''revenueSharePercentage'', ZOptional (ZNumber (limits 0 100))),
        (''startDate'', ZDate [Min (of_int now) None]),
        (''expectedHarvestDate'', ZDate [Min (of_int now) None]),
        (''milestoneWindows'', ZOptional (ZArray (ZObject
           [(''startDate'', ZDate []), (''endDate'', ZDate []), (''bufferDays'', ZNumber (limits 0 30))]) [])),
        (''milestones'', ZArray (milestoneSchema before) (limits 3 6)),
        (''agentRequirements'', ZObject
           [(''minStakeAmount'', ZRefine (ZString []) positive_text None []),
            (''requiredAgentCount'', ZNumber (limits 1 10)), (''multiSigRequired'', ZBoolean),
            (''multiSigThreshold'', ZOptional (ZNumber (limits 2 10)))]),
        (''status'', ZEnum [''draft'', ''submitted'', ''deployed'']),
        (''lastSaved'', ZOptional (ZDate []))])
       harvest_after_start (Some ''Harvest date must be after start date'') [''expectedHarvestDate''])
       roi_given (Some ''ROI percentage is required based on the selected structure'') [''roiStructure''])
       (\<lambda>data. sums_to_100 (get_prop data ''milestones'')) (Some ''Total milestone release percentage must equal 100%'') [''milestones'']"

section \<open>Lemmas\<close>

lemma positive_text_iff:
  "string_ok [Min 1 m] v \<and> positive_text v \<longleftrightarrow> positive_text v"
  "string_ok [] v \<and> positive_text v \<longleftrightarrow> positive_text v"
proof -
  have "string_ok [Min 1 m] v" if pos: "positive_text v"
  proof (cases v)
    case (StrV s)
    with pos have "s \<noteq> []" by (auto simp: parseFloat_def signed_def fraction_def)
    then show ?thesis using StrV by (cases s) simp_all
  qed (use pos in simp_all)
  then show "string_ok [Min 1 m] v \<and> positive_text v \<longleftrightarrow> positive_text v" by blast
  show "string_ok [] v \<and> positive_text v \<longleftrightarrow> positive_text v" by (cases v) simp_all
qed

lemma msg_checks [simp]:
  "string_ok (limits_msg a m b n) v = string_ok (limits a b) v"
  "number_ok (limits_msg a m b n) v = number_ok (limits a b) v"
  "list_all (in_check x) (limits_msg a m b n) = list_all (in_check x) (limits a b)"
  by (cases v; simp add: limits_msg_def limits_def)+

lemma date_msg [simp]: "date_ok [Min a (Some m)] v = date_ok [Min a None] v"
  by (cases "(([Min a None] :: zcheck list), v)" rule: date_ok.cases) simp_all

lemmas step_schemas = basicInfoSchema_def financialTermsSchema_def timelineSchema_def milestoneDefinitionSchema_def
  verificationSetupSchema_def

context zod_library
begin

lemmas field_laws = zod_laws positive_text_iff msg_checks date_msg list.set ball_simps fst_conv snd_conv ball_Un
  insert_iff empty_iff

lemma complete_equiv:
  "accepts (campaignFormSchema m n) v \<and> threshold_fits (get_prop v ''agentRequirements'') \<longleftrightarrow>
     accepts basicInfoSchema v \<and> accepts financialTermsSchema v \<and> accepts (timelineSchema n) v
     \<and> accepts (milestoneDefinitionSchema m) v \<and> accepts verificationSetupSchema v
     \<and> enum_ok [''draft'', ''submitted'', ''deployed''] (get_prop v ''status'')
     \<and> (get_prop v ''lastSaved'' = Undef \<or> date_ok [] (get_prop v ''lastSaved''))"
  unfolding campaignFormSchema_def step_schemas
  apply (simp only: field_laws)
  by (rule iffI; elim conjE; intro conjI; assumption)

end

lemma get_prop_set: "get_prop (ObjV (assoc_set k x ps)) j = (if j = k then x else get_prop (ObjV ps) j)"
  by (simp add: get_prop_def)

context zod_library
begin

lemma threshold_unchecked:
  assumes "accepts (campaignFormSchema m n) (ObjV ps)" and "k < t" and "1 \<le> k" and "2 \<le> t" and "t \<le> 10"
    and "positive_text a"
  shows "accepts (campaignFormSchema m n) (ObjV (assoc_set ''agentRequirements''
      (ObjV [(''minStakeAmount'', a), (''requiredAgentCount'', NumV k), (''multiSigRequired'', BoolV True),
             (''multiSigThreshold'', NumV t)]) ps))"
    and "\<not> accepts verificationSetupSchema (ObjV (assoc_set ''agentRequirements''
      (ObjV [(''minStakeAmount'', a), (''requiredAgentCount'', NumV k), (''multiSigRequired'', BoolV True),
             (''multiSigThreshold'', NumV t)]) ps))"
proof -
  let ?r = "ObjV [(''minStakeAmount'', a), (''requiredAgentCount'', NumV k), (''multiSigRequired'', BoolV True),
             (''multiSigThreshold'', NumV t)]"
  have fields: "get_prop ?r ''minStakeAmount'' = a" "get_prop ?r ''requiredAgentCount'' = NumV k"
    "get_prop ?r ''multiSigRequired'' = BoolV True" "get_prop ?r ''multiSigThreshold'' = NumV t"
    by (simp_all add: get_prop_def)
  have "\<not> threshold_fits ?r"
    using assms(2) by (simp add: threshold_fits_def fields js_le_def js_less_def)
  then show "\<not> accepts verificationSetupSchema (ObjV (assoc_set ''agentRequirements'' ?r ps))"
    by (simp add: verificationSetupSchema_def zod_laws get_prop_set)
  have "number_ok (limits 1 10) (NumV k)" "number_ok (limits 2 10) (NumV t)"
    using assms(2-5) by (simp_all add: limits_def)
  with assms(1,6) positive_text_iff(2) [of a]
  show "accepts (campaignFormSchema m n) (ObjV (assoc_set ''agentRequirements'' ?r ps))"
    by (simp add: campaignFormSchema_def zod_laws get_prop_set fields harvest_after_start_def roi_given_def)
qed

end

text \<open>A form that is filled in.\<close>

definition demo_milestone :: "rat \<Rightarrow> jsval" where
  "demo_milestone pct = ObjV
     [(''name'', StrV ''Planting''), (''description'', StrV ''Plant the field''), (''targetDate'', DateV (Some 150)),
      (''verificationType'', StrV ''single_agent''), (''releasePercentage'', NumV pct),
      (''evidenceRequirements'', ObjV [(''photos'', BoolV True), (''gps'', BoolV True), (''satelliteCrossCheck'', BoolV False)]),
      (''bufferDays'', NumV 7)]"

definition demo_fields :: "(string \<times> jsval) list" where
  "demo_fields =
     [(''name'', StrV ''Maize''), (''description'', StrV ''A maize harvest''), (''cropType'', StrV ''Maize''),
      (''location'', ObjV [(''latitude'', NumV 9), (''longitude'', NumV 7), (''address'', StrV ''Abuja'')]),
      (''farmSize'', NumV 3), (''farmSizeUnit'', StrV ''acres''), (''targetAmount'', StrV ''5000''),
      (''assetType'', StrV ''XLM''), (''roiStructure'', StrV ''fixed_return''), (''fixedReturnPercentage'', NumV 12),
      (''startDate'', DateV (Some 100)), (''expectedHarvestDate'', DateV (Some 200)), (''milestoneWindows'', ArrV []),
      (''milestones'', ArrV [demo_milestone 30, demo_milestone 30, demo_milestone 40]),
      (''agentRequirements'', ObjV [(''minStakeAmount'', StrV ''100''), (''requiredAgentCount'', NumV 3),
         (''multiSigRequired'', BoolV True), (''multiSigThreshold'', NumV 2)]),
      (''status'', StrV ''draft'')]"

lemmas float_defs = parseFloat_def signed_def fraction_def exponent_def scale10_def is_digit_def is_space_def
  digit_val_def js_less_def

lemma demo_amounts: "positive_text (StrV ''5000'')" "positive_text (StrV ''100'')"
  by (simp_all add: float_defs)

lemma demo_milestone_accepted:
  assumes "1 \<le> x" and "x \<le> 100"
  shows "zod_accepts (milestoneSchema 0) (demo_milestone x)"
  using assms by (simp add: milestoneSchema_def demo_milestone_def get_prop_def limits_def)

lemma demo_total: "sums_to_100 (ArrV [demo_milestone 30, demo_milestone 30, demo_milestone 40])"
  by (simp add: sums_to_100_def totalPercentage_def demo_milestone_def get_prop_def)

lemma demo_form_accepted: "zod_accepts (campaignFormSchema 0 0) (ObjV demo_fields)"
  using demo_amounts demo_total
  by (simp add: campaignFormSchema_def zod.zod_laws demo_fields_def get_prop_def limits_def harvest_after_start_def
      roi_given_def js_less_def demo_milestone_accepted)

section \<open>Properties\<close>

text \<open>
  C17. The check of the complete form is the checks of the five steps together: for every value, the complete schema accepts
  it with a signature threshold that fits the number of agents exactly when every step's schema accepts it and the status
  and the time of the last saving are well formed. The two spellings of the amount checks agree, since an empty text is no
  number.
\<close>

theorem complete_schema_equiv:
  assumes "zod_library accepts"
  shows "accepts (campaignFormSchema m n) v \<and> threshold_fits (get_prop v ''agentRequirements'') \<longleftrightarrow>
     accepts basicInfoSchema v \<and> accepts financialTermsSchema v \<and> accepts (timelineSchema n) v
     \<and> accepts (milestoneDefinitionSchema m) v \<and> accepts verificationSetupSchema v
     \<and> enum_ok [''draft'', ''submitted'', ''deployed''] (get_prop v ''status'')
     \<and> (get_prop v ''lastSaved'' = Undef \<or> date_ok [] (get_prop v ''lastSaved''))"
  using assms by (rule zod_library.complete_equiv)

theorem complete_schema_equiv_witness:
  "zod_accepts (campaignFormSchema 0 0) (ObjV demo_fields) \<and> threshold_fits (get_prop (ObjV demo_fields) ''agentRequirements'') \<longleftrightarrow>
     zod_accepts basicInfoSchema (ObjV demo_fields) \<and> zod_accepts financialTermsSchema (ObjV demo_fields)
     \<and> zod_accepts (timelineSchema 0) (ObjV demo_fields) \<and> zod_accepts (milestoneDefinitionSchema 0) (ObjV demo_fields)
     \<and> zod_accepts verificationSetupSchema (ObjV demo_fields)
     \<and> enum_ok [''draft'', ''submitted'', ''deployed''] (get_prop (ObjV demo_fields) ''status'')
     \<and> (get_prop (ObjV demo_fields) ''lastSaved'' = Undef \<or> date_ok [] (get_prop (ObjV demo_fields) ''lastSaved''))"
  by (rule complete_schema_equiv [OF zod.zod_library_axioms])

text \<open>
  The review accepts what the step rejects: in every form that the complete schema accepts, the agents can be replaced by
  fewer agents than the required number of signatures, and the complete schema still accepts the form, while the schema of
  the verification step rejects it.
\<close>

theorem review_misses_threshold:
  assumes "zod_library accepts" and "accepts (campaignFormSchema m n) (ObjV ps)" and "k < t" and "1 \<le> k" and "2 \<le> t"
    and "t \<le> 10" and "positive_text a"
  shows "\<exists>r. get_prop r ''requiredAgentCount'' = NumV k \<and> get_prop r ''multiSigThreshold'' = NumV t
    \<and> accepts (campaignFormSchema m n) (ObjV (assoc_set ''agentRequirements'' r ps))
    \<and> \<not> accepts verificationSetupSchema (ObjV (assoc_set ''agentRequirements'' r ps))"
  using zod_library.threshold_unchecked [OF assms]
  by (intro exI [of _ "ObjV [(''minStakeAmount'', a), (''requiredAgentCount'', NumV k), (''multiSigRequired'', BoolV True),
        (''multiSigThreshold'', NumV t)]"] conjI) (simp_all add: get_prop_def)

theorem review_misses_threshold_witness:
  "\<exists>r. get_prop r ''requiredAgentCount'' = NumV 1 \<and> get_prop r ''multiSigThreshold'' = NumV 10
    \<and> zod_accepts (campaignFormSchema 0 0) (ObjV (assoc_set ''agentRequirements'' r demo_fields))
    \<and> \<not> zod_accepts verificationSetupSchema (ObjV (assoc_set ''agentRequirements'' r demo_fields))"
  by (rule review_misses_threshold [OF zod.zod_library_axioms demo_form_accepted _ _ _ _ demo_amounts(2)]) simp_all

end
