(* ===== verification/Campaign_Wizard.thy ===== *)
theory Campaign_Wizard
  imports Campaign_Schema
begin

text \<open>
  The store of the campaign wizard and the events of its pages (src/Frontend/web/src/store/campaignWizardStore.ts and
  components/wizard): the order of the steps, the operations on the form, what the pages let a user do, the figures of the
  review, and what a reload of the page brings back.
\<close>

section \<open>The store\<close>

datatype WizardStep = BasicInfo | FinancialTerms | Timeline | MilestoneDefinition | VerificationSetup | ReviewSubmit

record CampaignWizardState =
  ws_currentStep :: WizardStep
  ws_formData :: jsval
  ws_stepValidation :: "WizardStep \<Rightarrow> bool"
  ws_isAutoSaving :: bool
  ws_lastSaved :: jsval

text \<open>\<open>start\<close> and \<open>harvest\<close> are the two readings of \<open>new Date()\<close>; they are taken once, when the module is evaluated.\<close>

definition initialFormData :: "int \<Rightarrow> int \<Rightarrow> jsval" where
  "initialFormData start harvest = ObjV
     [(''name'', StrV ''''), (''description'', StrV ''''), (''cropType'', StrV ''''),
      (''location'', ObjV [(''latitude'', NumV 0), (''longitude'', NumV 0), (''address'', StrV '''')]),
      (''farmSize'', NumV 0), (''farmSizeUnit'', StrV ''hectares''),
      (''targetAmount'', StrV ''''), (''assetType'', StrV ''USDC''), (''roiStructure'', StrV ''fixed_return''),
      (''fixedReturnPercentage'', NumV 0), (''revenueSharePercentage'', NumV 0),
      (''startDate'', DateV (Some start)), (''expectedHarvestDate'', DateV (Some harvest)), (''milestoneWindows'', ArrV []),
      (''milestones'', ArrV []),
      (''agentRequirements'', ObjV [(''minStakeAmount'', StrV ''''), (''requiredAgentCount'', NumV 1),
         (''multiSigRequired'', BoolV False), (''multiSigThreshold'', NumV 2)]),
      (''status'', StrV ''draft''), (''lastSaved'', Undef)]"

definition stepOrder :: "WizardStep list" where
  "stepOrder = [BasicInfo, FinancialTerms, Timeline, MilestoneDefinition, VerificationSetup, ReviewSubmit]"

fun indexOf :: "'a list \<Rightarrow> 'a \<Rightarrow> int" where
  "indexOf [] x = - 1"
| "indexOf (y # ys) x = (if x = y then 0 else if indexOf ys x < 0 then - 1 else indexOf ys x + 1)"

definition initialState :: "jsval \<Rightarrow> CampaignWizardState" where
  "initialState form = \<lparr>ws_currentStep = BasicInfo, ws_formData = form, ws_stepValidation = (\<lambda>_. False),
     ws_isAutoSaving = False, ws_lastSaved = Null\<rparr>"

definition setCurrentStep :: "WizardStep \<Rightarrow> CampaignWizardState \<Rightarrow> CampaignWizardState" where
  "setCurrentStep step w = w\<lparr>ws_currentStep := step\<rparr>"

definition nextStep :: "CampaignWizardState \<Rightarrow> CampaignWizardState" where
  "nextStep w =
     (let currentIndex = indexOf stepOrder (ws_currentStep w) in
      if currentIndex < int (length stepOrder) - 1 then w\<lparr>ws_currentStep := stepOrder ! nat (currentIndex + 1)\<rparr> else w)"

definition previousStep :: "CampaignWizardState \<Rightarrow> CampaignWizardState" where
  "previousStep w =
     (let currentIndex = indexOf stepOrder (ws_currentStep w) in
      if 0 < currentIndex then w\<lparr>ws_currentStep := stepOrder ! nat (currentIndex - 1)\<rparr> else w)"

text \<open>\<open>{ ...o, ...p }\<close> on values; what has no properties adds none.\<close>

fun own_props :: "jsval \<Rightarrow> (string \<times> jsval) list" where
  "own_props (ObjV ps) = ps"
| "own_props _ = []"

definition spread :: "jsval \<Rightarrow> jsval \<Rightarrow> jsval" where
  "spread o1 o2 = ObjV (obj_spread (own_props o1) (own_props o2))"

definition updateFormData :: "jsval \<Rightarrow> CampaignWizardState \<Rightarrow> CampaignWizardState" where
  "updateFormData data w = w\<lparr>ws_formData := spread (ws_formData w) data\<rparr>"

definition updateBasicInfo :: "jsval \<Rightarrow> CampaignWizardState \<Rightarrow> CampaignWizardState" where
  "updateBasicInfo data w = w\<lparr>ws_formData := spread (ws_formData w) data\<rparr>"

definition updateFinancialTerms :: "jsval \<Rightarrow> CampaignWizardState \<Rightarrow> CampaignWizardState" where
  "updateFinancialTerms data w = w\<lparr>ws_formData := spread (ws_formData w) data\<rparr>"

definition updateTimeline :: "jsval \<Rightarrow> CampaignWizardState \<Rightarrow> CampaignWizardState" where
  "updateTimeline data w = w\<lparr>ws_formData := spread (ws_formData w) data\<rparr>"

definition updateVerificationSetup :: "jsval \<Rightarrow> CampaignWizardState \<Rightarrow> CampaignWizardState" where
  "updateVerificationSetup data w = w\<lparr>ws_formData := spread (ws_formData w) data\<rparr>"

definition milestones_of :: "CampaignWizardState \<Rightarrow> jsval list" where
  "milestones_of w = elems (get_prop (ws_formData w) ''milestones'')"

definition set_milestones :: "jsval list \<Rightarrow> CampaignWizardState \<Rightarrow> CampaignWizardState" where
  "set_milestones ms w = w\<lparr>ws_formData := spread (ws_formData w) (ObjV [(''milestones'', ArrV ms)])\<rparr>"

definition addMilestone :: "jsval \<Rightarrow> CampaignWizardState \<Rightarrow> CampaignWizardState" where
  "addMilestone milestone w = set_milestones (milestones_of w @ [milestone]) w"

definition updateMilestone :: "nat \<Rightarrow> jsval \<Rightarrow> CampaignWizardState \<Rightarrow> CampaignWizardState" where
  "updateMilestone index milestone w =
     set_milestones (map (\<lambda>(i, m). if i = index then spread m milestone else m) (enumerate 0 (milestones_of w))) w"

definition removeMilestone :: "nat \<Rightarrow> CampaignWizardState \<Rightarrow> CampaignWizardState" where
  "removeMilestone index w =
     set_milestones (map snd (filter (\<lambda>(i, m). i \<noteq> index) (enumerate 0 (milestones_of w)))) w"

definition setStepValidation :: "WizardStep \<Rightarrow> bool \<Rightarrow> CampaignWizardState \<Rightarrow> CampaignWizardState" where
  "setStepValidation step isValid w = w\<lparr>ws_stepValidation := (ws_stepValidation w)(step := isValid)\<rparr>"

definition setAutoSaving :: "bool \<Rightarrow> CampaignWizardState \<Rightarrow> CampaignWizardState" where
  "setAutoSaving isSaving w = w\<lparr>ws_isAutoSaving := isSaving\<rparr>"

definition setLastSaved :: "jsval \<Rightarrow> CampaignWizardState \<Rightarrow> CampaignWizardState" where
  "setLastSaved date w = w\<lparr>ws_lastSaved := date\<rparr>"

definition resetWizard :: "jsval \<Rightarrow> CampaignWizardState \<Rightarrow> CampaignWizardState" where
  "resetWizard form w = w\<lparr>ws_currentStep := BasicInfo, ws_formData := form, ws_stepValidation := (\<lambda>_. False),
     ws_isAutoSaving := False, ws_lastSaved := Null\<rparr>"

definition canProceed :: "CampaignWizardState \<Rightarrow> bool" where
  "canProceed w = ws_stepValidation w (ws_currentStep w)"

subsection \<open>Persistence\<close>

record persisted =
  pz_formData :: jsval
  pz_currentStep :: WizardStep
  pz_stepValidation :: "WizardStep \<Rightarrow> bool"
  pz_lastSaved :: jsval

definition partialize :: "CampaignWizardState \<Rightarrow> persisted" where
  "partialize w = \<lparr>pz_formData = ws_formData w, pz_currentStep = ws_currentStep w,
     pz_stepValidation = ws_stepValidation w, pz_lastSaved = ws_lastSaved w\<rparr>"

text \<open>
  \<open>JSON.parse(JSON.stringify(v))\<close>: a date comes back as its text, a number that is not finite as \<open>null\<close>, and a property
  without a value not at all.
\<close>

primrec stored :: "jsval \<Rightarrow> jsval" where
  "stored Undef = Undef"
| "stored Null = Null"
| "stored (BoolV b) = BoolV b"
| "stored (NumV x) = NumV x"
| "stored NaN = Null"
| "stored (Infinite n) = Null"
| "stored (StrV s) = StrV s"
| "stored (DateV t) = (case t of None \<Rightarrow> Null | Some x \<Rightarrow> StrV (toISOString x))"
| "stored (ArrV xs) = ArrV (map (\<lambda>x. if x = Undef then Null else x) (map stored xs))"
| "stored (ObjV ps) = ObjV (filter (\<lambda>p. snd p \<noteq> Undef) (map (map_prod (\<lambda>k. k) stored) ps))"

text \<open>
  The \<open>persist\<close> middleware is an argument: \<open>restore p w\<close> is the state of the new page, whose store starts as \<open>w\<close>, when \<open>p\<close>
  was written before. It writes and reads JSON and puts what it read over the initial state.
\<close>

locale persist_library =
  fixes restore :: "persisted \<Rightarrow> CampaignWizardState \<Rightarrow> CampaignWizardState"
  assumes restored: "restore p w = w\<lparr>ws_currentStep := pz_currentStep p, ws_formData := stored (pz_formData p),
    ws_stepValidation := pz_stepValidation p, ws_lastSaved := stored (pz_lastSaved p)\<rparr>"

definition merge_restored :: "persisted \<Rightarrow> CampaignWizardState \<Rightarrow> CampaignWizardState" where
  "merge_restored p w = w\<lparr>ws_currentStep := pz_currentStep p, ws_formData := stored (pz_formData p),
    ws_stepValidation := pz_stepValidation p, ws_lastSaved := stored (pz_lastSaved p)\<rparr>"

interpretation merged: persist_library merge_restored
  by unfold_locales (simp add: merge_restored_def)

section \<open>The pages\<close>

definition currentStepIndex :: "CampaignWizardState \<Rightarrow> nat" where
  "currentStepIndex w = nat (indexOf stepOrder (ws_currentStep w))"

definition completedSteps :: "CampaignWizardState \<Rightarrow> nat list" where
  "completedSteps w = filter (\<lambda>i. ws_stepValidation w (stepOrder ! i)) [0..<currentStepIndex w]"

text \<open>\<open>isClickable\<close> of the stepper: the button of any other step is disabled.\<close>

definition isClickable :: "CampaignWizardState \<Rightarrow> nat \<Rightarrow> bool" where
  "isClickable w index = (List.member (completedSteps w) index \<or> index < currentStepIndex w)"

definition handleStepClick :: "nat \<Rightarrow> CampaignWizardState \<Rightarrow> CampaignWizardState" where
  "handleStepClick stepIndex w =
     (if stepIndex < currentStepIndex w \<or> ws_stepValidation w (stepOrder ! stepIndex)
      then setCurrentStep (stepOrder ! stepIndex) w else w)"

definition handleNext :: "CampaignWizardState \<Rightarrow> CampaignWizardState" where
  "handleNext w = (if canProceed w then nextStep w else w)"

definition handlePrevious :: "CampaignWizardState \<Rightarrow> CampaignWizardState" where
  "handlePrevious w = previousStep w"

text \<open>\<open>now\<close> is the target date the page proposes.\<close>

definition newMilestone :: "int \<Rightarrow> jsval" where
  "newMilestone now = ObjV
     [(''name'', StrV ''''), (''description'', StrV ''''), (''targetDate'', DateV (Some now)),
      (''verificationType'', StrV ''single_agent''), (''releasePercentage'', NumV 0),
      (''evidenceRequirements'', ObjV [(''photos'', BoolV True), (''gps'', BoolV True), (''satelliteCrossCheck'', BoolV False)]),
      (''bufferDays'', NumV 7)]"

text \<open>The fields of the form of each page, from its \<open>defaultValues\<close>.\<close>

fun page_fields :: "WizardStep \<Rightarrow> string list" where
  "page_fields BasicInfo = [''name'', ''description'', ''cropType'', ''location'', ''farmSize'', ''farmSizeUnit'']"
| "page_fields FinancialTerms = [''targetAmount'', ''assetType'', ''roiStructure'', ''fixedReturnPercentage'', ''revenueSharePercentage'']"
| "page_fields Timeline = [''startDate'', ''expectedHarvestDate'', ''milestoneWindows'']"
| "page_fields MilestoneDefinition = [''milestones'']"
| "page_fields VerificationSetup = [''agentRequirements'']"
| "page_fields ReviewSubmit = []"

text \<open>What the form of a page writes to the store when a field changes.\<close>

fun page_update :: "WizardStep \<Rightarrow> jsval \<Rightarrow> CampaignWizardState \<Rightarrow> CampaignWizardState" where
  "page_update BasicInfo data w = updateBasicInfo data w"
| "page_update FinancialTerms data w = updateFinancialTerms data w"
| "page_update Timeline data w = updateTimeline data w"
| "page_update MilestoneDefinition data w =
     fold (\<lambda>(index, milestone). updateMilestone index milestone) (enumerate 0 (elems (get_prop data ''milestones''))) w"
| "page_update VerificationSetup data w = updateVerificationSetup data w"
| "page_update ReviewSubmit data w = w"

text \<open>
  One event of the pages. Only the page of the current step is on the screen; its form reports its own validity. The buttons
  that add and remove milestones are shown for fewer than six and more than three.
\<close>

inductive page_event :: "CampaignWizardState \<Rightarrow> CampaignWizardState \<Rightarrow> bool" where
  next_button: "ws_currentStep w \<noteq> ReviewSubmit \<Longrightarrow> page_event w (handleNext w)"
| previous_button: "ws_currentStep w \<noteq> ReviewSubmit \<Longrightarrow> page_event w (handlePrevious w)"
| step_button: "isClickable w i \<Longrightarrow> page_event w (handleStepClick i w)"
| validity: "ws_currentStep w \<noteq> ReviewSubmit \<Longrightarrow> page_event w (setStepValidation (ws_currentStep w) b w)"
| field: "fst ` set ps \<subseteq> set (page_fields (ws_currentStep w)) \<Longrightarrow> page_event w (page_update (ws_currentStep w) (ObjV ps) w)"
| add_button: "ws_currentStep w = MilestoneDefinition \<Longrightarrow> length (milestones_of w) < 6 \<Longrightarrow>
    page_event w (addMilestone (newMilestone now) w)"
| remove_button: "ws_currentStep w = MilestoneDefinition \<Longrightarrow> 3 < length (milestones_of w) \<Longrightarrow>
    page_event w (removeMilestone i w)"
| saving: "page_event w (setAutoSaving True w)"
| saved: "page_event w (setLastSaved (DateV (Some now)) (setAutoSaving False w))"

inductive reached :: "(persisted \<Rightarrow> CampaignWizardState \<Rightarrow> CampaignWizardState) \<Rightarrow> CampaignWizardState \<Rightarrow> bool"
  for restore where
  opened: "reached restore (initialState (initialFormData start harvest))"
| event: "reached restore w \<Longrightarrow> page_event w w' \<Longrightarrow> reached restore w'"
| page_reload: "reached restore w \<Longrightarrow> reached restore (restore (partialize w) (initialState (initialFormData start harvest)))"

text \<open>
  The days between the two dates of the timeline page, begun days counted; an unset date gives 0, an invalid one no number.
  After a reload the dates are texts; \<open>parse\<close> is what \<open>new Date\<close> makes of a text.
\<close>

definition calculateDuration :: "(string \<Rightarrow> int option) \<Rightarrow> jsval \<Rightarrow> int option" where
  "calculateDuration parse form =
     (let startDate = get_prop form ''startDate''; harvestDate = get_prop form ''expectedHarvestDate'' in
      if js_truthy startDate \<and> js_truthy harvestDate
      then (case (new_date parse startDate, new_date parse harvestDate) of
          (Some start, Some end_time) \<Rightarrow> Some (- ((- \<bar>end_time - start\<bar>) div day_ms)) | _ \<Rightarrow> None)
      else Some 0)"

text \<open>\<open>clock\<close> is \<open>toLocaleTimeString\<close>.\<close>

definition formatLastSaved :: "(int \<Rightarrow> string) \<Rightarrow> int \<Rightarrow> int \<Rightarrow> string" where
  "formatLastSaved clock now date =
     (let diffSecs = (now - date) div 1000; diffMins = diffSecs div 60 in
      if diffSecs < 60 then ''Saved '' @ show_int diffSecs @ ''s ago''
      else if diffMins < 60 then ''Saved '' @ show_int diffMins @ ''m ago''
      else ''Saved '' @ clock date)"

section \<open>The review\<close>

definition gasUnits :: "CampaignWizardState \<Rightarrow> nat" where
  "gasUnits w = 100000 + length (milestones_of w) * 50000"

definition gasCost :: "CampaignWizardState \<Rightarrow> rat" where
  "gasCost w = of_nat (gasUnits w) * (1 / 100000)"

datatype scenario = Optimistic | Expected | Pessimistic

fun multiplier :: "scenario \<Rightarrow> rat" where
  "multiplier Optimistic = 13 / 10"
| "multiplier Expected = 115 / 100"
| "multiplier Pessimistic = 9 / 10"

record returns =
  rn_totalRevenue :: rat
  rn_investorReturn :: rat
  rn_farmerProceeds :: rat

text \<open>\<open>v || 0\<close> where the value is a finite number, missing or not a number.\<close>

fun or_zero :: "jsval \<Rightarrow> rat" where
  "or_zero (NumV x) = x"
| "or_zero _ = 0"

fun text_amount :: "jsval \<Rightarrow> rat" where
  "text_amount (StrV s) = or_zero (parseFloat s)"
| "text_amount _ = 0"

definition simulateReturns :: "jsval \<Rightarrow> scenario \<Rightarrow> returns" where
  "simulateReturns form sc =
     (let targetAmount = text_amount (get_prop form ''targetAmount'');
          totalRevenue = targetAmount * multiplier sc;
          investorReturn = (if get_prop form ''roiStructure'' = StrV ''fixed_return''
            then targetAmount * (1 + or_zero (get_prop form ''fixedReturnPercentage'') / 100)
            else totalRevenue * (or_zero (get_prop form ''revenueSharePercentage'') / 100)) in
      \<lparr>rn_totalRevenue = totalRevenue, rn_investorReturn = investorReturn, rn_farmerProceeds = totalRevenue - investorReturn\<rparr>)"

section \<open>Lemmas\<close>

lemma map_of_spread: "map_of (obj_spread o1 o2) k = (case map_of (rev o2) k of Some x \<Rightarrow> Some x | None \<Rightarrow> map_of o1 k)"
  by (induction o2 arbitrary: o1) (auto simp: obj_spread_def map_add_def split: option.split)

lemma get_prop_spread:
  "get_prop (spread v (ObjV ps)) k = (if k \<in> fst ` set ps then get_prop (ObjV (rev ps)) k else get_prop v k)"
proof (cases "map_of (rev ps) k")
  case None
  then have "k \<notin> fst ` set ps" by (simp add: map_of_eq_None_iff)
  with None show ?thesis by (cases v) (simp_all add: spread_def get_prop_def map_of_spread)
next
  case (Some x)
  then have "k \<in> fst ` set ps" using map_of_SomeD by force
  with Some show ?thesis by (simp add: spread_def get_prop_def map_of_spread)
qed

lemma milestones_set [simp]: "milestones_of (set_milestones ms w) = ms"
  by (simp add: milestones_of_def set_milestones_def get_prop_spread) (simp add: get_prop_def)

lemma length_updateMilestone [simp]: "length (milestones_of (updateMilestone i m w)) = length (milestones_of w)"
  by (simp add: updateMilestone_def)

lemma length_addMilestone [simp]: "length (milestones_of (addMilestone m w)) = Suc (length (milestones_of w))"
  by (simp add: addMilestone_def)

lemma length_removeMilestone: "length (milestones_of (removeMilestone i w)) \<le> length (milestones_of w)"
  using length_filter_le [of "\<lambda>(j, m). j \<noteq> i" "enumerate 0 (milestones_of w)"] by (simp add: removeMilestone_def)

text \<open>The operations on the form leave the rest of the state alone.\<close>

definition rest :: "CampaignWizardState \<Rightarrow> WizardStep \<times> (WizardStep \<Rightarrow> bool)" where
  "rest w = (ws_currentStep w, ws_stepValidation w)"

lemma rest_updates [simp]:
  "rest (set_milestones ms w) = rest w" "rest (addMilestone m w) = rest w" "rest (updateMilestone i m w) = rest w"
  "rest (removeMilestone i w) = rest w" "rest (setAutoSaving b w) = rest w" "rest (setLastSaved t w) = rest w"
  by (simp_all add: rest_def set_milestones_def addMilestone_def updateMilestone_def removeMilestone_def
      setAutoSaving_def setLastSaved_def)

lemma milestones_saving [simp]:
  "milestones_of (setAutoSaving b w) = milestones_of w" "milestones_of (setLastSaved t w) = milestones_of w"
  by (simp_all add: milestones_of_def setAutoSaving_def setLastSaved_def)

lemma fold_updates:
  "rest (fold (\<lambda>(i, m). updateMilestone i m) xs w) = rest w"
  "length (milestones_of (fold (\<lambda>(i, m). updateMilestone i m) xs w)) = length (milestones_of w)"
  by (induction xs arbitrary: w) (simp_all split: prod.split)

lemma rest_page_update: "rest (page_update p data w) = rest w"
  by (cases p) (simp_all add: fold_updates updateBasicInfo_def updateFinancialTerms_def updateTimeline_def
      updateVerificationSetup_def, simp_all add: rest_def)

lemma length_page_update:
  assumes "fst ` set ps \<subseteq> set (page_fields p)"
  shows "length (milestones_of (page_update p (ObjV ps) w)) = length (milestones_of w)"
proof (cases "p = MilestoneDefinition")
  case False
  with assms have "''milestones'' \<notin> fst ` set ps" by (cases p) auto
  with False show ?thesis
    by (cases p) (simp_all add: milestones_of_def updateBasicInfo_def updateFinancialTerms_def updateTimeline_def
        updateVerificationSetup_def get_prop_spread)
qed (simp add: fold_updates)

text \<open>An object has each property once; spreading keeps that.\<close>

definition keys_ok :: "CampaignWizardState \<Rightarrow> bool" where
  "keys_ok w \<longleftrightarrow> distinct (map fst (own_props (ws_formData w)))"

lemma keys_assoc_set: "fst ` set (assoc_set k v ps) = insert k (fst ` set ps)"
  by (induction k v ps rule: assoc_set.induct) auto

lemma distinct_assoc_set: "distinct (map fst (assoc_set k v ps)) = distinct (map fst ps)"
  by (induction k v ps rule: assoc_set.induct) (auto simp: keys_assoc_set)

lemma keys_spread: "distinct (map fst ps) \<Longrightarrow> distinct (map fst (obj_spread ps qs))"
  by (induction qs arbitrary: ps) (auto simp: obj_spread_def distinct_assoc_set)

lemma keys_ok_updates [simp]:
  "keys_ok w \<Longrightarrow> keys_ok (set_milestones ms w)" "keys_ok w \<Longrightarrow> keys_ok (addMilestone m w)"
  "keys_ok w \<Longrightarrow> keys_ok (updateMilestone i m w)" "keys_ok w \<Longrightarrow> keys_ok (removeMilestone i w)"
  "keys_ok w \<Longrightarrow> keys_ok (setAutoSaving b w)" "keys_ok w \<Longrightarrow> keys_ok (setLastSaved t w)"
  by (simp_all add: keys_ok_def set_milestones_def addMilestone_def updateMilestone_def removeMilestone_def
      setAutoSaving_def setLastSaved_def spread_def keys_spread)

lemma keys_ok_fold: "keys_ok w \<Longrightarrow> keys_ok (fold (\<lambda>(i, m). updateMilestone i m) xs w)"
  by (induction xs arbitrary: w) (simp_all split: prod.split)

lemma keys_ok_page_update: "keys_ok w \<Longrightarrow> keys_ok (page_update p data w)"
  by (cases p) (simp_all add: keys_ok_fold updateBasicInfo_def updateFinancialTerms_def updateTimeline_def
      updateVerificationSetup_def, simp_all add: keys_ok_def spread_def keys_spread)

text \<open>
  Every step before the current one is marked valid, the review never is, and there are at most six milestones.
\<close>

definition wizard_ok :: "CampaignWizardState \<Rightarrow> bool" where
  "wizard_ok w \<longleftrightarrow> list_all (\<lambda>i. ws_stepValidation w (stepOrder ! i)) [0..<currentStepIndex w]
     \<and> \<not> ws_stepValidation w ReviewSubmit \<and> length (milestones_of w) \<le> 6 \<and> keys_ok w"

lemma wizard_ok_rest:
  "rest w' = rest w \<Longrightarrow> length (milestones_of w') \<le> 6 \<Longrightarrow> keys_ok w' \<Longrightarrow> wizard_ok w \<Longrightarrow> wizard_ok w'"
  by (simp add: wizard_ok_def rest_def currentStepIndex_def)

lemma step_index: "stepOrder ! currentStepIndex w = ws_currentStep w" "currentStepIndex w < 6"
  "int (currentStepIndex w) = indexOf stepOrder (ws_currentStep w)"
  by (cases "ws_currentStep w"; simp add: currentStepIndex_def stepOrder_def)+

lemma nextStep_eq:
  "nextStep w = (if currentStepIndex w < 5 then w\<lparr>ws_currentStep := stepOrder ! Suc (currentStepIndex w)\<rparr> else w)"
  by (cases "ws_currentStep w") (simp_all add: nextStep_def currentStepIndex_def stepOrder_def Let_def numeral_eq_Suc)

lemma previousStep_eq:
  "previousStep w = (case currentStepIndex w of 0 \<Rightarrow> w | Suc k \<Rightarrow> w\<lparr>ws_currentStep := stepOrder ! k\<rparr>)"
  by (cases "ws_currentStep w") (simp_all add: previousStep_def currentStepIndex_def stepOrder_def Let_def numeral_eq_Suc)

lemma index_of_nth: "i < 6 \<Longrightarrow> indexOf stepOrder (stepOrder ! i) = int i"
  by (auto simp: stepOrder_def numeral_eq_Suc less_Suc_eq)

lemma current_moved:
  "i < 6 \<Longrightarrow> currentStepIndex (w\<lparr>ws_currentStep := stepOrder ! i\<rparr>) = i"
  by (simp add: currentStepIndex_def index_of_nth)

lemma milestones_moved:
  "milestones_of (w\<lparr>ws_currentStep := p\<rparr>) = milestones_of w" "keys_ok (w\<lparr>ws_currentStep := p\<rparr>) = keys_ok w"
  by (simp_all add: milestones_of_def keys_ok_def)

lemma wizard_ok_move:
  assumes "wizard_ok w" and "i < 6" and "\<forall>j<i. ws_stepValidation w (stepOrder ! j)"
  shows "wizard_ok (w\<lparr>ws_currentStep := stepOrder ! i\<rparr>)"
  using assms by (auto simp: wizard_ok_def current_moved list_all_iff milestones_moved)

lemma wizard_okD: "wizard_ok w \<Longrightarrow> j < currentStepIndex w \<Longrightarrow> ws_stepValidation w (stepOrder ! j)"
  by (auto simp: wizard_ok_def list_all_iff)

lemma wizard_ok_next:
  assumes "wizard_ok w"
  shows "wizard_ok (handleNext w)"
proof (cases "canProceed w \<and> currentStepIndex w < 5")
  case True
  then have "\<forall>j<Suc (currentStepIndex w). ws_stepValidation w (stepOrder ! j)"
    using assms by (auto simp: less_Suc_eq step_index canProceed_def dest: wizard_okD)
  then show ?thesis using True assms wizard_ok_move by (simp add: handleNext_def nextStep_eq)
qed (use assms in \<open>auto simp: handleNext_def nextStep_eq\<close>)

lemma wizard_ok_previous:
  assumes "wizard_ok w"
  shows "wizard_ok (handlePrevious w)"
proof (cases "currentStepIndex w")
  case (Suc k)
  then have "wizard_ok (w\<lparr>ws_currentStep := stepOrder ! k\<rparr>)"
    using assms step_index(2) [of w] by (intro wizard_ok_move) (auto intro: wizard_okD)
  then show ?thesis using Suc by (simp add: handlePrevious_def previousStep_eq)
qed (use assms in \<open>simp add: handlePrevious_def previousStep_eq\<close>)

lemma wizard_ok_click:
  assumes "wizard_ok w" and "isClickable w i"
  shows "wizard_ok (handleStepClick i w)"
proof -
  have i: "i < currentStepIndex w" using assms(2) by (auto simp: isClickable_def completedSteps_def)
  then have "handleStepClick i w = w\<lparr>ws_currentStep := stepOrder ! i\<rparr>" by (simp add: handleStepClick_def setCurrentStep_def)
  moreover have "wizard_ok (w\<lparr>ws_currentStep := stepOrder ! i\<rparr>)"
    using i assms(1) step_index(2) [of w] by (intro wizard_ok_move) (auto intro: wizard_okD)
  ultimately show ?thesis by simp
qed

lemma wizard_ok_validity:
  assumes "wizard_ok w" and "ws_currentStep w \<noteq> ReviewSubmit"
  shows "wizard_ok (setStepValidation (ws_currentStep w) b w)"
proof -
  have "stepOrder ! j \<noteq> ws_currentStep w" if "j < currentStepIndex w" for j
    using that step_index(2) [of w] index_of_nth [of j] step_index(3) [of w] by auto
  with assms show ?thesis
    by (auto simp: wizard_ok_def setStepValidation_def list_all_iff currentStepIndex_def milestones_of_def keys_ok_def)
qed

lemma page_event_ok: "page_event w w' \<Longrightarrow> wizard_ok w \<Longrightarrow> wizard_ok w'"
proof (induction rule: page_event.induct)
  case (field ps w)
  then show ?case
    by (intro wizard_ok_rest [OF rest_page_update]) (simp_all add: length_page_update keys_ok_page_update wizard_ok_def)
next
  case (add_button w now)
  then show ?case by (intro wizard_ok_rest [of "addMilestone (newMilestone now) w" w]) (simp_all add: wizard_ok_def)
next
  case (remove_button w i)
  then have "length (milestones_of (removeMilestone i w)) \<le> 6"
    using length_removeMilestone [of i w] by (simp add: wizard_ok_def)
  with remove_button show ?case
    by (intro wizard_ok_rest [of "removeMilestone i w" w]) (simp_all add: wizard_ok_def)
next
  case (saving w)
  then show ?case by (intro wizard_ok_rest [of "setAutoSaving True w" w]) (simp_all add: wizard_ok_def)
next
  case (saved w now)
  then show ?case
    by (intro wizard_ok_rest [of "setLastSaved (DateV (Some now)) (setAutoSaving False w)" w])
      (simp_all add: wizard_ok_def)
qed (simp_all add: wizard_ok_next wizard_ok_previous wizard_ok_click wizard_ok_validity)

text \<open>What is stored of an object: each property that has a value, converted.\<close>

lemma stored_Undef [simp]: "stored v = Undef \<longleftrightarrow> v = Undef"
  by (cases v) (simp_all split: option.split)

lemma map_of_filter_def:
  "distinct (map fst ps) \<Longrightarrow> map_of (filter (\<lambda>p. snd p \<noteq> Undef) ps) k =
    (case map_of ps k of Some x \<Rightarrow> if x = Undef then None else Some x | None \<Rightarrow> None)"
proof (induction ps)
  case (Cons q ps)
  then have "map_of ps (fst q) = None" by (simp add: map_of_eq_None_iff)
  with Cons show ?case by (cases q) (auto split: option.splits)
qed simp

lemma get_prop_stored:
  assumes "distinct (map fst ps)"
  shows "get_prop (stored (ObjV ps)) k = stored (get_prop (ObjV ps) k)"
proof -
  have "distinct (map fst (map (map_prod (\<lambda>k. k) stored) ps))" using assms by (simp add: comp_def)
  then show ?thesis
    by (simp add: get_prop_def map_of_filter_def map_of_map_snd split: option.split)
qed

lemma elems_stored: "length (elems (stored v)) = length (elems v)"
  by (cases v) (simp_all split: option.split)

lemma keys_stored: "distinct (map fst (own_props v)) \<Longrightarrow> distinct (map fst (own_props (stored v)))"
  by (cases v) (auto simp: comp_def distinct_map_filter split: option.split)

lemma stored_form:
  assumes "distinct (map fst (own_props v))"
  shows "get_prop (stored v) k = stored (get_prop v k)"
  using assms by (cases v) (simp_all add: get_prop_stored del: stored.simps(10), simp_all add: get_prop_def split: option.split)

lemma reload_ok:
  assumes "persist_library restore" and "wizard_ok w"
  shows "wizard_ok (restore (partialize w) w0)"
proof -
  have R: "restore (partialize w) w0 = w0\<lparr>ws_currentStep := ws_currentStep w, ws_formData := stored (ws_formData w),
      ws_stepValidation := ws_stepValidation w, ws_lastSaved := stored (ws_lastSaved w)\<rparr>"
    unfolding persist_library.restored [OF assms(1)] by (simp add: partialize_def)
  have w: "length (milestones_of w) \<le> 6" "keys_ok w" using assms(2) by (simp_all add: wizard_ok_def)
  show ?thesis
  proof (rule wizard_ok_rest [OF _ _ _ assms(2)])
    show "rest (restore (partialize w) w0) = rest w" unfolding R by (simp add: rest_def)
    show "keys_ok (restore (partialize w) w0)" unfolding R using w(2) by (simp add: keys_ok_def keys_stored)
    show "length (milestones_of (restore (partialize w) w0)) \<le> 6"
      unfolding R using w by (simp add: milestones_of_def stored_form elems_stored keys_ok_def)
  qed
qed

lemma reached_ok:
  assumes "reached restore w" and "persist_library restore"
  shows "wizard_ok w"
  using assms
proof (induction rule: reached.induct)
  case (opened start harvest)
  then show ?case
    by (simp add: wizard_ok_def initialState_def initialFormData_def milestones_of_def get_prop_def keys_ok_def
        currentStepIndex_def stepOrder_def)
qed (auto intro: page_event_ok reload_ok)

section \<open>Properties\<close>

text \<open>
  C18. Whatever a user does on the pages, and however often the page is reloaded, the wizard only stands at a step when all steps
  before it are marked valid, so the review is reached with all five; the mark of the review itself is never set, and the
  form never has more than the six milestones its schema allows.
\<close>

theorem steps_before_valid:
  assumes "persist_library restore" and "reached restore w"
  shows "(\<forall>i<currentStepIndex w. ws_stepValidation w (stepOrder ! i)) \<and> \<not> ws_stepValidation w ReviewSubmit
    \<and> length (milestones_of w) \<le> 6"
  using reached_ok [OF assms(2,1)] by (auto simp: wizard_ok_def list_all_iff)

text \<open>A user who fills in the first page and goes on.\<close>

definition second_step :: CampaignWizardState where
  "second_step = handleNext (setStepValidation BasicInfo True (initialState (initialFormData 0 0)))"

lemma second_step_reached: "reached merge_restored second_step"
proof -
  have "reached merge_restored (setStepValidation BasicInfo True (initialState (initialFormData 0 0)))"
    by (rule reached.event [OF reached.opened [of _ 0 0]])
      (use validity [of "initialState (initialFormData 0 0)" True] in \<open>simp add: initialState_def\<close>)
  then show ?thesis unfolding second_step_def
    by (rule reached.event) (rule next_button, simp add: setStepValidation_def initialState_def)
qed

theorem steps_before_valid_witness:
  "ws_currentStep second_step = FinancialTerms \<and> ws_stepValidation second_step BasicInfo
    \<and> \<not> ws_stepValidation second_step ReviewSubmit \<and> length (milestones_of second_step) \<le> 6"
proof -
  have "ws_currentStep second_step = FinancialTerms" "currentStepIndex second_step = 1"
    by (simp_all add: second_step_def handleNext_def canProceed_def setStepValidation_def initialState_def nextStep_eq
        currentStepIndex_def stepOrder_def)
  moreover have "stepOrder ! 0 = BasicInfo" by (simp add: stepOrder_def)
  ultimately show ?thesis
    using steps_before_valid [OF merged.persist_library_axioms second_step_reached] by (metis less_one)
qed

text \<open>
  A reload breaks a finished form. For every state whose form has a start date, the page comes back at the same step with
  the same validity marks, but the dates have become texts, and neither the timeline step nor the complete schema accepts
  the form any more, at whatever time the schemas are evaluated.
\<close>

theorem reload_breaks_dates:
  assumes "zod_library accepts" and "persist_library restore"
    and "distinct (map fst (own_props (ws_formData w)))" and "get_prop (ws_formData w) ''startDate'' = DateV (Some t)"
    and "w' = restore (partialize w) w0"
  shows "ws_currentStep w' = ws_currentStep w \<and> ws_stepValidation w' = ws_stepValidation w
    \<and> get_prop (ws_formData w') ''startDate'' = StrV (toISOString t)
    \<and> \<not> accepts (timelineSchema n) (ws_formData w') \<and> \<not> accepts (campaignFormSchema m n) (ws_formData w')"
proof -
  have "get_prop (ws_formData w') ''startDate'' = StrV (toISOString t)"
    using assms(3-5) by (simp add: persist_library.restored [OF assms(2)] partialize_def stored_form)
  then show ?thesis
    by (simp add: assms(5) persist_library.restored [OF assms(2)] partialize_def timelineSchema_def campaignFormSchema_def
        zod_library.zod_laws [OF assms(1)])
qed

definition review_state :: CampaignWizardState where
  "review_state = \<lparr>ws_currentStep = ReviewSubmit, ws_formData = ObjV demo_fields,
     ws_stepValidation = (\<lambda>p. p \<noteq> ReviewSubmit), ws_isAutoSaving = False, ws_lastSaved = Null\<rparr>"

theorem reload_breaks_dates_witness:
  "zod_accepts (campaignFormSchema 0 0) (ws_formData review_state)
   \<and> ws_currentStep (merge_restored (partialize review_state) review_state) = ReviewSubmit
   \<and> \<not> zod_accepts (timelineSchema 0) (ws_formData (merge_restored (partialize review_state) review_state))
   \<and> \<not> zod_accepts (campaignFormSchema 0 0) (ws_formData (merge_restored (partialize review_state) review_state))"
proof -
  have "distinct (map fst (own_props (ws_formData review_state)))"
    "get_prop (ws_formData review_state) ''startDate'' = DateV (Some 100)"
    by (simp_all add: review_state_def demo_fields_def get_prop_def)
  from reload_breaks_dates [OF zod.zod_library_axioms merged.persist_library_axioms this refl]
  show ?thesis using demo_form_accepted by (auto simp: review_state_def)
qed

text \<open>
  In the pessimistic scenario the review shows a farmer who promised a fixed return a loss, whatever the positive target and
  percentage.
\<close>

lemma fixed_return_pessimistic:
  assumes "get_prop form ''roiStructure'' = StrV ''fixed_return''" and "0 < text_amount (get_prop form ''targetAmount'')"
    and "0 \<le> or_zero (get_prop form ''fixedReturnPercentage'')"
  shows "rn_farmerProceeds (simulateReturns form Pessimistic) < 0"
proof -
  let ?t = "text_amount (get_prop form ''targetAmount'')" and ?p = "or_zero (get_prop form ''fixedReturnPercentage'')"
  have "?t \<le> ?t * (1 + ?p / 100)" using assms(2,3) by (simp add: distrib_left)
  moreover have "?t * (9 / 10) < ?t" using assms(2) by simp
  ultimately have "?t * (9 / 10) - ?t * (1 + ?p / 100) < 0" by simp
  then show ?thesis using assms(1) by (simp add: simulateReturns_def Let_def)
qed

end
