(* ===== verification/Campaign_Forms.thy ===== *)
theory Campaign_Forms
  imports Campaign_Wizard
begin

text \<open>
  What the pages of the campaign wizard show (src/Frontend/web/src/components/wizard/steps): the controls of each form with
  the property they are registered for and the place where its error appears, checked against the schema of the page; the
  figures beside the forms; and the rows of the review. Icons and styles are left out.
\<close>

section \<open>Controls\<close>

text \<open>
  The attributes \<open>step\<close>, \<open>min\<close> and \<open>max\<close> of a number input are texts, absent ones empty. A select has its values with their
  labels. \<open>Reads\<close> is what the form stores: the text, or the number or date that \<open>valueAsNumber\<close> and \<open>valueAsDate\<close> ask for.
\<close>

datatype control_kind = TextBox | TextArea | NumberBox string string string | DateBox | SelectBox "(string \<times> string) list"
  | CheckBox | SwitchBox

datatype reading = AsText | AsNumber | AsDate | AsBool

record form_control =
  fc_path :: "string list"
  fc_label :: string
  fc_kind :: control_kind
  fc_reads :: reading
  fc_placeholder :: string
  fc_error :: bool

definition control :: "string list \<Rightarrow> string \<Rightarrow> control_kind \<Rightarrow> reading \<Rightarrow> string \<Rightarrow> form_control" where
  "control p l k r h = \<lparr>fc_path = p, fc_label = l, fc_kind = k, fc_reads = r, fc_placeholder = h, fc_error = True\<rparr>"

text \<open>A control below which no error is shown.\<close>

definition mute :: "form_control \<Rightarrow> form_control" where
  "mute c = c\<lparr>fc_error := False\<rparr>"

definition basicInfo_controls :: "form_control list" where
  "basicInfo_controls =
     [control [''name''] ''Campaign Name *'' TextBox AsText ''e.g., Maize Harvest 2024 - Cooperative A'',
      control [''description''] ''Description *'' TextArea AsText
        ''Describe your campaign, goals, and any relevant context for investors...'',
      control [''cropType''] ''Crop Type *'' TextBox AsText ''e.g., Maize, Rice, Cassava'',
      control [''location'', ''address''] ''Farm Location *'' TextBox AsText ''Enter farm address or use GPS detection'',
      control [''location'', ''latitude''] ''Latitude *'' (NumberBox ''any'' '''' '''') AsNumber ''e.g., 6.5244'',
      control [''location'', ''longitude''] ''Longitude *'' (NumberBox ''any'' '''' '''') AsNumber ''e.g., 3.3792'',
      control [''farmSize''] ''Farm Size *'' (NumberBox ''0.1'' '''' '''') AsNumber ''e.g., 5.5'',
      mute (control [''farmSizeUnit''] ''Unit *'' (SelectBox [(''hectares'', ''Hectares''), (''acres'', ''Acres'')]) AsText
        ''Select unit'')]"

text \<open>\<open>handleLocationDetect\<close>: the position of the device, if it can be had, becomes the two coordinates.\<close>

definition handleLocationDetect :: "(rat \<times> rat) option \<Rightarrow> jsval \<Rightarrow> jsval" where
  "handleLocationDetect position form = (case position of
       None \<Rightarrow> form
     | Some (lat, lon) \<Rightarrow> spread form (ObjV [(''location'',
         spread (get_prop form ''location'') (ObjV [(''latitude'', NumV lat), (''longitude'', NumV lon)]))]))"

definition fixed_return_control :: form_control where
  "fixed_return_control = control [''fixedReturnPercentage''] ''Fixed Return Percentage *'' (NumberBox ''0.1'' ''0'' ''100'') AsNumber
     ''e.g., 15''"

definition revenue_share_control :: form_control where
  "revenue_share_control = control [''revenueSharePercentage''] ''Revenue Share Percentage *'' (NumberBox ''0.1'' ''0'' ''100'') AsNumber
     ''e.g., 20''"

text \<open>The percentage that is asked for depends on the structure that is chosen.\<close>

definition financialTerms_controls :: "jsval \<Rightarrow> form_control list" where
  "financialTerms_controls form =
     [control [''targetAmount''] ''Target Funding Amount *'' (NumberBox ''0.01'' '''' '''') AsText ''e.g., 10000'',
      mute (control [''assetType''] ''Asset Type *'' (SelectBox [(''USDC'', ''USDC (USD Coin)''), (''XLM'', ''XLM (Stellar Lumens)'')])
        AsText ''Select asset type''),
      mute (control [''roiStructure''] ''Investor ROI Structure *''
        (SelectBox [(''fixed_return'', ''Fixed Return Percentage''), (''revenue_share'', ''Revenue Share Percentage'')])
        AsText ''Select ROI structure'')] @
     (if get_prop form ''roiStructure'' = StrV ''fixed_return'' then [fixed_return_control] else []) @
     (if get_prop form ''roiStructure'' = StrV ''revenue_share'' then [revenue_share_control] else [])"

definition timeline_controls :: "form_control list" where
  "timeline_controls =
     [control [''startDate''] ''Campaign Start Date *'' DateBox AsDate '''',
      control [''expectedHarvestDate''] ''Expected Harvest Date *'' DateBox AsDate '''']"

text \<open>The controls of one milestone; the element of the list is \<open>*\<close>.\<close>

definition milestone_controls :: "form_control list" where
  "milestone_controls = map (\<lambda>c. c\<lparr>fc_path := [''milestones'', ''*''] @ fc_path c\<rparr>)
     [control [''name''] ''Milestone Name *'' TextBox AsText ''e.g., Land Preparation'',
      control [''targetDate''] ''Target Date *'' DateBox AsDate '''',
      control [''description''] ''Description *'' TextArea AsText ''Describe what needs to be accomplished for this milestone...'',
      mute (control [''verificationType''] ''Verification Type *''
        (SelectBox [(''single_agent'', ''Single Agent''), (''multi_party'', ''Multi-Party''),
           (''satellite_cross_check'', ''Satellite Cross-Check'')]) AsText ''Select type''),
      control [''releasePercentage''] ''Release % *'' (NumberBox ''1'' ''1'' ''100'') AsNumber ''e.g., 20'',
      control [''bufferDays''] ''Buffer Days *'' (NumberBox '''' ''0'' ''30'') AsNumber ''e.g., 7'',
      mute (control [''evidenceRequirements'', ''photos''] ''Photos'' CheckBox AsBool ''''),
      mute (control [''evidenceRequirements'', ''gps''] ''GPS'' CheckBox AsBool ''''),
      mute (control [''evidenceRequirements'', ''satelliteCrossCheck''] ''Satellite'' CheckBox AsBool '''')]"

definition threshold_control :: form_control where
  "threshold_control = control [''agentRequirements'', ''multiSigThreshold''] ''Multi-Sig Threshold *'' (NumberBox '''' ''2'' ''10'')
     AsNumber ''e.g., 2''"

definition verificationSetup_controls :: "jsval \<Rightarrow> form_control list" where
  "verificationSetup_controls form =
     [control [''agentRequirements'', ''minStakeAmount''] ''Minimum Agent Stake Amount *'' (NumberBox ''0.01'' ''0'' '''') AsText ''e.g., 100'',
      control [''agentRequirements'', ''requiredAgentCount''] ''Required Agent Count *'' (NumberBox '''' ''1'' ''10'') AsNumber ''e.g., 3'',
      mute (control [''agentRequirements'', ''multiSigRequired''] ''Multi-Signature Required'' SwitchBox AsBool '''')] @
     (if get_prop (get_prop form ''agentRequirements'') ''multiSigRequired'' = BoolV True then [threshold_control] else [])"

fun step_controls :: "WizardStep \<Rightarrow> jsval \<Rightarrow> form_control list" where
  "step_controls BasicInfo form = basicInfo_controls"
| "step_controls FinancialTerms form = financialTerms_controls form"
| "step_controls Timeline form = timeline_controls"
| "step_controls MilestoneDefinition form = (if elems (get_prop form ''milestones'') = [] then [] else milestone_controls)"
| "step_controls VerificationSetup form = verificationSetup_controls form"
| "step_controls ReviewSubmit form = []"

section \<open>The forms and their schemas\<close>

text \<open>The schema that the resolver of a page's form is built from; the review has no form.\<close>

fun step_schema :: "int \<Rightarrow> WizardStep \<Rightarrow> zschema" where
  "step_schema now BasicInfo = basicInfoSchema"
| "step_schema now FinancialTerms = financialTermsSchema"
| "step_schema now Timeline = timelineSchema now"
| "step_schema now MilestoneDefinition = milestoneDefinitionSchema now"
| "step_schema now VerificationSetup = verificationSetupSchema"
| "step_schema now ReviewSubmit = ZObject []"

text \<open>The properties a schema reaches that hold no object: path, kind of value, and whether they may be left out.\<close>

datatype leaf_kind = LText | LNumber "zcheck list" | LDate | LBool | LOneOf "string list"

record leaf =
  lf_path :: "string list"
  lf_kind :: leaf_kind
  lf_required :: bool

definition leaf_at :: "leaf_kind \<Rightarrow> leaf list" where
  "leaf_at k = [\<lparr>lf_path = [], lf_kind = k, lf_required = True\<rparr>]"

definition below :: "string \<Rightarrow> leaf \<Rightarrow> leaf" where
  "below k l = l\<lparr>lf_path := k # lf_path l\<rparr>"

primrec leaves :: "zschema \<Rightarrow> leaf list" where
  "leaves (ZString cs) = leaf_at LText"
| "leaves (ZNumber cs) = leaf_at (LNumber cs)"
| "leaves (ZDate cs) = leaf_at LDate"
| "leaves ZBoolean = leaf_at LBool"
| "leaves (ZEnum xs) = leaf_at (LOneOf xs)"
| "leaves (ZArray z cs) = map (below ''*'') (leaves z)"
| "leaves (ZObject fs) = concat (map (\<lambda>(k, ls). map (below k) ls) (map (map_prod (\<lambda>k. k) leaves) fs))"
| "leaves (ZOptional z) = map (\<lambda>l. l\<lparr>lf_required := False\<rparr>) (leaves z)"
| "leaves (ZRefine z p msg path) = leaves z"

text \<open>An attribute that bounds an input repeats a check of the schema; an input without it bounds nothing.\<close>

definition bound_shown :: "(rat \<Rightarrow> zcheck \<Rightarrow> bool) \<Rightarrow> string \<Rightarrow> zcheck list \<Rightarrow> bool" where
  "bound_shown checks s cs \<longleftrightarrow> s = [] \<or> (case parseFloat s of NumV x \<Rightarrow> list_ex (checks x) cs | _ \<Rightarrow> False)"

fun lower_at :: "rat \<Rightarrow> zcheck \<Rightarrow> bool" where
  "lower_at x (Min b m) = (b = x)"
| "lower_at x (Max b m) = False"

fun upper_at :: "rat \<Rightarrow> zcheck \<Rightarrow> bool" where
  "upper_at x (Min b m) = False"
| "upper_at x (Max b m) = (b = x)"

text \<open>A control enters a value of the kind the schema asks for, and offers exactly its alternatives.\<close>

fun enters :: "control_kind \<Rightarrow> reading \<Rightarrow> leaf_kind \<Rightarrow> bool" where
  "enters TextBox AsText LText = True"
| "enters TextArea AsText LText = True"
| "enters (NumberBox stp lo hi) AsText LText = True"
| "enters (NumberBox stp lo hi) AsNumber (LNumber cs) = (bound_shown lower_at lo cs \<and> bound_shown upper_at hi cs)"
| "enters DateBox AsDate LDate = True"
| "enters CheckBox AsBool LBool = True"
| "enters SwitchBox AsBool LBool = True"
| "enters (SelectBox opts) AsText (LOneOf xs) = (map fst opts = xs)"
| "enters _ _ _ = False"

definition serves_leaf :: "form_control \<Rightarrow> leaf \<Rightarrow> bool" where
  "serves_leaf c l \<longleftrightarrow> fc_path c = lf_path l \<and> enters (fc_kind c) (fc_reads c) (lf_kind l)"

definition astray :: "leaf list \<Rightarrow> form_control list \<Rightarrow> form_control list" where
  "astray ls cs = filter (\<lambda>c. \<not> list_ex (serves_leaf c) ls) cs"

definition unreachable :: "leaf list \<Rightarrow> form_control list \<Rightarrow> leaf list" where
  "unreachable ls cs = filter (\<lambda>l. \<not> list_ex (\<lambda>c. serves_leaf c l) cs) ls"

subsection \<open>Messages\<close>

text \<open>
  The messages the schema carries, each with the path at which the library reports it. An error of a list is reported at
  the list; the places of a page where an error is shown are its controls.
\<close>

fun check_message :: "zcheck \<Rightarrow> string option" where
  "check_message (Min b m) = m"
| "check_message (Max b m) = m"

definition at_path :: "string list \<Rightarrow> string option list \<Rightarrow> (string list \<times> string) list" where
  "at_path p ms = map (Pair p) (map the (filter (\<lambda>m. m \<noteq> None) ms))"

primrec messages :: "zschema \<Rightarrow> (string list \<times> string) list" where
  "messages (ZString cs) = at_path [] (map check_message cs)"
| "messages (ZNumber cs) = at_path [] (map check_message cs)"
| "messages (ZDate cs) = at_path [] (map check_message cs)"
| "messages ZBoolean = []"
| "messages (ZEnum xs) = []"
| "messages (ZArray z cs) = at_path [] (map check_message cs) @ map (\<lambda>(p, m). (''*'' # p, m)) (messages z)"
| "messages (ZObject fs) = concat (map (\<lambda>(k, ms). map (\<lambda>(p, m). (k # p, m)) ms) (map (map_prod (\<lambda>k. k) messages) fs))"
| "messages (ZOptional z) = messages z"
| "messages (ZRefine z p msg path) = messages z @ at_path path [msg]"

definition error_slots :: "form_control list \<Rightarrow> string list list" where
  "error_slots cs = map fc_path (filter fc_error cs)"

definition unshown :: "zschema \<Rightarrow> form_control list \<Rightarrow> (string list \<times> string) list" where
  "unshown z cs = filter (\<lambda>(p, m). \<not> List.member (error_slots cs) p) (messages z)"

section \<open>Lemmas\<close>

lemmas form_defs = basicInfo_controls_def financialTerms_controls_def fixed_return_control_def revenue_share_control_def
  timeline_controls_def milestone_controls_def threshold_control_def verificationSetup_controls_def control_def mute_def

lemmas leaf_defs = leaf_at_def below_def serves_leaf_def astray_def unreachable_def bound_shown_def limits_msg_def

lemmas message_defs = at_path_def limits_msg_def unshown_def error_slots_def

lemma shown_bounds [simp]:
  "parseFloat ''0'' = NumV 0" "parseFloat ''1'' = NumV 1" "parseFloat ''2'' = NumV 2" "parseFloat ''10'' = NumV 10"
  "parseFloat ''30'' = NumV 30" "parseFloat ''100'' = NumV 100"
  by (simp_all add: float_defs)

lemma financial_match:
  "astray (leaves financialTermsSchema) (financialTerms_controls form) = []"
  "filter lf_required (unreachable (leaves financialTermsSchema) (financialTerms_controls form)) = []"
  by (simp_all add: financialTermsSchema_def form_defs leaf_defs)

lemma verification_match:
  "astray (leaves verificationSetupSchema) (verificationSetup_controls form) = []"
  "filter lf_required (unreachable (leaves verificationSetupSchema) (verificationSetup_controls form)) = []"
  by (simp_all add: verificationSetupSchema_def form_defs leaf_defs)

lemma milestone_match:
  "astray (leaves (milestoneDefinitionSchema now)) milestone_controls = []"
  "filter lf_required (unreachable (leaves (milestoneDefinitionSchema now)) milestone_controls) = []"
  by (simp_all add: milestoneDefinitionSchema_def milestoneSchema_def form_defs leaf_defs)

lemma basic_match:
  "astray (leaves basicInfoSchema) basicInfo_controls = []"
  "unreachable (leaves basicInfoSchema) basicInfo_controls = []"
  by (simp_all add: basicInfoSchema_def form_defs leaf_defs)

lemma timeline_match:
  "astray (leaves (timelineSchema now)) timeline_controls = []"
  "filter lf_required (unreachable (leaves (timelineSchema now)) timeline_controls) = []"
  by (simp_all add: timelineSchema_def form_defs leaf_defs)

lemma astray_Nil [simp]: "astray ls [] = []"
  by (simp add: astray_def)

lemma unreachable_Nil [simp]: "unreachable ls [] = ls"
  by (simp add: unreachable_def)

section \<open>Properties\<close>

text \<open>
  The form of every page fits the schema it is checked against. Whatever the form holds, every control enters a property
  that the schema has, as the kind of value it asks for, with the alternatives it allows and no other bounds than its own;
  and every property the schema insists on has a control, except on the milestone page as long as there is no milestone.
\<close>

lemma forms_match_schemas:
  "astray (leaves (step_schema now step)) (step_controls step form) = []
   \<and> filter lf_required (unreachable (leaves (step_schema now step)) (step_controls step form)) =
       (if step = MilestoneDefinition \<and> elems (get_prop form ''milestones'') = []
        then filter lf_required (leaves (step_schema now step)) else [])"
proof (cases step)
  case ReviewSubmit
  then show ?thesis by simp
qed (simp_all add: basic_match financial_match timeline_match milestone_match verification_match)

text \<open>
  Which reasons for a refused form are never told. Beside the messages of controls that are not on the page, these are the
  required return percentage, which is reported at a selection that shows no error, the number and the total of the
  milestones, which are reported at the list, and everything about the milestone windows, the agents and the stake of a
  milestone, for which no page has a control.
\<close>

theorem silent_messages:
  "unshown (step_schema now step) (step_controls step form) = (case step of
       BasicInfo \<Rightarrow> []
     | FinancialTerms \<Rightarrow>
         (if get_prop form ''roiStructure'' = StrV ''fixed_return'' then [] else
            [([''fixedReturnPercentage''], ''Fixed return percentage must be at least 0''),
             ([''fixedReturnPercentage''], ''Fixed return percentage must not exceed 100'')]) @
         (if get_prop form ''roiStructure'' = StrV ''revenue_share'' then [] else
            [([''revenueSharePercentage''], ''Revenue share percentage must be at least 0''),
             ([''revenueSharePercentage''], ''Revenue share percentage must not exceed 100'')]) @
         [([''roiStructure''], ''ROI percentage is required based on the selected structure'')]
     | Timeline \<Rightarrow>
         [([''milestoneWindows'', ''*'', ''bufferDays''], ''Buffer days must be at least 0''),
          ([''milestoneWindows'', ''*'', ''bufferDays''], ''Buffer days must not exceed 30'')]
     | MilestoneDefinition \<Rightarrow> if elems (get_prop form ''milestones'') = [] then messages (milestoneDefinitionSchema now) else
         [([''milestones''], ''At least 3 milestones are required''),
          ([''milestones''], ''Maximum 6 milestones allowed''),
          ([''milestones'', ''*'', ''requiredAgentCount''], ''Required agent count must be at least 1''),
          ([''milestones'', ''*'', ''requiredAgentCount''], ''Required agent count must not exceed 10''),
          ([''milestones'', ''*'', ''stakingRequirement''], ''Staking requirement is required''),
          ([''milestones'', ''*'', ''stakingRequirement''], ''Staking requirement must be a valid number''),
          ([''milestones''], ''Total release percentage must equal 100%'')]
     | VerificationSetup \<Rightarrow>
         if get_prop (get_prop form ''agentRequirements'') ''multiSigRequired'' = BoolV True then [] else
           [([''agentRequirements'', ''multiSigThreshold''], ''Multi-sig threshold must be at least 2''),
            ([''agentRequirements'', ''multiSigThreshold''], ''Multi-sig threshold must not exceed 10''),
            ([''agentRequirements'', ''multiSigThreshold''], ''Multi-sig threshold must not exceed required agent count'')]
     | ReviewSubmit \<Rightarrow> [])"
proof (cases step)
  case BasicInfo
  then show ?thesis by (simp add: basicInfoSchema_def form_defs message_defs)
next
  case FinancialTerms
  then show ?thesis by (simp add: financialTermsSchema_def form_defs message_defs)
next
  case Timeline
  then show ?thesis by (simp add: timelineSchema_def form_defs message_defs)
next
  case MilestoneDefinition
  then show ?thesis
    by (cases "elems (get_prop form ''milestones'') = []")
      (simp add: unshown_def error_slots_def, simp add: milestoneDefinitionSchema_def milestoneSchema_def form_defs message_defs)
next
  case VerificationSetup
  then show ?thesis by (simp add: verificationSetupSchema_def form_defs message_defs)
next
  case ReviewSubmit
  then show ?thesis by (simp add: unshown_def)
qed

end
