(* ===== verification/Campaign_Review.thy ===== *)
theory Campaign_Review
  imports Campaign_Forms
begin

text \<open>
  The review of the campaign wizard (src/Frontend/web/src/components/wizard/steps/review-submit-step.tsx): the texts it shows of
  the form, in their order, and the errors that rendering them throws. The bullets and the grouping into boxes are left out.
\<close>

section \<open>Texts\<close>

text \<open>
  What rendering throws. The page's surroundings are \<open>view_env\<close>: how the engine reads a text as a date and prints a date object
  inside a text, how \<open>format\<close> of date-fns prints a valid date by the pattern \<open>MMM dd, yyyy\<close>, and \<open>toLocaleString\<close>.
\<close>

datatype page_error = TypeError | RangeError | InvalidChild

record view_env =
  parse_date :: "string \<Rightarrow> int option"
  date_string :: "int option \<Rightarrow> string"
  format_date :: "int \<Rightarrow> string"
  locale_number :: "nat \<Rightarrow> string"

definition and_then :: "'e + 'a \<Rightarrow> ('a \<Rightarrow> 'e + 'b) \<Rightarrow> 'e + 'b" where
  "and_then m f = (case m of Inl e \<Rightarrow> Inl e | Inr x \<Rightarrow> f x)"

fun all_of :: "('e + 'a) list \<Rightarrow> 'e + 'a list" where
  "all_of [] = Inr []"
| "all_of (m # ms) = and_then m (\<lambda>x. and_then (all_of ms) (\<lambda>xs. Inr (x # xs)))"

definition joined :: "('e + string) list \<Rightarrow> 'e + string" where
  "joined ms = and_then (all_of ms) (\<lambda>ss. Inr (concat ss))"

definition infinite_text :: "bool \<Rightarrow> string" where
  "infinite_text neg = (if neg then ''-Infinity'' else ''Infinity'')"

definition bool_text :: "bool \<Rightarrow> string" where
  "bool_text b = (if b then ''true'' else ''false'')"

text \<open>A value as the child of an element: what is no text and no number shows nothing, and an object may not be shown.\<close>

primrec child :: "jsval \<Rightarrow> page_error + string" where
  "child Undef = Inr []"
| "child Null = Inr []"
| "child (BoolV b) = Inr []"
| "child (NumV x) = Inr (show_number x)"
| "child NaN = Inr ''NaN''"
| "child (Infinite n) = Inr (infinite_text n)"
| "child (StrV s) = Inr s"
| "child (DateV t) = Inl InvalidChild"
| "child (ArrV vs) = joined (map child vs)"
| "child (ObjV ps) = Inl InvalidChild"

text \<open>A value inside a template text.\<close>

primrec template :: "view_env \<Rightarrow> jsval \<Rightarrow> string" where
  "template V Undef = ''undefined''"
| "template V Null = ''null''"
| "template V (BoolV b) = bool_text b"
| "template V (NumV x) = show_number x"
| "template V NaN = ''NaN''"
| "template V (Infinite n) = infinite_text n"
| "template V (StrV s) = s"
| "template V (DateV t) = date_string V t"
| "template V (ArrV vs) = js_join '','' (map2 (\<lambda>v t. if v = Undef \<or> v = Null then [] else t) vs (map (template V) vs))"
| "template V (ObjV ps) = ''[object Object]''"

text \<open>\<open>v.k\<close>, which \<open>undefined\<close> and \<open>null\<close> do not have; and the methods the page calls on what it reads.\<close>

definition member :: "string \<Rightarrow> jsval \<Rightarrow> page_error + jsval" where
  "member k v = (if v = Undef \<or> v = Null then Inl TypeError else Inr (get_prop v k))"

fun fixed_text :: "nat \<Rightarrow> jsval \<Rightarrow> page_error + string" where
  "fixed_text d (NumV x) = Inr (toFixed d x)"
| "fixed_text d NaN = Inr ''NaN''"
| "fixed_text d (Infinite n) = Inr (infinite_text n)"
| "fixed_text d _ = Inl TypeError"

fun replace_first :: "char \<Rightarrow> string \<Rightarrow> string \<Rightarrow> string" where
  "replace_first c r [] = []"
| "replace_first c r (x # xs) = (if x = c then r @ xs else x # replace_first c r xs)"

fun replace_text :: "jsval \<Rightarrow> page_error + string" where
  "replace_text (StrV s) = Inr (replace_first (CHR ''_'') '' '' s)"
| "replace_text _ = Inl TypeError"

definition day_text :: "view_env \<Rightarrow> jsval \<Rightarrow> page_error + string" where
  "day_text V v = (case new_date (parse_date V) v of None \<Rightarrow> Inl RangeError | Some t \<Rightarrow> Inr (format_date V t))"

section \<open>Rows\<close>

text \<open>
  A row is a label with the pieces of text behind it. Of several errors the first in the order of the page stands for all:
  any of them takes the page down.
\<close>

type_synonym row = "string \<times> string list"

definition row :: "string \<Rightarrow> (page_error + string) list \<Rightarrow> page_error + row" where
  "row l ms = and_then (all_of ms) (\<lambda>ts. Inr (l, ts))"

definition child_of :: "string \<Rightarrow> jsval \<Rightarrow> page_error + string" where
  "child_of k v = and_then (member k v) child"

definition basic_rows :: "jsval \<Rightarrow> (page_error + row) list" where
  "basic_rows f =
     [row ''Campaign Name:'' [child (get_prop f ''name'')],
      row ''Crop Type:'' [child (get_prop f ''cropType'')],
      row ''Description:'' [child (get_prop f ''description'')],
      row ''Farm Size:'' [child (get_prop f ''farmSize''), Inr '' '', child (get_prop f ''farmSizeUnit'')],
      row ''Location:'' [child_of ''address'' (get_prop f ''location'')],
      row [] [and_then (member ''latitude'' (get_prop f ''location'')) (fixed_text 4), Inr '', '',
        and_then (member ''longitude'' (get_prop f ''location'')) (fixed_text 4)]]"

definition is_fixed :: "jsval \<Rightarrow> bool" where
  "is_fixed f \<longleftrightarrow> get_prop f ''roiStructure'' = StrV ''fixed_return''"

definition financial_rows :: "view_env \<Rightarrow> jsval \<Rightarrow> (page_error + row) list" where
  "financial_rows V f =
     [row ''Target Amount:'' [child (get_prop f ''targetAmount''), Inr '' '', child (get_prop f ''assetType'')],
      row ''ROI Structure:'' [replace_text (get_prop f ''roiStructure'')],
      (if is_fixed f then row ''Fixed Return:'' [Inr (template V (get_prop f ''fixedReturnPercentage'') @ ''%'')]
       else row ''Revenue Share:'' [Inr (template V (get_prop f ''revenueSharePercentage'') @ ''%'')])]"

definition timeline_rows :: "view_env \<Rightarrow> jsval \<Rightarrow> (page_error + row) list" where
  "timeline_rows V f =
     [row ''Start Date:'' [day_text V (get_prop f ''startDate'')],
      row ''Expected Harvest:'' [day_text V (get_prop f ''expectedHarvestDate'')]]"

definition milestone_rows :: "view_env \<Rightarrow> jsval \<Rightarrow> (page_error + row) list" where
  "milestone_rows V m =
     [row [] [child_of ''name'' m], row [] [child_of ''description'' m],
      row [] [and_then (member ''targetDate'' m) (day_text V), child_of ''releasePercentage'' m, Inr ''% release''],
      row [] [and_then (member ''verificationType'' m) replace_text]]"

definition verification_rows :: "view_env \<Rightarrow> jsval \<Rightarrow> (page_error + row) list" where
  "verification_rows V f =
     (let agents = get_prop f ''agentRequirements'' in
      [row ''Min Stake:'' [child_of ''minStakeAmount'' agents, Inr '' XLM''],
       row ''Required Agents:'' [child_of ''requiredAgentCount'' agents],
       row ''Multi-Sig:'' [and_then (member ''multiSigRequired'' agents) (\<lambda>required. Inr (
         if js_truthy required
         then template V (get_prop agents ''multiSigThreshold'') @ ''-of-'' @ template V (get_prop agents ''requiredAgentCount'')
         else ''Not required''))]])"

definition scenario_rows :: "jsval \<Rightarrow> string \<Rightarrow> scenario \<Rightarrow> (page_error + row) list" where
  "scenario_rows f l sc =
     (let r = simulateReturns f sc in
      [row l [Inr (toFixed 0 (rn_totalRevenue r)), Inr '' '', child (get_prop f ''assetType'')],
       row ''Investor:'' [Inr (toFixed 0 (rn_investorReturn r))],
       row ''Farmer:'' [Inr (toFixed 0 (rn_farmerProceeds r))]])"

definition gas_rows :: "view_env \<Rightarrow> CampaignWizardState \<Rightarrow> (page_error + row) list" where
  "gas_rows V w =
     [row ''Estimated Gas Cost'' [Inr (locale_number V (gasUnits w)), Inr '' gas units''],
      row [] [Inr (toFixed 4 (gasCost w)), Inr '' XLM'', Inr ''Approximate deployment cost'']]"

definition summary_rows :: "view_env \<Rightarrow> jsval \<Rightarrow> (page_error + row) list" where
  "summary_rows V f =
     (let agents = get_prop f ''agentRequirements'' in
      [row [] [Inr ''Campaign will raise '', child (get_prop f ''targetAmount''), Inr '' '', child (get_prop f ''assetType''),
         Inr '' from investors''],
       row [] [Inr ''Funds held in escrow and released only upon milestone verification''],
       row [] [Inr (show_nat (length (elems (get_prop f ''milestones'')))), Inr '' milestones with '',
         child_of ''requiredAgentCount'' agents, Inr '' required verification agents''],
       row [] [Inr ''Agents must stake '', child_of ''minStakeAmount'' agents, Inr '' XLM (slashable for fraud)''],
       row [] [Inr ''Investors receive '', Inr (
         if is_fixed f then template V (get_prop f ''fixedReturnPercentage'') @ ''% fixed return''
         else template V (get_prop f ''revenueSharePercentage'') @ ''% of harvest revenue'')],
       row [] [Inr ''Campaign runs from '', day_text V (get_prop f ''startDate''), Inr '' to '',
         day_text V (get_prop f ''expectedHarvestDate'')]])"

text \<open>The list of milestones, on which \<open>map\<close> is called.\<close>

fun list_of :: "jsval \<Rightarrow> page_error + jsval list" where
  "list_of (ArrV vs) = Inr vs"
| "list_of _ = Inl TypeError"

definition review :: "view_env \<Rightarrow> CampaignWizardState \<Rightarrow> page_error + row list" where
  "review V w =
     (let f = ws_formData w in
      and_then (list_of (get_prop f ''milestones'')) (\<lambda>ms. all_of
        (basic_rows f @ financial_rows V f @ timeline_rows V f
         @ [row ''Milestones'' [Inr (show_nat (length ms))]] @ concat (map (milestone_rows V) ms)
         @ verification_rows V f
         @ scenario_rows f ''Optimistic'' Optimistic @ scenario_rows f ''Expected'' Expected
         @ scenario_rows f ''Pessimistic'' Pessimistic @ gas_rows V w @ summary_rows V f)))"

text \<open>The banner above the rows and the button below them depend on the complete schema.\<close>

definition deploy_enabled :: "(zschema \<Rightarrow> jsval \<Rightarrow> bool) \<Rightarrow> int \<Rightarrow> int \<Rightarrow> CampaignWizardState \<Rightarrow> bool" where
  "deploy_enabled accepts before now w = accepts (campaignFormSchema before now) (ws_formData w)"

definition banner :: "(zschema \<Rightarrow> jsval \<Rightarrow> bool) \<Rightarrow> int \<Rightarrow> int \<Rightarrow> CampaignWizardState \<Rightarrow> string" where
  "banner accepts before now w =
     (if deploy_enabled accepts before now w then ''Campaign Validation Passed'' else ''Campaign Validation Failed'')"

section \<open>Lemmas\<close>

fun is_str :: "jsval \<Rightarrow> bool" where
  "is_str (StrV s) = True"
| "is_str _ = False"

fun is_num :: "jsval \<Rightarrow> bool" where
  "is_num (NumV x) = True"
| "is_num _ = False"

fun is_day :: "jsval \<Rightarrow> bool" where
  "is_day (DateV (Some t)) = True"
| "is_day _ = False"

text \<open>What the review relies on in a form, and in one of its milestones.\<close>

definition milestone_ready :: "jsval \<Rightarrow> bool" where
  "milestone_ready m \<longleftrightarrow> is_obj m \<and> is_str (get_prop m ''name'') \<and> is_str (get_prop m ''description'')
     \<and> is_day (get_prop m ''targetDate'') \<and> is_str (get_prop m ''verificationType'') \<and> is_num (get_prop m ''releasePercentage'')"

definition opt_num :: "jsval \<Rightarrow> bool" where
  "opt_num v \<longleftrightarrow> v = Undef \<or> is_num v"

definition location_ready :: "jsval \<Rightarrow> bool" where
  "location_ready v \<longleftrightarrow> is_obj v \<and> is_str (get_prop v ''address'') \<and> is_num (get_prop v ''latitude'')
     \<and> is_num (get_prop v ''longitude'')"

definition agents_ready :: "jsval \<Rightarrow> bool" where
  "agents_ready v \<longleftrightarrow> is_obj v \<and> is_str (get_prop v ''minStakeAmount'') \<and> is_num (get_prop v ''requiredAgentCount'')
     \<and> is_bool (get_prop v ''multiSigRequired'') \<and> opt_num (get_prop v ''multiSigThreshold'')"

definition review_ready :: "jsval \<Rightarrow> bool" where
  "review_ready f \<longleftrightarrow> is_obj f \<and> is_str (get_prop f ''name'') \<and> is_str (get_prop f ''cropType'') \<and> is_str (get_prop f ''description'')
     \<and> is_num (get_prop f ''farmSize'') \<and> is_str (get_prop f ''farmSizeUnit'') \<and> location_ready (get_prop f ''location'')
     \<and> is_str (get_prop f ''targetAmount'') \<and> is_str (get_prop f ''assetType'') \<and> is_str (get_prop f ''roiStructure'')
     \<and> opt_num (get_prop f ''fixedReturnPercentage'') \<and> opt_num (get_prop f ''revenueSharePercentage'')
     \<and> is_day (get_prop f ''startDate'') \<and> is_day (get_prop f ''expectedHarvestDate'')
     \<and> is_arr (get_prop f ''milestones'') \<and> list_all milestone_ready (elems (get_prop f ''milestones''))
     \<and> agents_ready (get_prop f ''agentRequirements'')"

lemmas ready_defs = review_ready_def location_ready_def agents_ready_def milestone_ready_def

lemma number_kind: "number_ok (limits a b) v \<Longrightarrow> is_num v"
  by (cases v) (auto simp: limits_def)

lemma date_kind: "date_ok cs v \<Longrightarrow> is_day v"
  by (cases "(cs, v)" rule: date_ok.cases) simp_all

lemma text_kind: "string_ok cs v \<Longrightarrow> is_str v" "enum_ok xs v \<Longrightarrow> is_str v"
  by (cases v; simp)+

lemma amount_kind: "positive_text v \<Longrightarrow> is_str v"
  by (cases v) simp_all

lemma opt_kind: "v = Undef \<or> number_ok (limits a b) v \<Longrightarrow> opt_num v"
  by (auto simp: opt_num_def intro: number_kind)

lemmas kinds = number_kind date_kind text_kind amount_kind opt_kind

lemma milestone_accepted:
  assumes "zod_library accepts" and "accepts (milestoneSchema m) v"
  shows "milestone_ready v"
  using assms(2) unfolding milestoneSchema_def milestone_ready_def
  apply (simp only: zod_library.field_laws [OF assms(1)])
  by (elim conjE; intro conjI; (assumption | erule kinds))

lemma milestones_accepted:
  "zod_library accepts \<Longrightarrow> \<forall>x\<in>set ms. accepts (milestoneSchema m) x \<Longrightarrow> list_all milestone_ready ms"
  by (auto simp: list_all_iff intro: milestone_accepted)

lemma form_accepted:
  assumes "zod_library accepts" and "accepts (campaignFormSchema m n) f"
  shows "review_ready f"
  using assms(2) unfolding campaignFormSchema_def review_ready_def location_ready_def agents_ready_def
  apply (simp only: zod_library.field_laws [OF assms(1)])
  by (elim conjE; intro conjI; (assumption | erule kinds | erule milestones_accepted [OF assms(1)]))

subsection \<open>Rendering succeeds\<close>

definition fine :: "'e + 'a \<Rightarrow> bool" where
  "fine m \<longleftrightarrow> (\<exists>x. m = Inr x)"

lemma fine_simps [simp]: "fine (Inr x)" "\<not> fine (Inl e)"
  by (simp_all add: fine_def)

lemma and_then_Inr [simp]: "and_then (Inr x) f = f x"
  by (simp add: and_then_def)

lemma fine_all_of: "fine (all_of ms) \<longleftrightarrow> list_all fine ms"
  by (induction ms) (auto simp: and_then_def fine_def split: sum.splits)

lemma length_all_of: "all_of ms = Inr xs \<Longrightarrow> length xs = length ms"
  by (induction ms arbitrary: xs) (auto simp: and_then_def split: sum.splits)

lemma fine_row [simp]: "fine (row l ms) \<longleftrightarrow> list_all fine ms"
  using fine_all_of [of ms] by (auto simp: row_def and_then_def fine_def split: sum.splits)

lemma obj_member: "is_obj v \<Longrightarrow> member k v = Inr (get_prop v k)"
  by (cases v) (simp_all add: member_def)

lemma fine_texts:
  "is_str v \<Longrightarrow> fine (child v)" "is_num v \<Longrightarrow> fine (child v)" "is_num v \<Longrightarrow> fine (fixed_text d v)"
  "is_str v \<Longrightarrow> fine (replace_text v)"
  by (cases v; simp)+

lemma fine_day: "is_day v \<Longrightarrow> fine (day_text V v)"
  by (cases v rule: is_day.cases) (simp_all add: day_text_def)

lemmas fine_rules = fine_texts fine_day obj_member child_of_def

lemma fine_form:
  assumes "review_ready f"
  shows "list_all fine (basic_rows f)" "list_all fine (financial_rows V f)" "list_all fine (timeline_rows V f)"
    "list_all fine (verification_rows V f)" "list_all fine (scenario_rows f l sc)" "list_all fine (summary_rows V f)"
  using assms by (simp_all add: ready_defs fine_rules basic_rows_def financial_rows_def timeline_rows_def
      verification_rows_def scenario_rows_def summary_rows_def Let_def)

lemma fine_milestone: "milestone_ready m \<Longrightarrow> list_all fine (milestone_rows V m)"
  by (simp add: milestone_ready_def fine_rules milestone_rows_def)

lemma fine_milestones: "list_all milestone_ready ms \<Longrightarrow> list_all fine (concat (map (milestone_rows V) ms))"
  by (induction ms) (simp_all add: fine_milestone)

lemma milestone_row_count: "length (concat (map (milestone_rows V) ms)) = 4 * length ms"
  by (induction ms) (simp_all add: milestone_rows_def)

lemma arr_list: "is_arr v \<Longrightarrow> list_of v = Inr (elems v)"
  by (cases v) simp_all

lemma review_fine:
  assumes "review_ready (ws_formData w)"
  shows "\<exists>rows. review V w = Inr rows \<and> length rows = 32 + 4 * length (milestones_of w)"
proof -
  let ?f = "ws_formData w"
  let ?ms = "elems (get_prop ?f ''milestones'')"
  let ?rows = "basic_rows ?f @ financial_rows V ?f @ timeline_rows V ?f
     @ [row ''Milestones'' [Inr (show_nat (length ?ms))]] @ concat (map (milestone_rows V) ?ms)
     @ verification_rows V ?f @ scenario_rows ?f ''Optimistic'' Optimistic @ scenario_rows ?f ''Expected'' Expected
     @ scenario_rows ?f ''Pessimistic'' Pessimistic @ gas_rows V w @ summary_rows V ?f"
  have "list_all fine ?rows"
    using assms by (simp add: fine_form fine_milestones gas_rows_def review_ready_def)
  then obtain rows where rows: "all_of ?rows = Inr rows" using fine_all_of [of ?rows] by (auto simp: fine_def)
  moreover have "review V w = all_of ?rows"
    using assms by (simp add: review_def Let_def arr_list review_ready_def)
  moreover have "length ?rows = 32 + 4 * length ?ms"
    unfolding length_append milestone_row_count
    by (simp add: basic_rows_def financial_rows_def timeline_rows_def verification_rows_def scenario_rows_def gas_rows_def
        summary_rows_def Let_def)
  ultimately show ?thesis using length_all_of [OF rows] by (simp add: milestones_of_def)
qed

text \<open>Only the first underscore of a name becomes a space.\<close>

lemma verification_type_shown:
  "replace_text (StrV ''satellite_cross_check'') = Inr ''satellite cross_check''"
  "replace_text (StrV ''multi_party'') = Inr ''multi party''" "replace_text (StrV ''revenue_share'') = Inr ''revenue share''"
  by simp_all

subsection \<open>After a reload\<close>

text \<open>An object has each of its properties once.\<close>

definition once_keyed :: "jsval \<Rightarrow> bool" where
  "once_keyed v \<longleftrightarrow> distinct (map fst (own_props v))"

definition form_keyed :: "jsval \<Rightarrow> bool" where
  "form_keyed f \<longleftrightarrow> once_keyed f \<and> once_keyed (get_prop f ''location'') \<and> once_keyed (get_prop f ''agentRequirements'')
     \<and> list_all once_keyed (elems (get_prop f ''milestones''))"

definition form_dates :: "jsval \<Rightarrow> jsval list" where
  "form_dates f = get_prop f ''startDate'' # get_prop f ''expectedHarvestDate''
     # map (\<lambda>m. get_prop m ''targetDate'') (elems (get_prop f ''milestones''))"

text \<open>The engine reads the text it wrote for a date as that date.\<close>

definition read_back :: "view_env \<Rightarrow> jsval \<Rightarrow> bool" where
  "read_back V d \<longleftrightarrow> new_date (parse_date V) (stored d) = new_date (parse_date V) d"

definition reads_back :: "view_env \<Rightarrow> jsval \<Rightarrow> bool" where
  "reads_back V f \<longleftrightarrow> list_all (read_back V) (form_dates f)"

lemma stored_plain [simp]:
  "is_str v \<Longrightarrow> stored v = v" "is_num v \<Longrightarrow> stored v = v" "is_bool v \<Longrightarrow> stored v = v" "opt_num v \<Longrightarrow> stored v = v"
  by (cases v; simp add: opt_num_def)+

lemma prop_stored: "once_keyed v \<Longrightarrow> get_prop (stored v) k = stored (get_prop v k)"
  by (simp add: once_keyed_def stored_form)

lemma stored_obj: "is_obj v \<Longrightarrow> is_obj (stored v)"
  by (cases v) simp_all

lemma day_stored: "read_back V v \<Longrightarrow> day_text V (stored v) = day_text V v"
  by (simp add: day_text_def read_back_def)

lemma dates_read:
  assumes "reads_back V f"
  shows "read_back V (get_prop f ''startDate'')" "read_back V (get_prop f ''expectedHarvestDate'')"
    "list_all (\<lambda>m. read_back V (get_prop m ''targetDate'')) (elems (get_prop f ''milestones''))"
  using assms by (simp_all add: reads_back_def form_dates_def list_all_iff)

lemmas stored_rules = obj_member stored_obj prop_stored day_stored child_of_def

lemma rows_stored:
  assumes "review_ready f" and "form_keyed f" and "reads_back V f"
  shows "basic_rows (stored f) = basic_rows f" "financial_rows V (stored f) = financial_rows V f"
    "timeline_rows V (stored f) = timeline_rows V f" "verification_rows V (stored f) = verification_rows V f"
    "scenario_rows (stored f) l sc = scenario_rows f l sc"
  using assms(1,2) dates_read [OF assms(3)] by (simp_all add: ready_defs form_keyed_def stored_rules basic_rows_def financial_rows_def is_fixed_def
      timeline_rows_def verification_rows_def scenario_rows_def simulateReturns_def Let_def)

lemma milestone_stored:
  assumes "milestone_ready m" and "once_keyed m" and "read_back V (get_prop m ''targetDate'')"
  shows "milestone_rows V (stored m) = milestone_rows V m"
  using assms by (simp add: milestone_ready_def stored_rules milestone_rows_def)

lemma milestones_stored:
  assumes "is_arr v" and "list_all milestone_ready (elems v)" and "list_all once_keyed (elems v)"
    and "list_all (\<lambda>m. read_back V (get_prop m ''targetDate'')) (elems v)"
  shows "is_arr (stored v)" "map (milestone_rows V) (elems (stored v)) = map (milestone_rows V) (elems v)"
proof -
  obtain ms where v: "v = ArrV ms" using assms(1) by (cases v) simp_all
  have "stored m \<noteq> Undef" if "m \<in> set ms" for m
    using assms(2) that by (auto simp: v list_all_iff milestone_ready_def)
  then have "elems (stored v) = map stored ms" by (simp add: v cong: map_cong)
  with assms(2-4) show "map (milestone_rows V) (elems (stored v)) = map (milestone_rows V) (elems v)"
    by (simp add: v list_all_iff milestone_stored)
  show "is_arr (stored v)" by (simp add: v)
qed

lemma summary_stored:
  assumes "review_ready f" and "form_keyed f" and "reads_back V f"
  shows "summary_rows V (stored f) = summary_rows V f"
  using assms(1,2) dates_read [OF assms(3)] elems_stored [of "get_prop f ''milestones''"]
  by (simp add: ready_defs form_keyed_def stored_rules is_fixed_def summary_rows_def Let_def)

lemma review_stored:
  assumes "review_ready (ws_formData w)" and "form_keyed (ws_formData w)" and "reads_back V (ws_formData w)"
    and "ws_formData w' = stored (ws_formData w)"
  shows "review V w' = review V w"
proof -
  let ?f = "ws_formData w"
  let ?v = "get_prop ?f ''milestones''"
  have v: "is_arr ?v" "list_all milestone_ready (elems ?v)" "list_all once_keyed (elems ?v)" "get_prop (stored ?f) ''milestones'' = stored ?v"
    using assms(1,2) by (simp_all add: review_ready_def form_keyed_def prop_stored)
  have "gas_rows V w' = gas_rows V w"
    using elems_stored [of ?v] v(4) by (simp add: gas_rows_def gasUnits_def gasCost_def milestones_of_def assms(4))
  then show ?thesis
    using v milestones_stored [OF v(1-3) dates_read(3) [OF assms(3)]] elems_stored [of ?v]
    by (simp add: review_def Let_def assms(4) arr_list rows_stored [OF assms(1-3)] summary_stored [OF assms(1-3)])
qed

section \<open>Properties\<close>

text \<open>
  C29. A campaign that the complete schema accepts can always be looked at: rendering its review throws nothing and gives all
  rows, four for each milestone and thirty-two more. After a reload, where the engine reads back the dates it wrote, the
  review shows exactly the same rows, but the campaign can no longer be deployed: the banner says that its validation
  failed. (This is the review alone; what a reload does to the page around it is in \<open>Campaign_Page\<close>.)
\<close>

theorem review_shown:
  assumes "zod_library accepts" and "persist_library restore" and "deploy_enabled accepts before now w"
    and "form_keyed (ws_formData w)" and "reads_back V (ws_formData w)" and "w' = restore (partialize w) w0"
  shows "\<exists>rows. review V w = Inr rows \<and> review V w' = Inr rows \<and> length rows = 32 + 4 * length (milestones_of w)
    \<and> banner accepts before now w = ''Campaign Validation Passed''
    \<and> banner accepts before' now' w' = ''Campaign Validation Failed''"
proof -
  have ready: "review_ready (ws_formData w)"
    using assms(3) by (simp add: deploy_enabled_def form_accepted [OF assms(1)])
  have f: "ws_formData w' = stored (ws_formData w)"
    by (simp add: assms(6) persist_library.restored [OF assms(2)] partialize_def)
  from ready obtain t where t: "get_prop (ws_formData w) ''startDate'' = DateV (Some t)"
    by (auto simp: review_ready_def elim: is_day.elims)
  then have "get_prop (ws_formData w') ''startDate'' = StrV (toISOString t)"
    using assms(4) f by (simp add: form_keyed_def prop_stored)
  then have "\<not> deploy_enabled accepts before' now' w'"
    by (simp add: deploy_enabled_def campaignFormSchema_def zod_library.zod_laws [OF assms(1)])
  with assms(3) review_fine [OF ready] review_stored [OF ready assms(4,5) f] show ?thesis by (simp add: banner_def)
qed

text \<open>An engine that reads the three dates of the demonstration form.\<close>

definition demo_view :: view_env where
  "demo_view = \<lparr>parse_date = (\<lambda>s. if s = toISOString 100 then Some 100 else if s = toISOString 150 then Some 150
       else if s = toISOString 200 then Some 200 else None),
     date_string = (\<lambda>t. []), format_date = (\<lambda>t. show_int t), locale_number = show_nat\<rparr>"

lemma demo_dates: "toISOString 100 \<noteq> toISOString 150" "toISOString 100 \<noteq> toISOString 200" "toISOString 150 \<noteq> toISOString 200"
  by code_simp+

theorem review_shown_witness:
  "\<exists>rows. review demo_view review_state = Inr rows
    \<and> review demo_view (merge_restored (partialize review_state) review_state) = Inr rows \<and> length rows = 44
    \<and> banner zod_accepts 0 0 review_state = ''Campaign Validation Passed''
    \<and> banner zod_accepts 0 0 (merge_restored (partialize review_state) review_state) = ''Campaign Validation Failed''"
proof -
  have "deploy_enabled zod_accepts 0 0 review_state"
    using demo_form_accepted by (simp add: deploy_enabled_def review_state_def)
  moreover have "form_keyed (ws_formData review_state)"
    by (simp add: form_keyed_def once_keyed_def review_state_def demo_fields_def demo_milestone_def get_prop_def)
  moreover have "reads_back demo_view (ws_formData review_state)"
    using demo_dates
    by (simp add: reads_back_def form_dates_def read_back_def demo_view_def review_state_def demo_fields_def
        demo_milestone_def get_prop_def)
  ultimately show ?thesis
    using review_shown [OF zod.zod_library_axioms merged.persist_library_axioms, of 0 0 review_state demo_view _ review_state 0 0]
    by (simp add: milestones_of_def review_state_def demo_fields_def get_prop_def)
qed

end
