(* ===== verification/Campaign_Page.thy ===== *)
theory Campaign_Page
  imports Campaign_Review
begin

text \<open>
  The page of the campaign wizard as a whole (src/Frontend/web/src/components/wizard): the indicator of the last saving, the
  stepper, the form or the review of the current step with the figures beside it, and the two buttons below. A form page
  shows the values of its form, which it writes to the store at every change.
\<close>

section \<open>The indicator of the last saving\<close>

text \<open>
  \<open>formatLastSaved\<close> asks what it gets for its time, which only a date object has; an invalid one is printed as such.
\<close>

fun last_saved_text :: "(int \<Rightarrow> string) \<Rightarrow> int \<Rightarrow> jsval \<Rightarrow> page_error + string" where
  "last_saved_text clock now (DateV (Some t)) = Inr (formatLastSaved clock now t)"
| "last_saved_text clock now (DateV None) = Inr ''Saved Invalid Date''"
| "last_saved_text clock now _ = Inl TypeError"

definition AutoSaveIndicator :: "(int \<Rightarrow> string) \<Rightarrow> int \<Rightarrow> bool \<Rightarrow> jsval \<Rightarrow> page_error + string" where
  "AutoSaveIndicator clock now isSaving lastSaved =
     (if isSaving then Inr ''Saving...''
      else if js_truthy lastSaved then last_saved_text clock now lastSaved
      else Inr ''Auto-save enabled'')"

section \<open>The stepper\<close>

definition wizardSteps :: "(WizardStep \<times> string \<times> string) list" where
  "wizardSteps =
     [(BasicInfo, ''Basic Info'', ''Campaign details''),
      (FinancialTerms, ''Financial Terms'', ''Funding & ROI''),
      (Timeline, ''Timeline'', ''Dates & schedule''),
      (MilestoneDefinition, ''Milestones'', ''Verification points''),
      (VerificationSetup, ''Verification'', ''Agent requirements''),
      (ReviewSubmit, ''Review'', ''Submit campaign'')]"

text \<open>A button with its inscription, a check mark or its number; the line behind it is coloured like the check mark.\<close>

record step_button =
  sb_label :: string
  sb_description :: string
  sb_aria :: string
  sb_checked :: bool
  sb_number :: nat
  sb_current :: bool
  sb_disabled :: bool

definition Stepper :: "CampaignWizardState \<Rightarrow> step_button list" where
  "Stepper w = map (\<lambda>(index, step, label, description).
     \<lparr>sb_label = label, sb_description = description,
      sb_aria = ''Step '' @ show_nat (index + 1) @ '': '' @ label,
      sb_checked = List.member (completedSteps w) index, sb_number = index + 1,
      sb_current = (index = currentStepIndex w), sb_disabled = (\<not> isClickable w index)\<rparr>)
   (enumerate 0 wizardSteps)"

section \<open>Figures beside the forms\<close>

definition or_0 :: "jsval \<Rightarrow> jsval" where
  "or_0 v = (if js_truthy v then v else NumV 0)"

definition return_summary :: "jsval \<Rightarrow> (page_error + row) list" where
  "return_summary f =
     (if is_fixed f then [row ''Investor Return Summary'' [Inr ''Investors will receive their principal plus '',
        child (or_0 (get_prop f ''fixedReturnPercentage'')), Inr ''% fixed return at harvest completion.'']]
      else if get_prop f ''roiStructure'' = StrV ''revenue_share'' then [row ''Investor Return Summary'' [Inr ''Investors will receive '',
        child (or_0 (get_prop f ''revenueSharePercentage'')), Inr ''% of total harvest revenue, proportional to their investment.'']]
      else [row ''Investor Return Summary'' []])"

definition duration_box :: "view_env \<Rightarrow> jsval \<Rightarrow> (page_error + row) list" where
  "duration_box V f = (case calculateDuration (parse_date V) f of
       None \<Rightarrow> []
     | Some duration \<Rightarrow> if 0 < duration
         then [row ''Campaign Duration'' [Inr (show_int duration @ '' days''), Inr ''From '', day_text V (get_prop f ''startDate''),
           Inr '' to '', day_text V (get_prop f ''expectedHarvestDate'')]]
         else [])"

definition totalReleasePercentage :: "jsval \<Rightarrow> jsval" where
  "totalReleasePercentage ms =
     or_0 (fold (\<lambda>m sum. num_add sum (js_number (or_0 (get_prop m ''releasePercentage'')))) (elems ms) (NumV 0))"

definition isTotalValid :: "jsval \<Rightarrow> bool" where
  "isTotalValid ms = (case totalReleasePercentage ms of NumV x \<Rightarrow> \<bar>x - 100\<bar> < 1 / 100 | _ \<Rightarrow> False)"

definition total_box :: "jsval \<Rightarrow> (page_error + row) list" where
  "total_box f = (let ms = get_prop f ''milestones'' in
     row ''Total Release Percentage'' [Inr ''Must equal 100%'', fixed_text 1 (totalReleasePercentage ms), Inr ''%'']
     # (if isTotalValid ms then [] else [row [] [Inr ''Adjust milestone percentages to total exactly 100%'']]))"

definition configuration_box :: "view_env \<Rightarrow> jsval \<Rightarrow> (page_error + row) list" where
  "configuration_box V f =
     (let agents = get_prop f ''agentRequirements'';
          threshold = template V (get_prop agents ''multiSigThreshold'');
          count = get_prop agents ''requiredAgentCount'' in
      [row ''Stake Amount:'' [child (or_0 (get_prop agents ''minStakeAmount'')), Inr '' XLM''],
       row ''Required Agents:'' [child (if js_truthy count then count else NumV 1)],
       row ''Multi-Sig:'' [Inr (if js_truthy (get_prop agents ''multiSigRequired'')
         then ''Yes ('' @ threshold @ ''-of-'' @ template V count @ '')'' else ''No'')]])"

section \<open>The page\<close>

text \<open>
  A milestone has a button that removes it while there are more than three, and the page one that adds another while there
  are fewer than six.
\<close>

datatype content =
    FormPage "form_control list" "row list"
  | MilestonePage "(nat \<times> form_control list \<times> bool) list" "row list" bool
  | ReviewPage "row list" string bool

fun renderStep :: "view_env \<Rightarrow> (CampaignWizardState \<Rightarrow> bool) \<Rightarrow> CampaignWizardState \<Rightarrow> WizardStep \<Rightarrow> page_error + content" where
  "renderStep V valid w BasicInfo = Inr (FormPage (step_controls BasicInfo (ws_formData w)) [])"
| "renderStep V valid w FinancialTerms = and_then (all_of (return_summary (ws_formData w)))
     (\<lambda>rows. Inr (FormPage (step_controls FinancialTerms (ws_formData w)) rows))"
| "renderStep V valid w Timeline = and_then (all_of (duration_box V (ws_formData w)))
     (\<lambda>rows. Inr (FormPage (step_controls Timeline (ws_formData w)) rows))"
| "renderStep V valid w MilestoneDefinition = and_then (all_of (total_box (ws_formData w)))
     (\<lambda>rows. let n = length (milestones_of w) in
        Inr (MilestonePage (map (\<lambda>index. (index + 1, milestone_controls, 3 < n)) [0..<n]) rows (n < 6)))"
| "renderStep V valid w VerificationSetup = and_then (all_of (configuration_box V (ws_formData w)))
     (\<lambda>rows. Inr (FormPage (step_controls VerificationSetup (ws_formData w)) rows))"
| "renderStep V valid w ReviewSubmit = and_then (review V w)
     (\<lambda>rows. Inr (ReviewPage rows (if valid w then ''Campaign Validation Passed'' else ''Campaign Validation Failed'') (valid w)))"

record wizard_view =
  wv_indicator :: string
  wv_steps :: "step_button list"
  wv_content :: content
  wv_buttons :: "(string \<times> bool) list"

text \<open>The two buttons with the marks that disable them; the review has none.\<close>

definition navigation :: "CampaignWizardState \<Rightarrow> (string \<times> bool) list" where
  "navigation w =
     (let isFirstStep = (currentStepIndex w = 0); isLastStep = (currentStepIndex w = length wizardSteps - 1) in
      if ws_currentStep w \<noteq> ReviewSubmit
      then [(''Previous'', isFirstStep), (if isLastStep then ''Review'' else ''Next'', \<not> canProceed w)] else [])"

definition CampaignWizard :: "view_env \<Rightarrow> (int \<Rightarrow> string) \<Rightarrow> int \<Rightarrow> (CampaignWizardState \<Rightarrow> bool) \<Rightarrow> CampaignWizardState
    \<Rightarrow> page_error + wizard_view" where
  "CampaignWizard V clock now valid w =
     and_then (AutoSaveIndicator clock now (ws_isAutoSaving w) (ws_lastSaved w)) (\<lambda>indicator.
     and_then (renderStep V valid w (ws_currentStep w)) (\<lambda>content.
       Inr \<lparr>wv_indicator = indicator, wv_steps = Stepper w, wv_content = content, wv_buttons = navigation w\<rparr>))"

section \<open>Lemmas\<close>

lemma steps_in_order: "map fst wizardSteps = stepOrder"
  by (simp add: wizardSteps_def stepOrder_def)

text \<open>The label \<open>Review\<close> of the second button is never seen.\<close>

lemma always_next: "(''Review'', b) \<notin> set (navigation w)"
  by (cases "ws_currentStep w") (simp_all add: navigation_def Let_def currentStepIndex_def stepOrder_def wizardSteps_def)

lemma enabled_buttons:
  assumes "i < 6"
  shows "sb_disabled (Stepper w ! i) \<longleftrightarrow> \<not> i < currentStepIndex w" "sb_checked (Stepper w ! i) \<longleftrightarrow> i \<in> set (completedSteps w)"
    "sb_current (Stepper w ! i) \<longleftrightarrow> i = currentStepIndex w"
proof -
  have n: "i < length wizardSteps" using assms by (simp add: wizardSteps_def)
  then show "sb_checked (Stepper w ! i) \<longleftrightarrow> i \<in> set (completedSteps w)" "sb_current (Stepper w ! i) \<longleftrightarrow> i = currentStepIndex w"
    by (simp_all add: Stepper_def nth_enumerate_eq split: prod.split)
  show "sb_disabled (Stepper w ! i) \<longleftrightarrow> \<not> i < currentStepIndex w"
    using n by (auto simp: Stepper_def nth_enumerate_eq isClickable_def completedSteps_def split: prod.split)
qed

text \<open>The total the milestone page shows is the one its schema checks, as long as every share is a number.\<close>

lemma total_agrees:
  assumes "list_all (\<lambda>m. is_num (get_prop m ''releasePercentage'')) (elems ms)"
  shows "isTotalValid ms = sums_to_100 ms"
proof -
  have "(fold (\<lambda>m sum. num_add sum (js_number (or_0 (get_prop m ''releasePercentage'')))) xs (NumV a)
      = fold (\<lambda>m sum. num_add sum (js_number (get_prop m ''releasePercentage''))) xs (NumV a))
    \<and> is_num (fold (\<lambda>m sum. num_add sum (js_number (get_prop m ''releasePercentage''))) xs (NumV a))"
    if "list_all (\<lambda>m. is_num (get_prop m ''releasePercentage'')) xs" for xs a
    using that by (induction xs arbitrary: a) (auto simp: or_0_def elim!: is_num.elims)
  from this [OF assms, of 0] show ?thesis
    by (auto simp: isTotalValid_def sums_to_100_def totalReleasePercentage_def totalPercentage_def or_0_def elim!: is_num.elims)
qed

lemma iso_text: "toISOString t \<noteq> []"
  by (simp add: toISOString_def Let_def)

lemma restored_indicator:
  assumes "persist_library restore" and "ws_lastSaved w = DateV (Some t)" and "\<not> ws_isAutoSaving w0"
  shows "CampaignWizard V clock now valid (restore (partialize w) w0) = Inl TypeError"
  using assms iso_text [of t]
  by (simp add: CampaignWizard_def persist_library.restored [OF assms(1)] partialize_def AutoSaveIndicator_def and_then_def)

section \<open>Properties\<close>

text \<open>
  C27. Reloading the wizard after it has saved takes the page down. From every state a user can reach, the timers lead to
  one in which the time of the saving is shown, and a reload of the page then leads to one that cannot be rendered: the
  time comes back as a text, and the indicator asks it for its milliseconds. This holds at every step, at every time, and
  whatever the form contains.
\<close>

theorem saved_reload_fails:
  assumes "persist_library restore" and "reached restore w"
    and "s = setLastSaved (DateV (Some t)) (setAutoSaving False w)"
    and "r = restore (partialize s) (initialState (initialFormData start harvest))"
  shows "reached restore s \<and> AutoSaveIndicator clock now (ws_isAutoSaving s) (ws_lastSaved s) = Inr (formatLastSaved clock now t)
    \<and> reached restore r \<and> CampaignWizard V clock now' valid r = Inl TypeError"
proof -
  have s: "reached restore s" unfolding assms(3) using assms(2) by (rule reached.event) (rule saved)
  then have "reached restore r" unfolding assms(4) by (rule page_reload)
  moreover have "CampaignWizard V clock now' valid r = Inl TypeError"
    unfolding assms(4) by (rule restored_indicator [OF assms(1), of _ t]) (simp_all add: assms(3) setLastSaved_def initialState_def)
  ultimately show ?thesis using s by (simp add: assms(3) setLastSaved_def setAutoSaving_def AutoSaveIndicator_def)
qed

theorem saved_reload_fails_witness:
  "CampaignWizard demo_view show_int 9000 (\<lambda>w. True)
     (merge_restored (partialize (setLastSaved (DateV (Some 5000)) (setAutoSaving False second_step)))
       (initialState (initialFormData 0 0))) = Inl TypeError"
  using saved_reload_fails [OF merged.persist_library_axioms second_step_reached refl refl, of 5000 show_int 0 0 0 demo_view 9000 "\<lambda>w. True"]
  by blast

end
