(* ===== verification/Workflow_Builtin.thy ===== *)
theory Workflow_Builtin
  imports Complex_Main Workflow_Monitoring
begin

text \<open>
  The three workflows the service registers at start (src/Backend/src/workflow/examples): contract deployment, trade
  execution and the chain of AI jobs, each a list of step definitions whose code is a program over the engine's store.
  The log lines are left out; a compensation does nothing else.
\<close>

section \<open>What the steps use\<close>

text \<open>
  The clock and \<open>setTimeout\<close> are the engine's. \<open>be_random\<close> is \<open>Math.random\<close>, \<open>be_digits\<close> is \<open>toString\<close> of a number with a
  radix, \<open>be_num\<close> is a number that need not be whole as a value of a result, and \<open>be_negated\<close> is the unary minus on such
  values; a date in a result is stored as its text.
\<close>

record 's builtin_env =
  be_engine :: "'s engine"
  be_random :: "'s \<Rightarrow> rat \<times> 's"
  be_digits :: "nat \<Rightarrow> rat \<Rightarrow> string"
  be_num :: "rat \<Rightarrow> json"
  be_negated :: "json option \<Rightarrow> json"

definition randomE :: "'s builtin_env \<Rightarrow> ('s, rat) prog" where
  "randomE B = (\<lambda>s. case be_random B s of (r, t) \<Rightarrow> (Inr r, t))"

abbreviation waitB :: "'s builtin_env \<Rightarrow> int \<Rightarrow> ('s, unit) prog" where
  "waitB B ms \<equiv> delay (be_engine B) ms"

abbreviation dateE :: "'s builtin_env \<Rightarrow> ('s, json) prog" where
  "dateE B \<equiv> readE (\<lambda>s. JStr (toISOString (eng_now (be_engine B) s)))"

text \<open>\<open>v?.k\<close>, and \<open>context.metadata?.k\<close>.\<close>

fun jget :: "json option \<Rightarrow> string \<Rightarrow> json option" where
  "jget (Some (JObj ps)) k = map_of ps k"
| "jget _ k = None"

definition meta :: "workflow_context \<Rightarrow> string \<Rightarrow> json option" where
  "meta ctx k = (case ctx_metadata ctx of None \<Rightarrow> None | Some ps \<Rightarrow> map_of ps k)"

abbreviation input_prop :: "step_arg \<Rightarrow> string \<Rightarrow> json option" where
  "input_prop a k \<equiv> map_of (arg_props a) k"

definition or_default :: "json option \<Rightarrow> json \<Rightarrow> json" where
  "or_default v d = (if truthy_result v then the v else d)"

text \<open>The text of a value in a template string.\<close>

primrec js_text_val :: "json \<Rightarrow> string" where
  "js_text_val JNull = ''null''"
| "js_text_val (JBool b) = (if b then ''true'' else ''false'')"
| "js_text_val (JNum n) = show_int n"
| "js_text_val (JStr x) = x"
| "js_text_val (JArr vs) = js_join '','' (map (\<lambda>(v, t). if v = JNull then [] else t) (zip vs (map js_text_val vs)))"
| "js_text_val (JObj ps) = ''[object Object]''"

definition js_text :: "json option \<Rightarrow> string" where
  "js_text v = (case v of None \<Rightarrow> ''undefined'' | Some x \<Rightarrow> js_text_val x)"

definition random_text :: "'s builtin_env \<Rightarrow> nat \<Rightarrow> nat \<Rightarrow> ('s, string) prog" where
  "random_text B radix n = bindE (randomE B) (\<lambda>r. returnE (take n (drop 2 (be_digits B radix r))))"

text \<open>The compensations only write log lines.\<close>

definition logged_compensation :: "step_arg \<Rightarrow> json option \<Rightarrow> workflow_context \<Rightarrow> ('s, json option) prog" where
  "logged_compensation input output context = returnE None"

definition builtin_step ::
    "string \<Rightarrow> nat \<Rightarrow> (step_arg \<Rightarrow> workflow_context \<Rightarrow> ('s, jobj) prog) \<Rightarrow> 's StepDefinition" where
  "builtin_step name maxRetries execute = \<lparr>sd_name = name,
     sd_execute = (\<lambda>input context. bindE (execute input context) (\<lambda>result. returnE (Some (JObj result)))),
     sd_compensate = Some logged_compensation, sd_isIdempotent = True, sd_maxRetries = Some maxRetries, sd_config = None\<rparr>"

section \<open>Contract deployment\<close>

definition validate_contract_code :: "'s builtin_env \<Rightarrow> step_arg \<Rightarrow> workflow_context \<Rightarrow> ('s, jobj) prog" where
  "validate_contract_code B input context =
     (if \<not> truthy_result (input_prop input ''contractCode'') \<or> \<not> truthy_result (input_prop input ''contractName'')
      then throwE (Error ''Contract code and name are required'')
      else seqE (waitB B 1000) (bindE (dateE B) (\<lambda>now. returnE
        ([(''isValid'', JBool True), (''validatedAt'', now)] @ opt_field ''contractName'' (input_prop input ''contractName'') @
         [(''bytecode'', JStr ''0x1234567890abcdef'')]))))"

definition deploy_contract :: "'s builtin_env \<Rightarrow> step_arg \<Rightarrow> workflow_context \<Rightarrow> ('s, jobj) prog" where
  "deploy_contract B input context =
     (if \<not> truthy_result (jget (meta context ''validate_contract_code'') ''isValid'')
      then throwE (Error ''Contract validation failed'')
      else seqE (waitB B 2000) (bindE (random_text B 16 40) (\<lambda>address. bindE (random_text B 16 64) (\<lambda>hash. bindE (dateE B) (\<lambda>now.
        returnE [(''contractAddress'', JStr (''0x'' @ address)), (''deploymentHash'', JStr (''0x'' @ hash)),
          (''deployedAt'', now), (''gasUsed'', JNum 1500000)])))))"

definition verify_contract :: "'s builtin_env \<Rightarrow> step_arg \<Rightarrow> workflow_context \<Rightarrow> ('s, jobj) prog" where
  "verify_contract B input context =
     (let address = jget (meta context ''deploy_contract'') ''contractAddress'' in
      if \<not> truthy_result address then throwE (Error ''Contract deployment failed'')
      else seqE (waitB B 1500) (bindE (dateE B) (\<lambda>now. returnE
        (opt_field ''contractAddress'' address @ [(''verificationStatus'', JStr ''verified''), (''verifiedAt'', now),
          (''explorerUrl'', JStr (''https://etherscan.io/address/'' @ js_text address))]))))"

definition index_contract :: "'s builtin_env \<Rightarrow> step_arg \<Rightarrow> workflow_context \<Rightarrow> ('s, jobj) prog" where
  "index_contract B input context =
     (let address = jget (meta context ''verify_contract'') ''contractAddress'' in
      if \<not> truthy_result address then throwE (Error ''Contract verification failed'')
      else seqE (waitB B 1000) (bindE (dateE B) (\<lambda>now. returnE
        (opt_field ''contractAddress'' address @ [(''indexedAt'', now), (''indexingStatus'', JStr ''completed''),
          (''abiHash'', JStr ''0xabcdef1234567890'')]))))"

definition contractDeploymentWorkflow :: "'s builtin_env \<Rightarrow> 's WorkflowDefinition" where
  "contractDeploymentWorkflow B = \<lparr>wd_type = ''contract_deployment'',
     wd_steps = [builtin_step ''validate_contract_code'' 2 (validate_contract_code B),
       builtin_step ''deploy_contract'' 3 (deploy_contract B), builtin_step ''verify_contract'' 3 (verify_contract B),
       builtin_step ''index_contract'' 2 (index_contract B)],
     wd_maxRetries = Some 3, wd_requiresCompensation = Some True\<rparr>"

section \<open>Trade execution\<close>

text \<open>An amount is a number; what is not one compares as \<open>NaN\<close>.\<close>

definition amount_of :: "json option \<Rightarrow> rat option" where
  "amount_of v = (case v of Some (JNum n) \<Rightarrow> Some (of_int n) | _ \<Rightarrow> None)"

definition num_or_null :: "'s builtin_env \<Rightarrow> rat option \<Rightarrow> json" where
  "num_or_null B x = (case x of None \<Rightarrow> JNull | Some y \<Rightarrow> be_num B y)"

definition validate_trade_params :: "'s builtin_env \<Rightarrow> step_arg \<Rightarrow> workflow_context \<Rightarrow> ('s, jobj) prog" where
  "validate_trade_params B input context =
     (let amount = input_prop input ''amount'' in
      if \<not> truthy_result (input_prop input ''tokenA'') \<or> \<not> truthy_result (input_prop input ''tokenB'') \<or> \<not> truthy_result amount
      then throwE (Error ''Missing required trade parameters'')
      else if (case amount_of amount of None \<Rightarrow> False | Some x \<Rightarrow> x \<le> 0)
      then throwE (Error ''Trade amount must be positive'')
      else seqE (waitB B 500) (bindE (dateE B) (\<lambda>now. returnE
        [(''isValid'', JBool True), (''validatedAt'', now),
         (''expectedOutput'', num_or_null B (map_option (\<lambda>x. x * (99 / 100)) (amount_of amount))), (''gasEstimate'', JNum 150000)])))"

definition check_balance :: "'s builtin_env \<Rightarrow> step_arg \<Rightarrow> workflow_context \<Rightarrow> ('s, jobj) prog" where
  "check_balance B input context =
     seqE (waitB B 800) (bindE (randomE B) (\<lambda>r.
       let userBalance = r * 1000; amount = input_prop input ''amount'' in
       if (case amount_of amount of None \<Rightarrow> False | Some x \<Rightarrow> userBalance < x)
       then throwE (Error (''Insufficient balance. Required: '' @ js_text amount @ '', Available: '' @ be_digits B 10 userBalance))
       else bindE (dateE B) (\<lambda>now. returnE
         [(''balance'', be_num B userBalance), (''sufficient'', JBool True), (''checkedAt'', now)])))"

definition execute_trade :: "'s builtin_env \<Rightarrow> step_arg \<Rightarrow> workflow_context \<Rightarrow> ('s, jobj) prog" where
  "execute_trade B input context =
     seqE (waitB B 2000) (bindE (random_text B 16 64) (\<lambda>hash. bindE (randomE B) (\<lambda>r.
       let slippage = (if truthy_result (input_prop input ''slippage'') then amount_of (input_prop input ''slippage'') else Some (1 / 100));
           executedAmount = (case (amount_of (input_prop input ''amount''), slippage) of
             (Some x, Some p) \<Rightarrow> Some (x * (1 - p * r)) | _ \<Rightarrow> None);
           receivedAmount = map_option (\<lambda>x. x * (98 / 100)) executedAmount in
       bindE (dateE B) (\<lambda>now. returnE
         [(''tradeHash'', JStr (''0x'' @ hash)), (''executedAmount'', num_or_null B executedAmount),
          (''receivedAmount'', num_or_null B receivedAmount), (''executedAt'', now), (''gasUsed'', JNum 120000),
          (''priceImpact'', be_num B (2 / 100))]))))"

definition confirm_transaction :: "'s builtin_env \<Rightarrow> step_arg \<Rightarrow> workflow_context \<Rightarrow> ('s, jobj) prog" where
  "confirm_transaction B input context =
     (let tradeHash = jget (meta context ''execute_trade'') ''tradeHash'' in
      if \<not> truthy_result tradeHash then throwE (Error ''Trade execution failed'')
      else seqE (waitB B 1500) (bindE (randomE B) (\<lambda>r. bindE (random_text B 16 64) (\<lambda>hash. bindE (dateE B) (\<lambda>now. returnE
        (opt_field ''tradeHash'' tradeHash @ [(''blockNumber'', JNum (\<lfloor>r * 1000000\<rfloor> + 18000000)),
          (''blockHash'', JStr (''0x'' @ hash)), (''confirmedAt'', now), (''confirmations'', JNum 1)]))))))"

definition update_portfolio :: "'s builtin_env \<Rightarrow> step_arg \<Rightarrow> workflow_context \<Rightarrow> ('s, jobj) prog" where
  "update_portfolio B input context =
     (let tradeOutput = meta context ''execute_trade''; confirmationOutput = meta context ''confirm_transaction'' in
      if \<not> truthy_result (jget tradeOutput ''tradeHash'') \<or> \<not> truthy_result (jget confirmationOutput ''blockNumber'')
      then throwE (Error ''Trade not confirmed'')
      else seqE (waitB B 1000) (bindE (dateE B) (\<lambda>now. returnE
        ([(''portfolioId'', JStr (''portfolio_'' @ or_str (ctx_userId context) ''anonymous'')), (''updatedAt'', now),
          (''tokenABalance'', be_negated B (jget tradeOutput ''executedAmount''))] @
         opt_field ''tokenBBalance'' (jget tradeOutput ''receivedAmount'') @
         opt_field ''lastTradeHash'' (jget tradeOutput ''tradeHash'')))))"

definition tradeExecutionWorkflow :: "'s builtin_env \<Rightarrow> 's WorkflowDefinition" where
  "tradeExecutionWorkflow B = \<lparr>wd_type = ''trade_execution'',
     wd_steps = [builtin_step ''validate_trade_params'' 2 (validate_trade_params B),
       builtin_step ''check_balance'' 2 (check_balance B), builtin_step ''execute_trade'' 3 (execute_trade B),
       builtin_step ''confirm_transaction'' 3 (confirm_transaction B),
       builtin_step ''update_portfolio'' 2 (update_portfolio B)],
     wd_maxRetries = Some 3, wd_requiresCompensation = Some True\<rparr>"

section \<open>The chain of AI jobs\<close>

definition process_stt :: "'s builtin_env \<Rightarrow> step_arg \<Rightarrow> workflow_context \<Rightarrow> ('s, jobj) prog" where
  "process_stt B input context =
     (if \<not> truthy_result (input_prop input ''audioUrl'') then throwE (Error ''Audio URL is required for STT processing'')
      else seqE (waitB B 2000) (bindE (readE (eng_now (be_engine B))) (\<lambda>t. bindE (random_text B 36 9) (\<lambda>r. bindE (dateE B) (\<lambda>now.
        returnE ([(''jobId'', JStr (''stt_'' @ show_int t @ ''_'' @ r))] @ opt_field ''audioUrl'' (input_prop input ''audioUrl'') @
          [(''language'', or_default (input_prop input ''language'') (JStr ''en-US'')), (''status'', JStr ''processing''),
           (''queuedAt'', now)]))))))"

text \<open>
  The loop of the three waiting steps: \<open>n\<close> polls are left, each waits ten seconds and finds the job complete when the random
  number is above the bound.
\<close>

fun poll :: "'s builtin_env \<Rightarrow> rat \<Rightarrow> string \<Rightarrow> ('s, jobj) prog \<Rightarrow> nat \<Rightarrow> ('s, jobj) prog" where
  "poll B bound timeout result 0 = throwE (Error timeout)"
| "poll B bound timeout result (Suc n) =
     seqE (waitB B 10000) (bindE (randomE B) (\<lambda>r. if bound < r then result else poll B bound timeout result n))"

definition await_stt_completion :: "'s builtin_env \<Rightarrow> step_arg \<Rightarrow> workflow_context \<Rightarrow> ('s, jobj) prog" where
  "await_stt_completion B input context =
     (let jobId = jget (meta context ''process_stt'') ''jobId'' in
      if \<not> truthy_result jobId then throwE (Error ''STT job not found'')
      else poll B (3 / 10) ''STT processing timed out'' (bindE (dateE B) (\<lambda>now. returnE
        (opt_field ''jobId'' jobId @
         [(''transcribedText'', JStr ''This is the transcribed text from the audio input.''),
          (''confidence'', be_num B (95 / 100)), (''completedAt'', now), (''wordCount'', JNum 8)]))) 30)"

definition process_llm :: "'s builtin_env \<Rightarrow> step_arg \<Rightarrow> workflow_context \<Rightarrow> ('s, jobj) prog" where
  "process_llm B input context =
     (let transcribedText = jget (meta context ''await_stt_completion'') ''transcribedText'' in
      if \<not> truthy_result transcribedText then throwE (Error ''Transcribed text not available'')
      else seqE (waitB B 3000) (bindE (readE (eng_now (be_engine B))) (\<lambda>t. bindE (random_text B 36 9) (\<lambda>r. bindE (dateE B) (\<lambda>now.
        returnE ([(''jobId'', JStr (''llm_'' @ show_int t @ ''_'' @ r))] @ opt_field ''inputText'' transcribedText @
          [(''promptTemplate'', or_default (input_prop input ''promptTemplate'') (JStr ''You are a helpful assistant.'')),
           (''model'', or_default (input_prop input ''model'') (JStr ''gpt-4'')), (''status'', JStr ''processing''),
           (''queuedAt'', now)]))))))"

definition await_llm_completion :: "'s builtin_env \<Rightarrow> step_arg \<Rightarrow> workflow_context \<Rightarrow> ('s, jobj) prog" where
  "await_llm_completion B input context =
     (let llmOutput = meta context ''process_llm'' in
      if \<not> truthy_result (jget llmOutput ''jobId'') then throwE (Error ''LLM job not found'')
      else poll B (2 / 10) ''LLM processing timed out'' (bindE (dateE B) (\<lambda>now. returnE
        (opt_field ''jobId'' (jget llmOutput ''jobId'') @
         [(''responseText'', JStr ''This is the AI-generated response to your query.''), (''tokensUsed'', JNum 42),
          (''completedAt'', now)] @ opt_field ''model'' (jget llmOutput ''model'')))) 60)"

definition process_tts :: "'s builtin_env \<Rightarrow> step_arg \<Rightarrow> workflow_context \<Rightarrow> ('s, jobj) prog" where
  "process_tts B input context =
     (let responseText = jget (meta context ''await_llm_completion'') ''responseText'' in
      if \<not> truthy_result responseText then throwE (Error ''Response text not available for TTS'')
      else seqE (waitB B 2500) (bindE (readE (eng_now (be_engine B))) (\<lambda>t. bindE (random_text B 36 9) (\<lambda>r. bindE (dateE B) (\<lambda>now.
        returnE ([(''jobId'', JStr (''tts_'' @ show_int t @ ''_'' @ r))] @ opt_field ''inputText'' responseText @
          [(''voice'', or_default (input_prop input ''voice'') (JStr ''alloy'')),
           (''speed'', or_default (input_prop input ''speed'') (JNum 1)), (''status'', JStr ''processing''),
           (''queuedAt'', now)]))))))"

definition await_tts_completion :: "'s builtin_env \<Rightarrow> step_arg \<Rightarrow> workflow_context \<Rightarrow> ('s, jobj) prog" where
  "await_tts_completion B input context =
     (let ttsOutput = meta context ''process_tts'' in
      if \<not> truthy_result (jget ttsOutput ''jobId'') then throwE (Error ''TTS job not found'')
      else poll B (25 / 100) ''TTS processing timed out'' (bindE (readE (eng_now (be_engine B))) (\<lambda>t. bindE (dateE B) (\<lambda>now. returnE
        (opt_field ''jobId'' (jget ttsOutput ''jobId'') @
         [(''audioUrl'', JStr (''/uploads/tts/response_'' @ show_int t @ ''.mp3'')), (''duration'', be_num B (35 / 10)),
          (''fileSize'', JNum 56789), (''completedAt'', now)] @ opt_field ''voice'' (jget ttsOutput ''voice''))))) 30)"

definition deliver_final_result :: "'s builtin_env \<Rightarrow> step_arg \<Rightarrow> workflow_context \<Rightarrow> ('s, jobj) prog" where
  "deliver_final_result B input context =
     (let ttsOutput = meta context ''await_tts_completion'' in
      if \<not> truthy_result (jget ttsOutput ''audioUrl'') then throwE (Error ''Final audio result not available'')
      else seqE (waitB B 500) (bindE (dateE B) (\<lambda>now. returnE
        (opt_field ''audioUrl'' (jget ttsOutput ''audioUrl'') @ opt_field ''duration'' (jget ttsOutput ''duration'') @
         [(''deliveredAt'', now), (''deliveryMethod'', JStr ''websocket'')] @
         opt_field ''userId'' (map_option JStr (ctx_userId context))))))"

definition aiJobChainWorkflow :: "'s builtin_env \<Rightarrow> 's WorkflowDefinition" where
  "aiJobChainWorkflow B = \<lparr>wd_type = ''ai_job_chain'',
     wd_steps = [builtin_step ''process_stt'' 2 (process_stt B), builtin_step ''await_stt_completion'' 5 (await_stt_completion B),
       builtin_step ''process_llm'' 3 (process_llm B), builtin_step ''await_llm_completion'' 5 (await_llm_completion B),
       builtin_step ''process_tts'' 2 (process_tts B), builtin_step ''await_tts_completion'' 5 (await_tts_completion B),
       builtin_step ''deliver_final_result'' 1 (deliver_final_result B)],
     wd_maxRetries = Some 3, wd_requiresCompensation = Some True\<rparr>"

text \<open>What the service knows after its module started.\<close>

definition builtin_definitions :: "'s builtin_env \<Rightarrow> 's definitions" where
  "builtin_definitions B =
     registerBuiltIns (contractDeploymentWorkflow B) (tradeExecutionWorkflow B) (aiJobChainWorkflow B) (\<lambda>_. None)"

section \<open>Lemmas\<close>

lemma wp_forE_stuck:
  assumes "x \<in> set xs" and f: "\<And>p. wp (f x) (\<lambda>_ _. False) (\<lambda>_ _. True) p"
  shows "wp (forE xs f) (\<lambda>_ _. False) (\<lambda>_ _. True) p"
proof -
  obtain ys zs where xs: "xs = ys @ x # zs" using assms(1) by (auto dest: split_list)
  have "wp (f x) (\<lambda>_. wp (forE zs f) (\<lambda>_ _. False) (\<lambda>_ _. True)) (\<lambda>_ _. True) q" for q
    by (rule wp_mono [OF f]) simp_all
  then have "wp (forE (ys @ x # zs) f) (\<lambda>_ _. False) (\<lambda>_ _. True) p"
  proof (induction ys arbitrary: p)
    case (Cons z zs')
    then show ?case
      by (simp add: wp_simps) (rule wp_mono [OF wp_true [THEN fun_cong, THEN iffD2, OF TrueI]], simp_all)
  qed (simp add: wp_simps)
  then show ?thesis by (simp add: xs)
qed

text \<open>The first step of each workflow asks for a property of its input, and a promise has none.\<close>

lemma first_rejects:
  assumes "builtin_definitions B ty = Some d"
  shows "\<exists>sd sds. wd_steps d = sd # sds \<and> (\<forall>r c s. isl (fst (sd_execute sd (ArgPromise r) c s)))"
proof -
  have "d \<in> {contractDeploymentWorkflow B, tradeExecutionWorkflow B, aiJobChainWorkflow B}"
    using assms by (auto simp: builtin_definitions_def registerBuiltIns_def registerWorkflowDefinition_def split: if_splits)
  then show ?thesis
    by (auto simp: contractDeploymentWorkflow_def tradeExecutionWorkflow_def aiJobChainWorkflow_def builtin_step_def
        validate_contract_code_def validate_trade_params_def process_stt_def bindE_def throwE_def Let_def)
qed

context engine_env
begin

lemma first_step_stuck:
  assumes "builtin_definitions B ty = Some d" and "stab (fst p) (st_id x) = Some x" and "st_workflowId x = wf_id (snd p)"
    and "st_stepIndex x = 0"
  shows "wp (executeSteps E d) (\<lambda>_ _. False) (\<lambda>_ _. True) p"
proof -
  obtain sd sds where sd: "wd_steps d = sd # sds" "\<And>r c s. isl (fst (sd_execute sd (ArgPromise r) c s))"
    using first_rejects [OF assms(1)] by blast
  have stuck: "wp (executeStep E w (nth_opt (wd_steps d) (st_stepIndex x))) (\<lambda>_ _. False) (\<lambda>_ _. True) q" for w q
    using executeStep_rejects [OF sd(2)] by (simp add: assms(4) sd(1) nth_opt_def)
  show ?thesis
    unfolding executeSteps_def using stuck
    by (simp only: wp_simps, intro wp_forE_stuck [where x = x])
      (simp_all add: S.find_memb assms wp_simps)
qed

lemma builtin_run_fails:
  assumes d: "builtin_definitions B (wf_type (snd p)) = Some d" and run: "canTransitionWorkflow (wf_state (snd p)) WRUNNING"
    and x: "stab (fst p) (st_id x) = Some x" "st_workflowId x = wf_id (snd p)" "st_stepIndex x = 0"
  shows "wp (executeWorkflow E (builtin_definitions B)) (\<lambda>_ _. False) (\<lambda>e. workflow_settled wtab (snd p) (Some e)) p"
proof -
  have "wp (executeWorkflow_try E d) (\<lambda>_ _. False)
      (\<lambda>e. wp (executeWorkflow_catch E e) (\<lambda>_ _. False) (\<lambda>_ _. True)) q"
    if "stab (fst q) = stab (fst p)" "wf_id (snd q) = wf_id (snd p)" for q
  proof -
    have "wp (executeSteps E d) (\<lambda>_ _. False) (\<lambda>_ _. True) q"
      by (rule first_step_stuck [OF d]) (use x that in simp_all)
    then show ?thesis
      by (simp add: executeWorkflow_try_def executeWorkflow_catch_def wp_simps)
  qed
  then have "wp (executeWorkflow E (builtin_definitions B)) (\<lambda>_ _. False) (\<lambda>_ _. True) p"
    using d run by (simp add: executeWorkflow_def getWorkflowDefinition_def wp_simps Let_def)
  moreover have "wp (executeWorkflow E (builtin_definitions B)) (\<lambda>_. workflow_settled wtab (snd p) None)
      (\<lambda>e. workflow_settled wtab (snd p) (Some e)) p"
    by (rule executeWorkflow_settles_wp [OF _ run]) (use d in \<open>simp add: getWorkflowDefinition_def\<close>)
  ultimately have "wp (executeWorkflow E (builtin_definitions B))
      (\<lambda>v t. False \<and> workflow_settled wtab (snd p) None t) (\<lambda>e t. True \<and> workflow_settled wtab (snd p) (Some e) t) p"
    by (simp only: wp_conj)
  then show ?thesis by simp
qed

text \<open>Inserting the steps of a definition leaves a first step in the table.\<close>

lemma inserted_first_step:
  "wp (forE (enumerate 0 (sd # sds)) (\<lambda>(index, stepDef). ignoreE (repo_insert (eng_steps E) (newStep i index stepDef))))
     (\<lambda>_ t. wtab t = wtab s \<and> (\<exists>x. stab t (st_id x) = Some x \<and> st_workflowId x = i \<and> st_stepIndex x = 0))
     (\<lambda>_ _. False) s"
proof -
  let ?I = "\<lambda>t. wtab t = wtab s \<and> (\<exists>x. stab t (st_id x) = Some x \<and> st_workflowId x = i \<and> st_stepIndex x = 0)"
  have keep: "?I (fin (repo_insert (eng_steps E) y) t)" if I: "?I t" for y t
  proof -
    obtain j u where ju: "res (repo_insert (eng_steps E) y) t = (j, u)" by fastforce
    from I obtain x where x: "stab t (st_id x) = Some x" "st_workflowId x = i" "st_stepIndex x = 0" by blast
    with S.insert_fresh [OF ju] have "st_id x \<noteq> j" by auto
    with I x S.insert_tab [OF ju] show ?thesis by (auto intro!: exI [of _ x])
  qed
  have "wp (forE xs (\<lambda>(index, stepDef). ignoreE (repo_insert (eng_steps E) (newStep i index stepDef)))) (\<lambda>_. ?I) (\<lambda>_ _. False) t"
    if "?I t" for xs t
    using that
  proof (induction xs arbitrary: t)
    case (Cons y ys)
    then show ?case by (cases y) (simp only: forE.simps wp_simps prod.case, intro Cons.IH keep)
  qed (simp add: wp_simps)
  note rest = this
  obtain j u where ju: "res (repo_insert (eng_steps E) (newStep i 0 sd)) s = (j, u)" by fastforce
  have "?I (fin (repo_insert (eng_steps E) (newStep i 0 sd)) s)"
    using S.insert_tab [OF ju] by (auto intro!: exI [of _ "st_gen j u (newStep i 0 sd)"] simp: st_gen_def newStep_def)
  then show ?thesis
    by (simp only: enumerate_simps forE.simps wp_simps prod.case) (rule rest)
qed

lemma startWorkflow_builtin_wp:
  assumes d: "builtin_definitions B ty = Some d"
    and k: "k = generateWorkflowIdempotencyKey (eng_sha256 E) (eng_now E s) ty (or_str u ''anonymous'') inp c"
    and new: "\<And>i w. wtab s i = Some w \<Longrightarrow> wf_idempotencyKey w \<noteq> k"
  shows "wp (startWorkflow E (builtin_definitions B) ty inp u wa c) (\<lambda>_ _. False)
    (\<lambda>e t. \<exists>i w. wtab s i = None \<and> wtab t i = Some w \<and> wf_state w = WFAILED \<and> wf_failureReason w = Some (exn_message e)) s"
proof -
  obtain sd sds where sd: "wd_steps d = sd # sds" using first_rejects [OF d] by blast
  let ?new = "newWorkflow d k ty inp u wa c"
  let ?X = "\<lambda>e t. \<exists>i w. wtab s i = None \<and> wtab t i = Some w \<and> wf_state w = WFAILED \<and> wf_failureReason w = Some (exn_message e)"
  obtain i t where it: "res (repo_insert (eng_workflows E) ?new) s = (i, t)" by fastforce
  have i: "wtab s i = None" using W.insert_fresh [OF it] by simp
  have none: "res (repo_findOne (eng_workflows E) (\<lambda>w. wf_idempotencyKey w = k)) s = None"
    by (rule W.findOne_absent) (use new in blast)
  have run: "wp (executeWorkflow E (builtin_definitions B)) (\<lambda>_ p. False) (\<lambda>e p. ?X e (fst p)) (t', wf_gen i t ?new)"
    if "stab t' (st_id x) = Some x" "st_workflowId x = i" "st_stepIndex x = 0" for t' x
  proof (rule wp_mono [OF builtin_run_fails [of B _ d x]])
    fix e q
    assume "workflow_settled wtab (snd (t', wf_gen i t ?new)) (Some e) q"
    then show "?X e (fst q)" using i by (auto simp: workflow_settled_def wf_gen_def)
  qed (use d that in \<open>auto simp: wf_gen_def newWorkflow_def canTransitionWorkflow_def\<close>)
  have "wp (forE (enumerate 0 (wd_steps d)) (\<lambda>(index, stepDef).
           ignoreE (repo_insert (eng_steps E) (newStep i index stepDef))))
       (\<lambda>_ t'. wp (executeWorkflow E (builtin_definitions B)) (\<lambda>_ p. False) (\<lambda>e p. ?X e (fst p)) (t', wf_gen i t ?new))
       ?X (fin (repo_insert (eng_workflows E) ?new) s)"
    unfolding sd
  proof (rule wp_mono [OF inserted_first_step], goal_cases)
    case (1 v t')
    then obtain x where "stab t' (st_id x) = Some x" "st_workflowId x = i" "st_stepIndex x = 0" by blast
    then show ?case by (rule run)
  qed simp
  with d it none k show ?thesis
    by (simp add: startWorkflow_def getWorkflowDefinition_def wp_simps Let_def)
qed

end

section \<open>Properties\<close>

text \<open>
  C19. No built-in workflow ever succeeds. Whatever the input, the user and the context are, starting a workflow of one of the
  three types for a new key throws, and the new row is left failed with the message of that error: the first step reads its
  parameters from the promise it is handed instead of the input, and finds none.
\<close>

theorem builtin_workflows_fail:
  assumes "engine_env E wtab stab" and "ty \<in> {''contract_deployment'', ''trade_execution'', ''ai_job_chain''}"
    and "\<And>i w. wtab s i = Some w \<Longrightarrow> wf_idempotencyKey w \<noteq>
      generateWorkflowIdempotencyKey (eng_sha256 E) (eng_now E s) ty (or_str u ''anonymous'') inp c"
  shows "\<exists>e s' i w. startWorkflow E (builtin_definitions B) ty inp u wa c s = (Inl e, s')
    \<and> wtab s i = None \<and> wtab s' i = Some w \<and> wf_state w = WFAILED \<and> wf_failureReason w = Some (exn_message e)"
proof -
  obtain d where "builtin_definitions B ty = Some d"
    using assms(2) by (auto simp: builtin_definitions_def registerBuiltIns_def registerWorkflowDefinition_def
        contractDeploymentWorkflow_def tradeExecutionWorkflow_def aiJobChainWorkflow_def)
  then have "wp (startWorkflow E (builtin_definitions B) ty inp u wa c) (\<lambda>_ _. False)
    (\<lambda>e t. \<exists>i w. wtab s i = None \<and> wtab t i = Some w \<and> wf_state w = WFAILED \<and> wf_failureReason w = Some (exn_message e)) s"
    by (rule engine_env.startWorkflow_builtin_wp [OF assms(1) _ refl]) (rule assms(3))
  then show ?thesis by (simp only: wp_exn) blast
qed

definition demo_builtin :: "mem_store builtin_env" where
  "demo_builtin = \<lparr>be_engine = mem_engine, be_random = (\<lambda>s. (1 / 4, s)), be_digits = (\<lambda>radix r. ''0.25''),
     be_num = (\<lambda>x. JNum \<lfloor>x\<rfloor>), be_negated = (\<lambda>v. JNull)\<rparr>"

definition empty_store :: mem_store where
  "empty_store = \<lparr>ms_workflows = [], ms_steps = [], ms_clock = 0\<rparr>"

theorem builtin_workflows_fail_witness:
  "\<exists>e s' i w. startWorkflow mem_engine (builtin_definitions demo_builtin) ''trade_execution''
        [(''tokenA'', JStr ''XLM''), (''tokenB'', JStr ''USDC''), (''amount'', JNum 5)] (Some ''u1'') None None empty_store = (Inl e, s')
    \<and> mem_wtab empty_store i = None \<and> mem_wtab s' i = Some w \<and> wf_state w = WFAILED
    \<and> wf_failureReason w = Some (exn_message e)"
  by (rule builtin_workflows_fail [OF mem_engine_env]) (simp_all add: empty_store_def mem_tab_def)

text \<open>
  A waiting step polls at most as often as it may and is exact about its time: it returns after some number of polls
  between one and the limit, or throws its time-out after all of them, and the clock has advanced by ten seconds for each
  poll made.
\<close>

theorem polling_bounded:
  assumes "\<And>ms s. eng_now (be_engine B) (eng_delay (be_engine B) ms s) = eng_now (be_engine B) s + ms"
    and "\<And>s. eng_now (be_engine B) (snd (be_random B s)) = eng_now (be_engine B) s"
    and "\<And>s. \<exists>v t. result s = (Inr v, t) \<and> eng_now (be_engine B) t = eng_now (be_engine B) s"
  shows "case poll B bound timeout result n s of
      (Inr v, t) \<Rightarrow> (\<exists>k\<ge>1. k \<le> n \<and> eng_now (be_engine B) t = eng_now (be_engine B) s + 10000 * int k)
    | (Inl e, t) \<Rightarrow> e = Error timeout \<and> eng_now (be_engine B) t = eng_now (be_engine B) s + 10000 * int n"
proof (induction n arbitrary: s)
  case 0
  then show ?case by (simp add: throwE_def)
next
  case (Suc n)
  let ?now = "eng_now (be_engine B)"
  obtain r t where r: "be_random B (eng_delay (be_engine B) 10000 s) = (r, t)" by fastforce
  with assms(2) [of "eng_delay (be_engine B) 10000 s"] have t: "?now t = ?now s + 10000" by (simp add: assms(1))
  have run: "poll B bound timeout result (Suc n) s = (if bound < r then result t else poll B bound timeout result n t)"
    by (simp add: seqE_def bindE_def delay_def randomE_def r)
  show ?case
  proof (cases "bound < r")
    case True
    with assms(3) [of t] run t show ?thesis by (auto intro!: exI [of _ 1])
  next
    case False
    obtain r' t' where end_: "poll B bound timeout result n t = (r', t')" by fastforce
    show ?thesis
    proof (cases r')
      case (Inl e)
      with Suc.IH [of t] end_ run t False show ?thesis by simp
    next
      case (Inr v)
      with Suc.IH [of t] end_ obtain k where "k \<ge> 1" "k \<le> n" "?now t' = ?now t + 10000 * int k" by auto
      with Inr end_ run t False show ?thesis by (auto intro!: exI [of _ "Suc k"])
    qed
  qed
qed

theorem polling_bounded_witness:
  "case poll demo_builtin (3 / 10) ''STT processing timed out'' (returnE []) 30 empty_store of
      (Inr v, t) \<Rightarrow> False
    | (Inl e, t) \<Rightarrow> e = Error ''STT processing timed out'' \<and> eng_now mem_engine t = 300000"
proof -
  have never: "fst (poll demo_builtin (3 / 10) m (returnE []) n s) = Inl (Error m)" for m n s
    by (induction n arbitrary: s) (simp_all add: throwE_def seqE_def bindE_def delay_def randomE_def demo_builtin_def)
  have "case poll demo_builtin (3 / 10) ''STT processing timed out'' (returnE []) 30 empty_store of
      (Inr v, t) \<Rightarrow> (\<exists>k\<ge>1. k \<le> 30 \<and> eng_now (be_engine demo_builtin) t = eng_now (be_engine demo_builtin) empty_store + 10000 * int k)
    | (Inl e, t) \<Rightarrow> e = Error ''STT processing timed out'' \<and>
        eng_now (be_engine demo_builtin) t = eng_now (be_engine demo_builtin) empty_store + 10000 * int 30"
    by (rule polling_bounded) (simp_all add: demo_builtin_def mem_engine_def returnE_def)
  then show ?thesis
    using never [of "''STT processing timed out''" 30 empty_store]
    by (auto simp: demo_builtin_def mem_engine_def empty_store_def split: prod.splits sum.splits)
qed

end
