(* ===== verification/Metrics.thy ===== *)
theory Metrics
  imports Complex_Main Js_Json
begin

text \<open>
  \<open>MetricsService\<close> (src/Backend/src/observability/services/metrics.service.ts): the metrics it declares to the Prometheus
  client and the calls its methods make. The client is a library; what a method does is the list of the calls it makes.
\<close>

section \<open>The declared metrics\<close>

datatype metric_kind = Counter | Gauge | Histogram

record metric_def =
  md_kind :: metric_kind
  md_name :: string
  md_help :: string
  md_labels :: "string list"
  md_buckets :: "rat list"

abbreviation metric :: "metric_kind \<Rightarrow> string \<Rightarrow> string \<Rightarrow> string list \<Rightarrow> rat list \<Rightarrow> metric_def" where
  "metric k n h ls bs \<equiv> \<lparr>md_kind = k, md_name = n, md_help = h, md_labels = ls, md_buckets = bs\<rparr>"

definition initializeMetrics :: "metric_def list" where
  "initializeMetrics =
     [metric Histogram ''http_request_duration_seconds'' ''HTTP request latency in seconds'' [''method'', ''route'', ''status_code''] [1 / 100, 5 / 100, 1 / 10, 5 / 10, 1, 2, 5],
      metric Counter ''http_requests_total'' ''Total HTTP requests'' [''method'', ''route'', ''status_code''] [],
      metric Counter ''http_request_errors_total'' ''Total HTTP request errors'' [''method'', ''route'', ''error_type''] [],
      metric Histogram ''http_request_size_bytes'' ''HTTP request size in bytes'' [''method'', ''route''] [100, 1000, 10000, 100000, 1000000],
      metric Histogram ''http_response_size_bytes'' ''HTTP response size in bytes'' [''method'', ''route'', ''status_code''] [100, 1000, 10000, 100000, 1000000],
      metric Gauge ''websocket_connections_active'' ''Active WebSocket connections'' [''namespace''] [],
      metric Counter ''websocket_connections_total'' ''Total WebSocket connections'' [''namespace''] [],
      metric Counter ''websocket_disconnections_total'' ''Total WebSocket disconnections'' [''namespace'', ''reason''] [],
      metric Counter ''websocket_messages_total'' ''Total WebSocket messages'' [''namespace'', ''event_type''] [],
      metric Histogram ''job_duration_seconds'' ''Job execution duration in seconds'' [''job_name'', ''status''] [1, 5, 10, 30, 60, 300],
      metric Counter ''jobs_total'' ''Total jobs processed'' [''job_name'', ''status''] [],
      metric Gauge ''jobs_active'' ''Currently active jobs'' [''job_name''] [],
      metric Counter ''jobs_completed_total'' ''Total completed jobs'' [''job_name''] [],
      metric Counter ''jobs_failed_total'' ''Total failed jobs'' [''job_name'', ''error_type''] [],
      metric Gauge ''job_queue_size'' ''Number of jobs in queue'' [''queue_name''] [],
      metric Histogram ''database_query_duration_seconds'' ''Database query duration in seconds'' [''operation'', ''table''] [1 / 1000, 1 / 100, 1 / 10, 5 / 10, 1],
      metric Counter ''database_query_errors_total'' ''Total database query errors'' [''operation'', ''table'', ''error_type''] [],
      metric Gauge ''database_connection_pool_active'' ''Active database connections'' [] [],
      metric Gauge ''database_connection_pool_size'' ''Database connection pool size'' [] [],
      metric Gauge ''active_users_total'' ''Number of active users'' [] [],
      metric Counter ''transactions_total'' ''Total transactions'' [''type'', ''status''] [],
      metric Counter ''transaction_errors_total'' ''Total transaction errors'' [''type'', ''error_reason''] [],
      metric Gauge ''process_uptime_seconds'' ''Process uptime in seconds'' [] [],
      metric Gauge ''process_memory_usage_bytes'' ''Process memory usage in bytes'' [''type''] []]"

section \<open>The calls\<close>

datatype metric_op = Inc | Dec | SetTo rat | Observe rat

record metric_call =
  mc_metric :: string
  mc_labels :: "(string \<times> string) list"
  mc_op :: metric_op

definition call :: "string \<Rightarrow> (string \<times> string) list \<Rightarrow> metric_op \<Rightarrow> metric_call" where
  "call n ls op = \<lparr>mc_metric = n, mc_labels = ls, mc_op = op\<rparr>"

text \<open>What the timer of \<open>setupDefaultMetrics\<close> records every five seconds.\<close>

definition updateProcessMetrics :: "rat \<Rightarrow> nat \<Rightarrow> nat \<Rightarrow> nat \<Rightarrow> metric_call list" where
  "updateProcessMetrics uptime heapUsed heapTotal rss =
     [call ''process_uptime_seconds'' [] (SetTo uptime),
      call ''process_memory_usage_bytes'' [(''type'', ''heapUsed'')] (SetTo (of_nat heapUsed)),
      call ''process_memory_usage_bytes'' [(''type'', ''heapTotal'')] (SetTo (of_nat heapTotal)),
      call ''process_memory_usage_bytes'' [(''type'', ''rss'')] (SetTo (of_nat rss))]"

definition recordHttpRequest :: "string \<Rightarrow> string \<Rightarrow> nat \<Rightarrow> rat \<Rightarrow> int option \<Rightarrow> int option \<Rightarrow> metric_call list" where
  "recordHttpRequest verb route statusCode duration requestSize responseSize =
     (let m = (''method'', verb); r = (''route'', route); st = (''status_code'', show_nat statusCode) in
      [call ''http_request_duration_seconds'' [m, r, st] (Observe duration), call ''http_requests_total'' [m, r, st] Inc] @
      (case requestSize of Some n \<Rightarrow> if n = 0 then [] else [call ''http_request_size_bytes'' [m, r] (Observe (of_int n))] | None \<Rightarrow> []) @
      (case responseSize of Some n \<Rightarrow> if n = 0 then [] else [call ''http_response_size_bytes'' [m, r, st] (Observe (of_int n))] | None \<Rightarrow> []))"

definition recordHttpError :: "string \<Rightarrow> string \<Rightarrow> string \<Rightarrow> metric_call list" where
  "recordHttpError verb route errorType =
     [call ''http_request_errors_total'' [(''method'', verb), (''route'', route), (''error_type'', errorType)] Inc]"

definition recordWebSocketConnection :: "string \<Rightarrow> metric_call list" where
  "recordWebSocketConnection namespace =
     [call ''websocket_connections_total'' [(''namespace'', namespace)] Inc,
      call ''websocket_connections_active'' [(''namespace'', namespace)] Inc]"

definition recordWebSocketDisconnection :: "string \<Rightarrow> string \<Rightarrow> metric_call list" where
  "recordWebSocketDisconnection namespace reason =
     [call ''websocket_disconnections_total'' [(''namespace'', namespace), (''reason'', reason)] Inc,
      call ''websocket_connections_active'' [(''namespace'', namespace)] Dec]"

definition recordWebSocketMessage :: "string \<Rightarrow> string \<Rightarrow> metric_call list" where
  "recordWebSocketMessage namespace eventType =
     [call ''websocket_messages_total'' [(''namespace'', namespace), (''event_type'', eventType)] Inc]"

definition getActiveWebSocketConnections :: "string \<Rightarrow> nat" where
  "getActiveWebSocketConnections namespace = 0"

definition recordJobStart :: "string \<Rightarrow> metric_call list" where
  "recordJobStart jobName = [call ''jobs_active'' [(''job_name'', jobName)] Inc]"

definition recordJobCompleted :: "string \<Rightarrow> rat \<Rightarrow> metric_call list" where
  "recordJobCompleted jobName duration =
     [call ''job_duration_seconds'' [(''job_name'', jobName), (''status'', ''success'')] (Observe duration),
      call ''jobs_total'' [(''job_name'', jobName), (''status'', ''success'')] Inc,
      call ''jobs_completed_total'' [(''job_name'', jobName)] Inc, call ''jobs_active'' [(''job_name'', jobName)] Dec]"

definition recordJobFailed :: "string \<Rightarrow> rat \<Rightarrow> string \<Rightarrow> metric_call list" where
  "recordJobFailed jobName duration errorType =
     [call ''job_duration_seconds'' [(''job_name'', jobName), (''status'', ''failed'')] (Observe duration),
      call ''jobs_total'' [(''job_name'', jobName), (''status'', ''failed'')] Inc,
      call ''jobs_failed_total'' [(''job_name'', jobName), (''error_type'', errorType)] Inc,
      call ''jobs_active'' [(''job_name'', jobName)] Dec]"

definition updateJobQueueSize :: "string \<Rightarrow> nat \<Rightarrow> metric_call list" where
  "updateJobQueueSize queueName n = [call ''job_queue_size'' [(''queue_name'', queueName)] (SetTo (of_nat n))]"

definition recordDatabaseQuery :: "string \<Rightarrow> string \<Rightarrow> rat \<Rightarrow> metric_call list" where
  "recordDatabaseQuery operation table duration =
     [call ''database_query_duration_seconds'' [(''operation'', operation), (''table'', table)] (Observe duration)]"

definition recordDatabaseError :: "string \<Rightarrow> string \<Rightarrow> string \<Rightarrow> metric_call list" where
  "recordDatabaseError operation table errorType =
     [call ''database_query_errors_total'' [(''operation'', operation), (''table'', table), (''error_type'', errorType)] Inc]"

definition updateConnectionPoolStats :: "nat \<Rightarrow> nat \<Rightarrow> metric_call list" where
  "updateConnectionPoolStats active poolSize =
     [call ''database_connection_pool_active'' [] (SetTo (of_nat active)),
      call ''database_connection_pool_size'' [] (SetTo (of_nat poolSize))]"

definition updateActiveUsers :: "nat \<Rightarrow> metric_call list" where
  "updateActiveUsers n = [call ''active_users_total'' [] (SetTo (of_nat n))]"

definition recordTransaction :: "string \<Rightarrow> string \<Rightarrow> metric_call list" where
  "recordTransaction type status = [call ''transactions_total'' [(''type'', type), (''status'', status)] Inc]"

definition recordTransactionError :: "string \<Rightarrow> string \<Rightarrow> metric_call list" where
  "recordTransactionError type errorReason =
     [call ''transaction_errors_total'' [(''type'', type), (''error_reason'', errorReason)] Inc]"

section \<open>Well-formed calls and gauges\<close>

text \<open>
  The client throws on a label that the metric does not declare, and a counter only goes up. A call is well formed when its
  metric is declared, of a kind with that operation, and with exactly these labels.
\<close>

fun op_of_kind :: "metric_op \<Rightarrow> metric_kind \<Rightarrow> bool" where
  "op_of_kind Inc k = (k = Counter \<or> k = Gauge)"
| "op_of_kind Dec k = (k = Gauge)"
| "op_of_kind (SetTo x) k = (k = Gauge)"
| "op_of_kind (Observe x) k = (k = Histogram)"

definition well_formed :: "metric_call \<Rightarrow> bool" where
  "well_formed c = list_ex (\<lambda>d. md_name d = mc_metric c \<and> op_of_kind (mc_op c) (md_kind d) \<and> map fst (mc_labels c) = md_labels d)
     initializeMetrics"

text \<open>What a gauge shows after a sequence of calls.\<close>

fun gauge_step :: "string \<Rightarrow> (string \<times> string) list \<Rightarrow> metric_call \<Rightarrow> rat \<Rightarrow> rat" where
  "gauge_step n ls c x =
     (if mc_metric c = n \<and> mc_labels c = ls
      then (case mc_op c of Inc \<Rightarrow> x + 1 | Dec \<Rightarrow> x - 1 | SetTo y \<Rightarrow> y | Observe y \<Rightarrow> x) else x)"

definition gauge_value :: "metric_call list \<Rightarrow> string \<Rightarrow> (string \<times> string) list \<Rightarrow> rat" where
  "gauge_value cs n ls = fold (gauge_step n ls) cs 0"

lemma gauge_append: "gauge_value (cs @ ds) n ls = fold (gauge_step n ls) ds (gauge_value cs n ls)"
  by (simp add: gauge_value_def)

lemma well_formed_call:
  "well_formed (call n ls op) \<longleftrightarrow>
     list_ex (\<lambda>d. md_name d = n \<and> op_of_kind op (md_kind d) \<and> map fst ls = md_labels d) initializeMetrics"
  by (simp add: well_formed_def call_def)

lemma duplicate_free_metrics: "distinct (map md_name initializeMetrics)"
  by (simp add: initializeMetrics_def)

section \<open>Properties\<close>

text \<open>
  Every call the service makes is one the client accepts: whatever its arguments, each method only touches declared
  metrics, by an operation of their kind and with exactly the declared labels, and no metric is declared twice.
\<close>

theorem metrics_well_labelled:
  "distinct (map md_name initializeMetrics) \<and> list_all well_formed
     (recordHttpRequest a b k x y z @ recordHttpError a b c @ recordWebSocketConnection a @ recordWebSocketDisconnection a b @
      recordWebSocketMessage a b @ recordJobStart a @ recordJobCompleted a x @ recordJobFailed a x b @ updateJobQueueSize a k @
      recordDatabaseQuery a b x @ recordDatabaseError a b c @ updateConnectionPoolStats k l @ updateActiveUsers k @
      recordTransaction a b @ recordTransactionError a b @ updateProcessMetrics x k l m)"
proof -
  have "list_all well_formed (recordHttpRequest a b k x y z)"
    by (cases y; cases z) (simp_all add: recordHttpRequest_def Let_def well_formed_call initializeMetrics_def)
  then show ?thesis
    by (simp add: duplicate_free_metrics recordHttpError_def recordWebSocketConnection_def recordWebSocketDisconnection_def
        recordWebSocketMessage_def recordJobStart_def recordJobCompleted_def recordJobFailed_def updateJobQueueSize_def
        recordDatabaseQuery_def recordDatabaseError_def updateConnectionPoolStats_def updateActiveUsers_def
        recordTransaction_def recordTransactionError_def updateProcessMetrics_def well_formed_call initializeMetrics_def)
qed

end
