(* ===== verification/Observability.thy ===== *)
theory Observability
  imports Metrics
begin

text \<open>
  Tracing, logging and their three users (src/Backend/src/observability): \<open>TracingService\<close>, \<open>LoggingService\<close>, the HTTP
  interceptor, the wrapper of queue jobs and the adapter of web sockets. They keep maps in memory, which are association
  lists here, in insertion order; a trace context is an object several maps may hold, so the maps hold its address.
\<close>

section \<open>State\<close>

record TraceContext =
  tc_traceId :: string
  tc_spanId :: string
  tc_parentSpanId :: "string option"
  tc_sampled :: bool
  tc_userId :: "string option"
  tc_serviceName :: string
  tc_timestamp :: int
  tc_metadata :: "jobj option"

record log_entry =
  lg_level :: string
  lg_message :: string
  lg_meta :: jobj

text \<open>\<open>ob_objects\<close> holds the contexts created so far; \<open>ob_calls\<close> and \<open>ob_log\<close> are what the metrics client and the logger got.\<close>

record obs =
  ob_objects :: "TraceContext list"
  ob_traces :: "(string \<times> nat) list"
  ob_requests :: "(string \<times> jobj) list"
  ob_jobs :: "(string \<times> nat) list"
  ob_sockets :: "(string \<times> nat) list"
  ob_calls :: "metric_call list"
  ob_log :: "log_entry list"

text \<open>
  The clock, \<open>randomUUID\<close>, \<open>Math.random\<close>, the environment variables, the response's status code, and name and stack of an
  error; \<open>te_num\<close> is a number that need not be whole as a value of a log line.
\<close>

record 's trace_env =
  te_now :: "'s \<Rightarrow> int"
  te_uuid :: "'s \<Rightarrow> string \<times> 's"
  te_random :: "'s \<Rightarrow> rat \<times> 's"
  te_serviceName :: string
  te_samplingRate :: rat
  te_status :: "'s \<Rightarrow> nat"
  te_errorName :: "exn \<Rightarrow> string"
  te_errorStack :: "exn \<Rightarrow> string"
  te_num :: "rat \<Rightarrow> json"

type_synonym ('s, 'a) oprog = "('s \<times> obs, 'a) prog"

definition drawE :: "('s \<Rightarrow> 'a \<times> 's) \<Rightarrow> ('s, 'a) oprog" where
  "drawE f = liftL (\<lambda>s. case f s of (a, t) \<Rightarrow> (Inr a, t))"

definition record_calls :: "metric_call list \<Rightarrow> ('s, unit) oprog" where
  "record_calls cs = modL (\<lambda>b. b\<lparr>ob_calls := ob_calls b @ cs\<rparr>)"

text \<open>\<open>a || b\<close> for texts.\<close>

definition or_else :: "string option \<Rightarrow> string option \<Rightarrow> string option" where
  "or_else a b = (if truthy a then a else b)"

definition str_field :: "string \<Rightarrow> string option \<Rightarrow> jobj" where
  "str_field k v = opt_field k (map_option JStr v)"

section \<open>TracingService\<close>

definition generateTraceId :: "'s trace_env \<Rightarrow> ('s, string) oprog" where
  "generateTraceId T = bindE (drawE (te_uuid T)) (\<lambda>u. returnE (take 32 (filter (\<lambda>c. c \<noteq> CHR ''-'') u)))"

definition generateSpanId :: "'s trace_env \<Rightarrow> ('s, string) oprog" where
  "generateSpanId T = bindE (drawE (te_uuid T)) (\<lambda>u. returnE (take 16 (filter (\<lambda>c. c \<noteq> CHR ''-'') u)))"

definition shouldSample :: "'s trace_env \<Rightarrow> ('s, bool) oprog" where
  "shouldSample T = bindE (drawE (te_random T)) (\<lambda>r. returnE (r < te_samplingRate T))"

text \<open>A new object, entered in the map of traces; the result is its address.\<close>

definition createTraceContext :: "'s trace_env \<Rightarrow> string option \<Rightarrow> string option \<Rightarrow> string option \<Rightarrow> jobj option \<Rightarrow> ('s, nat) oprog" where
  "createTraceContext T traceId parentSpanId userId metadata =
     bindE (if truthy traceId then returnE (the traceId) else generateTraceId T) (\<lambda>finalTraceId.
     bindE (generateSpanId T) (\<lambda>spanId. bindE (shouldSample T) (\<lambda>sampled. bindE (liftL (readE (te_now T))) (\<lambda>now.
     bindE getL (\<lambda>b.
       let context = \<lparr>tc_traceId = finalTraceId, tc_spanId = spanId, tc_parentSpanId = parentSpanId, tc_sampled = sampled,
             tc_userId = userId, tc_serviceName = te_serviceName T, tc_timestamp = now, tc_metadata = metadata\<rparr> in
       seqE (modL (\<lambda>b. b\<lparr>ob_objects := ob_objects b @ [context],
              ob_traces := assoc_set finalTraceId (length (ob_objects b)) (ob_traces b)\<rparr>))
         (returnE (length (ob_objects b))))))))"

definition header :: "(string \<times> string) list \<Rightarrow> string \<Rightarrow> string \<Rightarrow> string option" where
  "header headers a b = or_else (map_of headers a) (map_of headers b)"

text \<open>The trace id and the parent's span id of incoming headers: the W3C header first, then the custom ones.\<close>

definition parsed_trace :: "(string \<times> string) list \<Rightarrow> string option \<times> string option" where
  "parsed_trace headers =
     (let traceparent = header headers ''traceparent'' ''Traceparent'';
          parts = js_split CHR ''-'' (the traceparent);
          (traceId, parentSpanId) = (if truthy traceparent \<and> 3 \<le> length parts then (Some (parts ! 1), Some (parts ! 2)) else (None, None)) in
      (or_else traceId (header headers ''x-trace-id'' ''X-Trace-Id''),
       or_else parentSpanId (header headers ''x-span-id'' ''X-Span-Id'')))"

definition extractTraceContext :: "'s trace_env \<Rightarrow> (string \<times> string) list \<Rightarrow> ('s, nat) oprog" where
  "extractTraceContext T headers =
     (let (traceId, parentSpanId) = parsed_trace headers;
          userId = header headers ''x-user-id'' ''X-User-Id'';
          correlationId = header headers ''x-correlation-id'' ''X-Correlation-Id'' in
      createTraceContext T traceId parentSpanId userId
        (if truthy correlationId then Some [(''correlationId'', JStr (the correlationId))] else None))"

definition createChildSpan :: "'s trace_env \<Rightarrow> string \<Rightarrow> ('s, nat) oprog" where
  "createChildSpan T parentTraceId =
     bindE getL (\<lambda>b. case map_of (ob_traces b) parentTraceId of
       None \<Rightarrow> throwE (Error (''Parent trace context not found: '' @ parentTraceId))
     | Some i \<Rightarrow> let parent = ob_objects b ! i in
         createTraceContext T (Some parentTraceId) (Some (tc_spanId parent)) (tc_userId parent) (tc_metadata parent))"

definition getTraceContext :: "obs \<Rightarrow> string \<Rightarrow> TraceContext option" where
  "getTraceContext b traceId = map_option (\<lambda>i. ob_objects b ! i) (map_of (ob_traces b) traceId)"

definition addMetadata :: "string \<Rightarrow> jobj \<Rightarrow> ('s, unit) oprog" where
  "addMetadata traceId metadata = modL (\<lambda>b. case map_of (ob_traces b) traceId of
       None \<Rightarrow> b
     | Some i \<Rightarrow> let context = ob_objects b ! i in
         b\<lparr>ob_objects := (ob_objects b)[i := context\<lparr>tc_metadata := Some (obj_spread
            (case tc_metadata context of None \<Rightarrow> [] | Some m \<Rightarrow> m) metadata)\<rparr>]\<rparr>)"

definition injectTraceContext :: "TraceContext \<Rightarrow> (string \<times> string) list" where
  "injectTraceContext context =
     (let traceFlags = (if tc_sampled context then ''01'' else ''00'') in
      [(''traceparent'', ''00-'' @ tc_traceId context @ ''-'' @ tc_spanId context @ ''-'' @ traceFlags),
       (''x-trace-id'', tc_traceId context), (''x-span-id'', tc_spanId context), (''x-request-id'', tc_traceId context)] @
      (if truthy (tc_userId context) then [(''x-user-id'', the (tc_userId context))] else []))"

definition removeTraceContext :: "string \<Rightarrow> ('s, unit) oprog" where
  "removeTraceContext traceId = modL (\<lambda>b. b\<lparr>ob_traces := map_delete traceId (ob_traces b)\<rparr>)"

definition getActiveTraces :: "obs \<Rightarrow> (string \<times> TraceContext) list" where
  "getActiveTraces b = map (\<lambda>(k, i). (k, ob_objects b ! i)) (ob_traces b)"

definition onModuleDestroy_tracing :: "('s, unit) oprog" where
  "onModuleDestroy_tracing = modL (\<lambda>b. b\<lparr>ob_traces := []\<rparr>)"

section \<open>LoggingService\<close>

definition setRequestContext :: "string \<Rightarrow> jobj \<Rightarrow> ('s, unit) oprog" where
  "setRequestContext traceId context = modL (\<lambda>b. b\<lparr>ob_requests := assoc_set traceId context (ob_requests b)\<rparr>)"

definition getRequestContext :: "obs \<Rightarrow> string \<Rightarrow> jobj option" where
  "getRequestContext b traceId = map_of (ob_requests b) traceId"

definition clearRequestContext :: "string \<Rightarrow> ('s, unit) oprog" where
  "clearRequestContext traceId = modL (\<lambda>b. b\<lparr>ob_requests := map_delete traceId (ob_requests b)\<rparr>)"

definition log_at :: "string \<Rightarrow> string \<Rightarrow> jobj \<Rightarrow> ('s, unit) oprog" where
  "log_at level message context =
     modL (\<lambda>b. b\<lparr>ob_log := ob_log b @ [\<lparr>lg_level = level, lg_message = message, lg_meta = context\<rparr>]\<rparr>)"

definition log_info :: "string \<Rightarrow> jobj \<Rightarrow> ('s, unit) oprog" where
  "log_info message context = log_at ''info'' message context"

definition log_debug :: "string \<Rightarrow> jobj \<Rightarrow> ('s, unit) oprog" where
  "log_debug message context = log_at ''debug'' message context"

definition log_warn :: "string \<Rightarrow> jobj \<Rightarrow> ('s, unit) oprog" where
  "log_warn message context = log_at ''warn'' message context"

definition log_error :: "'s trace_env \<Rightarrow> string \<Rightarrow> exn \<Rightarrow> jobj \<Rightarrow> ('s, unit) oprog" where
  "log_error T message error context =
     log_at ''error'' message (assoc_set ''error'' (JObj [(''message'', JStr (exn_message error)),
       (''stack'', JStr (te_errorStack T error)), (''name'', JStr (te_errorName T error))]) context)"

section \<open>The HTTP interceptor\<close>

record http_request =
  hq_method :: string
  hq_path :: string
  hq_url :: string
  hq_route :: "string option"
  hq_ip :: "string option"
  hq_headers :: "(string \<times> string) list"

definition getRequestSize :: "http_request \<Rightarrow> jsnum" where
  "getRequestSize request = (if truthy (map_of (hq_headers request) ''content-length'')
     then parseInt10 (the (map_of (hq_headers request) ''content-length'')) else Some 0)"

fun getResponseSize :: "json option \<Rightarrow> int" where
  "getResponseSize None = 0"
| "getResponseSize (Some JNull) = 0"
| "getResponseSize (Some (JStr s)) = int (length s)"
| "getResponseSize (Some (JBool b)) = (if b then 4 else 0)"
| "getResponseSize (Some (JNum n)) = (if n = 0 then 0 else int (length (show_int n)))"
| "getResponseSize (Some v) = int (length (json_text v))"

definition getClientIp :: "http_request \<Rightarrow> string" where
  "getClientIp request = the (or_else (map_option (\<lambda>h. hd (js_split CHR '','' h)) (map_of (hq_headers request) ''x-forwarded-for''))
     (or_else (hq_ip request) (Some ''unknown'')))"

definition getRouteLabel :: "http_request \<Rightarrow> string" where
  "getRouteLabel request = hq_method request @ '' '' @ the (or_else (hq_route request) (Some (hq_path request)))"

definition trace_fields :: "TraceContext \<Rightarrow> jobj" where
  "trace_fields c = [(''traceId'', JStr (tc_traceId c)), (''spanId'', JStr (tc_spanId c))]"

definition intercept :: "'s trace_env \<Rightarrow> http_request \<Rightarrow> ('s, json option) prog \<Rightarrow> ('s, json option \<times> (string \<times> string) list) oprog" where
  "intercept T request handle =
     bindE (extractTraceContext T (hq_headers request)) (\<lambda>i. bindE getL (\<lambda>b.
     let c = ob_objects b ! i; responseHeaders = injectTraceContext c; requestSize = getRequestSize request;
         about = trace_fields c @ [(''method'', JStr (hq_method request)), (''path'', JStr (hq_path request))] in
     bindE (liftL (readE (te_now T))) (\<lambda>startTime.
     seqE (log_info ''HTTP request received'' (about @ [(''url'', JStr (hq_url request)), (''ip'', JStr (getClientIp request))] @
            str_field ''userAgent'' (map_of (hq_headers request) ''user-agent'') @ str_field ''userId'' (tc_userId c)))
     (catchE
       (bindE (liftL handle) (\<lambda>responseData. bindE (liftL (readE (te_now T))) (\<lambda>t. bindE (liftL (readE (te_status T))) (\<lambda>statusCode.
          let responseSize = getResponseSize responseData in
          seqE (record_calls (recordHttpRequest (hq_method request) (getRouteLabel request) statusCode
                 (of_int (t - startTime) / 1000) requestSize (Some responseSize)))
          (seqE (log_info ''HTTP request completed'' (about @ [(''statusCode'', JNum (int statusCode)), (''duration'', te_num T (of_int (t - startTime) / 1000))] @
                  opt_field ''requestSize'' (map_option JNum requestSize) @ [(''responseSize'', JNum responseSize)] @ str_field ''userId'' (tc_userId c)))
             (returnE (responseData, responseHeaders)))))))
       (\<lambda>error. bindE (liftL (readE (te_now T))) (\<lambda>t. bindE (liftL (readE (te_status T))) (\<lambda>statusCode.
          seqE (record_calls (recordHttpError (hq_method request) (getRouteLabel request)
                 (or_str (Some (te_errorName T error)) ''UnknownError'')))
          (seqE (log_error T ''HTTP request error'' error (about @ [(''statusCode'', JNum (int statusCode)), (''duration'', te_num T (of_int (t - startTime) / 1000))] @
                  str_field ''userId'' (tc_userId c) @ [(''errorMessage'', JStr (exn_message error))]))
             (throwE error)))))))))"

section \<open>Queue jobs\<close>

record traced_job =
  tj_id :: string
  tj_data :: "json option"

definition sensitiveFields :: "string list" where
  "sensitiveFields = [''password'', ''token'', ''secret'', ''apiKey'', ''privateKey'']"

definition redact :: "jobj \<Rightarrow> jobj" where
  "redact ps = fold (\<lambda>field qs. if map_of qs field \<noteq> None then assoc_set field (JStr ''[REDACTED]'') qs else qs) sensitiveFields ps"

fun sanitizeJobData :: "json option \<Rightarrow> json option" where
  "sanitizeJobData (Some (JObj ps)) = Some (JObj (redact ps))"
| "sanitizeJobData (Some (JArr vs)) = Some (JObj (redact (map (\<lambda>(i, v). (show_nat i, v)) (enumerate 0 vs))))"
| "sanitizeJobData (Some JNull) = None"
| "sanitizeJobData (Some (JStr s)) = (if s = [] then None else Some (JStr s))"
| "sanitizeJobData (Some (JBool b)) = (if b then Some (JBool b) else None)"
| "sanitizeJobData (Some (JNum n)) = (if n = 0 then None else Some (JNum n))"
| "sanitizeJobData None = None"

fun text_prop :: "json option \<Rightarrow> string \<Rightarrow> string option" where
  "text_prop (Some (JObj ps)) k = (case map_of ps k of Some (JStr s) \<Rightarrow> Some s | _ \<Rightarrow> None)"
| "text_prop _ k = None"

fun carried_trace :: "json option \<Rightarrow> json option" where
  "carried_trace (Some (JObj ps)) = (case map_of ps ''traceContext'' of
     None \<Rightarrow> None | Some JNull \<Rightarrow> None | Some (JBool False) \<Rightarrow> None | Some (JStr []) \<Rightarrow> None
   | Some (JNum n) \<Rightarrow> (if n = 0 then None else Some (JNum n)) | Some v \<Rightarrow> Some v)"
| "carried_trace _ = None"

definition createJobTraceContext :: "'s trace_env \<Rightarrow> traced_job \<Rightarrow> string \<Rightarrow> ('s, nat) oprog" where
  "createJobTraceContext T job jobName =
     bindE (case carried_trace (tj_data job) of
         Some v \<Rightarrow> createTraceContext T (text_prop (Some v) ''traceId'') (text_prop (Some v) ''spanId'') (text_prop (Some v) ''userId'') None
       | None \<Rightarrow> createTraceContext T None None None (Some [(''jobName'', JStr jobName), (''jobId'', JStr (tj_id job))]))
     (\<lambda>i. seqE (modL (\<lambda>b. b\<lparr>ob_jobs := assoc_set (tj_id job) i (ob_jobs b)\<rparr>)) (returnE i))"

definition wrapProcessor :: "'s trace_env \<Rightarrow> (traced_job \<Rightarrow> ('s, json option) prog) \<Rightarrow> string \<Rightarrow> traced_job \<Rightarrow> ('s, json option) oprog" where
  "wrapProcessor T processor jobName job =
     bindE (createJobTraceContext T job jobName) (\<lambda>i. bindE getL (\<lambda>b.
     let about = trace_fields (ob_objects b ! i) @ [(''jobId'', JStr (tj_id job)), (''jobName'', JStr jobName)];
         forget = modL (\<lambda>b. b\<lparr>ob_jobs := map_delete (tj_id job) (ob_jobs b)\<rparr>) in
     bindE (liftL (readE (te_now T))) (\<lambda>startTime.
     catchE
       (seqE (record_calls (recordJobStart jobName))
       (seqE (log_info ''Job processing started'' (about @ opt_field ''jobData'' (sanitizeJobData (tj_data job))))
       (bindE (liftL (processor job)) (\<lambda>result. bindE (liftL (readE (te_now T))) (\<lambda>t.
         seqE (record_calls (recordJobCompleted jobName (of_int (t - startTime) / 1000)))
         (seqE (log_info ''Job processing completed'' (about @ [(''duration'', te_num T (of_int (t - startTime) / 1000))] @ opt_field ''result'' (sanitizeJobData result)))
         (seqE forget (returnE result))))))))
       (\<lambda>error. bindE (liftL (readE (te_now T))) (\<lambda>t.
         seqE (record_calls (recordJobFailed jobName (of_int (t - startTime) / 1000) (or_str (Some (te_errorName T error)) ''UnknownError'')))
         (seqE (log_error T ''Job processing failed'' error (about @ [(''duration'', te_num T (of_int (t - startTime) / 1000))] @ opt_field ''jobData'' (sanitizeJobData (tj_data job))))
         (seqE forget (throwE error))))))))"

definition inject_job_trace :: "jobj \<Rightarrow> TraceContext \<Rightarrow> jobj" where
  "inject_job_trace data c = obj_spread data [(''traceContext'', JObj ([(''traceId'', JStr (tc_traceId c)), (''spanId'', JStr (tc_spanId c))] @
     str_field ''userId'' (tc_userId c)))]"

text \<open>What each of the three listeners of \<open>wrapQueueMetrics\<close> does, and its first reading.\<close>

definition queue_size_event :: "('s, nat) prog \<Rightarrow> string \<Rightarrow> ('s, unit) oprog" where
  "queue_size_event size_of queueName = bindE (liftL size_of) (\<lambda>n. record_calls (updateJobQueueSize queueName n))"

definition getJobTraceContext :: "obs \<Rightarrow> string \<Rightarrow> TraceContext option" where
  "getJobTraceContext b jobId = map_option (\<lambda>i. ob_objects b ! i) (map_of (ob_jobs b) jobId)"

definition getActiveJobTraces :: "obs \<Rightarrow> (string \<times> TraceContext) list" where
  "getActiveJobTraces b = map (\<lambda>(k, i). (k, ob_objects b ! i)) (ob_jobs b)"

section \<open>Web sockets\<close>

definition initializeConnection :: "'s trace_env \<Rightarrow> string \<Rightarrow> (string \<times> string) list \<Rightarrow> string \<Rightarrow> string \<Rightarrow> ('s, nat) oprog" where
  "initializeConnection T socketId headers address namespace =
     bindE (extractTraceContext T headers) (\<lambda>i.
     seqE (modL (\<lambda>b. b\<lparr>ob_sockets := assoc_set socketId i (ob_sockets b)\<rparr>))
     (seqE (record_calls (recordWebSocketConnection namespace))
     (bindE getL (\<lambda>b. let c = ob_objects b ! i in
       seqE (log_info ''WebSocket connection established'' (trace_fields c @ [(''socketId'', JStr socketId), (''namespace'', JStr namespace)] @
         str_field ''userId'' (tc_userId c) @ [(''remoteAddress'', JStr address)] @ str_field ''userAgent'' (map_of headers ''user-agent'')))
       (returnE i)))))"

definition handleDisconnection :: "string \<Rightarrow> string \<Rightarrow> string \<Rightarrow> ('s, unit) oprog" where
  "handleDisconnection socketId namespace reason =
     bindE getL (\<lambda>b. case map_of (ob_sockets b) socketId of
       None \<Rightarrow> returnE ()
     | Some i \<Rightarrow> let c = ob_objects b ! i in
         seqE (record_calls (recordWebSocketDisconnection namespace reason))
         (seqE (log_info ''WebSocket connection closed'' (trace_fields c @ [(''socketId'', JStr socketId), (''namespace'', JStr namespace),
                 (''reason'', JStr reason)] @ str_field ''userId'' (tc_userId c)))
           (modL (\<lambda>b. b\<lparr>ob_sockets := map_delete socketId (ob_sockets b)\<rparr>))))"

definition recordMessage :: "string \<Rightarrow> string \<Rightarrow> string \<Rightarrow> nat \<Rightarrow> ('s, unit) oprog" where
  "recordMessage socketId namespace eventType messageSize =
     bindE getL (\<lambda>b. case map_of (ob_sockets b) socketId of
       None \<Rightarrow> returnE ()
     | Some i \<Rightarrow> let c = ob_objects b ! i in
         seqE (record_calls (recordWebSocketMessage namespace eventType))
           (log_debug ''WebSocket message'' (trace_fields c @ [(''socketId'', JStr socketId), (''namespace'', JStr namespace),
             (''eventType'', JStr eventType), (''messageSize'', JNum (int messageSize))] @ str_field ''userId'' (tc_userId c))))"

definition inject_socket_trace :: "obs \<Rightarrow> string \<Rightarrow> (string \<times> string) list" where
  "inject_socket_trace b socketId = (case map_of (ob_sockets b) socketId of
     None \<Rightarrow> [] | Some i \<Rightarrow> injectTraceContext (ob_objects b ! i))"

definition getSocketTrace :: "obs \<Rightarrow> string \<Rightarrow> TraceContext option" where
  "getSocketTrace b socketId = map_option (\<lambda>i. ob_objects b ! i) (map_of (ob_sockets b) socketId)"

definition updateSocketMetadata :: "string \<Rightarrow> jobj \<Rightarrow> ('s, unit) oprog" where
  "updateSocketMetadata socketId metadata =
     bindE getL (\<lambda>b. case getSocketTrace b socketId of
       None \<Rightarrow> returnE () | Some c \<Rightarrow> addMetadata (tc_traceId c) metadata)"

definition getActiveConnections :: "obs \<Rightarrow> (string \<times> TraceContext) list" where
  "getActiveConnections b = map (\<lambda>(k, i). (k, ob_objects b ! i)) (ob_sockets b)"

definition getActiveConnectionCount :: "obs \<Rightarrow> nat" where
  "getActiveConnectionCount b = length (ob_sockets b)"

section \<open>Lemmas\<close>

lemma wp_drawE [wp_simps]: "wp (drawE f) Q X = (\<lambda>p. Q (fst (f (fst p))) (snd (f (fst p)), snd p))"
  by (rule ext) (simp add: drawE_def wp_def liftL_def split: prod.split)

text \<open>Creating a context adds one object with the given fields and enters it under its trace id.\<close>

lemma wp_createTraceContext:
  assumes Q: "\<And>c t k. k = tc_traceId c \<Longrightarrow> (truthy traceId \<Longrightarrow> tc_traceId c = the traceId) \<Longrightarrow> tc_parentSpanId c = parent \<Longrightarrow>
      tc_userId c = user \<Longrightarrow> tc_metadata c = m \<Longrightarrow>
      Q (length (ob_objects (snd p))) (t, (snd p)\<lparr>ob_objects := ob_objects (snd p) @ [c],
        ob_traces := assoc_set k (length (ob_objects (snd p))) (ob_traces (snd p))\<rparr>)"
  shows "wp (createTraceContext T traceId parent user m) Q X p"
proof (cases "truthy traceId")
  case True
  show ?thesis
    by (simp add: createTraceContext_def generateSpanId_def shouldSample_def wp_simps Let_def True, rule Q) simp_all
next
  case False
  show ?thesis
    by (simp add: createTraceContext_def generateTraceId_def generateSpanId_def shouldSample_def wp_simps Let_def False, rule Q)
      (use False in simp_all)
qed

lemma redact_step:
  "map_of (if map_of qs f \<noteq> None then assoc_set f (JStr r) qs else qs) k =
    (if k = f \<and> map_of qs f \<noteq> None then Some (JStr r) else map_of qs k)"
  by simp

lemma map_of_redact:
  "map_of (redact ps) k = (if List.member sensitiveFields k \<and> map_of ps k \<noteq> None then Some (JStr ''[REDACTED]'') else map_of ps k)"
proof -
  have "map_of (fold (\<lambda>field qs. if map_of qs field \<noteq> None then assoc_set field (JStr ''[REDACTED]'') qs else qs) fs ps) k =
      (if k \<in> set fs \<and> map_of ps k \<noteq> None then Some (JStr ''[REDACTED]'') else map_of ps k)" for fs
    by (induction fs arbitrary: ps) auto
  then show ?thesis by (simp add: redact_def)
qed

lemma split_traceparent:
  assumes "CHR ''-'' \<notin> set t" and "CHR ''-'' \<notin> set x"
  shows "js_split CHR ''-'' (''00-'' @ t @ CHR ''-'' # x @ CHR ''-'' # rest) = ''00'' # t # x # js_split CHR ''-'' rest"
  using assms js_split_append [of "CHR ''-''" "''00''" "t @ CHR ''-'' # x @ CHR ''-'' # rest"] by (simp add: js_split_append)

lemma header_injected:
  "header (injectTraceContext c) ''traceparent'' ''Traceparent'' =
    Some (''00-'' @ tc_traceId c @ ''-'' @ tc_spanId c @ ''-'' @ (if tc_sampled c then ''01'' else ''00''))"
  "header (injectTraceContext c) ''x-user-id'' ''X-User-Id'' = (if truthy (tc_userId c) then tc_userId c else None)"
  "header (injectTraceContext c) ''x-correlation-id'' ''X-Correlation-Id'' = None"
  by (cases "tc_userId c"; auto simp: header_def injectTraceContext_def or_else_def truthy_def Let_def)+

lemma trace_header: "map_of (injectTraceContext c) ''x-trace-id'' = Some (tc_traceId c)"
  by (simp add: injectTraceContext_def Let_def)

lemma parsed_injected:
  assumes "CHR ''-'' \<notin> set (tc_traceId c)" and "CHR ''-'' \<notin> set (tc_spanId c)" and "tc_traceId c \<noteq> []" and "tc_spanId c \<noteq> []"
  shows "parsed_trace (injectTraceContext c) = (Some (tc_traceId c), Some (tc_spanId c))"
  using assms split_traceparent [OF assms(1,2), of "if tc_sampled c then ''01'' else ''00''"]
  by (simp add: parsed_trace_def header_injected truthy_def or_else_def Let_def js_split_plain
      neq_Nil_conv)

section \<open>Properties\<close>

text \<open>
  C20. A trace survives the way through headers: when the ids have no hyphen, as the generated ones do, the headers that one
  service injects make the next one continue the same trace, as a child of the same span and for the same user.
\<close>

theorem trace_roundtrip:
  assumes "CHR ''-'' \<notin> set (tc_traceId c)" and "CHR ''-'' \<notin> set (tc_spanId c)" and "tc_traceId c \<noteq> []" and "tc_spanId c \<noteq> []"
  shows "\<exists>i t b'. extractTraceContext T (injectTraceContext c) (s, b) = (Inr i, (t, b'))
    \<and> getTraceContext b' (tc_traceId c) = Some (ob_objects b' ! i)
    \<and> tc_traceId (ob_objects b' ! i) = tc_traceId c \<and> tc_parentSpanId (ob_objects b' ! i) = Some (tc_spanId c)
    \<and> tc_userId (ob_objects b' ! i) = (if truthy (tc_userId c) then tc_userId c else None)"
proof -
  have "wp (extractTraceContext T (injectTraceContext c)) (\<lambda>i p. getTraceContext (snd p) (tc_traceId c) = Some (ob_objects (snd p) ! i)
    \<and> tc_traceId (ob_objects (snd p) ! i) = tc_traceId c \<and> tc_parentSpanId (ob_objects (snd p) ! i) = Some (tc_spanId c)
    \<and> tc_userId (ob_objects (snd p) ! i) = (if truthy (tc_userId c) then tc_userId c else None)) (\<lambda>_ _. False) (s, b)"
    unfolding extractTraceContext_def Let_def parsed_injected [OF assms] header_injected prod.case
    by (rule wp_createTraceContext) (use assms(3) in \<open>simp add: truthy_def getTraceContext_def\<close>)
  then show ?thesis by (auto simp: wp_value)
qed

text \<open>An environment whose sources of randomness are constant.\<close>

definition demo_trace_env :: "nat trace_env" where
  "demo_trace_env = \<lparr>te_now = int, te_uuid = (\<lambda>s. (''ab12-cd34-ef56-7890'', s)), te_random = (\<lambda>s. (0, s)), te_serviceName = ''api'',
     te_samplingRate = 1, te_status = (\<lambda>s. 200), te_errorName = (\<lambda>e. ''Error''), te_errorStack = (\<lambda>e. []),
     te_num = (\<lambda>x. JNum \<lfloor>x\<rfloor>)\<rparr>"

definition no_obs :: obs where
  "no_obs = \<lparr>ob_objects = [], ob_traces = [], ob_requests = [], ob_jobs = [], ob_sockets = [], ob_calls = [], ob_log = []\<rparr>"

definition demo_trace :: TraceContext where
  "demo_trace = \<lparr>tc_traceId = ''4bf92f'', tc_spanId = ''00f067'', tc_parentSpanId = None, tc_sampled = True, tc_userId = Some ''u1'',
     tc_serviceName = ''web'', tc_timestamp = 0, tc_metadata = None\<rparr>"

theorem trace_roundtrip_witness:
  "\<exists>i t b'. extractTraceContext demo_trace_env (injectTraceContext demo_trace) (7, no_obs) = (Inr i, (t, b'))
    \<and> getTraceContext b' ''4bf92f'' = Some (ob_objects b' ! i)
    \<and> tc_traceId (ob_objects b' ! i) = ''4bf92f'' \<and> tc_parentSpanId (ob_objects b' ! i) = Some ''00f067''
    \<and> tc_userId (ob_objects b' ! i) = Some ''u1''"
  using trace_roundtrip [of demo_trace demo_trace_env 7 no_obs] by (simp add: demo_trace_def truthy_def)

text \<open>
  A trace id with a hyphen, such as a UUID from another system, is lost on the way: the next service takes the part before
  the hyphen as the trace, although the full id is in the custom header beside it.
\<close>

theorem hyphenated_trace_lost:
  assumes "tc_traceId c = a @ CHR ''-'' # rest" and "CHR ''-'' \<notin> set a" and "a \<noteq> []"
  shows "fst (parsed_trace (injectTraceContext c)) = Some a
    \<and> map_of (injectTraceContext c) ''x-trace-id'' = Some (tc_traceId c)"
proof -
  have "js_split CHR ''-'' (''00-'' @ tc_traceId c @ ''-'' @ tc_spanId c @ ''-'' @ f) =
      ''00'' # a # js_split CHR ''-'' (rest @ CHR ''-'' # tc_spanId c @ CHR ''-'' # f)" for f
    using js_split_append [of "CHR ''-''" "''00''"] js_split_append [OF assms(2)] by (simp add: assms(1))
  moreover have "2 \<le> length (js_split CHR ''-'' (xs @ CHR ''-'' # ys))" for xs ys
    by (induction xs) (auto simp: neq_Nil_conv Suc_le_eq split: list.split)
  then have "1 \<le> length (js_split CHR ''-'' (rest @ CHR ''-'' # tc_spanId c @ CHR ''-'' # f))" for f
    by (metis One_nat_def Suc_le_eq js_split_nonempty length_greater_0_conv)
  ultimately show ?thesis
    using assms(3) trace_header [of c] by (simp add: parsed_trace_def header_injected truthy_def or_else_def Let_def Suc_le_eq)
qed

theorem hyphenated_trace_lost_witness:
  "fst (parsed_trace (injectTraceContext (demo_trace\<lparr>tc_traceId := ''0af7-6519''\<rparr>))) = Some ''0af7''
    \<and> map_of (injectTraceContext (demo_trace\<lparr>tc_traceId := ''0af7-6519''\<rparr>)) ''x-trace-id'' = Some ''0af7-6519''"
  using hyphenated_trace_lost [of "demo_trace\<lparr>tc_traceId := ''0af7-6519''\<rparr>" "''0af7''" "''6519''"] by simp

text \<open>
  Wrapping a job's processor is transparent and balanced. Whatever the processor does, the wrapped one ends as it does,
  with its value or its error and in its store; the calls to the metrics are one start followed by one completion or one
  failure, so the gauge of active jobs is back at its value; and the job's entry is gone.
\<close>

theorem wrapProcessor_transparent:
  "\<exists>i s0 b0 d. createJobTraceContext T job jobName (s, b) = (Inr i, (s0, b0)) \<and>
    (case wrapProcessor T processor jobName job (s, b) of (r, (s', b')) \<Rightarrow>
       processor job s0 = (r, s')
       \<and> ob_calls b' = ob_calls b @ recordJobStart jobName @ (case r of
           Inr v \<Rightarrow> recordJobCompleted jobName d
         | Inl e \<Rightarrow> recordJobFailed jobName d (or_str (Some (te_errorName T e)) ''UnknownError''))
       \<and> gauge_value (ob_calls b') ''jobs_active'' ls = gauge_value (ob_calls b) ''jobs_active'' ls
       \<and> map_of (ob_jobs b') (tj_id job) = None)"
proof -
  have "wp (createJobTraceContext T job jobName) (\<lambda>i p. ob_calls (snd p) = ob_calls b) (\<lambda>_ _. False) (s, b)"
    by (cases "carried_trace (tj_data job)")
      (auto simp: createJobTraceContext_def wp_simps intro!: wp_createTraceContext)
  then obtain i s0 b0 where c: "createJobTraceContext T job jobName (s, b) = (Inr i, (s0, b0))" "ob_calls b0 = ob_calls b"
    by (auto simp: wp_value)
  obtain r s' where r: "processor job s0 = (r, s')" by fastforce
  have gauge: "gauge_value (cs @ recordJobStart jobName @ recordJobCompleted jobName d) ''jobs_active'' ls = gauge_value cs ''jobs_active'' ls"
    "gauge_value (cs @ recordJobStart jobName @ recordJobFailed jobName d n) ''jobs_active'' ls = gauge_value cs ''jobs_active'' ls" for cs d n
    by (simp_all add: gauge_append recordJobStart_def recordJobCompleted_def recordJobFailed_def call_def)
  show ?thesis
  proof (cases r)
    case (Inl e)
    with c r show ?thesis
      by (intro exI [of _ i] exI [of _ s0] exI [of _ b0] exI [of _ "of_int (te_now T s' - te_now T s0) / 1000"])
        (simp add: wrapProcessor_def bindE_def seqE_def catchE_def getL_def modL_def liftL_def readE_def record_calls_def log_info_def
          log_error_def log_at_def returnE_def throwE_def Let_def map_of_delete gauge)
  next
    case (Inr v)
    with c r show ?thesis
      by (intro exI [of _ i] exI [of _ s0] exI [of _ b0] exI [of _ "of_int (te_now T s' - te_now T s0) / 1000"])
        (simp add: wrapProcessor_def bindE_def seqE_def catchE_def getL_def modL_def liftL_def readE_def record_calls_def log_info_def
          log_error_def log_at_def returnE_def throwE_def Let_def map_of_delete gauge)
  qed
qed

text \<open>
  The data of a job is logged without the values of its own sensitive fields, and otherwise as it is; a nested object is
  logged with them.
\<close>

theorem sanitize_own_fields:
  "sanitizeJobData (Some (JObj ps)) = Some (JObj (redact ps)) \<and>
   map_of (redact ps) k = (if List.member sensitiveFields k \<and> map_of ps k \<noteq> None then Some (JStr ''[REDACTED]'') else map_of ps k)"
  by (simp add: map_of_redact)

end
