(* ===== verification/Presence.thy ===== *)
theory Presence
  imports Ext_Redis Js_Json
begin

text \<open>
  The presence gateway of web sockets, the fallback of its Redis adapter, and the health checks (src/Backend/src/websocket and
  src/Backend/src/health/health.controller.ts). Presence is kept in Redis, with the client of \<open>Ext_Redis\<close>; the rooms of the
  server and what it emits are the second half of the state.
\<close>

section \<open>PresenceService\<close>

definition onlineKey :: string where
  "onlineKey = ''presence:online''"

definition socketKey :: "string \<Rightarrow> string" where
  "socketKey userId = ''user:'' @ userId @ '':socket''"

definition roomKey :: "string \<Rightarrow> string" where
  "roomKey roomId = ''room:'' @ roomId @ '':users''"

definition userConnected :: "('s, 'j) redis \<Rightarrow> string \<Rightarrow> string \<Rightarrow> ('s, unit) prog" where
  "userConnected R userId socketId =
     seqE (r_sAdd R onlineKey userId) (r_set R (socketKey userId) (Txt socketId) None)"

definition userDisconnected :: "('s, 'j) redis \<Rightarrow> string \<Rightarrow> ('s, unit) prog" where
  "userDisconnected R userId = seqE (r_sRem R onlineKey userId) (ignoreE (r_del R [socketKey userId]))"

definition joinRoom :: "('s, 'j) redis \<Rightarrow> string \<Rightarrow> string \<Rightarrow> ('s, unit) prog" where
  "joinRoom R userId roomId = r_sAdd R (roomKey roomId) userId"

definition getRoomUsers :: "('s, 'j) redis \<Rightarrow> string \<Rightarrow> ('s, string list) prog" where
  "getRoomUsers R roomId = r_sMembers R (roomKey roomId)"

section \<open>WebsocketGateway\<close>

datatype emission = PresenceUpdate string "string list" | RoomMessage string string

text \<open>The rooms of the server, as pairs of a room and a socket, and what was emitted to which room.\<close>

record io_server =
  io_rooms :: "(string \<times> string) list"
  io_emitted :: "(string \<times> emission) list"

text \<open>
  A socket whose handshake names its user. The gateway does not check that it does: without a \<open>userId\<close> the value \<open>undefined\<close>
  would reach the Redis client, whose answer to it is not described here.
\<close>

record io_client =
  cl_id :: string
  cl_userId :: string

definition emit_to :: "string \<Rightarrow> emission \<Rightarrow> ('s \<times> io_server, unit) prog" where
  "emit_to roomId e = modL (\<lambda>v. v\<lparr>io_emitted := io_emitted v @ [(roomId, e)]\<rparr>)"

definition presence_connect :: "('s, 'j) redis \<Rightarrow> io_client \<Rightarrow> ('s \<times> io_server, unit) prog" where
  "presence_connect R client = liftL (userConnected R (cl_userId client) (cl_id client))"

text \<open>The server drops a closed socket from its rooms by itself.\<close>

definition presence_disconnect :: "('s, 'j) redis \<Rightarrow> io_client \<Rightarrow> ('s \<times> io_server, unit) prog" where
  "presence_disconnect R client =
     seqE (modL (\<lambda>v. v\<lparr>io_rooms := filter (\<lambda>p. snd p \<noteq> cl_id client) (io_rooms v)\<rparr>))
       (liftL (userDisconnected R (cl_userId client)))"

definition presence_joinRoom :: "('s, 'j) redis \<Rightarrow> io_client \<Rightarrow> string \<Rightarrow> ('s \<times> io_server, unit) prog" where
  "presence_joinRoom R client roomId =
     seqE (liftL (joinRoom R (cl_userId client) roomId))
     (seqE (modL (\<lambda>v. v\<lparr>io_rooms := List.insert (roomId, cl_id client) (io_rooms v)\<rparr>))
     (bindE (liftL (getRoomUsers R roomId)) (\<lambda>users. emit_to roomId (PresenceUpdate roomId users))))"

definition presence_message :: "io_client \<Rightarrow> string \<Rightarrow> string \<Rightarrow> ('s \<times> io_server, unit) prog" where
  "presence_message client roomId message = emit_to roomId (RoomMessage roomId message)"

section \<open>RedisIoAdapter\<close>

text \<open>The reconnect strategy: a delay in milliseconds, or giving up.\<close>

definition reconnectStrategy :: "nat \<Rightarrow> exn + nat" where
  "reconnectStrategy retries =
     (let maxRetries = 5 in
      if maxRetries \<le> retries then Inl (Error ''Redis connection max retries reached'')
      else Inr (min (1000 * 2 ^ retries) 30000))"

text \<open>\<open>connectToRedis\<close> keeps an adapter exactly when both clients connect; without one the server runs in memory.\<close>

definition connectToRedis :: "('s, unit) prog \<Rightarrow> ('s, unit) prog \<Rightarrow> ('s, bool) prog" where
  "connectToRedis connectPub connectSub =
     catchE (bindE (promise_all [connectPub, connectSub]) (\<lambda>_. returnE True)) (\<lambda>error. returnE False)"

section \<open>HealthController\<close>

record health_check =
  hc_status :: string
  hc_message :: "string option"
  hc_monitor :: "(bool \<times> int \<times> string) option"

record readiness =
  rd_status :: string
  rd_timestamp :: string
  rd_database :: health_check
  rd_redis :: health_check
  rd_monitor :: health_check

abbreviation check_ok :: health_check where
  "check_ok \<equiv> \<lparr>hc_status = ''ok'', hc_message = None, hc_monitor = None\<rparr>"

abbreviation check_failed :: "exn \<Rightarrow> health_check" where
  "check_failed e \<equiv> \<lparr>hc_status = ''error'', hc_message = Some (exn_message e), hc_monitor = None\<rparr>"

definition getLiveness :: "int \<Rightarrow> string \<times> string" where
  "getLiveness now = (''ok'', toISOString now)"

definition run_check :: "('s, unit) prog \<Rightarrow> ('s, health_check) prog" where
  "run_check m = catchE (seqE m (returnE check_ok)) (\<lambda>err. returnE (check_failed err))"

text \<open>
  \<open>monitoring\<close> is what \<open>getStatus\<close> of the Stellar monitor says: whether it runs, its last ledger and its server. The answer is
  the value, with \<open>Inl\<close> for the exception 503 that carries it.
\<close>

definition getReadiness :: "('s, unit) prog \<Rightarrow> ('s, unit) prog \<Rightarrow> (exn + bool \<times> int \<times> string) \<Rightarrow> ('s \<Rightarrow> int) \<Rightarrow>
    ('s, readiness + readiness) prog" where
  "getReadiness query ping monitoring now =
     bindE (run_check query) (\<lambda>database. bindE (run_check ping) (\<lambda>redis. bindE (readE now) (\<lambda>t.
       let stellarMonitor = (case monitoring of Inl e \<Rightarrow> check_failed e
             | Inr (isMonitoring, ledger, url) \<Rightarrow> \<lparr>hc_status = (if isMonitoring then ''ok'' else ''degraded''), hc_message = None,
                 hc_monitor = Some (isMonitoring, ledger, url)\<rparr>);
           allHealthy = (hc_status database = ''ok'' \<and> hc_status redis = ''ok'');
           response = \<lparr>rd_status = (if allHealthy then ''ok'' else ''error''), rd_timestamp = toISOString t,
             rd_database = database, rd_redis = redis, rd_monitor = stellarMonitor\<rparr> in
       returnE (if allHealthy then Inr response else Inl response))))"

section \<open>Lemmas\<close>

lemma presence_keys [simp]:
  "socketKey u \<noteq> onlineKey" "roomKey r \<noteq> onlineKey" "socketKey u \<noteq> roomKey r" "onlineKey \<noteq> socketKey u"
  "onlineKey \<noteq> roomKey r" "roomKey r \<noteq> socketKey u" "socketKey u = socketKey v \<longleftrightarrow> u = v" "roomKey r = roomKey q \<longleftrightarrow> r = q"
  by (auto simp: socketKey_def onlineKey_def roomKey_def)

text \<open>The keys have their types, and a user is online exactly when a socket is stored for it.\<close>

definition presence_ok :: "('s \<Rightarrow> string \<Rightarrow> 'j rcell option) \<Rightarrow> 's \<Rightarrow> bool" where
  "presence_ok cell s \<longleftrightarrow> \<not> is_rtext (cell s onlineKey) \<and> (\<forall>r. \<not> is_rtext (cell s (roomKey r))) \<and>
     (\<forall>u. u \<in> cell_members (cell s onlineKey) \<longleftrightarrow> cell s (socketKey u) \<noteq> None)"

datatype presence_event = Connect io_client | Disconnect io_client | JoinRoom io_client string | SendMessage io_client string string

fun presence_step :: "('s, 'j) redis \<Rightarrow> presence_event \<Rightarrow> ('s \<times> io_server, unit) prog" where
  "presence_step R (Connect c) = presence_connect R c"
| "presence_step R (Disconnect c) = presence_disconnect R c"
| "presence_step R (JoinRoom c r) = presence_joinRoom R c r"
| "presence_step R (SendMessage c r m) = presence_message c r m"

context redis_store
begin

lemma connect_wp:
  assumes "presence_ok cell s"
  shows "wp (userConnected R u i) (\<lambda>_ t. presence_ok cell t \<and> u \<in> cell_members (cell t onlineKey)
     \<and> cell t (socketKey u) = Some (RText (Txt i)) \<and> (\<forall>r. cell t (roomKey r) = cell s (roomKey r))) (\<lambda>_ _. False) s"
  using assms by (auto simp: userConnected_def wp_simps wp_sAdd wp_set set_cell [of None, simplified] sAdd_cell presence_ok_def)

lemma disconnect_wp:
  assumes "presence_ok cell s"
  shows "wp (userDisconnected R u) (\<lambda>_ t. presence_ok cell t \<and> u \<notin> cell_members (cell t onlineKey)
     \<and> cell t (socketKey u) = None \<and> (\<forall>r. cell t (roomKey r) = cell s (roomKey r))) (\<lambda>_ _. False) s"
  using assms by (auto simp: userDisconnected_def wp_simps wp_sRem wp_del del_cell sRem_cell presence_ok_def)

lemma join_wp:
  assumes "presence_ok cell s"
  shows "wp (presence_joinRoom R c r) (\<lambda>_ p. presence_ok cell (fst p) \<and> cl_userId c \<in> cell_members (cell (fst p) (roomKey r))
     \<and> (\<exists>us. io_emitted (snd p) = io_emitted v @ [(r, PresenceUpdate r us)] \<and> set us = cell_members (cell (fst p) (roomKey r))))
     (\<lambda>_ _. False) (s, v)"
proof -
  have room: "\<not> is_rtext (cell s (roomKey r))" using assms by (simp add: presence_ok_def)
  let ?t = "fin (r_sAdd R (roomKey r) (cl_userId c)) s"
  have t: "cell ?t = (cell s)(roomKey r \<mapsto> RSet (insert (cl_userId c) (cell_members (cell s (roomKey r)))))"
    by (rule sAdd_cell [OF room])
  then have ok: "presence_ok cell ?t" using assms by (auto simp: presence_ok_def)
  show ?thesis
    by (simp add: presence_joinRoom_def joinRoom_def getRoomUsers_def emit_to_def wp_simps wp_sAdd [OF room])
      (rule wp_sMembers, use t ok in \<open>auto simp: presence_ok_def\<close>)
qed

lemma presence_step_ok:
  assumes "presence_ok cell (fst p)"
  shows "wp (presence_step R e) (\<lambda>_ q. presence_ok cell (fst q)) (\<lambda>_ _. False) p"
proof (cases e)
  case (Connect c)
  show ?thesis unfolding Connect presence_step.simps presence_connect_def wp_simps
    by (rule wp_mono [OF connect_wp [OF assms]]) simp_all
next
  case (Disconnect c)
  show ?thesis unfolding Disconnect presence_step.simps presence_disconnect_def wp_simps
    by (rule wp_mono [OF disconnect_wp]) (use assms in simp_all)
next
  case (JoinRoom c r)
  show ?thesis unfolding JoinRoom presence_step.simps
    by (rule wp_mono [OF join_wp [OF assms, of c r "snd p", simplified]]) simp_all
next
  case (SendMessage c r m)
  then show ?thesis using assms by (simp add: presence_message_def emit_to_def wp_simps)
qed

end

section \<open>Properties\<close>

text \<open>
  C38. Presence is consistent: after any sequence of connections, disconnections, joins and messages, none of which throws, the
  set of users online holds exactly the users a socket is stored for.
\<close>

theorem presence_consistent:
  assumes "redis_store R cell ttl" and "presence_ok cell s"
  shows "\<exists>t w. forE events (presence_step R) (s, v) = (Inr (), (t, w)) \<and> presence_ok cell t"
proof -
  have "wp (forE events (presence_step R)) (\<lambda>_ q. presence_ok cell (fst q)) (\<lambda>_ _. False) p" if "presence_ok cell (fst p)" for p
    using that
  proof (induction events arbitrary: p)
    case (Cons e es)
    show ?case
      unfolding forE.simps wp_simps
      by (rule wp_mono [OF redis_store.presence_step_ok [OF assms(1) Cons.prems]]) (auto intro: Cons.IH)
  qed (simp add: wp_simps)
  from this [of "(s, v)"] assms(2) show ?thesis by (auto simp: wp_value)
qed

definition two_sockets :: "presence_event list" where
  "two_sockets = [Connect \<lparr>cl_id = ''s1'', cl_userId = ''u1''\<rparr>, Connect \<lparr>cl_id = ''s2'', cl_userId = ''u1''\<rparr>]"

definition no_cells :: "unit rstore" where
  "no_cells = \<lparr>rs_cells = [], rs_ttl = []\<rparr>"

lemma no_cells_ok: "presence_ok mem_cell no_cells"
  by (simp add: presence_ok_def no_cells_def mem_cell_def)

theorem presence_consistent_witness:
  "\<exists>t w. forE two_sockets (presence_step mem_redis) (no_cells, \<lparr>io_rooms = [], io_emitted = []\<rparr>) = (Inr (), (t, w))
     \<and> presence_ok mem_cell t"
  by (rule presence_consistent [OF mem_redis_store no_cells_ok])

text \<open>
  One socket of several takes its user offline: when a user connects with two sockets and closes either of them, the user is
  no longer online and no socket is stored, while the other socket is still open; the rooms the user joined keep it.
\<close>

theorem second_socket_lost:
  assumes "redis_store R cell ttl" and "presence_ok cell s" and "cl_userId d = cl_userId c"
    and "x = c \<or> x = d"
  shows "\<exists>t w. seqE (presence_connect R c) (seqE (presence_connect R d) (seqE (presence_joinRoom R c r) (presence_disconnect R x))) (s, v)
      = (Inr (), (t, w))
    \<and> cl_userId c \<notin> cell_members (cell t onlineKey) \<and> cell t (socketKey (cl_userId c)) = None
    \<and> cl_userId c \<in> cell_members (cell t (roomKey r))"
proof -
  let ?u = "cl_userId c"
  let ?Q = "\<lambda>_ q. ?u \<notin> cell_members (cell (fst q) onlineKey) \<and> cell (fst q) (socketKey ?u) = None
    \<and> ?u \<in> cell_members (cell (fst q) (roomKey r))"
  have leave: "wp (presence_disconnect R x) ?Q (\<lambda>_ _. False) p"
    if "presence_ok cell (fst p) \<and> ?u \<in> cell_members (cell (fst p) (roomKey r))" for p
    unfolding presence_disconnect_def wp_simps
    by (rule wp_mono [OF redis_store.disconnect_wp [OF assms(1)]]) (use that assms(3,4) in auto)
  have join: "wp (presence_joinRoom R c r) (\<lambda>_. wp (presence_disconnect R x) ?Q (\<lambda>_ _. False)) (\<lambda>_ _. False) p"
    if "presence_ok cell (fst p)" for p
    using redis_store.join_wp [OF assms(1) that, of c r "snd p"] by (simp, elim wp_mono) (auto intro!: leave)
  have connect: "wp (presence_connect R c') (\<lambda>_ q. presence_ok cell (fst q)) (\<lambda>_ _. False) p" if "presence_ok cell (fst p)" for c' p
    using redis_store.presence_step_ok [OF assms(1) that, of "Connect c'"] by simp
  have "wp (seqE (presence_connect R c) (seqE (presence_connect R d) (seqE (presence_joinRoom R c r) (presence_disconnect R x))))
      ?Q (\<lambda>_ _. False) (s, v)"
    unfolding wp_seqE
  proof (rule wp_mono [OF connect], goal_cases)
    case (2 u q)
    show ?case by (rule wp_mono [OF connect]) (use 2 in \<open>auto intro!: join\<close>)
  qed (use assms(2) in simp_all)
  then show ?thesis by (auto simp: wp_value)
qed

theorem second_socket_lost_witness:
  "\<exists>t w. seqE (presence_connect mem_redis \<lparr>cl_id = ''s1'', cl_userId = ''u1''\<rparr>)
      (seqE (presence_connect mem_redis \<lparr>cl_id = ''s2'', cl_userId = ''u1''\<rparr>)
      (seqE (presence_joinRoom mem_redis \<lparr>cl_id = ''s1'', cl_userId = ''u1''\<rparr> ''r1'')
        (presence_disconnect mem_redis \<lparr>cl_id = ''s2'', cl_userId = ''u1''\<rparr>)))
      (no_cells, \<lparr>io_rooms = [], io_emitted = []\<rparr>) = (Inr (), (t, w))
    \<and> ''u1'' \<notin> cell_members (mem_cell t onlineKey) \<and> mem_cell t (socketKey ''u1'') = None
    \<and> ''u1'' \<in> cell_members (mem_cell t (roomKey ''r1''))"
  using second_socket_lost [OF mem_redis_store no_cells_ok, of "\<lparr>cl_id = ''s2'', cl_userId = ''u1''\<rparr>"
      "\<lparr>cl_id = ''s1'', cl_userId = ''u1''\<rparr>" "\<lparr>cl_id = ''s2'', cl_userId = ''u1''\<rparr>" "''r1''"] by simp

text \<open>
  The service is ready exactly when the database and Redis both answer; a Stellar monitor that is stopped or fails is reported
  and changes nothing.
\<close>

theorem readiness_decides:
  "\<exists>resp t. getReadiness query ping monitoring now s = (Inr resp, t)
    \<and> (isl resp \<longleftrightarrow> isl (fst (query s)) \<or> isl (fst (ping (snd (query s)))))
    \<and> (case resp of Inl r \<Rightarrow> rd_status r = ''error'' | Inr r \<Rightarrow> rd_status r = ''ok'')"
proof -
  obtain a s1 where q: "query s = (a, s1)" by fastforce
  obtain b s2 where p: "ping s1 = (b, s2)" by fastforce
  show ?thesis
    by (cases a; cases b) (simp_all add: getReadiness_def run_check_def catchE_def seqE_def bindE_def returnE_def readE_def q p Let_def)
qed

text \<open>The delays of the reconnection double from one second, stay within thirty, and end after the fifth attempt.\<close>

theorem reconnect_bounded:
  "(case reconnectStrategy n of Inl e \<Rightarrow> 5 \<le> n | Inr d \<Rightarrow> n < 5 \<and> d = 1000 * 2 ^ n \<and> d \<le> 16000)"
proof -
  have "(2 :: nat) ^ n \<le> 16" if "n < 5" using that power_increasing [of n 4 "2 :: nat"] by simp
  then show ?thesis by (auto simp: reconnectStrategy_def Let_def)
qed

end
