(* ===== verification/Http_Api.thy ===== *)
theory Http_Api
  imports Auth_Flow Rate_Limit Workflow_Admin App_Modules
begin

text \<open>
  Which request reaches which handler: the modules that make up the application, the controllers they declare with the
  decorators of their handlers (\<open>@UseGuards\<close>, \<open>@Roles\<close>, \<open>@RateLimit\<close>), and the guards in front of a handler. The guards
  themselves are those of \<open>Auth_Flow\<close> and \<open>Rate_Limit\<close>. The framework runs the global guards, then those of the
  controller, then those of the handler; that is the locale \<open>guard_runner\<close>.
\<close>

section \<open>Roles and permissions\<close>

datatype Role = USER | MODERATOR | ADMIN | SUPERADMIN

fun role_text :: "Role \<Rightarrow> string" where
  "role_text USER = ''user''"
| "role_text MODERATOR = ''moderator''"
| "role_text ADMIN = ''admin''"
| "role_text SUPERADMIN = ''superadmin''"

datatype Permission = VIEW_AUDIT_LOGS | REQUEUE_JOBS | REGISTER_WEBHOOKS | MODERATE_CONTENT

definition permission_values :: "Permission list" where
  "permission_values = [VIEW_AUDIT_LOGS, REQUEUE_JOBS, REGISTER_WEBHOOKS, MODERATE_CONTENT]"

fun RBAC_CONFIG :: "Role \<Rightarrow> Permission list" where
  "RBAC_CONFIG USER = []"
| "RBAC_CONFIG MODERATOR = [MODERATE_CONTENT]"
| "RBAC_CONFIG ADMIN = [MODERATE_CONTENT, VIEW_AUDIT_LOGS, REQUEUE_JOBS]"
| "RBAC_CONFIG SUPERADMIN = permission_values"

section \<open>Decorated handlers\<close>

text \<open>\<open>GRoles\<close> is the guard of src/guards, \<open>GThrottle\<close> that of src/throttle, the others those of src/auth/guards.\<close>

datatype guard = GRoles | GThrottle | GRateLimit | GJwt

record endpoint =
  ep_route :: route
  ep_guards :: "guard list"
  ep_roles :: "string list option"
  ep_rateLimit :: "RateLimitOptions option"

record controller =
  ct_name :: string
  ct_prefix :: "segment list"
  ct_guards :: "guard list"
  ct_endpoints :: "endpoint list"

definition handler :: "http_method \<Rightarrow> string \<Rightarrow> string \<Rightarrow> endpoint" where
  "handler m p h = \<lparr>ep_route = at_route m (path_of p) h, ep_guards = [], ep_roles = None, ep_rateLimit = None\<rparr>"

definition UseGuards :: "guard list \<Rightarrow> endpoint \<Rightarrow> endpoint" where
  "UseGuards gs e = e\<lparr>ep_guards := gs\<rparr>"

definition Roles :: "Role list \<Rightarrow> endpoint \<Rightarrow> endpoint" where
  "Roles rs e = e\<lparr>ep_roles := Some (map role_text rs)\<rparr>"

definition RateLimit :: "int \<Rightarrow> int \<Rightarrow> string \<Rightarrow> endpoint \<Rightarrow> endpoint" where
  "RateLimit limit windowSeconds keyPrefix e =
     e\<lparr>ep_rateLimit := Some \<lparr>ro_limit = limit, ro_windowSeconds = windowSeconds, ro_keyPrefix = Some keyPrefix\<rparr>\<rparr>"

subsection \<open>AuthController\<close>

definition nonce_endpoint :: endpoint where
  "nonce_endpoint = RateLimit 5 60 ''nonce'' (handler POST ''nonce'' ''requestNonce'')"

definition login_endpoint :: endpoint where
  "login_endpoint = RateLimit 5 60 ''login'' (handler POST ''wallet/login'' ''walletLogin'')"

definition refresh_endpoint :: endpoint where
  "refresh_endpoint = RateLimit 10 60 ''refresh'' (handler POST ''refresh'' ''refreshToken'')"

definition logout_endpoint :: endpoint where
  "logout_endpoint = UseGuards [GJwt] (handler POST ''logout'' ''logout'')"

definition me_endpoint :: endpoint where
  "me_endpoint = UseGuards [GJwt] (handler GET ''me'' ''getCurrentUser'')"

definition bind_endpoint :: endpoint where
  "bind_endpoint = UseGuards [GJwt] (handler POST ''wallet/bind'' ''bindWallet'')"

definition unbind_endpoint :: endpoint where
  "unbind_endpoint = UseGuards [GJwt] (handler DELETE ''wallet/unbind'' ''unbindWallet'')"

definition createToken_endpoint :: endpoint where
  "createToken_endpoint = UseGuards [GJwt] (handler POST ''api-token'' ''createApiToken'')"

definition listTokens_endpoint :: endpoint where
  "listTokens_endpoint = UseGuards [GJwt] (handler GET ''api-token'' ''listApiTokens'')"

definition revokeToken_endpoint :: endpoint where
  "revokeToken_endpoint = UseGuards [GJwt] (handler DELETE ''api-token/:id'' ''revokeApiToken'')"

definition AuthController :: controller where
  "AuthController = \<lparr>ct_name = ''AuthController'', ct_prefix = path_of ''auth'', ct_guards = [GRateLimit],
     ct_endpoints = [nonce_endpoint, login_endpoint, refresh_endpoint, logout_endpoint, me_endpoint, bind_endpoint,
       unbind_endpoint, createToken_endpoint, listTokens_endpoint, revokeToken_endpoint]\<rparr>"

subsection \<open>Operators\<close>

definition audit_getLogs_endpoint :: endpoint where
  "audit_getLogs_endpoint = handler GET ''logs'' ''getLogs''"

definition AuditController :: controller where
  "AuditController = \<lparr>ct_name = ''AuditController'', ct_prefix = path_of ''admin/audit'', ct_guards = [GJwt, GRoles],
     ct_endpoints = [Roles [ADMIN] (audit_getLogs_endpoint)]\<rparr>"

definition admin_getAuditLogs_endpoint :: endpoint where
  "admin_getAuditLogs_endpoint = handler GET ''audit-logs'' ''getAuditLogs''"

definition admin_requeueJob_endpoint :: endpoint where
  "admin_requeueJob_endpoint = handler POST ''job-requeue'' ''requeueJob''"

definition admin_moderateContent_endpoint :: endpoint where
  "admin_moderateContent_endpoint = handler POST ''moderate-content'' ''moderateContent''"

definition admin_registerWebhook_endpoint :: endpoint where
  "admin_registerWebhook_endpoint = handler POST ''webhooks'' ''registerWebhook''"

definition AdminController :: controller where
  "AdminController = \<lparr>ct_name = ''AdminController'', ct_prefix = path_of ''admin'', ct_guards = [],
     ct_endpoints = [Roles [ADMIN, SUPERADMIN] (admin_getAuditLogs_endpoint),
       Roles [ADMIN, SUPERADMIN] (admin_requeueJob_endpoint),
       Roles [MODERATOR, ADMIN, SUPERADMIN] (admin_moderateContent_endpoint),
       Roles [SUPERADMIN] (admin_registerWebhook_endpoint)]\<rparr>"

text \<open>The handlers of \<open>AdminController\<close> answer with a fixed message.\<close>

definition admin_message :: "string \<Rightarrow> string option" where
  "admin_message h = map_of [(''getAuditLogs'', ''Audit logs accessed''), (''requeueJob'', ''Job requeued''),
     (''moderateContent'', ''Content moderated''), (''registerWebhook'', ''Webhook registered'')] h"

definition queue_getAllQueueStats_endpoint :: endpoint where
  "queue_getAllQueueStats_endpoint = handler GET ''/'' ''getAllQueueStats''"

definition queue_getQueueStats_endpoint :: endpoint where
  "queue_getQueueStats_endpoint = handler GET ''/stats/:queueName'' ''getQueueStats''"

definition queue_getQueueJobs_endpoint :: endpoint where
  "queue_getQueueJobs_endpoint = handler GET ''/:queueName/jobs'' ''getQueueJobs''"

definition queue_getJob_endpoint :: endpoint where
  "queue_getJob_endpoint = handler GET ''/:queueName/jobs/:jobId'' ''getJob''"

definition queue_getDeadLetterQueue_endpoint :: endpoint where
  "queue_getDeadLetterQueue_endpoint = handler GET ''/:queueName/dlq'' ''getDeadLetterQueue''"

definition queue_requeueJob_endpoint :: endpoint where
  "queue_requeueJob_endpoint = handler POST ''/:queueName/jobs/:jobId/requeue'' ''requeueJob''"

definition queue_requeueFromDLQ_endpoint :: endpoint where
  "queue_requeueFromDLQ_endpoint = handler POST ''/:queueName/dlq/requeue'' ''requeueFromDLQ''"

definition queue_purgeQueue_endpoint :: endpoint where
  "queue_purgeQueue_endpoint = handler POST ''/:queueName/purge'' ''purgeQueue''"

definition QueueAdminController :: controller where
  "QueueAdminController = \<lparr>ct_name = ''QueueAdminController'', ct_prefix = path_of ''admin/queue'', ct_guards = [],
     ct_endpoints = [queue_getAllQueueStats_endpoint, queue_getQueueStats_endpoint,
       queue_getQueueJobs_endpoint, queue_getJob_endpoint,
       queue_getDeadLetterQueue_endpoint, queue_requeueJob_endpoint,
       queue_requeueFromDLQ_endpoint, queue_purgeQueue_endpoint]\<rparr>"

definition WorkflowAdminController :: controller where
  "WorkflowAdminController = \<lparr>ct_name = ''WorkflowAdminController'', ct_prefix = path_of ''admin/workflows'', ct_guards = [],
     ct_endpoints = map (\<lambda>r. \<lparr>ep_route = r, ep_guards = [], ep_roles = None, ep_rateLimit = None\<rparr>) admin_routes\<rparr>"

subsection \<open>The other controllers\<close>

definition createConsumer_endpoint :: endpoint where
  "createConsumer_endpoint = handler POST ''consumers'' ''createConsumer''"

definition getConsumers_endpoint :: endpoint where
  "getConsumers_endpoint = handler GET ''consumers'' ''getConsumers''"

definition getConsumer_endpoint :: endpoint where
  "getConsumer_endpoint = handler GET ''consumers/:id'' ''getConsumer''"

definition updateConsumer_endpoint :: endpoint where
  "updateConsumer_endpoint = handler PUT ''consumers/:id'' ''updateConsumer''"

definition deleteConsumer_endpoint :: endpoint where
  "deleteConsumer_endpoint = handler DELETE ''consumers/:id'' ''deleteConsumer''"

definition activateConsumer_endpoint :: endpoint where
  "activateConsumer_endpoint = handler POST ''consumers/:id/activate'' ''activateConsumer''"

definition deactivateConsumer_endpoint :: endpoint where
  "deactivateConsumer_endpoint = handler POST ''consumers/:id/deactivate'' ''deactivateConsumer''"

definition testConsumer_endpoint :: endpoint where
  "testConsumer_endpoint = handler POST ''consumers/:id/test'' ''testConsumer''"

definition consumer_endpoints :: "endpoint list" where
  "consumer_endpoints =
     [createConsumer_endpoint, getConsumers_endpoint,
      getConsumer_endpoint, updateConsumer_endpoint,
      deleteConsumer_endpoint, activateConsumer_endpoint,
      deactivateConsumer_endpoint, testConsumer_endpoint]"

definition getEvents_endpoint :: endpoint where
  "getEvents_endpoint = handler GET ''events'' ''getEvents''"

definition getEvent_endpoint :: endpoint where
  "getEvent_endpoint = handler GET ''events/:id'' ''getEvent''"

definition getStats_endpoint :: endpoint where
  "getStats_endpoint = handler GET ''stats'' ''getStats''"

definition event_endpoints :: "endpoint list" where
  "event_endpoints =
     [getEvents_endpoint, getEvent_endpoint, getStats_endpoint]"

definition startMonitoring_endpoint :: endpoint where
  "startMonitoring_endpoint = handler POST ''monitor/start'' ''startMonitoring''"

definition stopMonitoring_endpoint :: endpoint where
  "stopMonitoring_endpoint = handler POST ''monitor/stop'' ''stopMonitoring''"

definition getMonitoringStatus_endpoint :: endpoint where
  "getMonitoringStatus_endpoint = handler GET ''monitor/status'' ''getMonitoringStatus''"

definition simulatePayment_endpoint :: endpoint where
  "simulatePayment_endpoint = handler POST ''simulate/payment'' ''simulatePayment''"

definition simulateOffer_endpoint :: endpoint where
  "simulateOffer_endpoint = handler POST ''simulate/offer'' ''simulateOffer''"

definition monitor_endpoints :: "endpoint list" where
  "monitor_endpoints =
     [startMonitoring_endpoint, stopMonitoring_endpoint,
      getMonitoringStatus_endpoint, simulatePayment_endpoint,
      simulateOffer_endpoint]"

definition StellarMonitorController :: controller where
  "StellarMonitorController = \<lparr>ct_name = ''StellarMonitorController'', ct_prefix = path_of ''api/stellar'', ct_guards = [],
     ct_endpoints = consumer_endpoints @ event_endpoints @ monitor_endpoints\<rparr>"

definition market_getMarketSnapshot_endpoint :: endpoint where
  "market_getMarketSnapshot_endpoint = handler GET ''snapshot'' ''getMarketSnapshot''"

definition market_getNews_endpoint :: endpoint where
  "market_getNews_endpoint = handler GET ''news'' ''getNews''"

definition market_getCacheStats_endpoint :: endpoint where
  "market_getCacheStats_endpoint = handler GET ''cache/stats'' ''getCacheStats''"

definition market_getMarketDataCacheStats_endpoint :: endpoint where
  "market_getMarketDataCacheStats_endpoint = handler GET ''cache/stats/market'' ''getMarketDataCacheStats''"

definition market_getNewsCacheStats_endpoint :: endpoint where
  "market_getNewsCacheStats_endpoint = handler GET ''cache/stats/news'' ''getNewsCacheStats''"

definition market_invalidateCache_endpoint :: endpoint where
  "market_invalidateCache_endpoint = handler POST ''cache/invalidate'' ''invalidateCache''"

definition market_invalidateMarketCache_endpoint :: endpoint where
  "market_invalidateMarketCache_endpoint = handler POST ''cache/invalidate/market'' ''invalidateMarketCache''"

definition market_invalidateNewsCache_endpoint :: endpoint where
  "market_invalidateNewsCache_endpoint = handler POST ''cache/invalidate/news'' ''invalidateNewsCache''"

definition MarketDataController :: controller where
  "MarketDataController = \<lparr>ct_name = ''MarketDataController'', ct_prefix = path_of ''market-data'', ct_guards = [],
     ct_endpoints = [market_getMarketSnapshot_endpoint, market_getNews_endpoint,
       market_getCacheStats_endpoint, market_getMarketDataCacheStats_endpoint,
       market_getNewsCacheStats_endpoint, market_invalidateCache_endpoint,
       market_invalidateMarketCache_endpoint,
       market_invalidateNewsCache_endpoint]\<rparr>"

definition AiController :: controller where
  "AiController = \<lparr>ct_name = ''AiController'', ct_prefix = path_of ''ai'', ct_guards = [],
     ct_endpoints = [handler POST ''prompt'' ''prompt'']\<rparr>"

definition voice_uploadAudio_endpoint :: endpoint where
  "voice_uploadAudio_endpoint = handler POST ''stt/upload'' ''uploadAudio''"

definition voice_generateTTS_endpoint :: endpoint where
  "voice_generateTTS_endpoint = handler POST ''tts/generate'' ''generateTTS''"

definition voice_getJobStatus_endpoint :: endpoint where
  "voice_getJobStatus_endpoint = handler GET ''job/:id'' ''getJobStatus''"

definition voice_getJobResult_endpoint :: endpoint where
  "voice_getJobResult_endpoint = handler GET ''job/:id/result'' ''getJobResult''"

definition VoiceController :: controller where
  "VoiceController = \<lparr>ct_name = ''VoiceController'', ct_prefix = path_of ''voice'', ct_guards = [],
     ct_endpoints = [voice_uploadAudio_endpoint, voice_generateTTS_endpoint,
       voice_getJobStatus_endpoint, voice_getJobResult_endpoint]\<rparr>"

definition HealthController :: controller where
  "HealthController = \<lparr>ct_name = ''HealthController'', ct_prefix = path_of ''health'', ct_guards = [],
     ct_endpoints = [handler GET ''live'' ''getLiveness'', handler GET ''ready'' ''getReadiness'']\<rparr>"

definition MetricsController :: controller where
  "MetricsController = \<lparr>ct_name = ''MetricsController'', ct_prefix = path_of ''metrics'', ct_guards = [],
     ct_endpoints = [handler GET '''' ''getMetrics'']\<rparr>"

definition AppController :: controller where
  "AppController = \<lparr>ct_name = ''AppController'', ct_prefix = [], ct_guards = [],
     ct_endpoints = [handler GET '''' ''getHello'']\<rparr>"

subsection \<open>The application\<close>

definition declared_controllers :: "controller list" where
  "declared_controllers = [AppController, AuthController, StellarMonitorController, WorkflowAdminController,
     QueueAdminController, MarketDataController, AuditController, AiController, HealthController, AdminController,
     MetricsController, VoiceController]"

text \<open>The framework serves the controllers of the modules that \<open>AppModule\<close> reaches.\<close>

definition is_served :: "controller \<Rightarrow> bool" where
  "is_served c = List.member (concat (map md_controllers app_loaded)) (ct_name c)"

definition app_controllers :: "controller list" where
  "app_controllers = filter is_served declared_controllers"

text \<open>\<open>AppModule\<close> provides \<open>RolesGuard\<close> as \<open>APP_GUARD\<close>; \<open>bootstrap\<close> of main.ts adds \<open>ThrottleGuard\<close>.\<close>

definition app_guards :: "guard list" where
  "app_guards = [GRoles, GThrottle]"

section \<open>Guarding a request\<close>

record api_request =
  rq_path :: "string list"
  rq_ip :: string
  rq_remoteAddress :: string
  rq_authorization :: "string option"

text \<open>\<open>ap_bearer\<close> is passport's \<open>fromAuthHeaderAsBearerToken\<close>.\<close>

record ('s, 'j) api_env =
  ap_auth :: "'s auth_env"
  ap_rate :: "'s rate_env"
  ap_throttle :: "('s, 'j) throttle_env"
  ap_bearer :: "string option \<Rightarrow> string option"

type_synonym ('s, 'a) gprog = "('s \<times> request_user option, 'a) prog"

definition req_path :: "api_request \<Rightarrow> string" where
  "req_path rq = ''/'' @ js_join ''/'' (rq_path rq)"

text \<open>The guards share the request; the user is what \<open>JwtAuthGuard\<close> has attached to it.\<close>

definition run_guard :: "('s, 'j) api_env \<Rightarrow> endpoint \<Rightarrow> api_request \<Rightarrow> guard \<Rightarrow> ('s, unit) gprog" where
  "run_guard N e rq g = bindE getL (\<lambda>user. case g of
       GRoles \<Rightarrow> (case global_RolesGuard (ep_roles e) user of Inl x \<Rightarrow> throwE x | Inr _ \<Rightarrow> returnE ())
     | GThrottle \<Rightarrow> liftL (ignoreE (ThrottleGuard (ap_throttle N) (req_path rq) (rq_ip rq) (map_option ru_id user)))
     | GRateLimit \<Rightarrow> liftL (ignoreE (RateLimitGuard (ap_rate N) (ep_rateLimit e) (rt_handler (ep_route e)) (Some (rq_ip rq))
           (rq_remoteAddress rq)))
     | GJwt \<Rightarrow> (case ap_bearer N (rq_authorization rq) of
           None \<Rightarrow> throwE (UnauthorizedException ''Unauthorized'')
         | Some token \<Rightarrow> bindE (liftL (JwtAuthGuard (ap_auth N) token)) (\<lambda>u. modL (\<lambda>_. Some (jwt_request_user u)))))"

text \<open>Guards one after the other; the first that throws ends the request.\<close>

fun run_guards :: "('g \<Rightarrow> ('s, unit) prog) \<Rightarrow> 'g list \<Rightarrow> ('s, unit) prog" where
  "run_guards run [] = returnE ()"
| "run_guards run (g # gs) = seqE (run g) (run_guards run gs)"

text \<open>
  How the framework runs the guards: those that are installed globally, then the controller's, then the handler's.
\<close>

type_synonym ('g, 's) activation = "('g \<Rightarrow> ('s, unit) prog) \<Rightarrow> 'g list \<Rightarrow> 'g list \<Rightarrow> 'g list \<Rightarrow> ('s, unit) prog"

locale guard_runner =
  fixes activate :: "('g, 's) activation"
  assumes global_first: "activate run (g # gs) cs hs = seqE (run g) (activate run gs cs hs)"
    and controller_next: "activate run [] (c # cs) hs = seqE (run c) (activate run [] cs hs)"
    and handler_last: "activate run [] [] (h # hs) = seqE (run h) (activate run [] [] hs)"
    and all_passed: "activate run [] [] [] = returnE ()"
begin

lemma activate_run_guards: "activate run gs cs hs = run_guards run (gs @ cs @ hs)"
proof (induction gs)
  case Nil
  show ?case
  proof (induction cs)
    case Nil
    show ?case by (induction hs) (simp_all add: handler_last all_passed)
  qed (simp add: controller_next)
qed (simp add: global_first)

end

definition in_turn :: "('g, 's) activation" where
  "in_turn run gs cs hs = run_guards run (gs @ cs @ hs)"

interpretation turn: guard_runner in_turn
  by unfold_locales (simp_all add: in_turn_def)

definition admit :: "(guard, 's \<times> request_user option) activation \<Rightarrow> ('s, 'j) api_env \<Rightarrow> controller \<Rightarrow> endpoint \<Rightarrow>
    api_request \<Rightarrow> ('s, unit) gprog" where
  "admit activate N c e rq = activate (run_guard N e rq) app_guards (ct_guards c) (ep_guards e)"

text \<open>The handler runs with the user of the request once every guard has passed.\<close>

definition serve_http :: "(guard, 's \<times> request_user option) activation \<Rightarrow> ('s, 'j) api_env \<Rightarrow> controller \<Rightarrow> endpoint \<Rightarrow>
    api_request \<Rightarrow> (request_user option \<Rightarrow> ('s, 'a) prog) \<Rightarrow> ('s, 'a) prog" where
  "serve_http activate N c e rq respond = (\<lambda>s. case admit activate N c e rq (s, None) of
       (Inl x, (s', user)) \<Rightarrow> (Inl x, s') | (Inr _, (s', user)) \<Rightarrow> respond user s')"

section \<open>Properties\<close>

lemmas controller_tables = AppController_def AuthController_def StellarMonitorController_def WorkflowAdminController_def
  QueueAdminController_def MarketDataController_def AuditController_def AiController_def HealthController_def
  AdminController_def MetricsController_def VoiceController_def

text \<open>Only the operators' controllers use \<open>@Roles\<close>, and only three combinations of guards occur.\<close>

definition guard_shape :: "controller \<Rightarrow> endpoint \<Rightarrow> bool" where
  "guard_shape c e = (if ep_roles e = None
     then List.member [[], [GRateLimit], [GRateLimit, GJwt]] (ct_guards c @ ep_guards e)
     else ep_roles e \<noteq> Some [])"

lemma guard_shapes: "list_all (\<lambda>c. list_all (guard_shape c) (ct_endpoints c)) declared_controllers"
  by code_simp

lemma guard_shape_of: "c \<in> set declared_controllers \<Longrightarrow> e \<in> set (ct_endpoints c) \<Longrightarrow> guard_shape c e"
  using guard_shapes by (simp add: list_all_iff)

lemma app_controller_declared: "c \<in> set app_controllers \<Longrightarrow> c \<in> set declared_controllers"
  by (simp add: app_controllers_def)

lemma admit_eq:
  "guard_runner activate \<Longrightarrow>
     admit activate N c e rq = run_guards (run_guard N e rq) (app_guards @ ct_guards c @ ep_guards e)"
  by (simp add: admit_def guard_runner.activate_run_guards)

lemma roles_guard_refuses:
  assumes "ep_roles e \<noteq> None" and "ep_roles e \<noteq> Some []"
  shows "run_guards (run_guard N e rq) (app_guards @ gs) (s, None) = (Inl (ForbiddenException ''User role not found''), (s, None))"
  using assms
  by (cases "ep_roles e") (simp_all add: app_guards_def run_guard_def global_RolesGuard_def getL_def bindE_def seqE_def throwE_def)

lemma roles_guard_passes:
  assumes "ep_roles e = None"
  shows "run_guards (run_guard N e rq) (app_guards @ gs) (s, None) =
    seqE (liftL (ignoreE (ThrottleGuard (ap_throttle N) (req_path rq) (rq_ip rq) None))) (run_guards (run_guard N e rq) gs) (s, None)"
  using assms
  by (simp add: app_guards_def run_guard_def global_RolesGuard_def getL_def bindE_def seqE_def returnE_def liftL_def
      split: prod.split sum.split)

definition is_open :: "controller \<Rightarrow> endpoint \<Rightarrow> bool" where
  "is_open c e \<longleftrightarrow> ep_roles e = None \<and> ct_guards c @ ep_guards e = []"

lemma open_endpoints: "list_all (\<lambda>c. list_all (is_open c) (ct_endpoints c))
    [AppController, StellarMonitorController, WorkflowAdminController, QueueAdminController, MarketDataController, AiController,
     HealthController]"
  by code_simp

lemma app_controllers_eq: "app_controllers = [AppController, AuthController, StellarMonitorController, WorkflowAdminController,
     QueueAdminController, MarketDataController, AuditController, AiController, HealthController]"
  by code_simp

text \<open>
  C25. A handler with \<open>@Roles\<close> is never reached: the guard that \<open>AppModule\<close> installs globally runs before the guards of
  the controller, when no guard has attached a user yet. Every request is refused with 403 and changes nothing, whatever its
  credentials are; the audit logs of \<open>AuditController\<close> can therefore not be read.
\<close>

theorem roles_always_refused:
  assumes "guard_runner activate" and "c \<in> set declared_controllers" and "e \<in> set (ct_endpoints c)" and "ep_roles e \<noteq> None"
  shows "serve_http activate N c e rq respond s = (Inl (ForbiddenException ''User role not found''), s)"
proof -
  have "ep_roles e \<noteq> Some []" using guard_shape_of [OF assms(2,3)] assms(4) by (simp add: guard_shape_def)
  then show ?thesis by (simp add: serve_http_def admit_eq [OF assms(1)] roles_guard_refuses [OF assms(4)])
qed

theorem roles_always_refused_witness:
  "\<forall>N rq respond s. serve_http in_turn N AuditController (Roles [ADMIN] audit_getLogs_endpoint) rq respond s =
     (Inl (ForbiddenException ''User role not found''), s)"
  by (intro allI roles_always_refused [OF turn.guard_runner_axioms])
    (simp_all add: declared_controllers_def AuditController_def Roles_def)

text \<open>
  C24. The handlers of every controller of the application but those of authentication and audit are open: a request reaches
  its handler, without a user, exactly when \<open>ThrottleGuard\<close> lets the address through; its credentials play no part. This
  includes the operators' requests on queues, workflows and webhook consumers.
\<close>

theorem operator_routes_open:
  assumes "guard_runner activate" and "c \<in> set app_controllers" and "e \<in> set (ct_endpoints c)"
    and "c \<noteq> AuthController" and "c \<noteq> AuditController"
  shows "serve_http activate N c e rq respond s =
    (case ThrottleGuard (ap_throttle N) (req_path rq) (rq_ip rq) None s of
       (Inl x, s') \<Rightarrow> (Inl x, s') | (Inr _, s') \<Rightarrow> respond None s')"
proof -
  have plain: "ep_roles e = None \<and> ct_guards c @ ep_guards e = []"
    using open_endpoints assms(2-5) by (auto simp: app_controllers_eq list_all_iff is_open_def)
  then show ?thesis
    using roles_guard_passes [of e N rq "[]" s]
    by (simp add: serve_http_def admit_eq [OF assms(1)])
      (auto simp: seqE_def bindE_def liftL_def ignoreE_def returnE_def split: prod.split sum.split)
qed

lemma JwtAuthGuard_active: "JwtAuthGuard A token s = (Inr u, s') \<Longrightarrow> us_isActive u"
  by (auto simp: JwtAuthGuard_def JwtStrategy_validate_def activeUser_def bindE_def readE_def throwE_def returnE_def
      split: prod.splits sum.splits option.splits if_splits)

definition authenticated :: "('s, 'j) api_env \<Rightarrow> api_request \<Rightarrow> 's \<times> request_user option \<Rightarrow> bool" where
  "authenticated N rq p \<longleftrightarrow> (\<exists>token s u. ap_bearer N (rq_authorization rq) = Some token \<and>
     JwtAuthGuard (ap_auth N) token s = (Inr u, fst p) \<and> us_isActive u \<and> snd p = Some (jwt_request_user u))"

lemma throttle_wp:
  "(\<And>s'. Q () (s', user)) \<Longrightarrow> wp (run_guard N e rq GThrottle) Q (\<lambda>_ _. True) (s, user)"
  by (simp add: run_guard_def wp_simps)

lemma rateLimit_wp:
  "(\<And>s'. Q () (s', user)) \<Longrightarrow> wp (run_guard N e rq GRateLimit) Q (\<lambda>_ _. True) (s, user)"
  by (simp add: run_guard_def wp_simps)

lemma jwt_wp: "wp (run_guard N e rq GJwt) (\<lambda>_. authenticated N rq) (\<lambda>_ _. True) (s, user)"
proof (cases "ap_bearer N (rq_authorization rq)")
  case None
  then show ?thesis by (simp add: run_guard_def wp_simps)
next
  case (Some token)
  have "wp (JwtAuthGuard (ap_auth N) token) (\<lambda>u s'. authenticated N rq (s', Some (jwt_request_user u))) (\<lambda>_ _. True) s"
    by (rule wp_mono [of _ "\<lambda>_ _. True" "\<lambda>_ _. True"]) (use Some in \<open>auto simp: authenticated_def dest: JwtAuthGuard_active\<close>)
  then show ?thesis using Some by (simp add: run_guard_def wp_simps)
qed

lemma guards_wp:
  assumes "ep_roles e = None" and "gs \<in> set [[], [GRateLimit], [GRateLimit, GJwt]]"
  shows "wp (run_guards (run_guard N e rq) (app_guards @ gs))
    (\<lambda>_ p. if List.member gs GJwt then authenticated N rq p else snd p = None) (\<lambda>_ _. True) (s, None)"
proof -
  have roles: "wp (run_guard N e rq GRoles) Q X p = Q () p" for Q X p
    using assms(1) by (simp add: run_guard_def global_RolesGuard_def wp_simps)
  show ?thesis
    using assms(2) by (auto simp: app_guards_def wp_simps roles intro!: throttle_wp rateLimit_wp jwt_wp)
qed

theorem operator_routes_open_witness:
  "\<forall>N rq respond s. serve_http in_turn N QueueAdminController queue_purgeQueue_endpoint rq respond s =
    (case ThrottleGuard (ap_throttle N) (req_path rq) (rq_ip rq) None s of
       (Inl x, s') \<Rightarrow> (Inl x, s') | (Inr _, s') \<Rightarrow> respond None s')"
proof (intro allI operator_routes_open [OF turn.guard_runner_axioms])
  show "QueueAdminController \<in> set app_controllers" by (simp add: app_controllers_eq)
qed (simp_all add: QueueAdminController_def AuthController_def AuditController_def)

text \<open>
  C21. When the guards of the application let a request through to a handler that \<open>JwtAuthGuard\<close> protects, the request
  carries a bearer token that \<open>JwtAuthGuard\<close> accepted, and the user the handler sees is the active user of that token. A
  handler without that guard never sees a user.
\<close>

theorem handler_user:
  assumes "guard_runner activate" and "c \<in> set app_controllers" and "e \<in> set (ct_endpoints c)"
    and "admit activate N c e rq (s, None) = (Inr (), p)"
  shows "if List.member (ct_guards c @ ep_guards e) GJwt then authenticated N rq p else snd p = None"
proof -
  note shape = guard_shape_of [OF app_controller_declared [OF assms(2)] assms(3)]
  have open_roles: "ep_roles e = None"
    using roles_guard_refuses [of e N rq "ct_guards c @ ep_guards e" s] shape assms(4)
    by (auto simp: admit_eq [OF assms(1)] guard_shape_def split: if_splits)
  with shape guards_wp [of e "ct_guards c @ ep_guards e" N rq s] assms(4) show ?thesis
    by (auto simp: admit_eq [OF assms(1)] guard_shape_def wp_def)
qed

text \<open>A store without bans that counts every request as the first.\<close>

definition quiet_redis :: "('s, 'j) redis" where
  "quiet_redis = \<lparr>r_get = (\<lambda>k. returnE None), r_set = (\<lambda>k v t. returnE ()), r_del = (\<lambda>ks. returnE 0), r_incr = (\<lambda>k. returnE 1),
     r_expire = (\<lambda>k t. returnE True), r_exists = (\<lambda>k. returnE False), r_keys = (\<lambda>p. returnE []),
     r_scan = (\<lambda>c p. returnE (''0'', [])), r_sAdd = (\<lambda>k v. returnE ()), r_sRem = (\<lambda>k v. returnE ()),
     r_sMembers = (\<lambda>k. returnE [])\<rparr>"

definition quiet_rate :: "'s rate_env" where
  "quiet_rate = \<lparr>ra_now = (\<lambda>s. 0), ra_zRemRangeByScore = (\<lambda>k a b. returnE ()), ra_zCard = (\<lambda>k. returnE 0),
     ra_zRange = (\<lambda>k. returnE []), ra_zAdd = (\<lambda>k x v. returnE ()), ra_expire = (\<lambda>k t. returnE ()), ra_del = (\<lambda>k. returnE ())\<rparr>"

definition demo_api :: "(auth_mem, unit) api_env" where
  "demo_api = \<lparr>ap_auth = mem_auth, ap_rate = quiet_rate,
     ap_throttle = \<lparr>te_redis = quiet_redis, te_ttl = (\<lambda>k. returnE 60)\<rparr>,
     ap_bearer = (\<lambda>h. case h of None \<Rightarrow> None | Some x \<Rightarrow> Some (drop 7 x))\<rparr>"

definition demo_request :: api_request where
  "demo_request = \<lparr>rq_path = [''auth'', ''logout''], rq_ip = ''1.2.3.4'', rq_remoteAddress = ''1.2.3.4'',
     rq_authorization = Some (''Bearer jwt:'' @ us_id demo_user)\<rparr>"

lemma demo_token: "JwtAuthGuard mem_auth (''jwt:'' @ us_id demo_user) demo_logged_in = (Inr demo_user, demo_logged_in)"
  by code_simp

lemma demo_throttle_passes: "ThrottleGuard (ap_throttle demo_api) path ip u s = (Inr (tr_limit (throttle_config path),
    max 0 (tr_limit (throttle_config path) - 1), 60), s)"
  by (simp add: ThrottleGuard_def checkBan_def throttle_checkRateLimit_def demo_api_def quiet_redis_def text_truthy_def
      Let_def seqE_def bindE_def whenE_def returnE_def ignoreE_def throttle_config_def GLOBAL_LIMIT_def AUTH_LIMIT_def)

lemma demo_admitted: "admit in_turn demo_api AuthController logout_endpoint demo_request (demo_logged_in, None) =
    (Inr (), (demo_logged_in, Some (jwt_request_user demo_user)))"
proof -
  have "ap_bearer demo_api (rq_authorization demo_request) = Some (''jwt:'' @ us_id demo_user)"
    by (simp add: demo_api_def demo_request_def)
  moreover have "ap_auth demo_api = mem_auth" by (simp add: demo_api_def)
  ultimately show ?thesis
    using demo_token
    by (simp add: admit_eq [OF turn.guard_runner_axioms] app_guards_def AuthController_def logout_endpoint_def handler_def
        UseGuards_def run_guard_def global_RolesGuard_def demo_throttle_passes RateLimitGuard_def
        seqE_def bindE_def getL_def liftL_def modL_def ignoreE_def returnE_def)
qed

theorem handler_user_witness: "authenticated demo_api demo_request (demo_logged_in, Some (jwt_request_user demo_user))"
proof -
  have "logout_endpoint \<in> set (ct_endpoints AuthController)" "AuthController \<in> set app_controllers"
    "List.member (ct_guards AuthController @ ep_guards logout_endpoint) GJwt"
    by (simp_all add: AuthController_def app_controllers_eq logout_endpoint_def handler_def UseGuards_def)
  then show ?thesis using handler_user [OF turn.guard_runner_axioms _ _ demo_admitted] by simp
qed

text \<open>
  The limit of ten requests a minute that \<open>@RateLimit\<close> sets for refreshing a token has no effect: \<open>ThrottleGuard\<close> runs
  first and counts every path with \<open>/auth\<close> to five. An address that has refreshed five times in its window is refused, and
  the refusal counts as a violation.
\<close>

theorem refresh_limit_shadowed:
  assumes "guard_runner activate" and "throttle_store (ap_throttle N) cell ttl"
    and "rq_path rq = [''auth'', ''refresh'']"
    and "counter (cell s (throttle_key ''/auth/refresh'' (rq_ip rq))) n" and "5 \<le> n"
    and "counter (cell s (violations_key (rq_ip rq))) v" and "0 \<le> v" and "cell s (buildBanKey (rq_ip rq)) = None"
  shows "\<exists>s'. serve_http activate N AuthController refresh_endpoint rq respond s =
      (Inl (HttpException ''Rate limit exceeded'' 429), s') \<and>
    cell s' (violations_key (rq_ip rq)) = Some (RText (Txt (show_int (v + 1)))) \<and>
    map_option ro_limit (ep_rateLimit refresh_endpoint) = Some 10"
proof -
  let ?m = "ThrottleGuard (ap_throttle N) (req_path rq) (rq_ip rq) None"
  have path: "req_path rq = ''/auth/refresh''" using assms(3) by (simp add: req_path_def)
  have "tr_limit (throttle_config ''/auth/refresh'') = 5" by code_simp
  then have "wp ?m (\<lambda>_ _. False) (\<lambda>x s'. x = HttpException ''Rate limit exceeded'' 429 \<and>
      cell s' (violations_key (rq_ip rq)) = Some (RText (Txt (show_int (v + 1))))) s"
    using throttle_store.guard_wp [OF assms(2), of s "''/auth/refresh''" "rq_ip rq" n v 5 None "rq_ip rq"] assms(4-8) path
    by (auto simp: throttle_identifier_def violations_key_def buildBanKey_def elim!: wp_mono)
  then obtain s' where "?m s = (Inl (HttpException ''Rate limit exceeded'' 429), s')"
    "cell s' (violations_key (rq_ip rq)) = Some (RText (Txt (show_int (v + 1))))"
    by (auto simp: wp_exn)
  moreover have "ep_roles refresh_endpoint = None" "map_option ro_limit (ep_rateLimit refresh_endpoint) = Some 10"
    by (simp_all add: refresh_endpoint_def RateLimit_def handler_def)
  ultimately show ?thesis
    by (simp add: serve_http_def admit_eq [OF assms(1)] roles_guard_passes seqE_def bindE_def liftL_def ignoreE_def)
qed

definition busy_throttle :: "unit rstore" where
  "busy_throttle = \<lparr>rs_cells = [(throttle_key ''/auth/refresh'' ''1.2.3.4'', MText (Txt (show_int 5)))], rs_ttl = []\<rparr>"

theorem refresh_limit_shadowed_witness:
  "\<forall>A R b respond. \<exists>s'. serve_http in_turn \<lparr>ap_auth = A, ap_rate = R, ap_throttle = mem_throttle, ap_bearer = b\<rparr> AuthController
      refresh_endpoint (demo_request\<lparr>rq_path := [''auth'', ''refresh'']\<rparr>) respond busy_throttle =
      (Inl (HttpException ''Rate limit exceeded'' 429), s') \<and>
    mem_cell s' (violations_key ''1.2.3.4'') = Some (RText (Txt (show_int 1))) \<and>
    map_option ro_limit (ep_rateLimit refresh_endpoint) = Some 10"
proof (intro allI)
  fix A R b respond
  have sep: "violations_key w \<noteq> throttle_key p u" "buildBanKey w \<noteq> throttle_key p u" for p u w
    by (simp_all add: buildBanKey_def violations_key_def throttle_key_def)
  show "\<exists>s'. serve_http in_turn \<lparr>ap_auth = A, ap_rate = R, ap_throttle = mem_throttle, ap_bearer = b\<rparr> AuthController
      refresh_endpoint (demo_request\<lparr>rq_path := [''auth'', ''refresh'']\<rparr>) respond busy_throttle =
      (Inl (HttpException ''Rate limit exceeded'' 429), s') \<and>
    mem_cell s' (violations_key ''1.2.3.4'') = Some (RText (Txt (show_int 1))) \<and>
    map_option ro_limit (ep_rateLimit refresh_endpoint) = Some 10"
    using refresh_limit_shadowed [OF turn.guard_runner_axioms, of
        "\<lparr>ap_auth = A, ap_rate = R, ap_throttle = mem_throttle, ap_bearer = b\<rparr>" mem_cell mem_ttl
        "demo_request\<lparr>rq_path := [''auth'', ''refresh'']\<rparr>" busy_throttle 5 0 respond] mem_throttle_store
    by (simp add: demo_request_def busy_throttle_def mem_cell_def counter_def sep)
qed

text \<open>
  Three controllers are declared but not part of the application, so their routes do not exist: no module that
  \<open>AppModule\<close> reaches declares those of the metrics, of voice and of administration.
\<close>

theorem unserved_controllers:
  "map ct_name (filter (\<lambda>c. \<not> is_served c) declared_controllers) = [''AdminController'', ''MetricsController'', ''VoiceController'']"
  by code_simp

end
