(* ===== verification/Request_Validation.thy ===== *)
theory Request_Validation
  imports Js_Value Auth_Flow Market_Data Stellar_Monitor
begin

text \<open>
  The validation of requests: \<open>bootstrap\<close> of src/Backend/src/main.ts installs a global \<open>ValidationPipe\<close> with \<open>whitelist\<close>,
  \<open>forbidNonWhitelisted\<close> and \<open>transform\<close>; the dto classes carry the decorators of class-validator and class-transformer.
  The decorated classes are data here. What the libraries do with them is an argument with the laws of
  \<open>validation_library\<close>.
\<close>

section \<open>Decorated classes\<close>

text \<open>\<open>MatchesKey\<close> is \<open>@Matches(/^G[A-Z0-9]{55}$/)\<close>, \<open>IsUrl\<close> asks for a protocol.\<close>

datatype validator = IsString | IsNotEmpty | IsOptional | IsInt | IsBoolean | IsUrl | MatchesKey
  | MinOf int | MaxOf int | LengthOf nat nat | IsIn "string list"

text \<open>A property: its validators, whether \<open>@Transform\<close> parses it as an integer, and its initial value.\<close>

record dto_property =
  dp_name :: string
  dp_validators :: "validator list"
  dp_parseInt :: bool
  dp_initial :: jsval

definition dto_field :: "string \<Rightarrow> validator list \<Rightarrow> dto_property" where
  "dto_field k vs = \<lparr>dp_name = k, dp_validators = vs, dp_parseInt = False, dp_initial = Undef\<rparr>"

definition parsed_field :: "string \<Rightarrow> validator list \<Rightarrow> jsval \<Rightarrow> dto_property" where
  "parsed_field k vs v = \<lparr>dp_name = k, dp_validators = vs, dp_parseInt = True, dp_initial = v\<rparr>"

type_synonym dto_class = "dto_property list"

definition public_key_field :: dto_property where
  "public_key_field = dto_field ''publicKey'' [IsString, IsNotEmpty, MatchesKey]"

definition text_field :: "string \<Rightarrow> dto_property" where
  "text_field k = dto_field k [IsString, IsNotEmpty]"

definition RequestNonceDto_class :: dto_class where
  "RequestNonceDto_class = [public_key_field]"

definition WalletLoginDto_class :: dto_class where
  "WalletLoginDto_class = [public_key_field, text_field ''signature'', text_field ''nonce'']"

definition BindWalletDto_class :: dto_class where
  "BindWalletDto_class = [public_key_field, text_field ''signature'', text_field ''nonce'']"

definition UnbindWalletDto_class :: dto_class where
  "UnbindWalletDto_class = [public_key_field]"

definition RefreshTokenDto_class :: dto_class where
  "RefreshTokenDto_class = [text_field ''refreshToken'']"

definition CreateApiTokenDto_class :: dto_class where
  "CreateApiTokenDto_class =
     [text_field ''name'',
      dto_field ''role'' [IsString, IsNotEmpty, IsIn [''ai-service'', ''worker'', ''admin'']],
      dto_field ''expiresInDays'' [IsOptional, IsInt, MinOf 1, MaxOf 365]]"

definition CreateConsumerDto_class :: dto_class where
  "CreateConsumerDto_class =
     [dto_field ''name'' [IsString, LengthOf 1 100],
      dto_field ''url'' [IsUrl, LengthOf 1 500],
      dto_field ''secret'' [IsOptional, IsString, LengthOf 1 100],
      parsed_field ''maxRetries'' [IsOptional, IsInt, MinOf 0, MaxOf 20] (NumV 5),
      parsed_field ''timeoutMs'' [IsOptional, IsInt, MinOf 1000, MaxOf 30000] (NumV 5000),
      (dto_field ''isActive'' [IsOptional, IsBoolean])\<lparr>dp_initial := BoolV True\<rparr>]"

definition UpdateConsumerDto_class :: dto_class where
  "UpdateConsumerDto_class =
     [dto_field ''name'' [IsOptional, IsString, LengthOf 1 100],
      dto_field ''url'' [IsOptional, IsUrl, LengthOf 1 500],
      dto_field ''secret'' [IsOptional, IsString, LengthOf 1 100],
      parsed_field ''maxRetries'' [IsOptional, IsInt, MinOf 0, MaxOf 20] Undef,
      parsed_field ''timeoutMs'' [IsOptional, IsInt, MinOf 1000, MaxOf 30000] Undef,
      dto_field ''isActive'' [IsOptional, IsBoolean]]"

definition AiRequestDto_class :: dto_class where
  "AiRequestDto_class = [text_field ''prompt'', dto_field ''userId'' [IsString, IsOptional]]"

definition CreateTTSDto_class :: dto_class where
  "CreateTTSDto_class = [text_field ''text'']"

definition GetMarketSnapshotQueryDto_class :: dto_class where
  "GetMarketSnapshotQueryDto_class = [dto_field ''assets'' [IsOptional, IsString], dto_field ''bypassCache'' [IsOptional]]"

definition GetNewsQueryDto_class :: dto_class where
  "GetNewsQueryDto_class =
     [dto_field ''category'' [IsOptional, IsIn [''market'', ''technology'', ''regulation'', ''stellar'', ''defi'', ''nft'']],
      dto_field ''limit'' [IsOptional, IsInt, MinOf 1, MaxOf 100],
      dto_field ''bypassCache'' [IsOptional]]"

definition CacheInvalidateDto_class :: dto_class where
  "CacheInvalidateDto_class = [dto_field ''keys'' [], dto_field ''pattern'' [], dto_field ''namespace'' []]"

section \<open>The pipe\<close>

text \<open>
  \<open>check\<close> decides a validator on a value, \<open>shown\<close> is JavaScript's \<open>String\<close>, which \<open>parseInt\<close> applies to its argument. The
  object that is validated has the initial values of the class, overwritten by the properties of the request.
\<close>

type_synonym props = "(string \<times> jsval) list"

definition parse_int :: "(jsval \<Rightarrow> string) \<Rightarrow> jsval \<Rightarrow> jsval" where
  "parse_int shown v = (case parseInt10 (shown v) of None \<Rightarrow> NaN | Some n \<Rightarrow> NumV (of_int n))"

definition dto_value :: "(jsval \<Rightarrow> string) \<Rightarrow> props \<Rightarrow> dto_property \<Rightarrow> jsval" where
  "dto_value shown body p = (case map_of body (dp_name p) of
       None \<Rightarrow> dp_initial p
     | Some v \<Rightarrow> if dp_parseInt p then parse_int shown v else v)"

definition property_ok :: "(validator \<Rightarrow> jsval \<Rightarrow> bool) \<Rightarrow> dto_property \<Rightarrow> jsval \<Rightarrow> bool" where
  "property_ok check p v \<longleftrightarrow>
     List.member (dp_validators p) IsOptional \<and> List.member [Undef, Null] v \<or>
     list_all (\<lambda>d. d = IsOptional \<or> check d v) (dp_validators p)"

text \<open>A property is on the whitelist when it has a validator.\<close>

definition whitelisted :: "dto_class \<Rightarrow> string \<Rightarrow> bool" where
  "whitelisted c k \<longleftrightarrow> list_ex (\<lambda>p. dp_name p = k \<and> dp_validators p \<noteq> []) c"

definition body_ok :: "(validator \<Rightarrow> jsval \<Rightarrow> bool) \<Rightarrow> (jsval \<Rightarrow> string) \<Rightarrow> dto_class \<Rightarrow> props \<Rightarrow> bool" where
  "body_ok check shown c body \<longleftrightarrow> list_all (\<lambda>(k, v). whitelisted c k) body \<and>
     list_all (\<lambda>p. property_ok check p (dto_value shown body p)) c"

definition dto_object :: "(jsval \<Rightarrow> string) \<Rightarrow> dto_class \<Rightarrow> props \<Rightarrow> props" where
  "dto_object shown c body = map (\<lambda>p. (dp_name p, dto_value shown body p)) c"

text \<open>Only the values that JSON has reach the validators, and those that \<open>parseInt\<close> makes.\<close>

definition key_char :: "char \<Rightarrow> bool" where
  "key_char c \<longleftrightarrow> CHR ''A'' \<le> c \<and> c \<le> CHR ''Z'' \<or> is_digit c"

definition public_key :: "string \<Rightarrow> bool" where
  "public_key s \<longleftrightarrow> length s = 56 \<and> take 1 s = ''G'' \<and> list_all key_char (drop 1 s)"

locale validation_library =
  fixes check :: "validator \<Rightarrow> jsval \<Rightarrow> bool"
    and shown :: "jsval \<Rightarrow> string"
    and pipe :: "dto_class \<Rightarrow> props \<Rightarrow> exn + props"
  assumes is_string: "check IsString v \<longleftrightarrow> (\<exists>s. v = StrV s)"
    and is_not_empty: "check IsNotEmpty v \<longleftrightarrow> v \<noteq> StrV [] \<and> v \<noteq> Null \<and> v \<noteq> Undef"
    and is_int: "check IsInt v \<longleftrightarrow> (\<exists>n. v = NumV (of_int n))"
    and is_boolean: "check IsBoolean v \<longleftrightarrow> (\<exists>b. v = BoolV b)"
    and is_url: "check IsUrl v \<Longrightarrow> \<exists>s. v = StrV s"
    and matches_key: "check MatchesKey v \<longleftrightarrow> (\<exists>s. v = StrV s \<and> public_key s)"
    and min_of: "check (MinOf a) (NumV x) \<longleftrightarrow> of_int a \<le> x"
    and max_of: "check (MaxOf b) (NumV x) \<longleftrightarrow> x \<le> of_int b"
    and length_of: "check (LengthOf i j) v \<longleftrightarrow> (\<exists>s. v = StrV s \<and> i \<le> length s \<and> length s \<le> j)"
    and is_in: "check (IsIn xs) v \<longleftrightarrow> (\<exists>s. v = StrV s \<and> s \<in> set xs)"
    and accepts: "distinct (map dp_name c) \<Longrightarrow> body_ok check shown c body \<Longrightarrow> \<exists>o'. pipe c body = Inr o' \<and> (\<forall>p \<in> set c. get_prop (ObjV o') (dp_name p) = dto_value shown body p)"
    and refuses: "\<not> body_ok check shown c body \<Longrightarrow> \<exists>m. pipe c body = Inl (BadRequestException m)"
begin

lemma accepted:
  assumes "distinct (map dp_name c)" and "pipe c body = Inr props"
  shows "body_ok check shown c body" and "\<And>p. p \<in> set c \<Longrightarrow> get_prop (ObjV props) (dp_name p) = dto_value shown body p"
proof -
  show ok: "body_ok check shown c body" using assms(2) refuses [of c body] by fastforce
  show "get_prop (ObjV props) (dp_name p) = dto_value shown body p" if "p \<in> set c" for p
    using accepts [OF assms(1) ok] assms(2) that by auto
qed

lemma refused_iff: "distinct (map dp_name c) \<Longrightarrow> (\<exists>m. pipe c body = Inl (BadRequestException m)) \<longleftrightarrow> \<not> body_ok check shown c body"
  using accepts refuses by fastforce

lemmas checks = is_string is_not_empty is_int is_boolean matches_key length_of is_in

text \<open>The validators of the properties that the classes share.\<close>

lemma text_ok: "property_ok check (text_field k) v \<longleftrightarrow> (\<exists>s. v = StrV s \<and> s \<noteq> [])"
  by (auto simp: property_ok_def text_field_def dto_field_def checks)

lemma public_key_ok: "property_ok check public_key_field v \<longleftrightarrow> (\<exists>s. v = StrV s \<and> public_key s)"
  by (auto simp: property_ok_def public_key_field_def dto_field_def checks public_key_def)

lemma int_range_ok:
  "property_ok check \<lparr>dp_name = k, dp_validators = [IsOptional, IsInt, MinOf a, MaxOf b], dp_parseInt = t, dp_initial = i\<rparr> v \<longleftrightarrow>
     v = Undef \<or> v = Null \<or> (\<exists>n. v = NumV (of_int n) \<and> a \<le> n \<and> n \<le> b)"
  by (auto simp: property_ok_def checks min_of max_of)

end

text \<open>A library that does what is asked of it.\<close>

fun plain_check :: "validator \<Rightarrow> jsval \<Rightarrow> bool" where
  "plain_check IsString v = (case v of StrV s \<Rightarrow> True | _ \<Rightarrow> False)"
| "plain_check IsNotEmpty v = (v \<noteq> StrV [] \<and> v \<noteq> Null \<and> v \<noteq> Undef)"
| "plain_check IsOptional v = True"
| "plain_check IsInt v = (case v of NumV x \<Rightarrow> of_int \<lfloor>x\<rfloor> = x | _ \<Rightarrow> False)"
| "plain_check IsBoolean v = (case v of BoolV b \<Rightarrow> True | _ \<Rightarrow> False)"
| "plain_check IsUrl v = (case v of StrV s \<Rightarrow> js_includes s ''://'' | _ \<Rightarrow> False)"
| "plain_check MatchesKey v = (case v of StrV s \<Rightarrow> public_key s | _ \<Rightarrow> False)"
| "plain_check (MinOf a) v = (case v of NumV x \<Rightarrow> of_int a \<le> x | Infinite neg \<Rightarrow> \<not> neg | _ \<Rightarrow> False)"
| "plain_check (MaxOf b) v = (case v of NumV x \<Rightarrow> x \<le> of_int b | Infinite neg \<Rightarrow> neg | _ \<Rightarrow> False)"
| "plain_check (LengthOf i j) v = (case v of StrV s \<Rightarrow> i \<le> length s \<and> length s \<le> j | _ \<Rightarrow> False)"
| "plain_check (IsIn xs) v = (case v of StrV s \<Rightarrow> List.member xs s | _ \<Rightarrow> False)"

text \<open>\<open>String\<close> on strings and integers; the text of other values does not start with a digit.\<close>

definition plain_text :: "jsval \<Rightarrow> string" where
  "plain_text v = (case v of StrV s \<Rightarrow> s | NumV x \<Rightarrow> show_int \<lfloor>x\<rfloor> | _ \<Rightarrow> ''object'')"

definition plain_pipe :: "dto_class \<Rightarrow> props \<Rightarrow> exn + props" where
  "plain_pipe c body = (if body_ok plain_check plain_text c body then Inr (dto_object plain_text c body)
     else Inl (BadRequestException ''Bad Request''))"

lemma map_of_dto_object: "distinct (map dp_name c) \<Longrightarrow> p \<in> set c \<Longrightarrow>
    map_of (dto_object shown c body) (dp_name p) = Some (dto_value shown body p)"
  by (simp add: dto_object_def map_of_eq_Some_iff comp_def rev_image_eqI)

interpretation plain: validation_library plain_check plain_text plain_pipe
proof unfold_locales
  show "plain_check IsInt v \<longleftrightarrow> (\<exists>n. v = NumV (of_int n))" for v
    by (cases v) (auto intro: exI [of _ "\<lfloor>_\<rfloor>"] dest: sym)
qed (auto simp: plain_pipe_def get_prop_def map_of_dto_object split: jsval.splits)

section \<open>Validated requests\<close>

text \<open>The dto of a handler: the object the pipe returns.\<close>

definition text_prop :: "props \<Rightarrow> string \<Rightarrow> string option" where
  "text_prop o' k = (case get_prop (ObjV o') k of StrV s \<Rightarrow> Some s | _ \<Rightarrow> None)"

definition nat_of :: "props \<Rightarrow> string \<Rightarrow> nat option" where
  "nat_of o' k = (case get_prop (ObjV o') k of NumV x \<Rightarrow> Some (nat \<lfloor>x\<rfloor>) | _ \<Rightarrow> None)"

definition bool_of :: "props \<Rightarrow> string \<Rightarrow> bool option" where
  "bool_of o' k = (case get_prop (ObjV o') k of BoolV b \<Rightarrow> Some b | _ \<Rightarrow> None)"

definition validated :: "(dto_class \<Rightarrow> props \<Rightarrow> exn + props) \<Rightarrow> dto_class \<Rightarrow> props \<Rightarrow> (props \<Rightarrow> ('s, 'a) prog) \<Rightarrow> ('s, 'a) prog" where
  "validated pipe c body respond = (case pipe c body of Inl x \<Rightarrow> throwE x | Inr o' \<Rightarrow> respond o')"

definition createApiToken_http :: "(dto_class \<Rightarrow> props \<Rightarrow> exn + props) \<Rightarrow> 's auth_env \<Rightarrow> User \<Rightarrow> props \<Rightarrow>
    ('s, string \<times> string \<times> int option) prog" where
  "createApiToken_http pipe A user body = validated pipe CreateApiTokenDto_class body (\<lambda>dto.
     createApiToken_request A user (the (text_prop dto ''name'')) (the (text_prop dto ''role'')) (nat_of dto ''expiresInDays''))"

definition consumer_dto :: "props \<Rightarrow> CreateConsumerDto" where
  "consumer_dto o' = \<lparr>cc_name = the (text_prop o' ''name''), cc_url = the (text_prop o' ''url''), cc_secret = text_prop o' ''secret'',
     cc_maxRetries = nat_of o' ''maxRetries'', cc_timeoutMs = nat_of o' ''timeoutMs'', cc_isActive = bool_of o' ''isActive''\<rparr>"

definition createConsumer_http :: "(dto_class \<Rightarrow> props \<Rightarrow> exn + props) \<Rightarrow> 's stellar_env \<Rightarrow> props \<Rightarrow> ('s, WebhookConsumer) prog" where
  "createConsumer_http pipe A body = validated pipe CreateConsumerDto_class body (\<lambda>dto. createConsumer_request A (consumer_dto dto))"

definition namespace_of :: "string \<Rightarrow> CacheNamespace option" where
  "namespace_of t = List.find (\<lambda>n. ns_text n = t) CacheNamespace_values"

definition invalidate_dto :: "props \<Rightarrow> CacheInvalidateDto" where
  "invalidate_dto o' =
     \<lparr>ci_keys = (case get_prop (ObjV o') ''keys'' of
        ArrV xs \<Rightarrow> Some (List.map_filter (\<lambda>v. case v of StrV k \<Rightarrow> Some k | _ \<Rightarrow> None) xs) | _ \<Rightarrow> None),
      ci_pattern = text_prop o' ''pattern'', ci_namespace = Option.bind (text_prop o' ''namespace'') namespace_of\<rparr>"

definition invalidateCache_http :: "(dto_class \<Rightarrow> props \<Rightarrow> exn + props) \<Rightarrow> 's market_env \<Rightarrow> props \<Rightarrow> ('s, nat) prog" where
  "invalidateCache_http pipe M body = validated pipe CacheInvalidateDto_class body (\<lambda>dto. invalidateCache_request M (invalidate_dto dto))"

definition category_of :: "string \<Rightarrow> NewsCategory option" where
  "category_of t = List.find (\<lambda>c. category_text c = t) [NC_MARKET, NC_TECHNOLOGY, NC_REGULATION, NC_STELLAR, NC_DEFI, NC_NFT]"

definition getNews_request :: "'s market_env \<Rightarrow> props \<Rightarrow> ('s, cached) prog" where
  "getNews_request M query =
     (let limit = (case nat_of query ''limit'' of None \<Rightarrow> 20 | Some n \<Rightarrow> if n = 0 then 20 else n);
          bypassCache = (get_prop (ObjV query) ''bypassCache'' = BoolV True \<or> get_prop (ObjV query) ''bypassCache'' = StrV ''true'')
      in getNews M (Option.bind (text_prop query ''category'') category_of) limit bypassCache)"

definition getNews_http :: "(dto_class \<Rightarrow> props \<Rightarrow> exn + props) \<Rightarrow> 's market_env \<Rightarrow> props \<Rightarrow> ('s, cached) prog" where
  "getNews_http pipe M query = validated pipe GetNewsQueryDto_class query (getNews_request M)"

section \<open>Properties\<close>

text \<open>What the class of the request for an API token asks for, written out.\<close>

definition api_token_spec :: "props \<Rightarrow> bool" where
  "api_token_spec body \<longleftrightarrow> fst ` set body \<subseteq> {''name'', ''role'', ''expiresInDays''} \<and>
     (\<exists>name role. map_of body ''name'' = Some (StrV name) \<and> name \<noteq> [] \<and>
        map_of body ''role'' = Some (StrV role) \<and> role \<in> set apiToken_roles) \<and>
     (case map_of body ''expiresInDays'' of None \<Rightarrow> True | Some v \<Rightarrow> v = Undef \<or> v = Null \<or> (\<exists>n. v = NumV (of_int n) \<and> 1 \<le> n \<and> n \<le> 365))"

lemma undeclared: "list_all (\<lambda>(k, v). P k) body \<longleftrightarrow> fst ` set body \<subseteq> Collect P"
  by (auto simp: list_all_iff)

lemma plain_value: "\<not> dp_parseInt p \<Longrightarrow> dp_initial p = Undef \<Longrightarrow> dto_value shown body p = get_prop (ObjV body) (dp_name p)"
  by (simp add: dto_value_def get_prop_def split: option.split)

context validation_library
begin

lemma api_token_ok: "body_ok check shown CreateApiTokenDto_class body \<longleftrightarrow> api_token_spec body"
proof -
  have keys: "list_all (\<lambda>(k, v). whitelisted CreateApiTokenDto_class k) body \<longleftrightarrow>
      fst ` set body \<subseteq> {''name'', ''role'', ''expiresInDays''}"
    unfolding undeclared
    by (auto simp: whitelisted_def CreateApiTokenDto_class_def text_field_def dto_field_def)
  have role: "property_ok check (dto_field ''role'' [IsString, IsNotEmpty, IsIn xs]) v \<longleftrightarrow>
      (\<exists>s. v = StrV s \<and> s \<noteq> [] \<and> s \<in> set xs)" for v xs
    by (auto simp: property_ok_def dto_field_def checks)
  have days: "property_ok check (dto_field ''expiresInDays'' [IsOptional, IsInt, MinOf 1, MaxOf 365]) v \<longleftrightarrow>
      v = Undef \<or> v = Null \<or> (\<exists>n. v = NumV (of_int n) \<and> 1 \<le> n \<and> n \<le> 365)" for v
    by (simp add: dto_field_def int_range_ok)
  have some: "(\<exists>s. dto_value shown body (text_field k) = StrV s \<and> P s) \<longleftrightarrow> (\<exists>s. map_of body k = Some (StrV s) \<and> P s)" for k P
    by (auto simp: dto_value_def text_field_def dto_field_def split: option.splits)
  have some': "(\<exists>s. dto_value shown body (dto_field k vs) = StrV s \<and> P s) \<longleftrightarrow> (\<exists>s. map_of body k = Some (StrV s) \<and> P s)" for k vs P
    by (auto simp: dto_value_def dto_field_def split: option.splits)
  have roles: "set apiToken_roles = {''ai-service'', ''worker'', ''admin''}" by (simp add: apiToken_roles_def)
  show ?thesis
    unfolding body_ok_def keys
    unfolding CreateApiTokenDto_class_def list.pred_inject text_ok role days some some' api_token_spec_def roles
    by (auto simp: dto_value_def dto_field_def split: option.splits)
qed

lemma api_token_distinct: "distinct (map dp_name CreateApiTokenDto_class)"
  by (simp add: CreateApiTokenDto_class_def text_field_def dto_field_def)

lemma consumer_distinct: "distinct (map dp_name CreateConsumerDto_class)"
  by (simp add: CreateConsumerDto_class_def parsed_field_def dto_field_def)

lemma api_token_fields:
  assumes "pipe CreateApiTokenDto_class body = Inr dto"
  shows "text_prop dto ''name'' = text_prop body ''name''" "text_prop dto ''role'' = text_prop body ''role''"
    "nat_of dto ''expiresInDays'' = nat_of body ''expiresInDays''"
proof -
  have field: "get_prop (ObjV dto) (dp_name p) = get_prop (ObjV body) (dp_name p)"
    if "p \<in> set CreateApiTokenDto_class" for p
    using accepted(2) [OF api_token_distinct assms that] that plain_value [of p shown body]
    by (auto simp: CreateApiTokenDto_class_def text_field_def dto_field_def)
  show "text_prop dto ''name'' = text_prop body ''name''" "text_prop dto ''role'' = text_prop body ''role''"
    "nat_of dto ''expiresInDays'' = nat_of body ''expiresInDays''"
    using field [of "text_field ''name''"] field [of "dto_field ''role'' [IsString, IsNotEmpty, IsIn [''ai-service'', ''worker'', ''admin'']]"]
      field [of "dto_field ''expiresInDays'' [IsOptional, IsInt, MinOf 1, MaxOf 365]"]
    by (simp_all add: CreateApiTokenDto_class_def text_prop_def nat_of_def) (simp_all add: text_field_def dto_field_def)
qed

lemma nothing_whitelisted: "body_ok check shown CacheInvalidateDto_class body \<longleftrightarrow> body = []"
  by (cases body) (auto simp: body_ok_def whitelisted_def CacheInvalidateDto_class_def dto_field_def property_ok_def)

lemma limit_refused:
  assumes "map_of query ''limit'' = Some v" and "v \<noteq> Undef" and "v \<noteq> Null" and "\<And>x. v \<noteq> NumV x"
  shows "\<not> body_ok check shown GetNewsQueryDto_class query"
  using assms by (auto simp: body_ok_def GetNewsQueryDto_class_def property_ok_def dto_value_def dto_field_def checks)

lemma consumer_ok:
  assumes "body_ok check shown CreateConsumerDto_class body"
  shows "\<exists>n. dto_value shown body (parsed_field ''maxRetries'' [IsOptional, IsInt, MinOf 0, MaxOf 20] (NumV 5)) = NumV (of_int n) \<and>
      0 \<le> n \<and> n \<le> 20"
    and "\<exists>n. dto_value shown body (parsed_field ''timeoutMs'' [IsOptional, IsInt, MinOf 1000, MaxOf 30000] (NumV 5000)) = NumV (of_int n) \<and>
      1000 \<le> n \<and> n \<le> 30000"
    and "\<exists>t. dto_value shown body (dto_field ''name'' [IsString, LengthOf 1 100]) = StrV t \<and> 1 \<le> length t \<and> length t \<le> 100"
    and "\<exists>t. dto_value shown body (dto_field ''url'' [IsUrl, LengthOf 1 500]) = StrV t \<and> 1 \<le> length t \<and> length t \<le> 500"
proof -
  have parsed: "dto_value shown body (parsed_field k vs (NumV x)) \<noteq> Undef" "dto_value shown body (parsed_field k vs (NumV x)) \<noteq> Null"
    for k vs x
    by (auto simp: dto_value_def parsed_field_def parse_int_def split: option.split)
  have in_class: "property_ok check p (dto_value shown body p)" if "p \<in> set CreateConsumerDto_class" for p
    using assms that by (simp add: body_ok_def list_all_iff)
  have retries: "property_ok check (parsed_field k [IsOptional, IsInt, MinOf a, MaxOf b] i) v \<longleftrightarrow>
      v = Undef \<or> v = Null \<or> (\<exists>n. v = NumV (of_int n) \<and> a \<le> n \<and> n \<le> b)" for k a b i v
    by (simp add: parsed_field_def int_range_ok)
  show "\<exists>n. dto_value shown body (parsed_field ''maxRetries'' [IsOptional, IsInt, MinOf 0, MaxOf 20] (NumV 5)) = NumV (of_int n) \<and>
      0 \<le> n \<and> n \<le> 20"
    using in_class [of "parsed_field ''maxRetries'' [IsOptional, IsInt, MinOf 0, MaxOf 20] (NumV 5)"] parsed
    by (simp add: CreateConsumerDto_class_def retries)
  show "\<exists>n. dto_value shown body (parsed_field ''timeoutMs'' [IsOptional, IsInt, MinOf 1000, MaxOf 30000] (NumV 5000)) = NumV (of_int n) \<and>
      1000 \<le> n \<and> n \<le> 30000"
    using in_class [of "parsed_field ''timeoutMs'' [IsOptional, IsInt, MinOf 1000, MaxOf 30000] (NumV 5000)"] parsed
    by (simp add: CreateConsumerDto_class_def retries)
  show "\<exists>t. dto_value shown body (dto_field ''name'' [IsString, LengthOf 1 100]) = StrV t \<and> 1 \<le> length t \<and> length t \<le> 100"
    using in_class [of "dto_field ''name'' [IsString, LengthOf 1 100]"]
    by (auto simp: CreateConsumerDto_class_def property_ok_def dto_field_def checks)
  show "\<exists>t. dto_value shown body (dto_field ''url'' [IsUrl, LengthOf 1 500]) = StrV t \<and> 1 \<le> length t \<and> length t \<le> 500"
    using in_class [of "dto_field ''url'' [IsUrl, LengthOf 1 500]"]
    by (auto simp: CreateConsumerDto_class_def property_ok_def dto_field_def checks)
qed

end

text \<open>
  C22. The request for an API token passes the validation exactly when it has a name, one of the three roles, optionally an
  expiry between 1 and 365 days and no other property; it is then answered by the service with the values of the request.
  Otherwise it is refused with status 400 and changes nothing.
\<close>

theorem api_token_validated:
  assumes "validation_library check shown pipe"
  shows "if api_token_spec body
    then createApiToken_http pipe A user body =
      createApiToken_request A user (the (text_prop body ''name'')) (the (text_prop body ''role'')) (nat_of body ''expiresInDays'')
    else \<exists>m. createApiToken_http pipe A user body = throwE (BadRequestException m)"
proof -
  note lib = assms
  show ?thesis
  proof (cases "api_token_spec body")
    case True
    then obtain dto where dto: "pipe CreateApiTokenDto_class body = Inr dto"
      using validation_library.accepts [OF lib validation_library.api_token_distinct [OF lib]]
        validation_library.api_token_ok [OF lib] by blast
    with True show ?thesis
      using validation_library.api_token_fields [OF lib dto] by (simp add: createApiToken_http_def validated_def)
  next
    case False
    then show ?thesis
      using validation_library.refuses [OF lib] validation_library.api_token_ok [OF lib]
      by (fastforce simp: createApiToken_http_def validated_def)
  qed
qed

theorem api_token_validated_witness:
  "createApiToken_http plain_pipe mem_auth demo_user [(''name'', StrV ''cli''), (''role'', StrV ''admin'')] =
     createApiToken_request mem_auth demo_user ''cli'' ''admin'' None"
proof -
  have "api_token_spec [(''name'', StrV ''cli''), (''role'', StrV ''admin'')]"
    by (simp add: api_token_spec_def apiToken_roles_def)
  then show ?thesis
    using api_token_validated [OF plain.validation_library_axioms,
        of "[(''name'', StrV ''cli''), (''role'', StrV ''admin'')]" mem_auth demo_user]
    by (simp add: text_prop_def nat_of_def get_prop_def)
qed

text \<open>
  No request invalidates a part of the market cache: the properties of its dto have no validator, so the pipe refuses
  every request that names keys, a pattern or a namespace with status 400, and an empty request removes nothing.
\<close>

theorem cache_invalidation_refused:
  assumes "validation_library check shown pipe"
  shows "if body = [] then invalidateCache_http pipe M body = returnE 0
    else \<exists>m. invalidateCache_http pipe M body = throwE (BadRequestException m)"
proof (cases "body = []")
  case True
  have "distinct (map dp_name CacheInvalidateDto_class)" by (simp add: CacheInvalidateDto_class_def dto_field_def)
  from validation_library.accepts [OF assms this, of body]
  obtain dto where "pipe CacheInvalidateDto_class body = Inr dto"
    and "\<forall>p \<in> set CacheInvalidateDto_class. get_prop (ObjV dto) (dp_name p) = dto_value shown body p"
    using True validation_library.nothing_whitelisted [OF assms] by blast
  with True show ?thesis
    by (simp add: invalidateCache_http_def validated_def invalidateCache_request_def invalidate_dto_def text_prop_def
        CacheInvalidateDto_class_def dto_field_def dto_value_def)
next
  case False
  then show ?thesis
    using validation_library.refuses [OF assms, of CacheInvalidateDto_class body] validation_library.nothing_whitelisted [OF assms]
    by (auto simp: invalidateCache_http_def validated_def)
qed

theorem cache_invalidation_refused_witness:
  "\<forall>M. \<exists>m. invalidateCache_http plain_pipe M [(''namespace'', StrV ''news'')] = throwE (BadRequestException m)"
proof (rule allI)
  show "\<exists>m. invalidateCache_http plain_pipe M [(''namespace'', StrV ''news'')] = throwE (BadRequestException m)" for M
    using cache_invalidation_refused [OF plain.validation_library_axioms, of "[(''namespace'', StrV ''news'')]" M] by simp
qed

text \<open>What a value of a query string can be.\<close>

definition query_value :: "jsval \<Rightarrow> bool" where
  "query_value v = (case v of StrV t \<Rightarrow> True | ArrV xs \<Rightarrow> True | ObjV ps \<Rightarrow> True | _ \<Rightarrow> False)"

text \<open>
  A request for news cannot set its limit: the values of a query are texts, lists or objects, \<open>limit\<close> must be an
  integer and no decorator converts it. Every query with a limit is refused with status 400.
\<close>

theorem news_limit_refused:
  assumes "validation_library check shown pipe" and "map_of query ''limit'' = Some v" and "query_value v"
  shows "\<exists>m. getNews_http pipe M query = throwE (BadRequestException m)"
proof -
  have "\<not> body_ok check shown GetNewsQueryDto_class query"
    by (rule validation_library.limit_refused [OF assms(1,2)]) (use assms(3) in \<open>auto simp: query_value_def\<close>)
  from validation_library.refuses [OF assms(1) this] show ?thesis
    by (auto simp: getNews_http_def validated_def)
qed

theorem news_limit_refused_witness:
  "\<forall>M. \<exists>m. getNews_http plain_pipe M [(''limit'', StrV ''10'')] = throwE (BadRequestException m)"
  by (intro allI news_limit_refused [OF plain.validation_library_axioms, where v = "StrV ''10''"]) (simp_all add: query_value_def)

text \<open>What a request asks for: a text, and a number that is parsed, with the number that stands for a missing one.\<close>

definition asked_number :: "(jsval \<Rightarrow> string) \<Rightarrow> props \<Rightarrow> string \<Rightarrow> int \<Rightarrow> int option" where
  "asked_number shown body k missing = (case map_of body k of None \<Rightarrow> Some missing | Some v \<Rightarrow> parseInt10 (shown v))"

lemma asked_parsed:
  "dto_value shown body (parsed_field k vs (NumV (of_int d))) = NumV (of_int n) \<longleftrightarrow> asked_number shown body k d = Some n"
  by (auto simp: dto_value_def parsed_field_def parse_int_def asked_number_def split: option.splits)

context validation_library
begin

lemma validated_consumer:
  assumes "pipe CreateConsumerDto_class body = Inr dto" and "d = consumer_dto dto"
  shows "text_prop body ''name'' = Some (cc_name d)" "length (cc_name d) \<in> {1..100}"
    and "text_prop body ''url'' = Some (cc_url d)" "length (cc_url d) \<in> {1..500}"
    and "\<exists>n. cc_maxRetries d = Some n \<and> asked_number shown body ''maxRetries'' 5 = Some (int n) \<and> n \<le> 20"
    and "\<exists>n. cc_timeoutMs d = Some n \<and> asked_number shown body ''timeoutMs'' 5000 = Some (int n) \<and> 1000 \<le> n \<and> n \<le> 30000"
proof -
  note got = accepted(2) [OF consumer_distinct assms(1)]
  have names: "get_prop (ObjV dto) ''name'' = dto_value shown body (dto_field ''name'' [IsString, LengthOf 1 100])"
    "get_prop (ObjV dto) ''url'' = dto_value shown body (dto_field ''url'' [IsUrl, LengthOf 1 500])"
    "get_prop (ObjV dto) ''maxRetries'' =
       dto_value shown body (parsed_field ''maxRetries'' [IsOptional, IsInt, MinOf 0, MaxOf 20] (NumV 5))"
    "get_prop (ObjV dto) ''timeoutMs'' =
       dto_value shown body (parsed_field ''timeoutMs'' [IsOptional, IsInt, MinOf 1000, MaxOf 30000] (NumV 5000))"
    using got [of "dto_field ''name'' [IsString, LengthOf 1 100]"] got [of "dto_field ''url'' [IsUrl, LengthOf 1 500]"]
      got [of "parsed_field ''maxRetries'' [IsOptional, IsInt, MinOf 0, MaxOf 20] (NumV 5)"]
      got [of "parsed_field ''timeoutMs'' [IsOptional, IsInt, MinOf 1000, MaxOf 30000] (NumV 5000)"]
    by (simp_all add: CreateConsumerDto_class_def) (simp_all add: dto_field_def parsed_field_def)
  have asked: "text_prop body k = Some t" if "dto_value shown body (dto_field k vs) = StrV t" for k vs t
    using that by (auto simp: dto_value_def dto_field_def text_prop_def get_prop_def split: option.splits)
  note ok = consumer_ok [OF accepted(1) [OF consumer_distinct assms(1)]]
  show "text_prop body ''name'' = Some (cc_name d)" "length (cc_name d) \<in> {1..100}"
    using ok(3) asked by (auto simp: assms(2) consumer_dto_def text_prop_def [of dto] names)
  show "text_prop body ''url'' = Some (cc_url d)" "length (cc_url d) \<in> {1..500}"
    using ok(4) asked by (auto simp: assms(2) consumer_dto_def text_prop_def [of dto] names)
  obtain n where n: "get_prop (ObjV dto) ''maxRetries'' = NumV (of_int n)" "0 \<le> n" "n \<le> 20"
    "asked_number shown body ''maxRetries'' 5 = Some n"
    using ok(1) asked_parsed [of shown body "''maxRetries''" _ 5] unfolding names by auto
  then show "\<exists>n. cc_maxRetries d = Some n \<and> asked_number shown body ''maxRetries'' 5 = Some (int n) \<and> n \<le> 20"
    by (intro exI [of _ "nat n"]) (auto simp: assms(2) consumer_dto_def nat_of_def)
  obtain m where m: "get_prop (ObjV dto) ''timeoutMs'' = NumV (of_int m)" "1000 \<le> m" "m \<le> 30000"
    "asked_number shown body ''timeoutMs'' 5000 = Some m"
    using ok(2) asked_parsed [of shown body "''timeoutMs''" _ 5000] unfolding names by auto
  then show "\<exists>n. cc_timeoutMs d = Some n \<and> asked_number shown body ''timeoutMs'' 5000 = Some (int n) \<and> 1000 \<le> n \<and> n \<le> 30000"
    by (intro exI [of _ "nat m"]) (auto simp: assms(2) consumer_dto_def nat_of_def)
qed

end

lemma created_consumer:
  assumes "stellar_store A ev co" and "createConsumer_request A d s = (Inr c, s')"
  shows "\<exists>i t. c = wc_gen i t (new_consumer d) \<and> co s i = None \<and> co s' = (co s)(i \<mapsto> c) \<and>
    (\<forall>j r. co s j = Some r \<longrightarrow> wc_url r \<noteq> cc_url d)"
proof -
  have "wp (createConsumer_request A d) (\<lambda>c s'. \<exists>i t. c = wc_gen i t (new_consumer d) \<and> co s i = None \<and>
      co s' = (co s)(i \<mapsto> c) \<and> (\<forall>j r. co s j = Some r \<longrightarrow> wc_url r \<noteq> cc_url d)) (\<lambda>_ _. True) s"
    unfolding createConsumer_request_def with_status_def createConsumer_def
    by (intro wp_intros stellar_store.wpi_check_url [OF assms(1)] stellar_store.wpi_insert_consumer [OF assms(1)]) auto
  then show ?thesis using assms(2) by (simp add: wp_def)
qed

definition demo_consumer_body :: props where
  "demo_consumer_body = [(''name'', StrV ''hook''), (''url'', StrV ''https://a.io''), (''maxRetries'', StrV ''7'')]"

definition demo_consumer_dto :: props where
  "demo_consumer_dto = dto_object plain_text CreateConsumerDto_class demo_consumer_body"

lemma demo_consumer_accepted: "plain_pipe CreateConsumerDto_class demo_consumer_body = Inr demo_consumer_dto"
proof -
  have "parseInt10 ''7'' = Some 7" by code_simp
  moreover have "js_includes ''https://a.io'' ''://''" by code_simp
  ultimately have "body_ok plain_check plain_text CreateConsumerDto_class demo_consumer_body"
    by (simp add: body_ok_def CreateConsumerDto_class_def demo_consumer_body_def dto_field_def parsed_field_def whitelisted_def
        property_ok_def dto_value_def parse_int_def plain_text_def)
  then show ?thesis by (simp add: plain_pipe_def demo_consumer_dto_def)
qed

lemma demo_consumer_stored:
  "\<exists>c s'. createConsumer_http plain_pipe (mem_stellar down) demo_consumer_body demo_stellar = (Inr c, s')"
proof -
  have "get_prop (ObjV demo_consumer_dto) ''url'' = StrV ''https://a.io''" unfolding demo_consumer_dto_def by code_simp
  then have "wc_url r \<noteq> cc_url (consumer_dto demo_consumer_dto)" if "mem_co demo_stellar i = Some r" for i r
    using that by (auto simp: mem_tab_def demo_stellar_def demo_consumer_def consumer_dto_def text_prop_def split: if_splits)
  then have "wp (createConsumer (mem_stellar down) (consumer_dto demo_consumer_dto)) (\<lambda>_ _. True) (\<lambda>_ _. False) demo_stellar"
    unfolding createConsumer_def by (intro wp_intros smem.wpi_check_url smem.wpi_insert_consumer) auto
  then obtain c s' where "createConsumer (mem_stellar down) (consumer_dto demo_consumer_dto) demo_stellar = (Inr c, s')"
    by (auto simp: wp_value)
  then show ?thesis
    by (simp add: createConsumer_http_def validated_def demo_consumer_accepted createConsumer_request_def with_status_def catchE_def)
qed

text \<open>
  C26. A webhook consumer that a request creates is the row that is stored, new and active: its name and URL are those
  of the request and have 1 to 100 and 1 to 500 characters, no row had that URL before, its number of retries and its time limit are
  those of the request, or 5 and 5000 when it names none, and lie between 0 and 20 and between 1000 and 30000 milliseconds.
\<close>

theorem consumer_request_bounds:
  assumes "stellar_store A ev co" and "validation_library check shown pipe"
    and "createConsumer_http pipe A body s = (Inr c, s')"
  shows "co s' = (co s)(wc_id c \<mapsto> c) \<and> co s (wc_id c) = None \<and> wc_status c = CS_ACTIVE \<and>
    text_prop body ''name'' = Some (wc_name c) \<and> length (wc_name c) \<in> {1..100} \<and>
    text_prop body ''url'' = Some (wc_url c) \<and> length (wc_url c) \<in> {1..500} \<and>
    (\<forall>j r. co s j = Some r \<longrightarrow> wc_url r \<noteq> wc_url c) \<and>
    asked_number shown body ''maxRetries'' 5 = Some (int (wc_maxRetries c)) \<and> wc_maxRetries c \<le> 20 \<and>
    asked_number shown body ''timeoutMs'' 5000 = Some (int (wc_timeoutMs c)) \<and> wc_timeoutMs c \<in> {1000..30000}"
proof -
  obtain dto where dto: "pipe CreateConsumerDto_class body = Inr dto" "createConsumer_request A (consumer_dto dto) s = (Inr c, s')"
    using assms(3) by (auto simp: createConsumer_http_def validated_def throwE_def split: sum.splits)
  from created_consumer [OF assms(1) dto(2)] obtain i t where "c = wc_gen i t (new_consumer (consumer_dto dto))"
    "co s i = None" "co s' = (co s)(i \<mapsto> c)" "\<forall>j r. co s j = Some r \<longrightarrow> wc_url r \<noteq> cc_url (consumer_dto dto)" by blast
  with validation_library.validated_consumer [OF assms(2) dto(1) refl] show ?thesis
    by (auto simp: wc_gen_def new_consumer_def)
qed

theorem consumer_request_bounds_witness:
  "\<exists>c s'. createConsumer_http plain_pipe (mem_stellar down) demo_consumer_body demo_stellar = (Inr c, s') \<and>
    mem_co s' = (mem_co demo_stellar)(wc_id c \<mapsto> c) \<and> wc_url c = ''https://a.io'' \<and> wc_maxRetries c = 7 \<and> wc_timeoutMs c = 5000"
proof -
  have asked: "text_prop demo_consumer_body ''url'' = Some ''https://a.io''"
    "asked_number plain_text demo_consumer_body ''maxRetries'' 5 = Some 7"
    "asked_number plain_text demo_consumer_body ''timeoutMs'' 5000 = Some 5000" by code_simp+
  obtain c s' where run: "createConsumer_http plain_pipe (mem_stellar down) demo_consumer_body demo_stellar = (Inr c, s')"
    using demo_consumer_stored by blast
  from consumer_request_bounds [OF mem_stellar_store plain.validation_library_axioms run] run show ?thesis
    unfolding asked by auto
qed

end
