(* ===== verification/Queue_Example.thy ===== *)
theory Queue_Example
  imports Job_Queue Js_Value
begin

text \<open>
  The sample service of the queue module (src/Backend/src/queue/examples/queue-example.service.ts) and the health it computes.
  No module provides it. A job is added with a time limit, which only the queue library reads: \<open>Q t\<close> is the queue whose
  \<open>add\<close> passes \<open>timeout: t\<close>, and \<open>Q 0\<close> passes none.
\<close>

section \<open>Adding jobs\<close>

text \<open>The library stores a job's data as JSON, which leaves out a property that is \<open>undefined\<close>.\<close>

definition opt_prop :: "string \<Rightarrow> string option \<Rightarrow> jobj" where
  "opt_prop k v = (case v of None \<Rightarrow> [] | Some x \<Rightarrow> [(k, JStr x)])"

definition exponential :: "int \<Rightarrow> json" where
  "exponential delay = JObj [(''type'', JStr ''exponential''), (''delay'', JNum delay)]"

definition queueContractDeployment ::
  "(int \<Rightarrow> 's queue_env) \<Rightarrow> string \<Rightarrow> string \<Rightarrow> string \<Rightarrow> string option \<Rightarrow> ('s, Job) prog" where
  "queueContractDeployment Q contractName contractCode network initializer =
     addJob (Q 60000) ''deploy-contract'' ''deploy''
       (JObj ([(''contractName'', JStr contractName), (''contractCode'', JStr contractCode), (''network'', JStr network)] @
          opt_prop ''initializer'' initializer))
       (Some 3) (Some (exponential 2000))"

text \<open>The numbers of the model's JSON are integers, so the speed is one; \<open>None\<close> for a parameter with a default is the missing argument.\<close>

definition queueTtsProcessing ::
  "(int \<Rightarrow> 's queue_env) \<Rightarrow> string \<Rightarrow> string \<Rightarrow> string option \<Rightarrow> int option \<Rightarrow> string option \<Rightarrow> ('s, Job) prog" where
  "queueTtsProcessing Q text voiceId language speed sessionId =
     addJob (Q 30000) ''process-tts'' ''process''
       (JObj ([(''text'', JStr text), (''voiceId'', JStr voiceId),
          (''language'', JStr (case language of None \<Rightarrow> ''en'' | Some l \<Rightarrow> l)),
          (''speed'', JNum (case speed of None \<Rightarrow> 1 | Some x \<Rightarrow> x))] @ opt_prop ''sessionId'' sessionId))
       (Some 2) (Some (exponential 1000))"

definition queueMarketNewsIndexing ::
  "(int \<Rightarrow> 's queue_env) \<Rightarrow> string \<Rightarrow> string option \<Rightarrow> string option \<Rightarrow> int option \<Rightarrow> ('s, Job) prog" where
  "queueMarketNewsIndexing Q source startDate endDate limit =
     addJob (Q 120000) ''index-market-news'' ''index''
       (JObj ([(''source'', JStr source)] @ opt_prop ''startDate'' startDate @ opt_prop ''endDate'' endDate @
          [(''limit'', JNum (case limit of None \<Rightarrow> 100 | Some n \<Rightarrow> if n = 0 then 100 else n))]))
       (Some 3) (Some (exponential 5000))"

section \<open>Looking after jobs\<close>

definition monitorJobStatus :: "(int \<Rightarrow> 's queue_env) \<Rightarrow> string \<Rightarrow> string \<Rightarrow> ('s, JobInfo option) prog" where
  "monitorJobStatus Q queueName jobId = getJobInfo (Q 0) queueName jobId"

definition handleJobCompletion :: "(int \<Rightarrow> 's queue_env) \<Rightarrow> string \<Rightarrow> string \<Rightarrow> ('s, JobInfo) prog" where
  "handleJobCompletion Q queueName jobId =
     bindE (getJobInfo (Q 0) queueName jobId) (\<lambda>found. case found of
       None \<Rightarrow> throwE (Error (''Job '' @ jobId @ '' not found''))
     | Some jobInfo \<Rightarrow> returnE jobInfo)"

text \<open>\<open>requeueJob\<close> returns a job whenever it returns, so the test of its result never fires.\<close>

definition retryFailedJob :: "(int \<Rightarrow> 's queue_env) \<Rightarrow> string \<Rightarrow> string \<Rightarrow> ('s, Job) prog" where
  "retryFailedJob Q queueName jobId = requeueJob (Q 0) queueName jobId"

record queue_metrics =
  qx_stats :: queue_stats
  qx_totalJobs :: nat
  qx_failureRate :: string
  qx_health :: string

definition failure_rate :: "queue_stats \<Rightarrow> nat \<Rightarrow> rat" where
  "failure_rate st n = (if 0 < n then of_nat (qs_failed st) / of_nat n * 100 else 0)"

definition all_jobs :: "queue_stats \<Rightarrow> nat" where
  "all_jobs st = foldl (+) 0 [qs_active st, qs_completed st, qs_failed st, qs_delayed st, qs_waiting st]"

definition health_of :: "rat \<Rightarrow> string" where
  "health_of r = (if r < 5 then ''healthy'' else if r < 10 then ''warning'' else ''critical'')"

text \<open>The rate is exact here; the program's is rounded to a double before it is printed with two decimals.\<close>

definition getQueueMetrics :: "(int \<Rightarrow> 's queue_env) \<Rightarrow> string \<Rightarrow> ('s, queue_metrics) prog" where
  "getQueueMetrics Q queueName =
     bindE (getQueueStats (Q 0) queueName) (\<lambda>stats.
       let totalJobs = all_jobs stats; failureRate = failure_rate stats totalJobs in
       returnE \<lparr>qx_stats = stats, qx_totalJobs = totalJobs, qx_failureRate = toFixed 2 failureRate @ ''%'',
         qx_health = health_of failureRate\<rparr>)"

definition processDeadLetterQueue :: "(int \<Rightarrow> 's queue_env) \<Rightarrow> string \<Rightarrow> int option \<Rightarrow> ('s, Job list) prog" where
  "processDeadLetterQueue Q queueName limit =
     (let limit = (case limit of None \<Rightarrow> 10 | Some n \<Rightarrow> n) in
      bindE (getDeadLetterQueue (Q 0) queueName limit) (\<lambda>dlqItems.
        if 0 < length dlqItems then requeueFromDLQ (Q 0) queueName limit else returnE []))"

section \<open>Lemmas\<close>

text \<open>Looking first changes nothing: on a list with nothing to read, \<open>requeueFromDLQ\<close> adds no job either.\<close>

lemma processDeadLetterQueue_requeues:
  assumes "queue_store (Q 0) dlq jobs"
  shows "processDeadLetterQueue Q q (Some n) s = requeueFromDLQ (Q 0) q n s"
proof -
  have look: "q_lRange (Q 0) k a b s = (Inr (redis_range (dlq s k) a b), s)" for k a b s
    using assms by (rule queue_store.lRange_law)
  show ?thesis
    by (simp add: processDeadLetterQueue_def getDeadLetterQueue_def requeueFromDLQ_def bindE_def look Let_def
        returnE_def localE_def whenE_def seqE_def)
qed

lemma addJob_adds:
  assumes "queue_store Q dlq jobs" and "List.member queue_names q"
  shows "\<exists>j s'. addJob Q q n v attempts backoff s = (Inr j, s') \<and> job_spec j = (n, v, attempts) \<and> dlq s' = dlq s \<and>
    jobs s' = (jobs s)(q := jobs s q @ [job_spec j])"
  using queue_store.add_law [OF assms(1), of q n v "\<lparr>jo_removeOnComplete = False, jo_removeOnFail = False,
      jo_attempts = attempts, jo_backoff = backoff\<rparr>" s] assms(2)
  by (simp add: addJob_def getQueueByName_def bindE_def returnE_def)

text \<open>The jobs of the three helpers reach the queues their processors read, with the attempts the module's notes give.\<close>

lemma helpers_add:
  assumes "\<And>t. queue_store (Q t) dlq jobs"
  shows "\<exists>j s'. queueContractDeployment Q a b c d s = (Inr j, s') \<and> snd (snd (job_spec j)) = Some 3 \<and>
      jobs s' = (jobs s)(''deploy-contract'' := jobs s ''deploy-contract'' @ [job_spec j])"
    and "\<exists>j s'. queueTtsProcessing Q a b l r d s = (Inr j, s') \<and> snd (snd (job_spec j)) = Some 2 \<and>
      jobs s' = (jobs s)(''process-tts'' := jobs s ''process-tts'' @ [job_spec j])"
    and "\<exists>j s'. queueMarketNewsIndexing Q a u v n s = (Inr j, s') \<and> snd (snd (job_spec j)) = Some 3 \<and>
      jobs s' = (jobs s)(''index-market-news'' := jobs s ''index-market-news'' @ [job_spec j])"
proof -
  have names: "List.member queue_names ''deploy-contract''" "List.member queue_names ''process-tts''"
    "List.member queue_names ''index-market-news''" by (simp_all add: queue_names_def)
  note adds = addJob_adds [OF assms]
  show "\<exists>j s'. queueContractDeployment Q a b c d s = (Inr j, s') \<and> snd (snd (job_spec j)) = Some 3 \<and>
      jobs s' = (jobs s)(''deploy-contract'' := jobs s ''deploy-contract'' @ [job_spec j])"
    unfolding queueContractDeployment_def using adds [OF names(1)] by fastforce
  show "\<exists>j s'. queueTtsProcessing Q a b l r d s = (Inr j, s') \<and> snd (snd (job_spec j)) = Some 2 \<and>
      jobs s' = (jobs s)(''process-tts'' := jobs s ''process-tts'' @ [job_spec j])"
    unfolding queueTtsProcessing_def using adds [OF names(2)] by fastforce
  show "\<exists>j s'. queueMarketNewsIndexing Q a u v n s = (Inr j, s') \<and> snd (snd (job_spec j)) = Some 3 \<and>
      jobs s' = (jobs s)(''index-market-news'' := jobs s ''index-market-news'' @ [job_spec j])"
    unfolding queueMarketNewsIndexing_def using adds [OF names(3)] by fastforce
qed

text \<open>A tenth of failed jobs is already critical.\<close>

lemma tenth_is_critical: "qs_failed st = k \<Longrightarrow> 0 < k \<Longrightarrow> health_of (failure_rate st (10 * k)) = ''critical''"
  by (simp add: failure_rate_def health_of_def)

end
