(* ===== verification/Voice_Processing.thy ===== *)
theory Voice_Processing
  imports Voice_Session Llm
begin

text \<open>
  The sample service that joins sessions, quota, cache and model
  (src/Backend/src/voice/services/voice-processing.service.example.ts), and its sample gateway. No module provides them. The
  sessions and the language model keep their data in the same store.
\<close>

section \<open>VoiceProcessingService\<close>

text \<open>\<open>error.status\<close>, which only an \<open>HttpException\<close> has.\<close>

fun error_status :: "exn \<Rightarrow> nat option" where
  "error_status (HttpException m n) = Some n"
| "error_status _ = None"

record 'j prompt_outcome =
  vp_response :: "'j rtext"
  vp_cached :: bool
  vp_quotaStatus :: "QuotaStatus option"
  vp_shouldNotifyQuotaWarning :: bool

text \<open>\<open>getQuotaStatus(userId, sessionId)\<close> with its defaults: the current time and the default limits.\<close>

definition current_quota :: "('s, 'j) llm_env \<Rightarrow> string \<Rightarrow> string \<Rightarrow> ('s, QuotaStatus) prog" where
  "current_quota L userId sessionId =
     bindE (readE (le_now L)) (\<lambda>now. getQuotaStatus (le_quota L) userId sessionId now defaultConfig)"

text \<open>\<open>monthlyUsage / monthlyLimit > 0.9\<close>; a usage that is not a number gives no warning.\<close>

definition above_90 :: "QuotaStatus option \<Rightarrow> bool" where
  "above_90 q = (case q of None \<Rightarrow> False | Some st \<Rightarrow>
     (case qs_monthlyUsage st of None \<Rightarrow> False | Some n \<Rightarrow> 9 / 10 < (of_int n / of_int (qs_monthlyLimit st) :: rat)))"

definition prompt_options :: LlmResponseOptions where
  "prompt_options = \<lparr>lo_model = Some ''gpt-3.5-turbo'', lo_useCache = Some True, lo_recordQuota = Some True, lo_cacheTtl = None\<rparr>"

definition LIMIT_REACHED :: string where
  "LIMIT_REACHED = ''I apologize, but you'' @ [CHR 0x27] @ ''ve reached your usage limit for this month. '' @
     ''Please try again next month or contact support for a quota increase.''"

definition TROUBLE :: string where
  "TROUBLE = ''I'' @ [CHR 0x27] @ ''m having trouble processing your request right now. Please try again.''"

definition excuse :: "('s, 'j) llm_env \<Rightarrow> string \<Rightarrow> string \<Rightarrow> string \<Rightarrow> ('s, 'j prompt_outcome) prog" where
  "excuse L userId sessionId message =
     bindE (current_quota L userId sessionId) (\<lambda>st. returnE
       \<lparr>vp_response = Txt message, vp_cached = False, vp_quotaStatus = Some st, vp_shouldNotifyQuotaWarning = False\<rparr>)"

definition processUserPrompt :: "'s voice_env \<Rightarrow> ('s, 'j) llm_env \<Rightarrow> string \<Rightarrow> string \<Rightarrow> string \<Rightarrow> ('s, 'j prompt_outcome) prog" where
  "processUserPrompt V L userId sessionId userMessage =
     catchE
       (bindE (getSession V sessionId) (\<lambda>session.
        if (case session of None \<Rightarrow> True | Some x \<Rightarrow> vs_userId x \<noteq> userId) then throwE (Error ''Invalid session'')
        else bindE (generateResponse L userId sessionId userMessage prompt_options) (\<lambda>r. returnE
          \<lparr>vp_response = lr_content r, vp_cached = lr_cached r, vp_quotaStatus = lr_quotaStatus r,
           vp_shouldNotifyQuotaWarning = above_90 (lr_quotaStatus r)\<rparr>)))
       (\<lambda>error. if error_status error = Some 429 then excuse L userId sessionId LIMIT_REACHED
                else excuse L userId sessionId TROUBLE)"

definition no_options :: LlmResponseOptions where
  "no_options = \<lparr>lo_model = None, lo_useCache = None, lo_recordQuota = None, lo_cacheTtl = None\<rparr>"

definition processUserPromptWithFallback :: "('s, 'j) llm_env \<Rightarrow> string \<Rightarrow> string \<Rightarrow> string \<Rightarrow> ('s, 'j rtext) prog" where
  "processUserPromptWithFallback L userId sessionId userMessage =
     bindE (generateResponseWithFallback L userId sessionId userMessage no_options) (\<lambda>r. returnE (lr_content r))"

record quota_info =
  qi_monthlyUsage :: jsnum
  qi_monthlyLimit :: int
  qi_monthlyRemaining :: jsnum
  qi_monthlyPercentage :: "rat option"
  qi_sessionUsage :: jsnum
  qi_sessionLimit :: int
  qi_sessionRemaining :: jsnum
  qi_requestsThisMinute :: jsnum
  qi_requestsPerMinuteLimit :: int

definition minus_num :: "int \<Rightarrow> jsnum \<Rightarrow> jsnum" where
  "minus_num a v = map_option (\<lambda>n. a - n) v"

definition getUserQuotaInfo :: "('s, 'j) llm_env \<Rightarrow> string \<Rightarrow> string \<Rightarrow> ('s, quota_info) prog" where
  "getUserQuotaInfo L userId sessionId =
     bindE (current_quota L userId sessionId) (\<lambda>st. returnE
       \<lparr>qi_monthlyUsage = qs_monthlyUsage st, qi_monthlyLimit = qs_monthlyLimit st,
        qi_monthlyRemaining = minus_num (qs_monthlyLimit st) (qs_monthlyUsage st),
        qi_monthlyPercentage = map_option (\<lambda>n. of_int n / of_int (qs_monthlyLimit st) * 100) (qs_monthlyUsage st),
        qi_sessionUsage = qs_sessionUsage st, qi_sessionLimit = qs_sessionLimit st,
        qi_sessionRemaining = minus_num (qs_sessionLimit st) (qs_sessionUsage st),
        qi_requestsThisMinute = qs_requestsThisMinute st, qi_requestsPerMinuteLimit = qs_requestsPerMinuteLimit st\<rparr>)"

definition canUserMakeRequest :: "('s, 'j) llm_env \<Rightarrow> string \<Rightarrow> string \<Rightarrow> ('s, bool) prog" where
  "canUserMakeRequest L userId sessionId =
     catchE (seqE (enforceQuota (le_quota L) userId sessionId defaultConfig) (returnE True))
       (\<lambda>error. if error_status error = Some 429 then returnE False else throwE error)"

definition terminateUserSession :: "'s voice_env \<Rightarrow> ('s, 'j) llm_env \<Rightarrow> string \<Rightarrow> ('s, unit) prog" where
  "terminateUserSession V L sessionId =
     bindE (getSession V sessionId) (\<lambda>session.
       whenE (session \<noteq> None) (seqE (resetSessionQuota (le_quota L) sessionId) (ignoreE (terminateSession V sessionId))))"

definition common_prompt :: "string \<Rightarrow> string \<Rightarrow> cache_warm_entry" where
  "common_prompt p r = \<lparr>we_prompt = p, we_response = r, we_model = ''gpt-3.5-turbo'', we_ttl = Some 86400\<rparr>"

definition commonPrompts :: "cache_warm_entry list" where
  "commonPrompts =
     [common_prompt ''What is blockchain?'' (''Blockchain is a distributed ledger technology that records transactions '' @
        ''in a chain of blocks secured by cryptography.''),
      common_prompt ''How do I reset my wallet?'' (''To reset your wallet, go to Settings > Wallet > Reset. '' @
        ''Make sure to back up your seed phrase first.''),
      common_prompt ''What is a smart contract?'' (''A smart contract is a self-executing contract with terms written in code '' @
        ''on a blockchain, automatically executing when conditions are met.''),
      common_prompt ''Help'' (''Hello! I'' @ [CHR 0x27] @ ''m here to help. You can ask me questions about blockchain, '' @
        ''wallets, transactions, and more. What would you like to know?'')]"

definition initializeCacheWithCommonPrompts :: "('s, 'j) llm_env \<Rightarrow> ('s, unit) prog" where
  "initializeCacheWithCommonPrompts L = catchE (ignoreE (llm_warmCache L commonPrompts)) (\<lambda>error. returnE ())"

definition getCacheMetrics :: "('s, 'j) llm_env \<Rightarrow> ('s, CacheStats) prog" where
  "getCacheMetrics L = getCacheStats L"

definition onLlmModelUpdate :: "('s, 'j) llm_env \<Rightarrow> string \<Rightarrow> ('s, unit) prog" where
  "onLlmModelUpdate L newModel = ignoreE (invalidateAllCache L)"

text \<open>
  \<open>setUserMonthlyQuota\<close> on what \<open>current + additionalRequests\<close> gives: the number read may be none, and its sum
  is then written as \<open>NaN\<close>.
\<close>

definition show_jsnum :: "jsnum \<Rightarrow> string" where
  "show_jsnum v = (case v of None \<Rightarrow> ''NaN'' | Some n \<Rightarrow> show_int n)"

definition write_monthly_limit :: "('s, 'j) quota_env \<Rightarrow> string \<Rightarrow> jsnum \<Rightarrow> ('s, unit) prog" where
  "write_monthly_limit Q userId limit =
     catchE
       (bindE (readE (qe_now Q)) (\<lambda>now.
        bindE (readCount Q (getMonthKey userId now)) (\<lambda>currentUsage.
          r_set (qe_redis Q) (limitKey userId) (Txt (show_jsnum limit)) (Some (getMonthExpiry (qe_tz Q) now)))))
       (\<lambda>error. returnE ())"

definition grantQuotaException :: "('s, 'j) llm_env \<Rightarrow> string \<Rightarrow> int \<Rightarrow> ('s, unit) prog" where
  "grantQuotaException L userId additionalRequests =
     bindE (getUserMonthlyQuota (le_quota L) userId) (\<lambda>current.
       write_monthly_limit (le_quota L) userId (map_option (\<lambda>n. n + additionalRequests) current))"

definition performCacheMaintenance :: "('s, 'j) llm_env \<Rightarrow> ('s, unit) prog" where
  "performCacheMaintenance L =
     catchE (seqE (ignoreE (pruneOldEntries L (48 * 3600))) (ignoreE (getCacheStats L))) (\<lambda>error. returnE ())"

section \<open>VoiceGatewayIntegration\<close>

datatype 'j gateway_answer =
    QuotaExceeded string string
  | Answer "'j rtext" bool jsnum int "string option"

definition handleVoiceMessage :: "'s voice_env \<Rightarrow> ('s, 'j) llm_env \<Rightarrow> string \<Rightarrow> string \<Rightarrow> string \<Rightarrow> ('s, 'j gateway_answer) prog" where
  "handleVoiceMessage V L userId sessionId userMessage =
     bindE (canUserMakeRequest L userId sessionId) (\<lambda>canRequest.
     if \<not> canRequest then returnE (QuotaExceeded ''Quota exceeded'' ''You have reached your monthly usage limit.'')
     else bindE (processUserPrompt V L userId sessionId userMessage) (\<lambda>result.
       case vp_quotaStatus result of
         None \<Rightarrow> throwE (TypeError ''Cannot read properties of undefined (reading monthlyLimit)'')
       | Some st \<Rightarrow> returnE (Answer (vp_response result) (vp_cached result)
           (minus_num (qs_monthlyLimit st) (qs_monthlyUsage st)) (qs_monthlyLimit st)
           (if vp_shouldNotifyQuotaWarning result then Some ''You are approaching your monthly quota limit'' else None))))"

definition handleSessionEnd :: "'s voice_env \<Rightarrow> ('s, 'j) llm_env \<Rightarrow> string \<Rightarrow> ('s, unit) prog" where
  "handleSessionEnd V L sessionId = terminateUserSession V L sessionId"

definition getQuotaInfo :: "('s, 'j) llm_env \<Rightarrow> string \<Rightarrow> string \<Rightarrow> ('s, quota_info) prog" where
  "getQuotaInfo L userId sessionId = getUserQuotaInfo L userId sessionId"

section \<open>Lemmas\<close>

text \<open>A session that is not the user's is answered without asking the model.\<close>

lemma foreign_session_excused:
  assumes "getSession V i s = (Inr found, s')" and "case found of None \<Rightarrow> True | Some x \<Rightarrow> vs_userId x \<noteq> u"
  shows "processUserPrompt V L u i m s = excuse L u i TROUBLE s'"
  using assms by (auto simp: processUserPrompt_def catchE_def bindE_def throwE_def)

text \<open>The fallback always answers.\<close>

lemma fallback_answers: "\<exists>r s'. processUserPromptWithFallback L u i m s = (Inr r, s')"
  using llm_fallback_total [of L u i m no_options s] by (auto simp: processUserPromptWithFallback_def bindE_def returnE_def)

text \<open>On a number the limit is written as \<open>setUserMonthlyQuota\<close> writes it.\<close>

lemma write_monthly_limit_number: "write_monthly_limit Q u (Some n) = setUserMonthlyQuota Q u n"
  by (simp add: write_monthly_limit_def setUserMonthlyQuota_def show_jsnum_def)

text \<open>The warning compares with the default limit, also for a user whose own limit is higher.\<close>

lemma warns_from_901:
  assumes "qs_monthlyLimit st = qc_monthlyLimit defaultConfig" and "qs_monthlyUsage st = Some n"
  shows "above_90 (Some st) \<longleftrightarrow> 900 < n"
proof -
  have "(9 / 10 < (of_int n / 1000 :: rat)) \<longleftrightarrow> (of_int 900 < (of_int n :: rat))" by (simp add: field_simps)
  also have "\<dots> \<longleftrightarrow> 900 < n" by (rule of_int_less_iff)
  finally show ?thesis using assms by (simp add: above_90_def defaultConfig_def)
qed

context llm_store
begin

text \<open>Asking whether a request may be made changes nothing and counts nothing.\<close>

lemma canUserMakeRequest_decides:
  assumes "usage (cell s) u i (le_now L s) a b c" and "custom_limit (cell s) u l"
  shows "canUserMakeRequest L u i s =
    (Inr (a < effective_limit l defaultConfig \<and> b < qc_perSessionLimit defaultConfig \<and> c < qc_requestsPerMinute defaultConfig), s)"
proof -
  have "wp (canUserMakeRequest L u i) (\<lambda>v s'. s' = s \<and>
      v = (a < effective_limit l defaultConfig \<and> b < qc_perSessionLimit defaultConfig \<and> c < qc_requestsPerMinute defaultConfig))
    (\<lambda>_ _. False) s"
    unfolding canUserMakeRequest_def
    by (simp add: wp_simps, rule wp_mono [OF enforce_wp [OF assms]]) (auto simp: wp_simps)
  then show ?thesis by (auto simp: wp_value)
qed

end

lemma warmed_prompts: "map we_ttl commonPrompts = replicate 4 (Some 86400)" "distinct (map we_prompt commonPrompts)"
  by (simp_all add: commonPrompts_def common_prompt_def numeral_eq_Suc)

end
