(* ===== verification/App_Startup.thy ===== *)
theory App_Startup
  imports App_Modules Presence
begin

text \<open>
  Starting and stopping the server (\<open>bootstrap\<close> and \<open>handleShutdown\<close> of src/Backend/src/main.ts, with the socket adapter of
  src/Backend/src/websocket/redis-io.adapter.ts). The calls of the framework and of Redis are arguments; the settings made on
  the application, the variable \<open>app\<close> and the exit code are kept in a record beside the store.
\<close>

section \<open>The process\<close>

datatype setting = ShutdownHooks | GlobalValidation | ApiDocs | SocketAdapter bool | GlobalThrottle

text \<open>\<open>pr_listening\<close> is the port with the settings in force when the server began to listen; the first exit ends the process.\<close>

record server_process =
  pr_app :: bool
  pr_settings :: "setting list"
  pr_listening :: "(string \<times> setting list) option"
  pr_exit :: "nat option"

record 's boot_env =
  bt_create :: "('s, unit) prog"
  bt_docs :: "('s, unit) prog"
  bt_connectPub :: "('s, unit) prog"
  bt_connectSub :: "('s, unit) prog"
  bt_getThrottleGuard :: "('s, unit) prog"
  bt_listen :: "string \<Rightarrow> ('s, unit) prog"
  bt_close :: "('s, unit) prog"

definition fresh_process :: server_process where
  "fresh_process = \<lparr>pr_app = False, pr_settings = [], pr_listening = None, pr_exit = None\<rparr>"

definition use_setting :: "setting \<Rightarrow> ('s \<times> server_process, unit) prog" where
  "use_setting x = modL (\<lambda>p. p\<lparr>pr_settings := pr_settings p @ [x]\<rparr>)"

definition process_exit :: "nat \<Rightarrow> ('s \<times> server_process, unit) prog" where
  "process_exit n = modL (\<lambda>p. p\<lparr>pr_exit := (case pr_exit p of None \<Rightarrow> Some n | Some m \<Rightarrow> Some m)\<rparr>)"

section \<open>bootstrap\<close>

definition require_env :: "(string \<Rightarrow> string option) \<Rightarrow> ('s, unit) prog" where
  "require_env env = (case validateRequiredEnv env of Inl e \<Rightarrow> throwE e | Inr _ \<Rightarrow> returnE ())"

text \<open>\<open>process.env.PORT ?? 3000\<close>: an empty port is kept.\<close>

definition server_port :: "(string \<Rightarrow> string option) \<Rightarrow> string" where
  "server_port env = (case env ''PORT'' of None \<Rightarrow> ''3000'' | Some p \<Rightarrow> p)"

definition bootstrap :: "(string \<Rightarrow> string option) \<Rightarrow> 's boot_env \<Rightarrow> ('s \<times> server_process, unit) prog" where
  "bootstrap env B =
     seqE (require_env env)
     (seqE (liftL (bt_create B))
     (seqE (modL (\<lambda>p. p\<lparr>pr_app := True\<rparr>))
     (seqE (use_setting ShutdownHooks)
     (seqE (use_setting GlobalValidation)
     (seqE (liftL (bt_docs B))
     (seqE (use_setting ApiDocs)
     (bindE (liftL (connectToRedis (bt_connectPub B) (bt_connectSub B))) (\<lambda>adapter.
      seqE (use_setting (SocketAdapter adapter))
     (seqE (liftL (bt_getThrottleGuard B))
     (seqE (use_setting GlobalThrottle)
     (seqE (liftL (bt_listen B (server_port env)))
        (modL (\<lambda>p. p\<lparr>pr_listening := Some (server_port env, pr_settings p)\<rparr>)))))))))))))"

definition start_server :: "(string \<Rightarrow> string option) \<Rightarrow> 's boot_env \<Rightarrow> ('s \<times> server_process, unit) prog" where
  "start_server env B = catchE (bootstrap env B) (\<lambda>err. process_exit 1)"

definition handleShutdown :: "'s boot_env \<Rightarrow> ('s \<times> server_process, unit) prog" where
  "handleShutdown B =
     seqE (catchE (bindE getL (\<lambda>p. whenE (pr_app p) (liftL (bt_close B)))) (\<lambda>err. returnE ()))
       (process_exit 0)"

section \<open>The socket server\<close>

definition redis_url :: "(string \<Rightarrow> string option) \<Rightarrow> string" where
  "redis_url env = or_str (env ''REDIS_URL'')
     (''redis://'' @ or_str (env ''REDIS_HOST'') ''localhost'' @ '':'' @ or_str (env ''REDIS_PORT'') ''6379'')"

datatype socket_server = RedisServer | InMemoryServer

text \<open>\<open>createIOServer\<close> on the library's server: the adapter is applied when \<open>connectToRedis\<close> kept one.\<close>

definition createIOServer :: "bool \<Rightarrow> socket_server" where
  "createIOServer adapter = (if adapter then RedisServer else InMemoryServer)"

section \<open>Lemmas\<close>

lemmas startup_defs = start_server_def bootstrap_def use_setting_def process_exit_def require_env_def

text \<open>Without a required variable nothing is created: the process exits with 1 and the store is as before.\<close>

lemma start_without_env:
  assumes "validateRequiredEnv env \<noteq> Inr ()"
  shows "start_server env B (s, fresh_process) = (Inr (), (s, fresh_process\<lparr>pr_exit := Some 1\<rparr>))"
  using assms
  by (cases "validateRequiredEnv env")
    (simp_all add: startup_defs fresh_process_def seqE_def bindE_def catchE_def throwE_def modL_def)

text \<open>
  Whatever fails on the way: the server either exits with 1 and never listens, or listens on its port with the validation
  pipe and the throttle guard installed before.
\<close>

lemma wp_everywhere: "(\<And>v s'. Q v s') \<Longrightarrow> (\<And>e s'. X e s') \<Longrightarrow> wp m Q X s"
  by (simp add: wp_def split: prod.split sum.split)

definition guarded_start :: "(string \<Rightarrow> string option) \<Rightarrow> server_process \<Rightarrow> bool" where
  "guarded_start env p \<longleftrightarrow>
     (case pr_listening p of
        None \<Rightarrow> pr_exit p = Some 1
      | Some (port, xs) \<Rightarrow> port = server_port env \<and> pr_exit p = None \<and> GlobalValidation \<in> set xs \<and> GlobalThrottle \<in> set xs)"

lemma env_given: "validateRequiredEnv env = Inr () \<Longrightarrow> require_env env = returnE ()"
  by (simp add: require_env_def)

lemma start_guarded:
  "\<exists>s' p. start_server env B (s, fresh_process) = (Inr (), (s', p)) \<and> guarded_start env p"
proof (cases "validateRequiredEnv env = Inr ()")
  case True
  have "wp (start_server env B) (\<lambda>_ p. guarded_start env (snd p)) (\<lambda>_ _. False) (s, fresh_process)"
    unfolding start_server_def bootstrap_def env_given [OF True] use_setting_def process_exit_def
    by (simp add: wp_simps, intro wp_everywhere) (simp_all add: fresh_process_def guarded_start_def)
  then show ?thesis by (auto simp: wp_value)
next
  case False
  then show ?thesis by (simp add: start_without_env) (simp add: fresh_process_def guarded_start_def)
qed

text \<open>Redis being out of reach does not stop the server: it runs with its sockets in memory.\<close>

lemma redis_refused: "connectToRedis (throwE e) connectSub s = (Inr False, snd (connectSub s))"
  by (cases "connectSub s")
    (simp add: connectToRedis_def promise_all_def settle_def bindE_def catchE_def throwE_def returnE_def split: sum.split)

lemma start_without_redis:
  assumes "validateRequiredEnv env = Inr ()" and "bt_connectPub B = throwE e"
    and "bt_create B = returnE ()" and "bt_docs B = returnE ()" and "bt_getThrottleGuard B = returnE ()"
    and "bt_listen B (server_port env) = returnE ()"
  shows "start_server env B (s, fresh_process) = (Inr (), (snd (bt_connectSub B s), \<lparr>pr_app = True,
    pr_settings = [ShutdownHooks, GlobalValidation, ApiDocs, SocketAdapter False, GlobalThrottle],
    pr_listening = Some (server_port env, [ShutdownHooks, GlobalValidation, ApiDocs, SocketAdapter False, GlobalThrottle]),
    pr_exit = None\<rparr>))"
  unfolding start_server_def bootstrap_def env_given [OF assms(1)] assms(2-6) use_setting_def
  by (simp add: seqE_def bindE_def catchE_def returnE_def modL_def liftL_def fresh_process_def redis_refused)

text \<open>A signal always ends the process, with 0 also when closing failed or nothing was started yet.\<close>

lemma shutdown_exits:
  assumes "pr_exit p = None"
  shows "\<exists>s'. handleShutdown B (s, p) = (Inr (), (s', p\<lparr>pr_exit := Some 0\<rparr>))"
proof -
  have "wp (handleShutdown B) (\<lambda>_ t. snd t = p\<lparr>pr_exit := Some 0\<rparr>) (\<lambda>_ _. False) (s, p)"
    unfolding handleShutdown_def process_exit_def
    by (cases "pr_app p") (auto simp: wp_simps assms intro: wp_everywhere)
  then show ?thesis by (auto simp: wp_value)
qed

lemma shutdown_unstarted: "\<not> pr_app p \<Longrightarrow> fst (snd (handleShutdown B (s, p))) = s"
  by (simp add: handleShutdown_def process_exit_def seqE_def bindE_def catchE_def getL_def modL_def whenE_def returnE_def)

text \<open>The host and port variables are never used: without \<open>REDIS_URL\<close> the server does not start.\<close>

lemma redis_url_given: "validateRequiredEnv env = Inr () \<Longrightarrow> env ''REDIS_URL'' = Some (redis_url env)"
  by (auto simp: validateRequiredEnv_iff REQUIRED_ENV_VARS_def redis_url_def truthy_def or_str_def split: option.splits)

end
