(* ===== verification/Log_Output.thy ===== *)
theory Log_Output
  imports Observability
begin

text \<open>
  How \<open>LoggingService\<close> sets up its logger (\<open>initializeLogger\<close> of src/Backend/src/observability/services/logging.service.ts):
  its level, its files and the line it writes for an entry. The library's own formats, which run before, and the colours of
  the console are the library's; \<open>env\<close> are the environment variables.
\<close>

section \<open>Settings\<close>

record file_transport =
  ft_filename :: string
  ft_level :: "string option"
  ft_maxsize :: int
  ft_maxFiles :: nat

record logger_settings =
  ls_level :: string
  ls_service :: string
  ls_files :: "file_transport list"

definition ten_megabytes :: int where "ten_megabytes = 10485760"

definition initializeLogger :: "(string \<Rightarrow> string option) \<Rightarrow> logger_settings" where
  "initializeLogger env = \<lparr>ls_level = or_str (env ''LOG_LEVEL'') ''info'', ls_service = or_str (env ''SERVICE_NAME'') ''stellara-backend'',
     ls_files = [\<lparr>ft_filename = ''logs/error.log'', ft_level = Some ''error'', ft_maxsize = ten_megabytes, ft_maxFiles = 5\<rparr>,
                 \<lparr>ft_filename = ''logs/combined.log'', ft_level = None, ft_maxsize = ten_megabytes, ft_maxFiles = 10\<rparr>]\<rparr>"

section \<open>The line of an entry\<close>

text \<open>\<open>({level, message, timestamp, traceId, spanId, ...meta})\<close>: the named properties and the rest in its order.\<close>

definition named :: "string list" where
  "named = [''level'', ''message'', ''timestamp'', ''traceId'', ''spanId'']"

definition entry_meta :: "jobj \<Rightarrow> jobj" where
  "entry_meta info = filter (\<lambda>p. \<not> List.member named (fst p)) info"

definition if_given :: "string \<Rightarrow> jobj \<Rightarrow> jobj" where
  "if_given k info = (case map_of info k of None \<Rightarrow> [] | Some v \<Rightarrow> if json_truthy v then [(k, v)] else [])"

text \<open>\<open>JSON.stringify\<close> leaves out a property that is \<open>undefined\<close>, as \<open>opt_field\<close> does.\<close>

definition line_fields :: "jobj \<Rightarrow> jobj" where
  "line_fields info = opt_field ''level'' (map_of info ''level'') @ opt_field ''timestamp'' (map_of info ''timestamp'') @
     opt_field ''message'' (map_of info ''message'') @ entry_meta info @ if_given ''traceId'' info @ if_given ''spanId'' info"

definition log_line :: "jobj \<Rightarrow> string" where
  "log_line info = json_text (JObj (line_fields info))"

section \<open>Lemmas\<close>

text \<open>The line says of every property what the entry says, but for a trace or span id that is empty.\<close>

lemma map_of_opt_field [simp]: "map_of (opt_field k v) = (if v = None then Map.empty else [k \<mapsto> the v])"
  by (auto simp: opt_field_def split: option.split)

lemma map_of_entry_meta: "map_of (entry_meta info) k = (if List.member named k then None else map_of info k)"
  unfolding entry_meta_def by (induction info) auto

lemma map_of_if_given: "map_of (if_given k info) k' =
    (if k' = k \<and> (\<exists>v. map_of info k = Some v \<and> json_truthy v) then map_of info k else None)"
  by (auto simp: if_given_def split: option.split)

lemma line_keeps_fields:
  "map_of (line_fields info) k =
     (if (k = ''traceId'' \<or> k = ''spanId'') \<and> (\<exists>v. map_of info k = Some v \<and> \<not> json_truthy v) then None else map_of info k)"
  by (auto simp: line_fields_def map_add_def map_of_entry_meta map_of_if_given named_def split: option.split)

text \<open>The error entries have a file of their own, and every entry reaches the combined file.\<close>

lemma files_of_logger:
  "map ft_filename (filter (\<lambda>f. ft_level f = None) (ls_files (initializeLogger env))) = [''logs/combined.log'']"
  "ls_level (initializeLogger (\<lambda>_. None)) = ''info''"
  by (simp_all add: initializeLogger_def or_str_def)

end
