(* ===== verification/Spec2Isabelle.thy ===== *)
theory Spec2Isabelle
  imports Workflow_Monitoring Voice_Session Llm Audit_Log Db_Migration Rate_Limit Stellar_Monitor Queue_Processors Market_Data Ai_Module Voice_Gateway Voice_Jobs Workflow_Admin Campaign_Page Workflow_Builtin Observability Presence Http_Api Request_Validation Queue_Example
    Voice_Processing App_Startup Log_Output
begin

text \<open>
  FarmExc is a web application: a NestJS backend (src/Backend/src), a Next.js front end (src/Frontend/web/src) and Soroban
  contracts (src/Contracts). This development models the TypeScript code: every service and controller of the backend, its
  database schema, and the front end's campaign wizard. This theory only gathers the others; each of them opens with a description of its
  own.

  \<^bold>\<open>How a program is modelled.\<close> An asynchronous method is a value of type \<open>('s, 'a) prog\<close> (\<open>Farm_Prelude\<close>), a function from a
  store to an exception or a value and the store left behind; every throw of the source is a branch. \<open>bindE\<close>, \<open>catchE\<close>,
  \<open>mapE\<close> and \<open>forE\<close> are its sequencing, \<open>try\<close>, and loops over arrays; \<open>Promise.all\<close> runs its programs one after the other.
  Fields that a service or a handler keeps in memory are a second component of the store (\<open>liftL\<close>, \<open>getL\<close>, \<open>modL\<close>). Objects
  are records with the fields of the source, enums and unions are datatypes, plain objects used as maps are association lists
  in insertion order, dates are milliseconds. Integers are unbounded: the code computes with JavaScript numbers on counters,
  times and sizes far below the range where they round; averages, rates and amounts are exact rationals, and where a number
  may be \<open>NaN\<close> it is an option or a value of \<open>jsval\<close>.

  \<^bold>\<open>What is outside the repository\<close> is an argument, a record of functions, and what the code relies on is a locale with the
  documented behaviour as its laws. Each locale is interpreted on an in-memory instance, on which the witnesses run.
  \<^item> \<open>repo_table\<close> (\<open>Ext_Repository\<close>): a TypeORM repository as a table of rows with a primary key.
  \<^item> \<open>redis_store\<close> (\<open>Ext_Redis\<close>): the Redis commands on cells with a time to live; \<open>voice_store\<close>, \<open>stream_store\<close>,
    \<open>quota_store\<close>, \<open>llm_store\<close>, \<open>market_store\<close>, \<open>market_keys\<close> and \<open>throttle_store\<close> extend it with what their service adds
    (the clock, timers, the hash). \<open>window_store\<close> is the sorted sets, \<open>queue_store\<close> the lists and Bull's queues.
  \<^item> \<open>audit_store\<close>: the table of the audit log with its filters and pages; \<open>orm_types\<close>: the column types that the decorators of
    the entities stand for.
  \<^item> \<open>engine_env\<close>, \<open>engine_defs\<close>, \<open>auth_store\<close>, \<open>stellar_store\<close>, \<open>speech_store\<close>, \<open>processor\<close>: the tables of one component that
    do not overlap, clocks, timers, fresh identifiers, cryptography.
  \<^item> \<open>http_router\<close>, \<open>guard_runner\<close>, \<open>nest_library\<close>, \<open>validation_library\<close>, \<open>zod_library\<close>, \<open>persist_library\<close>: the framework's
    router, its order of guards, its module exports, its validators, the schema library and the store's persistence.
  Two locales are interfaces inside the repository: \<open>transition_table\<close> (\<open>State_Machine\<close>), interpreted on the two workflow tables
  and on the conversation table, and \<open>cache_map\<close> (\<open>Market_Cache\<close>), the map that the clients of the market cache see.

  \<^bold>\<open>Workflows\<close> (src/Backend/src/workflow). \<open>Workflow_Types\<close>: enums, entities and the state machine; \<open>Idempotency\<close>: the keys that
  start a workflow once; \<open>Workflow_Execution\<close>: starting, running with retries, retrying and cancelling; \<open>Workflow_Recovery\<close>:
  compensation and recovery; \<open>Workflow_Monitoring\<close>: metrics, timelines, the facade; \<open>Workflow_Admin\<close>: the operators' controller;
  \<open>Workflow_Builtin\<close>: the three workflows that the service registers. The lemmas follow a step through its attempts, show what
  a settled workflow leaves in the tables, that keys are injective up to nested objects, and that the two timelines agree. The
  number of attempts is a measure, so no fuel is needed.

  \<^bold>\<open>Authentication\<close> (src/Backend/src/auth, guards, throttle, audit). \<open>Auth_Services\<close>: nonces, wallets, tokens; \<open>Auth_Flow\<close>: the
  guards and the requests of the controller, with invariants over any sequence of them; \<open>Rate_Limit\<close>: the sliding window and
  the counters with bans; \<open>Audit_Log\<close>: what requests are written to the log and how the log is read page by page.

  \<^bold>\<open>Database schema.\<close> \<open>Db_Migration\<close>: the statements of the migration (src/Backend/src/database) run on an empty database and
  back, and the entities they are for: columns, indices, enumerations and foreign keys with their actions agree, and some tables
  are created by no migration.

  \<^bold>\<open>The assembled application.\<close> \<open>App_Modules\<close>: the module declarations, which modules are reached, and whether every
  constructor parameter resolves; \<open>Http_Routes\<close> and \<open>Http_Api\<close>: the controllers with the decorators of their handlers, and the
  guards that run before a handler; \<open>Request_Validation\<close>: the dto classes and the global validation pipe, composed with
  handlers of \<open>Auth_Flow\<close>, \<open>Stellar_Monitor\<close> and \<open>Market_Data\<close>; \<open>App_Startup\<close>: the order in which the server is started and
  what a signal does.

  \<^bold>\<open>Stellar monitor\<close> (src/Backend/src/stellar-monitor). \<open>Stellar_Storage\<close>: the tables of events and consumers;
  \<open>Webhook_Delivery\<close>: the delivery queue, its batches, retries and suspension, as steps that may interleave, and two requests for one address;
  \<open>Stellar_Monitor\<close>: the life of the streams and the controller.

  \<^bold>\<open>Queues\<close> (src/Backend/src/queue). \<open>Job_Queue\<close>: jobs and dead letters; \<open>Queue_Processors\<close>: the three processors;
  \<open>Queue_Example\<close>: the sample service and the health it computes.

  \<^bold>\<open>Market data\<close> (src/Backend/src/market-data). \<open>Market_Cache\<close>: the cache as a refinement of a map; \<open>Market_Data\<close>: its clients.

  \<^bold>\<open>Voice and AI\<close> (src/Backend/src/voice and ai). \<open>Voice_Session\<close>: sessions in Redis; \<open>Quota\<close> and \<open>Llm\<close>: counters, response
  cache and pipeline; \<open>Voice_Stream\<close>: answers sent word by word by timers; \<open>Voice_Gateway\<close>: the socket handlers;
  \<open>Voice_Jobs\<close>: speech jobs; \<open>Ai_Module\<close>: the provider with its circuit breaker; \<open>Voice_Processing\<close>: the sample
  service that joins sessions, quota and model. Pages of a Redis scan and the words of an
  answer are counted by an argument: \<open>scan_from\<close> says with \<open>None\<close> that the pages were not enough, and the theorems that need
  a result assume a store whose scan ends.

  \<^bold>\<open>Observability and presence\<close> (src/Backend/src/observability, websocket, health). \<open>Metrics\<close>: the declared metrics and their
  calls; \<open>Observability\<close>: traces and log entries; \<open>Log_Output\<close>: the logger and its lines; \<open>Presence\<close>: users online, rooms, checks.

  \<^bold>\<open>Front end\<close> (src/Frontend/web/src). \<open>Js_Value\<close>: values, dates and numbers as text; \<open>Campaign_Schema\<close>: the form's schemas;
  \<open>Campaign_Wizard\<close>: the store of the wizard, the events of its pages as a step relation, and what a reload brings back;
  \<open>Campaign_Forms\<close>: the controls of every form, compared with the schema of its page; \<open>Campaign_Review\<close>: the texts of the review
  or the error its rendering throws; \<open>Campaign_Page\<close>: the whole page of the wizard as a value.

  \<^bold>\<open>Not modelled.\<close> The contracts (Rust); styles, icons and help texts of the pages, and the user-interface building blocks,
  which only add styles; the pages that
  show fixed text; test files, the notes on the queue module and the settings of tools; opening and closing of connections, the text of log lines
  and of the Swagger documentation. A request or a handler of an event is one step, and programs inside one \<open>Promise.all\<close> do
  not interleave, except where a theory splits them at their waits: the batches and the overlapping requests of \<open>Webhook_Delivery\<close>, the
  timers of \<open>Voice_Stream\<close>, the requests in flight of \<open>Ai_Module\<close> and the two logins of \<open>Auth_Flow\<close>. Floating-point rounding is not modelled.
\<close>

end
